(* ===== verification/Prelude.thy ===== *)
theory Prelude
  imports
    Main
    "HOL-Library.Word"
    "HOL-Library.AList"
    "HOL-Library.State_Monad"
    "HOL-Library.Char_ord"
    "HOL-Library.List_Lexorder"
begin

text \<open>
  Shared vocabulary of the development: Go's error values and results, Go maps (with the
  difference between a nil and an empty map), 32-bit counters, the state monad in which the
  effectful code is written, and a small calculus for it: weakest preconditions, and the
  two ways in which the components state facts about the requests they send
  (\<open>emits\<close>: every new event satisfies a predicate; \<open>keeps\<close>: a predicate on the whole
  trace is preserved).
\<close>

section \<open>Proof collections\<close>

named_theorems emits_rules \<open>composition rules for facts about emitted events\<close>
named_theorems keeps_rules \<open>composition rules for facts about whole traces\<close>
named_theorems wp_simps \<open>weakest preconditions of the basic operations\<close>

section \<open>Errors and results\<close>

text \<open>
  A Go \<open>error\<close>: a Kubernetes status error whose reason is NotFound, any other error of the
  API server or of its client, an error built by the program itself, and a run-time panic,
  which the model returns as a value.
\<close>

datatype goerr = NotFound | ApiError string | Err string | Panic string

type_synonym 'a res = "goerr + 'a"

fun IsNotFound :: "goerr \<Rightarrow> bool" where
  "IsNotFound NotFound = True"
| "IsNotFound _ = False"

text \<open>\<open>client.IgnoreNotFound\<close>: nil (here \<open>None\<close>) for a NotFound error, else the error.\<close>

definition IgnoreNotFound :: "goerr \<Rightarrow> goerr option" where
  "IgnoreNotFound e = (if IsNotFound e then None else Some e)"

lemma IsNotFound_iff [simp]: "IsNotFound e \<longleftrightarrow> e = NotFound"
  by (cases e) auto

lemma IgnoreNotFound_simps [simp]:
  "IgnoreNotFound NotFound = None"
  "e \<noteq> NotFound \<Longrightarrow> IgnoreNotFound e = Some e"
  by (simp_all add: IgnoreNotFound_def)

text \<open>A loop that converts a list and returns at the first error.\<close>

fun mapR :: "('a \<Rightarrow> 'b res) \<Rightarrow> 'a list \<Rightarrow> 'b list res" where
  "mapR f [] = Inr []"
| "mapR f (x # xs) = (case f x of
     Inl e \<Rightarrow> Inl e
   | Inr y \<Rightarrow> (case mapR f xs of Inl e \<Rightarrow> Inl e | Inr ys \<Rightarrow> Inr (y # ys)))"

lemma mapR_Inr_iff: "mapR f xs = Inr ys \<longleftrightarrow> list_all2 (\<lambda>x y. f x = Inr y) xs ys"
proof (induction xs arbitrary: ys)
  case Nil
  then show ?case by auto
next
  case (Cons x xs)
  show ?case
    by (cases ys; cases "f x"; cases "mapR f xs") (simp_all flip: Cons.IH)
qed

lemma mapR_Inl: "mapR f xs = Inl e \<Longrightarrow> \<exists>x \<in> set xs. f x = Inl e"
  by (induction xs) (auto split: sum.splits)

lemma mapR_ok: "(\<And>x. x \<in> set xs \<Longrightarrow> f x = Inr (g x)) \<Longrightarrow> mapR f xs = Inr (map g xs)"
  by (induction xs) auto

lemma find_SomeD: "find P xs = Some x \<Longrightarrow> x \<in> set xs \<and> P x"
  by (induction xs) (auto split: if_splits)

section \<open>Go maps\<close>

text \<open>
  A Go map is nil (\<open>None\<close>) or a table of entries. Reading a nil map finds nothing, writing
  to it panics. The entry list keeps one entry per key; its order carries no meaning.
\<close>

type_synonym ('k, 'v) gomap = "('k \<times> 'v) list option"

definition gm_entries :: "('k, 'v) gomap \<Rightarrow> ('k \<times> 'v) list" where
  "gm_entries m = (case m of None \<Rightarrow> [] | Some xs \<Rightarrow> xs)"

definition gm_get :: "('k, 'v) gomap \<Rightarrow> 'k \<Rightarrow> 'v option" where
  "gm_get m k = map_of (gm_entries m) k"

text \<open>\<open>m[k]\<close> for a map of strings: the zero value when the key is absent.\<close>

definition gm_str :: "('k, string) gomap \<Rightarrow> 'k \<Rightarrow> string" where
  "gm_str m k = (case gm_get m k of None \<Rightarrow> [] | Some v \<Rightarrow> v)"

text \<open>\<open>if m == nil { m = make(map...) }\<close>\<close>

definition gm_make :: "('k, 'v) gomap \<Rightarrow> ('k, 'v) gomap" where
  "gm_make m = Some (gm_entries m)"

text \<open>\<open>m[k] = v\<close>: a write to a nil map is a run-time panic.\<close>

definition gm_put :: "'k \<Rightarrow> 'v \<Rightarrow> ('k, 'v) gomap \<Rightarrow> ('k, 'v) gomap res" where
  "gm_put k v m = (case m of
     None \<Rightarrow> Inl (Panic ''assignment to entry in nil map'')
   | Some xs \<Rightarrow> Inr (Some (AList.update k v xs)))"

text \<open>The write after the guard above, which cannot panic.\<close>

definition gm_set :: "'k \<Rightarrow> 'v \<Rightarrow> ('k, 'v) gomap \<Rightarrow> ('k, 'v) gomap" where
  "gm_set k v m = Some (AList.update k v (gm_entries m))"

definition gm_delete :: "'k \<Rightarrow> ('k, 'v) gomap \<Rightarrow> ('k, 'v) gomap" where
  "gm_delete k m = map_option (AList.delete k) m"

text \<open>\<open>maps.Copy(dst, src)\<close> into a non-nil destination: one write per entry of the source.\<close>

definition gm_copy :: "('k, 'v) gomap \<Rightarrow> ('k, 'v) gomap \<Rightarrow> ('k, 'v) gomap" where
  "gm_copy dst src = fold (\<lambda>(k, v). gm_set k v) (gm_entries src) (gm_make dst)"

definition gm_len :: "('k, 'v) gomap \<Rightarrow> nat" where
  "gm_len m = length (gm_entries m)"

definition gm_wf :: "('k, 'v) gomap \<Rightarrow> bool" where
  "gm_wf m = distinct (map fst (gm_entries m))"

lemma gm_entries_simps [simp]:
  "gm_entries None = []" "gm_entries (Some xs) = xs"
  by (simp_all add: gm_entries_def)

lemma gm_get_simps [simp]:
  "gm_get None k = None"
  "gm_get (Some xs) k = map_of xs k"
  by (simp_all add: gm_get_def)

lemma gm_make_get [simp]: "gm_get (gm_make m) = gm_get m"
  by (rule ext) (simp add: gm_make_def gm_get_def)

lemma gm_make_not_nil [simp]: "gm_make m \<noteq> None"
  by (simp add: gm_make_def)

lemma gm_make_wf [simp]: "gm_wf (gm_make m) = gm_wf m"
  by (simp add: gm_make_def gm_wf_def)

lemma gm_put_make [simp]: "gm_put k v (gm_make m) = Inr (gm_set k v m)"
  by (simp add: gm_put_def gm_make_def gm_set_def)

lemma gm_put_not_nil: "m \<noteq> None \<Longrightarrow> gm_put k v m = Inr (gm_set k v m)"
  by (auto simp: gm_put_def gm_set_def)

lemma gm_put_Inr_iff: "gm_put k v m = Inr m' \<longleftrightarrow> m \<noteq> None \<and> m' = gm_set k v m"
  by (auto simp: gm_put_def gm_set_def split: option.splits)

lemma gm_set_get [simp]: "gm_get (gm_set k v m) = (gm_get m)(k \<mapsto> v)"
  by (rule ext) (simp add: gm_set_def gm_get_def update_conv)

lemma gm_set_not_nil [simp]: "gm_set k v m \<noteq> None"
  by (simp add: gm_set_def)

lemma gm_set_wf [simp]: "gm_wf m \<Longrightarrow> gm_wf (gm_set k v m)"
  by (simp add: gm_wf_def gm_set_def distinct_update)

lemma gm_delete_get [simp]: "gm_get (gm_delete k m) = (gm_get m)(k := None)"
  by (cases m) (auto simp: gm_delete_def delete_conv fun_eq_iff)

lemma gm_delete_wf [simp]: "gm_wf m \<Longrightarrow> gm_wf (gm_delete k m)"
  by (cases m) (simp_all add: gm_delete_def gm_wf_def distinct_delete)

text \<open>A copy reads the source first and the destination otherwise.\<close>

lemma gm_get_fold_set:
  "distinct (map fst xs) \<Longrightarrow>
   gm_get (fold (\<lambda>(k, v). gm_set k v) xs m) = gm_get m ++ map_of xs"
proof (induction xs arbitrary: m)
  case Nil
  then show ?case by simp
next
  case (Cons x xs)
  obtain k v where x: "x = (k, v)" by (cases x)
  with Cons.prems have k: "map_of xs k = None" by (simp add: map_of_eq_None_iff)
  from Cons show ?case by (auto simp: x k map_add_def fun_eq_iff split: option.splits)
qed

lemma gm_wf_fold_set: "gm_wf m \<Longrightarrow> gm_wf (fold (\<lambda>(k, v). gm_set k v) xs m)"
  by (induction xs arbitrary: m) auto

lemma gm_copy_get: "gm_wf src \<Longrightarrow> gm_get (gm_copy dst src) = gm_get dst ++ gm_get src"
  by (cases src) (simp_all add: gm_copy_def gm_wf_def gm_get_fold_set fun_eq_iff map_add_def)

lemma gm_copy_wf: "gm_wf dst \<Longrightarrow> gm_wf (gm_copy dst src)"
  by (simp add: gm_copy_def gm_wf_fold_set)

section \<open>The interface of a string-keyed map\<close>

text \<open>
  What the clients of a Go map rely on. The laws are those of the language: a read after a
  write, and that a write keeps one entry per key.
\<close>

locale go_map =
  fixes get :: "'m \<Rightarrow> 'k \<Rightarrow> 'v option"
    and put :: "'k \<Rightarrow> 'v \<Rightarrow> 'm \<Rightarrow> 'm"
    and inv :: "'m \<Rightarrow> bool"
  assumes get_put: "get (put k v m) = (get m)(k \<mapsto> v)"
    and inv_put: "inv m \<Longrightarrow> inv (put k v m)"
begin

lemma get_put_same: "get (put k v m) k = Some v"
  by (simp add: get_put)

lemma get_put_other: "k' \<noteq> k \<Longrightarrow> get (put k v m) k' = get m k'"
  by (simp add: get_put)

lemma put_put_get: "get (put k v (put k v' m)) = get (put k v m)"
  by (simp add: get_put)

lemma dom_get_put: "dom (get (put k v m)) = insert k (dom (get m))"
  by (simp add: get_put)

end

interpretation gm: go_map gm_get gm_set gm_wf
  by unfold_locales simp_all

section \<open>Counters of 32 bits\<close>

type_synonym int32 = "32 word"

text \<open>Go's \<open>>\<close> on \<open>int32\<close> compares the signed readings.\<close>

definition gt32 :: "int32 \<Rightarrow> int32 \<Rightarrow> bool" where
  "gt32 a b = (sint a > sint b)"

lemma sint_word_of_int32:
  "- (2 ^ 31) \<le> i \<Longrightarrow> i < 2 ^ 31 \<Longrightarrow> sint (word_of_int i :: int32) = i"
  by (simp add: sint_sbintrunc' signed_take_bit_int_eq_self_iff)

text \<open>A sum of words, as long as the exact sum fits.\<close>

lemma word_of_int_sint_sum_list:
  "sum_list xs = (word_of_int (sum_list (map sint xs)) :: int32)"
  by (induction xs) simp_all

lemma sint_sum_list_exact:
  fixes xs :: "int32 list"
  assumes "- (2 ^ 31) \<le> sum_list (map sint xs)" "sum_list (map sint xs) < 2 ^ 31"
  shows "sint (sum_list xs) = sum_list (map sint xs)"
  using assms by (simp add: word_of_int_sint_sum_list sint_word_of_int32)

section \<open>Effects\<close>

text \<open>
  The program's effects are requests to the API server. A world holds the state of
  everything outside the program (of an arbitrary type \<open>'e\<close>: the program cannot look into
  it) and the requests sent so far with their outcomes. Code with effects is a
  \<^typ>\<open>('s, 'a) state\<close> computation over worlds.
\<close>

record ('e, 'v) world =
  w_env :: 'e
  w_trace :: "'v list"

type_synonym ('e, 'v, 'a) go = "(('e, 'v) world, 'a) state"

abbreviation ret :: "'a \<Rightarrow> ('s, 'a) state" where
  "ret \<equiv> State_Monad.return"

text \<open>One request: the outside answers and moves on, the event is recorded.\<close>

definition api_call :: "('e \<Rightarrow> 'r \<times> 'e) \<Rightarrow> ('r \<Rightarrow> 'v) \<Rightarrow> ('e, 'v, 'r) go" where
  "api_call f ev = State (\<lambda>w. case f (w_env w) of (r, e') \<Rightarrow>
     (r, w\<lparr>w_env := e', w_trace := w_trace w @ [ev r]\<rparr>))"

lemma run_api_call:
  "run_state (api_call f ev) w =
     (fst (f (w_env w)), w\<lparr>w_env := snd (f (w_env w)), w_trace := w_trace w @ [ev (fst (f (w_env w)))]\<rparr>)"
  by (simp add: api_call_def split: prod.split)

subsection \<open>Weakest preconditions\<close>

definition wp :: "('s, 'a) state \<Rightarrow> ('a \<Rightarrow> 's \<Rightarrow> bool) \<Rightarrow> 's \<Rightarrow> bool" where
  "wp m Q s = (case run_state m s of (a, s') \<Rightarrow> Q a s')"

lemma wp_return [wp_simps]: "wp (ret a) Q s = Q a s"
  by (simp add: wp_def)

lemma wp_bind [wp_simps]: "wp (State_Monad.bind m f) Q s = wp m (\<lambda>a. wp (f a) Q) s"
  by (simp add: wp_def split: prod.split)

lemma wp_mono: "wp m Q s \<Longrightarrow> (\<And>a s'. Q a s' \<Longrightarrow> R a s') \<Longrightarrow> wp m R s"
  by (auto simp: wp_def split: prod.splits)

lemma wpD: "wp m Q s \<Longrightarrow> run_state m s = (a, s') \<Longrightarrow> Q a s'"
  by (simp add: wp_def)

lemma wpI: "(\<And>a s'. run_state m s = (a, s') \<Longrightarrow> Q a s') \<Longrightarrow> wp m Q s"
  by (simp add: wp_def split: prod.split)

lemma wp_conj: "wp m Q s \<Longrightarrow> wp m R s \<Longrightarrow> wp m (\<lambda>a s'. Q a s' \<and> R a s') s"
  by (simp add: wp_def split: prod.splits)

subsection \<open>Emitted events\<close>

text \<open>Every event the computation appends to the trace satisfies \<open>p\<close>.\<close>

definition emits :: "('v \<Rightarrow> bool) \<Rightarrow> ('e, 'v, 'a) go \<Rightarrow> bool" where
  "emits p m = (\<forall>w. \<exists>es. w_trace (snd (run_state m w)) = w_trace w @ es \<and> list_all p es)"

lemma emitsD:
  "emits p m \<Longrightarrow> run_state m w = (a, w') \<Longrightarrow> \<exists>es. w_trace w' = w_trace w @ es \<and> list_all p es"
  unfolding emits_def by (metis snd_conv)

lemma emits_return [emits_rules]: "emits p (ret a)"
  by (simp add: emits_def)

lemma emits_bind [emits_rules]:
  assumes m: "emits p m" and f: "\<And>a. emits p (f a)"
  shows "emits p (State_Monad.bind m f)"
  unfolding emits_def
proof
  fix w
  obtain a w1 where 1: "run_state m w = (a, w1)" by (cases "run_state m w")
  obtain b w2 where 2: "run_state (f a) w1 = (b, w2)" by (cases "run_state (f a) w1")
  from emitsD [OF m 1] emitsD [OF f 2]
  show "\<exists>es. w_trace (snd (run_state (State_Monad.bind m f) w)) = w_trace w @ es \<and> list_all p es"
    by (auto simp: 1 2)
qed

text \<open>The same with what is known of the first result.\<close>

lemma emits_bind_run:
  fixes m :: "('e, 'v, 'a) go"
  assumes m: "emits p m" and f: "\<And>w a w'. run_state m w = (a, w') \<Longrightarrow> emits p (f a)"
  shows "emits p (State_Monad.bind m f)"
  unfolding emits_def
proof
  fix w
  obtain a w1 where 1: "run_state m w = (a, w1)" by (cases "run_state m w")
  obtain b w2 where 2: "run_state (f a) w1 = (b, w2)" by (cases "run_state (f a) w1")
  from emitsD [OF m 1] emitsD [OF f [OF 1] 2]
  show "\<exists>es. w_trace (snd (run_state (State_Monad.bind m f) w)) = w_trace w @ es \<and> list_all p es"
    by (auto simp: 1 2)
qed

lemma emits_api_call [emits_rules]: "(\<And>r. p (ev r)) \<Longrightarrow> emits p (api_call f ev)"
  by (simp add: emits_def run_api_call)

text \<open>Events stay in the trace.\<close>

lemma emits_mem: "emits p m \<Longrightarrow> v \<in> set (w_trace w) \<Longrightarrow> v \<in> set (w_trace (snd (run_state m w)))"
  unfolding emits_def by (metis UnCI set_append)

lemma emits_weaken: "emits p m \<Longrightarrow> (\<And>v. p v \<Longrightarrow> q v) \<Longrightarrow> emits q m"
  unfolding emits_def by (metis list.pred_mono_strong)

lemma emits_if [emits_rules]: "emits p m \<Longrightarrow> emits p n \<Longrightarrow> emits p (if b then m else n)"
  by simp

lemma emits_case_sum [emits_rules]:
  "(\<And>x. emits p (f x)) \<Longrightarrow> (\<And>y. emits p (g y)) \<Longrightarrow> emits p (case_sum f g r)"
  by (cases r) simp_all

lemma emits_case_option [emits_rules]:
  "emits p m \<Longrightarrow> (\<And>y. emits p (g y)) \<Longrightarrow> emits p (case_option m g r)"
  by (cases r) simp_all

lemma emits_case_prod [emits_rules]: "(\<And>x y. emits p (f x y)) \<Longrightarrow> emits p (case_prod f r)"
  by (cases r) simp

lemma emits_case_list [emits_rules]:
  "emits p m \<Longrightarrow> (\<And>x xs. emits p (g x xs)) \<Longrightarrow> emits p (case_list m g r)"
  by (cases r) simp_all

text \<open>A call followed by the check of its error: what it returned may be used after the check.\<close>

lemma emits_bind_res:
  fixes m :: "('e, 'v, 'r + 'a) go"
  assumes "emits p m" "\<And>e. emits p (f e)"
    and "\<And>w x w'. run_state m w = (Inr x, w') \<Longrightarrow> emits p (g x)"
  shows "emits p (State_Monad.bind m (case_sum f g))"
  using assms by (intro emits_bind_run) (auto split: sum.split)

lemma emits_let [emits_rules]: "(\<And>x. emits p (f x)) \<Longrightarrow> emits p (Let a f)"
  by (simp add: Let_def)

subsection \<open>Properties of the whole trace\<close>

definition keeps :: "('v list \<Rightarrow> bool) \<Rightarrow> ('e, 'v, 'a) go \<Rightarrow> bool" where
  "keeps P m = (\<forall>w. P (w_trace w) \<longrightarrow> P (w_trace (snd (run_state m w))))"

lemma keepsD: "keeps P m \<Longrightarrow> run_state m w = (a, w') \<Longrightarrow> P (w_trace w) \<Longrightarrow> P (w_trace w')"
  unfolding keeps_def by (metis snd_conv)

lemma keeps_return [keeps_rules]: "keeps P (ret a)"
  by (simp add: keeps_def)

lemma keeps_bind [keeps_rules]:
  fixes m :: "('e, 'v, 'a) go"
  assumes m: "keeps P m" and f: "\<And>a. keeps P (f a)"
  shows "keeps P (State_Monad.bind m f)"
  unfolding keeps_def
proof (intro allI impI)
  fix w :: "('e, 'v) world" assume "P (w_trace w)"
  obtain a w1 where 1: "run_state m w = (a, w1)" by (cases "run_state m w")
  obtain b w2 where 2: "run_state (f a) w1 = (b, w2)" by (cases "run_state (f a) w1")
  from keepsD [OF m 1 \<open>P (w_trace w)\<close>] have "P (w_trace w1)" .
  from keepsD [OF f 2 this] show "P (w_trace (snd (run_state (State_Monad.bind m f) w)))"
    by (simp add: 1 2)
qed

lemma keeps_if [keeps_rules]: "(b \<Longrightarrow> keeps P m) \<Longrightarrow> (\<not> b \<Longrightarrow> keeps P n) \<Longrightarrow> keeps P (if b then m else n)"
  by simp

lemma keeps_case_sum [keeps_rules]:
  "(\<And>x. keeps P (f x)) \<Longrightarrow> (\<And>y. keeps P (g y)) \<Longrightarrow> keeps P (case_sum f g r)"
  by (cases r) simp_all

lemma keeps_case_option [keeps_rules]:
  "keeps P m \<Longrightarrow> (\<And>y. keeps P (g y)) \<Longrightarrow> keeps P (case_option m g r)"
  by (cases r) simp_all

lemma keeps_case_prod [keeps_rules]: "(\<And>x y. keeps P (f x y)) \<Longrightarrow> keeps P (case_prod f r)"
  by (cases r) simp

lemma keeps_let [keeps_rules]: "(\<And>x. keeps P (f x)) \<Longrightarrow> keeps P (Let a f)"
  by (simp add: Let_def)

text \<open>
  A trace predicate that no event satisfying \<open>p\<close> can break is kept by every computation
  that emits only such events.
\<close>

lemma keeps_from_emits:
  fixes m :: "('e, 'v, 'a) go"
  assumes "emits p m" and step: "\<And>tr v. P tr \<Longrightarrow> p v \<Longrightarrow> P (tr @ [v])"
  shows "keeps P m"
proof -
  have ext: "P (tr @ es)" if "P tr" "list_all p es" for tr es
    using that by (induction es arbitrary: tr rule: rev_induct)
      (auto simp flip: append_assoc intro: step)
  show ?thesis
    unfolding keeps_def
  proof (intro allI impI)
    fix w :: "('e, 'v) world" assume "P (w_trace w)"
    with assms(1) ext show "P (w_trace (snd (run_state m w)))"
      unfolding emits_def by metis
  qed
qed

text \<open>
  In the trace, every event of the kind \<open>del\<close> directly follows one of the kind \<open>mark\<close>.
\<close>

definition preceded :: "('v \<Rightarrow> bool) \<Rightarrow> ('v \<Rightarrow> bool) \<Rightarrow> 'v list \<Rightarrow> bool" where
  "preceded mark del tr = (\<forall>xs v ys. tr = xs @ v # ys \<longrightarrow> del v \<longrightarrow> xs \<noteq> [] \<and> mark (last xs))"

lemma preceded_Nil [simp]: "preceded mark del []"
  by (simp add: preceded_def)

lemma preceded_snoc:
  "preceded mark del (tr @ [v]) \<longleftrightarrow> preceded mark del tr \<and> (del v \<longrightarrow> tr \<noteq> [] \<and> mark (last tr))"
proof
  assume a: "preceded mark del (tr @ [v])"
  have "preceded mark del tr"
    unfolding preceded_def
  proof (intro allI impI)
    fix xs u ys assume "tr = xs @ u # ys" "del u"
    then have "tr @ [v] = xs @ u # (ys @ [v])" by simp
    with a \<open>del u\<close> show "xs \<noteq> [] \<and> mark (last xs)"
      unfolding preceded_def by blast
  qed
  moreover have "del v \<longrightarrow> tr \<noteq> [] \<and> mark (last tr)"
    using a unfolding preceded_def by blast
  ultimately show "preceded mark del tr \<and> (del v \<longrightarrow> tr \<noteq> [] \<and> mark (last tr))" ..
next
  assume a: "preceded mark del tr \<and> (del v \<longrightarrow> tr \<noteq> [] \<and> mark (last tr))"
  show "preceded mark del (tr @ [v])"
    unfolding preceded_def
  proof (intro allI impI)
    fix xs u ys assume eq: "tr @ [v] = xs @ u # ys" and del: "del u"
    show "xs \<noteq> [] \<and> mark (last xs)"
    proof (cases ys rule: rev_cases)
      case Nil
      with eq a del show ?thesis by auto
    next
      case (snoc ys' y)
      with eq have "tr = xs @ u # ys'" by simp
      with a del show ?thesis unfolding preceded_def by blast
    qed
  qed
qed

lemma preceded_snocs:
  "preceded mark del (tr @ [a, b]) \<longleftrightarrow> preceded mark del (tr @ [a]) \<and> (del b \<longrightarrow> mark a)"
  "preceded mark del (tr @ [a, b, d]) \<longleftrightarrow> preceded mark del (tr @ [a, b]) \<and> (del d \<longrightarrow> mark b)"
  using preceded_snoc [of mark del "tr @ [a]" b] preceded_snoc [of mark del "tr @ [a, b]" d] by simp_all

lemma keeps_preceded: "emits (\<lambda>v. \<not> del v) m \<Longrightarrow> keeps (preceded mark del) m"
  by (rule keeps_from_emits [where p = "\<lambda>v. \<not> del v"]) (simp_all add: preceded_snoc)

end
