(* ===== verification/Kube_Types.thy ===== *)
theory Kube_Types
  imports Prelude
begin

text \<open>
  The Kubernetes, open-cluster-management, kubeslice and kubestash objects the operator reads
  and writes (\<open>src/vendor/k8s.io\<close>, \<open>open-cluster-management.io\<close>, \<open>github.com/kubeslice\<close>,
  \<open>kubestash.dev\<close>). A struct is a record with the fields the operator reads, writes or
  copies; a pointer is an option; a slice is a list; string-typed enums stay strings, since
  the operator converts arbitrary strings into them. Structs the operator only passes on
  from one object to another are declared types without structure.
\<close>

typedecl EphemeralContainer
typedecl PodSecurityContext
typedecl Affinity
typedecl Toleration
typedecl HostAlias
typedecl PodDNSConfig
typedecl PodReadinessGate
typedecl TopologySpreadConstraint
typedecl PodOS
typedecl ContainerPort
typedecl EnvFromSource
typedecl EnvVarSource
typedecl ResourceClaim
typedecl VolumeDevice
typedecl Probe
typedecl Lifecycle
typedecl SecurityContext
typedecl VolumeSource
typedecl Unstructured

type_synonym labels = "(string, string) gomap"
type_synonym resource_list = "(string, string) gomap"

section \<open>Metadata\<close>

record nsname =
  nn_Namespace :: string
  nn_Name :: string

record owner_reference =
  or_APIVersion :: string
  or_Kind :: string
  or_Name :: string
  or_UID :: string
  or_Controller :: "bool option"
  or_BlockOwnerDeletion :: "bool option"

record objmeta =
  om_Name :: string
  om_GenerateName :: string
  om_Namespace :: string
  om_UID :: string
  om_ResourceVersion :: string
  om_Generation :: int
  om_DeletionTimestamp :: "int option"
  om_Labels :: labels
  om_Annotations :: labels
  om_OwnerReferences :: "owner_reference list"
  om_Finalizers :: "string list"

text \<open>The zero value of the struct.\<close>

definition zero_meta :: objmeta where
  "zero_meta = \<lparr>om_Name = '''', om_GenerateName = '''', om_Namespace = '''', om_UID = '''',
     om_ResourceVersion = '''', om_Generation = 0, om_DeletionTimestamp = None,
     om_Labels = None, om_Annotations = None, om_OwnerReferences = [], om_Finalizers = []\<rparr>"

definition ObjectKeyFromMeta :: "objmeta \<Rightarrow> nsname" where
  "ObjectKeyFromMeta m = \<lparr>nn_Namespace = om_Namespace m, nn_Name = om_Name m\<rparr>"

text \<open>\<open>metav1.NewControllerRef\<close> of an owner, with the group version and kind spelled out.\<close>

definition NewControllerRef :: "objmeta \<Rightarrow> string \<Rightarrow> string \<Rightarrow> owner_reference" where
  "NewControllerRef owner apiVersion kind = \<lparr>or_APIVersion = apiVersion, or_Kind = kind,
     or_Name = om_Name owner, or_UID = om_UID owner,
     or_Controller = Some True, or_BlockOwnerDeletion = Some True\<rparr>"

section \<open>Pods\<close>

record env_var =
  ev_Name :: string
  ev_Value :: string
  ev_ValueFrom :: "EnvVarSource option"

record volume =
  vol_Name :: string
  vol_Source :: "VolumeSource option"

record volume_mount =
  vm_Name :: string
  vm_ReadOnly :: bool
  vm_RecursiveReadOnly :: "string option"
  vm_MountPath :: string
  vm_SubPath :: string
  vm_MountPropagation :: "string option"
  vm_SubPathExpr :: string

record resource_requirements =
  rr_Limits :: resource_list
  rr_Requests :: resource_list
  rr_Claims :: "ResourceClaim list"

record container =
  c_Name :: string
  c_Image :: string
  c_Command :: "string list"
  c_Args :: "string list"
  c_WorkingDir :: string
  c_Ports :: "ContainerPort list"
  c_EnvFrom :: "EnvFromSource list"
  c_Env :: "env_var list"
  c_Resources :: resource_requirements
  c_VolumeMounts :: "volume_mount list"
  c_VolumeDevices :: "VolumeDevice list"
  c_LivenessProbe :: "Probe option"
  c_ReadinessProbe :: "Probe option"
  c_StartupProbe :: "Probe option"
  c_Lifecycle :: "Lifecycle option"
  c_TerminationMessagePath :: string
  c_TerminationMessagePolicy :: string
  c_ImagePullPolicy :: string
  c_SecurityContext :: "SecurityContext option"
  c_Stdin :: bool
  c_StdinOnce :: bool
  c_TTY :: bool

record pod_spec =
  ps_Volumes :: "volume list"
  ps_InitContainers :: "container list"
  ps_Containers :: "container list"
  ps_EphemeralContainers :: "EphemeralContainer list"
  ps_RestartPolicy :: string
  ps_TerminationGracePeriodSeconds :: "int option"
  ps_ActiveDeadlineSeconds :: "int option"
  ps_DNSPolicy :: string
  ps_NodeSelector :: labels
  ps_ServiceAccountName :: string
  ps_DeprecatedServiceAccount :: string
  ps_AutomountServiceAccountToken :: "bool option"
  ps_NodeName :: string
  ps_HostNetwork :: bool
  ps_HostPID :: bool
  ps_HostIPC :: bool
  ps_ShareProcessNamespace :: "bool option"
  ps_SecurityContext :: "PodSecurityContext option"
  ps_ImagePullSecrets :: "string list"
  ps_Hostname :: string
  ps_Subdomain :: string
  ps_Affinity :: "Affinity option"
  ps_SchedulerName :: string
  ps_Tolerations :: "Toleration list"
  ps_HostAliases :: "HostAlias list"
  ps_PriorityClassName :: string
  ps_Priority :: "int32 option"
  ps_DNSConfig :: "PodDNSConfig option"
  ps_ReadinessGates :: "PodReadinessGate list"
  ps_RuntimeClassName :: "string option"
  ps_EnableServiceLinks :: "bool option"
  ps_PreemptionPolicy :: "string option"
  ps_Overhead :: resource_list
  ps_TopologySpreadConstraints :: "TopologySpreadConstraint list"
  ps_SetHostnameAsFQDN :: "bool option"
  ps_OS :: "PodOS option"
  ps_HostUsers :: "bool option"

definition zero_pod_spec :: pod_spec where
  "zero_pod_spec = \<lparr>ps_Volumes = [], ps_InitContainers = [], ps_Containers = [],
     ps_EphemeralContainers = [], ps_RestartPolicy = '''',
     ps_TerminationGracePeriodSeconds = None, ps_ActiveDeadlineSeconds = None,
     ps_DNSPolicy = '''', ps_NodeSelector = None, ps_ServiceAccountName = '''',
     ps_DeprecatedServiceAccount = '''', ps_AutomountServiceAccountToken = None,
     ps_NodeName = '''', ps_HostNetwork = False, ps_HostPID = False, ps_HostIPC = False,
     ps_ShareProcessNamespace = None, ps_SecurityContext = None, ps_ImagePullSecrets = [],
     ps_Hostname = '''', ps_Subdomain = '''', ps_Affinity = None, ps_SchedulerName = '''',
     ps_Tolerations = [], ps_HostAliases = [], ps_PriorityClassName = '''',
     ps_Priority = None, ps_DNSConfig = None, ps_ReadinessGates = [],
     ps_RuntimeClassName = None, ps_EnableServiceLinks = None, ps_PreemptionPolicy = None,
     ps_Overhead = None, ps_TopologySpreadConstraints = [], ps_SetHostnameAsFQDN = None,
     ps_OS = None, ps_HostUsers = None\<rparr>"

type_synonym PodPhase = string

abbreviation PodPending :: PodPhase where "PodPending \<equiv> ''Pending''"
abbreviation PodRunning :: PodPhase where "PodRunning \<equiv> ''Running''"
abbreviation PodSucceeded :: PodPhase where "PodSucceeded \<equiv> ''Succeeded''"
abbreviation PodFailed :: PodPhase where "PodFailed \<equiv> ''Failed''"
abbreviation PodUnknown :: PodPhase where "PodUnknown \<equiv> ''Unknown''"

abbreviation RestartPolicyAlways :: string where "RestartPolicyAlways \<equiv> ''Always''"
abbreviation RestartPolicyOnFailure :: string where "RestartPolicyOnFailure \<equiv> ''OnFailure''"
abbreviation RestartPolicyNever :: string where "RestartPolicyNever \<equiv> ''Never''"

text \<open>Of a container status only the restart counter and whether \<open>State.Running\<close> is set.\<close>

record container_status =
  cs_RestartCount :: int32
  cs_Running :: bool

record pod_condition =
  pc_Type :: string
  pc_Status :: string

record pod_status =
  pst_Phase :: PodPhase
  pst_PodIP :: string
  pst_Conditions :: "pod_condition list"
  pst_ContainerStatuses :: "container_status list"
  pst_InitContainerStatuses :: "container_status list"

definition zero_pod_status :: pod_status where
  "zero_pod_status = \<lparr>pst_Phase = '''', pst_PodIP = '''', pst_Conditions = [],
     pst_ContainerStatuses = [], pst_InitContainerStatuses = []\<rparr>"

record pod =
  p_APIVersion :: string
  p_Kind :: string
  p_Meta :: objmeta
  p_Spec :: pod_spec
  p_Status :: pod_status

definition zero_pod :: pod where
  "zero_pod = \<lparr>p_APIVersion = '''', p_Kind = '''', p_Meta = zero_meta, p_Spec = zero_pod_spec,
     p_Status = zero_pod_status\<rparr>"

section \<open>Label selectors\<close>

record label_requirement =
  lr_Key :: string
  lr_Operator :: string
  lr_Values :: "string list"

record label_selector =
  ls_MatchLabels :: labels
  ls_MatchExpressions :: "label_requirement list"

section \<open>ManifestWorks\<close>

record field_value =
  fv_Type :: string
  fv_Integer :: "int option"
  fv_String :: "string option"
  fv_Boolean :: "bool option"
  fv_JsonRaw :: "string option"

record feedback_value =
  fb_Name :: string
  fb_Value :: field_value

text \<open>
  A manifest is a \<open>runtime.RawExtension\<close>: bytes when read from the API server, an
  unstructured object when built by the operator.
\<close>

record manifest =
  mf_Raw :: string
  mf_Object :: "Unstructured option"

record resource_identifier =
  ri_Group :: string
  ri_Resource :: string
  ri_Name :: string
  ri_Namespace :: string

record json_path =
  jp_Name :: string
  jp_Path :: string

record feedback_rule =
  fr_Type :: string
  fr_JsonPaths :: "json_path list"

record ignore_field =
  if_Condition :: string
  if_JSONPaths :: "string list"

record server_side_apply =
  ssa_Force :: bool
  ssa_IgnoreFields :: "ignore_field list"

record update_strategy =
  us_Type :: string
  us_ServerSideApply :: "server_side_apply option"

record manifest_config =
  mc_ResourceIdentifier :: resource_identifier
  mc_FeedbackRules :: "feedback_rule list"
  mc_UpdateStrategy :: "update_strategy option"

record manifest_work_spec =
  mws_Manifests :: "manifest list"
  mws_ManifestConfigs :: "manifest_config list"

text \<open>
  Of \<open>Status.ResourceStatus.Manifests\<close> the operator reads only the feedback values of each
  manifest.
\<close>

record manifest_work =
  mw_Meta :: objmeta
  mw_Spec :: manifest_work_spec
  mw_StatusManifests :: "feedback_value list list"

section \<open>Secrets, ServiceExports and namespaces\<close>

record secret =
  sec_Meta :: objmeta
  sec_Data :: "(string, string) gomap"

record service_port =
  sp_Name :: string
  sp_ContainerPort :: int32
  sp_Protocol :: string

record service_export =
  se_Meta :: objmeta
  se_Slice :: string
  se_Selector :: "label_selector option"
  se_Ports :: "service_port list"
  se_Aliases :: "string list"

section \<open>Snapshots\<close>

record log_entry =
  lg_Start :: "string option"
  lg_End :: "string option"
  lg_Error :: string

record log_stats =
  lst_Start :: "string option"
  lst_End :: "string option"
  lst_TotalFailedCount :: "64 word"
  lst_LastFailedStats :: "log_entry list"
  lst_TotalSucceededCount :: "64 word"
  lst_LastSucceededStats :: "log_entry list"

record component =
  cmp_Path :: string
  cmp_Phase :: string
  cmp_Error :: string
  cmp_LogStats :: "log_stats option"

definition zero_component :: component where
  "zero_component = \<lparr>cmp_Path = '''', cmp_Phase = '''', cmp_Error = '''', cmp_LogStats = None\<rparr>"

record snapshot =
  sn_Meta :: objmeta
  sn_TotalComponents :: int32
  sn_Components :: "(string, component) gomap"

end
