(* ===== verification/Sidekick_Types.thy ===== *)
theory Sidekick_Types
  imports Kube_Types
begin

text \<open>
  The Sidekick resource (\<open>src/apis/apps/v1alpha1/sidekick_types.go\<close>): its spec, its
  containers and mounts, its status, and the constants of its phases and leader policies.
\<close>

type_synonym LeaderSelectionPolicy = string

abbreviation PodSelectionPolicyFirst :: LeaderSelectionPolicy where
  "PodSelectionPolicyFirst \<equiv> ''First''"
abbreviation PodSelectionPolicyLast :: LeaderSelectionPolicy where
  "PodSelectionPolicyLast \<equiv> ''Last''"

type_synonym SideKickPhase = string

abbreviation SideKickPhaseCurrent :: SideKickPhase where "SideKickPhaseCurrent \<equiv> ''Current''"
abbreviation SideKickPhaseFailed :: SideKickPhase where "SideKickPhaseFailed \<equiv> ''Failed''"
abbreviation SidekickPhaseSucceeded :: SideKickPhase where "SidekickPhaseSucceeded \<equiv> ''Succeeded''"
abbreviation SideKickPhasePending :: SideKickPhase where "SideKickPhasePending \<equiv> ''Pending''"
abbreviation SideKickPhaseDegraded :: SideKickPhase where "SideKickPhaseDegraded \<equiv> ''Degraded''"

record leader_spec =
  ld_Name :: string
  ld_Selector :: "label_selector option"
  ld_SelectionPolicy :: LeaderSelectionPolicy

text \<open>The Sidekick's own volume mount: its mount path may be empty (to copy the leader's).\<close>

record sk_volume_mount =
  svm_Name :: string
  svm_ReadOnly :: bool
  svm_MountPath :: string
  svm_SubPath :: string
  svm_MountPropagation :: "string option"
  svm_SubPathExpr :: string

record sk_container =
  sc_Name :: string
  sc_Image :: string
  sc_Command :: "string list"
  sc_Args :: "string list"
  sc_WorkingDir :: string
  sc_Ports :: "ContainerPort list"
  sc_EnvFrom :: "EnvFromSource list"
  sc_Env :: "env_var list"
  sc_Resources :: resource_requirements
  sc_VolumeMounts :: "sk_volume_mount list"
  sc_VolumeDevices :: "VolumeDevice list"
  sc_LivenessProbe :: "Probe option"
  sc_ReadinessProbe :: "Probe option"
  sc_StartupProbe :: "Probe option"
  sc_Lifecycle :: "Lifecycle option"
  sc_TerminationMessagePath :: string
  sc_TerminationMessagePolicy :: string
  sc_ImagePullPolicy :: string
  sc_SecurityContext :: "SecurityContext option"
  sc_Stdin :: bool
  sc_StdinOnce :: bool
  sc_TTY :: bool

definition zero_sk_container :: sk_container where
  "zero_sk_container = \<lparr>sc_Name = '''', sc_Image = '''', sc_Command = [], sc_Args = [],
     sc_WorkingDir = '''', sc_Ports = [], sc_EnvFrom = [], sc_Env = [],
     sc_Resources = \<lparr>rr_Limits = None, rr_Requests = None, rr_Claims = []\<rparr>,
     sc_VolumeMounts = [], sc_VolumeDevices = [], sc_LivenessProbe = None,
     sc_ReadinessProbe = None, sc_StartupProbe = None, sc_Lifecycle = None,
     sc_TerminationMessagePath = '''', sc_TerminationMessagePolicy = '''',
     sc_ImagePullPolicy = '''', sc_SecurityContext = None, sc_Stdin = False,
     sc_StdinOnce = False, sc_TTY = False\<rparr>"

record sidekick_spec =
  ss_Leader :: leader_spec
  ss_InitContainers :: "sk_container list"
  ss_Containers :: "sk_container list"
  ss_EphemeralContainers :: "EphemeralContainer list"
  ss_RestartPolicy :: string
  ss_BackoffLimit :: "int32 option"
  ss_TerminationGracePeriodSeconds :: "int option"
  ss_ActiveDeadlineSeconds :: "int option"
  ss_DNSPolicy :: string
  ss_NodeSelector :: labels
  ss_ServiceAccountName :: string
  ss_DeprecatedServiceAccount :: string
  ss_AutomountServiceAccountToken :: "bool option"
  ss_NodeName :: string
  ss_HostNetwork :: bool
  ss_HostPID :: bool
  ss_HostIPC :: bool
  ss_ShareProcessNamespace :: "bool option"
  ss_SecurityContext :: "PodSecurityContext option"
  ss_ImagePullSecrets :: "string list"
  ss_Hostname :: string
  ss_Subdomain :: string
  ss_Affinity :: "Affinity option"
  ss_SchedulerName :: string
  ss_Tolerations :: "Toleration list"
  ss_HostAliases :: "HostAlias list"
  ss_PriorityClassName :: string
  ss_Priority :: "int32 option"
  ss_DNSConfig :: "PodDNSConfig option"
  ss_ReadinessGates :: "PodReadinessGate list"
  ss_RuntimeClassName :: "string option"
  ss_EnableServiceLinks :: "bool option"
  ss_PreemptionPolicy :: "string option"
  ss_Overhead :: resource_list
  ss_TopologySpreadConstraints :: "TopologySpreadConstraint list"
  ss_SetHostnameAsFQDN :: "bool option"
  ss_OS :: "PodOS option"
  ss_HostUsers :: "bool option"
  ss_Volumes :: "volume list"
  ss_Distributed :: bool
  ss_ExtraArgs :: "(string, string) gomap"

definition zero_sidekick_spec :: sidekick_spec where
  "zero_sidekick_spec = \<lparr>
     ss_Leader = \<lparr>ld_Name = '''', ld_Selector = None, ld_SelectionPolicy = ''''\<rparr>,
     ss_InitContainers = [], ss_Containers = [], ss_EphemeralContainers = [],
     ss_RestartPolicy = '''', ss_BackoffLimit = None,
     ss_TerminationGracePeriodSeconds = None, ss_ActiveDeadlineSeconds = None,
     ss_DNSPolicy = '''', ss_NodeSelector = None, ss_ServiceAccountName = '''',
     ss_DeprecatedServiceAccount = '''', ss_AutomountServiceAccountToken = None,
     ss_NodeName = '''', ss_HostNetwork = False, ss_HostPID = False, ss_HostIPC = False,
     ss_ShareProcessNamespace = None, ss_SecurityContext = None, ss_ImagePullSecrets = [],
     ss_Hostname = '''', ss_Subdomain = '''', ss_Affinity = None, ss_SchedulerName = '''',
     ss_Tolerations = [], ss_HostAliases = [], ss_PriorityClassName = '''',
     ss_Priority = None, ss_DNSConfig = None, ss_ReadinessGates = [],
     ss_RuntimeClassName = None, ss_EnableServiceLinks = None, ss_PreemptionPolicy = None,
     ss_Overhead = None, ss_TopologySpreadConstraints = [], ss_SetHostnameAsFQDN = None,
     ss_OS = None, ss_HostUsers = None, ss_Volumes = [], ss_Distributed = False,
     ss_ExtraArgs = None\<rparr>"

record leader_status =
  lds_Name :: string

record condition =
  cond_Type :: string
  cond_Status :: string

record sidekick_status =
  st_Leader :: leader_status
  st_Pod :: PodPhase
  st_Phase :: SideKickPhase
  st_ObservedGeneration :: int
  st_Conditions :: "condition list"
  st_ContainerRestartCountsPerPod :: "(string, int32) gomap"
  st_FailureCount :: "(string, bool) gomap"

definition zero_sidekick_status :: sidekick_status where
  "zero_sidekick_status = \<lparr>st_Leader = \<lparr>lds_Name = ''''\<rparr>, st_Pod = '''', st_Phase = '''',
     st_ObservedGeneration = 0, st_Conditions = [],
     st_ContainerRestartCountsPerPod = None, st_FailureCount = None\<rparr>"

record sidekick =
  sk_Meta :: objmeta
  sk_Spec :: sidekick_spec
  sk_Status :: sidekick_status

abbreviation sk_Name :: "sidekick \<Rightarrow> string" where "sk_Name sk \<equiv> om_Name (sk_Meta sk)"
abbreviation sk_Namespace :: "sidekick \<Rightarrow> string" where "sk_Namespace sk \<equiv> om_Namespace (sk_Meta sk)"
abbreviation sk_Deleting :: "sidekick \<Rightarrow> bool" where
  "sk_Deleting sk \<equiv> om_DeletionTimestamp (sk_Meta sk) \<noteq> None"
abbreviation p_Name :: "pod \<Rightarrow> string" where "p_Name p \<equiv> om_Name (p_Meta p)"
abbreviation p_UID :: "pod \<Rightarrow> string" where "p_UID p \<equiv> om_UID (p_Meta p)"
abbreviation p_Phase :: "pod \<Rightarrow> PodPhase" where "p_Phase p \<equiv> pst_Phase (p_Status p)"
abbreviation p_NodeName :: "pod \<Rightarrow> string" where "p_NodeName p \<equiv> ps_NodeName (p_Spec p)"
abbreviation p_Deleting :: "pod \<Rightarrow> bool" where
  "p_Deleting p \<equiv> om_DeletionTimestamp (p_Meta p) \<noteq> None"

text \<open>Group and version of the resource (\<open>groupversion_info.go\<close>, \<open>apis/apps/register.go\<close>).\<close>

definition GroupName :: string where "GroupName = ''apps.k8s.appscode.com''"

definition SchemeGroupVersion :: string where "SchemeGroupVersion = GroupName @ ''/v1alpha1''"

text \<open>\<open>schema.GroupVersionResource\<close>.\<close>

record group_version_resource =
  gvr_Group :: string
  gvr_Version :: string
  gvr_Resource :: string

end
