(* ===== verification/Kube_Client.thy ===== *)
theory Kube_Client
  imports Sidekick_Types
begin

text \<open>
  The client side of the API server. The server itself, the client's cache and everybody
  else who changes the cluster are one parameter: a record of operations over an arbitrary
  state \<open>'e\<close>, which may answer any request with any object or error. On top of it stand the
  helpers of \<open>src/vendor/kmodules.xyz/client-go\<close> the operator goes through:
  \<open>CreateOrPatch\<close>, \<open>PatchStatus\<close>, the finalizer functions and \<open>GenerationHash\<close>. Every
  request is recorded as an event with its outcome, so that facts about what the operator
  asks of the cluster hold for every behaviour of the cluster.
\<close>

section \<open>Requests, events and the client\<close>

datatype 'o req =
    RGet nsname
  | RCreate 'o
  | RPatch 'o 'o
  | RDelete nsname
  | RStatusPatch 'o 'o
  | RStatusUpdate 'o

text \<open>
  An event is a request to one of the kinds, or a list call; the flag tells success. Three
  further effects are events of their own: reading random bytes, reading the clock, and
  starting the gRPC server.
\<close>

datatype event =
    EvPod "pod req" bool
  | EvSidekick "sidekick req" bool
  | EvMW "manifest_work req" bool
  | EvSecret "secret req" bool
  | EvExport "service_export req" bool
  | EvSnapshot "snapshot req" bool
  | EvListPods string "label_selector option" bool
  | EvListSidekicks "string option" bool
  | EvListNamespaces bool
  | EvOCMGet nsname bool
  | EvOCMList string string bool
  | EvRandom nat bool
  | EvNow
  | EvServe

text \<open>
  The operations on one kind. \<open>o_patch cur mod\<close> sends the difference between the object
  read and the object wanted; the object it returns is the server's answer decoded into
  the caller's copy. \<open>o_objectHash\<close> is \<open>meta.ObjectHash\<close>, a hash of the whole object.
\<close>

record ('e, 'o) ops =
  o_get :: "nsname \<Rightarrow> 'e \<Rightarrow> 'o res \<times> 'e"
  o_create :: "'o \<Rightarrow> 'e \<Rightarrow> 'o res \<times> 'e"
  o_patch :: "'o \<Rightarrow> 'o \<Rightarrow> 'e \<Rightarrow> 'o res \<times> 'e"
  o_delete :: "nsname \<Rightarrow> 'e \<Rightarrow> unit res \<times> 'e"
  o_status_patch :: "'o \<Rightarrow> 'o \<Rightarrow> 'e \<Rightarrow> 'o res \<times> 'e"
  o_status_update :: "'o \<Rightarrow> 'e \<Rightarrow> 'o res \<times> 'e"
  o_objectHash :: "'o \<Rightarrow> string"

record 'e kube =
  k_pods :: "('e, pod) ops"
  k_sidekicks :: "('e, sidekick) ops"
  k_mws :: "('e, manifest_work) ops"
  k_secrets :: "('e, secret) ops"
  k_exports :: "('e, service_export) ops"
  k_snapshots :: "('e, snapshot) ops"
  k_listPods :: "string \<Rightarrow> label_selector option \<Rightarrow> 'e \<Rightarrow> pod list res \<times> 'e"
  k_listSidekicks :: "string option \<Rightarrow> 'e \<Rightarrow> sidekick list res \<times> 'e"
  k_listNamespaces :: "'e \<Rightarrow> string list res \<times> 'e"
  k_ocmGet :: "string \<Rightarrow> string \<Rightarrow> 'e \<Rightarrow> manifest_work res \<times> 'e"
  k_ocmList :: "string \<Rightarrow> string \<Rightarrow> 'e \<Rightarrow> manifest_work list res \<times> 'e"
  k_rand :: "nat \<Rightarrow> 'e \<Rightarrow> string res \<times> 'e"
  k_now :: "'e \<Rightarrow> int \<times> 'e"

text \<open>What the generic helpers need to know of a kind: its metadata and its events.\<close>

record 'o kind =
  kd_meta :: "'o \<Rightarrow> objmeta"
  kd_setMeta :: "objmeta \<Rightarrow> 'o \<Rightarrow> 'o"
  kd_event :: "'o req \<Rightarrow> bool \<Rightarrow> event"

definition pod_kind :: "pod kind" where
  "pod_kind = \<lparr>kd_meta = p_Meta, kd_setMeta = (\<lambda>m x. x\<lparr>p_Meta := m\<rparr>), kd_event = EvPod\<rparr>"

definition sidekick_kind :: "sidekick kind" where
  "sidekick_kind = \<lparr>kd_meta = sk_Meta, kd_setMeta = (\<lambda>m x. x\<lparr>sk_Meta := m\<rparr>), kd_event = EvSidekick\<rparr>"

definition mw_kind :: "manifest_work kind" where
  "mw_kind = \<lparr>kd_meta = mw_Meta, kd_setMeta = (\<lambda>m x. x\<lparr>mw_Meta := m\<rparr>), kd_event = EvMW\<rparr>"

definition secret_kind :: "secret kind" where
  "secret_kind = \<lparr>kd_meta = sec_Meta, kd_setMeta = (\<lambda>m x. x\<lparr>sec_Meta := m\<rparr>), kd_event = EvSecret\<rparr>"

definition export_kind :: "service_export kind" where
  "export_kind = \<lparr>kd_meta = se_Meta, kd_setMeta = (\<lambda>m x. x\<lparr>se_Meta := m\<rparr>), kd_event = EvExport\<rparr>"

definition snapshot_kind :: "snapshot kind" where
  "snapshot_kind = \<lparr>kd_meta = sn_Meta, kd_setMeta = (\<lambda>m x. x\<lparr>sn_Meta := m\<rparr>), kd_event = EvSnapshot\<rparr>"

lemmas kind_defs = pod_kind_def sidekick_kind_def mw_kind_def secret_kind_def export_kind_def
  snapshot_kind_def

lemma kd_meta_simps [simp]:
  "kd_meta pod_kind = p_Meta" "kd_meta sidekick_kind = sk_Meta" "kd_meta mw_kind = mw_Meta"
  "kd_meta secret_kind = sec_Meta" "kd_meta export_kind = se_Meta" "kd_meta snapshot_kind = sn_Meta"
  by (simp_all add: kind_defs)

lemma kd_event_simps [simp]:
  "kd_event pod_kind = EvPod" "kd_event sidekick_kind = EvSidekick" "kd_event mw_kind = EvMW"
  "kd_event secret_kind = EvSecret" "kd_event export_kind = EvExport"
  "kd_event snapshot_kind = EvSnapshot"
  by (simp_all add: kind_defs)

lemma kd_setMeta_simps [simp]:
  "kd_setMeta pod_kind m = p_Meta_update (\<lambda>_. m)"
  "kd_setMeta sidekick_kind m = sk_Meta_update (\<lambda>_. m)"
  "kd_setMeta mw_kind m = mw_Meta_update (\<lambda>_. m)"
  "kd_setMeta secret_kind m = sec_Meta_update (\<lambda>_. m)"
  "kd_setMeta export_kind m = se_Meta_update (\<lambda>_. m)"
  "kd_setMeta snapshot_kind m = sn_Meta_update (\<lambda>_. m)"
  by (simp_all add: kind_defs fun_eq_iff)

definition ok :: "'a res \<Rightarrow> bool" where
  "ok r = (case r of Inl _ \<Rightarrow> False | Inr _ \<Rightarrow> True)"

lemma ok_simps [simp]: "ok (Inl e) = False" "ok (Inr x) = True"
  by (simp_all add: ok_def)

section \<open>The calls of \<open>client.Client\<close>\<close>

definition kGet :: "'o kind \<Rightarrow> ('e, 'o) ops \<Rightarrow> nsname \<Rightarrow> ('e, event, 'o res) go" where
  "kGet K api key = api_call (o_get api key) (\<lambda>r. kd_event K (RGet key) (ok r))"

definition kCreate :: "'o kind \<Rightarrow> ('e, 'o) ops \<Rightarrow> 'o \<Rightarrow> ('e, event, 'o res) go" where
  "kCreate K api obj = api_call (o_create api obj) (\<lambda>r. kd_event K (RCreate obj) (ok r))"

definition kPatch :: "'o kind \<Rightarrow> ('e, 'o) ops \<Rightarrow> 'o \<Rightarrow> 'o \<Rightarrow> ('e, event, 'o res) go" where
  "kPatch K api cur obj = api_call (o_patch api cur obj) (\<lambda>r. kd_event K (RPatch cur obj) (ok r))"

definition kDelete :: "'o kind \<Rightarrow> ('e, 'o) ops \<Rightarrow> nsname \<Rightarrow> ('e, event, unit res) go" where
  "kDelete K api key = api_call (o_delete api key) (\<lambda>r. kd_event K (RDelete key) (ok r))"

definition kStatusPatch :: "'o kind \<Rightarrow> ('e, 'o) ops \<Rightarrow> 'o \<Rightarrow> 'o \<Rightarrow> ('e, event, 'o res) go" where
  "kStatusPatch K api cur obj =
     api_call (o_status_patch api cur obj) (\<lambda>r. kd_event K (RStatusPatch cur obj) (ok r))"

definition kStatusUpdate :: "'o kind \<Rightarrow> ('e, 'o) ops \<Rightarrow> 'o \<Rightarrow> ('e, event, 'o res) go" where
  "kStatusUpdate K api obj =
     api_call (o_status_update api obj) (\<lambda>r. kd_event K (RStatusUpdate obj) (ok r))"

definition listPods :: "'e kube \<Rightarrow> string \<Rightarrow> label_selector option \<Rightarrow> ('e, event, pod list res) go" where
  "listPods c ns sel = api_call (k_listPods c ns sel) (\<lambda>r. EvListPods ns sel (ok r))"

definition listNamespaces :: "'e kube \<Rightarrow> ('e, event, string list res) go" where
  "listNamespaces c = api_call (k_listNamespaces c) (\<lambda>r. EvListNamespaces (ok r))"

definition ocmGet :: "'e kube \<Rightarrow> string \<Rightarrow> string \<Rightarrow> ('e, event, manifest_work res) go" where
  "ocmGet c ns name = api_call (k_ocmGet c ns name)
     (\<lambda>r. EvOCMGet \<lparr>nn_Namespace = ns, nn_Name = name\<rparr> (ok r))"

definition ocmList :: "'e kube \<Rightarrow> string \<Rightarrow> string \<Rightarrow> ('e, event, manifest_work list res) go" where
  "ocmList c ns sel = api_call (k_ocmList c ns sel) (\<lambda>r. EvOCMList ns sel (ok r))"

definition listSidekicks :: "'e kube \<Rightarrow> string option \<Rightarrow> ('e, event, sidekick list res) go" where
  "listSidekicks c ns = api_call (k_listSidekicks c ns) (\<lambda>r. EvListSidekicks ns (ok r))"

text \<open>
  \<open>rand.Read\<close> into a buffer of \<open>n\<close> bytes, the current time in seconds, and the start of the
  server goroutine.
\<close>

definition readRandom :: "'e kube \<Rightarrow> nat \<Rightarrow> ('e, event, string res) go" where
  "readRandom c n = do {
     r \<leftarrow> api_call (k_rand c n) (\<lambda>r. EvRandom n (ok r));
     (case r of
        Inl e \<Rightarrow> ret (Inl e)
      | Inr bs \<Rightarrow> ret (Inr (take n (bs @ replicate n (CHR 0x00)))))
   }"

definition timeNow :: "'e kube \<Rightarrow> ('e, event, int) go" where
  "timeNow c = api_call (k_now c) (\<lambda>_. EvNow)"

definition goServe :: "('e, event, unit) go" where
  "goServe = api_call (\<lambda>e. ((), e)) (\<lambda>_. EvServe)"

lemmas call_defs = kGet_def kCreate_def kPatch_def kDelete_def kStatusPatch_def kStatusUpdate_def
  listPods_def listNamespaces_def ocmGet_def ocmList_def listSidekicks_def timeNow_def goServe_def

lemma emits_kGet [emits_rules]: "(\<And>b. p (kd_event K (RGet key) b)) \<Longrightarrow> emits p (kGet K api key)"
  by (simp add: call_defs emits_api_call)

lemma emits_kCreate [emits_rules]: "(\<And>b. p (kd_event K (RCreate x) b)) \<Longrightarrow> emits p (kCreate K api x)"
  by (simp add: call_defs emits_api_call)

lemma emits_kPatch [emits_rules]: "(\<And>b. p (kd_event K (RPatch x y) b)) \<Longrightarrow> emits p (kPatch K api x y)"
  by (simp add: call_defs emits_api_call)

lemma emits_kDelete [emits_rules]: "(\<And>b. p (kd_event K (RDelete k) b)) \<Longrightarrow> emits p (kDelete K api k)"
  by (simp add: call_defs emits_api_call)

lemma emits_kStatusPatch [emits_rules]:
  "(\<And>b. p (kd_event K (RStatusPatch x y) b)) \<Longrightarrow> emits p (kStatusPatch K api x y)"
  by (simp add: call_defs emits_api_call)

lemma emits_kStatusUpdate [emits_rules]:
  "(\<And>b. p (kd_event K (RStatusUpdate x) b)) \<Longrightarrow> emits p (kStatusUpdate K api x)"
  by (simp add: call_defs emits_api_call)

lemma emits_lists [emits_rules]:
  "(\<And>b. p (EvListPods ns sel b)) \<Longrightarrow> emits p (listPods c ns sel)"
  "(\<And>b. p (EvListNamespaces b)) \<Longrightarrow> emits p (listNamespaces c)"
  "(\<And>b. p (EvOCMGet \<lparr>nn_Namespace = ns, nn_Name = name\<rparr> b)) \<Longrightarrow> emits p (ocmGet c ns name)"
  "(\<And>b. p (EvOCMList ns lsel b)) \<Longrightarrow> emits p (ocmList c ns lsel)"
  "(\<And>b. p (EvListSidekicks ons b)) \<Longrightarrow> emits p (listSidekicks c ons)"
  by (simp_all add: call_defs emits_api_call)

lemma readRandom_length: "run_state (readRandom c n) w = (Inr bs, w') \<Longrightarrow> length bs = n"
  by (auto simp: readRandom_def run_api_call split: sum.splits)

lemma emits_timeNow [emits_rules]: "p EvNow \<Longrightarrow> emits p (timeNow c)"
  by (simp add: call_defs emits_api_call)

lemma emits_goServe [emits_rules]: "p EvServe \<Longrightarrow> emits p goServe"
  by (simp add: call_defs emits_api_call)

lemma emits_readRandom [emits_rules]: "(\<And>b. p (EvRandom n b)) \<Longrightarrow> emits p (readRandom c n)"
  unfolding readRandom_def by (intro emits_rules)

section \<open>\<open>CreateOrPatch\<close> and \<open>PatchStatus\<close>\<close>

datatype VerbType = VerbUnchanged | VerbCreated | VerbPatched

text \<open>
  The result is the verb and the object as \<open>assign(obj, mod)\<close> leaves it in the caller's
  variable; after an error the caller's variable is as before. The lookup of the object's
  group and kind in the scheme is left out: it does not depend on the object's content.
\<close>

definition CreateOrPatch ::
    "'o kind \<Rightarrow> ('e, 'o) ops \<Rightarrow> 'o \<Rightarrow> ('o \<Rightarrow> bool \<Rightarrow> 'o) \<Rightarrow> ('e, event, (VerbType \<times> 'o) res) go" where
  "CreateOrPatch K api obj transform = do {
     r \<leftarrow> kGet K api (ObjectKeyFromMeta (kd_meta K obj));
     (case r of
        Inl e \<Rightarrow>
          if IsNotFound e then do {
            let md = transform obj True;
            r2 \<leftarrow> kCreate K api (kd_setMeta K ((kd_meta K md)\<lparr>om_ResourceVersion := ''''\<rparr>) md);
            (case r2 of
               Inl e2 \<Rightarrow> ret (Inl e2)
             | Inr md' \<Rightarrow> ret (Inr (VerbCreated, md')))
          }
          else ret (Inl e)
      | Inr cur \<Rightarrow> do {
          r2 \<leftarrow> kPatch K api cur (transform cur False);
          (case r2 of
             Inl e2 \<Rightarrow> ret (Inl e2)
           | Inr md' \<Rightarrow>
               ret (Inr (if om_Generation (kd_meta K md') > 0
                         then (if om_Generation (kd_meta K cur) \<noteq> om_Generation (kd_meta K md')
                               then VerbPatched else VerbUnchanged)
                         else (if o_objectHash api cur \<noteq> o_objectHash api md'
                               then VerbPatched else VerbUnchanged), md')))
        })
   }"

definition PatchStatus ::
    "'o kind \<Rightarrow> ('e, 'o) ops \<Rightarrow> 'o \<Rightarrow> ('o \<Rightarrow> 'o) \<Rightarrow> ('e, event, (VerbType \<times> 'o) res) go" where
  "PatchStatus K api obj transform = do {
     r \<leftarrow> kGet K api (ObjectKeyFromMeta (kd_meta K obj));
     (case r of
        Inl e \<Rightarrow> ret (Inl e)
      | Inr cur \<Rightarrow> do {
          r2 \<leftarrow> kStatusPatch K api cur (transform cur);
          (case r2 of
             Inl e2 \<Rightarrow> ret (Inl e2)
           | Inr md' \<Rightarrow> ret (Inr (VerbPatched, md')))
        })
   }"

text \<open>
  \<open>CreateOrPatch\<close> only reads, creates or patches; \<open>PatchStatus\<close> only reads or patches the
  status.
\<close>

lemma emits_CreateOrPatch [emits_rules]:
  assumes "\<And>b. p (kd_event K (RGet (ObjectKeyFromMeta (kd_meta K obj))) b)"
    and "\<And>b. p (kd_event K (RCreate (kd_setMeta K ((kd_meta K (tr obj True))\<lparr>om_ResourceVersion := ''''\<rparr>) (tr obj True))) b)"
    and "\<And>cur b. p (kd_event K (RPatch cur (tr cur False)) b)"
  shows "emits p (CreateOrPatch K api obj tr)"
  unfolding CreateOrPatch_def Let_def by (intro emits_rules assms)

lemma emits_PatchStatus [emits_rules]:
  assumes "\<And>b. p (kd_event K (RGet (ObjectKeyFromMeta (kd_meta K obj))) b)"
    and "\<And>cur b. p (kd_event K (RStatusPatch cur (tr cur)) b)"
  shows "emits p (PatchStatus K api obj tr)"
  unfolding PatchStatus_def by (intro emits_rules assms)

end
