(* ===== verification/Samples.thy ===== *)
theory Samples
  imports Sidekick_Types
begin

text \<open>Small concrete objects at which the properties of the development are instantiated.\<close>

definition sample_meta :: "string \<Rightarrow> string \<Rightarrow> objmeta" where
  "sample_meta name uid = zero_meta\<lparr>om_Name := name, om_Namespace := ''demo'', om_UID := uid, om_Generation := 1\<rparr>"

definition sample_sidekick :: "string \<Rightarrow> sidekick" where
  "sample_sidekick policy = \<lparr>sk_Meta = sample_meta ''sk'' ''uid-sk'',
     sk_Spec = zero_sidekick_spec\<lparr>ss_RestartPolicy := policy,
       ss_Containers := [zero_sk_container\<lparr>sc_Name := ''wal-g'', sc_Image := ''img''\<rparr>]\<rparr>,
     sk_Status = zero_sidekick_status\<rparr>"

definition sample_pod :: "string \<Rightarrow> string \<Rightarrow> string \<Rightarrow> PodPhase \<Rightarrow> pod" where
  "sample_pod name uid node phase = \<lparr>p_APIVersion = ''v1'', p_Kind = ''Pod'', p_Meta = sample_meta name uid,
     p_Spec = zero_pod_spec\<lparr>ps_NodeName := node\<rparr>,
     p_Status = zero_pod_status\<lparr>pst_Phase := phase\<rparr>\<rparr>"

lemmas sample_defs = sample_meta_def sample_sidekick_def sample_pod_def zero_meta_def
  zero_sidekick_spec_def zero_sk_container_def zero_sidekick_status_def zero_pod_spec_def
  zero_pod_status_def

end
