(* ===== verification/Kube_Helpers.thy ===== *)
theory Kube_Helpers
  imports Kube_Client Samples
begin

text \<open>
  Pure helpers of \<open>src/vendor/kmodules.xyz/client-go\<close> used all over the operator: the
  finalizer functions and \<open>UpsertVolume\<close> (\<open>core/v1/kubernetes.go\<close>), \<open>GenerationHash\<close> and
  \<open>AlreadyReconciled\<close> (\<open>meta/hash.go\<close>). The finalizer functions provide a small interface,
  stated as a locale, on which the controllers rely.
\<close>

section \<open>Finalizers\<close>

definition HasFinalizer :: "objmeta \<Rightarrow> string \<Rightarrow> bool" where
  "HasFinalizer m finalizer = (finalizer \<in> set (om_Finalizers m))"

definition AddFinalizer :: "objmeta \<Rightarrow> string \<Rightarrow> objmeta" where
  "AddFinalizer m finalizer =
     (if finalizer \<in> set (om_Finalizers m) then m
      else m\<lparr>om_Finalizers := om_Finalizers m @ [finalizer]\<rparr>)"

definition RemoveFinalizer :: "objmeta \<Rightarrow> string \<Rightarrow> objmeta" where
  "RemoveFinalizer m finalizer = m\<lparr>om_Finalizers := filter (\<lambda>name. name \<noteq> finalizer) (om_Finalizers m)\<rparr>"

text \<open>
  The interface: a set of finalizers under membership, insertion and removal, where nothing
  but the finalizers of the metadata changes.
\<close>

locale finalizer_set =
  fixes has :: "'m \<Rightarrow> 'f \<Rightarrow> bool"
    and add :: "'m \<Rightarrow> 'f \<Rightarrow> 'm"
    and remove :: "'m \<Rightarrow> 'f \<Rightarrow> 'm"
    and rest :: "'m \<Rightarrow> 'r"
  assumes has_add: "has (add m f) g \<longleftrightarrow> g = f \<or> has m g"
    and has_remove: "has (remove m f) g \<longleftrightarrow> g \<noteq> f \<and> has m g"
    and rest_add: "rest (add m f) = rest m"
    and rest_remove: "rest (remove m f) = rest m"
    and add_present: "has m f \<Longrightarrow> add m f = m"
begin

lemma has_add_same: "has (add m f) f"
  by (simp add: has_add)

lemma not_has_remove: "\<not> has (remove m f) f"
  by (simp add: has_remove)

lemma add_idem: "add (add m f) f = add m f"
  by (simp add: add_present has_add_same)

lemma remove_add_others: "has (remove (add m f) f) g \<longleftrightarrow> g \<noteq> f \<and> has m g"
  by (auto simp: has_add has_remove)

end

interpretation fin: finalizer_set HasFinalizer AddFinalizer RemoveFinalizer
  "\<lambda>m. m\<lparr>om_Finalizers := []\<rparr>"
  by unfold_locales (auto simp: HasFinalizer_def AddFinalizer_def RemoveFinalizer_def)

lemma Finalizer_frame [simp]:
  "om_Name (AddFinalizer m f) = om_Name m" "om_Namespace (AddFinalizer m f) = om_Namespace m"
  "om_UID (AddFinalizer m f) = om_UID m" "om_Annotations (AddFinalizer m f) = om_Annotations m"
  "om_Generation (AddFinalizer m f) = om_Generation m"
  "om_DeletionTimestamp (AddFinalizer m f) = om_DeletionTimestamp m"
  "om_OwnerReferences (AddFinalizer m f) = om_OwnerReferences m"
  "om_Name (RemoveFinalizer m f) = om_Name m" "om_Namespace (RemoveFinalizer m f) = om_Namespace m"
  "om_UID (RemoveFinalizer m f) = om_UID m" "om_Annotations (RemoveFinalizer m f) = om_Annotations m"
  "om_DeletionTimestamp (RemoveFinalizer m f) = om_DeletionTimestamp m"
  by (simp_all add: AddFinalizer_def RemoveFinalizer_def)

text \<open>\<open>getFinalizerName\<close> of \<open>sidekick_controller.go\<close>.\<close>

definition getFinalizerName :: string where
  "getFinalizerName = GroupName @ ''/finalizer''"

section \<open>Hashing\<close>

definition LastAppliedConfigAnnotation :: string where
  "LastAppliedConfigAnnotation = ''kubectl.kubernetes.io/last-applied-configuration''"

text \<open>
  The object \<open>GenerationHash\<close> hashes: the generation, the labels if there are any, and the
  annotations (without kubectl's) if there are any. \<open>DeepHashObject\<close> prints it with sorted
  keys before hashing, so only the content of the maps matters: the maps enter as
  functions. The printer and the hash (spew and xxh3) are the parameter \<open>h\<close>.
\<close>

type_synonym hash_input =
  "int \<times> (string \<Rightarrow> string option) option \<times> (string \<Rightarrow> string option) option"

definition GenerationHash :: "(hash_input \<Rightarrow> string) \<Rightarrow> objmeta \<Rightarrow> string" where
  "GenerationHash h m = h (om_Generation m,
     (if gm_len (om_Labels m) > 0 then Some (gm_get (om_Labels m)) else None),
     (if gm_len (om_Annotations m) > 0
      then Some (\<lambda>k. if k \<noteq> LastAppliedConfigAnnotation then gm_get (om_Annotations m) k else None)
      else None))"

text \<open>The hash does not look at name, UID, finalizers, owners or the resource version.\<close>

lemma GenerationHash_cong:
  assumes "om_Generation m = om_Generation m'" "om_Labels m = om_Labels m'"
    and "om_Annotations m = om_Annotations m'"
  shows "GenerationHash h m = GenerationHash h m'"
  unfolding GenerationHash_def assms ..

lemma GenerationHash_AddFinalizer [simp]:
  "GenerationHash h (AddFinalizer m f) = GenerationHash h m"
  by (rule GenerationHash_cong) (simp_all add: AddFinalizer_def)

text \<open>\<open>meta.AlreadyReconciled\<close> on a Sidekick, whose status has the field it looks for.\<close>

definition AlreadyReconciled :: "sidekick \<Rightarrow> bool" where
  "AlreadyReconciled sk = (st_ObservedGeneration (sk_Status sk) = om_Generation (sk_Meta sk))"

section \<open>Volumes\<close>

text \<open>
  \<open>UpsertVolume\<close>: merge into the first volume of the same name, else append. \<open>merge\<close> is
  \<open>mergo.Merge\<close> with override; that it fails (and \<open>UpsertVolume\<close> panics) on two values of
  the same struct type is not possible, so it is a total function here.
\<close>

fun upsertVolume :: "(volume \<Rightarrow> volume \<Rightarrow> volume) \<Rightarrow> volume \<Rightarrow> volume list \<Rightarrow> volume list" where
  "upsertVolume merge v [] = [v]"
| "upsertVolume merge v (vol # vols) =
     (if vol_Name vol = vol_Name v then merge vol v # vols
      else vol # upsertVolume merge v vols)"

definition UpsertVolume :: "(volume \<Rightarrow> volume \<Rightarrow> volume) \<Rightarrow> volume list \<Rightarrow> volume list \<Rightarrow> volume list" where
  "UpsertVolume merge volumes nv = fold (upsertVolume merge) nv volumes"

text \<open>What the operator relies on of the merge: it keeps the common name.\<close>

definition merge_keeps_name :: "(volume \<Rightarrow> volume \<Rightarrow> volume) \<Rightarrow> bool" where
  "merge_keeps_name merge = (\<forall>a b. vol_Name a = vol_Name b \<longrightarrow> vol_Name (merge a b) = vol_Name b)"

lemma upsertVolume_names:
  "merge_keeps_name merge \<Longrightarrow>
   map vol_Name (upsertVolume merge v vs) =
     (if vol_Name v \<in> vol_Name ` set vs then map vol_Name vs else map vol_Name vs @ [vol_Name v])"
  by (induction vs) (auto simp: merge_keeps_name_def)

lemma upsertVolume_name_set:
  "merge_keeps_name merge \<Longrightarrow>
   vol_Name ` set (upsertVolume merge v vs) = insert (vol_Name v) (vol_Name ` set vs)"
  by (induction vs) (auto simp: merge_keeps_name_def)

lemma UpsertVolume_names:
  "merge_keeps_name merge \<Longrightarrow>
   vol_Name ` set (UpsertVolume merge vs nv) = vol_Name ` set vs \<union> vol_Name ` set nv"
  unfolding UpsertVolume_def
  by (induction nv arbitrary: vs) (auto simp: upsertVolume_name_set)

lemma UpsertVolume_distinct:
  "merge_keeps_name merge \<Longrightarrow> distinct (map vol_Name vs) \<Longrightarrow>
   distinct (map vol_Name (UpsertVolume merge vs nv))"
  unfolding UpsertVolume_def
  by (induction nv arbitrary: vs) (auto simp: upsertVolume_names)

end
