(* ===== verification/Pod_Builder.thy ===== *)
theory Pod_Builder
  imports Kube_Helpers
begin

text \<open>
  \<open>src/pkg/controllers/apps/pod_builder.go\<close>: the pod a Sidekick asks for, built for a given
  leader pod. The third-party functions involved, the hash and the volume merge, are the
  parameters \<open>h\<close> and \<open>merge\<close>.
\<close>

definition keyHash :: string where "keyHash = ''sidekick.appscode.com/hash''"
definition keyLeader :: string where "keyLeader = ''sidekick.appscode.com/leader''"

lemma keyHash_neq_keyLeader [simp]: "keyHash \<noteq> keyLeader" "keyLeader \<noteq> keyHash"
  by (simp_all add: keyHash_def keyLeader_def)

section \<open>Mounts and volumes\<close>

text \<open>The first mount of that name, over the containers and then the init containers.\<close>

definition findMount :: "pod \<Rightarrow> string \<Rightarrow> volume_mount option" where
  "findMount leader name =
     (case find (\<lambda>vm. vm_Name vm = name) (concat (map c_VolumeMounts (ps_Containers (p_Spec leader)))) of
        Some vm \<Rightarrow> Some vm
      | None \<Rightarrow> find (\<lambda>vm. vm_Name vm = name)
                  (concat (map c_VolumeMounts (ps_InitContainers (p_Spec leader)))))"

definition emptyMount :: "sk_volume_mount \<Rightarrow> bool" where
  "emptyMount vm \<longleftrightarrow> \<not> svm_ReadOnly vm \<and> svm_MountPath vm = '''' \<and> svm_SubPath vm = '''' \<and>
     svm_MountPropagation vm = None \<and> svm_SubPathExpr vm = ''''"

text \<open>One turn of the mount loop of \<open>convContainer\<close>.\<close>

definition convMount :: "pod \<Rightarrow> sk_volume_mount \<Rightarrow> volume_mount res" where
  "convMount leader vm =
     (if emptyMount vm
      then (case findMount leader (svm_Name vm) of
              None \<Rightarrow> Inl (Err (''missing volume mount '' @ svm_Name vm @ '' for leader '' @
                       om_Namespace (p_Meta leader) @ ''/'' @ p_Name leader))
            | Some v2 \<Rightarrow> Inr v2)
      else Inr \<lparr>vm_Name = svm_Name vm, vm_ReadOnly = svm_ReadOnly vm, vm_RecursiveReadOnly = None,
                vm_MountPath = svm_MountPath vm, vm_SubPath = svm_SubPath vm,
                vm_MountPropagation = svm_MountPropagation vm, vm_SubPathExpr = svm_SubPathExpr vm\<rparr>)"

definition convContainer :: "pod \<Rightarrow> sk_container \<Rightarrow> container res" where
  "convContainer leader c =
     (case mapR (convMount leader) (sc_VolumeMounts c) of
        Inl e \<Rightarrow> Inl e
      | Inr vms \<Rightarrow> Inr \<lparr>
          c_Name = sc_Name c, c_Image = sc_Image c, c_Command = sc_Command c,
          c_Args = sc_Args c, c_WorkingDir = sc_WorkingDir c, c_Ports = sc_Ports c,
          c_EnvFrom = sc_EnvFrom c, c_Env = sc_Env c, c_Resources = sc_Resources c,
          c_VolumeMounts = vms, c_VolumeDevices = sc_VolumeDevices c,
          c_LivenessProbe = sc_LivenessProbe c, c_ReadinessProbe = sc_ReadinessProbe c,
          c_StartupProbe = sc_StartupProbe c, c_Lifecycle = sc_Lifecycle c,
          c_TerminationMessagePath = sc_TerminationMessagePath c,
          c_TerminationMessagePolicy = sc_TerminationMessagePolicy c,
          c_ImagePullPolicy = sc_ImagePullPolicy c, c_SecurityContext = sc_SecurityContext c,
          c_Stdin = sc_Stdin c, c_StdinOnce = sc_StdinOnce c, c_TTY = sc_TTY c\<rparr>)"

definition listVolumes :: "(volume \<Rightarrow> volume \<Rightarrow> volume) \<Rightarrow> pod \<Rightarrow> sidekick \<Rightarrow> volume list" where
  "listVolumes merge leader sk =
     (let vols = UpsertVolume merge [] (ss_Volumes (sk_Spec sk)) in
      if list_ex (\<lambda>c. sc_VolumeMounts c \<noteq> []) (ss_Containers (sk_Spec sk))
      then UpsertVolume merge vols (ps_Volumes (p_Spec leader))
      else if list_ex (\<lambda>c. sc_VolumeMounts c \<noteq> []) (ss_InitContainers (sk_Spec sk))
      then UpsertVolume merge vols (ps_Volumes (p_Spec leader))
      else [])"

section \<open>The pod\<close>

text \<open>The converted container with the leader's name in its environment.\<close>

definition leaderEnv :: "pod \<Rightarrow> env_var" where
  "leaderEnv leader = \<lparr>ev_Name = ''LEADER_NAME'', ev_Value = p_Name leader, ev_ValueFrom = None\<rparr>"

definition convMainContainer :: "pod \<Rightarrow> sk_container \<Rightarrow> container res" where
  "convMainContainer leader spec =
     (case convContainer leader spec of
        Inl e \<Rightarrow> Inl e
      | Inr container \<Rightarrow> Inr (container\<lparr>c_Env := c_Env container @ [leaderEnv leader]\<rparr>))"

text \<open>The pod spec literal, with the containers still empty.\<close>

definition sidekickPodSpec :: "(volume \<Rightarrow> volume \<Rightarrow> volume) \<Rightarrow> sidekick \<Rightarrow> pod \<Rightarrow> pod_spec" where
  "sidekickPodSpec merge sk leader = (let s = sk_Spec sk in \<lparr>
     ps_Volumes = listVolumes merge leader sk,
     ps_InitContainers = [],
     ps_Containers = [],
     ps_EphemeralContainers = ss_EphemeralContainers s,
     ps_RestartPolicy = ss_RestartPolicy s,
     ps_TerminationGracePeriodSeconds = ss_TerminationGracePeriodSeconds s,
     ps_ActiveDeadlineSeconds = ss_ActiveDeadlineSeconds s,
     ps_DNSPolicy = ss_DNSPolicy s,
     ps_NodeSelector = None,
     ps_ServiceAccountName = ss_ServiceAccountName s,
     ps_DeprecatedServiceAccount = ss_DeprecatedServiceAccount s,
     ps_AutomountServiceAccountToken = ss_AutomountServiceAccountToken s,
     ps_NodeName = ps_NodeName (p_Spec leader),
     ps_HostNetwork = ss_HostNetwork s,
     ps_HostPID = ss_HostPID s,
     ps_HostIPC = ss_HostIPC s,
     ps_ShareProcessNamespace = ss_ShareProcessNamespace s,
     ps_SecurityContext = ss_SecurityContext s,
     ps_ImagePullSecrets = ss_ImagePullSecrets s,
     ps_Hostname = ss_Hostname s,
     ps_Subdomain = ss_Subdomain s,
     ps_Affinity = ss_Affinity s,
     ps_SchedulerName = ss_SchedulerName s,
     ps_Tolerations = ss_Tolerations s,
     ps_HostAliases = ss_HostAliases s,
     ps_PriorityClassName = ss_PriorityClassName s,
     ps_Priority = ss_Priority s,
     ps_DNSConfig = ss_DNSConfig s,
     ps_ReadinessGates = ss_ReadinessGates s,
     ps_RuntimeClassName = ss_RuntimeClassName s,
     ps_EnableServiceLinks = ss_EnableServiceLinks s,
     ps_PreemptionPolicy = ss_PreemptionPolicy s,
     ps_Overhead = ss_Overhead s,
     ps_TopologySpreadConstraints = ss_TopologySpreadConstraints s,
     ps_SetHostnameAsFQDN = ss_SetHostnameAsFQDN s,
     ps_OS = ss_OS s,
     ps_HostUsers = ss_HostUsers s\<rparr>)"

text \<open>
  \<open>newSidekickPod\<close>. The pod's annotation map is the Sidekick's own map, so the two
  annotations written into it also show up in the Sidekick in memory, unless that map was
  nil and a fresh one was made: the function returns the Sidekick too. The hash is
  computed before either write.
\<close>

definition newSidekickPod ::
    "(hash_input \<Rightarrow> string) \<Rightarrow> (volume \<Rightarrow> volume \<Rightarrow> volume) \<Rightarrow> sidekick \<Rightarrow> pod \<Rightarrow> (pod \<times> sidekick) res" where
  "newSidekickPod h merge sk leader =
     (let sidekickRef = NewControllerRef (sk_Meta sk) SchemeGroupVersion ''Sidekick'';
          leaderRef = (NewControllerRef (p_Meta leader) ''v1'' ''Pod'')
                        \<lparr>or_Controller := Some False, or_BlockOwnerDeletion := Some False\<rparr>;
          ann = gm_set keyLeader (p_Name leader)
                  (gm_set keyHash (GenerationHash h (sk_Meta sk)) (gm_make (om_Annotations (sk_Meta sk))));
          sk' = (case om_Annotations (sk_Meta sk) of
                   None \<Rightarrow> sk
                 | Some _ \<Rightarrow> sk\<lparr>sk_Meta := (sk_Meta sk)\<lparr>om_Annotations := ann\<rparr>\<rparr>);
          pod = \<lparr>p_APIVersion = '''', p_Kind = '''',
                 p_Meta = zero_meta\<lparr>om_Name := sk_Name sk, om_Namespace := sk_Namespace sk,
                   om_Annotations := ann, om_Labels := om_Labels (sk_Meta sk),
                   om_OwnerReferences := [sidekickRef, leaderRef]\<rparr>,
                 p_Spec = sidekickPodSpec merge sk leader,
                 p_Status = zero_pod_status\<rparr>
      in case mapR (convMainContainer leader) (ss_Containers (sk_Spec sk)) of
           Inl e \<Rightarrow> Inl e
         | Inr cs \<Rightarrow>
             (case mapR (convContainer leader) (ss_InitContainers (sk_Spec sk)) of
                Inl e \<Rightarrow> Inl e
              | Inr ics \<Rightarrow>
                  Inr (pod\<lparr>p_Spec := (p_Spec pod)\<lparr>ps_Containers := cs, ps_InitContainers := ics\<rparr>\<rparr>, sk')))"

section \<open>Mounts come from the leader\<close>

lemma findMount_Some:
  assumes "findMount leader n = Some vm"
  shows "vm_Name vm = n"
    and "\<exists>c \<in> set (ps_Containers (p_Spec leader)) \<union> set (ps_InitContainers (p_Spec leader)).
           vm \<in> set (c_VolumeMounts c)"
  using assms by (auto simp: findMount_def dest!: find_SomeD split: option.splits)

lemma findMount_None_iff:
  "findMount leader n = None \<longleftrightarrow>
   (\<forall>c \<in> set (ps_Containers (p_Spec leader)) \<union> set (ps_InitContainers (p_Spec leader)).
      \<forall>vm \<in> set (c_VolumeMounts c). vm_Name vm \<noteq> n)"
  by (fastforce simp: findMount_def find_None_iff dest!: find_SomeD split: option.splits)

lemma convMount_name: "convMount leader vm = Inr v \<Longrightarrow> vm_Name v = svm_Name vm"
  by (auto simp: convMount_def findMount_Some split: if_splits option.splits)

lemma convContainer_mounts:
  "convContainer leader c = Inr c2 \<Longrightarrow>
   list_all2 (\<lambda>vm v. convMount leader vm = Inr v) (sc_VolumeMounts c) (c_VolumeMounts c2)"
  by (auto simp: convContainer_def mapR_Inr_iff split: sum.splits)

lemma mapR_ok_iff: "ok (mapR f xs) \<longleftrightarrow> (\<forall>x \<in> set xs. ok (f x))"
  by (induction xs) (auto split: sum.splits)

lemma convMount_ok_iff:
  "ok (convMount leader vm) \<longleftrightarrow> (emptyMount vm \<longrightarrow> findMount leader (svm_Name vm) \<noteq> None)"
  by (auto simp: convMount_def split: option.splits)

lemma convContainer_ok_iff:
  "ok (convContainer leader c) \<longleftrightarrow>
   (\<forall>vm \<in> set (sc_VolumeMounts c). emptyMount vm \<longrightarrow> findMount leader (svm_Name vm) \<noteq> None)"
proof -
  have "ok (convContainer leader c) = ok (mapR (convMount leader) (sc_VolumeMounts c))"
    by (simp add: convContainer_def split: sum.split)
  then show ?thesis by (simp add: mapR_ok_iff convMount_ok_iff)
qed

lemma convMainContainer_ok_iff: "ok (convMainContainer leader c) = ok (convContainer leader c)"
  by (simp add: convMainContainer_def split: sum.split)

lemma convContainer_fields:
  "convContainer leader c = Inr c2 \<Longrightarrow>
   c_Name c2 = sc_Name c \<and> c_Image c2 = sc_Image c \<and> c_Env c2 = sc_Env c"
  by (auto simp: convContainer_def split: sum.splits)

lemma newSidekickPod_InrD:
  assumes "newSidekickPod h merge sk leader = Inr (pod, sk')"
  shows "mapR (convMainContainer leader) (ss_Containers (sk_Spec sk)) = Inr (ps_Containers (p_Spec pod))"
    and "mapR (convContainer leader) (ss_InitContainers (sk_Spec sk)) = Inr (ps_InitContainers (p_Spec pod))"
    and "p_Spec pod = (sidekickPodSpec merge sk leader)
           \<lparr>ps_Containers := ps_Containers (p_Spec pod), ps_InitContainers := ps_InitContainers (p_Spec pod)\<rparr>"
    and "om_Annotations (p_Meta pod) = gm_set keyLeader (p_Name leader)
           (gm_set keyHash (GenerationHash h (sk_Meta sk)) (gm_make (om_Annotations (sk_Meta sk))))"
    and "om_Name (p_Meta pod) = sk_Name sk" and "om_Namespace (p_Meta pod) = sk_Namespace sk"
    and "om_OwnerReferences (p_Meta pod) =
           [NewControllerRef (sk_Meta sk) SchemeGroupVersion ''Sidekick'',
            (NewControllerRef (p_Meta leader) ''v1'' ''Pod'')
              \<lparr>or_Controller := Some False, or_BlockOwnerDeletion := Some False\<rparr>]"
    and "p_Status pod = zero_pod_status" and "om_Finalizers (p_Meta pod) = []"
    and "om_UID (p_Meta pod) = []" and "om_DeletionTimestamp (p_Meta pod) = None"
  using assms
  by (auto simp: newSidekickPod_def Let_def zero_meta_def split: sum.splits)

lemma newSidekickPod_sk:
  assumes "newSidekickPod h merge sk leader = Inr (pod, sk')"
  shows "sk_Spec sk' = sk_Spec sk" "sk_Status sk' = sk_Status sk"
    and "ObjectKeyFromMeta (sk_Meta sk') = ObjectKeyFromMeta (sk_Meta sk)"
    and "om_Generation (sk_Meta sk') = om_Generation (sk_Meta sk)"
  using assms
  by (auto simp: newSidekickPod_def Let_def ObjectKeyFromMeta_def split: sum.splits option.splits)

section \<open>Properties of the built pod\<close>

text \<open>
  Property C22. The pod built for a Sidekick and its leader has the Sidekick's name and
  namespace, is pinned to the leader's node, is controlled by the Sidekick alone (the
  leader is a second, non-controlling owner), records in its annotations the hash of the
  Sidekick and the name of the leader, keeps every other annotation of the Sidekick, and
  has one container per container of the Sidekick, in order, each with \<open>LEADER_NAME\<close> as
  its last environment variable.
\<close>

theorem newSidekickPod_shape:
  assumes "newSidekickPod h merge sk leader = Inr (pod, sk')"
  shows "p_Name pod = sk_Name sk \<and> om_Namespace (p_Meta pod) = sk_Namespace sk \<and>
    p_NodeName pod = p_NodeName leader \<and>
    filter (\<lambda>o1. or_Controller o1 = Some True) (om_OwnerReferences (p_Meta pod)) =
      [NewControllerRef (sk_Meta sk) SchemeGroupVersion ''Sidekick''] \<and>
    gm_get (om_Annotations (p_Meta pod)) =
      (gm_get (om_Annotations (sk_Meta sk)))
        (keyHash \<mapsto> GenerationHash h (sk_Meta sk), keyLeader \<mapsto> p_Name leader) \<and>
    list_all2 (\<lambda>c c2. c_Name c2 = sc_Name c \<and> c_Image c2 = sc_Image c \<and>
        c_Env c2 = sc_Env c @ [leaderEnv leader])
      (ss_Containers (sk_Spec sk)) (ps_Containers (p_Spec pod))"
proof -
  note facts = newSidekickPod_InrD [OF assms]
  have "p_NodeName pod = p_NodeName leader"
    by (subst facts(3)) (simp add: sidekickPodSpec_def Let_def)
  moreover have "list_all2 (\<lambda>c c2. c_Name c2 = sc_Name c \<and> c_Image c2 = sc_Image c \<and>
        c_Env c2 = sc_Env c @ [leaderEnv leader])
      (ss_Containers (sk_Spec sk)) (ps_Containers (p_Spec pod))"
    using facts(1) unfolding mapR_Inr_iff
    by (rule list_all2_mono)
      (auto simp: convMainContainer_def dest: convContainer_fields split: sum.splits)
  ultimately show ?thesis
    by (simp add: facts(4-7) NewControllerRef_def)
qed


text \<open>
  The volumes of the pod: none at all when no container mounts anything;
  otherwise exactly the names of the Sidekick's and the leader's volumes, without
  duplicates, provided the third-party merge of two volumes keeps their common name.
\<close>

theorem listVolumes_names:
  assumes "merge_keeps_name merge"
  shows "distinct (map vol_Name (listVolumes merge leader sk)) \<and>
    vol_Name ` set (listVolumes merge leader sk) =
      (if \<exists>c \<in> set (ss_Containers (sk_Spec sk)) \<union> set (ss_InitContainers (sk_Spec sk)).
            sc_VolumeMounts c \<noteq> []
       then vol_Name ` set (ss_Volumes (sk_Spec sk)) \<union> vol_Name ` set (ps_Volumes (p_Spec leader))
       else {})"
proof -
  have "distinct (map vol_Name (UpsertVolume merge [] (ss_Volumes (sk_Spec sk))))"
    using assms by (rule UpsertVolume_distinct) simp
  with assms show ?thesis
    by (auto simp: listVolumes_def Let_def list_ex_iff UpsertVolume_names UpsertVolume_distinct)
qed

section \<open>Instances\<close>

text \<open>A Sidekick with one container that takes the mount \<open>data\<close> of its leader.\<close>

definition mounting_sidekick :: sidekick where
  "mounting_sidekick = (sample_sidekick RestartPolicyAlways)\<lparr>sk_Spec := zero_sidekick_spec\<lparr>
     ss_Containers := [zero_sk_container\<lparr>sc_Name := ''wal-g'', sc_VolumeMounts := [\<lparr>svm_Name = ''data'', svm_ReadOnly = False, svm_MountPath = '''', svm_SubPath = '''',
       svm_MountPropagation = None, svm_SubPathExpr = ''''\<rparr>]\<rparr>]\<rparr>\<rparr>"

theorem newSidekickPod_shape_witness:
  "\<exists>pod sk'. newSidekickPod (\<lambda>_. ''h'') (\<lambda>a b. b) (sample_sidekick RestartPolicyAlways)
       (sample_pod ''db-0'' ''u0'' ''node-a'' PodRunning) = Inr (pod, sk') \<and>
     p_Name pod = ''sk'' \<and> p_NodeName pod = ''node-a'' \<and>
     gm_get (om_Annotations (p_Meta pod)) keyLeader = Some ''db-0''"
proof -
  obtain pod sk' where run: "newSidekickPod (\<lambda>_. ''h'') (\<lambda>a b. b) (sample_sidekick RestartPolicyAlways)
       (sample_pod ''db-0'' ''u0'' ''node-a'' PodRunning) = Inr (pod, sk')"
    by (simp add: newSidekickPod_def convMainContainer_def convContainer_def sample_defs Let_def)
  with newSidekickPod_shape [OF run] show ?thesis by (simp add: sample_defs)
qed


theorem listVolumes_names_witness:
  "merge_keeps_name (\<lambda>a b. b) \<and>
   vol_Name ` set (listVolumes (\<lambda>a b. b) ((sample_pod ''db-0'' ''u0'' ''node-a'' PodRunning)\<lparr>p_Spec := zero_pod_spec\<lparr>ps_Volumes := [\<lparr>vol_Name = ''data'', vol_Source = None\<rparr>]\<rparr>\<rparr>) mounting_sidekick) = {''data''}"
proof -
  have "merge_keeps_name (\<lambda>a b. b)" by (simp add: merge_keeps_name_def)
  from listVolumes_names [OF this] this show ?thesis
    by (simp add: mounting_sidekick_def sample_defs)
qed

end
