(* ===== verification/Sidekick_Phase.thy ===== *)
theory Sidekick_Phase
  imports Kube_Helpers
begin

text \<open>
  \<open>src/pkg/controllers/apps/sidekick.go\<close> and the counters of \<open>pod.go\<close>: how often a Sidekick
  has failed, which phase it is in, and how the phase is written back. Pointer arguments
  the Go code updates in place are returned: a function on \<open>*Sidekick\<close> returns the Sidekick
  as the caller sees it afterwards.
\<close>

section \<open>Counters\<close>

definition getContainerRestartCounts :: "pod \<Rightarrow> int32" where
  "getContainerRestartCounts pod =
     fold (\<lambda>ics acc. acc + cs_RestartCount ics) (pst_InitContainerStatuses (p_Status pod))
       (fold (\<lambda>cs acc. acc + cs_RestartCount cs) (pst_ContainerStatuses (p_Status pod)) 0)"

definition getFailureCountFromSidekickStatus :: "sidekick \<Rightarrow> int32" where
  "getFailureCountFromSidekickStatus sk =
     fold (\<lambda>(_, val) acc. if val then acc + 1 else acc) (gm_entries (st_FailureCount (sk_Status sk))) 0"

definition getTotalContainerRestartCounts :: "sidekick \<Rightarrow> int32" where
  "getTotalContainerRestartCounts sk =
     fold (\<lambda>(_, value) acc. acc + value) (gm_entries (st_ContainerRestartCountsPerPod (sk_Status sk))) 0"

text \<open>A missing back-off limit is set to 0 in the caller's object.\<close>

definition defaultBackoffLimit :: "sidekick \<Rightarrow> sidekick" where
  "defaultBackoffLimit sk =
     (if ss_BackoffLimit (sk_Spec sk) = None
      then sk\<lparr>sk_Spec := (sk_Spec sk)\<lparr>ss_BackoffLimit := Some 0\<rparr>\<rparr> else sk)"

definition getTotalBackOffCounts :: "sidekick \<Rightarrow> int32 \<times> sidekick" where
  "getTotalBackOffCounts sk =
     (getFailureCountFromSidekickStatus sk + getTotalContainerRestartCounts sk, defaultBackoffLimit sk)"

text \<open>
  \<open>*sidekick.Spec.BackoffLimit\<close>, which the code reads only after \<open>getTotalBackOffCounts\<close> has
  made it non-nil.
\<close>

definition backoffLimit :: "sidekick \<Rightarrow> int32" where
  "backoffLimit sk = (case ss_BackoffLimit (sk_Spec sk) of None \<Rightarrow> 0 | Some l \<Rightarrow> l)"

definition overBackoffLimit :: "sidekick \<Rightarrow> bool" where
  "overBackoffLimit sk =
     (let (n, sk') = getTotalBackOffCounts sk in gt32 n (backoffLimit sk'))"

section \<open>The phase\<close>

definition isSidekickPodRunning :: "pod option \<Rightarrow> bool" where
  "isSidekickPodRunning p = (case p of
     None \<Rightarrow> False
   | Some pod \<Rightarrow>
       if p_UID pod = '''' \<or> p_Deleting pod then False
       else if p_Phase pod \<noteq> PodRunning then False
       else list_all cs_Running (pst_ContainerStatuses (p_Status pod)))"

definition getSidekickPhase :: "sidekick \<Rightarrow> pod option \<Rightarrow> SideKickPhase \<times> sidekick" where
  "getSidekickPhase sk p =
     (if ss_RestartPolicy (sk_Spec sk) = RestartPolicyAlways
      then (if \<not> isSidekickPodRunning p then (SideKickPhaseDegraded, sk) else (SideKickPhaseCurrent, sk))
      else if st_Phase (sk_Status sk) = SidekickPhaseSucceeded then (SidekickPhaseSucceeded, sk)
      else if (case p of None \<Rightarrow> False
               | Some pod \<Rightarrow> p_Phase pod = PodSucceeded \<and> \<not> p_Deleting pod)
      then (SidekickPhaseSucceeded, sk)
      else
        (let (backOffCounts, sk') = getTotalBackOffCounts sk in
         if gt32 backOffCounts (backoffLimit sk') then (SideKickPhaseFailed, sk')
         else if \<not> isSidekickPodRunning p then (SideKickPhaseDegraded, sk')
         else (SideKickPhaseCurrent, sk')))"

definition updateSidekickStatus :: "'e kube \<Rightarrow> sidekick \<Rightarrow> ('e, event, sidekick res) go" where
  "updateSidekickStatus c sk = do {
     r \<leftarrow> PatchStatus sidekick_kind (k_sidekicks c) sk (\<lambda>cur. cur\<lparr>sk_Status := sk_Status sk\<rparr>);
     (case r of Inl e \<Rightarrow> ret (Inl e) | Inr (_, sk') \<Rightarrow> ret (Inr sk'))
   }"

text \<open>The maps of the status are allocated before anything is counted.\<close>

definition allocStatusMaps :: "sidekick \<Rightarrow> sidekick" where
  "allocStatusMaps sk = sk\<lparr>sk_Status := (sk_Status sk)
     \<lparr>st_ContainerRestartCountsPerPod := gm_make (st_ContainerRestartCountsPerPod (sk_Status sk)),
      st_FailureCount := gm_make (st_FailureCount (sk_Status sk))\<rparr>\<rparr>"

definition setFailure :: "string \<Rightarrow> bool \<Rightarrow> sidekick \<Rightarrow> sidekick" where
  "setFailure uid b sk =
     sk\<lparr>sk_Status := (sk_Status sk)\<lparr>st_FailureCount := gm_set uid b (st_FailureCount (sk_Status sk))\<rparr>\<rparr>"

definition setRestarts :: "string \<Rightarrow> int32 \<Rightarrow> sidekick \<Rightarrow> sidekick" where
  "setRestarts uid n sk = sk\<lparr>sk_Status := (sk_Status sk)
     \<lparr>st_ContainerRestartCountsPerPod := gm_set uid n (st_ContainerRestartCountsPerPod (sk_Status sk))\<rparr>\<rparr>"

text \<open>
  The failure bookkeeping shared by \<open>calculateSidekickPhase\<close> and its distributed twin: the
  failure of a pod that is not being deleted counts; if it takes a Sidekick whose restart
  policy is not Never over its limit, it is taken back.
\<close>

definition countFailedPod :: "string \<Rightarrow> sidekick \<Rightarrow> sidekick" where
  "countFailedPod uid sk =
     (let sk1 = setFailure uid True sk in
      if ss_RestartPolicy (sk_Spec sk1) \<noteq> RestartPolicyNever
      then (let (n, sk2) = getTotalBackOffCounts sk1 in
            if gt32 n (backoffLimit sk2) then setFailure uid False sk2 else sk2)
      else sk1)"

definition countPod :: "pod \<Rightarrow> sidekick \<Rightarrow> sidekick" where
  "countPod pod sk =
     (let sk1 = setRestarts (p_UID pod) (getContainerRestartCounts pod) sk in
      if p_Phase pod = PodFailed \<and> \<not> p_Deleting pod then countFailedPod (p_UID pod) sk1 else sk1)"

text \<open>The phase is computed, put into the status, and the status is written.\<close>

definition finishPhase :: "'e kube \<Rightarrow> sidekick \<Rightarrow> pod \<Rightarrow> ('e, event, (SideKickPhase \<times> sidekick) res) go" where
  "finishPhase c sk pod =
     (let (phase, sk1) = getSidekickPhase sk (Some pod);
          sk2 = sk1\<lparr>sk_Status := (sk_Status sk1)\<lparr>st_Phase := phase\<rparr>\<rparr>
      in do {
        r \<leftarrow> updateSidekickStatus c sk2;
        (case r of Inl e \<Rightarrow> ret (Inl e) | Inr sk3 \<Rightarrow> ret (Inr (phase, sk3)))
      })"

text \<open>When there is no pod, the pod variable keeps its zero value.\<close>

definition calculateSidekickPhase :: "'e kube \<Rightarrow> sidekick \<Rightarrow> ('e, event, (SideKickPhase \<times> sidekick) res) go" where
  "calculateSidekickPhase c sk = do {
     let sk1 = allocStatusMaps sk;
     r \<leftarrow> kGet pod_kind (k_pods c) (ObjectKeyFromMeta (sk_Meta sk1));
     (case r of
        Inl e \<Rightarrow> if IsNotFound e then finishPhase c sk1 zero_pod else ret (Inl e)
      | Inr pod \<Rightarrow> finishPhase c (countPod pod sk1) pod)
   }"

text \<open>
  \<open>updateSidekickPhase\<close>: a Sidekick that has failed or succeeded is dropped from the queue
  (the flag); the running pod of a failed one is marked failed.
\<close>

definition updateSidekickPhase ::
    "'e kube \<Rightarrow> nsname \<Rightarrow> sidekick \<Rightarrow> ('e, event, (bool \<times> sidekick) res) go" where
  "updateSidekickPhase c req sk = do {
     r \<leftarrow> calculateSidekickPhase c sk;
     (case r of
        Inl e \<Rightarrow> ret (Inl e)
      | Inr (phase, sk1) \<Rightarrow>
          if phase = SideKickPhaseFailed then do {
            r2 \<leftarrow> kGet pod_kind (k_pods c) req;
            (case r2 of
               Inl e \<Rightarrow> (case IgnoreNotFound e of None \<Rightarrow> ret (Inr (True, sk1)) | Some e' \<Rightarrow> ret (Inl e'))
             | Inr pod \<Rightarrow>
                 if p_Phase pod = PodRunning then do {
                   r3 \<leftarrow> kStatusUpdate pod_kind (k_pods c)
                           (pod\<lparr>p_Status := (p_Status pod)\<lparr>pst_Phase := PodFailed\<rparr>\<rparr>);
                   (case r3 of Inl e \<Rightarrow> ret (Inl e) | Inr _ \<Rightarrow> ret (Inr (True, sk1)))
                 }
                 else ret (Inr (True, sk1)))
          }
          else if st_Phase (sk_Status sk1) = SidekickPhaseSucceeded then ret (Inr (True, sk1))
          else ret (Inr (False, sk1)))
   }"

section \<open>The counters are exact below overflow\<close>

lemma fold_plus_sum: "fold (\<lambda>x acc. acc + f x) xs (a :: int32) = a + sum_list (map f xs)"
  by (induction xs arbitrary: a) (simp_all add: algebra_simps)

lemma fold_plus_snd: "fold (\<lambda>(_, v) acc. acc + v) xs (a :: int32) = a + sum_list (map snd xs)"
  by (induction xs arbitrary: a) (auto simp: algebra_simps)

lemma fold_count: "fold (\<lambda>(_, b) acc. if b then acc + 1 else acc) xs (a :: int32) =
   a + of_nat (length (filter snd xs))"
  by (induction xs arbitrary: a) auto

lemma getContainerRestartCounts_sum:
  "getContainerRestartCounts pod =
     sum_list (map cs_RestartCount (pst_ContainerStatuses (p_Status pod) @
       pst_InitContainerStatuses (p_Status pod)))"
  by (simp add: getContainerRestartCounts_def fold_plus_sum)

lemma getFailureCount_length:
  "getFailureCountFromSidekickStatus sk =
     of_nat (length (filter snd (gm_entries (st_FailureCount (sk_Status sk)))))"
  by (simp add: getFailureCountFromSidekickStatus_def fold_count)

lemma getTotalContainerRestartCounts_sum:
  "getTotalContainerRestartCounts sk =
     sum_list (map snd (gm_entries (st_ContainerRestartCountsPerPod (sk_Status sk))))"
  by (simp add: getTotalContainerRestartCounts_def fold_plus_snd)

text \<open>The exact count over the integers.\<close>

definition backoffCount :: "sidekick \<Rightarrow> int" where
  "backoffCount sk =
     int (length (filter snd (gm_entries (st_FailureCount (sk_Status sk))))) +
     sum_list (map (sint \<circ> snd) (gm_entries (st_ContainerRestartCountsPerPod (sk_Status sk))))"

lemma getTotalBackOffCounts_word:
  "fst (getTotalBackOffCounts sk) = word_of_int (backoffCount sk)"
proof -
  have "sum_list (map snd xs) = (word_of_int (sum_list (map (sint \<circ> snd) xs)) :: int32)"
    for xs :: "(string \<times> int32) list"
    by (induction xs) simp_all
  then show ?thesis
    by (simp add: getTotalBackOffCounts_def backoffCount_def getFailureCount_length
        getTotalContainerRestartCounts_sum)
qed

lemma backoffLimit_default [simp]: "backoffLimit (defaultBackoffLimit sk) = backoffLimit sk"
  by (simp add: backoffLimit_def defaultBackoffLimit_def)

lemma snd_getTotalBackOffCounts [simp]: "snd (getTotalBackOffCounts sk) = defaultBackoffLimit sk"
  by (simp add: getTotalBackOffCounts_def)

lemma overBackoffLimit_alt:
  "overBackoffLimit sk = gt32 (fst (getTotalBackOffCounts sk)) (backoffLimit sk)"
  by (simp add: overBackoffLimit_def split_beta)

lemma setFailure_twice [simp]: "setFailure uid b (setFailure uid b' sk) = setFailure uid b sk"
  by (simp add: setFailure_def gm_set_def)

lemma sk_frame [simp]:
  "sk_Spec (setFailure uid b sk) = sk_Spec sk" "sk_Meta (setFailure uid b sk) = sk_Meta sk"
  "sk_Spec (setRestarts uid n sk) = sk_Spec sk" "sk_Meta (setRestarts uid n sk) = sk_Meta sk"
  "sk_Spec (allocStatusMaps sk) = sk_Spec sk" "sk_Meta (allocStatusMaps sk) = sk_Meta sk"
  "sk_Status (defaultBackoffLimit sk) = sk_Status sk" "sk_Meta (defaultBackoffLimit sk) = sk_Meta sk"
  "ss_RestartPolicy (sk_Spec (defaultBackoffLimit sk)) = ss_RestartPolicy (sk_Spec sk)"
  "st_Phase (sk_Status (setFailure uid b sk)) = st_Phase (sk_Status sk)"
  "st_Phase (sk_Status (setRestarts uid n sk)) = st_Phase (sk_Status sk)"
  "st_Phase (sk_Status (allocStatusMaps sk)) = st_Phase (sk_Status sk)"
  by (simp_all add: setFailure_def setRestarts_def allocStatusMaps_def defaultBackoffLimit_def)

text \<open>The count and the limit do not see whether the limit was defaulted.\<close>

lemma setFailure_default: "setFailure uid b (defaultBackoffLimit sk) = defaultBackoffLimit (setFailure uid b sk)"
  by (simp add: setFailure_def defaultBackoffLimit_def)

lemma overBackoffLimit_default [simp]: "overBackoffLimit (defaultBackoffLimit sk) = overBackoffLimit sk"
  by (simp add: overBackoffLimit_alt getTotalBackOffCounts_word backoffCount_def)

lemma countFailedPod_alt:
  "countFailedPod uid sk =
     (if ss_RestartPolicy (sk_Spec sk) = RestartPolicyNever then setFailure uid True sk
      else defaultBackoffLimit (setFailure uid (\<not> overBackoffLimit (setFailure uid True sk)) sk))"
  by (simp add: countFailedPod_def overBackoffLimit_alt Let_def split_beta setFailure_default)

lemma countPod_frame [simp]:
  "ss_RestartPolicy (sk_Spec (countPod pod sk)) = ss_RestartPolicy (sk_Spec sk)"
  "st_Phase (sk_Status (countPod pod sk)) = st_Phase (sk_Status sk)"
  "sk_Meta (countPod pod sk) = sk_Meta sk"
  by (simp_all add: countPod_def countFailedPod_alt Let_def)

section \<open>The phase rules, once for both kinds of Sidekick\<close>

text \<open>
  The abstract rule: with restart policy Always the phase only tells whether the pod runs;
  otherwise success is final, then the back-off limit decides, then whether the pod runs.
\<close>

definition phase_spec :: "bool \<Rightarrow> bool \<Rightarrow> bool \<Rightarrow> bool \<Rightarrow> bool \<Rightarrow> SideKickPhase" where
  "phase_spec always wasSucceeded podSucceeded over running =
     (if always then (if running then SideKickPhaseCurrent else SideKickPhaseDegraded)
      else if wasSucceeded \<or> podSucceeded then SidekickPhaseSucceeded
      else if over then SideKickPhaseFailed
      else if running then SideKickPhaseCurrent
      else SideKickPhaseDegraded)"

definition podSucceeded :: "pod option \<Rightarrow> bool" where
  "podSucceeded p = (case p of None \<Rightarrow> False
     | Some pod \<Rightarrow> p_Phase pod = PodSucceeded \<and> \<not> p_Deleting pod)"

locale phase_rule =
  fixes getPhase :: "sidekick \<Rightarrow> 'o \<Rightarrow> SideKickPhase \<times> sidekick"
    and running :: "'o \<Rightarrow> bool"
    and succeeded :: "'o \<Rightarrow> bool"
  assumes phase: "fst (getPhase sk x) =
      phase_spec (ss_RestartPolicy (sk_Spec sk) = RestartPolicyAlways)
        (st_Phase (sk_Status sk) = SidekickPhaseSucceeded) (succeeded x) (overBackoffLimit sk) (running x)"
    and only_limit: "snd (getPhase sk x) = sk \<or> snd (getPhase sk x) = defaultBackoffLimit sk"
begin

lemma success_is_final:
  "ss_RestartPolicy (sk_Spec sk) \<noteq> RestartPolicyAlways \<Longrightarrow>
   st_Phase (sk_Status sk) = SidekickPhaseSucceeded \<Longrightarrow> fst (getPhase sk x) = SidekickPhaseSucceeded"
  by (simp add: phase phase_spec_def)

lemma failed_iff:
  "fst (getPhase sk x) = SideKickPhaseFailed \<longleftrightarrow>
   ss_RestartPolicy (sk_Spec sk) \<noteq> RestartPolicyAlways \<and>
   st_Phase (sk_Status sk) \<noteq> SidekickPhaseSucceeded \<and> \<not> succeeded x \<and> overBackoffLimit sk"
  by (simp add: phase phase_spec_def)

lemma current_runs: "fst (getPhase sk x) = SideKickPhaseCurrent \<Longrightarrow> running x"
  by (simp add: phase phase_spec_def split: if_splits)

lemma never_pending: "fst (getPhase sk x) \<noteq> SideKickPhasePending"
  by (simp add: phase phase_spec_def)

lemma phase_meta: "sk_Meta (snd (getPhase sk x)) = sk_Meta sk"
  using only_limit [of sk x] by auto

lemma phase_status: "sk_Status (snd (getPhase sk x)) = sk_Status sk"
  using only_limit [of sk x] by auto

end

interpretation pod_phase: phase_rule getSidekickPhase isSidekickPodRunning podSucceeded
proof
  fix sk x
  show "fst (getSidekickPhase sk x) =
      phase_spec (ss_RestartPolicy (sk_Spec sk) = RestartPolicyAlways)
        (st_Phase (sk_Status sk) = SidekickPhaseSucceeded) (podSucceeded x) (overBackoffLimit sk)
        (isSidekickPodRunning x)"
    by (simp add: getSidekickPhase_def phase_spec_def podSucceeded_def overBackoffLimit_alt split_beta)
  show "snd (getSidekickPhase sk x) = sk \<or> snd (getSidekickPhase sk x) = defaultBackoffLimit sk"
    by (simp add: getSidekickPhase_def split_beta)
qed

section \<open>Properties of the phase\<close>


lemma overBackoffLimit_int:
  "- (2 ^ 31) \<le> backoffCount sk \<Longrightarrow> backoffCount sk < 2 ^ 31 \<Longrightarrow>
   overBackoffLimit sk \<longleftrightarrow> sint (backoffLimit sk) < backoffCount sk"
  by (simp add: overBackoffLimit_alt getTotalBackOffCounts_word gt32_def sint_word_of_int32)

text \<open>
  Property C24. As long as the exact number of failed pods plus container restarts fits into
  32 bits, the Sidekick is over its limit exactly when that number is greater than the
  back-off limit (a missing limit is 0).
\<close>

theorem overBackoffLimit_exact:
  assumes "- (2 ^ 31) \<le> backoffCount sk" "backoffCount sk < 2 ^ 31"
  shows "overBackoffLimit sk \<longleftrightarrow> backoffCount sk > sint (backoffLimit sk)"
  using assms by (rule overBackoffLimit_int)

theorem overBackoffLimit_exact_witness:
  "overBackoffLimit (setFailure ''uid-1'' True (sample_sidekick RestartPolicyNever))"
proof -
  let ?sk = "setFailure ''uid-1'' True (sample_sidekick RestartPolicyNever)"
  have n: "backoffCount ?sk = 1"
    by (simp add: backoffCount_def setFailure_def gm_set_def sample_defs)
  have l: "sint (backoffLimit ?sk) = 0"
    by (simp add: backoffLimit_def sample_defs)
  show ?thesis
    using overBackoffLimit_exact [of ?sk] by (simp add: n l)
qed

text \<open>
  Beyond 32 bits the count wraps around: a Sidekick whose exact count is
  \<open>2 ^ 31\<close> is not over a limit of 0.
\<close>

theorem overBackoffLimit_wraps:
  "\<exists>sk. backoffCount sk = 2 ^ 31 \<and> backoffLimit sk = 0 \<and> \<not> overBackoffLimit sk"
proof -
  let ?sk = "setFailure ''uid-1'' True (setRestarts ''uid-2'' 2147483647 (sample_sidekick RestartPolicyNever))"
  have "backoffCount ?sk = 2 ^ 31"
    by (simp add: backoffCount_def setFailure_def setRestarts_def gm_set_def sample_defs)
  moreover have "backoffLimit ?sk = 0"
    by (simp add: backoffLimit_def sample_defs)
  moreover have "\<not> overBackoffLimit ?sk"
    using calculation by (simp add: overBackoffLimit_alt getTotalBackOffCounts_word gt32_def)
  ultimately show ?thesis by blast
qed

text \<open>
  For every restart policy but Never, the failure of a pod by itself never takes
  the Sidekick over its limit: if the Sidekick is within its limit without counting this
  failure, observing the failed pod does not make it Failed.
\<close>

theorem failed_pod_never_crosses_limit:
  assumes "ss_RestartPolicy (sk_Spec sk) \<noteq> RestartPolicyNever"
    and "p_Phase pod = PodFailed" and "\<not> p_Deleting pod"
    and "\<not> overBackoffLimit (setFailure (p_UID pod) False
            (setRestarts (p_UID pod) (getContainerRestartCounts pod) sk))"
  shows "fst (getSidekickPhase (countPod pod sk) (Some pod)) \<noteq> SideKickPhaseFailed"
proof -
  let ?sk1 = "setRestarts (p_UID pod) (getContainerRestartCounts pod) sk"
  have "\<not> overBackoffLimit (countPod pod sk)"
  proof (cases "overBackoffLimit (setFailure (p_UID pod) True ?sk1)")
    case True
    with assms show ?thesis by (simp add: countPod_def countFailedPod_alt)
  next
    case False
    with assms show ?thesis by (simp add: countPod_def countFailedPod_alt)
  qed
  then show ?thesis by (simp add: pod_phase.failed_iff)
qed

theorem failed_pod_never_crosses_limit_witness:
  "fst (getSidekickPhase (countPod (sample_pod ''sk'' ''uid-1'' ''n1'' PodFailed)
      (sample_sidekick RestartPolicyOnFailure)) (Some (sample_pod ''sk'' ''uid-1'' ''n1'' PodFailed)))
    \<noteq> SideKickPhaseFailed"
proof (rule failed_pod_never_crosses_limit)
  show "\<not> overBackoffLimit (setFailure (p_UID (sample_pod ''sk'' ''uid-1'' ''n1'' PodFailed)) False
      (setRestarts (p_UID (sample_pod ''sk'' ''uid-1'' ''n1'' PodFailed))
        (getContainerRestartCounts (sample_pod ''sk'' ''uid-1'' ''n1'' PodFailed))
        (sample_sidekick RestartPolicyOnFailure)))"
    by (simp add: overBackoffLimit_alt getTotalBackOffCounts_word backoffCount_def backoffLimit_def
        getContainerRestartCounts_def gt32_def setFailure_def setRestarts_def gm_set_def sample_defs)
qed (simp_all add: sample_defs)

lemma wp_updateSidekickStatus:
  "wp (updateSidekickStatus c sk) Q w =
   wp (PatchStatus sidekick_kind (k_sidekicks c) sk (\<lambda>cur. cur\<lparr>sk_Status := sk_Status sk\<rparr>))
     (\<lambda>r. Q (case r of Inl e \<Rightarrow> Inl e | Inr (_, sk') \<Rightarrow> Inr sk')) w"
  by (auto simp: updateSidekickStatus_def wp_simps wp_def split: prod.splits sum.splits)

lemma emits_updateSidekickStatus [emits_rules]:
  assumes "\<And>b. p (EvSidekick (RGet (ObjectKeyFromMeta (sk_Meta sk))) b)"
    and "\<And>cur b. p (EvSidekick (RStatusPatch cur (cur\<lparr>sk_Status := sk_Status sk\<rparr>)) b)"
  shows "emits p (updateSidekickStatus c sk)"
  unfolding updateSidekickStatus_def by (intro emits_rules) (simp_all add: assms)

section \<open>Retries end\<close>

text \<open>The failed pods of a Sidekick as the reconciler observes them, one after the other.\<close>

definition observed :: "pod list \<Rightarrow> sidekick \<Rightarrow> sidekick" where
  "observed pods sk = fold countPod pods sk"

definition failedPod :: "pod \<Rightarrow> bool" where
  "failedPod pod = (p_Phase pod = PodFailed \<and> \<not> p_Deleting pod)"

text \<open>A pod the books of the Sidekick do not know yet.\<close>

definition unseen :: "sidekick \<Rightarrow> pod \<Rightarrow> bool" where
  "unseen sk pod = (gm_get (st_FailureCount (sk_Status sk)) (p_UID pod) = None \<and>
     gm_get (st_ContainerRestartCountsPerPod (sk_Status sk)) (p_UID pod) = None)"

lemma update_new: "map_of xs k = None \<Longrightarrow> AList.update k v xs = xs @ [(k, v)]"
  by (induction xs) (auto split: if_splits)

lemma entries_gm_set_new: "gm_get m k = None \<Longrightarrow> gm_entries (gm_set k v m) = gm_entries m @ [(k, v)]"
  by (simp add: gm_set_def gm_get_def update_new)

lemma countPod_never:
  assumes "ss_RestartPolicy (sk_Spec sk) = RestartPolicyNever" "failedPod pod"
  shows "countPod pod sk = setFailure (p_UID pod) True (setRestarts (p_UID pod) (getContainerRestartCounts pod) sk)"
  using assms by (simp add: countPod_def failedPod_def countFailedPod_alt)

lemma status_setters [simp]:
  "st_FailureCount (sk_Status (setFailure uid b sk)) = gm_set uid b (st_FailureCount (sk_Status sk))"
  "st_FailureCount (sk_Status (setRestarts uid n sk)) = st_FailureCount (sk_Status sk)"
  "st_ContainerRestartCountsPerPod (sk_Status (setFailure uid b sk)) = st_ContainerRestartCountsPerPod (sk_Status sk)"
  "st_ContainerRestartCountsPerPod (sk_Status (setRestarts uid n sk)) =
     gm_set uid n (st_ContainerRestartCountsPerPod (sk_Status sk))"
  by (simp_all add: setFailure_def setRestarts_def)

lemma backoffCount_countPod:
  assumes "ss_RestartPolicy (sk_Spec sk) = RestartPolicyNever" "failedPod pod" "unseen sk pod"
  shows "backoffCount (countPod pod sk) = backoffCount sk + 1 + sint (getContainerRestartCounts pod)"
  using assms by (simp add: countPod_never backoffCount_def unseen_def entries_gm_set_new)

lemma unseen_countPod:
  assumes "ss_RestartPolicy (sk_Spec sk) = RestartPolicyNever" "failedPod pod" "p_UID other \<noteq> p_UID pod"
  shows "unseen (countPod pod sk) other = unseen sk other"
  using assms by (simp add: countPod_never unseen_def)

lemma observed_simps [simp]: "observed [] sk = sk" "observed (pod # pods) sk = observed pods (countPod pod sk)"
  by (simp_all add: observed_def)

lemma observed_frame [simp]:
  "ss_RestartPolicy (sk_Spec (observed pods sk)) = ss_RestartPolicy (sk_Spec sk)"
  "st_Phase (sk_Status (observed pods sk)) = st_Phase (sk_Status sk)"
  by (induction pods arbitrary: sk) simp_all

lemma spec_countPod_never:
  "ss_RestartPolicy (sk_Spec sk) = RestartPolicyNever \<Longrightarrow> failedPod pod \<Longrightarrow> sk_Spec (countPod pod sk) = sk_Spec sk"
  by (simp add: countPod_never)

lemma observed_count:
  assumes "ss_RestartPolicy (sk_Spec sk) = RestartPolicyNever" "list_all failedPod pods"
    "distinct (map p_UID pods)" "list_all (unseen sk) pods"
  shows "backoffCount (observed pods sk) =
      backoffCount sk + int (length pods) + sum_list (map (sint \<circ> getContainerRestartCounts) pods) \<and>
    sk_Spec (observed pods sk) = sk_Spec sk"
  using assms
proof (induction pods arbitrary: sk)
  case (Cons pod pods)
  have "list_all (unseen (countPod pod sk)) pods"
    using Cons.prems by (fastforce simp: list_all_iff unseen_countPod image_iff)
  then show ?case
    using Cons by (simp add: backoffCount_countPod spec_countPod_never)
qed simp

text \<open>
  Property C25. Under the restart policy Never retries come to an end. When the pods of a
  Sidekick fail one after the other, each a new pod, the Sidekick is Failed exactly when the
  failures and container restarts of all of them exceed its back-off limit, as long as their
  number fits into 32 bits; in particular no Sidekick sees more failing pods than its limit and one
  without being Failed.
\<close>

theorem retries_end:
  assumes "ss_RestartPolicy (sk_Spec sk) = RestartPolicyNever" "st_Phase (sk_Status sk) \<noteq> SidekickPhaseSucceeded"
    and "list_all failedPod (pods @ [pod])" "distinct (map p_UID (pods @ [pod]))" "list_all (unseen sk) (pods @ [pod])"
    and "0 \<le> backoffCount sk" "list_all (\<lambda>p. 0 \<le> sint (getContainerRestartCounts p)) (pods @ [pod])"
    and "backoffCount (observed (pods @ [pod]) sk) < 2 ^ 31"
  shows "(fst (getSidekickPhase (observed (pods @ [pod]) sk) (Some pod)) = SideKickPhaseFailed \<longleftrightarrow>
      sint (backoffLimit sk) < backoffCount sk + int (length (pods @ [pod])) +
        sum_list (map (sint \<circ> getContainerRestartCounts) (pods @ [pod]))) \<and>
    (sint (backoffLimit sk) < int (length (pods @ [pod])) \<longrightarrow>
      fst (getSidekickPhase (observed (pods @ [pod]) sk) (Some pod)) = SideKickPhaseFailed)"
proof -
  let ?pods = "pods @ [pod]"
  let ?restarts = "sum_list (map (sint \<circ> getContainerRestartCounts) ?pods)"
  have count: "backoffCount (observed ?pods sk) = backoffCount sk + int (length ?pods) + ?restarts"
    and spec: "sk_Spec (observed ?pods sk) = sk_Spec sk"
    using observed_count [OF assms(1,3,4,5)] by auto
  have "0 \<le> sint (getContainerRestartCounts p)" if "p \<in> set ?pods" for p
    using assms(7) that by (auto simp: list_all_iff)
  then have restarts: "0 \<le> ?restarts"
    by (intro sum_list_nonneg) auto
  have "overBackoffLimit (observed ?pods sk) \<longleftrightarrow> sint (backoffLimit sk) < backoffCount (observed ?pods sk)"
    using overBackoffLimit_int [of "observed ?pods sk"] assms(6,8) restarts
    by (simp only: count) (simp add: backoffLimit_def spec)
  moreover have "\<not> podSucceeded (Some pod)"
    using assms(3) by (simp add: podSucceeded_def failedPod_def)
  ultimately have "fst (getSidekickPhase (observed ?pods sk) (Some pod)) = SideKickPhaseFailed \<longleftrightarrow>
      sint (backoffLimit sk) < backoffCount (observed ?pods sk)"
    using assms(1,2) by (simp only: pod_phase.failed_iff observed_frame) simp
  then show ?thesis
    using assms(6) restarts by (simp only: count) simp
qed

theorem retries_end_witness:
  "fst (getSidekickPhase (observed [sample_pod ''sk'' ''uid-1'' ''n1'' PodFailed, sample_pod ''sk'' ''uid-2'' ''n1'' PodFailed]
      (sample_sidekick RestartPolicyNever)) (Some (sample_pod ''sk'' ''uid-2'' ''n1'' PodFailed))) = SideKickPhaseFailed"
  using retries_end [of "sample_sidekick RestartPolicyNever" "[sample_pod ''sk'' ''uid-1'' ''n1'' PodFailed]"
      "sample_pod ''sk'' ''uid-2'' ''n1'' PodFailed"]
  by (simp add: failedPod_def unseen_def backoffCount_def backoffLimit_def countPod_def countFailedPod_alt
      getContainerRestartCounts_def gm_set_def setFailure_def setRestarts_def sample_defs)

end
