(* ===== verification/Mem_Cluster.thy ===== *)
theory Mem_Cluster
  imports Kube_Helpers
begin

text \<open>
  One concrete API server, used to run the operator on small clusters: objects in lists,
  with the documented behaviour of the real one. Creating an object assigns its UID and
  its first generation; an existing name is refused; deleting an object with finalizers
  only sets its deletion timestamp; an object under deletion disappears when its last
  finalizer is removed, and no finalizer can be added to it; the status is written
  separately from the rest. Its random source is constant and its clock stands still. The properties of the operator do not depend on it: they hold
  for every server. It shows that their hypotheses can be met.
\<close>

record cluster =
  cl_pods :: "pod list"
  cl_sidekicks :: "sidekick list"
  cl_mws :: "manifest_work list"
  cl_secrets :: "secret list"
  cl_exports :: "service_export list"
  cl_snapshots :: "snapshot list"
  cl_namespaces :: "string list"
  cl_now :: int

definition empty_cluster :: cluster where
  "empty_cluster = \<lparr>cl_pods = [], cl_sidekicks = [], cl_mws = [], cl_secrets = [], cl_exports = [],
     cl_snapshots = [], cl_namespaces = [], cl_now = 0\<rparr>"

definition sameKey :: "'o kind \<Rightarrow> nsname \<Rightarrow> 'o \<Rightarrow> bool" where
  "sameKey K key x = (ObjectKeyFromMeta (kd_meta K x) = key)"

definition memGet :: "'o kind \<Rightarrow> nsname \<Rightarrow> 'o list \<Rightarrow> 'o res" where
  "memGet K key xs = (case find (sameKey K key) xs of None \<Rightarrow> Inl NotFound | Some x \<Rightarrow> Inr x)"

definition memCreate :: "'o kind \<Rightarrow> 'o \<Rightarrow> 'o list \<Rightarrow> 'o res \<times> 'o list" where
  "memCreate K x xs =
     (let key = ObjectKeyFromMeta (kd_meta K x);
          x' = kd_setMeta K ((kd_meta K x)\<lparr>om_UID := om_Name (kd_meta K x) @ ''-uid'', om_Generation := 1,
                 om_DeletionTimestamp := None\<rparr>) x
      in if list_ex (sameKey K key) xs then (Inl (ApiError ''AlreadyExists''), xs)
         else (Inr x', xs @ [x']))"

text \<open>A patch: \<open>set\<close> says which part of the stored object the request may change.\<close>

definition memPatch :: "'o kind \<Rightarrow> ('o \<Rightarrow> 'o \<Rightarrow> 'o) \<Rightarrow> 'o \<Rightarrow> 'o list \<Rightarrow> 'o res \<times> 'o list" where
  "memPatch K setp x xs =
     (let key = ObjectKeyFromMeta (kd_meta K x) in
      case find (sameKey K key) xs of
        None \<Rightarrow> (Inl NotFound, xs)
      | Some old \<Rightarrow>
          (let new = setp old x in
           if om_DeletionTimestamp (kd_meta K old) \<noteq> None \<and>
              \<not> set (om_Finalizers (kd_meta K new)) \<subseteq> set (om_Finalizers (kd_meta K old))
           then (Inl (ApiError ''Forbidden''), xs)
           else if om_DeletionTimestamp (kd_meta K old) \<noteq> None \<and> om_Finalizers (kd_meta K new) = []
           then (Inr new, filter (\<lambda>y. \<not> sameKey K key y) xs)
           else (Inr new, map (\<lambda>y. if sameKey K key y then new else y) xs)))"

definition memDelete :: "'o kind \<Rightarrow> nsname \<Rightarrow> 'o list \<Rightarrow> unit res \<times> 'o list" where
  "memDelete K key xs =
     (case find (sameKey K key) xs of
        None \<Rightarrow> (Inl NotFound, xs)
      | Some old \<Rightarrow>
          if om_Finalizers (kd_meta K old) = [] then (Inr (), filter (\<lambda>y. \<not> sameKey K key y) xs)
          else (Inr (), map (\<lambda>y. if sameKey K key y
                  then kd_setMeta K ((kd_meta K old)\<lparr>om_DeletionTimestamp := Some 1\<rparr>) old else y) xs))"

definition memOps :: "'o kind \<Rightarrow> ('o \<Rightarrow> 'o \<Rightarrow> 'o) \<Rightarrow> ('o \<Rightarrow> 'o \<Rightarrow> 'o) \<Rightarrow>
    (cluster \<Rightarrow> 'o list) \<Rightarrow> ('o list \<Rightarrow> cluster \<Rightarrow> cluster) \<Rightarrow> (cluster, 'o) ops" where
  "memOps K setMain setStatus rd wr =
      \<lparr>o_get = (\<lambda>key cl. (memGet K key (rd cl), cl)),
       o_create = (\<lambda>x cl. case memCreate K x (rd cl) of (r, xs) \<Rightarrow> (r, wr xs cl)),
       o_patch = (\<lambda>_ x cl. case memPatch K setMain x (rd cl) of (r, xs) \<Rightarrow> (r, wr xs cl)),
       o_delete = (\<lambda>key cl. case memDelete K key (rd cl) of (r, xs) \<Rightarrow> (r, wr xs cl)),
       o_status_patch = (\<lambda>_ x cl. case memPatch K setStatus x (rd cl) of (r, xs) \<Rightarrow> (r, wr xs cl)),
       o_status_update = (\<lambda>x cl. case memPatch K setStatus x (rd cl) of (r, xs) \<Rightarrow> (r, wr xs cl)),
       o_objectHash = (\<lambda>_. '''')\<rparr>"

definition selMatches :: "label_selector option \<Rightarrow> labels \<Rightarrow> bool" where
  "selMatches sel ls = (case sel of
     None \<Rightarrow> True
   | Some s \<Rightarrow> list_all (\<lambda>(k, v). gm_get ls k = Some v) (gm_entries (ls_MatchLabels s)))"

definition mem_kube :: "cluster kube" where
  "mem_kube = \<lparr>
     k_pods = memOps pod_kind (\<lambda>old x. x\<lparr>p_Status := p_Status old\<rparr>) (\<lambda>old x. old\<lparr>p_Status := p_Status x\<rparr>)
       cl_pods (\<lambda>xs cl. cl\<lparr>cl_pods := xs\<rparr>),
     k_sidekicks = memOps sidekick_kind (\<lambda>old x. x\<lparr>sk_Status := sk_Status old\<rparr>)
       (\<lambda>old x. old\<lparr>sk_Status := sk_Status x\<rparr>) cl_sidekicks (\<lambda>xs cl. cl\<lparr>cl_sidekicks := xs\<rparr>),
     k_mws = memOps mw_kind (\<lambda>old x. x\<lparr>mw_StatusManifests := mw_StatusManifests old\<rparr>)
       (\<lambda>old x. old\<lparr>mw_StatusManifests := mw_StatusManifests x\<rparr>) cl_mws (\<lambda>xs cl. cl\<lparr>cl_mws := xs\<rparr>),
     k_secrets = memOps secret_kind (\<lambda>old x. x) (\<lambda>old x. old) cl_secrets (\<lambda>xs cl. cl\<lparr>cl_secrets := xs\<rparr>),
     k_exports = memOps export_kind (\<lambda>old x. x) (\<lambda>old x. old) cl_exports (\<lambda>xs cl. cl\<lparr>cl_exports := xs\<rparr>),
     k_snapshots = memOps snapshot_kind (\<lambda>old x. old) (\<lambda>old x. x) cl_snapshots
       (\<lambda>xs cl. cl\<lparr>cl_snapshots := xs\<rparr>),
     k_listPods = (\<lambda>ns sel cl. (Inr (filter (\<lambda>p. om_Namespace (p_Meta p) = ns \<and>
       selMatches sel (om_Labels (p_Meta p))) (cl_pods cl)), cl)),
     k_listSidekicks = (\<lambda>ns cl. (Inr (filter (\<lambda>s. ns = None \<or> ns = Some (sk_Namespace s)) (cl_sidekicks cl)), cl)),
     k_listNamespaces = (\<lambda>cl. (Inr (cl_namespaces cl), cl)),
     k_ocmGet = (\<lambda>ns name cl. (memGet mw_kind \<lparr>nn_Namespace = ns, nn_Name = name\<rparr> (cl_mws cl), cl)),
     k_ocmList = (\<lambda>ns _ cl. (Inr (filter (\<lambda>m. om_Namespace (mw_Meta m) = ns) (cl_mws cl)), cl)),
     k_rand = (\<lambda>n cl. (Inr (replicate n (CHR ''r'')), cl)),
     k_now = (\<lambda>cl. (cl_now cl, cl))\<rparr>"

definition mem_world :: "cluster \<Rightarrow> (cluster, event) world" where
  "mem_world cl = \<lparr>w_env = cl, w_trace = []\<rparr>"

lemmas mem_defs = mem_kube_def memOps_def Let_def mem_world_def empty_cluster_def

lemmas mem_op_defs = memGet_def memCreate_def memPatch_def memDelete_def sameKey_def
  ObjectKeyFromMeta_def

end
