(* ===== verification/Go_Strings.thy ===== *)
theory Go_Strings
  imports Prelude
begin

text \<open>
  The parts of Go's \<open>strings\<close>, \<open>strconv\<close>, \<open>fmt\<close> and \<open>bufio\<close> packages the program uses, on
  byte strings: splitting and joining, prefixes, white space, lines, and decimal numbers.
  White space is the ASCII one; for text beyond ASCII Go also knows Unicode spaces.
\<close>

section \<open>Splitting and joining\<close>

text \<open>\<open>strings.Split\<close> and \<open>strings.Join\<close> with a separator of one byte.\<close>

fun splitOn :: "char \<Rightarrow> string \<Rightarrow> string list" where
  "splitOn sep [] = [[]]"
| "splitOn sep (c # cs) =
     (if c = sep then [] # splitOn sep cs
      else (case splitOn sep cs of [] \<Rightarrow> [[c]] | p # ps \<Rightarrow> (c # p) # ps))"

fun joinWith :: "char \<Rightarrow> string list \<Rightarrow> string" where
  "joinWith sep [] = []"
| "joinWith sep [p] = p"
| "joinWith sep (p # ps) = p @ sep # joinWith sep ps"

lemma splitOn_not_Nil [simp]: "splitOn sep s \<noteq> []"
  by (induction s) (auto split: list.splits)

lemma joinWith_Cons: "ps \<noteq> [] \<Longrightarrow> joinWith sep (p # ps) = p @ sep # joinWith sep ps"
  by (cases ps) auto

lemma joinWith_splitOn [simp]: "joinWith sep (splitOn sep s) = s"
proof (induction s)
  case Nil
  then show ?case by simp
next
  case (Cons c cs)
  obtain p ps where p: "splitOn sep cs = p # ps" using splitOn_not_Nil list.exhaust by metis
  then show ?case using Cons by (cases ps) auto
qed

lemma splitOn_single: "sep \<notin> set s \<Longrightarrow> splitOn sep s = [s]"
  by (induction s) auto

lemma splitOn_append: "splitOn sep (s @ sep # t) = splitOn sep s @ splitOn sep t"
  by (induction s) (auto split: list.splits)

section \<open>Prefixes, white space and lines\<close>

definition hasPrefix :: "string \<Rightarrow> string \<Rightarrow> bool" where
  "hasPrefix p s = (take (length p) s = p)"

definition trimPrefix :: "string \<Rightarrow> string \<Rightarrow> string" where
  "trimPrefix p s = (if hasPrefix p s then drop (length p) s else s)"

definition isSpace :: "char \<Rightarrow> bool" where
  "isSpace c = (c \<in> {CHR 0x09, CHR 0x0A, CHR 0x0B, CHR 0x0C, CHR 0x0D, CHR '' ''})"

definition trimSpace :: "string \<Rightarrow> string" where
  "trimSpace s = rev (dropWhile isSpace (rev (dropWhile isSpace s)))"

text \<open>\<open>strings.FieldsSeq\<close>: the maximal runs without white space.\<close>

fun fieldsFrom :: "string \<Rightarrow> string \<Rightarrow> string list" where
  "fieldsFrom acc [] = (if acc = [] then [] else [rev acc])"
| "fieldsFrom acc (c # cs) =
     (if isSpace c then (if acc = [] then fieldsFrom [] cs else rev acc # fieldsFrom [] cs)
      else fieldsFrom (c # acc) cs)"

definition strFields :: "string \<Rightarrow> string list" where
  "strFields s = fieldsFrom [] s"

lemma fieldsFrom_word:
  "list_all (\<lambda>c. \<not> isSpace c) w \<Longrightarrow> fieldsFrom acc (w @ s) = fieldsFrom (rev w @ acc) s"
  by (induction w arbitrary: acc) auto

lemma hasPrefix_append [simp]: "hasPrefix p (p @ s)"
  by (simp add: hasPrefix_def)

lemma trimPrefix_append [simp]: "trimPrefix p (p @ s) = s"
  by (simp add: trimPrefix_def)

text \<open>
  \<open>bufio.Scanner\<close> over lines: a trailing carriage return is dropped, text after the last
  line break counts as a line unless it is empty, and a line of 64 KiB or more stops the
  scan with an error (\<open>None\<close> here).
\<close>

definition dropCR :: "string \<Rightarrow> string" where
  "dropCR s = (if s \<noteq> [] \<and> last s = CHR 0x0D then butlast s else s)"

definition scanLines :: "string \<Rightarrow> string option list" where
  "scanLines s =
     (let ls = splitOn (CHR 0x0A) s;
          ls' = (if last ls = [] then butlast ls else ls);
          short = takeWhile (\<lambda>l. length l < 65536) ls'
      in map (Some \<circ> dropCR) short @ (if short = ls' then [] else [None]))"

lemma scanLines_first:
  assumes "CHR 0x0A \<notin> set line" "length line < 65536"
  shows "\<exists>more. scanLines (line @ CHR 0x0A # rest) = Some (dropCR line) # more"
proof -
  let ?ls = "splitOn (CHR 0x0A) rest"
  let ?tl = "if last ?ls = [] then butlast ?ls else ?ls"
  have sp: "splitOn (CHR 0x0A) (line @ CHR 0x0A # rest) = line # ?ls"
    by (simp only: splitOn_append splitOn_single [OF assms(1)]) simp
  have "(if last (line # ?ls) = [] then butlast (line # ?ls) else line # ?ls) = line # ?tl"
    by simp
  then show ?thesis
    unfolding scanLines_def Let_def sp using assms(2) by simp
qed

section \<open>Decimal numbers\<close>

definition isDigit :: "char \<Rightarrow> bool" where
  "isDigit ch = (ch \<in> set ''0123456789'')"

text \<open>\<open>strconv.Atoi\<close> on a string of digits, its error ignored: out of range gives the largest int.\<close>

definition digitVal :: "char \<Rightarrow> int" where
  "digitVal ch = int (of_char ch) - 48"

definition atoi :: "string \<Rightarrow> int" where
  "atoi ds = min (foldl (\<lambda>n ch. 10 * n + digitVal ch) 0 ds) (2 ^ 63 - 1)"

definition digitChar :: "nat \<Rightarrow> char" where
  "digitChar d = char_of (48 + d)"

fun showNat :: "nat \<Rightarrow> string" where
  "showNat n = (if n < 10 then [digitChar n] else showNat (n div 10) @ [digitChar (n mod 10)])"

declare showNat.simps [simp del]

definition showInt :: "int \<Rightarrow> string" where
  "showInt i = (if i < 0 then CHR ''-'' # showNat (nat (- i)) else showNat (nat i))"

end
