(* ===== verification/Leader.thy ===== *)
theory Leader
  imports Mem_Cluster Go_Strings "HOL-Library.Multiset"
begin

text \<open>
  The choice of the leader pod: \<open>getLeader\<close> of \<open>sidekick_controller.go\<close> with the comparison of
  pod names by their ordinal, which \<open>findDistributedLeader\<close> shares. \<open>sort.Slice\<close> is a
  parameter known by its documented contract (a permutation, sorted when the comparison is
  a strict weak order); the insertion sort that Go uses up to 12 elements is defined and
  shown to meet the contract.
\<close>

section \<open>Ordinals of pod names\<close>

text \<open>
  \<open>regexp.MustCompile(".*-(\d+)").FindStringSubmatch\<close>, second entry. The greedy \<open>.*\<close> makes
  the match use the last dash that is followed by a digit; a dot does not match a newline,
  so the match lies in the first line that has such a dash. The pattern is not anchored:
  text may follow the digits.
\<close>

fun lastOrdinal :: "string \<Rightarrow> string option" where
  "lastOrdinal [] = None"
| "lastOrdinal (ch # cs) =
     (case lastOrdinal cs of
        Some d \<Rightarrow> Some d
      | None \<Rightarrow> (if ch = CHR ''-'' \<and> cs \<noteq> [] \<and> isDigit (hd cs) then Some (takeWhile isDigit cs) else None))"

fun splitLines :: "string \<Rightarrow> string \<Rightarrow> string list" where
  "splitLines acc [] = [rev acc]"
| "splitLines acc (ch # cs) =
     (if ch = CHR 0x0A then rev acc # splitLines [] cs else splitLines (ch # acc) cs)"

definition findOrdinal :: "string \<Rightarrow> string option" where
  "findOrdinal s = (case List.map_filter lastOrdinal (splitLines [] s) of [] \<Rightarrow> None | d # _ \<Rightarrow> Some d)"

text \<open>The comparison given to \<open>sort.Slice\<close>.\<close>

definition leaderLess :: "pod \<Rightarrow> pod \<Rightarrow> bool" where
  "leaderLess a b =
     (case (findOrdinal (p_Name a), findOrdinal (p_Name b)) of
        (Some oi, Some oj) \<Rightarrow> atoi oi < atoi oj
      | _ \<Rightarrow> p_Name a < p_Name b)"

section \<open>Sorting\<close>

definition strict_weak :: "('a \<Rightarrow> 'a \<Rightarrow> bool) \<Rightarrow> 'a set \<Rightarrow> bool" where
  "strict_weak lt A \<longleftrightarrow>
     (\<forall>a \<in> A. \<forall>b \<in> A. lt a b \<longrightarrow> \<not> lt b a) \<and>
     (\<forall>a \<in> A. \<forall>b \<in> A. \<forall>c \<in> A. \<not> lt a b \<longrightarrow> \<not> lt b c \<longrightarrow> \<not> lt a c)"

text \<open>The contract of \<open>sort.Slice\<close>.\<close>

locale slice_sort =
  fixes srt :: "('a \<Rightarrow> 'a \<Rightarrow> bool) \<Rightarrow> 'a list \<Rightarrow> 'a list"
  assumes srt_mset: "mset (srt lt xs) = mset xs"
    and srt_sorted: "strict_weak lt (set xs) \<Longrightarrow> sorted_wrt (\<lambda>a b. \<not> lt b a) (srt lt xs)"
begin

lemma srt_set: "set (srt lt xs) = set xs"
  by (metis srt_mset set_mset_mset)

lemma srt_Nil_iff: "srt lt xs = [] \<longleftrightarrow> xs = []"
  by (metis srt_set set_empty)

lemma srt_hd_mem: "xs \<noteq> [] \<Longrightarrow> hd (srt lt xs) \<in> set xs"
  by (metis hd_in_set srt_Nil_iff srt_set)

lemma srt_last_mem: "xs \<noteq> [] \<Longrightarrow> last (srt lt xs) \<in> set xs"
  by (metis last_in_set srt_Nil_iff srt_set)

lemma srt_hd_min:
  assumes "strict_weak lt (set xs)" "x \<in> set xs"
  shows "\<not> lt x (hd (srt lt xs))"
proof -
  from assms(2) obtain y ys where eq: "srt lt xs = y # ys"
    by (metis empty_iff list.exhaust list.set(1) srt_Nil_iff)
  with srt_sorted [OF assms(1)] have "\<forall>z \<in> set ys. \<not> lt z y" by simp
  moreover have "\<not> lt y y"
    using assms(1) eq srt_set [of lt xs] by (auto simp: strict_weak_def)
  ultimately show ?thesis
    using assms(2) eq srt_set [of lt xs] by auto
qed

lemma srt_last_max:
  assumes "strict_weak lt (set xs)" "x \<in> set xs"
  shows "\<not> lt (last (srt lt xs)) x"
proof -
  from assms(2) obtain ys y where eq: "srt lt xs = ys @ [y]"
    by (metis empty_iff list.set(1) rev_exhaust srt_Nil_iff)
  with srt_sorted [OF assms(1)] have "\<forall>z \<in> set ys. \<not> lt y z" by (simp add: sorted_wrt_append)
  moreover have "\<not> lt y y"
    using assms(1) eq srt_set [of lt xs] by (auto simp: strict_weak_def)
  ultimately show ?thesis
    using assms(2) eq srt_set [of lt xs] by auto
qed

end

text \<open>
  Go's \<open>insertionSort\<close>: each element moves left past the elements it is less than. The
  sorted prefix is kept reversed, the element just before the new one first.
\<close>

fun insertLeft :: "('a \<Rightarrow> 'a \<Rightarrow> bool) \<Rightarrow> 'a \<Rightarrow> 'a list \<Rightarrow> 'a list" where
  "insertLeft lt x [] = [x]"
| "insertLeft lt x (y # ys) = (if lt x y then y # insertLeft lt x ys else x # y # ys)"

definition insertionSort :: "('a \<Rightarrow> 'a \<Rightarrow> bool) \<Rightarrow> 'a list \<Rightarrow> 'a list" where
  "insertionSort lt xs = rev (fold (insertLeft lt) xs [])"

lemma mset_insertLeft: "mset (insertLeft lt x ys) = add_mset x (mset ys)"
  by (induction ys) auto

lemma set_insertLeft [simp]: "set (insertLeft lt x ys) = insert x (set ys)"
  by (metis mset_insertLeft set_mset_add_mset_insert set_mset_mset)

lemma mset_fold_insertLeft: "mset (fold (insertLeft lt) xs ys) = mset xs + mset ys"
  by (induction xs arbitrary: ys) (auto simp: mset_insertLeft)

lemma sorted_insertLeft:
  assumes "strict_weak lt A" "x \<in> A" "set ys \<subseteq> A" "sorted_wrt (\<lambda>a b. \<not> lt a b) ys"
  shows "sorted_wrt (\<lambda>a b. \<not> lt a b) (insertLeft lt x ys)"
  using assms(3,4)
proof (induction ys)
  case Nil
  then show ?case by simp
next
  case (Cons y ys)
  show ?case
  proof (cases "lt x y")
    case True
    have yA: "y \<in> A" using Cons.prems(1) by simp
    have asym: "lt a b \<longrightarrow> \<not> lt b a" if "a \<in> A" "b \<in> A" for a b
      using assms(1) that unfolding strict_weak_def by blast
    from asym [OF assms(2) yA] True have "\<not> lt y x" by blast
    moreover have "sorted_wrt (\<lambda>a b. \<not> lt a b) (insertLeft lt x ys)"
      using Cons.prems by (intro Cons.IH) simp_all
    ultimately show ?thesis using True Cons.prems(2) by simp
  next
    case False
    have "\<not> lt x z" if "z \<in> set ys" for z
    proof -
      have "y \<in> A" "z \<in> A" "\<not> lt y z" using Cons.prems that by auto
      with False assms(1,2) show ?thesis unfolding strict_weak_def by blast
    qed
    with False Cons.prems show ?thesis by simp
  qed
qed

lemma sorted_fold_insertLeft:
  assumes "strict_weak lt A" "set xs \<subseteq> A" "set ys \<subseteq> A" "sorted_wrt (\<lambda>a b. \<not> lt a b) ys"
  shows "sorted_wrt (\<lambda>a b. \<not> lt a b) (fold (insertLeft lt) xs ys)"
  using assms(2-4)
proof (induction xs arbitrary: ys)
  case Nil
  then show ?case by simp
next
  case (Cons x xs)
  then show ?case using sorted_insertLeft [OF assms(1)] by simp
qed

interpretation go_sort: slice_sort insertionSort
proof
  show "mset (insertionSort lt xs) = mset xs" for lt and xs :: "'a list"
    by (simp add: insertionSort_def mset_fold_insertLeft)
  show "sorted_wrt (\<lambda>a b. \<not> lt b a) (insertionSort lt xs)" if "strict_weak lt (set xs)"
    for lt and xs :: "'a list"
    using sorted_fold_insertLeft [OF that, of xs "[]"]
    by (simp add: insertionSort_def sorted_wrt_rev)
qed

section \<open>\<open>getLeader\<close>\<close>

text \<open>
  The last part of \<open>getLeader\<close>, on the listed pods: only running pods qualify; none is a
  NotFound error; a single one is taken as it is; several are sorted, and the selection
  policy picks the first or the last.
\<close>

definition selectLeader ::
    "((pod \<Rightarrow> pod \<Rightarrow> bool) \<Rightarrow> pod list \<Rightarrow> pod list) \<Rightarrow> LeaderSelectionPolicy \<Rightarrow> pod list \<Rightarrow> pod res" where
  "selectLeader srt policy items =
     (let leaders = filter (\<lambda>pod. p_Phase pod = PodRunning) items in
      case leaders of
        [] \<Rightarrow> Inl NotFound
      | [pod] \<Rightarrow> Inr pod
      | _ \<Rightarrow> (let sorted = srt leaderLess leaders in
              if policy = PodSelectionPolicyFirst then Inr (hd sorted) else Inr (last sorted)))"

text \<open>
  \<open>selCheck\<close> is \<open>metav1.LabelSelectorAsSelector\<close>, of which only the error matters here: the
  selector itself goes to the API server.
\<close>

definition getLeader ::
    "((pod \<Rightarrow> pod \<Rightarrow> bool) \<Rightarrow> pod list \<Rightarrow> pod list) \<Rightarrow> (label_selector \<Rightarrow> unit res) \<Rightarrow>
     'e kube \<Rightarrow> sidekick \<Rightarrow> ('e, event, pod res) go" where
  "getLeader srt selCheck c sk =
     (let ld = ss_Leader (sk_Spec sk) in
      if ld_Name ld \<noteq> ''''
      then kGet pod_kind (k_pods c) \<lparr>nn_Namespace = sk_Namespace sk, nn_Name = ld_Name ld\<rparr>
      else (case (case ld_Selector ld of None \<Rightarrow> Inr () | Some s \<Rightarrow> selCheck s) of
              Inl e \<Rightarrow> ret (Inl e)
            | Inr _ \<Rightarrow> do {
                r \<leftarrow> listPods c (sk_Namespace sk) (ld_Selector ld);
                (case r of
                   Inl e \<Rightarrow> ret (Inl e)
                 | Inr items \<Rightarrow> ret (selectLeader srt (ld_SelectionPolicy ld) items))
              }))"

lemma emits_getLeader [emits_rules]:
  assumes "\<And>k b. p (EvPod (RGet k) b)" "\<And>ns sel b. p (EvListPods ns sel b)"
  shows "emits p (getLeader srt selCheck c sk)"
  unfolding getLeader_def by (intro emits_rules) (simp_all add: assms)

section \<open>Properties of the choice\<close>

text \<open>Comparison by ordinal is a strict weak order on pods whose names all have one.\<close>

definition ordinalNamed :: "pod \<Rightarrow> bool" where
  "ordinalNamed p = (findOrdinal (p_Name p) \<noteq> None)"

definition podOrdinal :: "pod \<Rightarrow> int" where
  "podOrdinal p = (case findOrdinal (p_Name p) of None \<Rightarrow> 0 | Some d \<Rightarrow> atoi d)"

lemma leaderLess_ordinal:
  "ordinalNamed a \<Longrightarrow> ordinalNamed b \<Longrightarrow> leaderLess a b \<longleftrightarrow> podOrdinal a < podOrdinal b"
  by (auto simp: leaderLess_def ordinalNamed_def podOrdinal_def split: option.splits)

lemma strict_weak_leaderLess: "Ball A ordinalNamed \<Longrightarrow> strict_weak leaderLess A"
  by (auto simp: strict_weak_def leaderLess_ordinal)

text \<open>The ordinal of a name \<open>base-digits\<close> is the number after the last dash.\<close>

lemma lastOrdinal_digits: "list_all isDigit ds \<Longrightarrow> lastOrdinal ds = None"
  by (induction ds) (auto simp: isDigit_def split: option.splits)

lemma lastOrdinal_append: "lastOrdinal ys = Some d \<Longrightarrow> lastOrdinal (xs @ ys) = Some d"
  by (induction xs) auto

lemma splitLines_one: "CHR 0x0A \<notin> set s \<Longrightarrow> splitLines acc s = [rev acc @ s]"
  by (induction s arbitrary: acc) auto

lemma isDigit_not_newline: "isDigit ch \<Longrightarrow> ch \<noteq> CHR 0x0A"
  by (auto simp: isDigit_def)

lemma findOrdinal_statefulset:
  assumes "list_all isDigit ds" "ds \<noteq> []" "CHR 0x0A \<notin> set base"
  shows "findOrdinal (base @ ''-'' @ ds) = Some ds"
proof -
  from assms(1) have tw: "takeWhile isDigit ds = ds"
    by (simp add: list_all_iff takeWhile_eq_all_conv)
  have "isDigit (hd ds)" using assms(1,2) by (cases ds) auto
  then have "lastOrdinal (''-'' @ ds) = Some ds"
    using assms(1,2) by (simp add: lastOrdinal_digits tw)
  then have "lastOrdinal (base @ ''-'' @ ds) = Some ds" by (rule lastOrdinal_append)
  moreover have "CHR 0x0A \<notin> set (base @ ''-'' @ ds)"
    using assms(1,3) isDigit_not_newline by (auto simp: list_all_iff)
  then have "splitLines [] (base @ ''-'' @ ds) = [base @ ''-'' @ ds]"
    by (simp add: splitLines_one)
  ultimately show ?thesis by (simp add: findOrdinal_def List.map_filter_simps)
qed

lemma selectLeader_Inr:
  assumes srt: "slice_sort srt" and sel: "selectLeader srt policy items = Inr leader"
  shows "leader \<in> set items \<and> p_Phase leader = PodRunning"
proof -
  let ?ls = "filter (\<lambda>pod. p_Phase pod = PodRunning) items"
  have "leader \<in> set ?ls"
  proof (cases ?ls)
    case Nil
    with sel show ?thesis by (simp add: selectLeader_def)
  next
    case (Cons x xs)
    then have "hd (srt leaderLess ?ls) \<in> set ?ls" "last (srt leaderLess ?ls) \<in> set ?ls"
      using slice_sort.srt_hd_mem [OF srt] slice_sort.srt_last_mem [OF srt] by (metis list.discI)+
    with sel Cons show ?thesis
      by (auto simp: selectLeader_def Let_def split: list.splits if_splits)
  qed
  then show ?thesis by simp
qed

lemma selectLeader_order:
  assumes srt: "slice_sort srt" and sel: "selectLeader srt policy items = Inr leader"
    and named: "\<forall>p \<in> set items. p_Phase p = PodRunning \<longrightarrow> ordinalNamed p"
    and p: "p \<in> set items" "p_Phase p = PodRunning"
  shows "if policy = PodSelectionPolicyFirst then podOrdinal leader \<le> podOrdinal p
         else podOrdinal p \<le> podOrdinal leader"
proof -
  let ?ls = "filter (\<lambda>pod. p_Phase pod = PodRunning) items"
  have swo: "strict_weak leaderLess (set ?ls)"
    using named by (intro strict_weak_leaderLess) auto
  have mem: "p \<in> set ?ls" using p by simp
  have lead: "ordinalNamed leader" "ordinalNamed p"
    using selectLeader_Inr [OF srt sel] named p by auto
  consider (one) "?ls = [leader]" | (first) "policy = PodSelectionPolicyFirst" "leader = hd (srt leaderLess ?ls)"
    | (lst) "policy \<noteq> PodSelectionPolicyFirst" "leader = last (srt leaderLess ?ls)"
    using sel by (auto simp: selectLeader_def Let_def split: list.splits if_splits)
  then show ?thesis
  proof cases
    case one
    with mem show ?thesis by simp
  next
    case first
    with slice_sort.srt_hd_min [OF srt swo mem] lead show ?thesis by (simp add: leaderLess_ordinal)
  next
    case lst
    with slice_sort.srt_last_max [OF srt swo mem] lead show ?thesis by (simp add: leaderLess_ordinal)
  qed
qed

text \<open>
  Property C21. When no leader is named, whatever the API server answers, a leader that is
  found is one of the listed pods and is running; and when the names of the running pods
  all carry an ordinal, the First policy takes a lowest and any other policy a highest one.
\<close>

theorem getLeader_picks:
  assumes "slice_sort srt" and "ld_Name (ss_Leader (sk_Spec sk)) = ''''"
    and "run_state (getLeader srt selCheck c sk) w = (Inr leader, w')"
  shows "\<exists>items e'. k_listPods c (sk_Namespace sk) (ld_Selector (ss_Leader (sk_Spec sk))) (w_env w) = (Inr items, e') \<and>
    leader \<in> set items \<and> p_Phase leader = PodRunning \<and>
    ((\<forall>p \<in> set items. p_Phase p = PodRunning \<longrightarrow> ordinalNamed p) \<longrightarrow>
     (\<forall>p \<in> set items. p_Phase p = PodRunning \<longrightarrow>
        (if ld_SelectionPolicy (ss_Leader (sk_Spec sk)) = PodSelectionPolicyFirst
         then podOrdinal leader \<le> podOrdinal p else podOrdinal p \<le> podOrdinal leader)))"
proof -
  let ?list = "k_listPods c (sk_Namespace sk) (ld_Selector (ss_Leader (sk_Spec sk))) (w_env w)"
  obtain items where items: "fst ?list = Inr items"
    "selectLeader srt (ld_SelectionPolicy (ss_Leader (sk_Spec sk))) items = Inr leader"
    using assms(2,3)
    by (auto simp: getLeader_def Let_def listPods_def run_api_call split: sum.splits)
  from items(1) have "?list = (Inr items, snd ?list)" by (metis prod.collapse)
  moreover note selectLeader_Inr [OF assms(1) items(2)] selectLeader_order [OF assms(1) items(2)]
  ultimately show ?thesis by blast
qed

text \<open>
  When some of the running pods have an ordinal in their name and some have
  not, the comparison has cycles, and which pod the First policy picks depends on the order
  in which the API server lists the pods.
\<close>

theorem leader_depends_on_list_order:
  "\<exists>items items' leader leader'. mset items = mset items' \<and>
     selectLeader insertionSort PodSelectionPolicyFirst items = Inr leader \<and>
     selectLeader insertionSort PodSelectionPolicyFirst items' = Inr leader' \<and>
     p_Name leader \<noteq> p_Name leader'"
proof -
  let ?a = "sample_pod ''a-10'' ''1'' ''n'' PodRunning"
  let ?b = "sample_pod ''b'' ''2'' ''n'' PodRunning"
  let ?c = "sample_pod ''c-2'' ''3'' ''n'' PodRunning"
  note defs = leaderLess_def findOrdinal_def List.map_filter_simps isDigit_def atoi_def digitVal_def
    sample_pod_def sample_meta_def zero_pod_status_def zero_meta_def
  have less: "leaderLess ?a ?b" "\<not> leaderLess ?b ?a" "leaderLess ?b ?c" "\<not> leaderLess ?c ?b"
    "leaderLess ?c ?a" "\<not> leaderLess ?a ?c"
    by (simp_all add: defs)
  have run: "p_Phase (sample_pod n u m PodRunning) = PodRunning" for n u m
    by (simp add: sample_defs)
  have "selectLeader insertionSort PodSelectionPolicyFirst [?a, ?b, ?c] = Inr ?a"
    by (simp add: selectLeader_def run insertionSort_def less)
  moreover have "selectLeader insertionSort PodSelectionPolicyFirst [?b, ?c, ?a] = Inr ?b"
    by (simp add: selectLeader_def run insertionSort_def less)
  moreover have "mset [?a, ?b, ?c] = mset [?b, ?c, ?a]" by simp
  moreover have "p_Name ?a \<noteq> p_Name ?b" by (simp add: sample_defs)
  ultimately show ?thesis by blast
qed

text \<open>
  The ordinal of a StatefulSet-style name is the number after its last dash,
  capped at the largest 64-bit integer.
\<close>

theorem podOrdinal_statefulset:
  assumes "list_all isDigit ds" "ds \<noteq> []" "CHR 0x0A \<notin> set base"
    and "p_Name p = base @ ''-'' @ ds"
  shows "ordinalNamed p \<and> podOrdinal p = atoi ds"
  using findOrdinal_statefulset [OF assms(1-3)] assms(4)
  by (simp add: ordinalNamed_def podOrdinal_def)

theorem podOrdinal_statefulset_witness:
  "podOrdinal (sample_pod ''db-12'' ''u'' ''n'' PodRunning) = 12"
proof -
  have "podOrdinal (sample_pod ''db-12'' ''u'' ''n'' PodRunning) = atoi ''12''"
    using podOrdinal_statefulset [of "''12''" "''db''" "sample_pod ''db-12'' ''u'' ''n'' PodRunning"]
    by (simp add: isDigit_def sample_defs)
  then show ?thesis by (simp add: atoi_def digitVal_def)
qed

text \<open>Two running pods of a StatefulSet: the First policy takes the one with ordinal 0.\<close>

definition leading_sidekick :: sidekick where
  "leading_sidekick = (sample_sidekick RestartPolicyAlways)\<lparr>sk_Spec := zero_sidekick_spec\<lparr>
     ss_Leader := \<lparr>ld_Name = '''', ld_Selector = Some \<lparr>ls_MatchLabels = None, ls_MatchExpressions = []\<rparr>,
       ld_SelectionPolicy = PodSelectionPolicyFirst\<rparr>\<rparr>\<rparr>"

definition leading_world :: "(cluster, event) world" where
  "leading_world = mem_world (empty_cluster\<lparr>cl_pods :=
     [sample_pod ''db-1'' ''u1'' ''node-b'' PodRunning, sample_pod ''db-0'' ''u0'' ''node-a'' PodRunning]\<rparr>)"

theorem getLeader_picks_witness:
  "\<exists>leader w'. run_state (getLeader insertionSort (\<lambda>_. Inr ()) mem_kube leading_sidekick) leading_world = (Inr leader, w') \<and>
     p_Phase leader = PodRunning \<and>
     leader \<in> {sample_pod ''db-1'' ''u1'' ''node-b'' PodRunning, sample_pod ''db-0'' ''u0'' ''node-a'' PodRunning}"
proof -
  have list: "k_listPods mem_kube (sk_Namespace leading_sidekick) (ld_Selector (ss_Leader (sk_Spec leading_sidekick)))
      (w_env leading_world) =
      (Inr [sample_pod ''db-1'' ''u1'' ''node-b'' PodRunning, sample_pod ''db-0'' ''u0'' ''node-a'' PodRunning], w_env leading_world)"
    by (simp add: leading_sidekick_def leading_world_def mem_defs selMatches_def sample_defs)
  obtain leader w' where run: "run_state (getLeader insertionSort (\<lambda>_. Inr ()) mem_kube leading_sidekick) leading_world = (Inr leader, w')"
    using list by (simp add: getLeader_def listPods_def run_api_call leading_sidekick_def selectLeader_def Let_def
        sample_defs)
  have "ld_Name (ss_Leader (sk_Spec leading_sidekick)) = ''''" by (simp add: leading_sidekick_def)
  from getLeader_picks [OF go_sort.slice_sort_axioms this run] list run show ?thesis by auto
qed

end
