(* ===== verification/Sidekick_Controller.thy ===== *)
theory Sidekick_Controller
  imports Pod_Builder Sidekick_Phase Leader Mem_Cluster
begin

text \<open>
  \<open>pod.go\<close>, the finalizer handling of \<open>sidekick.go\<close> and the reconciliation of a Sidekick in
  its own cluster (\<open>sidekick_controller.go\<close>). The dispatch on \<open>spec.distributed\<close> follows in
  the theory of the whole reconciler.
\<close>

section \<open>Third-party code as parameters\<close>

text \<open>
  The hash behind \<open>GenerationHash\<close>, the merge of two volumes, \<open>sort.Slice\<close>, and the check
  \<open>metav1.LabelSelectorAsSelector\<close> makes of a selector.
\<close>

record params =
  pr_hash :: "hash_input \<Rightarrow> string"
  pr_merge :: "volume \<Rightarrow> volume \<Rightarrow> volume"
  pr_sort :: "(pod \<Rightarrow> pod \<Rightarrow> bool) \<Rightarrow> pod list \<Rightarrow> pod list"
  pr_selCheck :: "label_selector \<Rightarrow> unit res"

record ctrl_result =
  Requeue :: bool
  RequeueAfter :: int

abbreviation emptyResult :: ctrl_result where
  "emptyResult \<equiv> \<lparr>Requeue = False, RequeueAfter = 0\<rparr>"

type_synonym reconcile_result = "ctrl_result \<times> goerr option"

section \<open>Pods\<close>

definition deletionInitiatorKey :: string where
  "deletionInitiatorKey = ''sidekick.appscode.com/deletion-initiator''"

definition deletionInitiatesBySidekickOperator :: string where
  "deletionInitiatesBySidekickOperator = ''sidekick-operator''"

definition markInitiator :: "pod \<Rightarrow> pod" where
  "markInitiator p = p\<lparr>p_Meta := (p_Meta p)\<lparr>om_Annotations :=
     gm_set deletionInitiatorKey deletionInitiatesBySidekickOperator (gm_make (om_Annotations (p_Meta p)))\<rparr>\<rparr>"

definition setDeletionInitiatorAnnotation :: "'e kube \<Rightarrow> pod \<Rightarrow> ('e, event, pod res) go" where
  "setDeletionInitiatorAnnotation c pod = do {
     r \<leftarrow> CreateOrPatch pod_kind (k_pods c) pod (\<lambda>p _. markInitiator p);
     (case r of Inl e \<Rightarrow> ret (Inl e) | Inr (_, pod') \<Rightarrow> ret (Inr pod'))
   }"

definition deletePod :: "'e kube \<Rightarrow> pod \<Rightarrow> ('e, event, unit res) go" where
  "deletePod c pod = do {
     r \<leftarrow> setDeletionInitiatorAnnotation c pod;
     (case r of
        Inl e \<Rightarrow> ret (Inl e)
      | Inr pod' \<Rightarrow> kDelete pod_kind (k_pods c) (ObjectKeyFromMeta (p_Meta pod')))
   }"

definition removePodFinalizer :: "'e kube \<Rightarrow> pod \<Rightarrow> ('e, event, unit res) go" where
  "removePodFinalizer c pod = do {
     r \<leftarrow> CreateOrPatch pod_kind (k_pods c) pod
            (\<lambda>p _. p\<lparr>p_Meta := RemoveFinalizer (p_Meta p) getFinalizerName\<rparr>);
     (case r of
        Inl e \<Rightarrow> (case IgnoreNotFound e of None \<Rightarrow> ret (Inr ()) | Some e' \<Rightarrow> ret (Inl e'))
      | Inr _ \<Rightarrow> ret (Inr ()))
   }"

text \<open>
  The failure of a pod that somebody else deleted is counted in the status of its Sidekick,
  unless the Sidekick is gone or being deleted itself.
\<close>

definition countExternalDeletion :: "'e kube \<Rightarrow> nsname \<Rightarrow> pod \<Rightarrow> ('e, event, unit res) go" where
  "countExternalDeletion c req pod =
     (if gm_get (om_Annotations (p_Meta pod)) deletionInitiatorKey \<noteq> None then ret (Inr ())
      else do {
        r \<leftarrow> kGet sidekick_kind (k_sidekicks c) req;
        (case r of
           Inl e \<Rightarrow> if IsNotFound e then ret (Inr ()) else ret (Inl e)
         | Inr sk \<Rightarrow>
             if sk_Deleting sk then ret (Inr ())
             else do {
               r2 \<leftarrow> updateSidekickStatus c (setFailure (p_UID pod) True sk);
               (case r2 of
                  Inl e \<Rightarrow> if IsNotFound e then ret (Inr ()) else ret (Inl e)
                | Inr _ \<Rightarrow> ret (Inr ()))
             })
      })"

definition removePodFinalizerIfMarkedForDeletion :: "'e kube \<Rightarrow> nsname \<Rightarrow> ('e, event, bool res) go" where
  "removePodFinalizerIfMarkedForDeletion c req = do {
     r \<leftarrow> kGet pod_kind (k_pods c) req;
     (case r of
        Inl e \<Rightarrow> if IsNotFound e then ret (Inr False) else ret (Inl e)
      | Inr pod \<Rightarrow>
          if \<not> p_Deleting pod then ret (Inr False)
          else do {
            r1 \<leftarrow> countExternalDeletion c req pod;
            (case r1 of
               Inl e \<Rightarrow> ret (Inl e)
             | Inr _ \<Rightarrow>
                 if HasFinalizer (p_Meta pod) getFinalizerName then do {
                   r2 \<leftarrow> removePodFinalizer c pod;
                   (case r2 of Inl e \<Rightarrow> ret (Inl e) | Inr _ \<Rightarrow> ret (Inr True))
                 }
                 else ret (Inr False))
          })
   }"

section \<open>The Sidekick's own finalizer\<close>

definition terminate :: "'e kube \<Rightarrow> sidekick \<Rightarrow> ('e, event, sidekick res) go" where
  "terminate c sk = do {
     r \<leftarrow> kDelete pod_kind (k_pods c) (ObjectKeyFromMeta (sk_Meta sk));
     (case (case r of Inl e \<Rightarrow> if IsNotFound e then Inr () else Inl e | Inr u \<Rightarrow> Inr u) of
        Inl e \<Rightarrow> ret (Inl e)
      | Inr _ \<Rightarrow> do {
          r2 \<leftarrow> CreateOrPatch sidekick_kind (k_sidekicks c) sk
                  (\<lambda>s _. s\<lparr>sk_Meta := RemoveFinalizer (sk_Meta s) getFinalizerName\<rparr>);
          (case r2 of Inl e \<Rightarrow> ret (Inl e) | Inr (_, sk') \<Rightarrow> ret (Inr sk'))
        })
   }"

definition handleSidekickFinalizer :: "'e kube \<Rightarrow> sidekick \<Rightarrow> ('e, event, sidekick res) go" where
  "handleSidekickFinalizer c sk =
     (if sk_Deleting sk \<and> HasFinalizer (sk_Meta sk) getFinalizerName then terminate c sk
      else do {
        r \<leftarrow> CreateOrPatch sidekick_kind (k_sidekicks c) sk
               (\<lambda>s _. s\<lparr>sk_Meta := AddFinalizer (sk_Meta s) getFinalizerName\<rparr>);
        (case r of Inl e \<Rightarrow> ret (Inl e) | Inr (_, sk') \<Rightarrow> ret (Inr sk'))
      })"

section \<open>Reconciling a local Sidekick\<close>

definition podNeedsRecreate :: "(hash_input \<Rightarrow> string) \<Rightarrow> sidekick \<Rightarrow> pod \<Rightarrow> pod \<Rightarrow> bool" where
  "podNeedsRecreate h sk leader pod \<longleftrightarrow>
     gm_str (om_Annotations (p_Meta pod)) keyHash \<noteq> GenerationHash h (sk_Meta sk) \<or>
     gm_str (om_Annotations (p_Meta pod)) keyLeader \<noteq> p_Name leader \<or>
     p_NodeName pod \<noteq> p_NodeName leader \<or>
     (p_Phase pod = PodFailed \<and> ss_RestartPolicy (sk_Spec sk) = RestartPolicyNever)"

text \<open>The status updates the reconciler makes in memory before writing the status.\<close>

definition recordStatus :: "string \<Rightarrow> PodPhase \<Rightarrow> sidekick \<Rightarrow> sidekick" where
  "recordStatus leaderName phase sk = sk\<lparr>sk_Status := (sk_Status sk)\<lparr>st_Leader := \<lparr>lds_Name = leaderName\<rparr>,
     st_Pod := phase, st_ObservedGeneration := om_Generation (sk_Meta sk)\<rparr>\<rparr>"

definition asUnit :: "'a res \<Rightarrow> unit res" where
  "asUnit r = (case r of Inl e \<Rightarrow> Inl e | Inr _ \<Rightarrow> Inr ())"

definition deletePodAndResetStatus :: "'e kube \<Rightarrow> sidekick \<Rightarrow> pod \<Rightarrow> ('e, event, unit res) go" where
  "deletePodAndResetStatus c sk pod = do {
     r \<leftarrow> deletePod c pod;
     (case r of
        Inl e \<Rightarrow> ret (Inl e)
      | Inr _ \<Rightarrow> do {
          r2 \<leftarrow> updateSidekickStatus c (recordStatus '''' '''' sk);
          ret (asUnit r2)
        })
   }"

definition syncExistingPod ::
    "'x params_scheme \<Rightarrow> 'e kube \<Rightarrow> sidekick \<Rightarrow> pod \<Rightarrow> pod \<Rightarrow> ('e, event, unit res) go" where
  "syncExistingPod P c sk leader pod =
     (if podNeedsRecreate (pr_hash P) sk leader pod then
        (if p_NodeName leader \<noteq> p_NodeName pod \<and> p_NodeName pod \<noteq> '''' then
           (case gm_put (p_UID pod) True (st_FailureCount (sk_Status sk)) of
              Inl panic \<Rightarrow> ret (Inl panic)
            | Inr m \<Rightarrow> deletePodAndResetStatus c (sk\<lparr>sk_Status := (sk_Status sk)\<lparr>st_FailureCount := m\<rparr>\<rparr>) pod)
         else deletePodAndResetStatus c sk pod)
      else do {
        r \<leftarrow> updateSidekickStatus c (recordStatus (lds_Name (st_Leader (sk_Status sk))) (p_Phase pod) sk);
        ret (asUnit r)
      })"

definition withFinalizer :: "pod \<Rightarrow> pod" where
  "withFinalizer p = p\<lparr>p_Meta := AddFinalizer (p_Meta p) getFinalizerName\<rparr>"

definition createSidekickPod ::
    "'x params_scheme \<Rightarrow> 'e kube \<Rightarrow> sidekick \<Rightarrow> pod \<Rightarrow> ('e, event, unit res) go" where
  "createSidekickPod P c sk leader =
     (case newSidekickPod (pr_hash P) (pr_merge P) sk leader of
        Inl e \<Rightarrow> ret (Inl e)
      | Inr (pod, sk1) \<Rightarrow> do {
          r \<leftarrow> CreateOrPatch pod_kind (k_pods c) pod (\<lambda>p _. withFinalizer p);
          (case r of
             Inl e \<Rightarrow> ret (Inl e)
           | Inr (_, pod') \<Rightarrow> do {
               r2 \<leftarrow> updateSidekickStatus c (recordStatus (p_Name leader) (p_Phase pod') sk1);
               ret (asUnit r2)
             })
        })"

definition done_with :: "unit res \<Rightarrow> reconcile_result" where
  "done_with r = (emptyResult, (case r of Inl e \<Rightarrow> Some e | Inr _ \<Rightarrow> None))"

text \<open>The last part of \<open>Reconcile\<close>: the pod exists and is synced, or it is created.\<close>

definition ensurePod ::
    "'x params_scheme \<Rightarrow> 'e kube \<Rightarrow> nsname \<Rightarrow> sidekick \<Rightarrow> pod \<Rightarrow> ('e, event, reconcile_result) go" where
  "ensurePod P c req sk leader = do {
     r \<leftarrow> kGet pod_kind (k_pods c) req;
     (case r of
        Inl e \<Rightarrow>
          if \<not> IsNotFound e then ret (emptyResult, Some e)
          else do { u \<leftarrow> createSidekickPod P c sk leader; ret (done_with u) }
      | Inr pod \<Rightarrow> do { u \<leftarrow> syncExistingPod P c sk leader pod; ret (done_with u) })
   }"

text \<open>\<open>Reconcile\<close> from the choice of the leader on.\<close>

definition followLeader ::
    "'x params_scheme \<Rightarrow> 'e kube \<Rightarrow> nsname \<Rightarrow> sidekick \<Rightarrow> ('e, event, reconcile_result) go" where
  "followLeader P c req sk = do {
     lr \<leftarrow> getLeader (pr_sort P) (pr_selCheck P) c sk;
     (case lr of
        Inl e \<Rightarrow>
          if IsNotFound e then do {
            r \<leftarrow> kGet pod_kind (k_pods c) req;
            (case r of
               Inr pod \<Rightarrow> do { u \<leftarrow> deletePodAndResetStatus c sk pod; ret (done_with u) }
             | Inl _ \<Rightarrow> ret (\<lparr>Requeue = True, RequeueAfter = 10\<rparr>, IgnoreNotFound e))
          }
          else ret (emptyResult, IgnoreNotFound e)
      | Inr leader \<Rightarrow>
          if p_Name leader \<noteq> lds_Name (st_Leader (sk_Status sk)) then do {
            r \<leftarrow> kGet pod_kind (k_pods c) req;
            (case r of
               Inr pod \<Rightarrow> do { u \<leftarrow> deletePodAndResetStatus c sk pod; ret (done_with u) }
             | Inl _ \<Rightarrow> ensurePod P c req sk leader)
          }
          else ensurePod P c req sk leader)
   }"

text \<open>\<open>Reconcile\<close> of a Sidekick that is not distributed, after it has been read.\<close>

definition reconcileLocal ::
    "'x params_scheme \<Rightarrow> 'e kube \<Rightarrow> nsname \<Rightarrow> sidekick \<Rightarrow> ('e, event, reconcile_result) go" where
  "reconcileLocal P c req sk = do {
     r \<leftarrow> handleSidekickFinalizer c sk;
     (case r of
        Inl e \<Rightarrow> ret (emptyResult, Some e)
      | Inr sk1 \<Rightarrow> do {
          r2 \<leftarrow> updateSidekickPhase c req sk1;
          (case r2 of
             Inl e \<Rightarrow> ret (emptyResult, Some e)
           | Inr (dropKey, sk2) \<Rightarrow>
               if dropKey then ret (emptyResult, None) else followLeader P c req sk2)
        })
   }"

section \<open>Which requests the steps send\<close>

text \<open>Requests that create, change or delete a pod.\<close>

fun changesPod :: "event \<Rightarrow> bool" where
  "changesPod (EvPod (RCreate _) _) = True"
| "changesPod (EvPod (RPatch _ _) _) = True"
| "changesPod (EvPod (RDelete _) _) = True"
| "changesPod _ = False"

fun deletesPod :: "event \<Rightarrow> bool" where
  "deletesPod (EvPod (RDelete _) _) = True"
| "deletesPod _ = False"

lemma not_changesPod_not_deletesPod: "\<not> changesPod ev \<Longrightarrow> \<not> deletesPod ev"
  by (cases ev rule: deletesPod.cases) auto

lemma emits_finishPhase [emits_rules]:
  assumes "\<And>k b. p (EvSidekick (RGet k) b)" "\<And>x y b. p (EvSidekick (RStatusPatch x y) b)"
  shows "emits p (finishPhase c sk pod)"
  unfolding finishPhase_def by (intro emits_rules) (simp_all add: assms)

lemma emits_calculateSidekickPhase [emits_rules]:
  assumes "\<And>k b. p (EvSidekick (RGet k) b)" "\<And>x y b. p (EvSidekick (RStatusPatch x y) b)"
    and "\<And>k b. p (EvPod (RGet k) b)"
  shows "emits p (calculateSidekickPhase c sk)"
  unfolding calculateSidekickPhase_def by (intro emits_rules) (simp_all add: assms)

lemma emits_updateSidekickPhase [emits_rules]:
  assumes "\<And>k b. p (EvSidekick (RGet k) b)" "\<And>x y b. p (EvSidekick (RStatusPatch x y) b)"
    and "\<And>k b. p (EvPod (RGet k) b)" "\<And>x b. p (EvPod (RStatusUpdate x) b)"
  shows "emits p (updateSidekickPhase c req sk)"
  unfolding updateSidekickPhase_def by (intro emits_rules) (simp_all add: assms)

lemma emits_handleSidekickFinalizer:
  assumes "\<not> (sk_Deleting sk \<and> HasFinalizer (sk_Meta sk) getFinalizerName)"
    and "\<And>k b. p (EvSidekick (RGet k) b)" "\<And>x y b. p (EvSidekick (RPatch x y) b)"
    and "\<And>x b. p (EvSidekick (RCreate x) b)"
  shows "emits p (handleSidekickFinalizer c sk)"
  unfolding handleSidekickFinalizer_def if_not_P [OF assms(1)]
  by (intro emits_rules) (simp_all add: assms(2-4))

lemma emits_removePodFinalizerIfMarkedForDeletion [emits_rules]:
  assumes "\<And>k b. p (EvSidekick (RGet k) b)" "\<And>x y b. p (EvSidekick (RStatusPatch x y) b)"
    and "\<And>k b. p (EvPod (RGet k) b)" "\<And>x b. p (EvPod (RCreate x) b)" "\<And>x y b. p (EvPod (RPatch x y) b)"
  shows "emits p (removePodFinalizerIfMarkedForDeletion c req)"
  unfolding removePodFinalizerIfMarkedForDeletion_def countExternalDeletion_def removePodFinalizer_def
  by (intro emits_rules) (simp_all add: assms)

lemma emits_createSidekickPod [emits_rules]:
  assumes "\<And>k b. p (EvSidekick (RGet k) b)" "\<And>x y b. p (EvSidekick (RStatusPatch x y) b)"
    and "\<And>k b. p (EvPod (RGet k) b)" "\<And>x b. p (EvPod (RPatch x (withFinalizer x)) b)"
    and "\<And>x sk1 b. newSidekickPod (pr_hash P) (pr_merge P) sk leader = Inr (x, sk1) \<Longrightarrow>
           p (EvPod (RCreate (withFinalizer x)) b)"
  shows "emits p (createSidekickPod P c sk leader)"
proof (cases "newSidekickPod (pr_hash P) (pr_merge P) sk leader")
  case (Inl e)
  then show ?thesis by (simp add: createSidekickPod_def emits_return)
next
  case (Inr r)
  obtain x sk1 where r: "r = (x, sk1)" by (cases r)
  have rv: "withFinalizer x\<lparr>p_Meta := (p_Meta (withFinalizer x))\<lparr>om_ResourceVersion := []\<rparr>\<rparr> = withFinalizer x"
    using Inr r by (auto simp: newSidekickPod_def Let_def withFinalizer_def AddFinalizer_def zero_meta_def
        split: sum.splits)
  show ?thesis
    unfolding createSidekickPod_def Inr r
    by (simp, intro emits_rules) (simp_all add: assms(1-4) rv assms(5) [OF Inr [unfolded r]])
qed

section \<open>Deletions are announced\<close>

text \<open>
  A deletion by the operator is announced on the pod first, so that the finalizer logic can
  tell it from a deletion by somebody else: a delete request directly follows a successful
  request that puts the initiator annotation on the pod.
\<close>

fun marksInitiator :: "event \<Rightarrow> bool" where
  "marksInitiator (EvPod (RPatch _ p) True) =
     (gm_get (om_Annotations (p_Meta p)) deletionInitiatorKey = Some deletionInitiatesBySidekickOperator)"
| "marksInitiator (EvPod (RCreate p) True) =
     (gm_get (om_Annotations (p_Meta p)) deletionInitiatorKey = Some deletionInitiatesBySidekickOperator)"
| "marksInitiator _ = False"

abbreviation announced :: "event list \<Rightarrow> bool" where
  "announced \<equiv> preceded marksInitiator deletesPod"

lemmas keeps_announced = keeps_preceded [where del = deletesPod and mark = marksInitiator]

lemma markInitiator_get:
  "gm_get (om_Annotations (p_Meta (markInitiator p))) deletionInitiatorKey =
     Some deletionInitiatesBySidekickOperator"
  by (simp add: markInitiator_def)

lemma keeps_deletePod [keeps_rules]: "keeps announced (deletePod c pod)"
  unfolding keeps_def
proof (intro allI impI)
  fix w :: "('a, event) world" assume "announced (w_trace w)"
  then show "announced (w_trace (snd (run_state (deletePod c pod) w)))"
    by (auto simp: deletePod_def setDeletionInitiatorAnnotation_def CreateOrPatch_def call_defs
        run_api_call preceded_snoc preceded_snocs markInitiator_get Let_def split: sum.splits prod.splits)
qed

lemma keeps_deletePodAndResetStatus [keeps_rules]: "keeps announced (deletePodAndResetStatus c sk pod)"
  unfolding deletePodAndResetStatus_def
  by (intro keeps_rules keeps_announced emits_rules) simp_all

lemma keeps_announced_calls [keeps_rules]:
  "keeps announced (kGet pod_kind api key)"
  "keeps announced (updateSidekickStatus c sk)"
  "keeps announced (createSidekickPod P c sk leader)"
  "keeps announced (getLeader srt sel c sk)"
  "keeps announced (updateSidekickPhase c req sk)"
  "keeps announced (removePodFinalizerIfMarkedForDeletion c req)"
  by (rule keeps_announced, intro emits_rules, simp_all)+

lemma keeps_syncExistingPod [keeps_rules]: "keeps announced (syncExistingPod P c sk leader pod)"
  unfolding syncExistingPod_def by (intro keeps_rules)

lemma keeps_ensurePod [keeps_rules]: "keeps announced (ensurePod P c req sk leader)"
  unfolding ensurePod_def by (intro keeps_rules)

lemma keeps_followLeader [keeps_rules]: "keeps announced (followLeader P c req sk)"
  unfolding followLeader_def by (intro keeps_rules)


definition sample_params :: params where
  "sample_params = \<lparr>pr_hash = (\<lambda>_. ''hash''), pr_merge = (\<lambda>a b. b), pr_sort = insertionSort, pr_selCheck = (\<lambda>_. Inr ())\<rparr>"


section \<open>What is created\<close>

fun sidekickPodRequest :: "(hash_input \<Rightarrow> string) \<Rightarrow> sidekick \<Rightarrow> pod \<Rightarrow> event \<Rightarrow> bool" where
  "sidekickPodRequest h sk leader (EvPod (RCreate p) _) =
     (ObjectKeyFromMeta (p_Meta p) = ObjectKeyFromMeta (sk_Meta sk) \<and>
      HasFinalizer (p_Meta p) getFinalizerName \<and> p_NodeName p = p_NodeName leader \<and>
      gm_str (om_Annotations (p_Meta p)) keyLeader = p_Name leader \<and>
      gm_str (om_Annotations (p_Meta p)) keyHash = GenerationHash h (sk_Meta sk))"
| "sidekickPodRequest h sk leader (EvPod (RPatch cur p) _) = (p = withFinalizer cur)"
| "sidekickPodRequest h sk leader (EvPod (RGet k) _) = True"
| "sidekickPodRequest h sk leader (EvPod _ _) = False"
| "sidekickPodRequest h sk leader _ = True"

lemma withFinalizer_fields:
  "HasFinalizer (p_Meta (withFinalizer p)) getFinalizerName"
  "p_Spec (withFinalizer p) = p_Spec p" "om_Annotations (p_Meta (withFinalizer p)) = om_Annotations (p_Meta p)"
  "om_Name (p_Meta (withFinalizer p)) = om_Name (p_Meta p)"
  "om_Namespace (p_Meta (withFinalizer p)) = om_Namespace (p_Meta p)"
  by (simp_all add: withFinalizer_def fin.has_add_same)

lemma newSidekickPod_node:
  "newSidekickPod h merge sk leader = Inr (pod, sk') \<Longrightarrow> p_NodeName pod = p_NodeName leader"
  by (subst newSidekickPod_InrD(3), assumption) (simp add: sidekickPodSpec_def Let_def)

lemma newSidekickPod_marks:
  assumes "newSidekickPod h merge sk leader = Inr (pod, sk')"
  shows "gm_str (om_Annotations (p_Meta pod)) keyLeader = p_Name leader"
    and "gm_str (om_Annotations (p_Meta pod)) keyHash = GenerationHash h (sk_Meta sk)"
  by (simp_all add: newSidekickPod_InrD(4) [OF assms] gm_str_def)

text \<open>
  Property C4. Every pod that \<open>createSidekickPod\<close> asks the API server to create has the name and
  namespace of the Sidekick, carries the operator's finalizer, runs on the leader's node and
  records the leader and the hash of the Sidekick; and it only patches a pod to add the
  finalizer.
\<close>

theorem createSidekickPod_requests:
  "emits (sidekickPodRequest (pr_hash P) sk leader) (createSidekickPod P c sk leader)"
proof (rule emits_createSidekickPod)
  fix x sk1 b assume new: "newSidekickPod (pr_hash P) (pr_merge P) sk leader = Inr (x, sk1)"
  show "sidekickPodRequest (pr_hash P) sk leader (EvPod (RCreate (withFinalizer x)) b)"
    using newSidekickPod_InrD(5,6) [OF new] newSidekickPod_node [OF new] newSidekickPod_marks [OF new]
    by (simp add: withFinalizer_fields ObjectKeyFromMeta_def)
qed simp_all

lemma newSidekickPod_no_version:
  assumes "newSidekickPod h merge sk leader = Inr (pod, sk1)"
  shows "withFinalizer pod\<lparr>p_Meta := (p_Meta (withFinalizer pod))\<lparr>om_ResourceVersion := []\<rparr>\<rparr> = withFinalizer pod"
  using assms by (auto simp: newSidekickPod_def Let_def withFinalizer_def AddFinalizer_def zero_meta_def split: sum.splits)

text \<open>
  Property C10. When the pod of a Sidekick is missing and can be built for the leader, the
  reconciler asks the API server to create exactly that pod, with the operator's finalizer.
\<close>

theorem missing_pod_is_created:
  assumes "o_get (k_pods c) req (w_env w) = (Inl NotFound, e1)"
    and "newSidekickPod (pr_hash P) (pr_merge P) sk leader = Inr (pod, sk1)"
    and "o_get (k_pods c) (ObjectKeyFromMeta (sk_Meta sk)) e1 = (Inl NotFound, e2)"
  shows "\<exists>b. EvPod (RCreate (withFinalizer pod)) b \<in> set (w_trace (snd (run_state (ensurePod P c req sk leader) w)))"
proof -
  have key: "ObjectKeyFromMeta (p_Meta pod) = ObjectKeyFromMeta (sk_Meta sk)"
    using newSidekickPod_InrD(5,6) [OF assms(2)] by (simp add: ObjectKeyFromMeta_def)
  note rv = newSidekickPod_no_version [OF assms(2)]
  define created where "created = o_create (k_pods c) (withFinalizer pod) e2"
  define w1 where "w1 = w\<lparr>w_env := snd created, w_trace := w_trace w @ [EvPod (RGet req) False,
     EvPod (RGet (ObjectKeyFromMeta (sk_Meta sk))) False, EvPod (RCreate (withFinalizer pod)) (ok (fst created))]\<rparr>"
  have mem: "EvPod (RCreate (withFinalizer pod)) (ok (fst created)) \<in> set (w_trace w1)"
    by (simp add: w1_def)
  have cop: "run_state (CreateOrPatch pod_kind (k_pods c) pod (\<lambda>p _. withFinalizer p))
      (w\<lparr>w_env := e1, w_trace := w_trace w @ [EvPod (RGet req) False]\<rparr>) =
    (case fst created of Inl e \<Rightarrow> Inl e | Inr p \<Rightarrow> Inr (VerbCreated, p), w1)"
    by (simp add: CreateOrPatch_def call_defs run_api_call assms(3) key rv w1_def created_def Let_def split: sum.split)
  have run: "snd (run_state (ensurePod P c req sk leader) w) =
    (case fst created of
       Inl e \<Rightarrow> w1
     | Inr p \<Rightarrow> snd (run_state (updateSidekickStatus c (recordStatus (p_Name leader) (p_Phase p) sk1)) w1))"
    by (simp add: ensurePod_def createSidekickPod_def kGet_def run_api_call assms(1,2) cop split: sum.split prod.split)
  have "emits (\<lambda>_. True) (updateSidekickStatus c sk')" for sk'
    by (intro emits_rules) simp_all
  from emits_mem [OF this mem] mem show ?thesis
    by (cases "fst created") (auto simp: run)
qed

lemma sample_pod_built:
  "\<exists>pod sk1. newSidekickPod (pr_hash sample_params) (pr_merge sample_params) (sample_sidekick RestartPolicyAlways)
     (sample_pod ''db-0'' ''u'' ''n1'' PodRunning) = Inr (pod, sk1)"
  by (simp add: newSidekickPod_def Let_def convMainContainer_def convContainer_def sample_defs)

theorem missing_pod_is_created_witness:
  "\<exists>p b. EvPod (RCreate p) b \<in> set (w_trace (snd (run_state (ensurePod sample_params mem_kube
     \<lparr>nn_Namespace = ''demo'', nn_Name = ''sk''\<rparr> (sample_sidekick RestartPolicyAlways)
     (sample_pod ''db-0'' ''u'' ''n1'' PodRunning)) (mem_world empty_cluster))))"
proof -
  obtain pod sk1 where new: "newSidekickPod (pr_hash sample_params) (pr_merge sample_params)
      (sample_sidekick RestartPolicyAlways) (sample_pod ''db-0'' ''u'' ''n1'' PodRunning) = Inr (pod, sk1)"
    using sample_pod_built by blast
  have get: "o_get (k_pods mem_kube) key cl = (Inl NotFound, cl)" if "cl = empty_cluster" for key cl
    by (simp add: that mem_defs memGet_def)
  from missing_pod_is_created [where req = "\<lparr>nn_Namespace = ''demo'', nn_Name = ''sk''\<rparr>", OF get new get, of "mem_world empty_cluster"]
  show ?thesis by (auto simp: mem_world_def)
qed

section \<open>When a pod is replaced\<close>

text \<open>
  A pod built for a Sidekick and its leader is not stale for them: as long as the
  generation, labels and annotations of the Sidekick, the leader's name and node, and the
  pod's own annotations and node stay the same, only a failure under the restart policy
  Never makes the reconciler replace it.
\<close>

theorem fresh_pod_not_stale:
  assumes "newSidekickPod h merge sk leader = Inr (pod, sk1)"
    and "om_Annotations (p_Meta pod') = om_Annotations (p_Meta pod)" and "p_NodeName pod' = p_NodeName pod"
    and "om_Generation (sk_Meta sk') = om_Generation (sk_Meta sk)" and "om_Labels (sk_Meta sk') = om_Labels (sk_Meta sk)"
    and "om_Annotations (sk_Meta sk') = om_Annotations (sk_Meta sk)"
  shows "podNeedsRecreate h sk' leader pod' \<longleftrightarrow>
    p_Phase pod' = PodFailed \<and> ss_RestartPolicy (sk_Spec sk') = RestartPolicyNever"
proof -
  have "GenerationHash h (sk_Meta sk') = GenerationHash h (sk_Meta sk)"
    using assms(4-6) by (rule GenerationHash_cong)
  then show ?thesis
    using newSidekickPod_marks [OF assms(1)] newSidekickPod_node [OF assms(1)] assms(2,3)
    by (simp add: podNeedsRecreate_def)
qed

theorem fresh_pod_not_stale_witness:
  "\<exists>pod sk1. newSidekickPod (pr_hash sample_params) (pr_merge sample_params) (sample_sidekick RestartPolicyAlways)
     (sample_pod ''db-0'' ''u'' ''n1'' PodRunning) = Inr (pod, sk1) \<and>
     \<not> podNeedsRecreate (pr_hash sample_params) (sample_sidekick RestartPolicyAlways)
       (sample_pod ''db-0'' ''u'' ''n1'' PodRunning) pod"
proof -
  obtain pod sk1 where new: "newSidekickPod (pr_hash sample_params) (pr_merge sample_params)
      (sample_sidekick RestartPolicyAlways) (sample_pod ''db-0'' ''u'' ''n1'' PodRunning) = Inr (pod, sk1)"
    using sample_pod_built by blast
  have "ss_RestartPolicy (sk_Spec (sample_sidekick RestartPolicyAlways)) = RestartPolicyAlways"
    by (simp add: sample_defs)
  with fresh_pod_not_stale [OF new refl refl refl refl refl] new show ?thesis by auto
qed

text \<open>
  Whether a pod is replaced depends on its phase only under the restart policy
  Never: with Always or OnFailure a failed pod that is otherwise up to date stays.
\<close>

theorem failed_pod_not_replaced:
  assumes "ss_RestartPolicy (sk_Spec sk) \<noteq> RestartPolicyNever"
  shows "podNeedsRecreate h sk leader (pod\<lparr>p_Status := st\<rparr>) = podNeedsRecreate h sk leader pod"
  using assms by (simp add: podNeedsRecreate_def)

theorem failed_pod_not_replaced_witness:
  "podNeedsRecreate (\<lambda>_. ''hash'') (sample_sidekick RestartPolicyAlways) (sample_pod ''db-0'' ''u'' ''n1'' PodRunning)
     ((sample_pod ''sk'' ''u2'' ''n1'' PodRunning)\<lparr>p_Status := zero_pod_status\<lparr>pst_Phase := PodFailed\<rparr>\<rparr>) =
   podNeedsRecreate (\<lambda>_. ''hash'') (sample_sidekick RestartPolicyAlways) (sample_pod ''db-0'' ''u'' ''n1'' PodRunning)
     (sample_pod ''sk'' ''u2'' ''n1'' PodRunning)"
  by (rule failed_pod_not_replaced) (simp add: sample_defs)

section \<open>Deletions by others\<close>

fun countsFailure :: "string \<Rightarrow> event \<Rightarrow> bool" where
  "countsFailure uid (EvSidekick (RStatusPatch _ new) _) = (gm_get (st_FailureCount (sk_Status new)) uid = Some True)"
| "countsFailure uid (EvSidekick (RGet _) _) = True"
| "countsFailure uid _ = False"


section \<open>Termination\<close>

text \<open>
  When the deletion of the pod is refused, the finalizer of the Sidekick stays:
  terminating sends no further request and returns the error.
\<close>

theorem terminate_waits_for_pod:
  assumes "o_delete (k_pods c) (ObjectKeyFromMeta (sk_Meta sk)) (w_env w) = (Inl err, e')" and "err \<noteq> NotFound"
  shows "run_state (terminate c sk) w =
    (Inl err, w\<lparr>w_env := e', w_trace := w_trace w @ [EvPod (RDelete (ObjectKeyFromMeta (sk_Meta sk))) False]\<rparr>)"
  using assms by (simp add: terminate_def kDelete_def run_api_call)

theorem terminate_waits_for_pod_witness:
  "fst (run_state (terminate (mem_kube\<lparr>k_pods := (k_pods mem_kube)\<lparr>o_delete := (\<lambda>_ cl. (Inl (ApiError ''forbidden''), cl))\<rparr>\<rparr>)
     (sample_sidekick RestartPolicyAlways)) (mem_world empty_cluster)) = Inl (ApiError ''forbidden'')"
  by (subst terminate_waits_for_pod [where err = "ApiError ''forbidden''"]) (simp_all add: mem_world_def)

section \<open>A Sidekick that has come to its end\<close>

text \<open>
  The Sidekick has succeeded, or is over its back-off limit. \<open>ended\<close> adds that it is still over
  the limit when the pod the API server holds for it is counted.
\<close>

definition spent :: "sidekick \<Rightarrow> bool" where
  "spent sk = (ss_RestartPolicy (sk_Spec sk) \<noteq> RestartPolicyAlways \<and>
     (st_Phase (sk_Status sk) = SidekickPhaseSucceeded \<or> overBackoffLimit sk))"

definition ended :: "'e kube \<Rightarrow> sidekick \<Rightarrow> bool" where
  "ended c sk = (spent sk \<and> (\<forall>pod e e'.
     o_get (k_pods c) (ObjectKeyFromMeta (sk_Meta sk)) e = (Inr pod, e') \<longrightarrow> spent (countPod pod sk)))"

text \<open>The API server answers a write to the status with the status that was sent.\<close>

definition echoes_status :: "'e kube \<Rightarrow> bool" where
  "echoes_status c = (\<forall>cur new e r e'. o_status_patch (k_sidekicks c) cur new e = (Inr r, e') \<longrightarrow> sk_Status r = sk_Status new)"

lemma updateSidekickStatus_echo:
  assumes "echoes_status c" "run_state (updateSidekickStatus c sk) w = (Inr sk', w')"
  shows "sk_Status sk' = sk_Status sk"
proof -
  let ?get = "o_get (k_sidekicks c) (ObjectKeyFromMeta (sk_Meta sk)) (w_env w)"
  obtain cur where cur: "fst ?get = Inr cur"
    using assms(2) by (cases "fst ?get") (auto simp: updateSidekickStatus_def PatchStatus_def call_defs run_api_call)
  let ?new = "cur\<lparr>sk_Status := sk_Status sk\<rparr>"
  have "fst (o_status_patch (k_sidekicks c) cur ?new (snd ?get)) = Inr sk'"
    using assms(2) cur by (auto simp: updateSidekickStatus_def PatchStatus_def call_defs run_api_call split: sum.splits)
  then have "o_status_patch (k_sidekicks c) cur ?new (snd ?get) =
      (Inr sk', snd (o_status_patch (k_sidekicks c) cur ?new (snd ?get)))"
    by (metis prod.collapse)
  with assms(1) have "sk_Status sk' = sk_Status ?new" unfolding echoes_status_def by blast
  then show ?thesis by simp
qed

lemma getSidekickPhase_spent:
  "spent sk \<Longrightarrow> fst (getSidekickPhase sk p) \<in> {SidekickPhaseSucceeded, SideKickPhaseFailed}"
  by (auto simp: spent_def pod_phase.phase phase_spec_def)

lemma finishPhase_spent:
  assumes "echoes_status c" "spent sk" "run_state (finishPhase c sk pod) w = (Inr (phase, sk'), w')"
  shows "phase \<in> {SidekickPhaseSucceeded, SideKickPhaseFailed} \<and> st_Phase (sk_Status sk') = phase"
proof -
  obtain ph sk1 where ph: "getSidekickPhase sk (Some pod) = (ph, sk1)"
    by (cases "getSidekickPhase sk (Some pod)")
  then have end_phase: "ph \<in> {SidekickPhaseSucceeded, SideKickPhaseFailed}"
    using getSidekickPhase_spent [OF assms(2), of "Some pod"] by simp
  let ?sk2 = "sk1\<lparr>sk_Status := (sk_Status sk1)\<lparr>st_Phase := ph\<rparr>\<rparr>"
  obtain r w1 where run: "run_state (updateSidekickStatus c ?sk2) w = (r, w1)"
    by (cases "run_state (updateSidekickStatus c ?sk2) w")
  from assms(3) have "r = Inr sk' \<and> phase = ph"
    by (cases r) (simp_all add: finishPhase_def ph run)
  with updateSidekickStatus_echo [OF assms(1)] run end_phase show ?thesis by fastforce
qed

lemma overBackoffLimit_alloc [simp]: "overBackoffLimit (allocStatusMaps sk) = overBackoffLimit sk"
  by (simp add: overBackoffLimit_alt getTotalBackOffCounts_word backoffCount_def backoffLimit_def
      allocStatusMaps_def gm_make_def)

lemma spent_alloc: "spent (allocStatusMaps sk) = spent sk"
  by (simp add: spent_def)

lemma spent_countPod_alloc: "spent (countPod pod (allocStatusMaps sk)) = spent (countPod pod sk)"
proof -
  have "setFailure u b (setRestarts u n (allocStatusMaps sk)) = setFailure u b (setRestarts u n sk)" for u b n
    by (simp add: setFailure_def setRestarts_def allocStatusMaps_def gm_set_def gm_make_def)
  moreover have "overBackoffLimit (setRestarts u n (allocStatusMaps sk)) = overBackoffLimit (setRestarts u n sk)" for u n
    by (simp add: overBackoffLimit_alt getTotalBackOffCounts_word backoffCount_def backoffLimit_def
        setRestarts_def allocStatusMaps_def gm_set_def gm_make_def)
  ultimately show ?thesis
    by (simp add: spent_def countPod_def countFailedPod_alt Let_def)
qed

lemma updateSidekickPhase_ended:
  assumes "echoes_status c" "ended c sk" "run_state (updateSidekickPhase c req sk) w = (Inr (dropKey, sk'), w')"
  shows "dropKey"
proof -
  let ?get = "o_get (k_pods c) (ObjectKeyFromMeta (sk_Meta sk)) (w_env w)"
  have spent: "spent sk" "fst ?get = Inr pod \<Longrightarrow> spent (countPod pod sk)" for pod
    using assms(2) unfolding ended_def by (metis prod.collapse)+
  have calc: "phase \<in> {SidekickPhaseSucceeded, SideKickPhaseFailed} \<and> st_Phase (sk_Status sk1) = phase"
    if run: "run_state (calculateSidekickPhase c sk) w = (Inr (phase, sk1), w1)" for phase sk1 w1
  proof -
    obtain sk2 pod w2 where "run_state (finishPhase c sk2 pod) w2 = (Inr (phase, sk1), w1)" "spent sk2"
      using run spent
      by (cases "fst ?get")
        (auto simp: calculateSidekickPhase_def Let_def kGet_def run_api_call spent_alloc spent_countPod_alloc
          split: if_splits)
    then show ?thesis using finishPhase_spent [OF assms(1)] by blast
  qed
  obtain r w1 where run: "run_state (calculateSidekickPhase c sk) w = (r, w1)"
    by (cases "run_state (calculateSidekickPhase c sk) w")
  with assms(3) obtain phase sk1 where r: "r = Inr (phase, sk1)"
    by (cases r) (auto simp: updateSidekickPhase_def)
  let ?pod = "o_get (k_pods c) req (w_env w1)"
  show ?thesis
  proof (cases "phase = SideKickPhaseFailed")
    case True
    with assms(3) run r show ?thesis
      by (cases "fst ?pod") (auto simp: updateSidekickPhase_def call_defs run_api_call split: option.splits if_splits sum.splits)
  next
    case False
    with assms(3) run r calc [of phase sk1 w1] show ?thesis
      by (simp add: updateSidekickPhase_def)
  qed
qed


definition failed_sidekick :: sidekick where
  "failed_sidekick = setFailure ''uid-0'' True (sample_sidekick RestartPolicyNever)"

definition failed_kube :: "cluster kube" where
  "failed_kube = mem_kube\<lparr>k_sidekicks := (k_sidekicks mem_kube)\<lparr>
     o_patch := (\<lambda>_ _ cl. (Inr failed_sidekick, cl)),
     o_create := (\<lambda>_ cl. (Inl (ApiError ''AlreadyExists''), cl)),
     o_status_patch := (\<lambda>_ new cl. (Inr new, cl))\<rparr>,
     k_pods := (k_pods mem_kube)\<lparr>o_get := (\<lambda>_ cl. (Inr (sample_pod ''sk'' ''uid-1'' ''n1'' PodFailed), cl))\<rparr>\<rparr>"


section \<open>A pod that is gone already\<close>

definition withoutFinalizer :: "pod \<Rightarrow> pod" where
  "withoutFinalizer p = p\<lparr>p_Meta := (RemoveFinalizer (p_Meta p) getFinalizerName)\<lparr>om_ResourceVersion := ''''\<rparr>\<rparr>"

text \<open>
  Property C33. If a pod under deletion disappears between the two reads of the operator, removing
  its finalizer asks the API server to create the pod again, without the finalizer.
\<close>

theorem vanished_pod_is_recreated:
  assumes "o_get (k_pods c) req (w_env w) = (Inr pod, e1)" and "p_Deleting pod" and "HasFinalizer (p_Meta pod) getFinalizerName"
    and "gm_get (om_Annotations (p_Meta pod)) deletionInitiatorKey \<noteq> None"
    and "o_get (k_pods c) (ObjectKeyFromMeta (p_Meta pod)) e1 = (Inl NotFound, e2)"
  shows "w_trace (snd (run_state (removePodFinalizerIfMarkedForDeletion c req) w)) = w_trace w @
    [EvPod (RGet req) True, EvPod (RGet (ObjectKeyFromMeta (p_Meta pod))) False,
     EvPod (RCreate (withoutFinalizer pod)) (ok (fst (o_create (k_pods c) (withoutFinalizer pod) e2)))]"
proof -
  have set: "pod\<lparr>p_Meta := (RemoveFinalizer (p_Meta pod) getFinalizerName)\<lparr>om_ResourceVersion := []\<rparr>\<rparr> = withoutFinalizer pod"
    by (simp add: withoutFinalizer_def)
  show ?thesis
    using assms
    by (cases "fst (o_create (k_pods c) (withoutFinalizer pod) e2)")
      (auto simp: removePodFinalizerIfMarkedForDeletion_def countExternalDeletion_def removePodFinalizer_def
        CreateOrPatch_def call_defs run_api_call Let_def set IgnoreNotFound_def)
qed

text \<open>An API server where somebody else removes every pod right after it has been read.\<close>

definition racing_kube :: "cluster kube" where
  "racing_kube = mem_kube\<lparr>k_pods := (k_pods mem_kube)\<lparr>o_get := (\<lambda>key cl. (memGet pod_kind key (cl_pods cl), cl\<lparr>cl_pods := []\<rparr>))\<rparr>\<rparr>"

definition sample_deleted_pod :: pod where
  "sample_deleted_pod = (sample_pod ''sk'' ''u2'' ''n1'' PodRunning)\<lparr>p_Meta := (sample_meta ''sk'' ''u2'')\<lparr>
     om_DeletionTimestamp := Some 1, om_Finalizers := [getFinalizerName],
     om_Annotations := Some [(deletionInitiatorKey, deletionInitiatesBySidekickOperator)]\<rparr>\<rparr>"

theorem vanished_pod_is_recreated_witness:
  "\<exists>p. EvPod (RCreate p) True \<in> set (w_trace (snd (run_state (removePodFinalizerIfMarkedForDeletion racing_kube
     \<lparr>nn_Namespace = ''demo'', nn_Name = ''sk''\<rparr>) (mem_world (empty_cluster\<lparr>cl_pods := [sample_deleted_pod]\<rparr>)))))"
proof -
  let ?key = "\<lparr>nn_Namespace = ''demo'', nn_Name = ''sk''\<rparr>"
  let ?w = "mem_world (empty_cluster\<lparr>cl_pods := [sample_deleted_pod]\<rparr>)"
  have key: "ObjectKeyFromMeta (p_Meta sample_deleted_pod) = ?key"
    by (simp add: sample_deleted_pod_def ObjectKeyFromMeta_def sample_defs)
  have g1: "o_get (k_pods racing_kube) ?key (w_env ?w) = (Inr sample_deleted_pod, empty_cluster)"
    by (simp add: racing_kube_def mem_defs mem_op_defs key [unfolded ObjectKeyFromMeta_def])
  have g2: "o_get (k_pods racing_kube) (ObjectKeyFromMeta (p_Meta sample_deleted_pod)) empty_cluster = (Inl NotFound, empty_cluster)"
    by (simp add: racing_kube_def mem_defs mem_op_defs)
  have cr: "ok (fst (o_create (k_pods racing_kube) (withoutFinalizer sample_deleted_pod) empty_cluster))"
    by (simp add: racing_kube_def mem_defs mem_op_defs)
  have props: "p_Deleting sample_deleted_pod" "HasFinalizer (p_Meta sample_deleted_pod) getFinalizerName"
    "gm_get (om_Annotations (p_Meta sample_deleted_pod)) deletionInitiatorKey \<noteq> None"
    by (simp_all add: sample_deleted_pod_def HasFinalizer_def)
  show ?thesis by (subst vanished_pod_is_recreated [OF g1 props g2]) (auto simp: cr)
qed

section \<open>The end of a Sidekick\<close>

text \<open>
  Property C34. The reconciliation that terminates a Sidekick goes on with it afterwards: once
  removing the last finalizer has made the Sidekick disappear, it ends in a NotFound error, and the
  request comes back to the queue.
\<close>

theorem terminated_sidekick_ends_in_error:
  assumes "sk_Deleting sk" and "HasFinalizer (sk_Meta sk) getFinalizerName"
    and "run_state (terminate c sk) w = (Inr sk1, w1)"
    and "o_get (k_pods c) (ObjectKeyFromMeta (sk_Meta sk1)) (w_env w1) = (rp, e1)" and "\<forall>e. rp = Inl e \<longrightarrow> e = NotFound"
    and "o_get (k_sidekicks c) (ObjectKeyFromMeta (sk_Meta sk1)) e1 = (Inl NotFound, e2)"
  shows "fst (run_state (reconcileLocal P c req sk) w) = (emptyResult, Some NotFound)"
proof -
  have fin: "fst (run_state (finishPhase c sk2 pod) (w2 :: (_, event) world)) = Inl NotFound"
    if "w_env w2 = e1" "sk_Meta sk2 = sk_Meta sk1" for sk2 pod w2
  proof -
    obtain phase sk3 where ph: "getSidekickPhase sk2 (Some pod) = (phase, sk3)" by (metis surj_pair)
    have "sk_Meta sk3 = sk_Meta sk2" using pod_phase.only_limit [of sk2 "Some pod"] ph by auto
    then show ?thesis
      using that assms(6) by (simp add: finishPhase_def ph updateSidekickStatus_def PatchStatus_def call_defs run_api_call)
  qed
  have calc: "fst (run_state (calculateSidekickPhase c sk1) w1) = Inl NotFound"
    using assms(4,5) fin by (cases rp) (simp_all add: calculateSidekickPhase_def Let_def kGet_def run_api_call)
  obtain w2 where "run_state (calculateSidekickPhase c sk1) w1 = (Inl NotFound, w2)"
    using calc by (metis prod.collapse)
  then show ?thesis
    using assms(1-3) by (simp add: reconcileLocal_def handleSidekickFinalizer_def updateSidekickPhase_def)
qed

definition sample_deleted_sidekick :: sidekick where
  "sample_deleted_sidekick = (sample_sidekick RestartPolicyAlways)\<lparr>sk_Meta := (sample_meta ''sk'' ''uid-sk'')\<lparr>
     om_DeletionTimestamp := Some 1, om_Finalizers := [getFinalizerName]\<rparr>\<rparr>"

theorem terminated_sidekick_ends_in_error_witness:
  "fst (run_state (reconcileLocal sample_params mem_kube \<lparr>nn_Namespace = ''demo'', nn_Name = ''sk''\<rparr> sample_deleted_sidekick)
     (mem_world (empty_cluster\<lparr>cl_sidekicks := [sample_deleted_sidekick]\<rparr>))) = (emptyResult, Some NotFound)"
proof -
  let ?w = "mem_world (empty_cluster\<lparr>cl_sidekicks := [sample_deleted_sidekick]\<rparr>)"
  let ?sk1 = "sample_deleted_sidekick\<lparr>sk_Meta := (sk_Meta sample_deleted_sidekick)\<lparr>om_Finalizers := []\<rparr>\<rparr>"
  have fins: "sk_Deleting sample_deleted_sidekick" "HasFinalizer (sk_Meta sample_deleted_sidekick) getFinalizerName"
    by (simp_all add: sample_deleted_sidekick_def HasFinalizer_def)
  have run: "\<exists>w1. run_state (terminate mem_kube sample_deleted_sidekick) ?w = (Inr ?sk1, w1) \<and> w_env w1 = empty_cluster"
    by (simp add: terminate_def CreateOrPatch_def call_defs run_api_call mem_defs mem_op_defs sample_deleted_sidekick_def
        RemoveFinalizer_def HasFinalizer_def sample_defs)
  then obtain w1 where w1: "run_state (terminate mem_kube sample_deleted_sidekick) ?w = (Inr ?sk1, w1)" "w_env w1 = empty_cluster"
    by blast
  have get: "o_get (k_pods mem_kube) key empty_cluster = (Inl NotFound, empty_cluster)"
    "o_get (k_sidekicks mem_kube) key empty_cluster = (Inl NotFound, empty_cluster)" for key
    by (simp_all add: mem_defs mem_op_defs)
  show ?thesis
    by (rule terminated_sidekick_ends_in_error [OF fins w1(1), where rp = "Inl NotFound" and ?e1.0 = empty_cluster
          and ?e2.0 = empty_cluster]) (simp_all add: w1(2) get)
qed

section \<open>Nothing happens in the steady state\<close>


definition sample_follower :: sidekick where
  "sample_follower = (let sk = sample_sidekick RestartPolicyAlways in sk\<lparr>
     sk_Spec := (sk_Spec sk)\<lparr>ss_Leader := \<lparr>ld_Name = ''db-0'', ld_Selector = None, ld_SelectionPolicy = ''''\<rparr>\<rparr>,
     sk_Status := zero_sidekick_status\<lparr>st_Leader := \<lparr>lds_Name = ''db-0''\<rparr>\<rparr>\<rparr>)"

lemma sample_follower_pod:
  "\<exists>pod sk1. newSidekickPod (pr_hash sample_params) (pr_merge sample_params) sample_follower
     (sample_pod ''db-0'' ''u'' ''n1'' PodRunning) = Inr (pod, sk1)"
  by (simp add: newSidekickPod_def Let_def convMainContainer_def convContainer_def sample_follower_def sample_defs)


end
