(* ===== verification/Crypto.thy ===== *)
theory Crypto
  imports Prelude
begin

text \<open>
  The part of Go's standard library that \<open>src/grpc/token/token.go\<close> is built on: SHA-256
  (\<open>crypto/sha256\<close>), HMAC (\<open>crypto/hmac\<close>), AES-256 in Galois/counter mode (\<open>crypto/aes\<close>,
  \<open>crypto/cipher\<close>) and unpadded URL-safe base64 (\<open>encoding/base64\<close>), over bytes as
  8-bit words. The algorithms are the standard ones, executable; what is proved of them is
  what a client can rely on without cryptographic assumptions: the lengths, that opening
  undoes sealing, that only sealed texts open, and that decoding undoes encoding. The laws
  are stated as the locales \<open>aead\<close> and \<open>text_codec\<close>, which the functions interpret.
\<close>

unbundle bit_operations_syntax

type_synonym byte = "8 word"

text \<open>Go strings are byte sequences; a \<^typ>\<open>string\<close> of the model is one, byte by byte.\<close>

definition bytesOf :: "string \<Rightarrow> byte list" where
  "bytesOf s = map (\<lambda>c. word_of_nat (of_char c)) s"

definition stringOf :: "byte list \<Rightarrow> string" where
  "stringOf bs = map (\<lambda>b. char_of (unat b)) bs"

section \<open>Big-endian words\<close>

definition beWord :: "byte list \<Rightarrow> 'a::len word" where
  "beWord bs = foldl (\<lambda>acc b. push_bit 8 acc OR ucast b) 0 bs"

definition beBytes :: "nat \<Rightarrow> 'a::len word \<Rightarrow> byte list" where
  "beBytes n w = map (\<lambda>i. ucast (drop_bit (8 * i) w)) (rev [0..<n])"

fun chunks :: "nat \<Rightarrow> nat \<Rightarrow> 'a list \<Rightarrow> 'a list list" where
  "chunks 0 n xs = []"
| "chunks (Suc k) n xs = take n xs # chunks k n (drop n xs)"

section \<open>SHA-256\<close>

type_synonym w32 = "32 word"

text \<open>
  The constants of the algorithm are defined by roots of primes: the first 32 bits of the
  fractional parts of the cube roots of the first 64 primes, and of the square roots of the
  first eight. The roots are taken in fixed point, bit by bit.
\<close>

definition intRoot :: "nat \<Rightarrow> nat \<Rightarrow> nat" where
  "intRoot k n = foldl (\<lambda>r i. if (r + 2 ^ i) ^ k \<le> n then r + 2 ^ i else r) 0 (rev [0..<40])"

definition fracRoot :: "nat \<Rightarrow> nat \<Rightarrow> w32" where
  "fracRoot k p = word_of_nat (intRoot k (p * 2 ^ (32 * k)))"

definition primes64 :: "nat list" where
  "primes64 = [
     2, 3, 5, 7, 11, 13, 17, 19, 23, 29, 31, 37, 41, 43, 47, 53, 59, 61, 67, 71, 73, 79,
     83, 89, 97, 101, 103, 107, 109, 113, 127, 131, 137, 139, 149, 151, 157, 163, 167, 173, 179, 181, 191,
     193, 197, 199, 211, 223, 227, 229, 233, 239, 241, 251, 257, 263, 269, 271, 277, 281, 283, 293, 307, 311]"

definition shaK :: "w32 list" where
  "shaK = map (fracRoot 3) primes64"

definition shaInit :: "w32 list" where
  "shaInit = map (fracRoot 2) (take 8 primes64)"

definition shaPad :: "byte list \<Rightarrow> byte list" where
  "shaPad m = m @ 0x80 # replicate ((119 - length m mod 64) mod 64) 0 @
     beBytes 8 (word_of_nat (8 * length m) :: 64 word)"

text \<open>The message schedule; the words are kept latest first.\<close>

definition shaExtend :: "w32 list \<Rightarrow> w32 list" where
  "shaExtend ws =
     (let w15 = ws ! 14; w2 = ws ! 1;
          s0 = word_rotr 7 w15 XOR word_rotr 18 w15 XOR drop_bit 3 w15;
          s1 = word_rotr 17 w2 XOR word_rotr 19 w2 XOR drop_bit 10 w2
      in (ws ! 15 + s0 + ws ! 6 + s1) # ws)"

definition shaSchedule :: "byte list \<Rightarrow> w32 list" where
  "shaSchedule blk = rev ((shaExtend ^^ 48) (rev (map beWord (chunks 16 4 blk))))"

fun shaRound :: "w32 \<times> w32 \<Rightarrow> w32 list \<Rightarrow> w32 list" where
  "shaRound (k, w) [a, b, c, d, e, f, g, h] =
     (let s1 = word_rotr 6 e XOR word_rotr 11 e XOR word_rotr 25 e;
          ch = (e AND f) XOR ((NOT e) AND g);
          t1 = h + s1 + ch + k + w;
          s0 = word_rotr 2 a XOR word_rotr 13 a XOR word_rotr 22 a;
          maj = (a AND b) XOR (a AND c) XOR (b AND c)
      in [t1 + s0 + maj, a, b, c, d + t1, e, f, g])"
| "shaRound _ st = st"

definition shaCompress :: "byte list \<Rightarrow> w32 list \<Rightarrow> w32 list" where
  "shaCompress blk st = map2 (+) st (fold shaRound (zip shaK (shaSchedule blk)) st)"

definition sha256 :: "byte list \<Rightarrow> byte list" where
  "sha256 m = (let p = shaPad m in
     concat (map (beBytes 4) (fold shaCompress (chunks (length p div 64) 64 p) shaInit)))"

section \<open>HMAC-SHA-256\<close>

definition hmacSha256 :: "byte list \<Rightarrow> byte list \<Rightarrow> byte list" where
  "hmacSha256 key m =
     (let k0 = (if length key > 64 then sha256 key else key);
          k = k0 @ replicate (64 - length k0) 0
      in sha256 (map (\<lambda>b. b XOR 0x5c) k @ sha256 (map (\<lambda>b. b XOR 0x36) k @ m)))"

section \<open>AES-256, encryption direction\<close>

definition sbox :: "byte list" where
  "sbox = [
     0x63, 0x7c, 0x77, 0x7b, 0xf2, 0x6b, 0x6f, 0xc5, 0x30, 0x01, 0x67, 0x2b,
     0xfe, 0xd7, 0xab, 0x76, 0xca, 0x82, 0xc9, 0x7d, 0xfa, 0x59, 0x47, 0xf0,
     0xad, 0xd4, 0xa2, 0xaf, 0x9c, 0xa4, 0x72, 0xc0, 0xb7, 0xfd, 0x93, 0x26,
     0x36, 0x3f, 0xf7, 0xcc, 0x34, 0xa5, 0xe5, 0xf1, 0x71, 0xd8, 0x31, 0x15,
     0x04, 0xc7, 0x23, 0xc3, 0x18, 0x96, 0x05, 0x9a, 0x07, 0x12, 0x80, 0xe2,
     0xeb, 0x27, 0xb2, 0x75, 0x09, 0x83, 0x2c, 0x1a, 0x1b, 0x6e, 0x5a, 0xa0,
     0x52, 0x3b, 0xd6, 0xb3, 0x29, 0xe3, 0x2f, 0x84, 0x53, 0xd1, 0x00, 0xed,
     0x20, 0xfc, 0xb1, 0x5b, 0x6a, 0xcb, 0xbe, 0x39, 0x4a, 0x4c, 0x58, 0xcf,
     0xd0, 0xef, 0xaa, 0xfb, 0x43, 0x4d, 0x33, 0x85, 0x45, 0xf9, 0x02, 0x7f,
     0x50, 0x3c, 0x9f, 0xa8, 0x51, 0xa3, 0x40, 0x8f, 0x92, 0x9d, 0x38, 0xf5,
     0xbc, 0xb6, 0xda, 0x21, 0x10, 0xff, 0xf3, 0xd2, 0xcd, 0x0c, 0x13, 0xec,
     0x5f, 0x97, 0x44, 0x17, 0xc4, 0xa7, 0x7e, 0x3d, 0x64, 0x5d, 0x19, 0x73,
     0x60, 0x81, 0x4f, 0xdc, 0x22, 0x2a, 0x90, 0x88, 0x46, 0xee, 0xb8, 0x14,
     0xde, 0x5e, 0x0b, 0xdb, 0xe0, 0x32, 0x3a, 0x0a, 0x49, 0x06, 0x24, 0x5c,
     0xc2, 0xd3, 0xac, 0x62, 0x91, 0x95, 0xe4, 0x79, 0xe7, 0xc8, 0x37, 0x6d,
     0x8d, 0xd5, 0x4e, 0xa9, 0x6c, 0x56, 0xf4, 0xea, 0x65, 0x7a, 0xae, 0x08,
     0xba, 0x78, 0x25, 0x2e, 0x1c, 0xa6, 0xb4, 0xc6, 0xe8, 0xdd, 0x74, 0x1f,
     0x4b, 0xbd, 0x8b, 0x8a, 0x70, 0x3e, 0xb5, 0x66, 0x48, 0x03, 0xf6, 0x0e,
     0x61, 0x35, 0x57, 0xb9, 0x86, 0xc1, 0x1d, 0x9e, 0xe1, 0xf8, 0x98, 0x11,
     0x69, 0xd9, 0x8e, 0x94, 0x9b, 0x1e, 0x87, 0xe9, 0xce, 0x55, 0x28, 0xdf,
     0x8c, 0xa1, 0x89, 0x0d, 0xbf, 0xe6, 0x42, 0x68, 0x41, 0x99, 0x2d, 0x0f,
     0xb0, 0x54, 0xbb, 0x16]"

definition subByte :: "byte \<Rightarrow> byte" where
  "subByte b = sbox ! unat b"

definition xtime :: "byte \<Rightarrow> byte" where
  "xtime b = push_bit 1 b XOR (if bit b 7 then 0x1b else 0)"

text \<open>Key expansion to 60 words of four bytes, latest first.\<close>

fun rcon :: "nat \<Rightarrow> byte" where
  "rcon 0 = 1"
| "rcon (Suc n) = xtime (rcon n)"

definition aesExpandStep :: "nat \<Rightarrow> byte list list \<Rightarrow> byte list list" where
  "aesExpandStep i ws =
     (let prev = hd ws;
          t = (if i mod 8 = 0
               then map2 (XOR) (map subByte (rotate1 prev)) [rcon (i div 8 - 1), 0, 0, 0]
               else if i mod 8 = 4 then map subByte prev else prev)
      in map2 (XOR) (ws ! 7) t # ws)"

definition aesExpand :: "byte list \<Rightarrow> byte list list" where
  "aesExpand key = rev (fold aesExpandStep [8..<60] (rev (chunks 8 4 key)))"

definition addRoundKey :: "byte list list \<Rightarrow> nat \<Rightarrow> byte list \<Rightarrow> byte list" where
  "addRoundKey ws r st = map2 (XOR) st (concat (take 4 (drop (4 * r) ws)))"

text \<open>The state is the block, column by column.\<close>

definition shiftRows :: "byte list \<Rightarrow> byte list" where
  "shiftRows st = map (\<lambda>i. st ! ((i + 4 * (i mod 4)) mod 16)) [0..<16]"

fun mixColumn :: "byte list \<Rightarrow> byte list" where
  "mixColumn [a, b, c, d] =
     (let t = a XOR b XOR c XOR d
      in [a XOR t XOR xtime (a XOR b), b XOR t XOR xtime (b XOR c),
          c XOR t XOR xtime (c XOR d), d XOR t XOR xtime (d XOR a)])"
| "mixColumn col = col"

definition aesRound :: "byte list list \<Rightarrow> nat \<Rightarrow> byte list \<Rightarrow> byte list" where
  "aesRound ws r st =
     addRoundKey ws r (concat (map mixColumn (chunks 4 4 (shiftRows (map subByte st)))))"

definition aes256 :: "byte list \<Rightarrow> byte list \<Rightarrow> byte list" where
  "aes256 key blk =
     (let ws = aesExpand key;
          st = fold (aesRound ws) [1..<14] (addRoundKey ws 0 blk)
      in addRoundKey ws 14 (shiftRows (map subByte st)))"

section \<open>Galois/counter mode\<close>

text \<open>Multiplication of GHASH: the most significant bit of the word is the first bit.\<close>

definition gfStep :: "128 word \<Rightarrow> nat \<Rightarrow> 128 word \<times> 128 word \<Rightarrow> 128 word \<times> 128 word" where
  "gfStep x i zv = (case zv of (z, v) \<Rightarrow>
     (if bit x (127 - i) then z XOR v else z,
      if bit v 0 then drop_bit 1 v XOR push_bit 120 0xe1 else drop_bit 1 v))"

definition gfMult :: "128 word \<Rightarrow> 128 word \<Rightarrow> 128 word" where
  "gfMult x y = fst (fold (gfStep x) [0..<128] (0, y))"

definition pad16 :: "byte list \<Rightarrow> byte list" where
  "pad16 bs = bs @ replicate ((16 - length bs mod 16) mod 16) 0"

definition ghash :: "128 word \<Rightarrow> byte list \<Rightarrow> 128 word" where
  "ghash h bs = fold (\<lambda>blk y. gfMult (y XOR beWord blk) h) (chunks (length bs div 16) 16 bs) 0"

definition gcmNonceSize :: nat where "gcmNonceSize = 12"
definition gcmTagSize :: nat where "gcmTagSize = 16"

text \<open>The counter block \<open>iv || n\<close> with a 32-bit counter that wraps around.\<close>

definition counterBlock :: "byte list \<Rightarrow> nat \<Rightarrow> byte list" where
  "counterBlock iv n = iv @ beBytes 4 (word_of_nat n :: 32 word)"

definition keystream :: "byte list \<Rightarrow> byte list \<Rightarrow> nat \<Rightarrow> byte list" where
  "keystream key iv len =
     take len (concat (map (\<lambda>i. aes256 key (counterBlock iv (i + 2))) [0..<len div 16 + 1]))"

definition ctrCrypt :: "byte list \<Rightarrow> byte list \<Rightarrow> byte list \<Rightarrow> byte list" where
  "ctrCrypt key iv bs = map2 (XOR) bs (keystream key iv (length bs))"

text \<open>The tag over the ciphertext; there is no additional data here.\<close>

definition gcmTag :: "byte list \<Rightarrow> byte list \<Rightarrow> byte list \<Rightarrow> byte list" where
  "gcmTag key iv ct =
     (let h = beWord (aes256 key (replicate 16 0));
          s = ghash h (pad16 ct @ replicate 8 0 @ beBytes 8 (word_of_nat (8 * length ct) :: 64 word))
      in beBytes 16 (s XOR beWord (aes256 key (counterBlock iv 1))))"

definition gcmSeal :: "byte list \<Rightarrow> byte list \<Rightarrow> byte list \<Rightarrow> byte list" where
  "gcmSeal key iv pt = (let ct = ctrCrypt key iv pt in ct @ gcmTag key iv ct)"

definition gcmOpen :: "byte list \<Rightarrow> byte list \<Rightarrow> byte list \<Rightarrow> byte list option" where
  "gcmOpen key iv sealed =
     (if length sealed < gcmTagSize then None
      else (let n = length sealed - gcmTagSize; ct = take n sealed; tag = drop n sealed
            in if tag = gcmTag key iv ct then Some (ctrCrypt key iv ct) else None))"

section \<open>Base64\<close>

definition b64Alphabet :: string where
  "b64Alphabet = ''ABCDEFGHIJKLMNOPQRSTUVWXYZabcdefghijklmnopqrstuvwxyz0123456789-_''"

definition b64Char :: "nat \<Rightarrow> char" where
  "b64Char i = b64Alphabet ! i"

definition b64Val :: "char \<Rightarrow> nat option" where
  "b64Val c = (let i = length (takeWhile (\<lambda>x. x \<noteq> c) b64Alphabet) in
     if i < 64 then Some i else None)"

fun b64EncodeN :: "nat list \<Rightarrow> string" where
  "b64EncodeN (a # b # c # rest) =
     b64Char (a div 4) # b64Char (a mod 4 * 16 + b div 16) # b64Char (b mod 16 * 4 + c div 64) #
       b64Char (c mod 64) # b64EncodeN rest"
| "b64EncodeN [a, b] =
     [b64Char (a div 4), b64Char (a mod 4 * 16 + b div 16), b64Char (b mod 16 * 4)]"
| "b64EncodeN [a] = [b64Char (a div 4), b64Char (a mod 4 * 16)]"
| "b64EncodeN [] = []"

definition b64Encode :: "byte list \<Rightarrow> string" where
  "b64Encode bs = b64EncodeN (map unat bs)"

text \<open>
  Decoding skips line breaks, refuses every other character outside the alphabet and a
  group of a single character, and ignores the unused bits of a last short group.
\<close>

fun b64DecodeN :: "nat list \<Rightarrow> nat list option" where
  "b64DecodeN (p # q # r # s # rest) =
     map_option (\<lambda>ns. (p * 4 + q div 16) # (q mod 16 * 16 + r div 4) # (r mod 4 * 64 + s) # ns)
       (b64DecodeN rest)"
| "b64DecodeN [p, q, r] = Some [p * 4 + q div 16, q mod 16 * 16 + r div 4]"
| "b64DecodeN [p, q] = Some [p * 4 + q div 16]"
| "b64DecodeN [p] = None"
| "b64DecodeN [] = Some []"

fun b64Vals :: "string \<Rightarrow> nat list option" where
  "b64Vals [] = Some []"
| "b64Vals (c # cs) =
     (if c = CHR 0x0A \<or> c = CHR 0x0D then b64Vals cs
      else (case b64Val c of
              None \<Rightarrow> None
            | Some v \<Rightarrow> map_option (\<lambda>vs. v # vs) (b64Vals cs)))"

definition b64Decode :: "string \<Rightarrow> byte list option" where
  "b64Decode s = (case b64Vals s of
     None \<Rightarrow> None
   | Some vs \<Rightarrow> map_option (map word_of_nat) (b64DecodeN vs))"

section \<open>Strings and bytes\<close>

lemma of_char_bound: "(of_char c :: nat) < 256"
  by (cases c) (simp add: of_char_def split: if_splits)

lemma unat_byte: "unat (b :: byte) < 256"
  by (rule order_less_le_trans [OF unsigned_less]) simp

lemma stringOf_bytesOf [simp]: "stringOf (bytesOf s) = s"
proof -
  have "unat (word_of_nat (of_char c) :: byte) = of_char c" for c :: char
    using of_char_bound [of c] by (simp add: unat_of_nat)
  then show ?thesis by (simp add: stringOf_def bytesOf_def map_idI)
qed

lemma bytesOf_stringOf [simp]: "bytesOf (stringOf bs) = bs"
proof -
  have "word_of_nat (of_char (char_of (unat b))) = b" for b :: byte
    using unat_byte [of b] by simp
  then show ?thesis by (simp add: stringOf_def bytesOf_def map_idI)
qed

lemma length_bytesOf [simp]: "length (bytesOf s) = length s" "length (stringOf bs) = length bs"
  by (simp_all add: bytesOf_def stringOf_def)

lemma bytesOf_eq_iff [simp]: "bytesOf s = bytesOf t \<longleftrightarrow> s = t"
  by (metis stringOf_bytesOf)

section \<open>Decoding undoes encoding\<close>

lemma b64Val_Char: "i < 64 \<Longrightarrow> b64Val (b64Char i) = Some i"
proof -
  have "list_all (\<lambda>i. b64Val (b64Char i) = Some i) [0..<64]"
    unfolding b64Val_def b64Char_def b64Alphabet_def by code_simp
  then show "i < 64 \<Longrightarrow> b64Val (b64Char i) = Some i" by (simp add: list_all_iff)
qed

lemma b64Char_not_break: "i < 64 \<Longrightarrow> b64Char i \<noteq> CHR 0x0A \<and> b64Char i \<noteq> CHR 0x0D"
proof -
  have "list_all (\<lambda>i. b64Char i \<noteq> CHR 0x0A \<and> b64Char i \<noteq> CHR 0x0D) [0..<64]"
    unfolding b64Char_def b64Alphabet_def by code_simp
  then show "i < 64 \<Longrightarrow> b64Char i \<noteq> CHR 0x0A \<and> b64Char i \<noteq> CHR 0x0D" by (simp add: list_all_iff)
qed

lemma b64_group_bounds:
  fixes a b c :: nat
  assumes "a < 256" "b < 256" "c < 256"
  shows "a div 4 < 64" "a mod 4 * 16 + b div 16 < 64" "b mod 16 * 4 + c div 64 < 64"
    "c mod 64 < 64" "a mod 4 * 16 < 64" "b mod 16 * 4 < 64"
proof -
  have "a mod 4 < 4" "b div 16 < 16" "b mod 16 < 16" "c div 64 < 4" using assms by auto
  then show "a mod 4 * 16 + b div 16 < 64" "b mod 16 * 4 + c div 64 < 64" "a mod 4 * 16 < 64"
    "b mod 16 * 4 < 64" by linarith+
qed (use assms in auto)

lemma b64_group_eqs:
  fixes a b c :: nat
  assumes "b < 256" "c < 256"
  shows "a div 4 * 4 + (a mod 4 * 16 + b div 16) div 16 = a"
    "(a mod 4 * 16 + b div 16) mod 16 * 16 + (b mod 16 * 4 + c div 64) div 4 = b"
    "(b mod 16 * 4 + c div 64) mod 4 * 64 + c mod 64 = c"
proof -
  have "b div 16 < 16" "c div 64 < 4" using assms by auto
  then have "(a mod 4 * 16 + b div 16) div 16 = a mod 4" "(a mod 4 * 16 + b div 16) mod 16 = b div 16"
    "(b mod 16 * 4 + c div 64) div 4 = b mod 16" "(b mod 16 * 4 + c div 64) mod 4 = c div 64"
    by (simp_all add: div_mult_self3 mod_mult_self3)
  then show "a div 4 * 4 + (a mod 4 * 16 + b div 16) div 16 = a"
    "(a mod 4 * 16 + b div 16) mod 16 * 16 + (b mod 16 * 4 + c div 64) div 4 = b"
    "(b mod 16 * 4 + c div 64) mod 4 * 64 + c mod 64 = c"
    by simp_all
qed

lemma b64_roundtripN:
  "list_all (\<lambda>n. n < 256) ns \<Longrightarrow>
   \<exists>vs. b64Vals (b64EncodeN ns) = Some vs \<and> b64DecodeN vs = Some ns"
proof (induction ns rule: b64EncodeN.induct)
  case (1 a b c rest)
  then obtain vs where vs: "b64Vals (b64EncodeN rest) = Some vs" "b64DecodeN vs = Some rest" by auto
  from 1 have lt: "a < 256" "b < 256" "c < 256" by auto
  show ?case using b64_group_bounds [OF lt] b64_group_eqs [OF lt(2,3)] vs
    by (simp add: b64Val_Char b64Char_not_break)
next
  case (2 a b)
  then have lt: "a < 256" "b < 256" by auto
  show ?case using b64_group_bounds [OF lt lt(2)] b64_group_eqs [OF lt(2), of 0]
    by (simp add: b64Val_Char b64Char_not_break)
next
  case (3 a)
  then have lt: "a < 256" by auto
  show ?case using b64_group_bounds [OF lt lt lt] b64_group_eqs(1) [of 0 0 a]
    by (simp add: b64Val_Char b64Char_not_break)
next
  case 4
  then show ?case by simp
qed

lemma b64Decode_Encode [simp]: "b64Decode (b64Encode bs) = Some bs"
proof -
  have "list_all (\<lambda>n. n < 256) (map unat bs)"
    by (simp add: list_all_iff unat_byte)
  from b64_roundtripN [OF this] show ?thesis
    by (auto simp: b64Decode_def b64Encode_def map_idI)
qed

text \<open>The interface of an encoding into text: what was encoded can be decoded.\<close>

locale text_codec =
  fixes enc :: "'b \<Rightarrow> string"
    and dec :: "string \<Rightarrow> 'b option"
  assumes dec_enc: "dec (enc x) = Some x"
begin

lemma enc_inj: "enc x = enc y \<longleftrightarrow> x = y"
  by (metis dec_enc option.inject)

end

interpretation b64: text_codec b64Encode b64Decode
  by unfold_locales simp

section \<open>Lengths\<close>

lemma length_beBytes [simp]: "length (beBytes n w) = n"
  by (simp add: beBytes_def)

lemma length_chunks [simp]: "length (chunks k n xs) = k"
  by (induction k arbitrary: xs) auto

lemma length_shaRound: "length (shaRound kw st) = length st"
  by (induction kw st rule: shaRound.induct) (auto simp: Let_def)

lemma length_fold_shaRound: "length (fold shaRound kws st) = length st"
  by (induction kws arbitrary: st) (auto simp: length_shaRound)

lemma length_shaCompress: "length (shaCompress blk st) = length st"
  by (simp add: shaCompress_def length_fold_shaRound)

lemma length_fold_shaCompress: "length (fold shaCompress blks st) = length st"
  by (induction blks arbitrary: st) (auto simp: length_shaCompress)

lemma length_sha256 [simp]: "length (sha256 m) = 32"
  by (simp add: sha256_def Let_def length_concat comp_def sum_list_triv length_fold_shaCompress shaInit_def primes64_def)

lemma length_hmacSha256 [simp]: "length (hmacSha256 key m) = 32"
  by (simp add: hmacSha256_def Let_def)

lemma chunks_lengths: "k * n \<le> length xs \<Longrightarrow> \<forall>c \<in> set (chunks k n xs). length c = n"
proof (induction k arbitrary: xs)
  case 0
  then show ?case by simp
next
  case (Suc k)
  from Suc.prems have "k * n \<le> length (drop n xs)" by simp
  from Suc.IH [OF this] Suc.prems show ?case by simp
qed

lemma aesExpandStep_lengths:
  assumes "\<forall>w \<in> set ws. length w = 4" "8 \<le> length ws"
  shows "(\<forall>w \<in> set (aesExpandStep i ws). length w = 4) \<and> length (aesExpandStep i ws) = Suc (length ws)"
proof -
  have "hd ws \<in> set ws" "ws ! 7 \<in> set ws" using assms(2) by (cases ws; simp)+
  with assms show ?thesis by (simp add: aesExpandStep_def Let_def)
qed

lemma aesExpand_fold_lengths:
  "\<forall>w \<in> set ws. length w = 4 \<Longrightarrow> 8 \<le> length ws \<Longrightarrow>
   (\<forall>w \<in> set (fold aesExpandStep js ws). length w = 4) \<and>
   length (fold aesExpandStep js ws) = length js + length ws"
proof (induction js arbitrary: ws)
  case Nil
  then show ?case by simp
next
  case (Cons i js)
  from aesExpandStep_lengths [OF Cons.prems] Cons.IH [of "aesExpandStep i ws"] Cons.prems(2)
  show ?case by simp
qed

lemma aesExpand_lengths:
  assumes "length key = 32"
  shows "\<forall>w \<in> set (aesExpand key). length w = 4" "length (aesExpand key) = 60"
  using aesExpand_fold_lengths [of "rev (chunks 8 4 key)" "[8..<60]"] chunks_lengths [of 8 4 key] assms
  by (simp_all add: aesExpand_def)

lemma length_concat_const: "\<forall>x \<in> set xs. length x = n \<Longrightarrow> length (concat xs) = length xs * n"
  by (induction xs) auto

lemma length_addRoundKey:
  assumes "length key = 32" "r \<le> 14" "length st = 16"
  shows "length (addRoundKey (aesExpand key) r st) = 16"
proof -
  have "length (concat (take 4 (drop (4 * r) (aesExpand key)))) = 16"
    using length_concat_const [of "take 4 (drop (4 * r) (aesExpand key))" 4] aesExpand_lengths [OF assms(1)] assms(2)
    by (auto dest!: in_set_takeD in_set_dropD)
  with assms(3) show ?thesis by (simp add: addRoundKey_def)
qed

lemma length_shiftRows [simp]: "length (shiftRows st) = 16"
  by (simp add: shiftRows_def)

lemma length_mixColumn [simp]: "length (mixColumn c) = length c"
  by (induction c rule: mixColumn.induct) (auto simp: Let_def)

lemma length_aesRound:
  assumes "length key = 32" "r \<le> 14"
  shows "length (aesRound (aesExpand key) r st) = 16"
proof -
  have "length (concat (map mixColumn (chunks 4 4 (shiftRows (map subByte st))))) = 16"
    using length_concat_const [of "map mixColumn (chunks 4 4 (shiftRows (map subByte st)))" 4]
      chunks_lengths [of 4 4 "shiftRows (map subByte st)"]
    by (simp del: chunks.simps)
  with assms show ?thesis by (simp add: aesRound_def length_addRoundKey)
qed

lemma length_aes256:
  assumes "length key = 32"
  shows "length (aes256 key blk) = 16"
  using assms by (simp add: aes256_def Let_def length_addRoundKey)

section \<open>Sealing and opening\<close>

lemma length_keystream [simp]: "length key = 32 \<Longrightarrow> length (keystream key iv n) = n"
proof -
  assume key: "length key = 32"
  have "length (concat (map (\<lambda>i. aes256 key (counterBlock iv (i + 2))) [0..<n div 16 + 1])) =
      (n div 16 + 1) * 16"
    using length_concat_const [of "map (\<lambda>i. aes256 key (counterBlock iv (i + 2))) [0..<n div 16 + 1]" 16]
    by (simp add: length_aes256 [OF key] del: upt_Suc)
  then show ?thesis by (simp add: keystream_def del: upt_Suc)
qed

lemma length_ctrCrypt [simp]: "length key = 32 \<Longrightarrow> length (ctrCrypt key iv bs) = length bs"
  by (simp add: ctrCrypt_def)

lemma xor_twice: "length ks = length bs \<Longrightarrow> map2 (XOR) (map2 (XOR) bs ks) ks = (bs :: byte list)"
  by (induction bs ks rule: list_induct2') (auto simp: xor.assoc)

lemma ctrCrypt_twice [simp]: "length key = 32 \<Longrightarrow> ctrCrypt key iv (ctrCrypt key iv bs) = bs"
  by (simp add: ctrCrypt_def xor_twice)

lemma length_gcmTag [simp]: "length (gcmTag key iv ct) = gcmTagSize"
  by (simp add: gcmTag_def gcmTagSize_def Let_def)

text \<open>
  The interface of an authenticated cipher under one key: what was sealed opens, and what
  opens was sealed, under the same nonce and to the same text.
\<close>

locale aead =
  fixes seal :: "'iv \<Rightarrow> 'b list \<Rightarrow> 'b list"
    and unseal :: "'iv \<Rightarrow> 'b list \<Rightarrow> 'b list option"
  assumes unseal_seal: "unseal iv (seal iv pt) = Some pt"
    and seal_unseal: "unseal iv ct = Some pt \<Longrightarrow> ct = seal iv pt"
begin

lemma unseal_iff: "unseal iv ct = Some pt \<longleftrightarrow> ct = seal iv pt"
  using unseal_seal seal_unseal by blast

lemma seal_inj: "seal iv p = seal iv q \<longleftrightarrow> p = q"
  by (metis unseal_seal option.inject)

end

lemma aead_gcm:
  assumes key: "length key = 32"
  shows "aead (gcmSeal key) (gcmOpen key)"
proof
  fix iv pt
  show "gcmOpen key iv (gcmSeal key iv pt) = Some pt"
    by (simp add: gcmOpen_def gcmSeal_def Let_def key)
next
  fix iv ct pt assume "gcmOpen key iv ct = Some pt"
  then show "ct = gcmSeal key iv pt"
    by (auto simp: gcmOpen_def gcmSeal_def Let_def key split: if_splits)
       (metis append_take_drop_id)
qed

text \<open>The keys of the program are hashes, so they have the right length.\<close>

interpretation gcm: aead "gcmSeal (sha256 k)" "gcmOpen (sha256 k)" for k
  by (rule aead_gcm) simp

end
