(* ===== verification/Go_Json.thy ===== *)
theory Go_Json
  imports Go_Strings
begin

text \<open>
  Go's \<open>encoding/json\<close> as far as the program uses it: parsing of JSON texts, decoding into
  structs of strings, integers and one nested struct, decoding of \<open>[]int32\<close>, and the encoding
  of such structs. Strings are bytes; invalid UTF-8 is replaced by U+FFFD, as Go does.
\<close>

datatype json =
    JNull
  | JBool bool
  | JNum string
  | JStr string
  | JArr "json list"
  | JObj "(string \<times> json) list"

abbreviation byteVal :: "char \<Rightarrow> nat" where
  "byteVal c \<equiv> of_char c"

section \<open>UTF-8\<close>

definition inRange :: "nat \<Rightarrow> nat \<Rightarrow> char \<Rightarrow> bool" where
  "inRange lo hi c = (lo \<le> byteVal c \<and> byteVal c \<le> hi)"

text \<open>The length of the multi-byte rune at the front, 0 if there is no valid one.\<close>

fun runeLen :: "string \<Rightarrow> nat" where
  "runeLen (a # b # c # d # _) =
     (if inRange 0xC2 0xDF a \<and> inRange 0x80 0xBF b then 2
      else if (inRange 0xE0 0xE0 a \<and> inRange 0xA0 0xBF b \<or> inRange 0xE1 0xEC a \<and> inRange 0x80 0xBF b \<or>
               inRange 0xED 0xED a \<and> inRange 0x80 0x9F b \<or> inRange 0xEE 0xEF a \<and> inRange 0x80 0xBF b) \<and>
              inRange 0x80 0xBF c then 3
      else if (inRange 0xF0 0xF0 a \<and> inRange 0x90 0xBF b \<or> inRange 0xF1 0xF3 a \<and> inRange 0x80 0xBF b \<or>
               inRange 0xF4 0xF4 a \<and> inRange 0x80 0x8F b) \<and>
              inRange 0x80 0xBF c \<and> inRange 0x80 0xBF d then 4
      else 0)"
| "runeLen [a, b, c] =
     (if inRange 0xC2 0xDF a \<and> inRange 0x80 0xBF b then 2
      else if (inRange 0xE0 0xE0 a \<and> inRange 0xA0 0xBF b \<or> inRange 0xE1 0xEC a \<and> inRange 0x80 0xBF b \<or>
               inRange 0xED 0xED a \<and> inRange 0x80 0x9F b \<or> inRange 0xEE 0xEF a \<and> inRange 0x80 0xBF b) \<and>
              inRange 0x80 0xBF c then 3
      else 0)"
| "runeLen [a, b] = (if inRange 0xC2 0xDF a \<and> inRange 0x80 0xBF b then 2 else 0)"
| "runeLen _ = 0"

definition replacementChar :: string where
  "replacementChar = [CHR 0xEF, CHR 0xBF, CHR 0xBD]"

text \<open>\<open>utf8.AppendRune\<close>; surrogates do not occur here.\<close>

definition utf8Encode :: "nat \<Rightarrow> string" where
  "utf8Encode n =
     (if n < 0x80 then [char_of n]
      else if n < 0x800 then [char_of (0xC0 + n div 64), char_of (0x80 + n mod 64)]
      else if n < 0x10000
      then [char_of (0xE0 + n div 4096), char_of (0x80 + n div 64 mod 64), char_of (0x80 + n mod 64)]
      else [char_of (0xF0 + n div 262144), char_of (0x80 + n div 4096 mod 64),
            char_of (0x80 + n div 64 mod 64), char_of (0x80 + n mod 64)])"

section \<open>Strings\<close>

definition hexDigits :: string where "hexDigits = ''0123456789abcdef''"

definition hexVal :: "char \<Rightarrow> nat option" where
  "hexVal c =
     (if inRange 48 57 c then Some (byteVal c - 48)
      else if inRange 97 102 c then Some (byteVal c - 87)
      else if inRange 65 70 c then Some (byteVal c - 55)
      else None)"

fun hex4 :: "string \<Rightarrow> (nat \<times> string) option" where
  "hex4 (a # b # c # d # r) =
     (case (hexVal a, hexVal b, hexVal c, hexVal d) of
        (Some a', Some b', Some c', Some d') \<Rightarrow> Some (a' * 4096 + b' * 256 + c' * 16 + d', r)
      | _ \<Rightarrow> None)"
| "hex4 _ = None"

definition simpleEscape :: "char \<Rightarrow> char option" where
  "simpleEscape c =
     map_of [(CHR 0x22, CHR 0x22), (CHR 0x5C, CHR 0x5C), (CHR ''/'', CHR ''/''), (CHR ''b'', CHR 0x08),
       (CHR ''f'', CHR 0x0C), (CHR ''n'', CHR 0x0A), (CHR ''r'', CHR 0x0D), (CHR ''t'', CHR 0x09)] c"

text \<open>A low surrogate escape at the front, as the second half of a pair.\<close>

fun lowSurrogate :: "string \<Rightarrow> (nat \<times> string) option" where
  "lowSurrogate (a # b # r) =
     (if a = CHR 0x5C \<and> b = CHR ''u''
      then (case hex4 r of
              Some (n, r') \<Rightarrow> if 0xDC00 \<le> n \<and> n \<le> 0xDFFF then Some (n, r') else None
            | None \<Rightarrow> None)
      else None)"
| "lowSurrogate _ = None"

text \<open>
  One unit of a string literal after the opening quote, other than the closing quote: the
  bytes it stands for and the rest.
\<close>

definition unitStep :: "char \<Rightarrow> string \<Rightarrow> (string \<times> string) option" where
  "unitStep c r =
     (if c = CHR 0x5C then
        (case r of
           [] \<Rightarrow> None
         | e # r1 \<Rightarrow>
             if e = CHR ''u'' then
               (case hex4 r1 of
                  None \<Rightarrow> None
                | Some (n, r2) \<Rightarrow>
                    if 0xD800 \<le> n \<and> n \<le> 0xDFFF then
                      (case (if n \<le> 0xDBFF then lowSurrogate r2 else None) of
                         Some (l, r3) \<Rightarrow> Some (utf8Encode (0x10000 + (n - 0xD800) * 1024 + (l - 0xDC00)), r3)
                       | None \<Rightarrow> Some (replacementChar, r2))
                    else Some (utf8Encode n, r2))
             else map_option (\<lambda>ch. ([ch], r1)) (simpleEscape e))
      else if byteVal c < 32 then None
      else if byteVal c < 128 then Some ([c], r)
      else (let n = runeLen (c # r) in
            if n = 0 then Some (replacementChar, r) else Some (take n (c # r), drop (n - 1) r)))"

lemma hex4_length: "hex4 s = Some (n, r) \<Longrightarrow> length r < length s"
  by (induction s rule: hex4.induct) (auto split: option.splits)

lemma lowSurrogate_length: "lowSurrogate s = Some (n, r) \<Longrightarrow> length r < length s"
  by (induction s rule: lowSurrogate.induct) (auto dest: hex4_length split: option.splits if_splits)

lemma unitStep_length: "unitStep c r = Some (u, r') \<Longrightarrow> length r' \<le> length r"
  by (auto simp: unitStep_def Let_def dest!: hex4_length lowSurrogate_length
      split: if_splits list.splits option.splits)

function (sequential) parseStr :: "string \<Rightarrow> (string \<times> string) option" where
  "parseStr [] = None"
| "parseStr (c # r) =
     (if c = CHR 0x22 then Some ([], r)
      else (case unitStep c r of
              None \<Rightarrow> None
            | Some (u, r') \<Rightarrow> map_option (\<lambda>(s, rest). (u @ s, rest)) (parseStr r')))"
  by pat_completeness auto
termination
  by (relation "measure length") (auto dest: unitStep_length)

section \<open>Values\<close>

definition isWs :: "char \<Rightarrow> bool" where
  "isWs c = (c \<in> {CHR '' '', CHR 0x09, CHR 0x0A, CHR 0x0D})"

definition skipWs :: "string \<Rightarrow> string" where
  "skipWs s = dropWhile isWs s"

definition scanDigits :: "string \<Rightarrow> (string \<times> string) option" where
  "scanDigits s = (let ds = takeWhile isDigit s in if ds = [] then None else Some (ds, dropWhile isDigit s))"

definition scanIntPart :: "string \<Rightarrow> (string \<times> string) option" where
  "scanIntPart s =
     (case s of
        [] \<Rightarrow> None
      | c # cs \<Rightarrow> if c = CHR ''0'' then Some ([c], cs) else scanDigits s)"

definition scanFraction :: "string \<Rightarrow> (string \<times> string) option" where
  "scanFraction s =
     (case s of
        [] \<Rightarrow> Some ([], s)
      | c # cs \<Rightarrow> if c = CHR ''.'' then map_option (\<lambda>(ds, r). (c # ds, r)) (scanDigits cs) else Some ([], s))"

definition scanExponent :: "string \<Rightarrow> (string \<times> string) option" where
  "scanExponent s =
     (case s of
        [] \<Rightarrow> Some ([], s)
      | c # cs \<Rightarrow>
          if c = CHR ''e'' \<or> c = CHR ''E'' then
            (case cs of
               [] \<Rightarrow> None
             | d # ds \<Rightarrow>
                 if d = CHR ''+'' \<or> d = CHR ''-'' then map_option (\<lambda>(x, r). (c # d # x, r)) (scanDigits ds)
                 else map_option (\<lambda>(x, r). (c # x, r)) (scanDigits cs))
          else Some ([], s))"

definition scanNumber :: "string \<Rightarrow> (string \<times> string) option" where
  "scanNumber s =
     (let (sign, s0) = (case s of [] \<Rightarrow> ([], s) | c # cs \<Rightarrow> if c = CHR ''-'' then ([c], cs) else ([], s)) in
      case scanIntPart s0 of
        None \<Rightarrow> None
      | Some (i, s1) \<Rightarrow>
          (case scanFraction s1 of
             None \<Rightarrow> None
           | Some (f, s2) \<Rightarrow>
               (case scanExponent s2 of
                  None \<Rightarrow> None
                | Some (e, s3) \<Rightarrow> Some (sign @ i @ f @ e, s3))))"

text \<open>A literal, or a number.\<close>

definition parseAtom :: "string \<Rightarrow> (json \<times> string) option" where
  "parseAtom s =
     (if hasPrefix ''null'' s then Some (JNull, drop 4 s)
      else if hasPrefix ''true'' s then Some (JBool True, drop 4 s)
      else if hasPrefix ''false'' s then Some (JBool False, drop 5 s)
      else map_option (\<lambda>(lit, r). (JNum lit, r)) (scanNumber s))"

text \<open>
  The parser. The first argument is fuel, the second the nesting depth that is left (Go
  allows 10000).
\<close>

fun parseVal :: "nat \<Rightarrow> nat \<Rightarrow> string \<Rightarrow> (json \<times> string) option"
  and parseElems :: "nat \<Rightarrow> nat \<Rightarrow> string \<Rightarrow> (json list \<times> string) option"
  and parseMembers :: "nat \<Rightarrow> nat \<Rightarrow> string \<Rightarrow> ((string \<times> json) list \<times> string) option" where
  "parseVal 0 d s = None"
| "parseVal (Suc f) d s =
     (case skipWs s of
        [] \<Rightarrow> None
      | c # cs \<Rightarrow>
          if c = CHR 0x22 then map_option (\<lambda>(t, r). (JStr t, r)) (parseStr cs)
          else if c = CHR ''['' then
            (if d = 0 then None
             else (case skipWs cs of
                     [] \<Rightarrow> None
                   | e # r \<Rightarrow>
                       if e = CHR '']'' then Some (JArr [], r)
                       else map_option (\<lambda>(vs, r'). (JArr vs, r')) (parseElems f (d - 1) (e # r))))
          else if c = CHR ''{'' then
            (if d = 0 then None
             else (case skipWs cs of
                     [] \<Rightarrow> None
                   | e # r \<Rightarrow>
                       if e = CHR ''}'' then Some (JObj [], r)
                       else map_option (\<lambda>(ms, r'). (JObj ms, r')) (parseMembers f (d - 1) (e # r))))
          else parseAtom (c # cs))"
| "parseElems 0 d s = None"
| "parseElems (Suc f) d s =
     (case parseVal f d s of
        None \<Rightarrow> None
      | Some (v, r) \<Rightarrow>
          (case skipWs r of
             [] \<Rightarrow> None
           | c # cs \<Rightarrow>
               if c = CHR '','' then map_option (\<lambda>(vs, r'). (v # vs, r')) (parseElems f d cs)
               else if c = CHR '']'' then Some ([v], cs)
               else None))"
| "parseMembers 0 d s = None"
| "parseMembers (Suc f) d s =
     (case skipWs s of
        [] \<Rightarrow> None
      | q # t \<Rightarrow>
          if q \<noteq> CHR 0x22 then None
          else (case parseStr t of
                  None \<Rightarrow> None
                | Some (k, r0) \<Rightarrow>
                    (case skipWs r0 of
                       [] \<Rightarrow> None
                     | col # t2 \<Rightarrow>
                         if col \<noteq> CHR '':'' then None
                         else (case parseVal f d t2 of
                                 None \<Rightarrow> None
                               | Some (v, r) \<Rightarrow>
                                   (case skipWs r of
                                      [] \<Rightarrow> None
                                    | c # cs \<Rightarrow>
                                        if c = CHR '','' then map_option (\<lambda>(ms, r'). ((k, v) # ms, r')) (parseMembers f d cs)
                                        else if c = CHR ''}'' then Some ([(k, v)], cs)
                                        else None)))))"

definition parseJSON :: "string \<Rightarrow> json option" where
  "parseJSON s =
     (case parseVal (2 * length s + 2) 10000 s of
        Some (v, r) \<Rightarrow> if skipWs r = [] then Some v else None
      | None \<Rightarrow> None)"

section \<open>Decoding into Go values\<close>

text \<open>\<open>strconv.ParseInt(lit, 10, w)\<close> on a number literal: digits only, within the signed range.\<close>

definition intOfLit :: "string \<Rightarrow> int option" where
  "intOfLit lit =
     (case lit of
        [] \<Rightarrow> None
      | c # cs \<Rightarrow>
          if c = CHR ''-'' then (if cs \<noteq> [] \<and> list_all isDigit cs then Some (- foldl (\<lambda>n ch. 10 * n + digitVal ch) 0 cs) else None)
          else (if list_all isDigit lit then Some (foldl (\<lambda>n ch. 10 * n + digitVal ch) 0 lit) else None))"

definition parseInt :: "nat \<Rightarrow> string \<Rightarrow> int option" where
  "parseInt w lit =
     (case intOfLit lit of
        Some i \<Rightarrow> if - (2 ^ (w - 1)) \<le> i \<and> i < 2 ^ (w - 1) then Some i else None
      | None \<Rightarrow> None)"

text \<open>A value decoded over an old one: \<open>null\<close> leaves it, another type is an error.\<close>

fun decodeStr :: "json \<Rightarrow> string \<Rightarrow> string option" where
  "decodeStr (JStr s) old = Some s"
| "decodeStr JNull old = Some old"
| "decodeStr _ old = None"

fun decodeInt :: "nat \<Rightarrow> json \<Rightarrow> int \<Rightarrow> int option" where
  "decodeInt w (JNum lit) old = parseInt w lit"
| "decodeInt w JNull old = Some old"
| "decodeInt w _ old = None"

text \<open>
  Keys match field names up to case; besides ASCII letters that concerns the long s and the
  Kelvin sign, which fold to s and k.
\<close>

fun foldKey :: "string \<Rightarrow> string" where
  "foldKey [] = []"
| "foldKey (c # cs) =
     (if c = CHR 0xC5 \<and> take 1 cs = [CHR 0xBF] then CHR ''S'' # foldKey (drop 1 cs)
      else if c = CHR 0xE2 \<and> take 2 cs = [CHR 0x84, CHR 0xAA] then CHR ''K'' # foldKey (drop 2 cs)
      else if inRange 97 122 c then char_of (byteVal c - 32) # foldKey cs
      else c # foldKey cs)"

type_synonym 'a setters = "(string \<times> (json \<Rightarrow> 'a \<Rightarrow> 'a option)) list"

text \<open>Later members override earlier ones, unknown keys are skipped.\<close>

fun decodeMembers :: "'a setters \<Rightarrow> (string \<times> json) list \<Rightarrow> 'a \<Rightarrow> 'a option" where
  "decodeMembers fs [] x = Some x"
| "decodeMembers fs ((k, v) # ms) x =
     (case map_of (map (\<lambda>(n, st). (foldKey n, st)) fs) (foldKey k) of
        None \<Rightarrow> decodeMembers fs ms x
      | Some st \<Rightarrow> (case st v x of None \<Rightarrow> None | Some y \<Rightarrow> decodeMembers fs ms y))"

fun decodeObj :: "'a setters \<Rightarrow> json \<Rightarrow> 'a \<Rightarrow> 'a option" where
  "decodeObj fs (JObj ms) x = decodeMembers fs ms x"
| "decodeObj fs JNull x = Some x"
| "decodeObj fs _ x = None"

definition unmarshal :: "'a setters \<Rightarrow> 'a \<Rightarrow> string \<Rightarrow> 'a option" where
  "unmarshal fs zero s = (case parseJSON s of None \<Rightarrow> None | Some j \<Rightarrow> decodeObj fs j zero)"

text \<open>\<open>json.Unmarshal\<close> into a nil \<open>[]int32\<close>.\<close>

fun decodeElem32 :: "json \<Rightarrow> int32 option" where
  "decodeElem32 (JNum lit) = map_option word_of_int (parseInt 32 lit)"
| "decodeElem32 JNull = Some 0"
| "decodeElem32 _ = None"

fun decodeInt32s :: "json \<Rightarrow> int32 list option" where
  "decodeInt32s (JArr vs) = those (map decodeElem32 vs)"
| "decodeInt32s JNull = Some []"
| "decodeInt32s _ = None"

definition unmarshalInt32s :: "string \<Rightarrow> int32 list option" where
  "unmarshalInt32s s = (case parseJSON s of None \<Rightarrow> None | Some j \<Rightarrow> decodeInt32s j)"

section \<open>Encoding\<close>

definition hexChar :: "nat \<Rightarrow> char" where
  "hexChar n = hexDigits ! n"

text \<open>\<open>json.Marshal\<close> of a string, with the escapes for HTML.\<close>

definition escapeByte :: "char \<Rightarrow> string" where
  "escapeByte c =
     (if c = CHR 0x22 \<or> c = CHR 0x5C then [CHR 0x5C, c]
      else if c = CHR 0x08 then [CHR 0x5C, CHR ''b'']
      else if c = CHR 0x0C then [CHR 0x5C, CHR ''f'']
      else if c = CHR 0x0A then [CHR 0x5C, CHR ''n'']
      else if c = CHR 0x0D then [CHR 0x5C, CHR ''r'']
      else if c = CHR 0x09 then [CHR 0x5C, CHR ''t'']
      else if byteVal c < 32 \<or> c = CHR ''<'' \<or> c = CHR ''>'' \<or> c = CHR ''&''
      then [CHR 0x5C] @ ''u00'' @ [hexChar (byteVal c div 16), hexChar (byteVal c mod 16)]
      else [c])"

function (sequential) encodeStrBody :: "string \<Rightarrow> string" where
  "encodeStrBody [] = []"
| "encodeStrBody (c # r) =
     (if byteVal c < 128 then escapeByte c @ encodeStrBody r
      else (let n = runeLen (c # r); u = take n (c # r) in
            if n = 0 then [CHR 0x5C] @ ''ufffd'' @ encodeStrBody r
            else (if u = [CHR 0xE2, CHR 0x80, CHR 0xA8] then [CHR 0x5C] @ ''u2028''
                  else if u = [CHR 0xE2, CHR 0x80, CHR 0xA9] then [CHR 0x5C] @ ''u2029''
                  else u) @ encodeStrBody (drop (n - 1) r)))"
  by pat_completeness auto
termination
  by (relation "measure length") (auto simp: Let_def)

definition encodeStr :: "string \<Rightarrow> string" where
  "encodeStr s = CHR 0x22 # encodeStrBody s @ [CHR 0x22]"

text \<open>\<open>json.Marshal\<close> of a struct, given the encodings of its fields in order.\<close>

definition encodeMember :: "string \<times> string \<Rightarrow> string" where
  "encodeMember m = CHR 0x22 # fst m @ [CHR 0x22, CHR '':''] @ snd m"

definition encodeObj :: "(string \<times> string) list \<Rightarrow> string" where
  "encodeObj ms = CHR ''{'' # joinWith (CHR '','') (map encodeMember ms) @ ''}''"

text \<open>The string that comes back: invalid bytes are replaced.\<close>

function (sequential) toValidUTF8 :: "string \<Rightarrow> string" where
  "toValidUTF8 [] = []"
| "toValidUTF8 (c # r) =
     (if byteVal c < 128 then c # toValidUTF8 r
      else (let n = runeLen (c # r) in
            if n = 0 then replacementChar @ toValidUTF8 r
            else take n (c # r) @ toValidUTF8 (drop (n - 1) r)))"
  by pat_completeness auto
termination
  by (relation "measure length") (auto simp: Let_def)

section \<open>Strings come back\<close>

lemma runeLen_take:
  "runeLen s = n \<Longrightarrow> 0 < n \<Longrightarrow> runeLen (take n s @ t) = n"
  by (induction s rule: runeLen.induct; cases t rule: runeLen.cases) (auto split: if_splits)

lemma runeLen_le: "runeLen s \<le> length s"
  by (induction s rule: runeLen.induct) auto

lemma parseStr_unit:
  assumes "c \<noteq> CHR 0x22" "unitStep c r = Some (u, r')"
  shows "parseStr (c # r) = map_option (\<lambda>(s, rest). (u @ s, rest)) (parseStr r')"
  using assms by simp

lemma hexVal_hexChar: "n < 16 \<Longrightarrow> hexVal (hexChar n) = Some n"
proof -
  have "list_all (\<lambda>n. hexVal (hexChar n) = Some n) [0..<16]"
    unfolding hexVal_def hexChar_def hexDigits_def inRange_def by code_simp
  then show "n < 16 \<Longrightarrow> hexVal (hexChar n) = Some n" by (simp add: list_all_iff)
qed

lemma parseStr_hexEscape:
  assumes "hex4 (h @ t) = Some (n, t)" "n < 0xD800 \<or> 0xDFFF < n"
  shows "parseStr (CHR 0x5C # CHR ''u'' # h @ t) = map_option (\<lambda>(s, rest). (utf8Encode n @ s, rest)) (parseStr t)"
  using assms by (intro parseStr_unit) (auto simp: unitStep_def)

lemma parseStr_escapeByte:
  assumes "byteVal c < 128"
  shows "parseStr (escapeByte c @ t) = map_option (\<lambda>(s, rest). (c # s, rest)) (parseStr t)"
proof -
  consider "c \<in> {CHR 0x22, CHR 0x5C, CHR 0x08, CHR 0x0C, CHR 0x0A, CHR 0x0D, CHR 0x09}"
    | (hex) "escapeByte c = [CHR 0x5C] @ ''u00'' @ [hexChar (byteVal c div 16), hexChar (byteVal c mod 16)]"
    | (raw) "escapeByte c = [c]" "c \<noteq> CHR 0x22" "c \<noteq> CHR 0x5C" "\<not> byteVal c < 32"
    by (cases "c \<in> {CHR 0x22, CHR 0x5C, CHR 0x08, CHR 0x0C, CHR 0x0A, CHR 0x0D, CHR 0x09}";
        cases "byteVal c < 32 \<or> c = CHR ''<'' \<or> c = CHR ''>'' \<or> c = CHR ''&''")
      (simp_all add: escapeByte_def)
  then show ?thesis
  proof cases
    case 1
    then show ?thesis
      by (elim insertE emptyE) (simp_all add: escapeByte_def unitStep_def simpleEscape_def)
  next
    case hex
    have z: "hexVal (CHR ''0'') = Some 0" by (simp add: hexVal_def inRange_def)
    have "byteVal c div 16 < 16" "byteVal c mod 16 < 16" using assms by auto
    then have "hex4 ((''00'' @ [hexChar (byteVal c div 16), hexChar (byteVal c mod 16)]) @ t) = Some (byteVal c, t)"
      by (simp add: z hexVal_hexChar)
    from parseStr_hexEscape [OF this] assms show ?thesis
      by (simp add: hex utf8Encode_def)
  next
    case raw
    with assms show ?thesis by (simp add: unitStep_def)
  qed
qed

lemma parseStr_rune:
  assumes "\<not> byteVal c < 128" "runeLen (c # r) = n" "0 < n"
  shows "parseStr (take n (c # r) @ t) = map_option (\<lambda>(s, rest). (take n (c # r) @ s, rest)) (parseStr t)"
proof -
  have len: "n - 1 \<le> length r" using runeLen_le [of "c # r"] assms(2) by simp
  have eq: "take n (c # r) = c # take (n - 1) r" using assms(3) by (cases n) auto
  have "runeLen (c # take (n - 1) r @ t) = n"
    using runeLen_take [OF assms(2,3), of t] eq by simp
  moreover have "c \<noteq> CHR 0x22" "c \<noteq> CHR 0x5C" using assms(1) by auto
  ultimately show ?thesis
    using assms(1,3) len unfolding eq
    by (simp add: unitStep_def eq take_Cons')
qed

lemma hex4_literals:
  "hex4 (''fffd'' @ t) = Some (0xFFFD, t)" "hex4 (''2028'' @ t) = Some (0x2028, t)"
  "hex4 (''2029'' @ t) = Some (0x2029, t)"
  by (simp_all add: hexVal_def inRange_def)

lemma utf8Encode_literals:
  "utf8Encode 0xFFFD = replacementChar" "utf8Encode 0x2028 = [CHR 0xE2, CHR 0x80, CHR 0xA8]"
  "utf8Encode 0x2029 = [CHR 0xE2, CHR 0x80, CHR 0xA9]"
  by (simp_all add: utf8Encode_def replacementChar_def char_of_def bit_0)

text \<open>The encoding of one rune of several bytes comes back.\<close>

definition encodeRune :: "string \<Rightarrow> string" where
  "encodeRune u = (if u = [CHR 0xE2, CHR 0x80, CHR 0xA8] then [CHR 0x5C] @ ''u2028''
     else if u = [CHR 0xE2, CHR 0x80, CHR 0xA9] then [CHR 0x5C] @ ''u2029'' else u)"

lemma parseStr_encodeRune:
  assumes "\<not> byteVal c < 128" "runeLen (c # r) = n" "0 < n"
  shows "parseStr (encodeRune (take n (c # r)) @ t) =
    map_option (\<lambda>(s, rest). (take n (c # r) @ s, rest)) (parseStr t)"
proof -
  consider "take n (c # r) = [CHR 0xE2, CHR 0x80, CHR 0xA8]" | "take n (c # r) = [CHR 0xE2, CHR 0x80, CHR 0xA9]"
    | "encodeRune (take n (c # r)) = take n (c # r)"
    unfolding encodeRune_def by metis
  then show ?thesis
  proof cases
    case 1
    show ?thesis
      using parseStr_hexEscape [OF hex4_literals(2), of t] unfolding 1 encodeRune_def utf8Encode_literals by simp
  next
    case 2
    show ?thesis
      using parseStr_hexEscape [OF hex4_literals(3), of t] unfolding 2 encodeRune_def utf8Encode_literals by simp
  next
    case 3
    then show ?thesis using parseStr_rune [OF assms, of t] by simp
  qed
qed

lemma encodeStrBody_rune:
  "\<not> byteVal c < 128 \<Longrightarrow> runeLen (c # r) \<noteq> 0 \<Longrightarrow>
   encodeStrBody (c # r) = encodeRune (take (runeLen (c # r)) (c # r)) @ encodeStrBody (drop (runeLen (c # r) - 1) r)"
  unfolding encodeStrBody.simps Let_def encodeRune_def by (simp only: if_False)

declare encodeStrBody.simps(2) [simp del] toValidUTF8.simps(2) [simp del] parseStr.simps(2) [simp del]

lemma parseStr_quote [simp]: "parseStr (CHR 0x22 # r) = Some ([], r)"
  by (simp add: parseStr.simps)

lemma parseStr_encodeStrBody:
  "parseStr (encodeStrBody s @ CHR 0x22 # rest) = Some (toValidUTF8 s, rest)"
proof (induction s rule: encodeStrBody.induct)
  case 1
  then show ?case by simp
next
  case (2 c r)
  let ?n = "runeLen (c # r)" and ?q = "CHR 0x22 # rest"
  consider (ascii) "byteVal c < 128" | (bad) "\<not> byteVal c < 128" "?n = 0" | (rune) "\<not> byteVal c < 128" "?n \<noteq> 0"
    by blast
  then show ?case
  proof cases
    case ascii
    then show ?thesis using 2(1)
      by (simp add: encodeStrBody.simps(2) toValidUTF8.simps(2) parseStr_escapeByte)
  next
    case bad
    have "parseStr (encodeStrBody r @ ?q) = Some (toValidUTF8 r, rest)"
      by (rule 2(2)) (use bad in auto)
    with bad show ?thesis
      using parseStr_hexEscape [OF hex4_literals(1), of "encodeStrBody r @ ?q"]
      by (simp add: encodeStrBody.simps(2) toValidUTF8.simps(2) utf8Encode_literals)
  next
    case rune
    have IH: "parseStr (encodeStrBody (drop (?n - 1) r) @ ?q) = Some (toValidUTF8 (drop (?n - 1) r), rest)"
      by (rule 2(3)) (use rune in auto)
    have valid: "toValidUTF8 (c # r) = take ?n (c # r) @ toValidUTF8 (drop (?n - 1) r)"
      using rune by (simp add: toValidUTF8.simps(2) Let_def)
    show ?thesis
      unfolding encodeStrBody_rune [OF rune] valid append_assoc
      using parseStr_encodeRune [OF rune(1) refl, of r "encodeStrBody (drop (?n - 1) r) @ ?q"] rune(2) IH
      by simp
  qed
qed

text \<open>ASCII text, in particular every Kubernetes name, is valid.\<close>

lemma toValidUTF8_ascii: "list_all (\<lambda>c. byteVal c < 128) s \<Longrightarrow> toValidUTF8 s = s"
  by (induction s) (auto simp: toValidUTF8.simps(2))

section \<open>Numbers come back\<close>

lemma isDigit_digitChar: "d < 10 \<Longrightarrow> isDigit (digitChar d)"
proof -
  have "list_all (\<lambda>d. isDigit (digitChar d)) [0..<10]"
    unfolding isDigit_def digitChar_def by code_simp
  then show "d < 10 \<Longrightarrow> isDigit (digitChar d)" by (simp add: list_all_iff)
qed

lemma digitVal_digitChar: "d < 10 \<Longrightarrow> digitVal (digitChar d) = int d"
  by (simp add: digitVal_def digitChar_def)

lemma digitChar_eq_0: "d < 10 \<Longrightarrow> digitChar d = CHR ''0'' \<longleftrightarrow> d = 0"
  using digitVal_digitChar [of d] by (auto simp: digitVal_def digitChar_def char_of_def bit_0)

lemma showNat_digits: "list_all isDigit (showNat n) \<and> showNat n \<noteq> []"
  by (induction n rule: showNat.induct) (subst (1 2) showNat.simps, auto simp: isDigit_digitChar)

lemma showNat_value: "foldl (\<lambda>n ch. 10 * n + digitVal ch) 0 (showNat n) = int n"
proof (induction n rule: showNat.induct)
  case (1 n)
  show ?case
  proof (cases "n < 10")
    case True
    then show ?thesis by (subst showNat.simps) (simp add: digitVal_digitChar)
  next
    case False
    have "10 * int (n div 10) + int (n mod 10) = int n" by presburger
    with 1 False show ?thesis by (subst showNat.simps) (simp add: digitVal_digitChar)
  qed
qed

lemma showNat_hd: "hd (showNat n) = CHR ''0'' \<Longrightarrow> n = 0"
proof (induction n rule: showNat.induct)
  case (1 n)
  show ?case
  proof (cases "n < 10")
    case True
    with 1(2) show ?thesis by (subst (asm) showNat.simps) (simp add: digitChar_eq_0)
  next
    case False
    with 1(2) have "hd (showNat (n div 10)) = CHR ''0''"
      using showNat_digits [of "n div 10"] by (subst (asm) showNat.simps) simp
    with 1(1) False show ?thesis by simp
  qed
qed

lemma isDigit_not_minus: "isDigit c \<Longrightarrow> c \<noteq> CHR ''-''"
  by (auto simp: isDigit_def)

lemma intOfLit_showInt: "intOfLit (showInt i) = Some i"
proof -
  obtain c cs where c: "showNat (nat i) = c # cs" using showNat_digits [of "nat i"] by (cases "showNat (nat i)") auto
  then have "isDigit c" using showNat_digits [of "nat i"] by simp
  then show ?thesis
    using showNat_digits [of "nat (- i)"] showNat_digits [of "nat i"] showNat_value [of "nat i"]
      showNat_value [of "nat (- i)"] c isDigit_not_minus [of c]
    by (auto simp: intOfLit_def showInt_def)
qed

lemma parseInt_showInt:
  "- (2 ^ (w - 1)) \<le> i \<Longrightarrow> i < 2 ^ (w - 1) \<Longrightarrow> parseInt w (showInt i) = Some i"
  by (simp add: parseInt_def intOfLit_showInt)

section \<open>Texts that print a value\<close>

definition endsVal :: "string \<Rightarrow> bool" where
  "endsVal rest = (rest = [] \<or> hd rest \<in> {CHR '','', CHR ''}'', CHR '']''})"

text \<open>
  \<open>prints k t v\<close>: followed by something that can follow a value, the text \<open>t\<close> parses to \<open>v\<close>, with
  fuel above its length and \<open>k\<close> levels of nesting.
\<close>

definition prints :: "nat \<Rightarrow> string \<Rightarrow> json \<Rightarrow> bool" where
  "prints k t v = (\<forall>f d rest. length t < f \<longrightarrow> k \<le> d \<longrightarrow> endsVal rest \<longrightarrow> parseVal f d (t @ rest) = Some (v, rest))"

lemma printsD: "prints k t v \<Longrightarrow> length t < f \<Longrightarrow> k \<le> d \<Longrightarrow> endsVal rest \<Longrightarrow> parseVal f d (t @ rest) = Some (v, rest)"
  by (simp add: prints_def)

lemma skipWs_Cons: "\<not> isWs c \<Longrightarrow> skipWs (c # cs) = c # cs"
  by (simp add: skipWs_def)

lemma isWs_simps [simp]:
  "\<not> isWs (CHR 0x22)" "\<not> isWs (CHR ''{'')" "\<not> isWs (CHR ''['')" "\<not> isWs (CHR '','')" "\<not> isWs (CHR ''}'')"
  "\<not> isWs (CHR '']'')" "\<not> isWs (CHR '':'')" "\<not> isWs (CHR ''-'')"
  by (simp_all add: isWs_def)

lemma prints_encodeStr: "prints k (encodeStr s) (JStr (toValidUTF8 s))"
  unfolding prints_def
proof (intro allI impI)
  fix f d rest assume "length (encodeStr s) < f"
  then obtain g where "f = Suc g" by (cases f) auto
  then show "parseVal f d (encodeStr s @ rest) = Some (JStr (toValidUTF8 s), rest)"
    by (simp add: encodeStr_def skipWs_Cons parseStr_encodeStrBody)
qed

lemma endsVal_not_number:
  assumes "endsVal rest"
  shows "takeWhile isDigit rest = []" "dropWhile isDigit rest = rest" "scanFraction rest = Some ([], rest)"
    "scanExponent rest = Some ([], rest)"
  using assms by (cases rest; auto simp: endsVal_def isDigit_def scanFraction_def scanExponent_def)+

lemma scanIntPart_showNat:
  assumes "endsVal rest"
  shows "scanIntPart (showNat n @ rest) = Some (showNat n, rest)"
proof (cases "n = 0")
  case True
  then show ?thesis by (simp add: showNat.simps digitChar_def scanIntPart_def char_of_def bit_0)
next
  case False
  obtain c cs where c: "showNat n = c # cs" using showNat_digits [of n] by (cases "showNat n") auto
  with False showNat_hd [of n] have "c \<noteq> CHR ''0''" by auto
  moreover have "takeWhile isDigit (showNat n @ rest) = showNat n" "dropWhile isDigit (showNat n @ rest) = rest"
    using showNat_digits [of n] endsVal_not_number [OF assms] by (auto simp: list_all_iff)
  ultimately show ?thesis using c by (simp add: scanIntPart_def scanDigits_def Let_def)
qed

lemma scanNumber_showInt:
  assumes "endsVal rest"
  shows "scanNumber (showInt i @ rest) = Some (showInt i, rest)"
proof -
  obtain c cs where c: "showNat (nat i) = c # cs" using showNat_digits [of "nat i"] by (cases "showNat (nat i)") auto
  then have "c \<noteq> CHR ''-''" using showNat_digits [of "nat i"] isDigit_not_minus by auto
  then show ?thesis
    using scanIntPart_showNat [OF assms, of "nat i"] scanIntPart_showNat [OF assms, of "nat (- i)"]
      endsVal_not_number [OF assms] c
    by (auto simp: scanNumber_def showInt_def)
qed

lemma prints_showInt: "prints k (showInt i) (JNum (showInt i))"
  unfolding prints_def
proof (intro allI impI)
  fix f d rest assume f: "length (showInt i) < f" and e: "endsVal rest"
  obtain g where g: "f = Suc g" using f by (cases f) auto
  obtain c cs where c: "showInt i = c # cs" "isDigit c \<or> c = CHR ''-''"
    using showNat_digits [of "nat i"]
    by (cases "i < 0"; cases "showNat (nat i)") (auto simp: showInt_def)
  have "\<not> isWs c" "c \<noteq> CHR 0x22" "c \<noteq> CHR ''[''" "c \<noteq> CHR ''{''" "c \<noteq> CHR ''n''" "c \<noteq> CHR ''t''" "c \<noteq> CHR ''f''"
    using c(2) by (auto simp: isDigit_def isWs_def)
  then show "parseVal f d (showInt i @ rest) = Some (JNum (showInt i), rest)"
    using scanNumber_showInt [OF e, of i]
    by (simp add: g c(1) skipWs_Cons parseAtom_def hasPrefix_def)
qed

text \<open>Keys that need no escape, as all field names of the program.\<close>

definition plainKey :: "string \<Rightarrow> bool" where
  "plainKey k = list_all (\<lambda>c. 32 \<le> byteVal c \<and> byteVal c < 128 \<and> c \<noteq> CHR 0x22 \<and> c \<noteq> CHR 0x5C) k"

lemma parseStr_plain: "plainKey k \<Longrightarrow> parseStr (k @ CHR 0x22 # r) = Some (k, r)"
  by (induction k) (auto simp: plainKey_def parseStr.simps(2) unitStep_def)

lemma encodeMember_parse:
  assumes "plainKey k" "prints n t v" "length t < f" "n \<le> d" "endsVal (c # cs)" "\<not> isWs c"
  shows "parseMembers (Suc f) d (encodeMember (k, t) @ c # cs) =
    (if c = CHR '','' then map_option (\<lambda>(ms, r'). ((k, v) # ms, r')) (parseMembers f d cs)
     else if c = CHR ''}'' then Some ([(k, v)], cs) else None)"
  using assms(1) printsD [OF assms(2,3,4,5)] assms(6)
  by (simp add: encodeMember_def skipWs_Cons parseStr_plain)

lemma parseMembers_join:
  assumes "\<forall>(k, t, v) \<in> set ms. plainKey k \<and> prints n t v" "ms \<noteq> []" "n \<le> d"
    and "length (joinWith (CHR '','') (map (\<lambda>(k, t, v). encodeMember (k, t)) ms)) < f"
  shows "parseMembers f d (joinWith (CHR '','') (map (\<lambda>(k, t, v). encodeMember (k, t)) ms) @ CHR ''}'' # rest) =
    Some (map (\<lambda>(k, t, v). (k, v)) ms, rest)"
  using assms
proof (induction ms arbitrary: f)
  case Nil
  then show ?case by simp
next
  case (Cons m ms)
  obtain k t v where m: "m = (k, t, v)" by (cases m)
  obtain g where f: "f = Suc g" using Cons.prems(4) by (cases f) auto
  have kt: "plainKey k" "prints n t v" using Cons.prems(1) m by auto
  let ?js = "joinWith (CHR '','') (map (\<lambda>(k, t, v). encodeMember (k, t)) ms)"
  show ?case
  proof (cases "ms = []")
    case True
    have "length t < g" using Cons.prems(4) m f True by (simp add: encodeMember_def)
    from encodeMember_parse [OF kt this Cons.prems(3)] True m f show ?thesis by (simp add: endsVal_def)
  next
    case False
    then have js: "joinWith (CHR '','') (map (\<lambda>(k, t, v). encodeMember (k, t)) (m # ms)) =
        encodeMember (k, t) @ CHR '','' # ?js"
      by (simp add: m joinWith_Cons)
    have len: "length t < g" "length ?js < g"
      using Cons.prems(4) unfolding js f by (simp_all add: encodeMember_def)
    have IH: "parseMembers g d (?js @ CHR ''}'' # rest) = Some (map (\<lambda>(k, t, v). (k, v)) ms, rest)"
      using Cons.prems len False by (intro Cons.IH) auto
    show ?thesis
      unfolding js f using encodeMember_parse [OF kt len(1) Cons.prems(3), of "CHR '',''" "?js @ CHR ''}'' # rest"] IH
      by (simp add: endsVal_def m)
  qed
qed

lemma prints_encodeObj:
  assumes "\<forall>(k, t, v) \<in> set ms. plainKey k \<and> prints n t v" "ms \<noteq> []"
  shows "prints (Suc n) (encodeObj (map (\<lambda>(k, t, v). (k, t)) ms)) (JObj (map (\<lambda>(k, t, v). (k, v)) ms))"
  unfolding prints_def
proof (intro allI impI)
  fix f d rest
  let ?js = "joinWith (CHR '','') (map (\<lambda>(k, t, v). encodeMember (k, t)) ms)"
  have obj: "encodeObj (map (\<lambda>(k, t, v). (k, t)) ms) = CHR ''{'' # ?js @ ''}''"
    by (simp add: encodeObj_def comp_def split_def)
  assume len: "length (encodeObj (map (\<lambda>(k, t, v). (k, t)) ms)) < f" and d: "Suc n \<le> d"
  then obtain g where g: "f = Suc g" "length ?js < g" unfolding obj by (cases f) auto
  obtain e js where js: "?js = e # js" "e = CHR 0x22"
    using assms(2) by (cases ms; cases "tl ms") (auto simp: encodeMember_def)
  have "parseMembers g (d - 1) (?js @ CHR ''}'' # rest) = Some (map (\<lambda>(k, t, v). (k, v)) ms, rest)"
    by (rule parseMembers_join [OF assms _ g(2)]) (use d in simp)
  then show "parseVal f d (encodeObj (map (\<lambda>(k, t, v). (k, t)) ms) @ rest) =
      Some (JObj (map (\<lambda>(k, t, v). (k, v)) ms), rest)"
    using d unfolding obj g(1) js by (simp add: skipWs_Cons)
qed

lemma parseJSON_prints:
  assumes "prints k t v" "k \<le> 10000"
  shows "parseJSON t = Some v"
  using printsD [OF assms(1) _ assms(2), of "2 * length t + 2" "[]"]
  by (simp add: parseJSON_def endsVal_def skipWs_def)

section \<open>Lists of integers\<close>

definition encodeInts :: "int list \<Rightarrow> string" where
  "encodeInts ns = CHR ''['' # joinWith (CHR '','') (map showInt ns) @ '']''"

lemma parseElems_join:
  assumes "ns \<noteq> []" "length (joinWith (CHR '','') (map showInt ns)) + 1 < f"
  shows "parseElems f d (joinWith (CHR '','') (map showInt ns) @ CHR '']'' # rest) = Some (map (JNum \<circ> showInt) ns, rest)"
  using assms
proof (induction ns arbitrary: f)
  case Nil
  then show ?case by simp
next
  case (Cons i ns)
  obtain g where f: "f = Suc g" using Cons.prems(2) by (cases f) auto
  show ?case
  proof (cases "ns = []")
    case True
    with Cons.prems f show ?thesis
      using printsD [OF prints_showInt, of i g 0 d "CHR '']'' # rest"] by (simp add: endsVal_def skipWs_Cons)
  next
    case False
    then have js: "joinWith (CHR '','') (map showInt (i # ns)) =
        showInt i @ CHR '','' # joinWith (CHR '','') (map showInt ns)"
      by (simp add: joinWith_Cons)
    have len: "length (showInt i) < g" "length (joinWith (CHR '','') (map showInt ns)) + 1 < g"
      using Cons.prems(2) showNat_digits unfolding js f by (auto simp: showInt_def neq_Nil_conv split: if_splits)
    show ?thesis
      unfolding js f using Cons.IH [OF False len(2)]
        printsD [OF prints_showInt len(1), of 0 d "CHR '','' # joinWith (CHR '','') (map showInt ns) @ CHR '']'' # rest"]
      by (simp add: endsVal_def skipWs_Cons)
  qed
qed

lemma parseJSON_encodeInts: "parseJSON (encodeInts ns) = Some (JArr (map (JNum \<circ> showInt) ns))"
proof (cases "ns = []")
  case True
  then show ?thesis by (simp add: encodeInts_def parseJSON_def skipWs_def eval_nat_numeral)
next
  case False
  let ?js = "joinWith (CHR '','') (map showInt ns)"
  obtain e es where js: "?js = e # es" "isDigit e \<or> e = CHR ''-''"
  proof -
    obtain i "is" where ns: "ns = i # is" using False by (cases ns) auto
    obtain c cs where "showInt i = c # cs" "isDigit c \<or> c = CHR ''-''"
      using showNat_digits [of "nat i"] by (cases "i < 0"; cases "showNat (nat i)") (auto simp: showInt_def)
    then show ?thesis using ns that by (cases "is") auto
  qed
  have e: "\<not> isWs e" "e \<noteq> CHR '']''" using js(2) by (auto simp: isDigit_def isWs_def)
  have "parseElems (2 * length (encodeInts ns) + 1) 9999 (?js @ CHR '']'' # []) = Some (map (JNum \<circ> showInt) ns, [])"
    by (rule parseElems_join [OF False]) (simp add: encodeInts_def)
  then have "parseVal (Suc (2 * length (encodeInts ns) + 1)) 10000 (encodeInts ns) = Some (JArr (map (JNum \<circ> showInt) ns), [])"
    using e unfolding encodeInts_def js by (simp add: skipWs_Cons del: One_nat_def)
  then show ?thesis by (simp add: parseJSON_def skipWs_def)
qed

lemma unmarshalInt32s_encodeInts:
  assumes "\<forall>i \<in> set ns. - (2 ^ 31) \<le> i \<and> i < 2 ^ 31"
  shows "unmarshalInt32s (encodeInts ns) = Some (map word_of_int ns)"
  using assms
proof -
  have "those (map decodeElem32 (map (JNum \<circ> showInt) ns)) = Some (map word_of_int ns)"
    using assms by (induction ns) (auto simp: parseInt_showInt)
  then show ?thesis by (simp add: unmarshalInt32s_def parseJSON_encodeInts)
qed

section \<open>The fuel is enough\<close>

lemma parseStr_length: "parseStr s = Some (t, r) \<Longrightarrow> length r < length s"
proof (induction s arbitrary: t r rule: parseStr.induct)
  case 1
  then show ?case by simp
next
  case (2 c s)
  show ?case
  proof (cases "c = CHR 0x22")
    case True
    with 2 show ?thesis by simp
  next
    case False
    with 2(2) obtain u s' t' where u: "unitStep c s = Some (u, s')" "parseStr s' = Some (t', r)"
      by (auto simp: parseStr.simps(2) split: option.splits)
    from 2(1) [OF False u(1) refl u(2)] unitStep_length [OF u(1)] show ?thesis by simp
  qed
qed

lemma skipWs_length: "length (skipWs s) \<le> length s"
  by (simp add: skipWs_def length_dropWhile_le)

lemma skipWs_ConsD: "skipWs s = c # cs \<Longrightarrow> length cs < length s"
  using skipWs_length [of s] by simp

lemma scan_lengths:
  "scanDigits s = Some (x, r) \<Longrightarrow> length r < length s"
  "scanIntPart s = Some (x, r) \<Longrightarrow> length r < length s"
  "scanFraction s = Some (x, r) \<Longrightarrow> length r \<le> length s"
  "scanExponent s = Some (x, r) \<Longrightarrow> length r \<le> length s"
proof -
  have dig: "length r < length s" if "scanDigits s = Some (x, r)" for s x r
    using that length_dropWhile_le [of isDigit "tl s"]
    by (cases s) (auto simp: scanDigits_def Let_def split: if_splits)
  show "scanDigits s = Some (x, r) \<Longrightarrow> length r < length s" by (rule dig)
  show "scanIntPart s = Some (x, r) \<Longrightarrow> length r < length s"
    by (auto simp: scanIntPart_def dest: dig split: list.splits if_splits)
  show "scanFraction s = Some (x, r) \<Longrightarrow> length r \<le> length s"
    by (auto simp: scanFraction_def dest!: dig split: list.splits if_splits)
  show "scanExponent s = Some (x, r) \<Longrightarrow> length r \<le> length s"
    by (auto simp: scanExponent_def dest!: dig split: list.splits if_splits)
qed

lemma scanNumber_length: "scanNumber s = Some (x, r) \<Longrightarrow> length r < length s"
  by (auto simp: scanNumber_def dest!: scan_lengths split: list.splits if_splits option.splits)

lemma parseAtom_length: "parseAtom s = Some (v, r) \<Longrightarrow> length r < length s"
proof -
  have pre: "hasPrefix p s \<Longrightarrow> length p \<le> length s" for p
    by (metis hasPrefix_def length_take min.cobounded1)
  from pre [of "''null''"] pre [of "''true''"] pre [of "''false''"]
  show "parseAtom s = Some (v, r) \<Longrightarrow> length r < length s"
    by (auto simp: parseAtom_def dest: scanNumber_length split: if_splits)
qed

lemma parse_lengths:
  "parseVal f d s = Some (v, r) \<Longrightarrow> length r < length s"
  "parseElems f d s = Some (vs, r) \<Longrightarrow> length r < length s"
  "parseMembers f d s = Some (ms, r) \<Longrightarrow> length r < length s"
proof (induction f d s and f d s and f d s arbitrary: v r and vs r and ms r
    rule: parseVal_parseElems_parseMembers.induct)
  case (2 f d s)
  show ?case
  proof (cases "skipWs s")
    case Nil
    with 2 show ?thesis by simp
  next
    case (Cons c cs)
    note len = skipWs_ConsD [OF Cons]
    consider "c = CHR 0x22" | "c = CHR ''[''" | "c = CHR ''{''" | "c \<noteq> CHR 0x22" "c \<noteq> CHR ''[''" "c \<noteq> CHR ''{''" by blast
    then show ?thesis
    proof cases
      case 1
      with 2(3) Cons len show ?thesis by (auto dest: parseStr_length)
    next
      case c: 2
      from 2(3) Cons c obtain e t where e: "skipWs cs = e # t" by (auto split: if_splits list.splits)
      from 2(1) [OF Cons _ c _ e] 2(3) Cons c e len skipWs_ConsD [OF e] show ?thesis
        by (fastforce split: if_splits)
    next
      case c: 3
      from 2(3) Cons c obtain e t where e: "skipWs cs = e # t" by (auto split: if_splits list.splits)
      from 2(2) [OF Cons _ _ c _ e] 2(3) Cons c e len skipWs_ConsD [OF e] show ?thesis
        by (fastforce split: if_splits)
    next
      case 4
      with 2(3) Cons parseAtom_length [of "c # cs"] len show ?thesis by auto
    qed
  qed
next
  case (4 f d s)
  from 4(3) obtain v r0 where v: "parseVal f d s = Some (v, r0)" by (auto split: option.splits)
  from 4(3) v obtain c cs where c: "skipWs r0 = c # cs" by (auto split: list.splits)
  note len = 4(1) [OF v] skipWs_ConsD [OF c]
  from 4(3) v c len 4(2) [OF v refl c] show ?case by (fastforce split: if_splits)
next
  case (6 f d s)
  from 6(3) obtain q t where q: "skipWs s = q # t" "q = CHR 0x22" by (auto split: list.splits if_splits)
  from 6(3) q obtain k r0 where k: "parseStr t = Some (k, r0)" by (auto split: option.splits)
  from 6(3) q k obtain t2 where t2: "skipWs r0 = CHR '':'' # t2" by (auto split: list.splits if_splits)
  from 6(3) q k t2 obtain v r1 where v: "parseVal f d t2 = Some (v, r1)" by (auto split: option.splits)
  from 6(3) q k t2 v obtain c cs where c: "skipWs r1 = c # cs" by (auto split: list.splits)
  note len = skipWs_ConsD [OF q(1)] parseStr_length [OF k] skipWs_ConsD [OF t2] skipWs_ConsD [OF c]
  have l1: "length r1 < length t2"
    by (rule 6(1) [OF q(1) _ k refl t2 _ v]) (use q in auto)
  have IH: "parseMembers f d cs = Some (ms', r') \<Longrightarrow> length r' < length cs" if "c = CHR '',''" for ms' r'
    by (rule 6(2) [OF q(1) _ k refl t2 _ v refl c that]) (use q in auto)
  from 6(3) q k t2 v c len l1 IH show ?case by (fastforce split: if_splits)
qed simp_all

text \<open>With fuel above twice the length, more fuel changes nothing.\<close>

lemma parse_fuel:
  "2 * length s + 1 \<le> f \<Longrightarrow> parseVal (Suc f) d s = parseVal f d s"
  "2 * length s + 2 \<le> f \<Longrightarrow> parseElems (Suc f) d s = parseElems f d s"
  "2 * length s + 2 \<le> f \<Longrightarrow> parseMembers (Suc f) d s = parseMembers f d s"
proof (induction f arbitrary: d s)
  case 0
  { case 1 then show ?case by simp }
  { case 2 then show ?case by simp }
  { case 3 then show ?case by simp }
next
  case (Suc f)
  { case 1
    show ?case
    proof (cases "skipWs s")
      case Nil
      then show ?thesis by simp
    next
      case (Cons c cs)
      have el: "parseElems (Suc f) d' (e # t) = parseElems f d' (e # t)"
        and me: "parseMembers (Suc f) d' (e # t) = parseMembers f d' (e # t)" if "skipWs cs = e # t" for d' e t
        using Suc.IH(2,3) [of "e # t" d'] skipWs_length [of cs] skipWs_ConsD [OF Cons] that 1 by simp_all
      show ?thesis
        unfolding parseVal.simps(2) [of _ d s] Cons
        by (cases "skipWs cs") (simp_all add: el me del: parseElems.simps parseMembers.simps)
    qed }
  { case 2
    have v: "parseVal (Suc f) d s = parseVal f d s" by (rule Suc.IH(1)) (use 2 in simp)
    have el: "parseElems (Suc f) d cs = parseElems f d cs"
      if "parseVal f d s = Some (v, r)" "skipWs r = c # cs" for v r c cs
      using Suc.IH(2) [of cs d] parse_lengths(1) [OF that(1)] skipWs_ConsD [OF that(2)] 2 by simp
    show ?case
      unfolding parseElems.simps(2) [of _ d s] v
      by (auto simp: el simp del: parseElems.simps split: option.split list.split prod.split) }
  { case 3
    have me: "parseMembers (Suc f) d cs = parseMembers f d cs" if "length cs < length s" for cs
      using Suc.IH(3) [of cs d] that 3 by simp
    have v: "parseVal (Suc f) d t = parseVal f d t" if "length t \<le> length s" for t
      using Suc.IH(1) [of t d] that 3 by simp
    show ?case
    proof (cases "skipWs s")
      case Nil
      then show ?thesis by simp
    next
      case q: (Cons q t)
      show ?thesis
      proof (cases "parseStr t")
        case None
        then show ?thesis by (simp add: q)
      next
        case (Some kr)
        obtain k r0 where k: "parseStr t = Some (k, r0)" using Some by (cases kr) auto
        show ?thesis
        proof (cases "skipWs r0")
          case Nil
          then show ?thesis by (simp add: q k)
        next
          case t2: (Cons col t2)
          have len: "length t2 < length s"
            using skipWs_ConsD [OF q] parseStr_length [OF k] skipWs_ConsD [OF t2] by simp
          have cs: "length cs < length s" if "parseVal f d t2 = Some (v, r)" "skipWs r = c # cs" for v r c cs
            using len parse_lengths(1) [OF that(1)] skipWs_ConsD [OF that(2)] by simp
          show ?thesis
            unfolding parseMembers.simps(2) [of _ d s] q using v [of t2] len
            by (auto simp: k t2 me cs simp del: parseVal.simps parseMembers.simps
                split: option.split list.split prod.split)
        qed
      qed
    qed }
qed

lemma parseVal_more_fuel: "2 * length s + 1 \<le> f \<Longrightarrow> parseVal f d s = parseVal (2 * length s + 1) d s"
proof (induction f)
  case 0
  then show ?case by simp
next
  case (Suc f)
  then show ?case using parse_fuel(1) [of s f d] by (cases "2 * length s + 1 = Suc f") auto
qed

end
