(* ===== verification/Token.thy ===== *)
theory Token
  imports Mem_Cluster Crypto Go_Json
begin

text \<open>
  \<open>src/grpc/token/token.go\<close>: the encrypted grants and tokens exchanged between the archiver and
  the gRPC server, on top of the library functions of \<open>Crypto\<close> and \<open>Go_Json\<close>.
\<close>

section \<open>Keys and the cipher\<close>

definition deriveKey :: "string \<Rightarrow> byte list" where
  "deriveKey key = sha256 (bytesOf key)"

definition deterministicNonce :: "string \<Rightarrow> string \<Rightarrow> nat \<Rightarrow> byte list" where
  "deterministicNonce key plaintext sz = take sz (hmacSha256 (deriveKey key) (bytesOf plaintext))"

text \<open>
  The largest text Go's GCM seals; beyond it \<open>Seal\<close> panics and \<open>Open\<close> fails.
\<close>

definition gcmMaxText :: nat where
  "gcmMaxText = (2 ^ 32 - 2) * 16"

text \<open>
  \<open>newGCM(key)\<close> with \<open>Seal(iv, iv, plaintext, nil)\<close> and \<open>Open(nil, iv, ciphertext, nil)\<close>. A key
  of 32 bytes is never refused, so \<open>newGCM\<close> has no error.
\<close>

definition sealWith :: "string \<Rightarrow> byte list \<Rightarrow> byte list \<Rightarrow> byte list res" where
  "sealWith key iv pt =
     (if length pt > gcmMaxText then Inl (Panic ''crypto/cipher: message too large for GCM'')
      else Inr (iv @ gcmSeal (deriveKey key) iv pt))"

definition openWith :: "string \<Rightarrow> byte list \<Rightarrow> byte list res" where
  "openWith key sealed =
     (if length sealed < gcmNonceSize then Inl (Err ''token: ciphertext too short'')
      else (let iv = take gcmNonceSize sealed; ciphertext = drop gcmNonceSize sealed in
            if length ciphertext > gcmMaxText + gcmTagSize then Inl (Err ''token: decryption failed'')
            else (case gcmOpen (deriveKey key) iv ciphertext of
                    None \<Rightarrow> Inl (Err ''token: decryption failed'')
                  | Some pt \<Rightarrow> Inr pt)))"

section \<open>Grants\<close>

definition EncryptString :: "string \<Rightarrow> string \<Rightarrow> string res" where
  "EncryptString key plaintext =
     (if key = '''' then Inl (Err ''token: key must not be empty'')
      else (let iv = deterministicNonce key plaintext gcmNonceSize in
            case sealWith key iv (bytesOf plaintext) of
              Inl e \<Rightarrow> Inl e
            | Inr sealed \<Rightarrow> Inr (b64Encode sealed)))"

definition DecryptString :: "string \<Rightarrow> string \<Rightarrow> string res" where
  "DecryptString key blob =
     (if key = '''' then Inl (Err ''token: key must not be empty'')
      else (case b64Decode blob of
              None \<Rightarrow> Inl (Err ''token: decode'')
            | Some sealed \<Rightarrow>
                (case openWith key sealed of
                   Inl e \<Rightarrow> Inl e
                 | Inr pt \<Rightarrow> Inr (stringOf pt))))"

section \<open>Sealing and opening\<close>

lemma length_deterministicNonce [simp]: "length (deterministicNonce key s gcmNonceSize) = gcmNonceSize"
  by (simp add: deterministicNonce_def gcmNonceSize_def)

lemma length_gcmSeal: "length (gcmSeal (deriveKey key) iv pt) = length pt + gcmTagSize"
  by (simp add: gcmSeal_def Let_def deriveKey_def)

lemma openWith_sealWith:
  assumes "length iv = gcmNonceSize" "sealWith key iv pt = Inr sealed"
  shows "openWith key sealed = Inr pt"
proof -
  from assms(2) have sealed: "sealed = iv @ gcmSeal (deriveKey key) iv pt" and "length pt \<le> gcmMaxText"
    by (auto simp: sealWith_def split: if_splits)
  then show ?thesis
    using assms(1) gcm.unseal_seal [of "bytesOf key" iv pt]
    by (simp add: openWith_def length_gcmSeal Let_def flip: deriveKey_def)
qed

lemma sealWith_openWith:
  assumes "openWith key sealed = Inr pt"
  shows "sealWith key (take gcmNonceSize sealed) pt = Inr sealed \<and> length (take gcmNonceSize sealed) = gcmNonceSize"
proof -
  let ?iv = "take gcmNonceSize sealed"
  from assms have len: "gcmNonceSize \<le> length sealed"
    and max: "length (drop gcmNonceSize sealed) \<le> gcmMaxText + gcmTagSize"
    and op: "gcmOpen (deriveKey key) ?iv (drop gcmNonceSize sealed) = Some pt"
    by (auto simp: openWith_def Let_def split: if_splits option.splits)
  from op have "drop gcmNonceSize sealed = gcmSeal (deriveKey key) ?iv pt"
    unfolding deriveKey_def by (rule gcm.seal_unseal)
  with len max show ?thesis
    using length_gcmSeal [of key ?iv pt] append_take_drop_id [of gcmNonceSize sealed]
    by (simp add: sealWith_def)
qed

lemma decrypt_encrypt:
  assumes "EncryptString key plaintext = Inr blob"
  shows "DecryptString key blob = Inr plaintext"
proof -
  from assms obtain sealed where key: "key \<noteq> ''''" and blob: "blob = b64Encode sealed"
    and seal: "sealWith key (deterministicNonce key plaintext gcmNonceSize) (bytesOf plaintext) = Inr sealed"
    by (auto simp: EncryptString_def Let_def split: if_splits sum.splits)
  have "openWith key sealed = Inr (bytesOf plaintext)"
    by (rule openWith_sealWith [OF _ seal]) simp
  with key blob show ?thesis by (simp add: DecryptString_def)
qed

text \<open>
  A grant can be decrypted with the key it was made with, and yields the text
  that was encrypted.
\<close>

theorem DecryptString_EncryptString:
  assumes "EncryptString key plaintext = Inr blob"
  shows "DecryptString key blob = Inr plaintext"
  using assms by (rule decrypt_encrypt)

theorem DecryptString_EncryptString_witness:
  "\<exists>blob. EncryptString ''k'' ''snap'' = Inr blob \<and> DecryptString ''k'' blob = Inr ''snap''"
proof -
  obtain blob where "EncryptString ''k'' ''snap'' = Inr blob"
    by (simp add: EncryptString_def sealWith_def gcmMaxText_def Let_def)
  then show ?thesis using DecryptString_EncryptString [of "''k''" "''snap''" blob] by blast
qed

text \<open>
  Property C27. A grant that decrypts is, up to its base64 spelling, exactly a text sealed under
  that key: the server never accepts a blob whose authentication tag was not computed
  with the key over the ciphertext it carries.
\<close>

theorem DecryptString_only_sealed:
  assumes "DecryptString key blob = Inr plaintext"
  shows "key \<noteq> '''' \<and> (\<exists>iv sealed. length iv = gcmNonceSize \<and> b64Decode blob = Some sealed \<and>
    sealWith key iv (bytesOf plaintext) = Inr sealed)"
proof -
  from assms obtain sealed pt where key: "key \<noteq> ''''" and dec: "b64Decode blob = Some sealed"
    and op: "openWith key sealed = Inr pt" and pt: "plaintext = stringOf pt"
    by (auto simp: DecryptString_def split: if_splits option.splits sum.splits)
  from sealWith_openWith [OF op] key dec show ?thesis
    by (intro conjI exI [of _ "take gcmNonceSize sealed"] exI [of _ sealed]) (auto simp: pt)
qed

theorem DecryptString_only_sealed_witness:
  "\<exists>blob. DecryptString ''k'' blob = Inr ''snap'' \<and> (\<exists>iv sealed. length iv = gcmNonceSize \<and>
    b64Decode blob = Some sealed \<and> sealWith ''k'' iv (bytesOf ''snap'') = Inr sealed)"
proof -
  let ?iv = "deterministicNonce ''k'' ''snap'' gcmNonceSize"
  obtain sealed where s: "sealWith ''k'' ?iv (bytesOf ''snap'') = Inr sealed"
    by (simp add: sealWith_def gcmMaxText_def)
  have "DecryptString ''k'' (b64Encode sealed) = Inr ''snap''"
    using openWith_sealWith [OF _ s] by (simp add: DecryptString_def)
  then show ?thesis using DecryptString_only_sealed [of "''k''" "b64Encode sealed" "''snap''"] by blast
qed

section \<open>Tokens\<close>

text \<open>The claims; the expiry is an \<open>int64\<close>, in seconds.\<close>

record claims =
  tc_SnapshotName :: string
  tc_SidekickName :: string
  tc_Namespace :: string
  tc_Digest :: string
  tc_Nonce :: string
  tc_ExpiresAt :: int

definition zero_claims :: claims where
  "zero_claims = \<lparr>tc_SnapshotName = '''', tc_SidekickName = '''', tc_Namespace = '''', tc_Digest = '''',
     tc_Nonce = '''', tc_ExpiresAt = 0\<rparr>"

text \<open>The JSON form, from the tags of the struct.\<close>

definition marshalClaims :: "claims \<Rightarrow> string" where
  "marshalClaims c = encodeObj [
     (''snap'', encodeStr (tc_SnapshotName c)), (''sk'', encodeStr (tc_SidekickName c)),
     (''ns'', encodeStr (tc_Namespace c)), (''dig'', encodeStr (tc_Digest c)),
     (''jti'', encodeStr (tc_Nonce c)), (''exp'', showInt (tc_ExpiresAt c))]"

definition claimsSetters :: "claims setters" where
  "claimsSetters = [
     (''snap'', \<lambda>j c. map_option (\<lambda>s. c\<lparr>tc_SnapshotName := s\<rparr>) (decodeStr j (tc_SnapshotName c))),
     (''sk'', \<lambda>j c. map_option (\<lambda>s. c\<lparr>tc_SidekickName := s\<rparr>) (decodeStr j (tc_SidekickName c))),
     (''ns'', \<lambda>j c. map_option (\<lambda>s. c\<lparr>tc_Namespace := s\<rparr>) (decodeStr j (tc_Namespace c))),
     (''dig'', \<lambda>j c. map_option (\<lambda>s. c\<lparr>tc_Digest := s\<rparr>) (decodeStr j (tc_Digest c))),
     (''jti'', \<lambda>j c. map_option (\<lambda>s. c\<lparr>tc_Nonce := s\<rparr>) (decodeStr j (tc_Nonce c))),
     (''exp'', \<lambda>j c. map_option (\<lambda>i. c\<lparr>tc_ExpiresAt := i\<rparr>) (decodeInt 64 j (tc_ExpiresAt c)))]"

definition NewNonce :: "'e kube \<Rightarrow> ('e, event, string res) go" where
  "NewNonce c = do {
     r \<leftarrow> readRandom c 16;
     (case r of Inl e \<Rightarrow> ret (Inl e) | Inr buf \<Rightarrow> ret (Inr (b64Encode (bytesOf buf))))
   }"

definition RequestDigest :: "string \<Rightarrow> string" where
  "RequestDigest payload = b64Encode (sha256 (bytesOf payload))"

definition Mint :: "'e kube \<Rightarrow> string \<Rightarrow> claims \<Rightarrow> ('e, event, string res) go" where
  "Mint c key cl =
     (if key = '''' then ret (Inl (Err ''token: key must not be empty''))
      else do {
        let plaintext = marshalClaims cl;
        r \<leftarrow> readRandom c gcmNonceSize;
        (case r of
           Inl e \<Rightarrow> ret (Inl e)
         | Inr iv \<Rightarrow>
             (case sealWith key (bytesOf iv) (bytesOf plaintext) of
                Inl e \<Rightarrow> ret (Inl e)
              | Inr sealed \<Rightarrow> ret (Inr (b64Encode sealed))))
      })"

definition Open :: "string \<Rightarrow> string \<Rightarrow> claims res" where
  "Open key tok =
     (if key = '''' then Inl (Err ''token: key must not be empty'')
      else (case b64Decode tok of
              None \<Rightarrow> Inl (Err ''token: decode'')
            | Some sealed \<Rightarrow>
                (case openWith key sealed of
                   Inl e \<Rightarrow> Inl e
                 | Inr plaintext \<Rightarrow>
                     (case unmarshal claimsSetters zero_claims (stringOf plaintext) of
                        None \<Rightarrow> Inl (Err ''token: unmarshal claims'')
                      | Some cl \<Rightarrow> Inr cl))))"

text \<open>\<open>Claims.Verify\<close>: the error, or None.\<close>

definition Verify :: "claims \<Rightarrow> int \<Rightarrow> string \<Rightarrow> string \<Rightarrow> string \<Rightarrow> goerr option" where
  "Verify cl now sidekickName namespace digest =
     (if tc_ExpiresAt cl = 0 \<or> now \<ge> tc_ExpiresAt cl then Some (Err ''token: expired'')
      else if tc_SidekickName cl \<noteq> sidekickName \<or> tc_Namespace cl \<noteq> namespace
      then Some (Err ''token: identity mismatch'')
      else if tc_Digest cl = '''' \<or> tc_Digest cl \<noteq> digest then Some (Err ''token: payload binding mismatch'')
      else if tc_Nonce cl = '''' then Some (Err ''token: missing nonce'')
      else None)"

lemma Verify_None:
  "Verify cl now sk ns dig = None \<longleftrightarrow>
   tc_ExpiresAt cl \<noteq> 0 \<and> now < tc_ExpiresAt cl \<and> tc_SidekickName cl = sk \<and> tc_Namespace cl = ns \<and>
   dig \<noteq> '''' \<and> tc_Digest cl = dig \<and> tc_Nonce cl \<noteq> ''''"
  by (auto simp: Verify_def)

text \<open>What JSON leaves of the claims: every string as valid UTF-8.\<close>

definition validClaims :: "claims \<Rightarrow> claims" where
  "validClaims c = \<lparr>tc_SnapshotName = toValidUTF8 (tc_SnapshotName c), tc_SidekickName = toValidUTF8 (tc_SidekickName c),
     tc_Namespace = toValidUTF8 (tc_Namespace c), tc_Digest = toValidUTF8 (tc_Digest c),
     tc_Nonce = toValidUTF8 (tc_Nonce c), tc_ExpiresAt = tc_ExpiresAt c\<rparr>"

lemma claims_roundtrip:
  assumes "- (2 ^ 63) \<le> tc_ExpiresAt c" "tc_ExpiresAt c < 2 ^ 63"
  shows "unmarshal claimsSetters zero_claims (marshalClaims c) = Some (validClaims c)"
proof -
  let ?ms = "[(''snap'', encodeStr (tc_SnapshotName c), JStr (toValidUTF8 (tc_SnapshotName c))),
    (''sk'', encodeStr (tc_SidekickName c), JStr (toValidUTF8 (tc_SidekickName c))),
    (''ns'', encodeStr (tc_Namespace c), JStr (toValidUTF8 (tc_Namespace c))),
    (''dig'', encodeStr (tc_Digest c), JStr (toValidUTF8 (tc_Digest c))),
    (''jti'', encodeStr (tc_Nonce c), JStr (toValidUTF8 (tc_Nonce c))),
    (''exp'', showInt (tc_ExpiresAt c), JNum (showInt (tc_ExpiresAt c)))]"
  have "prints (Suc 0) (encodeObj (map (\<lambda>(k, t, v). (k, t)) ?ms)) (JObj (map (\<lambda>(k, t, v). (k, v)) ?ms))"
    by (rule prints_encodeObj) (simp_all add: prints_encodeStr prints_showInt plainKey_def)
  from parseJSON_prints [OF this] have
    "parseJSON (marshalClaims c) = Some (JObj (map (\<lambda>(k, t, v). (k, v)) ?ms))"
    by (simp add: marshalClaims_def)
  moreover have "decodeObj claimsSetters (JObj (map (\<lambda>(k, t, v). (k, v)) ?ms)) zero_claims = Some (validClaims c)"
    using assms by (simp add: claimsSetters_def inRange_def parseInt_showInt zero_claims_def validClaims_def)
  ultimately show ?thesis by (simp add: unmarshal_def)
qed

definition asciiClaims :: "claims \<Rightarrow> bool" where
  "asciiClaims cl = list_all (list_all (\<lambda>ch. byteVal ch < 128))
     [tc_SnapshotName cl, tc_SidekickName cl, tc_Namespace cl, tc_Digest cl, tc_Nonce cl]"

lemma validClaims_ascii: "asciiClaims cl \<Longrightarrow> validClaims cl = cl"
  by (simp add: asciiClaims_def validClaims_def toValidUTF8_ascii)

lemma open_minted:
  assumes "run_state (Mint c key cl) w = (Inr tok, w')"
    and "- (2 ^ 63) \<le> tc_ExpiresAt cl" "tc_ExpiresAt cl < 2 ^ 63"
  shows "Open key tok = Inr (validClaims cl)"
proof -
  obtain r w1 where rnd: "run_state (readRandom c gcmNonceSize) w = (r, w1)"
    by (cases "run_state (readRandom c gcmNonceSize) w")
  with assms(1) obtain iv where key: "key \<noteq> ''''" and r: "r = Inr iv"
    by (cases r) (auto simp: Mint_def split: if_splits)
  with assms(1) rnd obtain sealed where
    seal: "sealWith key (bytesOf iv) (bytesOf (marshalClaims cl)) = Inr sealed" and tok: "tok = b64Encode sealed"
    by (auto simp: Mint_def split: sum.splits)
  have iv: "length iv = gcmNonceSize" using rnd r by (simp add: readRandom_length)
  have "openWith key sealed = Inr (bytesOf (marshalClaims cl))"
    by (rule openWith_sealWith [OF _ seal]) (simp add: iv)
  then show ?thesis
    using key by (simp add: Open_def tok claims_roundtrip [OF assms(2,3)])
qed

text \<open>
  Property C26. A token minted with a key opens with that key to the claims it was minted for,
  with their strings as valid UTF-8; for claims whose strings are ASCII, as all names in
  Kubernetes are, to exactly those claims.
\<close>

theorem Open_Mint:
  assumes "run_state (Mint c key cl) w = (Inr tok, w')"
    and "- (2 ^ 63) \<le> tc_ExpiresAt cl" "tc_ExpiresAt cl < 2 ^ 63"
  shows "Open key tok = Inr (validClaims cl) \<and> (asciiClaims cl \<longrightarrow> Open key tok = Inr cl)"
  using open_minted [OF assms] by (simp add: validClaims_ascii)

definition sample_claims :: claims where
  "sample_claims = \<lparr>tc_SnapshotName = ''snap'', tc_SidekickName = ''sk'', tc_Namespace = ''demo'', tc_Digest = ''d'',
     tc_Nonce = ''n'', tc_ExpiresAt = 300\<rparr>"

text \<open>Claims of ordinary size can always be sealed.\<close>

lemma length_encodeStr_ascii:
  "list_all (\<lambda>ch. byteVal ch < 128) s \<Longrightarrow> length (encodeStr s) \<le> 6 * length s + 2"
proof -
  assume "list_all (\<lambda>ch. byteVal ch < 128) s"
  then have "length (encodeStrBody s) \<le> 6 * length s"
    by (induction s) (auto simp: encodeStrBody.simps(2) escapeByte_def)
  then show ?thesis by (simp add: encodeStr_def)
qed

lemma sample_mint:
  "\<exists>tok w'. run_state (Mint mem_kube ''k'' sample_claims) (mem_world empty_cluster) = (Inr tok, w')"
proof -
  have "length (marshalClaims sample_claims) \<le> gcmMaxText"
    using length_encodeStr_ascii [of "''snap''"] length_encodeStr_ascii [of "''sk''"]
      length_encodeStr_ascii [of "''demo''"] length_encodeStr_ascii [of "''d''"] length_encodeStr_ascii [of "''n''"]
    by (simp add: marshalClaims_def encodeObj_def encodeMember_def sample_claims_def gcmMaxText_def
        showInt_def showNat.simps)
  then show ?thesis
    by (simp add: Mint_def readRandom_def run_api_call mem_defs sealWith_def)
qed

theorem Open_Mint_witness:
  "\<exists>tok w'. run_state (Mint mem_kube ''k'' sample_claims) (mem_world empty_cluster) = (Inr tok, w') \<and>
     Open ''k'' tok = Inr sample_claims"
proof -
  obtain tok w' where run: "run_state (Mint mem_kube ''k'' sample_claims) (mem_world empty_cluster) = (Inr tok, w')"
    using sample_mint by blast
  have "Open ''k'' tok = Inr sample_claims"
    by (rule Open_Mint [OF run, THEN conjunct2, rule_format]) (simp_all add: sample_claims_def asciiClaims_def)
  with run show ?thesis by blast
qed

end
