(* ===== verification/Grpc_Wiring.thy ===== *)
theory Grpc_Wiring
  imports Token Go_Strings Kube_Helpers Mem_Cluster
begin

text \<open>
  \<open>src/pkg/controllers/apps/grpc_wiring.go\<close> and \<open>src/pkg/snapshotserver/secret.go\<close>: the keys of the
  gRPC channel in the Sidekick's Secret, the environment of the archiver's container, and
  the ServiceExport of the operator's gRPC server.
\<close>

section \<open>The operating system\<close>

text \<open>\<open>os.Getenv\<close>, and the content of \<open>/etc/resolv.conf\<close> or the error of opening it.\<close>

record osenv =
  os_Getenv :: "string \<Rightarrow> string"
  os_resolvConf :: "string res"

section \<open>Names\<close>

definition SigningSecretKey :: string where "SigningSecretKey = ''signing-key''"
definition SnapshotSecretKey :: string where "SnapshotSecretKey = ''snapshot-key''"

definition SigningSecretName :: "string \<Rightarrow> string" where
  "SigningSecretName sidekickName = sidekickName @ ''-grpc-key''"

definition GRPCPort :: int32 where "GRPCPort = 50051"

definition envSliceName :: string where "envSliceName = ''SLICE_NAME''"
definition envPodName :: string where "envPodName = ''POD_NAME''"
definition envPodNamespace :: string where "envPodNamespace = ''POD_NAMESPACE''"
definition envGRPCServerAddress :: string where "envGRPCServerAddress = ''GRPC_SERVER_ADDRESS''"
definition envGRPCTokenSecret :: string where "envGRPCTokenSecret = ''GRPC_TOKEN_SECRET''"
definition envGRPCSnapshotToken :: string where "envGRPCSnapshotToken = ''GRPC_SNAPSHOT_TOKEN''"
definition envSnapshotName :: string where "envSnapshotName = ''SNAPSHOT_NAME''"
definition signingKeyBytes :: nat where "signingKeyBytes = 32"
definition kubeSliceDomainSuffix :: string where "kubeSliceDomainSuffix = ''slice.local''"

lemmas env_names = envSliceName_def envPodName_def envPodNamespace_def envGRPCServerAddress_def
  envGRPCTokenSecret_def envGRPCSnapshotToken_def envSnapshotName_def

section \<open>The keys\<close>

definition randomKey :: "'e kube \<Rightarrow> ('e, event, string res) go" where
  "randomKey c = do {
     r \<leftarrow> readRandom c signingKeyBytes;
     (case r of Inl e \<Rightarrow> ret (Inl e) | Inr raw \<Rightarrow> ret (Inr (b64Encode (bytesOf raw))))
   }"

text \<open>The two keys in a Secret; a missing entry reads as the empty string.\<close>

definition keysOf :: "secret \<Rightarrow> string \<times> string" where
  "keysOf s = (gm_str (sec_Data s) SigningSecretKey, gm_str (sec_Data s) SnapshotSecretKey)"

definition hasKeys :: "secret \<Rightarrow> bool" where
  "hasKeys s = (fst (keysOf s) \<noteq> '''' \<and> snd (keysOf s) \<noteq> '''')"

text \<open>The transformation of \<open>CreateOrPatch\<close>: only missing keys are filled in.\<close>

definition fillKeys :: "sidekick \<Rightarrow> string \<Rightarrow> string \<Rightarrow> secret \<Rightarrow> secret" where
  "fillKeys sk freshSigning freshSnapshot s =
     (let d0 = gm_make (sec_Data s);
          d1 = (if gm_str d0 SigningSecretKey = '''' then gm_set SigningSecretKey freshSigning d0 else d0);
          d2 = (if gm_str d1 SnapshotSecretKey = '''' then gm_set SnapshotSecretKey freshSnapshot d1 else d1)
      in s\<lparr>sec_Meta := (sec_Meta s)\<lparr>om_OwnerReferences :=
             [NewControllerRef (sk_Meta sk) SchemeGroupVersion ''Sidekick'']\<rparr>,
           sec_Data := d2\<rparr>)"

definition keySecretKey :: "sidekick \<Rightarrow> nsname" where
  "keySecretKey sk = \<lparr>nn_Namespace = sk_Namespace sk, nn_Name = SigningSecretName (sk_Name sk)\<rparr>"

definition newKeySecret :: "sidekick \<Rightarrow> secret" where
  "newKeySecret sk = \<lparr>sec_Meta = zero_meta\<lparr>om_Name := SigningSecretName (sk_Name sk),
     om_Namespace := sk_Namespace sk\<rparr>, sec_Data = None\<rparr>"

text \<open>The part of \<open>ensureGRPCKeys\<close> that creates or completes the Secret and reads it back.\<close>

definition createGRPCKeys :: "'e kube \<Rightarrow> sidekick \<Rightarrow> ('e, event, (string \<times> string) res) go" where
  "createGRPCKeys c sk = do {
     r1 \<leftarrow> randomKey c;
     (case r1 of
        Inl e \<Rightarrow> ret (Inl e)
      | Inr freshSigning \<Rightarrow> do {
          r2 \<leftarrow> randomKey c;
          (case r2 of
             Inl e \<Rightarrow> ret (Inl e)
           | Inr freshSnapshot \<Rightarrow> do {
               r3 \<leftarrow> CreateOrPatch secret_kind (k_secrets c) (newKeySecret sk)
                       (\<lambda>s _. fillKeys sk freshSigning freshSnapshot s);
               (case r3 of
                  Inl e \<Rightarrow> ret (Inl e)
                | Inr _ \<Rightarrow> do {
                    r4 \<leftarrow> kGet secret_kind (k_secrets c) (keySecretKey sk);
                    (case r4 of
                       Inl e \<Rightarrow> ret (Inl e)
                     | Inr existing \<Rightarrow>
                         if \<not> hasKeys existing then ret (Inl (Err ''grpc keys empty in secret after ensure''))
                         else ret (Inr (keysOf existing)))
                  })
             })
        })
   }"

definition ensureGRPCKeys :: "'e kube \<Rightarrow> sidekick \<Rightarrow> ('e, event, (string \<times> string) res) go" where
  "ensureGRPCKeys c sk = do {
     r \<leftarrow> kGet secret_kind (k_secrets c) (keySecretKey sk);
     (case r of
        Inr existing \<Rightarrow> if hasKeys existing then ret (Inr (keysOf existing)) else createGRPCKeys c sk
      | Inl e \<Rightarrow> if \<not> IsNotFound e then ret (Inl e) else createGRPCKeys c sk)
   }"

section \<open>The archiver's environment\<close>

text \<open>\<open>getEnv\<close> and \<open>setEnv\<close>: the first variable of that name; a new one goes to the end.\<close>

definition lookupEnv :: "env_var list \<Rightarrow> string \<Rightarrow> string option" where
  "lookupEnv env name = map_option ev_Value (find (\<lambda>e. ev_Name e = name) env)"

definition getEnv :: "sk_container \<Rightarrow> string \<Rightarrow> string" where
  "getEnv cont name = (case lookupEnv (sc_Env cont) name of None \<Rightarrow> '''' | Some v \<Rightarrow> v)"

fun putEnv :: "string \<Rightarrow> string \<Rightarrow> env_var list \<Rightarrow> env_var list" where
  "putEnv name value [] = [\<lparr>ev_Name = name, ev_Value = value, ev_ValueFrom = None\<rparr>]"
| "putEnv name value (e # es) =
     (if ev_Name e = name then e\<lparr>ev_Value := value\<rparr> # es else e # putEnv name value es)"

definition setEnv :: "string \<Rightarrow> string \<Rightarrow> sk_container \<Rightarrow> sk_container" where
  "setEnv name value cont = cont\<lparr>sc_Env := putEnv name value (sc_Env cont)\<rparr>"

text \<open>
  \<open>getSidekickContainer\<close> returns a pointer into the slice: the container for reading, and for
  writing the Sidekick with that container replaced.
\<close>

definition isWalg :: "sk_container \<Rightarrow> bool" where
  "isWalg c = (sc_Name c = ''wal-g'')"

definition getSidekickContainer :: "sidekick \<Rightarrow> sk_container option" where
  "getSidekickContainer sk = find isWalg (ss_Containers (sk_Spec sk))"

fun mapFirst :: "('a \<Rightarrow> bool) \<Rightarrow> ('a \<Rightarrow> 'a) \<Rightarrow> 'a list \<Rightarrow> 'a list" where
  "mapFirst P f [] = []"
| "mapFirst P f (x # xs) = (if P x then f x # xs else x # mapFirst P f xs)"

definition updateSidekickContainer :: "(sk_container \<Rightarrow> sk_container) \<Rightarrow> sidekick \<Rightarrow> sidekick" where
  "updateSidekickContainer f sk =
     sk\<lparr>sk_Spec := (sk_Spec sk)\<lparr>ss_Containers := mapFirst isWalg f (ss_Containers (sk_Spec sk))\<rparr>\<rparr>"

definition noContainer :: goerr where
  "noContainer = Err ''wal-g container not found''"

definition setSigningKey :: "string \<Rightarrow> sidekick \<Rightarrow> sidekick res" where
  "setSigningKey key sk =
     (case getSidekickContainer sk of
        None \<Rightarrow> Inl noContainer
      | Some _ \<Rightarrow> Inr (updateSidekickContainer (setEnv envGRPCTokenSecret key) sk))"

definition setSnapshotGrant :: "string \<Rightarrow> sidekick \<Rightarrow> sidekick res" where
  "setSnapshotGrant snapshotKey sk =
     (case getSidekickContainer sk of
        None \<Rightarrow> Inl noContainer
      | Some cont \<Rightarrow>
          (let snapshotName = getEnv cont envSnapshotName in
           if snapshotName = '''' then Inr sk
           else (case EncryptString snapshotKey snapshotName of
                   Inl e \<Rightarrow> Inl e
                 | Inr grant \<Rightarrow> Inr (updateSidekickContainer (setEnv envGRPCSnapshotToken grant) sk))))"

section \<open>Addresses\<close>

definition deploymentNameForPod :: "string \<Rightarrow> string" where
  "deploymentNameForPod podName =
     (let parts = splitOn (CHR ''-'') podName in
      if length parts \<le> 2 then podName
      else joinWith (CHR ''-'') (take (length parts - 2) parts))"

definition sliceDNS :: "string \<Rightarrow> string \<Rightarrow> string" where
  "sliceDNS svcName namespace = svcName @ ''.'' @ namespace @ ''.svc.'' @ kubeSliceDomainSuffix"

definition grpcSliceAddress :: "osenv \<Rightarrow> string res" where
  "grpcSliceAddress E =
     (let podName = os_Getenv E envPodName; namespace = os_Getenv E envPodNamespace in
      if podName = '''' \<or> namespace = ''''
      then Inl (Err ''POD_NAME/POD_NAMESPACE env not set; cannot derive gRPC slice address'')
      else Inr (sliceDNS (deploymentNameForPod podName) namespace))"

definition setGRPCAddress :: "osenv \<Rightarrow> sidekick \<Rightarrow> sidekick res" where
  "setGRPCAddress E sk =
     (case getSidekickContainer sk of
        None \<Rightarrow> Inl noContainer
      | Some _ \<Rightarrow>
          (case grpcSliceAddress E of
             Inl e \<Rightarrow> Inl e
           | Inr addr \<Rightarrow>
               Inr (updateSidekickContainer
                 (setEnv envGRPCServerAddress (addr @ '':'' @ showInt (sint GRPCPort))) sk)))"

text \<open>The cluster domain: the first \<open>search\<close> line decides.\<close>

fun domainFromLines :: "string option list \<Rightarrow> string res" where
  "domainFromLines [] = Inl (Err ''no suitable domain found'')"
| "domainFromLines (None # _) = Inl (Err ''error reading'')"
| "domainFromLines (Some text # rest) =
     (let line = trimSpace text in
      if line = '''' \<or> hasPrefix ''#'' line then domainFromLines rest
      else if hasPrefix ''search '' line
      then (case find (\<lambda>f. hasPrefix ''svc.'' f \<and> \<not> hasPrefix ''svc.svc.'' f) (strFields line) of
              Some f \<Rightarrow> Inr (trimPrefix ''svc.'' f)
            | None \<Rightarrow> Inl (Err ''failed to find domain''))
      else domainFromLines rest)"

definition resolveDomain :: "osenv \<Rightarrow> string res" where
  "resolveDomain E =
     (case os_resolvConf E of
        Inl e \<Rightarrow> Inl e
      | Inr text \<Rightarrow> domainFromLines (scanLines text))"

text \<open>\<open>findDomain\<close> resolves once and keeps the answer in a package variable.\<close>

definition findDomain :: "osenv \<Rightarrow> string option \<Rightarrow> string \<times> string option" where
  "findDomain E clusterDomain =
     (case clusterDomain of
        Some d \<Rightarrow> (d, Some d)
      | None \<Rightarrow> (let d = (case resolveDomain E of Inl _ \<Rightarrow> ''cluster.local'' | Inr d \<Rightarrow> d) in (d, Some d)))"

section \<open>The ServiceExport\<close>

definition getSliceName :: "sidekick \<Rightarrow> string res" where
  "getSliceName sk =
     (case getSidekickContainer sk of
        None \<Rightarrow> Inl noContainer
      | Some cont \<Rightarrow>
          (case lookupEnv (sc_Env cont) envSliceName of
             Some v \<Rightarrow> Inr v
           | None \<Rightarrow> Inl (Err ''no SLICE_NAME env in wal-g container'')))"

definition volatileLabels :: "string list" where
  "volatileLabels = [''pod-template-hash'', ''controller-revision-hash'',
     ''statefulset.kubernetes.io/pod-name'', ''apps.kubernetes.io/pod-index'']"

definition stableSelectorLabels :: "labels \<Rightarrow> labels" where
  "stableSelectorLabels ls = Some (filter (\<lambda>(k, _). k \<notin> set volatileLabels) (gm_entries ls))"

definition exportSpec :: "osenv \<Rightarrow> string \<Rightarrow> string \<Rightarrow> string \<Rightarrow> pod \<Rightarrow> service_export \<Rightarrow> service_export" where
  "exportSpec E sliceName svcName namespace self ex = ex\<lparr>
     se_Slice := sliceName,
     se_Selector := Some \<lparr>ls_MatchLabels = stableSelectorLabels (om_Labels (p_Meta self)), ls_MatchExpressions = []\<rparr>,
     se_Aliases := [svcName @ ''.'' @ namespace @ ''.svc.'' @ fst (findDomain E None), sliceDNS svcName namespace],
     se_Ports := [\<lparr>sp_Name = ''grpc'', sp_ContainerPort = GRPCPort, sp_Protocol = ''TCP''\<rparr>]\<rparr>"

text \<open>
  The reconciler calls this function at most once in the life of the process, so the domain
  is resolved here for the first time.
\<close>

definition ensureServiceExport :: "osenv \<Rightarrow> 'e kube \<Rightarrow> sidekick \<Rightarrow> ('e, event, unit res) go" where
  "ensureServiceExport E c sk =
     (case getSliceName sk of
        Inl e \<Rightarrow> ret (Inl e)
      | Inr sliceName \<Rightarrow>
          (let podName = os_Getenv E envPodName; namespace = os_Getenv E envPodNamespace in
           if podName = '''' \<or> namespace = ''''
           then ret (Inl (Err ''POD_NAME/POD_NAMESPACE env not set; cannot locate gRPC server pod''))
           else do {
             r \<leftarrow> kGet pod_kind (k_pods c) \<lparr>nn_Namespace = namespace, nn_Name = podName\<rparr>;
             (case r of
                Inl e \<Rightarrow> ret (Inl e)
              | Inr self \<Rightarrow>
                  (let svcName = deploymentNameForPod podName;
                       export = \<lparr>se_Meta = zero_meta\<lparr>om_Name := svcName, om_Namespace := namespace\<rparr>,
                         se_Slice = '''', se_Selector = None, se_Ports = [], se_Aliases = []\<rparr>
                   in do {
                     r2 \<leftarrow> CreateOrPatch export_kind (k_exports c) export
                             (\<lambda>ex _. exportSpec E sliceName svcName namespace self ex);
                     (case r2 of Inl e \<Rightarrow> ret (Inl e) | Inr _ \<Rightarrow> ret (Inr ()))
                   }))
           }))"

section \<open>The environment is a map\<close>

lemma lookupEnv_putEnv: "lookupEnv (putEnv n v env) = (lookupEnv env)(n \<mapsto> v)"
proof (rule ext)
  show "lookupEnv (putEnv n v env) m = ((lookupEnv env)(n \<mapsto> v)) m" for m
    by (induction env) (auto simp: lookupEnv_def)
qed

interpretation env: go_map lookupEnv putEnv "\<lambda>_. True"
  by unfold_locales (simp_all add: lookupEnv_putEnv)

lemma find_mapFirst:
  "(\<And>x. P (f x) = P x) \<Longrightarrow> find P (mapFirst P f xs) = map_option f (find P xs)"
  by (induction xs) auto

lemma isWalg_setEnv [simp]: "isWalg (setEnv n v cont) = isWalg cont"
  by (simp add: isWalg_def setEnv_def)

lemma getSidekickContainer_update:
  "getSidekickContainer (updateSidekickContainer (setEnv n v) sk) =
     map_option (setEnv n v) (getSidekickContainer sk)"
  by (simp add: getSidekickContainer_def updateSidekickContainer_def find_mapFirst)

lemma getEnv_setEnv: "getEnv (setEnv n v cont) m = (if m = n then v else getEnv cont m)"
  by (simp add: getEnv_def setEnv_def lookupEnv_putEnv)

lemma updateSidekickContainer_meta [simp]:
  "sk_Meta (updateSidekickContainer f sk) = sk_Meta sk"
  "sk_Status (updateSidekickContainer f sk) = sk_Status sk"
  by (simp_all add: updateSidekickContainer_def)

text \<open>The three steps together, in the order of the reconciler.\<close>

definition wireArchiver :: "osenv \<Rightarrow> string \<Rightarrow> string \<Rightarrow> sidekick \<Rightarrow> sidekick res" where
  "wireArchiver E signingKey snapshotKey sk =
     (case setSigningKey signingKey sk of
        Inl e \<Rightarrow> Inl e
      | Inr sk1 \<Rightarrow>
          (case setSnapshotGrant snapshotKey sk1 of
             Inl e \<Rightarrow> Inl e
           | Inr sk2 \<Rightarrow> setGRPCAddress E sk2))"

lemma wireArchiver_InrD:
  assumes "wireArchiver E signingKey snapshotKey sk = Inr sk'"
  obtains cont addr sk2 where "getSidekickContainer sk = Some cont"
    "setSnapshotGrant snapshotKey (updateSidekickContainer (setEnv envGRPCTokenSecret signingKey) sk) = Inr sk2"
    "grpcSliceAddress E = Inr addr"
    "sk' = updateSidekickContainer (setEnv envGRPCServerAddress (addr @ '':'' @ showInt (sint GRPCPort))) sk2"
  using assms
  by (auto simp: wireArchiver_def setSigningKey_def setGRPCAddress_def split: sum.splits option.splits)

lemma setSnapshotGrant_container:
  assumes "setSnapshotGrant k sk = Inr sk'" "getSidekickContainer sk = Some cont"
  shows "if getEnv cont envSnapshotName = '''' then sk' = sk
    else \<exists>grant. EncryptString k (getEnv cont envSnapshotName) = Inr grant \<and>
      sk' = updateSidekickContainer (setEnv envGRPCSnapshotToken grant) sk"
  using assms by (auto simp: setSnapshotGrant_def Let_def split: if_splits sum.splits)

lemma wired_container:
  assumes "wireArchiver E signingKey snapshotKey sk = Inr sk'"
    and "getSidekickContainer sk = Some cont"
  shows "\<exists>cont' addr. getSidekickContainer sk' = Some cont' \<and> grpcSliceAddress E = Inr addr \<and>
    getEnv cont' envGRPCTokenSecret = signingKey \<and>
    getEnv cont' envGRPCServerAddress = addr @ '':50051'' \<and>
    getEnv cont' envSnapshotName = getEnv cont envSnapshotName \<and>
    (getEnv cont envSnapshotName \<noteq> '''' \<longrightarrow>
      EncryptString snapshotKey (getEnv cont envSnapshotName) = Inr (getEnv cont' envGRPCSnapshotToken))"
proof -
  from assms obtain addr sk2 where
    grant: "setSnapshotGrant snapshotKey (updateSidekickContainer (setEnv envGRPCTokenSecret signingKey) sk) = Inr sk2"
    and addr: "grpcSliceAddress E = Inr addr"
    and sk': "sk' = updateSidekickContainer (setEnv envGRPCServerAddress (addr @ '':'' @ showInt (sint GRPCPort))) sk2"
    by (auto elim!: wireArchiver_InrD)
  let ?c1 = "setEnv envGRPCTokenSecret signingKey cont"
  have c1: "getSidekickContainer (updateSidekickContainer (setEnv envGRPCTokenSecret signingKey) sk) = Some ?c1"
    by (simp add: getSidekickContainer_update assms(2))
  have port: "showInt (sint GRPCPort) = ''50051''"
    by (simp add: GRPCPort_def showInt_def showNat.simps digitChar_def char_of_def bit_0)
  have name: "getEnv ?c1 envSnapshotName = getEnv cont envSnapshotName"
    by (simp add: getEnv_setEnv env_names)
  show ?thesis
  proof (cases "getEnv cont envSnapshotName = ''''")
    case True
    with setSnapshotGrant_container [OF grant c1]
    have "sk2 = updateSidekickContainer (setEnv envGRPCTokenSecret signingKey) sk" by (simp add: name)
    then show ?thesis
      using True addr by (simp add: sk' getSidekickContainer_update c1 assms(2) port getEnv_setEnv env_names)
  next
    case False
    with setSnapshotGrant_container [OF grant c1] obtain g where
      enc: "EncryptString snapshotKey (getEnv cont envSnapshotName) = Inr g"
      and sk2: "sk2 = updateSidekickContainer (setEnv envGRPCSnapshotToken g)
        (updateSidekickContainer (setEnv envGRPCTokenSecret signingKey) sk)"
      by (auto simp: name)
    then show ?thesis
      using addr by (simp add: sk' getSidekickContainer_update assms(2) port getEnv_setEnv env_names)
  qed
qed

text \<open>
  Once the reconciler has prepared the archiver's container, that container
  carries the signing key, the address of the gRPC server, and, when a Snapshot is named,
  a grant from which the server's decryption with the snapshot key yields exactly the name
  of that Snapshot.
\<close>

theorem wireArchiver_env:
  assumes "wireArchiver E signingKey snapshotKey sk = Inr sk'"
    and "getSidekickContainer sk = Some cont"
  shows "\<exists>cont' addr. getSidekickContainer sk' = Some cont' \<and> grpcSliceAddress E = Inr addr \<and>
    getEnv cont' envGRPCTokenSecret = signingKey \<and>
    getEnv cont' envGRPCServerAddress = addr @ '':50051'' \<and>
    getEnv cont' envSnapshotName = getEnv cont envSnapshotName \<and>
    (getEnv cont envSnapshotName \<noteq> '''' \<longrightarrow>
      DecryptString snapshotKey (getEnv cont' envGRPCSnapshotToken) = Inr (getEnv cont envSnapshotName))"
  using wired_container [OF assms] decrypt_encrypt by blast

definition sample_osenv :: osenv where
  "sample_osenv = \<lparr>os_Getenv = (\<lambda>n. if n = ''POD_NAME'' then ''kubedb-sidekick-5f9d777f8f-rjvdq''
     else if n = ''POD_NAMESPACE'' then ''kubedb'' else ''''),
   os_resolvConf = Inr ''search demo.svc.cluster.local svc.cluster.local cluster.local''\<rparr>"

definition sample_archiver :: sidekick where
  "sample_archiver = updateSidekickContainer (setEnv envSliceName ''sl'' \<circ> setEnv envSnapshotName ''snap'')
     (sample_sidekick RestartPolicyAlways)"

lemma sample_archiver_container:
  "getSidekickContainer sample_archiver =
     Some (setEnv envSliceName ''sl'' (setEnv envSnapshotName ''snap''
       (zero_sk_container\<lparr>sc_Name := ''wal-g'', sc_Image := ''img''\<rparr>)))"
  by (simp add: sample_archiver_def getSidekickContainer_def updateSidekickContainer_def isWalg_def
      setEnv_def sample_defs)

lemma sample_archiver_snapshot:
  "getSidekickContainer sample_archiver = Some cont \<Longrightarrow> getEnv cont envSnapshotName = ''snap''"
  by (auto simp: sample_archiver_container getEnv_setEnv env_names)

lemma sample_wires: "\<exists>sk'. wireArchiver sample_osenv ''k1'' ''k2'' sample_archiver = Inr sk'"
proof -
  obtain g where "EncryptString ''k2'' ''snap'' = Inr g"
    by (simp add: EncryptString_def sealWith_def gcmMaxText_def Let_def)
  then show ?thesis
    by (simp add: wireArchiver_def setSigningKey_def setSnapshotGrant_def setGRPCAddress_def
        grpcSliceAddress_def sample_osenv_def getSidekickContainer_update sample_archiver_container
        getEnv_setEnv env_names Let_def)
qed

theorem wireArchiver_env_witness:
  "\<exists>sk' cont'. wireArchiver sample_osenv ''k1'' ''k2'' sample_archiver = Inr sk' \<and>
     getSidekickContainer sk' = Some cont' \<and>
     DecryptString ''k2'' (getEnv cont' envGRPCSnapshotToken) = Inr ''snap''"
proof -
  obtain sk' where sk': "wireArchiver sample_osenv ''k1'' ''k2'' sample_archiver = Inr sk'"
    using sample_wires by blast
  obtain cont where cont: "getSidekickContainer sample_archiver = Some cont"
    by (simp add: sample_archiver_container)
  from wireArchiver_env [OF sk' cont] sample_archiver_snapshot [OF cont] sk' show ?thesis by fastforce
qed

section \<open>Keys are created once\<close>

lemma keysOf_fillKeys:
  "keysOf (fillKeys sk a b s) =
     (if fst (keysOf s) = '''' then a else fst (keysOf s), if snd (keysOf s) = '''' then b else snd (keysOf s))"
  by (auto simp: keysOf_def fillKeys_def gm_str_def Let_def SigningSecretKey_def SnapshotSecretKey_def
      split: option.splits)

text \<open>A write to a Secret that keeps every key the Secret already had.\<close>

fun keepsKeys :: "event \<Rightarrow> bool" where
  "keepsKeys (EvSecret (RPatch cur new) _) =
     ((fst (keysOf cur) \<noteq> '''' \<longrightarrow> fst (keysOf new) = fst (keysOf cur)) \<and>
      (snd (keysOf cur) \<noteq> '''' \<longrightarrow> snd (keysOf new) = snd (keysOf cur)))"
| "keepsKeys (EvSecret (RDelete _) _) = False"
| "keepsKeys (EvSecret (RStatusPatch _ _) _) = False"
| "keepsKeys (EvSecret (RStatusUpdate _) _) = False"
| "keepsKeys _ = True"

lemma emits_randomKey [emits_rules]: "(\<And>n b. p (EvRandom n b)) \<Longrightarrow> emits p (randomKey c)"
  unfolding randomKey_def by (intro emits_rules)

lemma emits_createGRPCKeys [emits_rules]:
  assumes "\<And>k b. p (EvSecret (RGet k) b)" "\<And>x b. p (EvSecret (RCreate x) b)" "\<And>n b. p (EvRandom n b)"
    and "\<And>x f1 f2 b. p (EvSecret (RPatch x (fillKeys sk f1 f2 x)) b)"
  shows "emits p (createGRPCKeys c sk)"
  unfolding createGRPCKeys_def by (intro emits_rules) (simp_all add: assms)

lemma emits_ensureGRPCKeys [emits_rules]:
  assumes "\<And>k b. p (EvSecret (RGet k) b)" "\<And>x b. p (EvSecret (RCreate x) b)" "\<And>n b. p (EvRandom n b)"
    and "\<And>x f1 f2 b. p (EvSecret (RPatch x (fillKeys sk f1 f2 x)) b)"
  shows "emits p (ensureGRPCKeys c sk)"
  unfolding ensureGRPCKeys_def by (intro emits_rules) (simp_all add: assms)

text \<open>
  Whatever the API server answers, \<open>ensureGRPCKeys\<close> never replaces a key that the
  Secret it patches already holds.
\<close>

theorem ensureGRPCKeys_never_rotates: "emits keepsKeys (ensureGRPCKeys c sk)"
  by (intro emits_rules) (simp_all add: keysOf_fillKeys)

lemma createGRPCKeys_result: "wp (createGRPCKeys c sk) (\<lambda>r w'. \<forall>a b. r = Inr (a, b) \<longrightarrow> a \<noteq> '''' \<and> b \<noteq> '''') w"
  by (auto simp: createGRPCKeys_def wp_simps wp_def hasKeys_def split: sum.splits prod.splits)

text \<open>
  The keys \<open>ensureGRPCKeys\<close> returns are never empty; when the Secret holds both,
  they are returned as they are and nothing is written.
\<close>

theorem ensureGRPCKeys_result:
  assumes "run_state (ensureGRPCKeys c sk) w = (Inr (signingKey, snapshotKey), w')"
  shows "signingKey \<noteq> '''' \<and> snapshotKey \<noteq> '''' \<and>
    (\<forall>s e. o_get (k_secrets c) (keySecretKey sk) (w_env w) = (Inr s, e) \<longrightarrow> hasKeys s \<longrightarrow>
       (signingKey, snapshotKey) = keysOf s \<and>
       w_trace w' = w_trace w @ [EvSecret (RGet (keySecretKey sk)) True])"
proof -
  let ?w1 = "snd (run_state (kGet secret_kind (k_secrets c) (keySecretKey sk)) w)"
  have "signingKey \<noteq> '''' \<and> snapshotKey \<noteq> ''''"
    using assms wpD [OF createGRPCKeys_result [of c sk ?w1]]
    by (auto simp: ensureGRPCKeys_def hasKeys_def kGet_def run_api_call split: sum.splits if_splits)
  moreover have "(signingKey, snapshotKey) = keysOf s \<and>
      w_trace w' = w_trace w @ [EvSecret (RGet (keySecretKey sk)) True]"
    if "o_get (k_secrets c) (keySecretKey sk) (w_env w) = (Inr s, e)" "hasKeys s" for s e
    using assms that by (auto simp: ensureGRPCKeys_def kGet_def run_api_call)
  ultimately show ?thesis by blast
qed

definition sample_secret :: secret where
  "sample_secret = \<lparr>sec_Meta = zero_meta\<lparr>om_Name := ''sk-grpc-key'', om_Namespace := ''demo''\<rparr>,
     sec_Data = Some [(''signing-key'', ''k1''), (''snapshot-key'', ''k2'')]\<rparr>"

theorem ensureGRPCKeys_result_witness:
  "\<exists>w'. run_state (ensureGRPCKeys mem_kube (sample_sidekick RestartPolicyAlways))
          (mem_world (empty_cluster\<lparr>cl_secrets := [sample_secret]\<rparr>)) = (Inr (''k1'', ''k2''), w') \<and>
     w_trace w' = [EvSecret (RGet \<lparr>nn_Namespace = ''demo'', nn_Name = ''sk-grpc-key''\<rparr>) True]"
proof -
  let ?w = "mem_world (empty_cluster\<lparr>cl_secrets := [sample_secret]\<rparr>)"
  have key: "keySecretKey (sample_sidekick RestartPolicyAlways) = \<lparr>nn_Namespace = ''demo'', nn_Name = ''sk-grpc-key''\<rparr>"
    by (simp add: keySecretKey_def SigningSecretName_def sample_defs)
  have get: "o_get (k_secrets mem_kube) (keySecretKey (sample_sidekick RestartPolicyAlways)) (w_env ?w) =
      (Inr sample_secret, w_env ?w)"
    by (simp add: key mem_defs mem_op_defs sample_secret_def zero_meta_def)
  have keys: "keysOf sample_secret = (''k1'', ''k2'')"
    by (simp add: keysOf_def sample_secret_def gm_str_def SigningSecretKey_def SnapshotSecretKey_def)
  obtain w' where run: "run_state (ensureGRPCKeys mem_kube (sample_sidekick RestartPolicyAlways)) ?w =
      (Inr (''k1'', ''k2''), w')"
    by (simp add: ensureGRPCKeys_def kGet_def run_api_call get hasKeys_def keys)
  have "w_trace w' = w_trace ?w @ [EvSecret (RGet (keySecretKey (sample_sidekick RestartPolicyAlways))) True]"
    using ensureGRPCKeys_result [OF run] get keys by (simp add: hasKeys_def)
  then have "w_trace w' = [EvSecret (RGet \<lparr>nn_Namespace = ''demo'', nn_Name = ''sk-grpc-key''\<rparr>) True]"
    unfolding key by (simp add: mem_world_def)
  with run show ?thesis by blast
qed

section \<open>Names and domains\<close>

text \<open>
  The name of a Deployment is recovered from the name of any of its pods: the
  ReplicaSet hash and the pod suffix are dropped, dashes in the Deployment's own name stay.
\<close>

theorem deploymentNameForPod_pod:
  assumes "CHR ''-'' \<notin> set hash" "CHR ''-'' \<notin> set suffix"
  shows "deploymentNameForPod (dep @ ''-'' @ hash @ ''-'' @ suffix) = dep"
proof -
  have "splitOn (CHR ''-'') (dep @ ''-'' @ hash @ ''-'' @ suffix) = splitOn (CHR ''-'') dep @ [hash, suffix]"
    using splitOn_append [of "CHR ''-''" dep "hash @ ''-'' @ suffix"] splitOn_append [of "CHR ''-''" hash suffix]
    by (simp add: splitOn_single assms)
  moreover have "\<not> length (splitOn (CHR ''-'') dep @ [hash, suffix]) \<le> 2"
    by simp
  ultimately show ?thesis by (simp add: deploymentNameForPod_def)
qed

theorem deploymentNameForPod_pod_witness:
  "deploymentNameForPod ''kubedb-sidekick-5f9d777f8f-rjvdq'' = ''kubedb-sidekick''"
  using deploymentNameForPod_pod [of "''5f9d777f8f''" "''rjvdq''" "''kubedb-sidekick''"] by simp

text \<open>The exported selector has the pod's labels, less the volatile ones.\<close>

lemma map_of_filter_keys: "map_of (filter (\<lambda>(k, _). P k) xs) k = (if P k then map_of xs k else None)"
  by (induction xs) auto

lemma stableSelectorLabels_get:
  "gm_get (stableSelectorLabels ls) k = (if k \<in> set volatileLabels then None else gm_get ls k)"
  by (simp add: stableSelectorLabels_def gm_get_def map_of_filter_keys)

text \<open>
  The search line Kubernetes writes for pods: the domain is what follows \<open>svc.\<close> in its second
  field.
\<close>

lemma trimSpace_id: "s \<noteq> [] \<Longrightarrow> \<not> isSpace (hd s) \<Longrightarrow> \<not> isSpace (last s) \<Longrightarrow> trimSpace s = s"
proof -
  assume s: "s \<noteq> []" "\<not> isSpace (hd s)" "\<not> isSpace (last s)"
  have "dropWhile isSpace s = s" using s(1,2) by (cases s) auto
  moreover have "dropWhile isSpace (rev s) = rev s" using s(1,3) by (cases s rule: rev_cases) auto
  ultimately show "trimSpace s = s" by (simp add: trimSpace_def)
qed

lemma strFields_search:
  assumes "\<forall>f \<in> {f1, f2, f3}. f \<noteq> [] \<and> list_all (\<lambda>c. \<not> isSpace c) f"
  shows "strFields (''search '' @ f1 @ '' '' @ f2 @ '' '' @ f3) = [''search'', f1, f2, f3]"
proof -
  have sp: "isSpace (CHR '' '')" by (simp add: isSpace_def)
  have w: "list_all (\<lambda>c. \<not> isSpace c) ''search''" by (simp add: isSpace_def)
  have eq: "fieldsFrom [] (f @ CHR '' '' # rest) = f # fieldsFrom [] rest"
    if "f \<noteq> []" "list_all (\<lambda>c. \<not> isSpace c) f" for f rest
    using fieldsFrom_word [OF that(2), of "[]" "CHR '' '' # rest"] that(1) sp by simp
  have fin: "fieldsFrom [] f3 = [f3]"
    using fieldsFrom_word [of f3 "[]" "[]"] assms by simp
  have "strFields (''search '' @ f1 @ '' '' @ f2 @ '' '' @ f3) =
      fieldsFrom [] (''search'' @ CHR '' '' # (f1 @ CHR '' '' # (f2 @ CHR '' '' # f3)))"
    by (simp add: strFields_def)
  also have "\<dots> = [''search'', f1, f2, f3]"
    by (subst eq [OF _ w], simp, subst eq, use assms in simp, use assms in simp,
        subst eq, use assms in simp, use assms in simp, simp add: fin)
  finally show ?thesis .
qed

text \<open>
  From the search line that Kubernetes writes into a pod's resolv.conf
  (\<open>search ns.svc.DOMAIN svc.DOMAIN DOMAIN\<close>, as the first line), the operator recovers the
  cluster domain.
\<close>

theorem resolveDomain_search:
  assumes "ns \<noteq> '''' \<and> list_all (\<lambda>c. \<not> isSpace c) ns \<and> \<not> hasPrefix ''svc.'' (ns @ ''.svc.'' @ domain)"
    and "domain \<noteq> '''' \<and> list_all (\<lambda>c. \<not> isSpace c) domain \<and> \<not> hasPrefix ''svc.'' domain"
    and "length ns + 3 * length domain < 65000"
    and "os_resolvConf E = Inr (''search '' @ ns @ ''.svc.'' @ domain @ '' svc.'' @ domain @ '' '' @ domain @ [CHR 0x0A] @ rest)"
  shows "resolveDomain E = Inr domain"
proof -
  define f1 where "f1 = ns @ ''.svc.'' @ domain"
  define f2 where "f2 = ''svc.'' @ domain"
  define line where "line = ''search '' @ f1 @ '' '' @ f2 @ '' '' @ domain"
  note defs = f1_def f2_def line_def
  have conf: "os_resolvConf E = Inr (line @ CHR 0x0A # rest)"
    using assms(4) by (simp add: defs)
  have nosp: "list_all (\<lambda>c. \<not> isSpace c) f1" "list_all (\<lambda>c. \<not> isSpace c) f2"
    using assms(1,2) by (simp_all add: defs isSpace_def)
  have nl: "CHR 0x0A \<notin> set line"
    using assms(1,2) by (auto simp: defs list_all_iff isSpace_def)
  have last: "line \<noteq> []" "hd line = CHR ''s''" "last line = last domain" "\<not> isSpace (last domain)"
    "last domain \<noteq> CHR 0x0D"
    using assms(2) by (auto simp: defs list_all_iff isSpace_def)
  then have "dropCR line = line" by (simp add: dropCR_def)
  moreover have "trimSpace line = line"
    using last by (intro trimSpace_id) (auto simp: isSpace_def)
  ultimately have trim: "trimSpace (dropCR line) = line" by simp
  have short: "length line < 65536" using assms(3) by (simp add: defs)
  obtain more where more: "scanLines (line @ CHR 0x0A # rest) = Some (dropCR line) # more"
    using scanLines_first [OF nl short] by blast
  have flds: "strFields line = [''search'', f1, f2, domain]"
    unfolding line_def using nosp assms(1,2) by (intro strFields_search) (auto simp: defs)
  have dec: "hasPrefix ''search '' line" "\<not> hasPrefix ''#'' line" "hasPrefix ''svc.'' f2"
    "\<not> hasPrefix ''svc.svc.'' f2" "trimPrefix ''svc.'' f2 = domain"
    using assms(2) by (simp_all add: defs hasPrefix_def trimPrefix_def)
  have f1: "\<not> hasPrefix ''svc.'' f1" "\<not> hasPrefix ''svc.'' ''search''"
    using assms(1) by (simp_all add: f1_def hasPrefix_def)
  have "domainFromLines (scanLines (line @ CHR 0x0A # rest)) = Inr domain"
    unfolding more using dec f1 last(1) by (simp add: trim flds Let_def)
  then show ?thesis by (simp add: resolveDomain_def conf)
qed

theorem resolveDomain_search_witness:
  "resolveDomain (sample_osenv\<lparr>os_resolvConf :=
     Inr (''search demo.svc.cluster.local svc.cluster.local cluster.local'' @ [CHR 0x0A] @ ''nameserver 10.96.0.10'')\<rparr>)
   = Inr ''cluster.local''"
  by (rule resolveDomain_search [where ns = "''demo''" and rest = "''nameserver 10.96.0.10''"])
    (simp_all add: isSpace_def hasPrefix_def)

end
