(* ===== verification/Distributed.thy ===== *)
theory Distributed
  imports Sidekick_Controller Grpc_Wiring Go_Json
begin

text \<open>
  \<open>src/pkg/controllers/apps/distributed.go\<close>: a Sidekick whose leader and whose pod live in spoke
  clusters. The pod travels inside a ManifestWork; what the operator knows of it comes back
  as status feedback.
\<close>

section \<open>Third-party code as parameters\<close>

text \<open>
  The conversion of a pod to an unstructured object and back, decoding a pod or a condition
  from JSON (into third-party structs), \<open>metav1.FormatLabelSelector\<close>, and the environment of
  the process.
\<close>

record dparams = params +
  dp_os :: osenv
  dp_toUnstructured :: "pod \<Rightarrow> Unstructured res"
  dp_fromRaw :: "string \<Rightarrow> pod res"
  dp_jsonPod :: "string \<Rightarrow> pod res"
  dp_jsonCondition :: "string \<Rightarrow> pod_condition res"
  dp_formatSelector :: "label_selector \<Rightarrow> string"

definition ManifestWorkClusterNameLabel :: string where
  "ManifestWorkClusterNameLabel = ''open-cluster-management.io/cluster-name''"

section \<open>Reading the feedback\<close>

text \<open>The loop over the feedback values of the first manifest: the last phase wins.\<close>

definition phaseOfValue :: "feedback_value \<Rightarrow> string \<Rightarrow> string" where
  "phaseOfValue v podPhase =
     (if fb_Name v = ''PodPhase''
      then (case fv_String (fb_Value v) of Some s \<Rightarrow> s | None \<Rightarrow> podPhase)
      else podPhase)"

definition extractPodStatusFromMW :: "manifest_work \<Rightarrow> string" where
  "extractPodStatusFromMW mw =
     (case mw_StatusManifests mw of
        [] \<Rightarrow> ''''
      | values # _ \<Rightarrow> fold phaseOfValue values '''')"

definition getPodPhase :: "string \<Rightarrow> PodPhase" where
  "getPodPhase podPhase =
     (if podPhase = ''Pending'' then PodPending
      else if podPhase = ''Running'' then PodRunning
      else if podPhase = ''Succeeded'' then PodSucceeded
      else if podPhase = ''Failed'' then PodFailed
      else if podPhase = ''Unknown'' then PodUnknown
      else PodUnknown)"

text \<open>Indexing the first manifest of an empty list is a run-time panic.\<close>

definition ExtractPodFromManifestWork :: "dparams \<Rightarrow> manifest_work \<Rightarrow> pod res" where
  "ExtractPodFromManifestWork P mw =
     (case mws_Manifests (mw_Spec mw) of
        [] \<Rightarrow> Inl (Panic ''index out of range'')
      | manifest # _ \<Rightarrow> dp_fromRaw P (mf_Raw manifest))"

definition extractRestartCountFromJSONRaw :: "string \<Rightarrow> int32" where
  "extractRestartCountFromJSONRaw raw =
     (case unmarshalInt32s raw of
        None \<Rightarrow> 0
      | Some restartCounts \<Rightarrow> fold (\<lambda>count acc. acc + count) restartCounts 0)"

definition addRestarts :: "feedback_value \<Rightarrow> int32 \<Rightarrow> int32" where
  "addRestarts v restartCounter =
     (if fb_Name v = ''ContainerRestartCount'' \<or> fb_Name v = ''InitContainerRestartCount''
      then (case fv_JsonRaw (fb_Value v) of
              Some raw \<Rightarrow> restartCounter + extractRestartCountFromJSONRaw raw
            | None \<Rightarrow> restartCounter)
      else restartCounter)"

definition getDistributedContainerRestartCounts :: "manifest_work \<Rightarrow> int32" where
  "getDistributedContainerRestartCounts mw =
     (case mw_StatusManifests mw of
        [] \<Rightarrow> 0
      | values # _ \<Rightarrow> fold addRestarts values 0)"

definition isDistributedSidekickPodRunning :: "manifest_work option \<Rightarrow> bool" where
  "isDistributedSidekickPodRunning m =
     (case m of
        None \<Rightarrow> False
      | Some mw \<Rightarrow>
          if om_DeletionTimestamp (mw_Meta mw) \<noteq> None then False
          else (case find (\<lambda>v. fb_Name v = ''PodPhase'' \<and> fv_String (fb_Value v) \<noteq> None)
                       (concat (mw_StatusManifests mw)) of
                  Some v \<Rightarrow> fv_String (fb_Value v) = Some PodRunning
                | None \<Rightarrow> False))"

section \<open>Namespaces\<close>

text \<open>
  \<open>getDistributedPodNamespace\<close>: the namespaces are searched in order, a NotFound is remembered.
  Without any namespace the answer is the empty string.
\<close>

fun searchNamespace :: "'e kube \<Rightarrow> string \<Rightarrow> goerr option \<Rightarrow> string list \<Rightarrow> ('e, event, string res) go" where
  "searchNamespace c mwName notFound [] =
     ret (case notFound of None \<Rightarrow> Inr '''' | Some e \<Rightarrow> Inl e)"
| "searchNamespace c mwName notFound (ns # nss) = do {
     r \<leftarrow> ocmGet c ns mwName;
     (case r of
        Inl e \<Rightarrow> if IsNotFound e then searchNamespace c mwName (Some e) nss else ret (Inl e)
      | Inr mw \<Rightarrow> ret (Inr (om_Namespace (mw_Meta mw))))
   }"

definition getDistributedPodNamespace :: "'e kube \<Rightarrow> string \<Rightarrow> ('e, event, string res) go" where
  "getDistributedPodNamespace c mwName = do {
     r \<leftarrow> listNamespaces c;
     (case r of Inl e \<Rightarrow> ret (Inl e) | Inr nss \<Rightarrow> searchNamespace c mwName None nss)
   }"

text \<open>
  \<open>getDistributedSidekickCurrentLeader\<close> returns a pointer and an error. For an error other than
  NotFound it returns the variable \<open>err\<close> of the enclosing scope, which is nil or an earlier
  NotFound.
\<close>

fun searchCurrentLeader ::
    "'e kube \<Rightarrow> string \<Rightarrow> goerr option \<Rightarrow> string list \<Rightarrow> ('e, event, manifest_work option \<times> goerr option) go" where
  "searchCurrentLeader c name err [] = ret (None, err)"
| "searchCurrentLeader c name err (ns # nss) = do {
     r \<leftarrow> ocmGet c ns name;
     (case r of
        Inl err2 \<Rightarrow> if \<not> IsNotFound err2 then ret (None, err) else searchCurrentLeader c name (Some err2) nss
      | Inr mw \<Rightarrow> ret (Some mw, None))
   }"

definition getDistributedSidekickCurrentLeader ::
    "'e kube \<Rightarrow> sidekick \<Rightarrow> ('e, event, manifest_work option \<times> goerr option) go" where
  "getDistributedSidekickCurrentLeader c sk = do {
     r \<leftarrow> listNamespaces c;
     (case r of
        Inl e \<Rightarrow> ret (None, Some e)
      | Inr nss \<Rightarrow> searchCurrentLeader c (sk_Name sk) None nss)
   }"

section \<open>The leader\<close>

definition roleLabel :: string where "roleLabel = ''kubedb.com/role''"

text \<open>The selector without the role label, and whether the label was there.\<close>

definition dropRole :: "label_selector \<Rightarrow> label_selector \<times> bool" where
  "dropRole selector =
     (if gm_get (ls_MatchLabels selector) roleLabel \<noteq> None
      then (selector\<lparr>ls_MatchLabels := gm_delete roleLabel (ls_MatchLabels selector)\<rparr>, True)
      else (selector, False))"

record feedback_state =
  fs_Status :: pod_status
  fs_Primary :: bool
  fs_NodeName :: string

text \<open>One turn of the loop over the feedback values of a candidate.\<close>

definition readFeedback :: "dparams \<Rightarrow> feedback_value \<Rightarrow> feedback_state \<Rightarrow> feedback_state" where
  "readFeedback P v st =
     (let name = fb_Name v; str = fv_String (fb_Value v) in
      if name = ''PodPhase'' then
        (case str of Some s \<Rightarrow> st\<lparr>fs_Status := (fs_Status st)\<lparr>pst_Phase := s\<rparr>\<rparr> | None \<Rightarrow> st)
      else if name = ''PodIP'' then
        (case str of Some s \<Rightarrow> st\<lparr>fs_Status := (fs_Status st)\<lparr>pst_PodIP := s\<rparr>\<rparr> | None \<Rightarrow> st)
      else if name = ''ReadyCondition'' then
        (case fv_JsonRaw (fb_Value v) of
           Some raw \<Rightarrow>
             (case dp_jsonCondition P raw of
                Inr cond \<Rightarrow> st\<lparr>fs_Status := (fs_Status st)\<lparr>pst_Conditions := pst_Conditions (fs_Status st) @ [cond]\<rparr>\<rparr>
              | Inl _ \<Rightarrow> st)
         | None \<Rightarrow> st)
      else if name = ''PodRoleLabel'' then
        (if str = Some ''Primary'' then st\<lparr>fs_Primary := True\<rparr> else st)
      else if name = ''NodeName'' then
        (case str of Some s \<Rightarrow> st\<lparr>fs_NodeName := s\<rparr> | None \<Rightarrow> st)
      else st)"

text \<open>One turn of the loop over the ManifestWorks: the candidate pod, if there is one.\<close>

definition candidateFromMW :: "dparams \<Rightarrow> bool \<Rightarrow> manifest_work \<Rightarrow> pod option" where
  "candidateFromMW P removeRole mw =
     (case mws_Manifests (mw_Spec mw) of
        [] \<Rightarrow> None
      | manifest # _ \<Rightarrow>
          (case dp_jsonPod P (mf_Raw manifest) of
             Inl _ \<Rightarrow> None
           | Inr pod \<Rightarrow>
               (case mw_StatusManifests mw of
                  [] \<Rightarrow> None
                | values # _ \<Rightarrow>
                    (let st = fold (readFeedback P) values
                           \<lparr>fs_Status = zero_pod_status, fs_Primary = \<not> removeRole, fs_NodeName = ''''\<rparr>;
                         pod' = pod\<lparr>p_Meta := (p_Meta pod)\<lparr>om_Annotations :=
                                  gm_set ManifestWorkClusterNameLabel (om_Namespace (mw_Meta mw))
                                    (om_Annotations (p_Meta pod))\<rparr>,
                                p_Status := fs_Status st,
                                p_Spec := (p_Spec pod)\<lparr>ps_NodeName := fs_NodeName st\<rparr>\<rparr>
                     in if fs_Primary st then Some pod' else None))))"

fun listAllMW :: "'e kube \<Rightarrow> string \<Rightarrow> string list \<Rightarrow> ('e, event, manifest_work list res) go" where
  "listAllMW c opts [] = ret (Inr [])"
| "listAllMW c opts (ns # nss) = do {
     r \<leftarrow> ocmList c ns opts;
     (case r of
        Inl e \<Rightarrow> ret (Inl e)
      | Inr mws \<Rightarrow> do {
          r2 \<leftarrow> listAllMW c opts nss;
          (case r2 of Inl e \<Rightarrow> ret (Inl e) | Inr rest \<Rightarrow> ret (Inr (mws @ rest)))
        })
   }"

text \<open>The choice among the candidates: none is a NotFound, several are sorted.\<close>

definition sortCandidates :: "((pod \<Rightarrow> pod \<Rightarrow> bool) \<Rightarrow> pod list \<Rightarrow> pod list) \<Rightarrow> pod list \<Rightarrow> pod list res" where
  "sortCandidates srt leaders =
     (case leaders of
        [] \<Rightarrow> Inl NotFound
      | [leader] \<Rightarrow> Inr [leader]
      | _ \<Rightarrow> Inr (srt leaderLess leaders))"

definition findDistributedLeader :: "dparams \<Rightarrow> 'e kube \<Rightarrow> sidekick \<Rightarrow> ('e, event, pod list res) go" where
  "findDistributedLeader P c sk =
     (let ld = ss_Leader (sk_Spec sk) in
      if ld_Name ld \<noteq> '''' then do {
        r \<leftarrow> getDistributedPodNamespace c (sk_Name sk);
        (case r of
           Inl e \<Rightarrow> ret (Inl e)
         | Inr ns \<Rightarrow> do {
             r2 \<leftarrow> ocmGet c ns (ld_Name ld);
             (case r2 of
                Inl e \<Rightarrow> ret (Inl e)
              | Inr mw \<Rightarrow>
                  (case ExtractPodFromManifestWork P mw of
                     Inl e \<Rightarrow> ret (Inl e)
                   | Inr leader \<Rightarrow> ret (Inr [leader])))
           })
      }
      else
        (let (opts, removeRole) =
               (case ld_Selector ld of
                  None \<Rightarrow> ('''', False)
                | Some sel \<Rightarrow> (let (selector, rr) = dropRole sel in (dp_formatSelector P selector, rr)))
         in do {
           r \<leftarrow> listNamespaces c;
           (case r of
              Inl e \<Rightarrow> ret (Inl e)
            | Inr nss \<Rightarrow> do {
                r2 \<leftarrow> listAllMW c opts nss;
                (case r2 of
                   Inl e \<Rightarrow> ret (Inl e)
                 | Inr allMW \<Rightarrow>
                     ret (sortCandidates (pr_sort P) (List.map_filter (candidateFromMW P removeRole) allMW)))
              })
         }))"

text \<open>Indexing an empty result is a run-time panic; \<open>findDistributedLeader\<close> never returns one.\<close>

definition pickLeader :: "LeaderSelectionPolicy \<Rightarrow> pod list \<Rightarrow> pod res" where
  "pickLeader policy leaders =
     (if leaders = [] then Inl (Panic ''index out of range'')
      else if policy = PodSelectionPolicyFirst then Inr (hd leaders) else Inr (last leaders))"

definition getDistributedLeader :: "dparams \<Rightarrow> 'e kube \<Rightarrow> sidekick \<Rightarrow> ('e, event, pod res) go" where
  "getDistributedLeader P c sk = do {
     r \<leftarrow> findDistributedLeader P c sk;
     (case r of
        Inl e \<Rightarrow> ret (Inl e)
      | Inr leaders \<Rightarrow> ret (pickLeader (ld_SelectionPolicy (ss_Leader (sk_Spec sk))) leaders))
   }"

section \<open>The phase\<close>

definition getDistributedSidekickPhase :: "sidekick \<Rightarrow> manifest_work option \<Rightarrow> SideKickPhase \<times> sidekick" where
  "getDistributedSidekickPhase sk m =
     (if ss_RestartPolicy (sk_Spec sk) = RestartPolicyAlways
      then (if \<not> isDistributedSidekickPodRunning m then (SideKickPhaseDegraded, sk) else (SideKickPhaseCurrent, sk))
      else if st_Phase (sk_Status sk) = SidekickPhaseSucceeded then (SidekickPhaseSucceeded, sk)
      else if (case m of
                 None \<Rightarrow> False
               | Some mw \<Rightarrow> list_ex (list_ex (\<lambda>v. fb_Name v = ''PodPhase'' \<and> fv_String (fb_Value v) = Some ''Succeeded''))
                   (mw_StatusManifests mw))
      then (SidekickPhaseSucceeded, sk)
      else
        (let (backOffCounts, sk') = getTotalBackOffCounts sk in
         if gt32 backOffCounts (backoffLimit sk') then (SideKickPhaseFailed, sk')
         else if \<not> isDistributedSidekickPodRunning m then (SideKickPhaseDegraded, sk')
         else (SideKickPhaseCurrent, sk')))"

definition updateDistributedSidekickStatus :: "'e kube \<Rightarrow> sidekick \<Rightarrow> ('e, event, sidekick res) go" where
  "updateDistributedSidekickStatus c sk = do {
     r \<leftarrow> PatchStatus sidekick_kind (k_sidekicks c) sk (\<lambda>cur. cur\<lparr>sk_Status := sk_Status sk\<rparr>);
     (case r of Inl e \<Rightarrow> ret (Inl e) | Inr (_, sk') \<Rightarrow> ret (Inr sk'))
   }"

definition countMW :: "manifest_work \<Rightarrow> sidekick \<Rightarrow> sidekick" where
  "countMW mw sk =
     (let podUID = om_UID (mw_Meta mw);
          sk1 = setRestarts podUID (getDistributedContainerRestartCounts mw) sk
      in if extractPodStatusFromMW mw = PodFailed \<and> om_DeletionTimestamp (mw_Meta mw) = None
         then countFailedPod podUID sk1 else sk1)"

definition calculateDistributedSidekickPhase ::
    "'e kube \<Rightarrow> sidekick \<Rightarrow> ('e, event, (SideKickPhase \<times> sidekick) res) go" where
  "calculateDistributedSidekickPhase c sk = do {
     let sk1 = allocStatusMaps sk;
     (leader, err) \<leftarrow> getDistributedSidekickCurrentLeader c sk1;
     (case err of
        Some e \<Rightarrow>
          if \<not> IsNotFound e then ret (Inl e)
          else do {
            let (phase, sk2) = getDistributedSidekickPhase sk1 leader;
            r \<leftarrow> updateDistributedSidekickStatus c (sk2\<lparr>sk_Status := (sk_Status sk2)\<lparr>st_Phase := phase\<rparr>\<rparr>);
            (case r of Inl e' \<Rightarrow> ret (Inl e') | Inr sk3 \<Rightarrow> ret (Inr (phase, sk3)))
          }
      | None \<Rightarrow> do {
          let (phase, sk2) = getDistributedSidekickPhase
                (case leader of None \<Rightarrow> sk1 | Some mw \<Rightarrow> countMW mw sk1) leader;
          r \<leftarrow> updateDistributedSidekickStatus c (sk2\<lparr>sk_Status := (sk_Status sk2)\<lparr>st_Phase := phase\<rparr>\<rparr>);
          (case r of Inl e' \<Rightarrow> ret (Inl e') | Inr sk3 \<Rightarrow> ret (Inr (phase, sk3)))
        })
   }"

definition updateDistributedSidekickPhase ::
    "'e kube \<Rightarrow> nsname \<Rightarrow> sidekick \<Rightarrow> ('e, event, (bool \<times> sidekick) res) go" where
  "updateDistributedSidekickPhase c req sk = do {
     r \<leftarrow> calculateDistributedSidekickPhase c sk;
     (case r of
        Inl e \<Rightarrow> ret (Inl e)
      | Inr (phase, sk1) \<Rightarrow>
          if phase = SideKickPhaseFailed then do {
            r2 \<leftarrow> kGet pod_kind (k_pods c) req;
            (case r2 of
               Inl e \<Rightarrow> (case IgnoreNotFound e of None \<Rightarrow> ret (Inr (True, sk1)) | Some e' \<Rightarrow> ret (Inl e'))
             | Inr pod \<Rightarrow>
                 if p_Phase pod = PodRunning then do {
                   r3 \<leftarrow> kStatusUpdate pod_kind (k_pods c)
                           (pod\<lparr>p_Status := (p_Status pod)\<lparr>pst_Phase := PodFailed\<rparr>\<rparr>);
                   (case r3 of Inl e \<Rightarrow> ret (Inl e) | Inr _ \<Rightarrow> ret (Inr (True, sk1)))
                 }
                 else ret (Inr (True, sk1)))
          }
          else if st_Phase (sk_Status sk1) = SidekickPhaseSucceeded then ret (Inr (True, sk1))
          else ret (Inr (False, sk1)))
   }"

section \<open>ManifestWorks\<close>

definition markMW :: "manifest_work \<Rightarrow> manifest_work" where
  "markMW mw = mw\<lparr>mw_Meta := (mw_Meta mw)\<lparr>om_Annotations :=
     gm_set deletionInitiatorKey deletionInitiatesBySidekickOperator (gm_make (om_Annotations (mw_Meta mw)))\<rparr>\<rparr>"

definition setMWDeletionInitiatorAnnotation :: "'e kube \<Rightarrow> manifest_work \<Rightarrow> ('e, event, manifest_work res) go" where
  "setMWDeletionInitiatorAnnotation c mw = do {
     r \<leftarrow> CreateOrPatch mw_kind (k_mws c) mw (\<lambda>m _. markMW m);
     (case r of Inl e \<Rightarrow> ret (Inl e) | Inr (_, mw') \<Rightarrow> ret (Inr mw'))
   }"

definition deleteMW :: "'e kube \<Rightarrow> manifest_work \<Rightarrow> ('e, event, unit res) go" where
  "deleteMW c mw = do {
     r \<leftarrow> setMWDeletionInitiatorAnnotation c mw;
     (case r of
        Inl e \<Rightarrow> ret (Inl e)
      | Inr mw' \<Rightarrow> kDelete mw_kind (k_mws c) (ObjectKeyFromMeta (mw_Meta mw')))
   }"

text \<open>The feedback and the update strategy asked of the spoke cluster.\<close>

definition podFeedbackPaths :: "json_path list" where
  "podFeedbackPaths = [
     \<lparr>jp_Name = ''PodPhase'', jp_Path = ''.status.phase''\<rparr>,
     \<lparr>jp_Name = ''PodIP'', jp_Path = ''.status.podIP''\<rparr>,
     \<lparr>jp_Name = ''ReadyCondition'', jp_Path = ''.status.conditions[?(@.type=='' @ [CHR 0x27] @ ''Ready'' @ [CHR 0x27] @ '')]''\<rparr>,
     \<lparr>jp_Name = ''NodeName'', jp_Path = ''.spec.nodeName''\<rparr>,
     \<lparr>jp_Name = ''ContainerRestartCount'', jp_Path = ''.status.containerStatuses[*].restartCount''\<rparr>,
     \<lparr>jp_Name = ''InitContainerRestartCount'', jp_Path = ''.status.initContainerStatuses[*].restartCount''\<rparr>]"

definition podManifestConfig :: "pod \<Rightarrow> manifest_config" where
  "podManifestConfig pod = \<lparr>
     mc_ResourceIdentifier = \<lparr>ri_Group = '''', ri_Resource = ''pods'', ri_Name = p_Name pod,
       ri_Namespace = om_Namespace (p_Meta pod)\<rparr>,
     mc_FeedbackRules = [\<lparr>fr_Type = ''JSONPaths'', fr_JsonPaths = podFeedbackPaths\<rparr>],
     mc_UpdateStrategy = Some \<lparr>us_Type = ''ServerSideApply'',
       us_ServerSideApply = Some \<lparr>ssa_Force = True,
         ssa_IgnoreFields = [\<lparr>if_Condition = ''OnSpokePresent'', if_JSONPaths = [''$.metadata.labels'']\<rparr>]\<rparr>\<rparr>\<rparr>"

text \<open>
  \<open>ensurePodManifestWork\<close>. The label map is the Sidekick's own, so the extra label also shows
  up in the Sidekick in memory, unless that map was nil: the Sidekick is returned. The pod
  is returned as the function leaves it.
\<close>

definition manifestPod :: "pod \<Rightarrow> pod" where
  "manifestPod pod = pod\<lparr>p_APIVersion := ''v1'', p_Kind := ''Pod'',
     p_Meta := (p_Meta pod)\<lparr>om_GenerateName := '''', om_OwnerReferences := []\<rparr>\<rparr>"

definition ensurePodManifestWork ::
    "dparams \<Rightarrow> 'e kube \<Rightarrow> sidekick \<Rightarrow> pod \<Rightarrow> ('e, event, (sidekick \<times> pod) res) go" where
  "ensurePodManifestWork P c sk pod =
     (let namespace = gm_str (om_Annotations (p_Meta pod)) ManifestWorkClusterNameLabel in
      if namespace = '''' then ret (Inl (Err (ManifestWorkClusterNameLabel @ '' annotation is empty for pod '' @
        om_Namespace (p_Meta pod) @ ''/'' @ p_Name pod)))
      else
        (let pod1 = manifestPod pod in
         case dp_toUnstructured P pod1 of
           Inl e \<Rightarrow> ret (Inl e)
         | Inr podUnstructured \<Rightarrow>
             (let labels = gm_set ''sidekick-name'' (sk_Name sk) (om_Labels (sk_Meta sk));
                  sk1 = (case om_Labels (sk_Meta sk) of
                           None \<Rightarrow> sk
                         | Some _ \<Rightarrow> sk\<lparr>sk_Meta := (sk_Meta sk)\<lparr>om_Labels := labels\<rparr>\<rparr>);
                  spec = \<lparr>mws_Manifests = [\<lparr>mf_Raw = '''', mf_Object = Some podUnstructured\<rparr>],
                          mws_ManifestConfigs = [podManifestConfig pod1]\<rparr>;
                  mw = \<lparr>mw_Meta = zero_meta\<lparr>om_Name := p_Name pod1, om_Namespace := namespace, om_Labels := labels\<rparr>,
                        mw_Spec = spec, mw_StatusManifests = []\<rparr>
              in do {
                r \<leftarrow> CreateOrPatch mw_kind (k_mws c) mw
                       (\<lambda>m _. m\<lparr>mw_Spec := spec, mw_Meta := (mw_Meta m)\<lparr>om_Labels := labels\<rparr>\<rparr>);
                (case r of Inl e \<Rightarrow> ret (Inl e) | Inr _ \<Rightarrow> ret (Inr (sk1, pod1)))
              })))"

section \<open>The Sidekick's finalizer\<close>

definition terminateManifestWork :: "'e kube \<Rightarrow> sidekick \<Rightarrow> ('e, event, sidekick res) go" where
  "terminateManifestWork c sk = do {
     r \<leftarrow> getDistributedPodNamespace c (sk_Name sk);
     (case (case r of Inl e \<Rightarrow> if IsNotFound e then Inr '''' else Inl e | Inr ns \<Rightarrow> Inr ns) of
        Inl e \<Rightarrow> ret (Inl e)
      | Inr ns \<Rightarrow> do {
          d \<leftarrow> (if ns \<noteq> '''' then do {
                    r1 \<leftarrow> kDelete mw_kind (k_mws c) \<lparr>nn_Namespace = ns, nn_Name = sk_Name sk\<rparr>;
                    ret (case r1 of Inl e \<Rightarrow> if IsNotFound e then Inr () else Inl e | Inr u \<Rightarrow> Inr u)
                  }
                  else ret (Inr ()));
          (case d of
             Inl e \<Rightarrow> ret (Inl e)
           | Inr _ \<Rightarrow> do {
               r2 \<leftarrow> CreateOrPatch sidekick_kind (k_sidekicks c) sk
                       (\<lambda>s _. s\<lparr>sk_Meta := RemoveFinalizer (sk_Meta s) getFinalizerName\<rparr>);
               (case r2 of Inl e \<Rightarrow> ret (Inl e) | Inr (_, sk') \<Rightarrow> ret (Inr sk'))
             })
        })
   }"

definition handleDistributedSidekickFinalizer :: "'e kube \<Rightarrow> sidekick \<Rightarrow> ('e, event, sidekick res) go" where
  "handleDistributedSidekickFinalizer c sk =
     (if sk_Deleting sk \<and> HasFinalizer (sk_Meta sk) getFinalizerName then terminateManifestWork c sk
      else do {
        r \<leftarrow> CreateOrPatch sidekick_kind (k_sidekicks c) sk
               (\<lambda>s _. s\<lparr>sk_Meta := AddFinalizer (sk_Meta s) getFinalizerName\<rparr>);
        (case r of Inl e \<Rightarrow> ret (Inl e) | Inr (_, sk') \<Rightarrow> ret (Inr sk'))
      })"

section \<open>Reconciling a distributed Sidekick\<close>

text \<open>
  The gRPC server is started, and exported, by the first distributed reconciliation of the
  process; the flag is the \<open>sync.Once\<close> of the reconciler. A failed export is only logged.
\<close>

definition grpcOnceDo :: "dparams \<Rightarrow> 'e kube \<Rightarrow> bool \<Rightarrow> sidekick \<Rightarrow> ('e, event, bool) go" where
  "grpcOnceDo P c started sk =
     (if started then ret True
      else do {
        u \<leftarrow> goServe;
        r \<leftarrow> ensureServiceExport (dp_os P) c sk;
        ret True
      })"

text \<open>Finding the ManifestWork of the Sidekick: its namespace first, then a read through the cache.\<close>

definition lookupMW :: "'e kube \<Rightarrow> nsname \<Rightarrow> sidekick \<Rightarrow> ('e, event, manifest_work res) go" where
  "lookupMW c req sk = do {
     r \<leftarrow> getDistributedPodNamespace c (nn_Name req);
     (case r of
        Inl e \<Rightarrow> ret (Inl e)
      | Inr ns \<Rightarrow> kGet mw_kind (k_mws c) \<lparr>nn_Namespace = ns, nn_Name = sk_Name sk\<rparr>)
   }"

definition deleteMWAndResetStatus :: "'e kube \<Rightarrow> sidekick \<Rightarrow> manifest_work \<Rightarrow> ('e, event, reconcile_result) go" where
  "deleteMWAndResetStatus c sk mw = do {
     r \<leftarrow> deleteMW c mw;
     (case r of
        Inl e \<Rightarrow> ret (emptyResult, Some e)
      | Inr _ \<Rightarrow> do {
          r2 \<leftarrow> updateDistributedSidekickStatus c (recordStatus '''' '''' sk);
          ret (done_with (asUnit r2))
        })
   }"

definition mwNeedsRecreate ::
    "(hash_input \<Rightarrow> string) \<Rightarrow> sidekick \<Rightarrow> pod \<Rightarrow> pod \<Rightarrow> string \<Rightarrow> bool" where
  "mwNeedsRecreate h sk leader pod podPhase \<longleftrightarrow>
     GenerationHash h (sk_Meta sk) \<noteq> gm_str (om_Annotations (p_Meta pod)) keyHash \<or>
     p_Name leader \<noteq> gm_str (om_Annotations (p_Meta pod)) keyLeader \<or>
     p_NodeName leader \<noteq> p_NodeName pod \<or>
     (podPhase = PodFailed \<and> ss_RestartPolicy (sk_Spec sk) = RestartPolicyNever)"

text \<open>The ManifestWork exists: it is deleted when stale, else its phase is recorded.\<close>

definition syncMW ::
    "dparams \<Rightarrow> 'e kube \<Rightarrow> sidekick \<Rightarrow> pod \<Rightarrow> manifest_work \<Rightarrow> ('e, event, reconcile_result) go" where
  "syncMW P c sk leader mw =
     (let podPhase = extractPodStatusFromMW mw in
      case ExtractPodFromManifestWork P mw of
        Inl e \<Rightarrow> ret (emptyResult, Some e)
      | Inr pod \<Rightarrow>
          if p_NodeName pod = '''' \<or> podPhase = '''' then ret (\<lparr>Requeue = True, RequeueAfter = 0\<rparr>, None)
          else if mwNeedsRecreate (pr_hash P) sk leader pod podPhase then
            (if p_NodeName leader \<noteq> p_NodeName pod
             then (case gm_put (om_UID (mw_Meta mw)) True (st_FailureCount (sk_Status sk)) of
                     Inl panic \<Rightarrow> ret (emptyResult, Some panic)
                   | Inr m \<Rightarrow> deleteMWAndResetStatus c (sk\<lparr>sk_Status := (sk_Status sk)\<lparr>st_FailureCount := m\<rparr>\<rparr>) mw)
             else deleteMWAndResetStatus c sk mw)
          else do {
            r \<leftarrow> updateDistributedSidekickStatus c
                   (recordStatus (lds_Name (st_Leader (sk_Status sk))) (getPodPhase podPhase) sk);
            ret (done_with (asUnit r))
          })"

text \<open>
  The pod of a distributed Sidekick: the annotations are a fresh map with the Sidekick's and
  over them the leader's; there is no owner reference to the leader.
\<close>

definition newDistributedPod :: "dparams \<Rightarrow> sidekick \<Rightarrow> pod \<Rightarrow> pod res" where
  "newDistributedPod P sk leader =
     (let annotation = gm_copy (gm_copy (Some []) (om_Annotations (sk_Meta sk))) (om_Annotations (p_Meta leader));
          pod = \<lparr>p_APIVersion = '''', p_Kind = '''',
                 p_Meta = zero_meta\<lparr>om_Name := sk_Name sk, om_Namespace := sk_Namespace sk,
                   om_Annotations := gm_set keyLeader (p_Name leader)
                     (gm_set keyHash (GenerationHash (pr_hash P) (sk_Meta sk)) annotation),
                   om_Labels := om_Labels (sk_Meta sk),
                   om_OwnerReferences := [NewControllerRef (sk_Meta sk) SchemeGroupVersion ''Sidekick'']\<rparr>,
                 p_Spec = sidekickPodSpec (pr_merge P) sk leader,
                 p_Status = zero_pod_status\<rparr>
      in case mapR (convMainContainer leader) (ss_Containers (sk_Spec sk)) of
           Inl e \<Rightarrow> Inl e
         | Inr cs \<Rightarrow>
             (case mapR (convContainer leader) (ss_InitContainers (sk_Spec sk)) of
                Inl e \<Rightarrow> Inl e
              | Inr ics \<Rightarrow> Inr (pod\<lparr>p_Spec := (p_Spec pod)\<lparr>ps_Containers := cs, ps_InitContainers := ics\<rparr>\<rparr>)))"

definition createMW :: "dparams \<Rightarrow> 'e kube \<Rightarrow> sidekick \<Rightarrow> pod \<Rightarrow> ('e, event, reconcile_result) go" where
  "createMW P c sk leader = do {
     r \<leftarrow> ensureGRPCKeys c sk;
     (case r of
        Inl e \<Rightarrow> ret (emptyResult, Some e)
      | Inr (signingKey, snapshotKey) \<Rightarrow>
          (case wireArchiver (dp_os P) signingKey snapshotKey sk of
             Inl e \<Rightarrow> ret (emptyResult, Some e)
           | Inr sk1 \<Rightarrow>
               (case newDistributedPod P sk1 leader of
                  Inl e \<Rightarrow> ret (emptyResult, Some e)
                | Inr pod \<Rightarrow> do {
                    r2 \<leftarrow> ensurePodManifestWork P c sk1 pod;
                    (case r2 of
                       Inl e \<Rightarrow> ret (emptyResult, Some e)
                     | Inr (sk2, pod1) \<Rightarrow> do {
                         r3 \<leftarrow> updateDistributedSidekickStatus c (recordStatus (p_Name leader) (p_Phase pod1) sk2);
                         ret (done_with (asUnit r3))
                       })
                  })))
   }"

definition ensureMW ::
    "dparams \<Rightarrow> 'e kube \<Rightarrow> nsname \<Rightarrow> sidekick \<Rightarrow> pod \<Rightarrow> ('e, event, reconcile_result) go" where
  "ensureMW P c req sk leader = do {
     e2 \<leftarrow> lookupMW c req sk;
     (case e2 of
        Inl e \<Rightarrow> if \<not> IsNotFound e then ret (emptyResult, IgnoreNotFound e) else createMW P c sk leader
      | Inr mw \<Rightarrow> syncMW P c sk leader mw)
   }"

definition followDistributedLeader ::
    "dparams \<Rightarrow> 'e kube \<Rightarrow> nsname \<Rightarrow> sidekick \<Rightarrow> ('e, event, reconcile_result) go" where
  "followDistributedLeader P c req sk = do {
     lr \<leftarrow> getDistributedLeader P c sk;
     (case lr of
        Inl e \<Rightarrow>
          if IsNotFound e then do {
            r \<leftarrow> lookupMW c req sk;
            (case r of
               Inr mw \<Rightarrow> deleteMWAndResetStatus c sk mw
             | Inl _ \<Rightarrow> ret (\<lparr>Requeue = True, RequeueAfter = 10\<rparr>, IgnoreNotFound e))
          }
          else ret (emptyResult, IgnoreNotFound e)
      | Inr leader \<Rightarrow>
          if p_Name leader \<noteq> lds_Name (st_Leader (sk_Status sk)) then do {
            r \<leftarrow> lookupMW c req sk;
            (case r of
               Inr mw \<Rightarrow> deleteMWAndResetStatus c sk mw
             | Inl _ \<Rightarrow> ensureMW P c req sk leader)
          }
          else ensureMW P c req sk leader)
   }"

text \<open>The result comes with the state of the \<open>sync.Once\<close> after the call.\<close>

definition ReconcileDistributedSidekick ::
    "dparams \<Rightarrow> 'e kube \<Rightarrow> bool \<Rightarrow> nsname \<Rightarrow> ('e, event, reconcile_result \<times> bool) go" where
  "ReconcileDistributedSidekick P c started req = do {
     r \<leftarrow> kGet sidekick_kind (k_sidekicks c) req;
     (case r of
        Inl e \<Rightarrow> ret ((emptyResult, IgnoreNotFound e), started)
      | Inr sk \<Rightarrow> do {
          once \<leftarrow> grpcOnceDo P c started sk;
          r1 \<leftarrow> handleDistributedSidekickFinalizer c sk;
          (case r1 of
             Inl e \<Rightarrow> ret ((emptyResult, Some e), once)
           | Inr sk1 \<Rightarrow> do {
               r2 \<leftarrow> updateDistributedSidekickPhase c req sk1;
               (case r2 of
                  Inl e \<Rightarrow> ret ((emptyResult, Some e), once)
                | Inr (dropKey, sk2) \<Rightarrow>
                    if dropKey then ret ((emptyResult, None), once)
                    else do { res \<leftarrow> followDistributedLeader P c req sk2; ret (res, once) })
             })
        })
   }"

section \<open>The phase follows the common rule\<close>

definition mwSucceeded :: "manifest_work option \<Rightarrow> bool" where
  "mwSucceeded m = (case m of None \<Rightarrow> False
     | Some mw \<Rightarrow> list_ex (list_ex (\<lambda>v. fb_Name v = ''PodPhase'' \<and> fv_String (fb_Value v) = Some ''Succeeded''))
         (mw_StatusManifests mw))"

interpretation mw_phase: phase_rule getDistributedSidekickPhase isDistributedSidekickPodRunning mwSucceeded
proof
  fix sk x
  show "fst (getDistributedSidekickPhase sk x) =
      phase_spec (ss_RestartPolicy (sk_Spec sk) = RestartPolicyAlways)
        (st_Phase (sk_Status sk) = SidekickPhaseSucceeded) (mwSucceeded x) (overBackoffLimit sk)
        (isDistributedSidekickPodRunning x)"
    by (cases x) (simp_all add: getDistributedSidekickPhase_def phase_spec_def mwSucceeded_def
        overBackoffLimit_alt split_beta)
  show "snd (getDistributedSidekickPhase sk x) = sk \<or> snd (getDistributedSidekickPhase sk x) = defaultBackoffLimit sk"
    by (simp add: getDistributedSidekickPhase_def split_beta)
qed

lemma updateDistributedSidekickStatus_eq: "updateDistributedSidekickStatus = updateSidekickStatus"
  by (intro ext) (simp add: updateDistributedSidekickStatus_def updateSidekickStatus_def)


section \<open>Restart counts\<close>

lemma fold_sum32: "fold (\<lambda>count acc. acc + count) ns (a :: int32) = a + sum_list ns"
  by (induction ns arbitrary: a) (simp_all add: algebra_simps)

text \<open>
  The restart counters of the feedback, a JSON list of 32-bit integers, are added
  up with 32-bit wrap-around; as long as the exact sum fits, the result is exact.
\<close>

theorem extractRestartCount_sum:
  assumes "\<forall>i \<in> set ns. - (2 ^ 31) \<le> i \<and> i < 2 ^ 31"
  shows "extractRestartCountFromJSONRaw (encodeInts ns) = word_of_int (sum_list ns) \<and>
    (- (2 ^ 31) \<le> sum_list ns \<and> sum_list ns < 2 ^ 31 \<longrightarrow>
      sint (extractRestartCountFromJSONRaw (encodeInts ns)) = sum_list ns)"
proof -
  have "sum_list (map word_of_int ns) = (word_of_int (sum_list ns) :: int32)"
    by (induction ns) simp_all
  then have "extractRestartCountFromJSONRaw (encodeInts ns) = word_of_int (sum_list ns)"
    by (simp add: extractRestartCountFromJSONRaw_def unmarshalInt32s_encodeInts [OF assms] fold_sum32)
  then show ?thesis by (simp add: sint_word_of_int32)
qed

theorem extractRestartCount_sum_witness: "extractRestartCountFromJSONRaw ''[2,0,15]'' = 17"
proof -
  have "encodeInts [2, 0, 15] = ''[2,0,15]''"
    by (simp add: encodeInts_def showInt_def showNat.simps digitChar_def char_of_def bit_0)
  then show ?thesis using extractRestartCount_sum [of "[2, 0, 15]"] by simp
qed

section \<open>Namespaces and errors\<close>

lemma emits_searchNamespace [emits_rules]:
  assumes "\<And>k b. p (EvOCMGet k b)"
  shows "emits p (searchNamespace c name nf nss)"
proof (induction nss arbitrary: nf)
  case Nil
  then show ?case by (simp add: emits_return)
next
  case (Cons ns nss)
  then show ?case by (simp, intro emits_rules assms) simp_all
qed

lemma emits_getDistributedPodNamespace [emits_rules]:
  assumes "\<And>k b. p (EvOCMGet k b)" "\<And>b. p (EvListNamespaces b)"
  shows "emits p (getDistributedPodNamespace c name)"
  unfolding getDistributedPodNamespace_def by (intro emits_rules) (simp_all add: assms)

lemma searchNamespace_found:
  assumes "run_state (searchNamespace c name nf nss) w = (r, w')"
  shows "\<exists>es. w_trace w' = w_trace w @ es \<and> ((\<exists>k. EvOCMGet k True \<in> set es) \<longrightarrow> (\<exists>ns. r = Inr ns))"
  using assms
proof (induction nss arbitrary: nf w)
  case Nil
  then show ?case by auto
next
  case (Cons ns nss)
  let ?get = "k_ocmGet c ns name (w_env w)"
  let ?w1 = "w\<lparr>w_env := snd ?get, w_trace := w_trace w @ [EvOCMGet \<lparr>nn_Namespace = ns, nn_Name = name\<rparr> (ok (fst ?get))]\<rparr>"
  show ?case
  proof (cases "fst ?get")
    case (Inr mw)
    with Cons.prems show ?thesis by (auto simp: ocmGet_def run_api_call)
  next
    case (Inl e)
    show ?thesis
    proof (cases "e = NotFound")
      case True
      with Cons.prems Inl have "run_state (searchNamespace c name (Some e) nss) ?w1 = (r, w')"
        by (simp add: ocmGet_def run_api_call)
      from Cons.IH [OF this] Inl show ?thesis by auto
    next
      case False
      with Cons.prems Inl show ?thesis by (auto simp: ocmGet_def run_api_call)
    qed
  qed
qed

text \<open>
  When one of the reads of \<open>getDistributedPodNamespace\<close> finds the ManifestWork, a
  NotFound of an earlier namespace does not leak out: the result is a namespace, not an
  error.
\<close>

theorem getDistributedPodNamespace_no_leak:
  assumes "run_state (getDistributedPodNamespace c name) w = (r, w')"
    and "w_trace w' = w_trace w @ es" and "EvOCMGet k True \<in> set es"
  shows "\<exists>ns. r = Inr ns"
proof -
  let ?l = "k_listNamespaces c (w_env w)"
  let ?w1 = "w\<lparr>w_env := snd ?l, w_trace := w_trace w @ [EvListNamespaces (ok (fst ?l))]\<rparr>"
  show ?thesis
  proof (cases "fst ?l")
    case (Inl e)
    with assms show ?thesis by (auto simp: getDistributedPodNamespace_def listNamespaces_def run_api_call)
  next
    case (Inr nss)
    with assms(1) have run: "run_state (searchNamespace c name None nss) ?w1 = (r, w')"
      by (simp add: getDistributedPodNamespace_def listNamespaces_def run_api_call)
    from searchNamespace_found [OF run] assms(2,3) Inr show ?thesis by auto
  qed
qed

text \<open>
  \<open>getDistributedSidekickCurrentLeader\<close> loses errors: when the read in the first
  namespace fails with anything but NotFound, it returns neither a ManifestWork nor an
  error.
\<close>

theorem current_leader_error_lost:
  assumes "k_listNamespaces c (w_env w) = (Inr (ns # nss), e1)"
    and "k_ocmGet c ns (sk_Name sk) e1 = (Inl err, e2)" and "err \<noteq> NotFound"
  shows "fst (run_state (getDistributedSidekickCurrentLeader c sk) w) = (None, None)"
  using assms by (simp add: getDistributedSidekickCurrentLeader_def listNamespaces_def ocmGet_def run_api_call)

definition sample_mw :: "string \<Rightarrow> string \<Rightarrow> manifest_work" where
  "sample_mw ns name = \<lparr>mw_Meta = zero_meta\<lparr>om_Name := name, om_Namespace := ns, om_UID := ''uid-mw''\<rparr>,
     mw_Spec = \<lparr>mws_Manifests = [\<lparr>mf_Raw = ''raw'', mf_Object = None\<rparr>], mws_ManifestConfigs = []\<rparr>,
     mw_StatusManifests = [[\<lparr>fb_Name = ''PodPhase'', fb_Value = \<lparr>fv_Type = ''String'', fv_Integer = None,
       fv_String = Some ''Running'', fv_Boolean = None, fv_JsonRaw = None\<rparr>\<rparr>]]\<rparr>"

definition sample_spokes :: cluster where
  "sample_spokes = empty_cluster\<lparr>cl_namespaces := [''spoke1'', ''spoke2''], cl_mws := [sample_mw ''spoke2'' ''sk'']\<rparr>"

theorem getDistributedPodNamespace_no_leak_witness:
  "\<exists>w' ns. run_state (getDistributedPodNamespace mem_kube ''sk'') (mem_world sample_spokes) = (Inr ns, w') \<and>
     EvOCMGet \<lparr>nn_Namespace = ''spoke2'', nn_Name = ''sk''\<rparr> True \<in> set (w_trace w')"
proof -
  let ?run = "run_state (getDistributedPodNamespace mem_kube ''sk'') (mem_world sample_spokes)"
  obtain r w' where run: "?run = (r, w')" by (cases ?run)
  then have tr: "w_trace w' = [EvListNamespaces True, EvOCMGet \<lparr>nn_Namespace = ''spoke1'', nn_Name = ''sk''\<rparr> False,
      EvOCMGet \<lparr>nn_Namespace = ''spoke2'', nn_Name = ''sk''\<rparr> True]"
    by (auto simp: getDistributedPodNamespace_def listNamespaces_def ocmGet_def run_api_call mem_defs mem_op_defs
        sample_spokes_def sample_mw_def zero_meta_def)
  have "\<exists>ns. r = Inr ns"
    by (rule getDistributedPodNamespace_no_leak [OF run, of "w_trace w'" "\<lparr>nn_Namespace = ''spoke2'', nn_Name = ''sk''\<rparr>"])
      (simp_all add: tr mem_world_def)
  with run tr show ?thesis by auto
qed

definition flaky_kube :: "cluster kube" where
  "flaky_kube = mem_kube\<lparr>k_ocmGet := (\<lambda>_ _ cl. (Inl (ApiError ''timeout''), cl))\<rparr>"

theorem current_leader_error_lost_witness:
  "fst (run_state (getDistributedSidekickCurrentLeader flaky_kube (sample_sidekick RestartPolicyNever))
     (mem_world sample_spokes)) = (None, None)"
  by (rule current_leader_error_lost [where err = "ApiError ''timeout''" and ns = "''spoke1''"])
    (simp_all add: flaky_kube_def mem_defs sample_spokes_def)

section \<open>Where the ManifestWork goes\<close>

lemma candidateFromMW_annotation:
  "candidateFromMW P rr mw = Some leader \<Longrightarrow>
   gm_str (om_Annotations (p_Meta leader)) ManifestWorkClusterNameLabel = om_Namespace (mw_Meta mw)"
  by (auto simp: candidateFromMW_def Let_def gm_str_def split: list.splits sum.splits if_splits)

lemma gm_set_str: "gm_str (gm_set k v m) k' = (if k' = k then v else gm_str m k')"
  by (simp add: gm_str_def)

lemma newDistributedPod_InrD:
  assumes "newDistributedPod P sk leader = Inr pod"
  shows "p_Name pod = sk_Name sk" "om_Namespace (p_Meta pod) = sk_Namespace sk"
    and "p_NodeName pod = p_NodeName leader" "p_Phase pod = ''''"
    and "om_Annotations (p_Meta pod) = gm_set keyLeader (p_Name leader)
           (gm_set keyHash (GenerationHash (pr_hash P) (sk_Meta sk))
             (gm_copy (gm_copy (Some []) (om_Annotations (sk_Meta sk))) (om_Annotations (p_Meta leader))))"
    and "mapR (convMainContainer leader) (ss_Containers (sk_Spec sk)) = Inr (ps_Containers (p_Spec pod))"
  using assms
  by (auto simp: newDistributedPod_def Let_def sidekickPodSpec_def zero_pod_status_def split: sum.splits)

lemma newDistributedPod_annotation:
  assumes "newDistributedPod P sk leader = Inr pod" "gm_wf (om_Annotations (p_Meta leader))"
    and "gm_get (om_Annotations (p_Meta leader)) k = Some v" "k \<noteq> keyHash" "k \<noteq> keyLeader"
  shows "gm_str (om_Annotations (p_Meta pod)) k = v"
  using assms(2-) by (simp add: newDistributedPod_InrD(5) [OF assms(1)] gm_set_str)
    (simp add: gm_str_def gm_copy_get map_add_def)

text \<open>Requests that create or change a ManifestWork in the namespace \<open>ns\<close>, under the name \<open>n\<close>.\<close>

fun writesMW :: "string \<Rightarrow> string \<Rightarrow> event \<Rightarrow> bool" where
  "writesMW ns n (EvMW (RCreate m) _) = (om_Namespace (mw_Meta m) = ns \<and> om_Name (mw_Meta m) = n)"
| "writesMW ns n (EvMW (RGet k) _) = (k = \<lparr>nn_Namespace = ns, nn_Name = n\<rparr>)"
| "writesMW ns n (EvMW (RPatch _ _) _) = True"
| "writesMW ns n (EvMW _ _) = False"
| "writesMW ns n _ = True"

lemma ensurePodManifestWork_target:
  assumes "gm_str (om_Annotations (p_Meta pod)) ManifestWorkClusterNameLabel = ns" "p_Name pod = n"
  shows "emits (writesMW ns n) (ensurePodManifestWork P c sk pod)"
  unfolding ensurePodManifestWork_def Let_def assms(1)
  by (intro emits_rules) (simp_all add: manifestPod_def assms(2) ObjectKeyFromMeta_def)

lemma mapFirst_frame: "(\<And>x. g (f x) = g x) \<Longrightarrow> map g (mapFirst P f xs) = map g xs"
  by (induction xs) auto

lemma updateSidekickContainer_frame:
  "map sc_VolumeMounts (ss_Containers (sk_Spec (updateSidekickContainer (setEnv n v) sk))) =
     map sc_VolumeMounts (ss_Containers (sk_Spec sk))"
  "ss_InitContainers (sk_Spec (updateSidekickContainer f sk)) = ss_InitContainers (sk_Spec sk)"
  "ss_RestartPolicy (sk_Spec (updateSidekickContainer f sk)) = ss_RestartPolicy (sk_Spec sk)"
  by (simp_all add: updateSidekickContainer_def mapFirst_frame setEnv_def)

lemma wireArchiver_frame:
  assumes "wireArchiver E a b sk = Inr sk'"
  shows "sk_Meta sk' = sk_Meta sk"
    and "map sc_VolumeMounts (ss_Containers (sk_Spec sk')) = map sc_VolumeMounts (ss_Containers (sk_Spec sk))"
    and "ss_InitContainers (sk_Spec sk') = ss_InitContainers (sk_Spec sk)"
    and "ss_RestartPolicy (sk_Spec sk') = ss_RestartPolicy (sk_Spec sk)"
  using assms
  by (auto simp: wireArchiver_def setSigningKey_def setSnapshotGrant_def setGRPCAddress_def Let_def
      updateSidekickContainer_frame split: sum.splits option.splits if_splits)

lemma emits_ensureGRPCKeys_MW: "emits (writesMW ns n) (ensureGRPCKeys c sk)"
  by (intro emits_rules) simp_all

lemma emits_status_MW: "emits (writesMW ns n) (updateDistributedSidekickStatus c sk)"
  unfolding updateDistributedSidekickStatus_eq by (intro emits_rules) simp_all

text \<open>
  Property C16. The ManifestWork made for a distributed Sidekick goes, under the Sidekick's name,
  into the namespace of the cluster its leader runs in; no other ManifestWork is created or
  deleted on the way.
\<close>

theorem createMW_target:
  assumes "gm_wf (om_Annotations (p_Meta leader))"
    and "gm_get (om_Annotations (p_Meta leader)) ManifestWorkClusterNameLabel = Some cluster"
  shows "emits (writesMW cluster (sk_Name sk)) (createMW P c sk leader)"
proof -
  have keys: "ManifestWorkClusterNameLabel \<noteq> keyHash" "ManifestWorkClusterNameLabel \<noteq> keyLeader"
    by (simp_all add: ManifestWorkClusterNameLabel_def keyHash_def keyLeader_def)
  have step: "emits (writesMW cluster (sk_Name sk)) (ensurePodManifestWork P c sk1 pod)"
    if "wireArchiver E a b sk = Inr sk1" "newDistributedPod P sk1 leader = Inr pod" for E a b sk1 pod
    using newDistributedPod_annotation [OF that(2) assms keys] newDistributedPod_InrD(1) [OF that(2)]
      wireArchiver_frame(1) [OF that(1)]
    by (intro ensurePodManifestWork_target) simp_all
  have rest: "emits (writesMW cluster (sk_Name sk))
     (case wireArchiver (dp_os P) a b sk of
        Inl e \<Rightarrow> ret (emptyResult, Some e)
      | Inr sk1 \<Rightarrow>
         (case newDistributedPod P sk1 leader of
            Inl e \<Rightarrow> ret (emptyResult, Some e)
          | Inr pod \<Rightarrow> do {
              r2 \<leftarrow> ensurePodManifestWork P c sk1 pod;
              (case r2 of
                 Inl e \<Rightarrow> ret (emptyResult, Some e)
               | Inr (sk2, pod1) \<Rightarrow> do {
                   r3 \<leftarrow> updateDistributedSidekickStatus c (recordStatus (p_Name leader) (p_Phase pod1) sk2);
                   ret (done_with (asUnit r3))
                 })
            }))" for a b
    by (auto split: sum.split intro!: emits_rules emits_status_MW step)
  show ?thesis
    unfolding createMW_def by (intro emits_rules emits_ensureGRPCKeys_MW rest)
qed

section \<open>A fresh ManifestWork is not stale\<close>

lemma newDistributedPod_fresh:
  assumes "newDistributedPod P sk leader = Inr pod"
  shows "mwNeedsRecreate (pr_hash P) sk leader pod podPhase \<longleftrightarrow>
    podPhase = PodFailed \<and> ss_RestartPolicy (sk_Spec sk) = RestartPolicyNever"
  using newDistributedPod_InrD(3,5) [OF assms] by (simp add: mwNeedsRecreate_def gm_set_str)

text \<open>
  Property C17. The pod inside a ManifestWork made for a Sidekick is not stale for that Sidekick
  and its leader, as long as neither has changed: the next reconciliation recreates it only
  if the pod has failed and must not be restarted. The keys and addresses wired into the
  container do not matter.
\<close>

theorem distributed_pod_no_churn:
  assumes "wireArchiver (dp_os P) a b sk = Inr sk1" and "newDistributedPod P sk1 leader = Inr pod"
  shows "mwNeedsRecreate (pr_hash P) sk leader pod podPhase \<longleftrightarrow>
    podPhase = PodFailed \<and> ss_RestartPolicy (sk_Spec sk) = RestartPolicyNever"
  using newDistributedPod_fresh [OF assms(2), of podPhase] wireArchiver_frame(1,4) [OF assms(1)]
  by (simp add: mwNeedsRecreate_def)

section \<open>Deletions of ManifestWorks are announced\<close>

fun deletesMW :: "event \<Rightarrow> bool" where
  "deletesMW (EvMW (RDelete _) _) = True"
| "deletesMW _ = False"

fun marksMW :: "event \<Rightarrow> bool" where
  "marksMW (EvMW (RPatch _ m) True) =
     (gm_get (om_Annotations (mw_Meta m)) deletionInitiatorKey = Some deletionInitiatesBySidekickOperator)"
| "marksMW (EvMW (RCreate m) True) =
     (gm_get (om_Annotations (mw_Meta m)) deletionInitiatorKey = Some deletionInitiatesBySidekickOperator)"
| "marksMW _ = False"

abbreviation announcedMW :: "event list \<Rightarrow> bool" where
  "announcedMW \<equiv> preceded marksMW deletesMW"

lemmas keeps_announcedMW = keeps_preceded [where del = deletesMW and mark = marksMW]

lemma markMW_get:
  "gm_get (om_Annotations (mw_Meta (markMW m))) deletionInitiatorKey = Some deletionInitiatesBySidekickOperator"
  by (simp add: markMW_def)

lemma keeps_deleteMW [keeps_rules]: "keeps announcedMW (deleteMW c mw)"
  unfolding keeps_def
proof (intro allI impI)
  fix w :: "('a, event) world" assume "announcedMW (w_trace w)"
  then show "announcedMW (w_trace (snd (run_state (deleteMW c mw) w)))"
    by (auto simp: deleteMW_def setMWDeletionInitiatorAnnotation_def CreateOrPatch_def call_defs
        run_api_call preceded_snoc preceded_snocs markMW_get Let_def split: sum.splits prod.splits)
qed

lemma emits_listAllMW [emits_rules]:
  assumes "\<And>ns o1 b. p (EvOCMList ns o1 b)"
  shows "emits p (listAllMW c opts nss)"
proof (induction nss)
  case Nil
  then show ?case by (simp add: emits_return)
next
  case (Cons ns nss)
  then show ?case by (simp, intro emits_rules assms) simp_all
qed

lemma emits_getDistributedLeader [emits_rules]:
  assumes "\<And>k b. p (EvOCMGet k b)" "\<And>b. p (EvListNamespaces b)" "\<And>ns o1 b. p (EvOCMList ns o1 b)"
  shows "emits p (getDistributedLeader P c sk)"
  unfolding getDistributedLeader_def findDistributedLeader_def
  by (intro emits_rules) (simp_all add: assms)

lemma emits_searchCurrentLeader [emits_rules]:
  assumes "\<And>k b. p (EvOCMGet k b)"
  shows "emits p (searchCurrentLeader c name err nss)"
proof (induction nss arbitrary: err)
  case Nil
  then show ?case by (simp add: emits_return)
next
  case (Cons ns nss)
  then show ?case by (simp, intro emits_rules assms) simp_all
qed

lemma emits_updateDistributedSidekickPhase [emits_rules]:
  assumes "\<And>k b. p (EvOCMGet k b)" "\<And>b. p (EvListNamespaces b)"
    and "\<And>k b. p (EvSidekick (RGet k) b)" "\<And>x y b. p (EvSidekick (RStatusPatch x y) b)"
    and "\<And>k b. p (EvPod (RGet k) b)" "\<And>x b. p (EvPod (RStatusUpdate x) b)"
  shows "emits p (updateDistributedSidekickPhase c req sk)"
  unfolding updateDistributedSidekickPhase_def calculateDistributedSidekickPhase_def
    getDistributedSidekickCurrentLeader_def updateDistributedSidekickStatus_eq
  by (intro emits_rules) (simp_all add: assms)

lemma emits_lookupMW [emits_rules]:
  assumes "\<And>k b. p (EvOCMGet k b)" "\<And>b. p (EvListNamespaces b)" "\<And>k b. p (EvMW (RGet k) b)"
  shows "emits p (lookupMW c req sk)"
  unfolding lookupMW_def by (intro emits_rules) (simp_all add: assms)

lemma emits_createMW [emits_rules]:
  assumes "\<And>k b. p (EvSecret (RGet k) b)" "\<And>x b. p (EvSecret (RCreate x) b)" "\<And>n b. p (EvRandom n b)"
    and "\<And>x s f1 f2 b. p (EvSecret (RPatch x (fillKeys s f1 f2 x)) b)"
    and "\<And>k b. p (EvMW (RGet k) b)" "\<And>x b. p (EvMW (RCreate x) b)" "\<And>x y b. p (EvMW (RPatch x y) b)"
    and "\<And>k b. p (EvSidekick (RGet k) b)" "\<And>x y b. p (EvSidekick (RStatusPatch x y) b)"
  shows "emits p (createMW P c sk leader)"
  unfolding createMW_def ensurePodManifestWork_def updateDistributedSidekickStatus_eq
  by (intro emits_rules) (simp_all add: assms)

lemma emits_grpcOnceDo [emits_rules]:
  assumes "p EvServe" "\<And>k b. p (EvPod (RGet k) b)" "\<And>k b. p (EvExport (RGet k) b)"
    and "\<And>x b. p (EvExport (RCreate x) b)" "\<And>x y b. p (EvExport (RPatch x y) b)"
  shows "emits p (grpcOnceDo P c started sk)"
  unfolding grpcOnceDo_def ensureServiceExport_def by (intro emits_rules) (simp_all add: assms)

lemma emits_handleDistributedSidekickFinalizer:
  assumes "\<not> (sk_Deleting sk \<and> HasFinalizer (sk_Meta sk) getFinalizerName)"
    and "\<And>k b. p (EvSidekick (RGet k) b)" "\<And>x y b. p (EvSidekick (RPatch x y) b)"
    and "\<And>x b. p (EvSidekick (RCreate x) b)"
  shows "emits p (handleDistributedSidekickFinalizer c sk)"
  unfolding handleDistributedSidekickFinalizer_def if_not_P [OF assms(1)]
  by (intro emits_rules) (simp_all add: assms(2-4))

lemma keeps_announcedMW_calls [keeps_rules]:
  "keeps announcedMW (updateDistributedSidekickStatus c sk)"
  "keeps announcedMW (createMW P c sk leader)"
  "keeps announcedMW (lookupMW c req sk)"
  "keeps announcedMW (getDistributedLeader P c sk)"
  unfolding updateDistributedSidekickStatus_eq by (rule keeps_announcedMW, intro emits_rules, simp_all)+

lemma keeps_deleteMWAndResetStatus [keeps_rules]: "keeps announcedMW (deleteMWAndResetStatus c sk mw)"
  unfolding deleteMWAndResetStatus_def by (intro keeps_rules)

lemma keeps_syncMW [keeps_rules]: "keeps announcedMW (syncMW P c sk leader mw)"
  unfolding syncMW_def by (intro keeps_rules)

lemma keeps_ensureMW [keeps_rules]: "keeps announcedMW (ensureMW P c req sk leader)"
  unfolding ensureMW_def by (intro keeps_rules)


section \<open>Leaders given by name\<close>

text \<open>
  When the leader of a distributed Sidekick is given by name, its namespace is
  looked up under the name of the Sidekick's own ManifestWork. So for a Sidekick without a
  ManifestWork the leader is reported missing, and the reconciliation ends in a requeue
  after 10 seconds without creating anything, whether or not the named leader exists.
\<close>

theorem named_leader_needs_own_manifestwork:
  assumes "ld_Name (ss_Leader (sk_Spec sk)) \<noteq> ''''" and "nn_Name req = sk_Name sk"
    and "run_state (getDistributedPodNamespace c (sk_Name sk)) w = (Inl NotFound, w1)"
    and "run_state (getDistributedPodNamespace c (sk_Name sk)) w1 = (Inl NotFound, w2)"
  shows "run_state (followDistributedLeader P c req sk) w = ((\<lparr>Requeue = True, RequeueAfter = 10\<rparr>, None), w2)"
  using assms
  by (simp add: followDistributedLeader_def getDistributedLeader_def findDistributedLeader_def lookupMW_def)

section \<open>Samples\<close>

definition sample_dparams :: dparams where
  "sample_dparams = \<lparr>pr_hash = (\<lambda>_. ''hash''), pr_merge = (\<lambda>a b. b), pr_sort = insertionSort,
     pr_selCheck = (\<lambda>_. Inr ()), dp_os = sample_osenv,
     dp_toUnstructured = (\<lambda>_. Inl (Err ''no converter'')), dp_fromRaw = (\<lambda>_. Inr (sample_pod ''db-0'' ''u'' ''n1'' PodRunning)),
     dp_jsonPod = (\<lambda>_. Inr (sample_pod ''db-0'' ''u'' ''n1'' PodRunning)), dp_jsonCondition = (\<lambda>_. Inl (Err ''json'')),
     dp_formatSelector = (\<lambda>_. '''')\<rparr>"

definition sample_spoke_leader :: pod where
  "sample_spoke_leader = (sample_pod ''db-0'' ''u'' ''n1'' PodRunning)\<lparr>p_Meta :=
     (sample_meta ''db-0'' ''u'')\<lparr>om_Annotations := Some [(ManifestWorkClusterNameLabel, ''spoke1'')]\<rparr>\<rparr>"

theorem createMW_target_witness:
  "emits (writesMW ''spoke1'' ''sk'') (createMW sample_dparams mem_kube sample_archiver sample_spoke_leader)"
proof -
  have "sk_Name sample_archiver = ''sk''"
    by (simp add: sample_archiver_def sample_defs)
  with createMW_target [of sample_spoke_leader "''spoke1''" sample_archiver sample_dparams mem_kube] show ?thesis
    by (simp add: sample_spoke_leader_def gm_wf_def)
qed

lemma sample_archiver_wired:
  "\<exists>sk1 pod. wireArchiver sample_osenv ''k1'' ''k2'' sample_archiver = Inr sk1 \<and>
     newDistributedPod sample_dparams sk1 sample_spoke_leader = Inr pod"
proof -
  obtain sk1 where sk1: "wireArchiver sample_osenv ''k1'' ''k2'' sample_archiver = Inr sk1"
    using sample_wires by blast
  have "map sc_VolumeMounts (ss_Containers (sk_Spec sample_archiver)) = [[]]"
    "ss_InitContainers (sk_Spec sample_archiver) = []"
    by (simp_all add: sample_archiver_def updateSidekickContainer_def isWalg_def setEnv_def sample_defs)
  with wireArchiver_frame(2,3) [OF sk1]
  have "map sc_VolumeMounts (ss_Containers (sk_Spec sk1)) = [[]]" and init: "ss_InitContainers (sk_Spec sk1) = []"
    by simp_all
  then have "\<forall>c \<in> set (ss_Containers (sk_Spec sk1)). sc_VolumeMounts c = []"
    by (metis imageI list.set(1) list.set(2) list.set_map empty_iff insertE)
  with init have "ok (mapR (convMainContainer sample_spoke_leader) (ss_Containers (sk_Spec sk1)))"
    "ok (mapR (convContainer sample_spoke_leader) (ss_InitContainers (sk_Spec sk1)))"
    by (auto simp: mapR_ok_iff convMainContainer_ok_iff convContainer_ok_iff)
  then have "ok (newDistributedPod sample_dparams sk1 sample_spoke_leader)"
    by (auto simp: newDistributedPod_def Let_def split: sum.split)
  then obtain pod where "newDistributedPod sample_dparams sk1 sample_spoke_leader = Inr pod"
    by (cases "newDistributedPod sample_dparams sk1 sample_spoke_leader") auto
  with sk1 show ?thesis by blast
qed

theorem distributed_pod_no_churn_witness:
  "\<exists>sk1 pod. wireArchiver sample_osenv ''k1'' ''k2'' sample_archiver = Inr sk1 \<and>
     newDistributedPod sample_dparams sk1 sample_spoke_leader = Inr pod \<and>
     \<not> mwNeedsRecreate (pr_hash sample_dparams) sample_archiver sample_spoke_leader pod PodRunning"
proof -
  obtain sk1 pod where *: "wireArchiver sample_osenv ''k1'' ''k2'' sample_archiver = Inr sk1"
    "newDistributedPod sample_dparams sk1 sample_spoke_leader = Inr pod"
    using sample_archiver_wired by blast
  have "dp_os sample_dparams = sample_osenv" by (simp add: sample_dparams_def)
  with distributed_pod_no_churn [of sample_dparams "''k1''" "''k2''" sample_archiver sk1 sample_spoke_leader pod PodRunning] *
  show ?thesis by auto
qed

theorem named_leader_needs_own_manifestwork_witness:
  "\<exists>w'. run_state (followDistributedLeader sample_dparams mem_kube \<lparr>nn_Namespace = ''demo'', nn_Name = ''sk''\<rparr>
       ((sample_sidekick RestartPolicyAlways)\<lparr>sk_Spec := zero_sidekick_spec\<lparr>ss_Leader :=
          \<lparr>ld_Name = ''db-0'', ld_Selector = None, ld_SelectionPolicy = ''''\<rparr>\<rparr>\<rparr>))
     (mem_world (empty_cluster\<lparr>cl_namespaces := [''spoke1''], cl_mws := [sample_mw ''spoke1'' ''db-0'']\<rparr>))
   = ((\<lparr>Requeue = True, RequeueAfter = 10\<rparr>, None), w')"
proof -
  let ?sk = "(sample_sidekick RestartPolicyAlways)\<lparr>sk_Spec := zero_sidekick_spec\<lparr>ss_Leader :=
    \<lparr>ld_Name = ''db-0'', ld_Selector = None, ld_SelectionPolicy = ''''\<rparr>\<rparr>\<rparr>"
  let ?cl = "empty_cluster\<lparr>cl_namespaces := [''spoke1''], cl_mws := [sample_mw ''spoke1'' ''db-0'']\<rparr>"
  have miss: "\<exists>w'. run_state (getDistributedPodNamespace mem_kube (sk_Name ?sk)) w = (Inl NotFound, w') \<and> w_env w' = ?cl"
    if "w_env w = ?cl" for w
    using that by (simp add: getDistributedPodNamespace_def listNamespaces_def ocmGet_def run_api_call mem_defs
        mem_op_defs sample_mw_def sample_defs)
  obtain w1 where w1: "run_state (getDistributedPodNamespace mem_kube (sk_Name ?sk)) (mem_world ?cl) = (Inl NotFound, w1)"
    "w_env w1 = ?cl" using miss [of "mem_world ?cl"] by (auto simp: mem_world_def)
  obtain w2 where w2: "run_state (getDistributedPodNamespace mem_kube (sk_Name ?sk)) w1 = (Inl NotFound, w2)"
    using miss [OF w1(2)] by blast
  show ?thesis
    by (rule exI, rule named_leader_needs_own_manifestwork [OF _ _ w1(1) w2]) (simp_all add: sample_defs)
qed

end
