(* ===== verification/Reconciler.thy ===== *)
theory Reconciler
  imports Distributed
begin

text \<open>
  \<open>Reconcile\<close> and \<open>SetupWithManager\<close> of \<open>sidekick_controller.go\<close>: the entry point of the
  controller with its dispatch on \<open>spec.distributed\<close>, and the functions that turn changes of
  pods, ManifestWorks and Sidekicks into requests.
\<close>

section \<open>The entry point\<close>

definition Reconcile ::
    "dparams \<Rightarrow> 'e kube \<Rightarrow> bool \<Rightarrow> nsname \<Rightarrow> ('e, event, reconcile_result \<times> bool) go" where
  "Reconcile P c started req = do {
     r \<leftarrow> removePodFinalizerIfMarkedForDeletion c req;
     (case r of
        Inl e \<Rightarrow> ret ((emptyResult, Some e), started)
      | Inr isPodFinalizerRemoved \<Rightarrow>
          if isPodFinalizerRemoved then ret ((emptyResult, None), started)
          else do {
            r1 \<leftarrow> kGet sidekick_kind (k_sidekicks c) req;
            (case r1 of
               Inl e \<Rightarrow> ret ((emptyResult, IgnoreNotFound e), started)
             | Inr sk \<Rightarrow>
                 if ss_Distributed (sk_Spec sk) then ReconcileDistributedSidekick P c started req
                 else do { res \<leftarrow> reconcileLocal P c req sk; ret (res, started) })
          })
   }"

section \<open>Watches\<close>

text \<open>\<open>leaderHandler\<close>: the Sidekicks of the pod's namespace that follow this pod.\<close>

definition leaderHandler :: "'e kube \<Rightarrow> objmeta \<Rightarrow> ('e, event, nsname list) go" where
  "leaderHandler c a = do {
     r \<leftarrow> listSidekicks c (Some (om_Namespace a));
     (case r of
        Inl _ \<Rightarrow> ret []
      | Inr items \<Rightarrow>
          ret (map (\<lambda>sk. ObjectKeyFromMeta (sk_Meta sk))
            (filter (\<lambda>sk. lds_Name (st_Leader (sk_Status sk)) = om_Name a) items)))
   }"

text \<open>\<open>mwHandler\<close>: the Sidekicks of any namespace with the name of the ManifestWork.\<close>

definition mwHandler :: "'e kube \<Rightarrow> objmeta \<Rightarrow> ('e, event, nsname list) go" where
  "mwHandler c a = do {
     r \<leftarrow> listSidekicks c None;
     (case r of
        Inl _ \<Rightarrow> ret []
      | Inr items \<Rightarrow>
          ret (map (\<lambda>sk. ObjectKeyFromMeta (sk_Meta sk)) (filter (\<lambda>sk. sk_Name sk = om_Name a) items)))
   }"

text \<open>
  \<open>SetupWithManager\<close>: what a change of an object enqueues. Sidekicks pass a filter; pods enqueue
  their controlling Sidekick (\<open>Owns\<close>) and the Sidekicks that follow them; ManifestWorks count
  only when the API server knows the kind.
\<close>

datatype watched = WSidekick sidekick | WPod pod | WManifestWork manifest_work

definition ownerSidekick :: "objmeta \<Rightarrow> nsname list" where
  "ownerSidekick m =
     map (\<lambda>r. \<lparr>nn_Namespace = om_Namespace m, nn_Name = or_Name r\<rparr>)
       (filter (\<lambda>r. or_Controller r = Some True \<and> or_Kind r = ''Sidekick'' \<and> or_APIVersion r = SchemeGroupVersion)
         (om_OwnerReferences m))"

definition SetupWithManager :: "'e kube \<Rightarrow> bool \<Rightarrow> watched \<Rightarrow> ('e, event, nsname list) go" where
  "SetupWithManager c knowsManifestWork x =
     (case x of
        WSidekick sk \<Rightarrow> ret (if \<not> AlreadyReconciled sk then [ObjectKeyFromMeta (sk_Meta sk)] else [])
      | WPod pod \<Rightarrow> do {
          follows \<leftarrow> leaderHandler c (p_Meta pod);
          ret (take 1 (ownerSidekick (p_Meta pod)) @ follows)
        }
      | WManifestWork mw \<Rightarrow> if knowsManifestWork then mwHandler c (mw_Meta mw) else ret [])"



section \<open>The gRPC server is started once\<close>

named_theorems once_rules \<open>composition rules for the start of the server\<close>

text \<open>
  A step that gets the flag \<open>started\<close> and returns the new flag: it starts the server exactly when
  it turns the flag on, and never turns it off.
\<close>

definition startsOnce :: "bool \<Rightarrow> ('e, event, 'a \<times> bool) go \<Rightarrow> bool" where
  "startsOnce started m = (\<forall>w. \<exists>es. w_trace (snd (run_state m w)) = w_trace w @ es \<and>
     count_list es EvServe = (if snd (fst (run_state m w)) \<and> \<not> started then 1 else 0) \<and>
     (started \<longrightarrow> snd (fst (run_state m w))))"

lemma startsOnceD:
  "startsOnce started m \<Longrightarrow> run_state m w = ((r, flag), w') \<Longrightarrow>
   \<exists>es. w_trace w' = w_trace w @ es \<and> count_list es EvServe = (if flag \<and> \<not> started then 1 else 0) \<and> (started \<longrightarrow> flag)"
  unfolding startsOnce_def by (metis fst_conv snd_conv)

lemma no_serve_count: "list_all (\<lambda>v. v \<noteq> EvServe) es \<Longrightarrow> count_list es EvServe = 0"
  by (induction es) auto

lemma startsOnce_ret [once_rules]: "startsOnce started (ret (x, started))"
  by (simp add: startsOnce_def)

lemma startsOnce_bind [once_rules]:
  assumes m: "emits (\<lambda>v. v \<noteq> EvServe) m" and f: "\<And>a. startsOnce started (f a)"
  shows "startsOnce started (State_Monad.bind m f)"
  unfolding startsOnce_def
proof
  fix w
  obtain a w1 where 1: "run_state m w = (a, w1)" by (cases "run_state m w")
  obtain r flag w2 where 2: "run_state (f a) w1 = ((r, flag), w2)" by (metis surj_pair)
  from emitsD [OF m 1] startsOnceD [OF f 2] no_serve_count
  show "\<exists>es. w_trace (snd (run_state (State_Monad.bind m f) w)) = w_trace w @ es \<and>
     count_list es EvServe = (if snd (fst (run_state (State_Monad.bind m f) w)) \<and> \<not> started then 1 else 0) \<and>
     (started \<longrightarrow> snd (fst (run_state (State_Monad.bind m f) w)))"
    by (fastforce simp: 1 2)
qed

lemma startsOnce_cases [once_rules]:
  "startsOnce s m \<Longrightarrow> startsOnce s n \<Longrightarrow> startsOnce s (if b then m else n)"
  "(\<And>x. startsOnce s (f x)) \<Longrightarrow> (\<And>y. startsOnce s (g y)) \<Longrightarrow> startsOnce s (case_sum f g r)"
  "(\<And>x y. startsOnce s (h x y)) \<Longrightarrow> startsOnce s (case_prod h p)"
  by (auto split: sum.split prod.split)

lemma startsOnce_grpcOnceDo:
  fixes f :: "bool \<Rightarrow> ('a, event, 'b \<times> bool) go"
  assumes f: "startsOnce True (f True)"
  shows "startsOnce started (State_Monad.bind (grpcOnceDo P c started sk) f)"
proof (cases started)
  case True
  then show ?thesis using f by (simp add: grpcOnceDo_def)
next
  case False
  have exp: "emits (\<lambda>v. v \<noteq> EvServe) (ensureServiceExport (dp_os P) c sk)"
    unfolding ensureServiceExport_def by (intro emits_rules) simp_all
  show ?thesis
    unfolding startsOnce_def
  proof
    fix w :: "('a, event) world"
    let ?w0 = "w\<lparr>w_trace := w_trace w @ [EvServe]\<rparr>"
    obtain a w1 where 1: "run_state (ensureServiceExport (dp_os P) c sk) ?w0 = (a, w1)"
      by (cases "run_state (ensureServiceExport (dp_os P) c sk) ?w0")
    obtain r flag w2 where 2: "run_state (f True) w1 = ((r, flag), w2)" by (metis surj_pair)
    have run: "run_state (State_Monad.bind (grpcOnceDo P c started sk) f) w = ((r, flag), w2)"
      using False 1 2 by (simp add: grpcOnceDo_def goServe_def run_api_call)
    from emitsD [OF exp 1] obtain es1 where es1: "w_trace w1 = w_trace w @ EvServe # es1" "count_list es1 EvServe = 0"
      using no_serve_count by auto
    from startsOnceD [OF f 2] obtain es2 where es2: "w_trace w2 = w_trace w1 @ es2" "count_list es2 EvServe = 0" "flag"
      by auto
    show "\<exists>es. w_trace (snd (run_state (State_Monad.bind (grpcOnceDo P c started sk) f) w)) = w_trace w @ es \<and>
       count_list es EvServe =
         (if snd (fst (run_state (State_Monad.bind (grpcOnceDo P c started sk) f) w)) \<and> \<not> started then 1 else 0) \<and>
       (started \<longrightarrow> snd (fst (run_state (State_Monad.bind (grpcOnceDo P c started sk) f) w)))"
      unfolding run using es1 es2 False by (intro exI [of _ "EvServe # es1 @ es2"]) simp
  qed
qed

lemma emits_deletePod [emits_rules]:
  assumes "\<And>k b. p (EvPod (RGet k) b)" "\<And>x b. p (EvPod (RCreate x) b)" "\<And>x y b. p (EvPod (RPatch x y) b)"
    and "\<And>k b. p (EvPod (RDelete k) b)" "\<And>k b. p (EvSidekick (RGet k) b)" "\<And>x y b. p (EvSidekick (RStatusPatch x y) b)"
  shows "emits p (deletePodAndResetStatus c sk pod)"
  unfolding deletePodAndResetStatus_def deletePod_def setDeletionInitiatorAnnotation_def
  by (intro emits_rules) (simp_all add: assms)

lemma emits_deleteMW [emits_rules]:
  assumes "\<And>k b. p (EvMW (RGet k) b)" "\<And>x b. p (EvMW (RCreate x) b)" "\<And>x y b. p (EvMW (RPatch x y) b)"
    and "\<And>k b. p (EvMW (RDelete k) b)" "\<And>k b. p (EvSidekick (RGet k) b)" "\<And>x y b. p (EvSidekick (RStatusPatch x y) b)"
  shows "emits p (deleteMWAndResetStatus c sk mw)"
  unfolding deleteMWAndResetStatus_def deleteMW_def setMWDeletionInitiatorAnnotation_def updateDistributedSidekickStatus_eq
  by (intro emits_rules) (simp_all add: assms)

lemma no_serve_local: "emits (\<lambda>v. v \<noteq> EvServe) (reconcileLocal P c req sk)"
  unfolding reconcileLocal_def handleSidekickFinalizer_def terminate_def followLeader_def ensurePod_def syncExistingPod_def
  by (intro emits_rules) simp_all

lemma no_serve_distributed:
  "emits (\<lambda>v. v \<noteq> EvServe) (handleDistributedSidekickFinalizer c sk)"
  "emits (\<lambda>v. v \<noteq> EvServe) (followDistributedLeader P c req sk)"
  unfolding handleDistributedSidekickFinalizer_def terminateManifestWork_def followDistributedLeader_def
    ensureMW_def syncMW_def updateDistributedSidekickStatus_eq
  by (intro emits_rules; simp)+

lemma startsOnce_distributed [once_rules]: "startsOnce started (ReconcileDistributedSidekick P c started req)"
  unfolding ReconcileDistributedSidekick_def
  by (intro once_rules startsOnce_grpcOnceDo no_serve_distributed emits_rules) simp_all

lemma startsOnce_Reconcile: "startsOnce started (Reconcile P c started req)"
  unfolding Reconcile_def
  by (intro once_rules no_serve_local emits_rules) simp_all

text \<open>
  A request for a Sidekick that does not exist and has no pod ends without an error,
  without a requeue and without any write.
\<close>

theorem reconcile_gone:
  assumes "o_get (k_pods c) req (w_env w) = (Inl NotFound, e1)"
    and "o_get (k_sidekicks c) req e1 = (Inl NotFound, e2)"
  shows "run_state (Reconcile P c started req) w = (((emptyResult, None), started),
     w\<lparr>w_env := e2, w_trace := w_trace w @ [EvPod (RGet req) False, EvSidekick (RGet req) False]\<rparr>)"
  using assms
  by (simp add: Reconcile_def removePodFinalizerIfMarkedForDeletion_def kGet_def run_api_call)

theorem reconcile_gone_witness:
  "fst (run_state (Reconcile sample_dparams mem_kube False \<lparr>nn_Namespace = ''demo'', nn_Name = ''sk''\<rparr>)
     (mem_world empty_cluster)) = ((emptyResult, None), False)"
  by (subst reconcile_gone [where ?e1.0 = empty_cluster and ?e2.0 = empty_cluster]) (simp_all add: mem_defs memGet_def)

end
