(* ===== verification/Snapshot_Server.thy ===== *)
theory Snapshot_Server
  imports Grpc_Wiring
begin

text \<open>
  \<open>src/grpc/grpc.go\<close> and \<open>src/pkg/snapshotserver\<close>: the messages of the gRPC channel, the
  authentication of a request with its replay cache, and the commands on a Snapshot. The
  replay cache is the server's only state of its own; it is passed along explicitly.
\<close>

section \<open>Messages\<close>

record log_info =
  li_Type :: string
  li_Log :: string
  li_LogLimit :: int
  li_StartTime :: string
  li_EndTime :: string

record snap_shot =
  ss2_LogInfo :: log_info
  ss2_SidekickName :: string
  ss2_NameSpace :: string
  ss2_Token :: string
  ss2_SnapshotToken :: string

definition zero_log_info :: log_info where
  "zero_log_info = \<lparr>li_Type = '''', li_Log = '''', li_LogLimit = 0, li_StartTime = '''', li_EndTime = ''''\<rparr>"

definition zero_snap_shot :: snap_shot where
  "zero_snap_shot = \<lparr>ss2_LogInfo = zero_log_info, ss2_SidekickName = '''', ss2_NameSpace = '''',
     ss2_Token = '''', ss2_SnapshotToken = ''''\<rparr>"

definition marshalLogInfo :: "log_info \<Rightarrow> string" where
  "marshalLogInfo l = encodeObj [
     (''type'', encodeStr (li_Type l)), (''log'', encodeStr (li_Log l)), (''logLimit'', showInt (li_LogLimit l)),
     (''startTime'', encodeStr (li_StartTime l)), (''endTime'', encodeStr (li_EndTime l))]"

text \<open>\<open>BindingPayload\<close>: everything of the request but its token and its grant.\<close>

definition BindingPayload :: "snap_shot \<Rightarrow> string" where
  "BindingPayload s = encodeObj [
     (''sidekickName'', encodeStr (ss2_SidekickName s)), (''namespace'', encodeStr (ss2_NameSpace s)),
     (''logInfo'', marshalLogInfo (ss2_LogInfo s))]"

definition marshalSnapShot :: "snap_shot \<Rightarrow> string" where
  "marshalSnapShot s = encodeObj [
     (''logInfo'', marshalLogInfo (ss2_LogInfo s)), (''sidekickName'', encodeStr (ss2_SidekickName s)),
     (''namespace'', encodeStr (ss2_NameSpace s)), (''token'', encodeStr (ss2_Token s)),
     (''snapshotToken'', encodeStr (ss2_SnapshotToken s))]"

definition logInfoSetters :: "log_info setters" where
  "logInfoSetters = [
     (''type'', \<lambda>j l. map_option (\<lambda>s. l\<lparr>li_Type := s\<rparr>) (decodeStr j (li_Type l))),
     (''log'', \<lambda>j l. map_option (\<lambda>s. l\<lparr>li_Log := s\<rparr>) (decodeStr j (li_Log l))),
     (''logLimit'', \<lambda>j l. map_option (\<lambda>i. l\<lparr>li_LogLimit := i\<rparr>) (decodeInt 64 j (li_LogLimit l))),
     (''startTime'', \<lambda>j l. map_option (\<lambda>s. l\<lparr>li_StartTime := s\<rparr>) (decodeStr j (li_StartTime l))),
     (''endTime'', \<lambda>j l. map_option (\<lambda>s. l\<lparr>li_EndTime := s\<rparr>) (decodeStr j (li_EndTime l)))]"

definition snapShotSetters :: "snap_shot setters" where
  "snapShotSetters = [
     (''logInfo'', \<lambda>j s. map_option (\<lambda>l. s\<lparr>ss2_LogInfo := l\<rparr>) (decodeObj logInfoSetters j (ss2_LogInfo s))),
     (''sidekickName'', \<lambda>j s. map_option (\<lambda>x. s\<lparr>ss2_SidekickName := x\<rparr>) (decodeStr j (ss2_SidekickName s))),
     (''namespace'', \<lambda>j s. map_option (\<lambda>x. s\<lparr>ss2_NameSpace := x\<rparr>) (decodeStr j (ss2_NameSpace s))),
     (''token'', \<lambda>j s. map_option (\<lambda>x. s\<lparr>ss2_Token := x\<rparr>) (decodeStr j (ss2_Token s))),
     (''snapshotToken'', \<lambda>j s. map_option (\<lambda>x. s\<lparr>ss2_SnapshotToken := x\<rparr>) (decodeStr j (ss2_SnapshotToken s)))]"

definition unmarshalSnapShot :: "string \<Rightarrow> snap_shot option" where
  "unmarshalSnapShot data = unmarshal snapShotSetters zero_snap_shot data"

record command_request =
  cq_Command :: string
  cq_Data :: string

record command_response =
  cr_Status :: string
  cr_Output :: string
  cr_Error :: string

section \<open>The replay cache\<close>

type_synonym replay_cache = "(string, int) gomap"

definition newReplayCache :: replay_cache where
  "newReplayCache = Some []"

text \<open>\<open>accept\<close>, with the time it reads as an argument: expired entries go first.\<close>

definition accept :: "int \<Rightarrow> string \<Rightarrow> int \<Rightarrow> replay_cache \<Rightarrow> bool \<times> replay_cache" where
  "accept now nonce exp seen =
     (let seen1 = Some (filter (\<lambda>(k, e). \<not> e \<le> now) (gm_entries seen)) in
      if gm_get seen1 nonce \<noteq> None then (False, seen1) else (True, gm_set nonce exp seen1))"

section \<open>Authentication\<close>

text \<open>Third-party parts: the JSON form of a Snapshot, and the texts of errors.\<close>

record server_params =
  sp_marshalSnapshot :: "snapshot \<Rightarrow> string res"
  sp_errText :: "goerr \<Rightarrow> string"

definition grpcKeys :: "'e kube \<Rightarrow> string \<Rightarrow> string \<Rightarrow> ('e, event, (string \<times> string) res) go" where
  "grpcKeys c namespace sidekickName = do {
     r \<leftarrow> kGet secret_kind (k_secrets c) \<lparr>nn_Namespace = namespace, nn_Name = SigningSecretName sidekickName\<rparr>;
     (case r of
        Inl e \<Rightarrow> ret (Inl e)
      | Inr secret \<Rightarrow> if \<not> hasKeys secret then ret (Inl (Err ''grpc keys missing in secret'')) else ret (Inr (keysOf secret)))
   }"

definition bindingDigest :: "snap_shot \<Rightarrow> string" where
  "bindingDigest snap = RequestDigest (BindingPayload snap)"

definition authenticate ::
    "'e kube \<Rightarrow> snap_shot \<Rightarrow> replay_cache \<Rightarrow> ('e, event, claims res \<times> replay_cache) go" where
  "authenticate c snap seen = do {
     r \<leftarrow> grpcKeys c (ss2_NameSpace snap) (ss2_SidekickName snap);
     (case r of
        Inl e \<Rightarrow> ret (Inl e, seen)
      | Inr (signingKey, snapshotKey) \<Rightarrow>
          (case Open signingKey (ss2_Token snap) of
             Inl e \<Rightarrow> ret (Inl e, seen)
           | Inr cl \<Rightarrow> do {
               now \<leftarrow> timeNow c;
               (case Verify cl now (ss2_SidekickName snap) (ss2_NameSpace snap) (bindingDigest snap) of
                  Some e \<Rightarrow> ret (Inl e, seen)
                | None \<Rightarrow>
                    (case DecryptString snapshotKey (ss2_SnapshotToken snap) of
                       Inl e \<Rightarrow> ret (Inl e, seen)
                     | Inr granted \<Rightarrow>
                         if granted = '''' \<or> granted \<noteq> tc_SnapshotName cl
                         then ret (Inl (Err ''snapshot not authorized''), seen)
                         else do {
                           now2 \<leftarrow> timeNow c;
                           (case accept now2 (tc_Nonce cl) (tc_ExpiresAt cl) seen of
                              (ok1, seen') \<Rightarrow>
                                if \<not> ok1 then ret (Inl (Err ''nonce already used''), seen') else ret (Inr cl, seen'))
                         }))
             }))
   }"

section \<open>Snapshots\<close>

definition ComponentLog :: string where "ComponentLog = ''log''"
definition maxLogLimit :: int where "maxLogLimit = 100"
definition maxLogBytes :: nat where "maxLogBytes = 4096"

definition zero_log_stats :: log_stats where
  "zero_log_stats = \<lparr>lst_Start = None, lst_End = None, lst_TotalFailedCount = 0, lst_LastFailedStats = [],
     lst_TotalSucceededCount = 0, lst_LastSucceededStats = []\<rparr>"

definition logComponent :: "snapshot \<Rightarrow> component" where
  "logComponent s = (case gm_get (sn_Components s) ComponentLog of None \<Rightarrow> zero_component | Some x \<Rightarrow> x)"

definition updateSnapshotStatus :: "'e kube \<Rightarrow> snapshot \<Rightarrow> ('e, event, snapshot res) go" where
  "updateSnapshotStatus c s = do {
     r \<leftarrow> PatchStatus snapshot_kind (k_snapshots c) s
            (\<lambda>cur. cur\<lparr>sn_TotalComponents := sn_TotalComponents s, sn_Components := sn_Components s\<rparr>);
     (case r of Inl e \<Rightarrow> ret (Inl e) | Inr (_, s') \<Rightarrow> ret (Inr s'))
   }"

definition initLogComponent :: "snapshot \<Rightarrow> snapshot" where
  "initLogComponent s =
     (let s1 = s\<lparr>sn_Components := gm_make (sn_Components s)\<rparr>;
          compLog = (logComponent s1)\<lparr>cmp_Phase := ''Running''\<rparr>;
          compLog1 = (if cmp_LogStats compLog = None then compLog\<lparr>cmp_LogStats := Some zero_log_stats\<rparr> else compLog)
      in s1\<lparr>sn_Components := gm_set ComponentLog compLog1 (sn_Components s1)\<rparr>)"

definition InitSnapshotComponentsStatus :: "'e kube \<Rightarrow> string \<Rightarrow> string \<Rightarrow> ('e, event, snapshot res) go" where
  "InitSnapshotComponentsStatus c name namespace = do {
     r \<leftarrow> kGet snapshot_kind (k_snapshots c) \<lparr>nn_Namespace = namespace, nn_Name = name\<rparr>;
     (case r of
        Inl e \<Rightarrow> ret (Inl e)
      | Inr s \<Rightarrow> updateSnapshotStatus c (initLogComponent s))
   }"

definition GetSnapshot :: "server_params \<Rightarrow> 'e kube \<Rightarrow> string \<Rightarrow> string \<Rightarrow> ('e, event, string res) go" where
  "GetSnapshot SP c name namespace = do {
     r \<leftarrow> kGet snapshot_kind (k_snapshots c) \<lparr>nn_Namespace = namespace, nn_Name = name\<rparr>;
     (case r of Inl e \<Rightarrow> ret (Inl e) | Inr s \<Rightarrow> ret (sp_marshalSnapshot SP s))
   }"

definition trimLogHistory :: "log_entry list \<Rightarrow> int \<Rightarrow> log_entry list" where
  "trimLogHistory logs limit = (if int (length logs) > limit then drop 1 logs else logs)"

text \<open>The inputs of the caller are clamped first.\<close>

definition clampInfo :: "log_info \<Rightarrow> log_info" where
  "clampInfo info =
     (let l1 = (if li_LogLimit info > maxLogLimit then info\<lparr>li_LogLimit := maxLogLimit\<rparr> else info);
          l2 = (if li_LogLimit l1 < 0 then l1\<lparr>li_LogLimit := 0\<rparr> else l1)
      in if length (li_Log l2) > maxLogBytes then l2\<lparr>li_Log := take maxLogBytes (li_Log l2)\<rparr> else l2)"

text \<open>The new state of the log component, from the clamped input.\<close>

definition recordLog :: "log_info \<Rightarrow> component \<Rightarrow> component" where
  "recordLog info comp0 =
     (let st0 = (case cmp_LogStats comp0 of None \<Rightarrow> zero_log_stats | Some st \<Rightarrow> st);
          st1 = (if lst_Start st0 = None then st0\<lparr>lst_Start := Some (li_StartTime info)\<rparr> else st0);
          st2 = st1\<lparr>lst_End := Some (li_EndTime info)\<rparr>;
          newLog = \<lparr>lg_Start = Some (li_StartTime info), lg_End = Some (li_EndTime info), lg_Error = ''''\<rparr>;
          st3 = (if li_Type info = ''success''
                 then st2\<lparr>lst_TotalSucceededCount := lst_TotalSucceededCount st2 + 1,
                          lst_End := Some (li_EndTime info),
                          lst_LastSucceededStats :=
                            trimLogHistory (lst_LastSucceededStats st2 @ [newLog]) (li_LogLimit info)\<rparr>
                 else st2\<lparr>lst_TotalFailedCount := lst_TotalFailedCount st2 + 1,
                          lst_LastFailedStats :=
                            trimLogHistory (lst_LastFailedStats st2 @ [newLog\<lparr>lg_Error := li_Log info\<rparr>]) (li_LogLimit info)\<rparr>)
      in comp0\<lparr>cmp_LogStats := Some st3\<rparr>)"

definition UpdateSnapshot :: "'e kube \<Rightarrow> string \<Rightarrow> string \<Rightarrow> log_info \<Rightarrow> ('e, event, unit res) go" where
  "UpdateSnapshot c name namespace info0 = do {
     let info = clampInfo info0;
     r \<leftarrow> InitSnapshotComponentsStatus c name namespace;
     (case r of
        Inl e \<Rightarrow> ret (Inl e)
      | Inr s \<Rightarrow>
          (case gm_put ComponentLog (recordLog info (logComponent s)) (sn_Components s) of
             Inl panic \<Rightarrow> ret (Inl panic)
           | Inr comps \<Rightarrow> do {
               r2 \<leftarrow> updateSnapshotStatus c (s\<lparr>sn_Components := comps\<rparr>);
               (case r2 of Inl e \<Rightarrow> ret (Inl e) | Inr _ \<Rightarrow> ret (Inr ()))
             }))
   }"

section \<open>Commands\<close>

definition CommandUpdateSnapshot :: string where "CommandUpdateSnapshot = ''UpdateSnapshot''"
definition CommandGetSnapshot :: string where "CommandGetSnapshot = ''GetSnapshot''"
definition errUnauthenticated :: string where "errUnauthenticated = ''unauthenticated''"

definition authError :: command_response where
  "authError = \<lparr>cr_Status = ''error'', cr_Output = '''', cr_Error = errUnauthenticated\<rparr>"

definition getError :: "server_params \<Rightarrow> goerr \<Rightarrow> command_response" where
  "getError SP e = \<lparr>cr_Status = ''error'', cr_Output = '''', cr_Error = sp_errText SP e\<rparr>"

text \<open>
  The verb \<open>%q\<close> of \<open>fmt\<close> on valid UTF-8, with every rune beyond ASCII taken as printable.
\<close>

definition quoteByte :: "char \<Rightarrow> string" where
  "quoteByte ch =
     (if ch = CHR 0x22 \<or> ch = CHR 0x5C then [CHR 0x5C, ch]
      else if ch = CHR 0x07 then [CHR 0x5C, CHR ''a'']
      else if ch = CHR 0x08 then [CHR 0x5C, CHR ''b'']
      else if ch = CHR 0x0C then [CHR 0x5C, CHR ''f'']
      else if ch = CHR 0x0A then [CHR 0x5C, CHR ''n'']
      else if ch = CHR 0x0D then [CHR 0x5C, CHR ''r'']
      else if ch = CHR 0x09 then [CHR 0x5C, CHR ''t'']
      else if ch = CHR 0x0B then [CHR 0x5C, CHR ''v'']
      else if byteVal ch < 32 \<or> byteVal ch = 127
      then [CHR 0x5C, CHR ''x'', hexChar (byteVal ch div 16), hexChar (byteVal ch mod 16)]
      else [ch])"

definition quoteGo :: "string \<Rightarrow> string" where
  "quoteGo s = CHR 0x22 # concat (map quoteByte s) @ [CHR 0x22]"

definition dispatch ::
    "server_params \<Rightarrow> 'e kube \<Rightarrow> command_request \<Rightarrow> snap_shot \<Rightarrow> claims \<Rightarrow> ('e, event, command_response) go" where
  "dispatch SP c req snap cl =
     (if cq_Command req = CommandUpdateSnapshot then do {
        r \<leftarrow> UpdateSnapshot c (tc_SnapshotName cl) (ss2_NameSpace snap) (ss2_LogInfo snap);
        (case r of
           Inl e \<Rightarrow> ret (getError SP e)
         | Inr _ \<Rightarrow> ret \<lparr>cr_Status = ''success'', cr_Output = '''', cr_Error = ''''\<rparr>)
      }
      else if cq_Command req = CommandGetSnapshot then do {
        r \<leftarrow> GetSnapshot SP c (tc_SnapshotName cl) (ss2_NameSpace snap);
        (case r of
           Inl e \<Rightarrow> ret (getError SP e)
         | Inr data \<Rightarrow> ret \<lparr>cr_Status = ''success'', cr_Output = data, cr_Error = ''''\<rparr>)
      }
      else ret \<lparr>cr_Status = ''error'', cr_Output = '''', cr_Error = ''unknown command: '' @ quoteGo (cq_Command req)\<rparr>)"

definition ExecuteCommand ::
    "server_params \<Rightarrow> 'e kube \<Rightarrow> command_request \<Rightarrow> replay_cache \<Rightarrow> ('e, event, command_response \<times> replay_cache) go" where
  "ExecuteCommand SP c req seen =
     (case unmarshalSnapShot (cq_Data req) of
        None \<Rightarrow> ret (authError, seen)
      | Some snap \<Rightarrow> do {
          (r, seen') \<leftarrow> authenticate c snap seen;
          (case r of
             Inl _ \<Rightarrow> ret (authError, seen')
           | Inr cl \<Rightarrow> do { resp \<leftarrow> dispatch SP c req snap cl; ret (resp, seen') })
        })"

section \<open>A nonce is accepted once\<close>

lemma map_of_filter_snd:
  "distinct (map fst xs) \<Longrightarrow>
   map_of (filter (\<lambda>(k, e). P e) xs) n = (case map_of xs n of None \<Rightarrow> None | Some e \<Rightarrow> if P e then Some e else None)"
proof (induction xs)
  case Nil
  then show ?case by simp
next
  case (Cons x xs)
  obtain k e where x: "x = (k, e)" by (cases x)
  with Cons.prems have "map_of xs k = None" by (simp add: map_of_eq_None_iff)
  with Cons x show ?case by auto
qed

lemma distinct_filter_keys: "distinct (map fst xs) \<Longrightarrow> distinct (map fst (filter P xs))"
  by (induction xs) (auto)

lemma accept_wf: "gm_wf seen \<Longrightarrow> gm_wf (snd (accept now nonce exp seen))"
proof -
  assume "gm_wf seen"
  then have "gm_wf (Some (filter (\<lambda>(k, e). \<not> e \<le> now) (gm_entries seen)))"
    by (simp add: gm_wf_def distinct_filter_keys)
  then show ?thesis by (simp add: accept_def Let_def)
qed

text \<open>What the cache says of a nonce afterwards.\<close>

lemma accept_live:
  assumes "gm_wf seen" "gm_get seen n = Some e" "now < e"
  shows "gm_get (snd (accept now m x seen)) n = Some e" and "\<not> fst (accept now n x seen)"
proof -
  have live: "gm_get (Some (filter (\<lambda>(k, e). \<not> e \<le> now) (gm_entries seen))) n = Some e"
    using assms by (simp add: gm_wf_def map_of_filter_snd gm_get_def)
  then show "\<not> fst (accept now n x seen)" by (simp add: accept_def Let_def)
  show "gm_get (snd (accept now m x seen)) n = Some e"
    using live by (cases "m = n") (simp_all add: accept_def Let_def)
qed

lemma accept_records: "fst (accept now n x seen) \<Longrightarrow> gm_get (snd (accept now n x seen)) n = Some x"
  by (simp add: accept_def Let_def split: if_splits)

text \<open>A run of the cache: calls of \<open>accept\<close> with their times, nonces and expiries.\<close>

fun acceptAll :: "(int \<times> string \<times> int) list \<Rightarrow> replay_cache \<Rightarrow> bool list" where
  "acceptAll [] seen = []"
| "acceptAll ((now, nonce, exp) # calls) seen =
     (case accept now nonce exp seen of (ok1, seen') \<Rightarrow> ok1 # acceptAll calls seen')"

lemma acceptAll_Cons:
  "acceptAll ((now, nonce, exp) # calls) seen =
   fst (accept now nonce exp seen) # acceptAll calls (snd (accept now nonce exp seen))"
  by (simp split: prod.split)

lemmas acceptAll_run = acceptAll_Cons acceptAll.simps(1)

declare acceptAll.simps(2) [simp del]

lemma acceptAll_refuses:
  assumes "gm_wf seen" "gm_get seen n = Some e" "\<forall>l \<le> j. fst (calls ! l) < e"
    and "j < length calls" "fst (snd (calls ! j)) = n"
  shows "\<not> acceptAll calls seen ! j"
  using assms
proof (induction calls arbitrary: seen j)
  case Nil
  then show ?case by simp
next
  case (Cons call calls)
  obtain now m x where call: "call = (now, m, x)" by (cases call)
  with Cons.prems(3) have now: "now < e" by fastforce
  note live = accept_live [OF Cons.prems(1,2) now]
  show ?case
  proof (cases j)
    case 0
    with Cons.prems call live(2) [of x] show ?thesis by (auto simp: acceptAll_Cons)
  next
    case (Suc i)
    have "\<forall>l \<le> i. fst (calls ! l) < e" using Cons.prems(3) Suc by fastforce
    then have "\<not> acceptAll calls (snd (accept now m x seen)) ! i"
      using Cons.prems Suc live(1) accept_wf by (intro Cons.IH) auto
    with Suc call show ?thesis by (simp add: acceptAll_Cons)
  qed
qed

lemma acceptAll_once:
  assumes "gm_wf seen" "sorted (map fst calls)" "i < j" "j < length calls"
    and "fst (snd (calls ! i)) = fst (snd (calls ! j))"
    and "acceptAll calls seen ! i" "acceptAll calls seen ! j"
  shows "snd (snd (calls ! i)) \<le> fst (calls ! j)"
  using assms
proof (induction calls arbitrary: seen i j)
  case Nil
  then show ?case by simp
next
  case (Cons call calls)
  obtain now n x where call: "call = (now, n, x)" by (cases call)
  obtain k where j: "j = Suc k" using Cons.prems(3) by (cases j) auto
  let ?seen = "snd (accept now n x seen)"
  have wf: "gm_wf ?seen" using Cons.prems(1) by (rule accept_wf)
  have resj: "acceptAll calls ?seen ! k" using Cons.prems(7) j call by (simp add: acceptAll_Cons)
  have sorted: "sorted (map fst calls)" using Cons.prems(2) by simp
  show ?case
  proof (cases i)
    case 0
    have acc: "fst (accept now n x seen)" using Cons.prems(6) 0 call by (simp add: acceptAll_Cons)
    have "x \<le> fst (calls ! k)"
    proof (rule ccontr)
      assume "\<not> x \<le> fst (calls ! k)"
      then have "\<forall>l \<le> k. fst (calls ! l) < x"
        using sorted_nth_mono [OF sorted, of _ k] Cons.prems(4) j by fastforce
      with acceptAll_refuses [OF wf accept_records [OF acc]] resj Cons.prems(4,5) 0 j call
      show False by auto
    qed
    with 0 j call show ?thesis by simp
  next
    case (Suc l)
    have "acceptAll calls ?seen ! l" using Cons.prems(6) Suc call by (simp add: acceptAll_Cons)
    then have "snd (snd (calls ! l)) \<le> fst (calls ! k)"
      using Cons.prems j Suc by (intro Cons.IH [OF wf sorted _ _ _ _ resj]) auto
    with Suc j show ?thesis by simp
  qed
qed

text \<open>
  The replay cache: from the start of the server, as long as its clock does not run
  backwards, a nonce that was accepted is refused until the expiry recorded with it has
  passed.
\<close>

theorem no_replay:
  assumes "sorted (map fst calls)" "i < j" "j < length calls"
    and "fst (snd (calls ! i)) = fst (snd (calls ! j))"
    and "acceptAll calls newReplayCache ! i" "fst (calls ! j) < snd (snd (calls ! i))"
  shows "\<not> acceptAll calls newReplayCache ! j"
  using acceptAll_once [of newReplayCache calls i j] assms by (auto simp: newReplayCache_def gm_wf_def)

section \<open>Who is authenticated\<close>

text \<open>What the keys of the Sidekick must say about a request and its claims.\<close>

definition authorised :: "secret \<Rightarrow> snap_shot \<Rightarrow> claims \<Rightarrow> bool" where
  "authorised secret snap cl =
     (hasKeys secret \<and> Open (fst (keysOf secret)) (ss2_Token snap) = Inr cl \<and>
      tc_SidekickName cl = ss2_SidekickName snap \<and> tc_Namespace cl = ss2_NameSpace snap \<and>
      tc_Digest cl = bindingDigest snap \<and> tc_Nonce cl \<noteq> '''' \<and> tc_SnapshotName cl \<noteq> '''' \<and>
      DecryptString (snd (keysOf secret)) (ss2_SnapshotToken snap) = Inr (tc_SnapshotName cl))"

definition requestKey :: "snap_shot \<Rightarrow> nsname" where
  "requestKey snap = \<lparr>nn_Namespace = ss2_NameSpace snap, nn_Name = SigningSecretName (ss2_SidekickName snap)\<rparr>"

lemma b64Encode_Nil_iff: "b64Encode bs = '''' \<longleftrightarrow> bs = []"
  using b64.enc_inj [of bs "[]"] by (simp add: b64Encode_def)

lemma bindingDigest_not_empty: "bindingDigest snap \<noteq> ''''"
proof -
  have "sha256 (bytesOf (BindingPayload snap)) \<noteq> []"
    using length_sha256 [of "bytesOf (BindingPayload snap)"] by (metis list.size(3) zero_neq_numeral)
  then show ?thesis by (simp add: bindingDigest_def RequestDigest_def b64Encode_Nil_iff)
qed

lemma Verify_Some:
  "Verify cl now sk ns dig = Some e \<Longrightarrow>
   tc_ExpiresAt cl = 0 \<or> \<not> now < tc_ExpiresAt cl \<or> tc_SidekickName cl \<noteq> sk \<or> tc_Namespace cl \<noteq> ns \<or>
   dig = '''' \<or> tc_Digest cl \<noteq> dig \<or> tc_Nonce cl = ''''"
  using Verify_None [of cl now sk ns dig] by auto

lemma run_grpcKeys:
  "run_state (grpcKeys c ns sk) w =
     (case o_get (k_secrets c) \<lparr>nn_Namespace = ns, nn_Name = SigningSecretName sk\<rparr> (w_env w) of (r, e) \<Rightarrow>
        ((case r of Inl x \<Rightarrow> Inl x
          | Inr secret \<Rightarrow> if hasKeys secret then Inr (keysOf secret) else Inl (Err ''grpc keys missing in secret'')),
         w\<lparr>w_env := e, w_trace := w_trace w @
           [EvSecret (RGet \<lparr>nn_Namespace = ns, nn_Name = SigningSecretName sk\<rparr>) (ok r)]\<rparr>))"
  by (simp add: grpcKeys_def kGet_def run_api_call split: prod.split sum.split)

lemma authenticate_iff:
  "fst (fst (run_state (authenticate c snap seen) w)) = Inr cl \<longleftrightarrow>
   (let got = o_get (k_secrets c) (requestKey snap) (w_env w);
        first = k_now c (snd got);
        second = k_now c (snd first)
    in \<exists>secret. fst got = Inr secret \<and> authorised secret snap cl \<and>
         tc_ExpiresAt cl \<noteq> 0 \<and> fst first < tc_ExpiresAt cl \<and>
         fst (accept (fst second) (tc_Nonce cl) (tc_ExpiresAt cl) seen))"
proof -
  obtain r e where got: "o_get (k_secrets c) (requestKey snap) (w_env w) = (r, e)" by fastforce
  note run = authenticate_def run_grpcKeys got [unfolded requestKey_def]
  show ?thesis
  proof (cases "\<exists>secret. r = Inr secret \<and> hasKeys secret")
    case False
    then show ?thesis by (cases r) (auto simp: run got authorised_def Let_def)
  next
    case True
    then obtain secret where r: "r = Inr secret" and keyed: "hasKeys secret" by blast
    obtain k1 k2 where keys: "keysOf secret = (k1, k2)" by (cases "keysOf secret")
    show ?thesis
      by (cases "Open k1 (ss2_Token snap)"; cases "DecryptString k2 (ss2_SnapshotToken snap)")
        (auto simp: run got r keyed keys Let_def authorised_def timeNow_def run_api_call
          Verify_None bindingDigest_not_empty dest!: Verify_Some split: prod.splits option.splits)
  qed
qed

text \<open>
  Property C6. Exactly which requests the server authenticates, for every state of the cluster, of the
  clock and of the replay cache: those whose token opens, under the signing key in the
  Secret of the Sidekick that the request names, to claims for that Sidekick and for the very
  payload of the request, not expired when the clock is first read, whose grant decrypts
  under the second key to the Snapshot the claims name, and whose nonce the cache accepts.
\<close>

theorem authenticate_exact:
  "fst (fst (run_state (authenticate c snap seen) w)) = Inr cl \<longleftrightarrow>
   (let got = o_get (k_secrets c) (requestKey snap) (w_env w);
        first = k_now c (snd got);
        second = k_now c (snd first)
    in \<exists>secret. fst got = Inr secret \<and> authorised secret snap cl \<and>
         tc_ExpiresAt cl \<noteq> 0 \<and> fst first < tc_ExpiresAt cl \<and>
         fst (accept (fst second) (tc_Nonce cl) (tc_ExpiresAt cl) seen))"
  by (rule authenticate_iff)

section \<open>A request of the archiver is authenticated\<close>

lemma b64Char_ascii: "i < 64 \<Longrightarrow> byteVal (b64Char i) < 128"
proof -
  have "list_all (\<lambda>ch. byteVal ch < 128) b64Alphabet" "length b64Alphabet = 64"
    by (simp_all add: b64Alphabet_def)
  then show "i < 64 \<Longrightarrow> byteVal (b64Char i) < 128" by (simp add: list_all_length b64Char_def)
qed

lemma b64EncodeN_ascii:
  "list_all (\<lambda>n. n < 256) ns \<Longrightarrow> list_all (\<lambda>ch. byteVal ch < 128) (b64EncodeN ns)"
  by (induction ns rule: b64EncodeN.induct) (auto intro!: b64Char_ascii b64_group_bounds)

lemma length_b64EncodeN: "length (b64EncodeN ns) \<le> 2 * length ns"
  by (induction ns rule: b64EncodeN.induct) auto

lemma RequestDigest_ascii: "list_all (\<lambda>ch. byteVal ch < 128) (RequestDigest payload)"
  unfolding RequestDigest_def b64Encode_def by (rule b64EncodeN_ascii) (simp add: list_all_iff unat_byte)

lemma length_RequestDigest: "length (RequestDigest payload) \<le> 64"
  using length_b64EncodeN [of "map unat (sha256 (bytesOf payload))"]
  by (simp add: RequestDigest_def b64Encode_def)

lemma accept_fresh: "gm_wf seen \<Longrightarrow> gm_get seen n = None \<Longrightarrow> fst (accept now n x seen)"
  by (simp add: accept_def Let_def gm_wf_def map_of_filter_snd gm_get_def)

text \<open>The claims an archiver makes for a request: the binding of the very request it sends.\<close>

definition claimsFor :: "snap_shot \<Rightarrow> string \<Rightarrow> string \<Rightarrow> int \<Rightarrow> claims" where
  "claimsFor snap name nonce expiry = \<lparr>tc_SnapshotName = name, tc_SidekickName = ss2_SidekickName snap,
     tc_Namespace = ss2_NameSpace snap, tc_Digest = RequestDigest (BindingPayload snap),
     tc_Nonce = nonce, tc_ExpiresAt = expiry\<rparr>"

lemma authorised_request:
  assumes keys: "keysOf secret = (signingKey, snapshotKey)"
    and grant: "EncryptString snapshotKey name = Inr (ss2_SnapshotToken snap)"
    and minted: "run_state (Mint c signingKey (claimsFor snap name nonce expiry)) w = (Inr (ss2_Token snap), w')"
    and ascii: "asciiClaims (claimsFor snap name nonce expiry)"
    and names: "name \<noteq> ''''" "nonce \<noteq> ''''" "- (2 ^ 63) \<le> expiry" "expiry < 2 ^ 63"
  shows "authorised secret snap (claimsFor snap name nonce expiry)"
proof -
  have "Open signingKey (ss2_Token snap) = Inr (claimsFor snap name nonce expiry)"
    using open_minted [OF minted] names ascii by (simp add: validClaims_ascii) (simp add: claimsFor_def)
  moreover have "signingKey \<noteq> ''''" using minted by (auto simp: Mint_def)
  moreover have "snapshotKey \<noteq> ''''" using grant by (auto simp: EncryptString_def)
  ultimately show ?thesis
    using keys names decrypt_encrypt [OF grant]
    by (simp add: authorised_def hasKeys_def claimsFor_def bindingDigest_def)
qed

text \<open>
  A request that carries the grant the
  operator made with the Sidekick's snapshot key, and a token the archiver minted with the
  signing key for this request, is authenticated, as long as the token has not expired and
  its nonce is new.
\<close>

lemma request_authenticates:
  assumes "fst (o_get (k_secrets c) (requestKey snap) (w_env w)) = Inr secret"
    and "keysOf secret = (signingKey, snapshotKey)"
    and "EncryptString snapshotKey name = Inr (ss2_SnapshotToken snap)"
    and "run_state (Mint c' signingKey (claimsFor snap name nonce expiry)) v = (Inr (ss2_Token snap), v')"
    and "asciiClaims (claimsFor snap name nonce expiry)"
    and "name \<noteq> ''''" "nonce \<noteq> ''''" "0 < expiry" "expiry < 2 ^ 63"
    and "fst (k_now c (snd (o_get (k_secrets c) (requestKey snap) (w_env w)))) < expiry"
    and "gm_wf seen" "gm_get seen nonce = None"
  shows "fst (fst (run_state (authenticate c snap seen) w)) = Inr (claimsFor snap name nonce expiry)"
proof -
  have "authorised secret snap (claimsFor snap name nonce expiry)"
    using assms by (intro authorised_request [where c = c' and w = v and w' = v']) auto
  then show ?thesis
    using assms accept_fresh by (auto simp: authenticate_iff Let_def claimsFor_def)
qed

text \<open>A request for the sample Sidekick, and what its archiver needs to send it.\<close>

definition sample_request :: snap_shot where
  "sample_request = zero_snap_shot\<lparr>ss2_SidekickName := ''sk'', ss2_NameSpace := ''demo'',
     ss2_LogInfo := zero_log_info\<lparr>li_Type := ''success'', li_LogLimit := 5\<rparr>\<rparr>"

definition sample_world :: "(cluster, event) world" where
  "sample_world = mem_world (empty_cluster\<lparr>cl_secrets := [sample_secret],
     cl_snapshots := [\<lparr>sn_Meta = sample_meta ''snap'' ''uid-snap'', sn_TotalComponents = 0, sn_Components = None\<rparr>],
     cl_now := 100\<rparr>)"

lemma sample_secret_keys: "keysOf sample_secret = (''k1'', ''k2'')"
  by (simp add: keysOf_def sample_secret_def gm_str_def SigningSecretKey_def SnapshotSecretKey_def)

lemma sample_secret_get:
  "ss2_SidekickName snap = ''sk'' \<Longrightarrow> ss2_NameSpace snap = ''demo'' \<Longrightarrow>
   o_get (k_secrets mem_kube) (requestKey snap) (w_env sample_world) = (Inr sample_secret, w_env sample_world)"
  by (simp add: requestKey_def SigningSecretName_def sample_world_def mem_defs mem_op_defs sample_secret_def zero_meta_def)

lemma sample_mint_request:
  "\<exists>tok w'. run_state (Mint mem_kube ''k1'' (claimsFor sample_request ''snap'' ''n'' 300)) sample_world = (Inr tok, w')"
proof -
  let ?d = "RequestDigest (BindingPayload sample_request)"
  have "length (marshalClaims (claimsFor sample_request ''snap'' ''n'' 300)) \<le> gcmMaxText"
    using length_encodeStr_ascii [of "''snap''"] length_encodeStr_ascii [of "''sk''"]
      length_encodeStr_ascii [of "''demo''"] length_encodeStr_ascii [of "''n''"]
      length_encodeStr_ascii [OF RequestDigest_ascii, of "BindingPayload sample_request"]
      length_RequestDigest [of "BindingPayload sample_request"]
    by (simp add: marshalClaims_def encodeObj_def encodeMember_def claimsFor_def gcmMaxText_def
        showInt_def showNat.simps sample_request_def)
  then show ?thesis
    by (simp add: Mint_def readRandom_def run_api_call mem_defs sealWith_def)
qed

definition sampleSnap :: "string \<Rightarrow> string \<Rightarrow> snap_shot" where
  "sampleSnap grant tok = sample_request\<lparr>ss2_Token := tok, ss2_SnapshotToken := grant\<rparr>"

lemma claimsFor_sampleSnap: "claimsFor (sampleSnap grant tok) name n e = claimsFor sample_request name n e"
  by (simp add: claimsFor_def BindingPayload_def sampleSnap_def)

lemma b64Encode_ascii: "list_all (\<lambda>ch. byteVal ch < 128) (b64Encode bs)"
  unfolding b64Encode_def by (rule b64EncodeN_ascii) (simp add: list_all_iff unat_byte)

lemma EncryptString_ascii: "EncryptString key s = Inr blob \<Longrightarrow> list_all (\<lambda>ch. byteVal ch < 128) blob"
  by (auto simp: EncryptString_def Let_def b64Encode_ascii split: if_splits sum.splits)

lemma Mint_ascii: "run_state (Mint c key cl) w = (Inr tok, w') \<Longrightarrow> list_all (\<lambda>ch. byteVal ch < 128) tok"
  by (auto simp: Mint_def Let_def b64Encode_ascii split: if_splits sum.splits prod.splits)

lemma sample_request_ascii: "asciiClaims (claimsFor sample_request ''snap'' ''n'' 300)"
  using RequestDigest_ascii by (simp add: asciiClaims_def claimsFor_def sample_request_def)

lemma sample_tokens:
  "\<exists>grant tok w'. EncryptString ''k2'' ''snap'' = Inr grant \<and>
     run_state (Mint mem_kube ''k1'' (claimsFor (sampleSnap grant tok) ''snap'' ''n'' 300)) sample_world = (Inr tok, w')"
proof -
  obtain grant where "EncryptString ''k2'' ''snap'' = Inr grant"
    by (simp add: EncryptString_def sealWith_def gcmMaxText_def Let_def)
  then show ?thesis using sample_mint_request by (simp add: claimsFor_sampleSnap)
qed

lemma sample_authorised:
  "\<exists>grant tok. list_all (\<lambda>ch. byteVal ch < 128) grant \<and> list_all (\<lambda>ch. byteVal ch < 128) tok \<and>
     authorised sample_secret (sampleSnap grant tok) (claimsFor (sampleSnap grant tok) ''snap'' ''n'' 300)"
proof -
  obtain grant tok w' where grant: "EncryptString ''k2'' ''snap'' = Inr grant"
    and tok: "run_state (Mint mem_kube ''k1'' (claimsFor (sampleSnap grant tok) ''snap'' ''n'' 300)) sample_world = (Inr tok, w')"
    using sample_tokens by blast
  have "authorised sample_secret (sampleSnap grant tok) (claimsFor (sampleSnap grant tok) ''snap'' ''n'' 300)"
    by (rule authorised_request [OF sample_secret_keys, where c = mem_kube and w = sample_world and w' = w'])
      (use grant tok sample_request_ascii in \<open>simp_all add: claimsFor_sampleSnap\<close>, simp_all add: sampleSnap_def)
  with EncryptString_ascii [OF grant] Mint_ascii [OF tok] show ?thesis by blast
qed

text \<open>
  The clock is read twice, once for the expiry and once by the cache. If the token
  expires between the two readings, the entry of its nonce is dropped just before it is
  looked up: a request whose nonce was used before is authenticated again.
\<close>

theorem replay_at_expiry:
  assumes "o_get (k_secrets c) (requestKey snap) (w_env w) = (Inr secret, e)"
    and "authorised secret snap cl" "0 < tc_ExpiresAt cl"
    and "fst (k_now c e) < tc_ExpiresAt cl" "tc_ExpiresAt cl \<le> fst (k_now c (snd (k_now c e)))"
    and "gm_wf seen" "gm_get seen (tc_Nonce cl) = Some (tc_ExpiresAt cl)"
  shows "fst (fst (run_state (authenticate c snap seen) w)) = Inr cl"
proof -
  have "fst (accept (fst (k_now c (snd (k_now c e)))) (tc_Nonce cl) (tc_ExpiresAt cl) seen)"
    using assms(5-7) by (simp add: accept_def Let_def gm_wf_def map_of_filter_snd gm_get_def)
  with assms show ?thesis by (auto simp: authenticate_iff)
qed

definition ticking_kube :: "cluster kube" where
  "ticking_kube = mem_kube\<lparr>k_now := (\<lambda>cl. (cl_now cl, cl\<lparr>cl_now := cl_now cl + 200\<rparr>))\<rparr>"

theorem replay_at_expiry_witness:
  "\<exists>snap. fst (fst (run_state (authenticate ticking_kube snap (Some [(''n'', 300)])) sample_world)) =
     Inr (claimsFor snap ''snap'' ''n'' 300)"
proof -
  obtain grant tok where auth: "authorised sample_secret (sampleSnap grant tok) (claimsFor (sampleSnap grant tok) ''snap'' ''n'' 300)"
    using sample_authorised by blast
  let ?snap = "sampleSnap grant tok"
  have get: "o_get (k_secrets ticking_kube) (requestKey ?snap) (w_env sample_world) = (Inr sample_secret, w_env sample_world)"
    using sample_secret_get [of ?snap] by (simp add: ticking_kube_def sampleSnap_def sample_request_def)
  have "fst (fst (run_state (authenticate ticking_kube ?snap (Some [(''n'', 300)])) sample_world)) =
     Inr (claimsFor ?snap ''snap'' ''n'' 300)"
    by (rule replay_at_expiry [OF get auth])
      (simp_all add: claimsFor_def ticking_kube_def sample_world_def mem_defs gm_wf_def)
  then show ?thesis by blast
qed

section \<open>The log of a Snapshot\<close>

text \<open>The specification: the reports so far, by outcome, and the last ones of each.\<close>

definition successEntry :: "log_info \<Rightarrow> log_entry" where
  "successEntry info = \<lparr>lg_Start = Some (li_StartTime info), lg_End = Some (li_EndTime info), lg_Error = ''''\<rparr>"

definition failureEntry :: "log_info \<Rightarrow> log_entry" where
  "failureEntry info = (successEntry info)\<lparr>lg_Error := take maxLogBytes (li_Log info)\<rparr>"

definition isSuccess :: "log_info \<Rightarrow> bool" where
  "isSuccess info = (li_Type info = ''success'')"

definition lastN :: "nat \<Rightarrow> 'a list \<Rightarrow> 'a list" where
  "lastN n xs = drop (length xs - n) xs"

lemma lastN_snoc: "lastN n (xs @ [x]) = (if n \<le> length xs then drop 1 (lastN n xs @ [x]) else lastN n xs @ [x])"
  by (auto simp: lastN_def Suc_diff_le)

lemma length_lastN [simp]: "length (lastN n xs) = min n (length xs)"
  by (simp add: lastN_def)

text \<open>The component after a run of \<open>UpdateSnapshot\<close> calls.\<close>

definition reported :: "log_info list \<Rightarrow> component \<Rightarrow> component" where
  "reported infos cmp = fold (\<lambda>info. recordLog (clampInfo info)) infos cmp"

definition statsOf :: "component \<Rightarrow> log_stats" where
  "statsOf cmp = (case cmp_LogStats cmp of None \<Rightarrow> zero_log_stats | Some st \<Rightarrow> st)"

lemma clampInfo_simps [simp]:
  "li_Type (clampInfo info) = li_Type info" "li_StartTime (clampInfo info) = li_StartTime info"
  "li_EndTime (clampInfo info) = li_EndTime info" "li_LogLimit (clampInfo info) = max 0 (min maxLogLimit (li_LogLimit info))"
  "li_Log (clampInfo info) = take maxLogBytes (li_Log info)"
  by (auto simp: clampInfo_def Let_def maxLogLimit_def)

lemma trimLogHistory_lastN:
  "trimLogHistory (lastN (nat L) xs @ [x]) (max 0 L) = lastN (nat L) (xs @ [x])"
  by (auto simp: trimLogHistory_def lastN_snoc min_def)

lemma statsOf_recordLog:
  "statsOf (recordLog (clampInfo info) cmp) =
     (let st = statsOf cmp; L = max 0 (min maxLogLimit (li_LogLimit info)) in
      if isSuccess info
      then \<lparr>lst_Start = (case lst_Start st of None \<Rightarrow> Some (li_StartTime info) | Some t \<Rightarrow> Some t),
            lst_End = Some (li_EndTime info), lst_TotalFailedCount = lst_TotalFailedCount st,
            lst_LastFailedStats = lst_LastFailedStats st, lst_TotalSucceededCount = lst_TotalSucceededCount st + 1,
            lst_LastSucceededStats = trimLogHistory (lst_LastSucceededStats st @ [successEntry info]) L\<rparr>
      else \<lparr>lst_Start = (case lst_Start st of None \<Rightarrow> Some (li_StartTime info) | Some t \<Rightarrow> Some t),
            lst_End = Some (li_EndTime info), lst_TotalFailedCount = lst_TotalFailedCount st + 1,
            lst_LastFailedStats = trimLogHistory (lst_LastFailedStats st @ [failureEntry info]) L,
            lst_TotalSucceededCount = lst_TotalSucceededCount st,
            lst_LastSucceededStats = lst_LastSucceededStats st\<rparr>)"
  by (auto simp: statsOf_def recordLog_def Let_def isSuccess_def successEntry_def failureEntry_def split: option.splits)

lemma reported_snoc: "reported (infos @ [info]) cmp = recordLog (clampInfo info) (reported infos cmp)"
  by (simp add: reported_def)

text \<open>
  Property C29. The log of a Snapshot after any run of reports by an archiver that always asks for the
  same history length: the counters count the reports of each outcome (modulo 2 to the 64), and
  each history holds exactly the last reports of its outcome, as many as asked for but at most
  \<open>maxLogLimit\<close>, each error text cut at \<open>maxLogBytes\<close>.
\<close>

theorem log_history_exact:
  assumes "\<forall>info \<in> set infos. li_LogLimit info = L"
  shows "let st = statsOf (reported infos zero_component); n = nat (min maxLogLimit L);
             good = filter isSuccess infos; bad = filter (\<lambda>i. \<not> isSuccess i) infos
         in lst_TotalSucceededCount st = of_nat (length good) \<and> lst_TotalFailedCount st = of_nat (length bad) \<and>
            lst_LastSucceededStats st = lastN n (map successEntry good) \<and>
            lst_LastFailedStats st = lastN n (map failureEntry bad)"
  using assms
proof (induction infos rule: rev_induct)
  case Nil
  then show ?case by (simp add: reported_def statsOf_def zero_component_def zero_log_stats_def lastN_def)
next
  case (snoc info infos)
  then show ?case
    by (cases "isSuccess info")
      (simp_all add: reported_snoc statsOf_recordLog Let_def trimLogHistory_lastN)
qed

definition sample_reports :: "log_info list" where
  "sample_reports = map (\<lambda>(ty, t). \<lparr>li_Type = ty, li_Log = ''disk full'', li_LogLimit = 2, li_StartTime = t, li_EndTime = t\<rparr>)
     [(''success'', ''1''), (''failure'', ''2''), (''success'', ''3''), (''success'', ''4'')]"

theorem log_history_exact_witness:
  "map lg_Start (lst_LastSucceededStats (statsOf (reported sample_reports zero_component))) = [Some ''3'', Some ''4''] \<and>
   lst_TotalSucceededCount (statsOf (reported sample_reports zero_component)) = 3 \<and>
   map lg_Error (lst_LastFailedStats (statsOf (reported sample_reports zero_component))) = [''disk full'']"
  using log_history_exact [of sample_reports 2]
  by (simp add: sample_reports_def Let_def isSuccess_def lastN_def successEntry_def failureEntry_def
      maxLogLimit_def maxLogBytes_def)

text \<open>
  Whatever lengths are asked for, in whatever order, a history never exceeds the cap, and
  no error text exceeds its own.
\<close>

definition logBounded :: "log_stats \<Rightarrow> bool" where
  "logBounded st = (int (length (lst_LastSucceededStats st)) \<le> maxLogLimit \<and>
     int (length (lst_LastFailedStats st)) \<le> maxLogLimit \<and>
     list_all (\<lambda>e. length (lg_Error e) \<le> maxLogBytes) (lst_LastSucceededStats st @ lst_LastFailedStats st))"

lemma list_all_trimLogHistory:
  "list_all P xs \<Longrightarrow> P x \<Longrightarrow> list_all P (trimLogHistory (xs @ [x]) L)"
  by (auto simp: trimLogHistory_def list_all_iff dest: in_set_dropD)

lemma length_trimLogHistory:
  "int (length xs) \<le> maxLogLimit \<Longrightarrow> L \<le> maxLogLimit \<Longrightarrow> int (length (trimLogHistory (xs @ [x]) L)) \<le> maxLogLimit"
  by (auto simp: trimLogHistory_def)

lemma recordLog_bounded:
  assumes "logBounded (statsOf cmp)"
  shows "logBounded (statsOf (recordLog (clampInfo info) cmp))"
proof -
  have "max 0 (min maxLogLimit (li_LogLimit info)) \<le> maxLogLimit" by (simp add: maxLogLimit_def)
  with assms show ?thesis
    by (simp add: statsOf_recordLog logBounded_def Let_def length_trimLogHistory list_all_trimLogHistory
        successEntry_def failureEntry_def)
qed

section \<open>What a command may touch\<close>

text \<open>Authentication only reads: the Secret of the Sidekick and the clock.\<close>

fun authRead :: "event \<Rightarrow> bool" where
  "authRead (EvSecret (RGet _) _) = True"
| "authRead EvNow = True"
| "authRead _ = False"

text \<open>Reading the Snapshot at \<open>key\<close>, or writing to its status an object with \<open>P\<close>.\<close>

fun snapStep :: "nsname \<Rightarrow> (snapshot \<Rightarrow> bool) \<Rightarrow> event \<Rightarrow> bool" where
  "snapStep key P (EvSnapshot (RGet k) _) = (k = key)"
| "snapStep key P (EvSnapshot (RStatusPatch _ s) _) = P s"
| "snapStep key P _ = False"

text \<open>
  What is asked of the API server: a read at \<open>key\<close> answers with objects that have \<open>P\<close>, and so
  does a status patch that sends one.
\<close>

definition serves :: "('e, snapshot) ops \<Rightarrow> nsname \<Rightarrow> (snapshot \<Rightarrow> bool) \<Rightarrow> bool" where
  "serves api key P \<longleftrightarrow>
     (\<forall>e s. fst (o_get api key e) = Inr s \<longrightarrow> P s) \<and>
     (\<forall>cur obj e s. P obj \<longrightarrow> fst (o_status_patch api cur obj e) = Inr s \<longrightarrow> P s)"

lemma nsname_eta [simp]: "\<lparr>nn_Namespace = nn_Namespace key, nn_Name = nn_Name key\<rparr> = (key :: nsname)"
  by simp

lemma servesD:
  assumes "serves api key P"
  shows "run_state (kGet snapshot_kind api key) w = (Inr s, w') \<Longrightarrow> P s"
    and "P obj \<Longrightarrow> run_state (kStatusPatch snapshot_kind api cur obj) w = (Inr s, w') \<Longrightarrow> P s"
  using assms by (auto simp: serves_def kGet_def kStatusPatch_def run_api_call)

text \<open>
  The contract of a predicate on Snapshots that the handlers keep: it fixes the object's key,
  and no step of \<open>UpdateSnapshot\<close> leaves it.
\<close>

locale snapshot_invariant =
  fixes key :: nsname and P :: "snapshot \<Rightarrow> bool"
  assumes keyed: "P s \<Longrightarrow> ObjectKeyFromMeta (sn_Meta s) = key"
    and init: "P s \<Longrightarrow> P (initLogComponent s)"
    and logged: "P s \<Longrightarrow> P (s\<lparr>sn_Components :=
      gm_set ComponentLog (recordLog (clampInfo info) (logComponent s)) (sn_Components s)\<rparr>)"
    and copy: "P cur \<Longrightarrow> P s \<Longrightarrow> P (cur\<lparr>sn_TotalComponents := sn_TotalComponents s, sn_Components := sn_Components s\<rparr>)"
begin

lemma emits_updateSnapshotStatus:
  assumes "serves (k_snapshots c) key P" "P s"
  shows "emits (snapStep key P) (updateSnapshotStatus c s)"
proof -
  have patch: "emits (snapStep key P) (kStatusPatch snapshot_kind (k_snapshots c) cur
      (cur\<lparr>sn_TotalComponents := sn_TotalComponents s, sn_Components := sn_Components s\<rparr>))"
    if "run_state (kGet snapshot_kind (k_snapshots c) key) w = (Inr cur, w')" for w w' cur
    using copy [OF servesD(1) [OF assms(1) that] assms(2)] by (intro emits_rules) simp
  have get: "emits (snapStep key P) (kGet snapshot_kind (k_snapshots c) key)"
    by (intro emits_rules) simp
  show ?thesis
    unfolding updateSnapshotStatus_def PatchStatus_def kd_meta_simps keyed [OF assms(2)]
    by (intro emits_bind [OF emits_bind_res [OF get]] emits_rules patch)
qed

lemma updateSnapshotStatus_result:
  assumes "serves (k_snapshots c) key P" "P s" "run_state (updateSnapshotStatus c s) w = (Inr s', w')"
  shows "P s'"
proof -
  obtain r w1 where 1: "run_state (kGet snapshot_kind (k_snapshots c) key) w = (r, w1)" by fastforce
  obtain cur where r: "r = Inr cur"
    using assms(3) 1 by (cases r) (auto simp: updateSnapshotStatus_def PatchStatus_def keyed [OF assms(2)])
  let ?obj = "cur\<lparr>sn_TotalComponents := sn_TotalComponents s, sn_Components := sn_Components s\<rparr>"
  obtain r2 w2 where 2: "run_state (kStatusPatch snapshot_kind (k_snapshots c) cur ?obj) w1 = (r2, w2)" by fastforce
  have "r2 = Inr s'"
    using assms(3) 1 2 r by (cases r2) (auto simp: updateSnapshotStatus_def PatchStatus_def keyed [OF assms(2)])
  with 1 2 r show ?thesis
    using servesD [OF assms(1)] copy [OF _ assms(2)] by blast
qed

lemma emits_InitSnapshotComponentsStatus:
  assumes "serves (k_snapshots c) key P"
  shows "emits (snapStep key P) (InitSnapshotComponentsStatus c (nn_Name key) (nn_Namespace key))"
  unfolding InitSnapshotComponentsStatus_def
  using assms
  by (intro emits_bind_res emits_kGet emits_return emits_updateSnapshotStatus)
    (auto intro: init dest: servesD(1))

lemma InitSnapshotComponentsStatus_result:
  assumes "serves (k_snapshots c) key P"
    and "run_state (InitSnapshotComponentsStatus c (nn_Name key) (nn_Namespace key)) w = (Inr s, w')"
  shows "P s"
proof -
  obtain r w1 where 1: "run_state (kGet snapshot_kind (k_snapshots c) key) w = (r, w1)" by fastforce
  then obtain s0 where r: "r = Inr s0"
    using assms(2) by (cases r) (auto simp: InitSnapshotComponentsStatus_def)
  then have "run_state (updateSnapshotStatus c (initLogComponent s0)) w1 = (Inr s, w')"
    using assms(2) 1 by (simp add: InitSnapshotComponentsStatus_def)
  then show ?thesis
    using updateSnapshotStatus_result [OF assms(1)] init servesD(1) [OF assms(1)] 1 r by blast
qed

lemma emits_UpdateSnapshot:
  assumes "serves (k_snapshots c) key P"
  shows "emits (snapStep key P) (UpdateSnapshot c (nn_Name key) (nn_Namespace key) info)"
proof -
  have put: "emits (snapStep key P) (updateSnapshotStatus c (s\<lparr>sn_Components := comps\<rparr>))"
    if "run_state (InitSnapshotComponentsStatus c (nn_Name key) (nn_Namespace key)) w = (Inr s, w')"
      and "gm_put ComponentLog (recordLog (clampInfo info) (logComponent s)) (sn_Components s) = Inr comps"
    for s w w' comps
    using that emits_updateSnapshotStatus [OF assms] logged InitSnapshotComponentsStatus_result [OF assms]
    by (auto simp: gm_put_Inr_iff)
  show ?thesis
    unfolding UpdateSnapshot_def Let_def
  proof (intro emits_bind_res emits_InitSnapshotComponentsStatus assms emits_return)
    fix w s w'
    assume "run_state (InitSnapshotComponentsStatus c (nn_Name key) (nn_Namespace key)) w = (Inr s, w')"
    from put [OF this] show "emits (snapStep key P)
        (case gm_put ComponentLog (recordLog (clampInfo info) (logComponent s)) (sn_Components s) of
           Inl panic \<Rightarrow> ret (Inl panic)
         | Inr comps \<Rightarrow> do {
             r2 \<leftarrow> updateSnapshotStatus c (s\<lparr>sn_Components := comps\<rparr>);
             (case r2 of Inl e \<Rightarrow> ret (Inl e) | Inr _ \<Rightarrow> ret (Inr ()))
           })"
      by (cases "gm_put ComponentLog (recordLog (clampInfo info) (logComponent s)) (sn_Components s)")
        (auto intro!: emits_rules)
  qed
qed

lemma emits_GetSnapshot: "emits (snapStep key P) (GetSnapshot SP c (nn_Name key) (nn_Namespace key))"
  unfolding GetSnapshot_def by (intro emits_rules) simp

lemma emits_dispatch:
  assumes "serves (k_snapshots c) key P" "key = \<lparr>nn_Namespace = ss2_NameSpace snap, nn_Name = tc_SnapshotName cl\<rparr>"
  shows "emits (snapStep key P) (dispatch SP c req snap cl)"
  using emits_UpdateSnapshot [OF assms(1)] emits_GetSnapshot
  unfolding dispatch_def by (auto intro!: emits_rules simp: assms(2))

end

text \<open>The key alone is such an invariant, and so is the key with a bounded log.\<close>

definition snapKey :: "snapshot \<Rightarrow> nsname" where
  "snapKey s = ObjectKeyFromMeta (sn_Meta s)"

definition boundedSnapshot :: "nsname \<Rightarrow> snapshot \<Rightarrow> bool" where
  "boundedSnapshot key s = (snapKey s = key \<and> logBounded (statsOf (logComponent s)))"

interpretation snap_key: snapshot_invariant key "\<lambda>s. snapKey s = key" for key
  by unfold_locales (simp_all add: snapKey_def initLogComponent_def Let_def)

lemma statsOf_initLogComponent: "statsOf (logComponent (initLogComponent s)) = statsOf (logComponent s)"
  by (auto simp: statsOf_def logComponent_def initLogComponent_def Let_def ComponentLog_def zero_component_def
      split: option.splits)

interpretation snap_log: snapshot_invariant key "boundedSnapshot key" for key
proof unfold_locales
  fix s assume "boundedSnapshot key s"
  then show "boundedSnapshot key (initLogComponent s)"
    by (simp add: boundedSnapshot_def statsOf_initLogComponent) (simp add: snapKey_def initLogComponent_def Let_def)
next
  fix s info assume "boundedSnapshot key s"
  then show "boundedSnapshot key (s\<lparr>sn_Components :=
      gm_set ComponentLog (recordLog (clampInfo info) (logComponent s)) (sn_Components s)\<rparr>)"
    by (simp add: boundedSnapshot_def snapKey_def logComponent_def recordLog_bounded)
qed (simp_all add: boundedSnapshot_def snapKey_def logComponent_def)

lemma emits_authenticate: "emits authRead (authenticate c snap seen)"
  unfolding authenticate_def grpcKeys_def by (intro emits_rules; simp)

text \<open>
  Property C7. Every request to the server either is answered with the one vague error, having
  touched no Snapshot, or was authenticated, and then all it read and wrote of Snapshots is
  the status of the one Snapshot that its claims name, which the grant names too, in the
  namespace of the request.
\<close>

theorem ExecuteCommand_confined:
  assumes run: "run_state (ExecuteCommand SP c req seen) w = ((resp, seen'), w')"
    and server: "\<And>key. serves (k_snapshots c) key (\<lambda>s. snapKey s = key)"
  shows "(resp = authError \<and> (\<exists>es. w_trace w' = w_trace w @ es \<and> list_all authRead es)) \<or>
    (\<exists>snap cl es key. unmarshalSnapShot (cq_Data req) = Some snap \<and>
       fst (run_state (authenticate c snap seen) w) = (Inr cl, seen') \<and>
       key = \<lparr>nn_Namespace = ss2_NameSpace snap, nn_Name = tc_SnapshotName cl\<rparr> \<and>
       w_trace w' = w_trace w @ es \<and>
       list_all (\<lambda>v. authRead v \<or> snapStep key (\<lambda>s. snapKey s = key) v) es)"
proof (cases "unmarshalSnapShot (cq_Data req)")
  case None
  with run show ?thesis by (auto simp: ExecuteCommand_def)
next
  case (Some snap)
  obtain r seen1 w1 where auth: "run_state (authenticate c snap seen) w = ((r, seen1), w1)"
    by (metis prod.exhaust)
  from emitsD [OF emits_authenticate auth] obtain es where
    es: "w_trace w1 = w_trace w @ es" "list_all authRead es" by blast
  show ?thesis
  proof (cases r)
    case (Inl e)
    with run Some auth es show ?thesis by (auto simp: ExecuteCommand_def)
  next
    case (Inr cl)
    let ?key = "\<lparr>nn_Namespace = ss2_NameSpace snap, nn_Name = tc_SnapshotName cl\<rparr>"
    from run Some auth Inr have d: "run_state (dispatch SP c req snap cl) w1 = (resp, w')" and "seen' = seen1"
      by (auto simp: ExecuteCommand_def split: prod.splits)
    from emitsD [OF snap_key.emits_dispatch [OF server refl] d] obtain es2 where
      es2: "w_trace w' = w_trace w1 @ es2" "list_all (snapStep ?key (\<lambda>s. snapKey s = ?key)) es2" by blast
    have "list_all (\<lambda>v. authRead v \<or> snapStep ?key (\<lambda>s. snapKey s = ?key) v) (es @ es2)"
      using es(2) es2(2) by (auto simp: list_all_iff)
    with Some auth Inr es es2 \<open>seen' = seen1\<close> show ?thesis by (intro disjI2) (auto intro!: exI)
  qed
qed


lemma mem_get_snapKey: "fst (o_get (k_snapshots mem_kube) key e) = Inr s \<Longrightarrow> snapKey s = key"
  by (auto simp: mem_defs memGet_def sameKey_def snapKey_def split: option.splits dest!: find_SomeD)

lemma mem_status_patch: "fst (o_status_patch (k_snapshots mem_kube) cur obj e) = Inr s \<Longrightarrow> s = obj"
  by (auto simp: mem_defs memPatch_def split: option.splits if_splits)

lemma mem_serves: "serves (k_snapshots mem_kube) key (\<lambda>s. snapKey s = key)"
  unfolding serves_def by (auto dest: mem_get_snapKey mem_status_patch)

text \<open>A server that refuses to serve a Snapshot whose log is beyond the bounds.\<close>

definition strict_kube :: "cluster kube" where
  "strict_kube = mem_kube\<lparr>k_snapshots := (k_snapshots mem_kube)\<lparr>o_get :=
     (\<lambda>key cl. case memGet snapshot_kind key (cl_snapshots cl) of
        Inl e \<Rightarrow> (Inl e, cl)
      | Inr s \<Rightarrow> if logBounded (statsOf (logComponent s)) then (Inr s, cl) else (Inl (ApiError ''Invalid''), cl))\<rparr>\<rparr>"

lemma strict_serves: "serves (k_snapshots strict_kube) key (boundedSnapshot key)"
  by (auto simp: serves_def strict_kube_def boundedSnapshot_def memGet_def sameKey_def snapKey_def
      split: sum.splits option.splits if_splits dest!: find_SomeD mem_status_patch)


section \<open>The messages on the wire\<close>

definition validLogInfo :: "log_info \<Rightarrow> log_info" where
  "validLogInfo l = \<lparr>li_Type = toValidUTF8 (li_Type l), li_Log = toValidUTF8 (li_Log l), li_LogLimit = li_LogLimit l,
     li_StartTime = toValidUTF8 (li_StartTime l), li_EndTime = toValidUTF8 (li_EndTime l)\<rparr>"

definition validSnapShot :: "snap_shot \<Rightarrow> snap_shot" where
  "validSnapShot s = \<lparr>ss2_LogInfo = validLogInfo (ss2_LogInfo s), ss2_SidekickName = toValidUTF8 (ss2_SidekickName s),
     ss2_NameSpace = toValidUTF8 (ss2_NameSpace s), ss2_Token = toValidUTF8 (ss2_Token s),
     ss2_SnapshotToken = toValidUTF8 (ss2_SnapshotToken s)\<rparr>"

definition logInfoJson :: "log_info \<Rightarrow> json" where
  "logInfoJson l = JObj [(''type'', JStr (toValidUTF8 (li_Type l))), (''log'', JStr (toValidUTF8 (li_Log l))),
     (''logLimit'', JNum (showInt (li_LogLimit l))), (''startTime'', JStr (toValidUTF8 (li_StartTime l))),
     (''endTime'', JStr (toValidUTF8 (li_EndTime l)))]"

lemma prints_logInfo: "prints (Suc 0) (marshalLogInfo l) (logInfoJson l)"
proof -
  let ?ms = "[(''type'', encodeStr (li_Type l), JStr (toValidUTF8 (li_Type l))),
    (''log'', encodeStr (li_Log l), JStr (toValidUTF8 (li_Log l))),
    (''logLimit'', showInt (li_LogLimit l), JNum (showInt (li_LogLimit l))),
    (''startTime'', encodeStr (li_StartTime l), JStr (toValidUTF8 (li_StartTime l))),
    (''endTime'', encodeStr (li_EndTime l), JStr (toValidUTF8 (li_EndTime l)))]"
  have "prints (Suc 0) (encodeObj (map (\<lambda>(k, t, v). (k, t)) ?ms)) (JObj (map (\<lambda>(k, t, v). (k, v)) ?ms))"
    by (rule prints_encodeObj) (simp_all add: prints_encodeStr prints_showInt plainKey_def)
  then show ?thesis by (simp add: marshalLogInfo_def logInfoJson_def)
qed

lemma prints_weaken: "prints k t v \<Longrightarrow> k \<le> k' \<Longrightarrow> prints k' t v"
  unfolding prints_def by (metis order_trans)

lemma parse_marshalSnapShot:
  "parseJSON (marshalSnapShot s) = Some (JObj [(''logInfo'', logInfoJson (ss2_LogInfo s)),
     (''sidekickName'', JStr (toValidUTF8 (ss2_SidekickName s))), (''namespace'', JStr (toValidUTF8 (ss2_NameSpace s))),
     (''token'', JStr (toValidUTF8 (ss2_Token s))), (''snapshotToken'', JStr (toValidUTF8 (ss2_SnapshotToken s)))])"
proof -
  let ?ms = "[(''logInfo'', marshalLogInfo (ss2_LogInfo s), logInfoJson (ss2_LogInfo s)),
    (''sidekickName'', encodeStr (ss2_SidekickName s), JStr (toValidUTF8 (ss2_SidekickName s))),
    (''namespace'', encodeStr (ss2_NameSpace s), JStr (toValidUTF8 (ss2_NameSpace s))),
    (''token'', encodeStr (ss2_Token s), JStr (toValidUTF8 (ss2_Token s))),
    (''snapshotToken'', encodeStr (ss2_SnapshotToken s), JStr (toValidUTF8 (ss2_SnapshotToken s)))]"
  have "prints (Suc (Suc 0)) (encodeObj (map (\<lambda>(k, t, v). (k, t)) ?ms)) (JObj (map (\<lambda>(k, t, v). (k, v)) ?ms))"
    by (rule prints_encodeObj) (simp_all add: prints_encodeStr prints_logInfo plainKey_def)
  from parseJSON_prints [OF this] show ?thesis by (simp add: marshalSnapShot_def)
qed

lemma parse_BindingPayload:
  "parseJSON (BindingPayload s) = Some (JObj [(''sidekickName'', JStr (toValidUTF8 (ss2_SidekickName s))),
     (''namespace'', JStr (toValidUTF8 (ss2_NameSpace s))), (''logInfo'', logInfoJson (ss2_LogInfo s))])"
proof -
  let ?ms = "[(''sidekickName'', encodeStr (ss2_SidekickName s), JStr (toValidUTF8 (ss2_SidekickName s))),
    (''namespace'', encodeStr (ss2_NameSpace s), JStr (toValidUTF8 (ss2_NameSpace s))),
    (''logInfo'', marshalLogInfo (ss2_LogInfo s), logInfoJson (ss2_LogInfo s))]"
  have "prints (Suc (Suc 0)) (encodeObj (map (\<lambda>(k, t, v). (k, t)) ?ms)) (JObj (map (\<lambda>(k, t, v). (k, v)) ?ms))"
    by (rule prints_encodeObj) (simp_all add: prints_encodeStr prints_logInfo plainKey_def)
  from parseJSON_prints [OF this] show ?thesis by (simp add: BindingPayload_def)
qed

lemma decode_logInfo:
  assumes "- (2 ^ 63) \<le> li_LogLimit l" "li_LogLimit l < 2 ^ 63"
  shows "decodeObj logInfoSetters (logInfoJson l) zero_log_info = Some (validLogInfo l)"
  using assms by (simp add: logInfoSetters_def logInfoJson_def inRange_def parseInt_showInt zero_log_info_def validLogInfo_def)

lemma snapShot_roundtrip:
  assumes "- (2 ^ 63) \<le> li_LogLimit (ss2_LogInfo s)" "li_LogLimit (ss2_LogInfo s) < 2 ^ 63"
  shows "unmarshalSnapShot (marshalSnapShot s) = Some (validSnapShot s)"
  using decode_logInfo [OF assms]
  by (simp add: unmarshalSnapShot_def unmarshal_def parse_marshalSnapShot snapShotSetters_def zero_snap_shot_def
      validSnapShot_def inRange_def)

lemma showInt_inj: "showInt i = showInt j \<longleftrightarrow> i = j"
  by (metis intOfLit_showInt option.inject)

text \<open>
  The payload a token is bound to identifies the request: two requests with the same
  payload agree, up to invalid UTF-8, in everything but the token and the grant.
\<close>

theorem BindingPayload_binds:
  assumes "BindingPayload s = BindingPayload t"
  shows "validSnapShot (s\<lparr>ss2_Token := '''', ss2_SnapshotToken := ''''\<rparr>) =
    validSnapShot (t\<lparr>ss2_Token := '''', ss2_SnapshotToken := ''''\<rparr>)"
proof -
  have "parseJSON (BindingPayload s) = parseJSON (BindingPayload t)" using assms by simp
  then show ?thesis
    by (simp add: parse_BindingPayload logInfoJson_def validSnapShot_def validLogInfo_def showInt_inj)
qed

text \<open>The sample request on the wire: base64 and names are ASCII, so nothing changes.\<close>

lemma sampleSnap_roundtrip:
  assumes "list_all (\<lambda>ch. byteVal ch < 128) grant" "list_all (\<lambda>ch. byteVal ch < 128) tok"
  shows "unmarshalSnapShot (marshalSnapShot (sampleSnap grant tok)) = Some (sampleSnap grant tok)"
proof -
  have "validSnapShot (sampleSnap grant tok) = sampleSnap grant tok"
    using assms by (simp add: validSnapShot_def validLogInfo_def sampleSnap_def sample_request_def zero_snap_shot_def
        zero_log_info_def toValidUTF8_ascii)
  then show ?thesis
    using snapShot_roundtrip [of "sampleSnap grant tok"] by (simp add: sampleSnap_def sample_request_def)
qed

definition sample_server :: server_params where
  "sample_server = \<lparr>sp_marshalSnapshot = (\<lambda>_. Inr ''{}''), sp_errText = (\<lambda>_. ''error'')\<rparr>"

theorem ExecuteCommand_confined_witness:
  "\<exists>snap cl resp seen' w'. authorised sample_secret snap cl \<and>
     unmarshalSnapShot (marshalSnapShot snap) = Some snap \<and> run_state (ExecuteCommand sample_server mem_kube
       \<lparr>cq_Command = CommandUpdateSnapshot, cq_Data = marshalSnapShot snap\<rparr> newReplayCache) sample_world =
       ((resp, seen'), w') \<and>
     (resp = authError \<or> list_all (\<lambda>v. authRead v \<or> (\<exists>key. snapStep key (\<lambda>s. snapKey s = key) v)) (w_trace w'))"
proof -
  obtain grant tok where
    auth: "authorised sample_secret (sampleSnap grant tok) (claimsFor (sampleSnap grant tok) ''snap'' ''n'' 300)"
    and wire: "unmarshalSnapShot (marshalSnapShot (sampleSnap grant tok)) = Some (sampleSnap grant tok)"
    using sample_authorised sampleSnap_roundtrip by blast
  let ?req = "\<lparr>cq_Command = CommandUpdateSnapshot, cq_Data = marshalSnapShot (sampleSnap grant tok)\<rparr>"
  obtain resp seen' w' where run: "run_state (ExecuteCommand sample_server mem_kube ?req newReplayCache) sample_world =
      ((resp, seen'), w')" by (metis prod.exhaust)
  have nil: "w_trace sample_world = []" by (simp add: sample_world_def mem_defs)
  have "resp = authError \<or> list_all (\<lambda>v. authRead v \<or> (\<exists>key. snapStep key (\<lambda>s. snapKey s = key) v)) (w_trace w')"
    using ExecuteCommand_confined [OF run mem_serves] nil by (auto simp: list_all_iff)
  with run auth wire show ?thesis by blast
qed

end
