(* ===== verification/Process.thy ===== *)
theory Process
  imports Reconciler Snapshot_Server
begin

text \<open>
  The running operator: the reconciler with its work queue and the gRPC server in one process,
  beside a cluster that others change at any time. A step relation interleaves the changes from
  outside, the watches, the reconciliations and the commands of archivers; invariants of the
  reachable states are proved by rule induction, through one interface for facts about events.
\<close>

section \<open>Steps of the process\<close>

text \<open>
  The state: the world with all requests sent so far, \<open>grpcOnce\<close>, the replay cache of the server and
  the queue of requests. The server answers only once it has been started.
\<close>

record 'e process =
  pc_World :: "('e, event) world"
  pc_Started :: bool
  pc_Seen :: replay_cache
  pc_Queue :: "nsname list"

definition initial :: "'e \<Rightarrow> 'e process" where
  "initial e = \<lparr>pc_World = \<lparr>w_env = e, w_trace = []\<rparr>, pc_Started = False, pc_Seen = newReplayCache, pc_Queue = []\<rparr>"

text \<open>A request comes back to the queue after an error or when the reconciler asks for it.\<close>

definition requeues :: "reconcile_result \<Rightarrow> bool" where
  "requeues res = (snd res \<noteq> None \<or> Requeue (fst res) \<or> RequeueAfter (fst res) > 0)"

inductive pstep ::
    "dparams \<Rightarrow> server_params \<Rightarrow> 'e kube \<Rightarrow> bool \<Rightarrow> 'e process \<Rightarrow> 'e process \<Rightarrow> bool"
  for P :: dparams and SP :: server_params and c :: "'e kube" and knowsMW :: bool
  where
    outside: "pstep P SP c knowsMW s (s\<lparr>pc_World := (pc_World s)\<lparr>w_env := e\<rparr>\<rparr>)"
  | watch: "run_state (SetupWithManager c knowsMW x) (pc_World s) = (ks, w) \<Longrightarrow>
      pstep P SP c knowsMW s (s\<lparr>pc_World := w, pc_Queue := pc_Queue s @ ks\<rparr>)"
  | reconcile: "req \<in> set (pc_Queue s) \<Longrightarrow>
      run_state (Reconcile P c (pc_Started s) req) (pc_World s) = ((res, started), w) \<Longrightarrow>
      pstep P SP c knowsMW s (s\<lparr>pc_World := w, pc_Started := started,
        pc_Queue := remove1 req (pc_Queue s) @ (if requeues res then [req] else [])\<rparr>)"
  | serve: "pc_Started s \<Longrightarrow>
      run_state (ExecuteCommand SP c q (pc_Seen s)) (pc_World s) = ((resp, seen), w) \<Longrightarrow>
      pstep P SP c knowsMW s (s\<lparr>pc_World := w, pc_Seen := seen\<rparr>)"

inductive reachable :: "dparams \<Rightarrow> server_params \<Rightarrow> 'e kube \<Rightarrow> bool \<Rightarrow> 'e process \<Rightarrow> bool"
  for P :: dparams and SP :: server_params and c :: "'e kube" and knowsMW :: bool
  where
    start: "reachable P SP c knowsMW (initial e)"
  | move: "reachable P SP c knowsMW s \<Longrightarrow> pstep P SP c knowsMW s s' \<Longrightarrow> reachable P SP c knowsMW s'"

inductive_cases pstepE: "pstep P SP c knowsMW s s'"

abbreviation pc_Trace :: "'e process \<Rightarrow> event list" where
  "pc_Trace s \<equiv> w_trace (pc_World s)"

section \<open>Facts about every event\<close>

text \<open>
  The interface of a predicate that every request of every part of the operator satisfies.
\<close>

locale event_safety =
  fixes p :: "event \<Rightarrow> bool"
  assumes setup_emits: "emits p (SetupWithManager (c :: 'e kube) knowsMW x)"
    and reconcile_emits: "emits p (Reconcile P (c :: 'e kube) started req)"
    and command_emits: "emits p (ExecuteCommand SP (c :: 'e kube) q seen)"
begin

lemma step_emits: "pstep P SP (c :: 'e kube) knowsMW s s' \<Longrightarrow> \<exists>es. pc_Trace s' = pc_Trace s @ es \<and> list_all p es"
  by (erule pstepE) (auto dest: emitsD [OF setup_emits] emitsD [OF reconcile_emits] emitsD [OF command_emits])

theorem reachable_events: "reachable P SP (c :: 'e kube) knowsMW s \<Longrightarrow> list_all p (pc_Trace s)"
  by (induction rule: reachable.induct) (auto simp: initial_def dest!: step_emits)

end

text \<open>The requests each part can send at all.\<close>

lemma emits_SetupWithManager [emits_rules]:
  assumes "\<And>ns b. p (EvListSidekicks ns b)"
  shows "emits p (SetupWithManager c knowsMW x)"
proof (cases x)
  case (WSidekick sk)
  show ?thesis unfolding SetupWithManager_def WSidekick watched.case by (rule emits_return)
next
  case (WPod pod)
  show ?thesis unfolding SetupWithManager_def WPod watched.case leaderHandler_def
    by (intro emits_rules) (simp_all add: assms)
next
  case (WManifestWork mw)
  show ?thesis unfolding SetupWithManager_def WManifestWork watched.case mwHandler_def
    by (intro emits_rules) (simp_all add: assms)
qed

lemma emits_ExecuteCommand [emits_rules]:
  assumes "\<And>k b. p (EvSecret (RGet k) b)" "p EvNow" "\<And>k b. p (EvSnapshot (RGet k) b)"
    and "\<And>x y b. p (EvSnapshot (RStatusPatch x y) b)"
  shows "emits p (ExecuteCommand SP c q seen)"
  unfolding ExecuteCommand_def authenticate_def grpcKeys_def dispatch_def UpdateSnapshot_def GetSnapshot_def
    InitSnapshotComponentsStatus_def updateSnapshotStatus_def Let_def
  by (intro emits_rules) (simp_all add: assms)

lemma emits_reconcileLocal [emits_rules]:
  assumes "\<And>k b. p (EvSidekick (RGet k) b)" "\<And>x b. p (EvSidekick (RCreate x) b)" "\<And>x y b. p (EvSidekick (RPatch x y) b)"
    and "\<And>x y b. p (EvSidekick (RStatusPatch x y) b)" "\<And>r b. p (EvPod r b)" "\<And>ns sel b. p (EvListPods ns sel b)"
  shows "emits p (reconcileLocal P c req sk)"
  unfolding reconcileLocal_def handleSidekickFinalizer_def terminate_def followLeader_def ensurePod_def syncExistingPod_def
  by (intro emits_rules) (simp_all add: assms)

text \<open>Once \<open>grpcOnce\<close> has fired, its function is not run again.\<close>

lemma emits_grpcOnceDo_flag:
  assumes "\<not> started \<Longrightarrow> p EvServe" "\<And>k b. p (EvPod (RGet k) b)" "\<And>r b. \<not> started \<Longrightarrow> p (EvExport r b)"
  shows "emits p (grpcOnceDo P c started sk)"
proof (cases started)
  case True
  then show ?thesis by (simp add: grpcOnceDo_def emits_return)
next
  case False
  show ?thesis by (rule emits_grpcOnceDo) (simp_all add: assms False)
qed

lemma emits_ReconcileDistributedSidekick:
  assumes "\<And>k b. p (EvSidekick (RGet k) b)" "\<And>x b. p (EvSidekick (RCreate x) b)" "\<And>x y b. p (EvSidekick (RPatch x y) b)"
    and "\<And>x y b. p (EvSidekick (RStatusPatch x y) b)" "\<And>r b. p (EvPod r b)" "\<And>ns sel b. p (EvListPods ns sel b)"
    and "\<And>r b. p (EvMW r b)" "\<And>n b. p (EvRandom n b)" "\<And>k b. p (EvOCMGet k b)" "\<And>ns sel b. p (EvOCMList ns sel b)"
    and "\<And>b. p (EvListNamespaces b)" "\<And>k b. p (EvSecret (RGet k) b)" "\<And>x b. p (EvSecret (RCreate x) b)"
    and "\<And>x s f1 f2 b. p (EvSecret (RPatch x (fillKeys s f1 f2 x)) b)"
    and "\<not> started \<Longrightarrow> p EvServe" "\<And>r b. \<not> started \<Longrightarrow> p (EvExport r b)"
  shows "emits p (ReconcileDistributedSidekick P c started req)"
  unfolding ReconcileDistributedSidekick_def handleDistributedSidekickFinalizer_def terminateManifestWork_def
    followDistributedLeader_def ensureMW_def syncMW_def updateDistributedSidekickStatus_eq
  supply emits_grpcOnceDo [emits_rules del]
  by (intro emits_rules emits_grpcOnceDo_flag) (simp_all add: assms)

lemma emits_Reconcile:
  assumes "\<And>k b. p (EvSidekick (RGet k) b)" "\<And>x b. p (EvSidekick (RCreate x) b)" "\<And>x y b. p (EvSidekick (RPatch x y) b)"
    and "\<And>x y b. p (EvSidekick (RStatusPatch x y) b)" "\<And>r b. p (EvPod r b)" "\<And>ns sel b. p (EvListPods ns sel b)"
    and "\<And>r b. p (EvMW r b)" "\<And>n b. p (EvRandom n b)" "\<And>k b. p (EvOCMGet k b)" "\<And>ns sel b. p (EvOCMList ns sel b)"
    and "\<And>b. p (EvListNamespaces b)" "\<And>k b. p (EvSecret (RGet k) b)" "\<And>x b. p (EvSecret (RCreate x) b)"
    and "\<And>x s f1 f2 b. p (EvSecret (RPatch x (fillKeys s f1 f2 x)) b)"
    and "\<not> started \<Longrightarrow> p EvServe" "\<And>r b. \<not> started \<Longrightarrow> p (EvExport r b)"
  shows "emits p (Reconcile P c started req)"
  unfolding Reconcile_def by (intro emits_rules emits_ReconcileDistributedSidekick) (simp_all add: assms)

text \<open>Secrets: an existing key is never replaced, and no Secret is deleted.\<close>

interpretation keys: event_safety keepsKeys
  by (unfold_locales; intro emits_rules emits_Reconcile) (simp_all add: keysOf_fillKeys)

text \<open>Snapshots: nothing but reads and writes of the status. Sidekicks: never deleted.\<close>

fun sparesObjects :: "event \<Rightarrow> bool" where
  "sparesObjects (EvSnapshot (RGet _) _) = True"
| "sparesObjects (EvSnapshot (RStatusPatch _ _) _) = True"
| "sparesObjects (EvSnapshot _ _) = False"
| "sparesObjects (EvSidekick (RDelete _) _) = False"
| "sparesObjects _ = True"

interpretation spares: event_safety sparesObjects
  by (unfold_locales; intro emits_rules emits_Reconcile) simp_all

section \<open>The server and the Snapshots\<close>

text \<open>A trace in which no Snapshot is touched before the server has been started.\<close>

fun touchesSnapshot :: "event \<Rightarrow> bool" where
  "touchesSnapshot (EvSnapshot _ _) = True"
| "touchesSnapshot _ = False"

fun servedFirst :: "bool \<Rightarrow> event list \<Rightarrow> bool" where
  "servedFirst started [] = True"
| "servedFirst started (v # vs) = ((touchesSnapshot v \<longrightarrow> started) \<and> servedFirst (started \<or> v = EvServe) vs)"

lemma servedFirst_append:
  "servedFirst started (vs @ ws) \<longleftrightarrow> servedFirst started vs \<and> servedFirst (started \<or> EvServe \<in> set vs) ws"
  by (induction vs arbitrary: started) (auto simp: disj_assoc eq_commute [of EvServe])

lemma servedFirst_untouched: "list_all (\<lambda>v. \<not> touchesSnapshot v) vs \<Longrightarrow> servedFirst started vs"
  by (induction vs arbitrary: started) auto

lemma servedFirst_started [simp]: "servedFirst True vs"
  by (induction vs) auto

text \<open>The state of \<open>grpcOnce\<close> tells whether the server has been started, which happens once.\<close>

definition server_inv :: "'e process \<Rightarrow> bool" where
  "server_inv s \<longleftrightarrow> count_list (pc_Trace s) EvServe = (if pc_Started s then 1 else 0) \<and> servedFirst False (pc_Trace s)"

lemma server_inv_serve_iff: "server_inv s \<Longrightarrow> pc_Started s \<longleftrightarrow> EvServe \<in> set (pc_Trace s)"
  using count_list_0_iff [of "pc_Trace s" EvServe] by (auto simp: server_inv_def split: if_splits)

lemma server_inv_quiet:
  assumes "server_inv s" "pc_Trace s' = pc_Trace s @ es" "list_all (\<lambda>v. v \<noteq> EvServe) es" "pc_Started s' = pc_Started s"
    and "list_all (\<lambda>v. \<not> touchesSnapshot v) es \<or> pc_Started s"
  shows "server_inv s'"
  using assms server_inv_serve_iff [OF assms(1)] servedFirst_untouched
  by (auto simp: server_inv_def servedFirst_append no_serve_count)

lemma Reconcile_untouched: "emits (\<lambda>v. \<not> touchesSnapshot v) (Reconcile P c started req)"
  by (rule emits_Reconcile) simp_all

lemma setup_untouched: "emits (\<lambda>v. v \<noteq> EvServe \<and> \<not> touchesSnapshot v) (SetupWithManager c knowsMW x)"
  by (intro emits_rules) simp_all

lemma command_not_serve: "emits (\<lambda>v. v \<noteq> EvServe) (ExecuteCommand SP c q seen)"
  by (intro emits_rules) simp_all

lemma server_inv_step:
  assumes "server_inv s" "pstep P SP c knowsMW s s'"
  shows "server_inv s'"
  using assms(2)
proof cases
  case (outside e)
  then show ?thesis using assms(1) by (simp add: server_inv_def)
next
  case (watch x ks w)
  from emitsD [OF setup_untouched watch(2)] obtain es where
    "w_trace w = pc_Trace s @ es" "list_all (\<lambda>v. v \<noteq> EvServe \<and> \<not> touchesSnapshot v) es" by blast
  then show ?thesis by (intro server_inv_quiet [OF assms(1), of _ es]) (auto simp: watch(1) list_all_iff)
next
  case (reconcile req res started w)
  from emitsD [OF Reconcile_untouched reconcile(3)] startsOnceD [OF startsOnce_Reconcile reconcile(3)] obtain es where
    "w_trace w = pc_Trace s @ es" "list_all (\<lambda>v. \<not> touchesSnapshot v) es"
    "count_list es EvServe = (if started \<and> \<not> pc_Started s then 1 else 0)" "pc_Started s \<longrightarrow> started" by auto
  then show ?thesis
    using assms(1) servedFirst_untouched by (auto simp: server_inv_def reconcile(1) servedFirst_append)
next
  case (serve q resp seen w)
  from emitsD [OF command_not_serve serve(3)] obtain es where
    "w_trace w = pc_Trace s @ es" "list_all (\<lambda>v. v \<noteq> EvServe) es" by blast
  then show ?thesis by (intro server_inv_quiet [OF assms(1), of _ es]) (auto simp: serve(1,2))
qed

lemma reachable_server_inv: "reachable P SP c knowsMW s \<Longrightarrow> server_inv s"
proof (induction rule: reachable.induct)
  case (start e)
  show ?case by (simp add: server_inv_def initial_def)
next
  case (move s s')
  then show ?case by (blast intro: server_inv_step)
qed

text \<open>
  Property C19. In every state the process can reach, however the cluster, its watches, the reconciliations and the
  commands of archivers interleave, the gRPC server has been started at most once, exactly when
  \<open>grpcOnce\<close> has fired; and no Snapshot was touched before that.
\<close>

theorem server_started_once:
  assumes "reachable P SP c knowsMW s"
  shows "count_list (pc_Trace s) EvServe = (if pc_Started s then 1 else 0) \<and> servedFirst False (pc_Trace s)"
  using reachable_server_inv [OF assms] by (simp add: server_inv_def)

text \<open>
  Property C14. Over the whole life of the process, no request replaces a key that a Secret already holds, no
  Secret and no Sidekick is deleted, and of Snapshots only the status is ever written.
\<close>

theorem process_spares_objects:
  assumes "reachable P SP c knowsMW s"
  shows "list_all (\<lambda>v. keepsKeys v \<and> sparesObjects v) (pc_Trace s)"
  using keys.reachable_events [OF assms] spares.reachable_events [OF assms] by (auto simp: list_all_iff)

section \<open>A run of the process\<close>

text \<open>A Sidekick that is distributed starts the server.\<close>

definition returnsTrue :: "('s, 'a \<times> bool) state \<Rightarrow> bool" where
  "returnsTrue m = (\<forall>w. snd (fst (run_state m w)))"

lemma returnsTrue_rules:
  "returnsTrue (ret (x, True))"
  "(\<And>a. returnsTrue (f a)) \<Longrightarrow> returnsTrue (State_Monad.bind m f)"
  "returnsTrue n1 \<Longrightarrow> returnsTrue n2 \<Longrightarrow> returnsTrue (if b then n1 else n2)"
  "(\<And>i. returnsTrue (g i)) \<Longrightarrow> (\<And>j. returnsTrue (k j)) \<Longrightarrow> returnsTrue (case_sum g k r)"
  "(\<And>i j. returnsTrue (h i j)) \<Longrightarrow> returnsTrue (case_prod h p)"
  by (auto simp: returnsTrue_def split: prod.split sum.split)

lemma grpcOnceDo_true: "fst (run_state (grpcOnceDo P c started sk) w)"
  by (simp add: grpcOnceDo_def goServe_def run_api_call split: prod.split)

lemma distributed_starts_server:
  assumes "fst (o_get (k_sidekicks c) req (w_env w)) = Inr sk"
  shows "snd (fst (run_state (ReconcileDistributedSidekick P c started req) w))"
proof -
  have rest: "returnsTrue (do {
          r1 \<leftarrow> handleDistributedSidekickFinalizer c sk;
          (case r1 of
             Inl e \<Rightarrow> ret ((emptyResult, Some e), True)
           | Inr sk1 \<Rightarrow> do {
               r2 \<leftarrow> updateDistributedSidekickPhase c req sk1;
               (case r2 of
                  Inl e \<Rightarrow> ret ((emptyResult, Some e), True)
                | Inr (dropKey, sk2) \<Rightarrow>
                    if dropKey then ret ((emptyResult, None), True)
                    else do { res \<leftarrow> followDistributedLeader P c req sk2; ret (res, True) })
             }) })"
    by (intro returnsTrue_rules)
  obtain w1 where 1: "run_state (kGet sidekick_kind (k_sidekicks c) req) w = (Inr sk, w1)"
    using assms by (simp add: kGet_def run_api_call)
  obtain w2 where 2: "run_state (grpcOnceDo P c started sk) w1 = (True, w2)"
    using grpcOnceDo_true [of P c started sk w1] by (cases "run_state (grpcOnceDo P c started sk) w1") auto
  show ?thesis
    using rest [unfolded returnsTrue_def, rule_format, of w2] by (simp add: ReconcileDistributedSidekick_def 1 2)
qed

definition sample_distributed :: sidekick where
  "sample_distributed = (let sk = sample_sidekick RestartPolicyAlways in sk\<lparr>sk_Spec := (sk_Spec sk)\<lparr>ss_Distributed := True\<rparr>\<rparr>)"

lemma sample_process:
  "\<exists>s. reachable sample_dparams sample_server mem_kube True s \<and> pc_Started s"
proof -
  let ?cl = "empty_cluster\<lparr>cl_sidekicks := [sample_distributed]\<rparr>"
  let ?s0 = "initial ?cl" and ?key = "\<lparr>nn_Namespace = ''demo'', nn_Name = ''sk''\<rparr>"
  have ks: "run_state (SetupWithManager mem_kube True (WSidekick sample_distributed)) (pc_World ?s0) = ([?key], pc_World ?s0)"
    by (simp add: SetupWithManager_def sample_distributed_def sample_defs ObjectKeyFromMeta_def AlreadyReconciled_def)
  let ?s1 = "?s0\<lparr>pc_World := pc_World ?s0, pc_Queue := pc_Queue ?s0 @ [?key]\<rparr>"
  have r1: "reachable sample_dparams sample_server mem_kube True ?s1"
    by (rule move [OF start watch [OF ks]])
  obtain res started w where run:
    "run_state (Reconcile sample_dparams mem_kube (pc_Started ?s1) ?key) (pc_World ?s1) = ((res, started), w)"
    by (metis surj_pair)
  have get: "o_get (k_sidekicks mem_kube) ?key ?cl = (Inr sample_distributed, ?cl)"
    "o_get (k_pods mem_kube) ?key ?cl = (Inl NotFound, ?cl)"
    by (simp_all add: mem_defs mem_op_defs sample_distributed_def sample_defs)
  have "ss_Distributed (sk_Spec sample_distributed)" by (simp add: sample_distributed_def Let_def)
  then have "started"
    using run get distributed_starts_server [where c = mem_kube and req = ?key and sk = sample_distributed
        and P = sample_dparams and started = False
        and w = "\<lparr>w_env = ?cl, w_trace = [EvPod (RGet ?key) False, EvSidekick (RGet ?key) True]\<rparr>"]
    by (auto simp: Reconcile_def removePodFinalizerIfMarkedForDeletion_def kGet_def run_api_call initial_def)
  moreover have "?key \<in> set (pc_Queue ?s1)" by simp
  from move [OF r1 reconcile [OF this run]]
  have "reachable sample_dparams sample_server mem_kube True (?s1\<lparr>pc_World := w, pc_Started := started,
      pc_Queue := remove1 ?key (pc_Queue ?s1) @ (if requeues res then [?key] else [])\<rparr>)" .
  moreover have "pc_Started (?s1\<lparr>pc_World := w, pc_Started := started, pc_Queue := q\<rparr>) = started" for q by simp
  ultimately show ?thesis by blast
qed

theorem server_started_once_witness:
  "\<exists>s. reachable sample_dparams sample_server mem_kube True s \<and> count_list (pc_Trace s) EvServe = 1"
  using sample_process server_started_once by fastforce

theorem process_spares_objects_witness:
  "\<exists>s. reachable sample_dparams sample_server mem_kube True s \<and> pc_Started s \<and>
     list_all (\<lambda>v. keepsKeys v \<and> sparesObjects v) (pc_Trace s)"
  using sample_process process_spares_objects by blast

section \<open>The ServiceExport is tried once\<close>

fun touchesExport :: "event \<Rightarrow> bool" where
  "touchesExport (EvExport _ _) = True"
| "touchesExport _ = False"

lemma started_step_no_export:
  assumes "pstep P SP c knowsMW s s'" "pc_Started s"
  shows "pc_Started s' \<and> (\<exists>es. pc_Trace s' = pc_Trace s @ es \<and> list_all (\<lambda>v. \<not> touchesExport v) es)"
  using assms(1)
proof cases
  case (outside e)
  then show ?thesis using assms(2) by simp
next
  case (watch x ks w)
  have "emits (\<lambda>v. \<not> touchesExport v) (SetupWithManager c knowsMW x)" by (intro emits_rules) simp
  from emitsD [OF this watch(2)] show ?thesis using assms(2) watch(1) by simp
next
  case (reconcile req res started w)
  have "emits (\<lambda>v. \<not> touchesExport v) (Reconcile P c (pc_Started s) req)"
    by (rule emits_Reconcile) (simp_all add: assms(2))
  from emitsD [OF this reconcile(3)] startsOnceD [OF startsOnce_Reconcile reconcile(3)]
  show ?thesis using assms(2) reconcile(1) by auto
next
  case (serve q resp seen w)
  have "emits (\<lambda>v. \<not> touchesExport v) (ExecuteCommand SP c q (pc_Seen s))" by (intro emits_rules) simp_all
  from emitsD [OF this serve(3)] show ?thesis using serve(1,2) by simp
qed

text \<open>
  Once \<open>grpcOnce\<close> has fired, the process never touches a ServiceExport again. The
  export is attempted inside \<open>grpcOnce\<close> and its error only logged, so if the first attempt failed,
  the server stays unreachable from other clusters until the operator is restarted.
\<close>

theorem export_never_retried:
  assumes "(pstep P SP c knowsMW)\<^sup>*\<^sup>* s s'" and "pc_Started s"
  shows "\<exists>es. pc_Trace s' = pc_Trace s @ es \<and> list_all (\<lambda>v. \<not> touchesExport v) es"
proof -
  have "pc_Started s' \<and> (\<exists>es. pc_Trace s' = pc_Trace s @ es \<and> list_all (\<lambda>v. \<not> touchesExport v) es)"
    using assms
  proof (induction rule: rtranclp_induct)
    case (step s1 s2)
    then obtain es where "pc_Started s1" "pc_Trace s1 = pc_Trace s @ es" "list_all (\<lambda>v. \<not> touchesExport v) es" by blast
    with started_step_no_export [OF step.hyps(2)] show ?case by fastforce
  qed simp
  then show ?thesis by blast
qed

end
