(* ===== verification/Serving.thy ===== *)
theory Serving
  imports Process
begin

text \<open>
  The gRPC server over the life of the process: how it is started (\<open>RunGRPCServer\<close> of
  \<open>src/pkg/snapshotserver/grpc.go\<close>), and that no request is served twice. The history of a run lists the
  commands served, each with the state in which it arrived; whatever the reconciler and the outside did between them, a
  request that is sent again is refused.
\<close>

section \<open>Starting the server\<close>

definition maxRecvMsgBytes :: int where "maxRecvMsgBytes = 64 * 1024"

text \<open>\<open>CommandServer\<close>: the state of the service; the API server is an argument of its methods.\<close>

record command_server =
  cs_replay :: replay_cache

text \<open>The gRPC server with its options and its one service. The listener and its serving loop are a parameter.\<close>

record grpc_server =
  gs_MaxRecvMsgSize :: int
  gs_CommandService :: command_server

record 'l grpc_lib =
  gl_Listen :: "string \<Rightarrow> string \<Rightarrow> 'l res"
  gl_Serve :: "'l \<Rightarrow> grpc_server \<Rightarrow> goerr option"

definition RunGRPCServer :: "'l grpc_lib \<Rightarrow> goerr option" where
  "RunGRPCServer L =
     (case gl_Listen L ''tcp'' ('':'' @ showInt (sint GRPCPort)) of
        Inl e \<Rightarrow> Some (Err (''failed to listen on :'' @ showInt (sint GRPCPort)))
      | Inr lis \<Rightarrow> gl_Serve L lis \<lparr>gs_MaxRecvMsgSize = maxRecvMsgBytes,
          gs_CommandService = \<lparr>cs_replay = newReplayCache\<rparr>\<rparr>)"

section \<open>What reaches the replay cache\<close>

text \<open>
  The claims of a request that passes every check but the last, and the time at which the replay cache
  reads the clock for it.
\<close>

definition presented :: "'e kube \<Rightarrow> snap_shot \<Rightarrow> 'e \<Rightarrow> (claims \<times> int) option" where
  "presented c snap e = (case o_get (k_secrets c) (requestKey snap) e of
     (Inl _, _) \<Rightarrow> None
   | (Inr secret, e1) \<Rightarrow>
       (case Open (fst (keysOf secret)) (ss2_Token snap) of
          Inl _ \<Rightarrow> None
        | Inr cl \<Rightarrow> (case k_now c e1 of (now, e2) \<Rightarrow>
            if authorised secret snap cl \<and> tc_ExpiresAt cl \<noteq> 0 \<and> now < tc_ExpiresAt cl
            then Some (cl, fst (k_now c e2)) else None)))"

lemma authenticate_cache:
  "snd (fst (run_state (authenticate c snap seen) w)) =
     (case presented c snap (w_env w) of None \<Rightarrow> seen
      | Some (cl, now) \<Rightarrow> snd (accept now (tc_Nonce cl) (tc_ExpiresAt cl) seen))"
proof -
  obtain r e where got: "o_get (k_secrets c) (requestKey snap) (w_env w) = (r, e)" by fastforce
  note run = authenticate_def run_grpcKeys got [unfolded requestKey_def] presented_def got
  show ?thesis
  proof (cases "\<exists>secret. r = Inr secret \<and> hasKeys secret")
    case False
    then show ?thesis by (cases r) (auto simp: run authorised_def split: sum.split prod.split)
  next
    case True
    then obtain secret where r: "r = Inr secret" and keyed: "hasKeys secret" by blast
    obtain k1 k2 where keys: "keysOf secret = (k1, k2)" by (cases "keysOf secret")
    show ?thesis
      by (cases "Open k1 (ss2_Token snap)"; cases "DecryptString k2 (ss2_SnapshotToken snap)")
        (auto simp: run r keyed keys authorised_def timeNow_def run_api_call
          Verify_None bindingDigest_not_empty dest!: Verify_Some split: prod.splits option.splits)
  qed
qed

lemma authenticate_presented:
  "fst (fst (run_state (authenticate c snap seen) w)) = Inr cl \<longleftrightarrow>
   (\<exists>now. presented c snap (w_env w) = Some (cl, now) \<and> fst (accept now (tc_Nonce cl) (tc_ExpiresAt cl) seen))"
  by (auto simp: authenticate_iff presented_def Let_def authorised_def split: prod.split sum.split)

section \<open>Histories\<close>

definition commandStep :: "server_params \<Rightarrow> 'e kube \<Rightarrow> command_request \<Rightarrow> 'e process \<Rightarrow> 'e process \<Rightarrow> bool" where
  "commandStep SP c q s s' \<longleftrightarrow> pc_Started s \<and>
     (\<exists>resp seen w. run_state (ExecuteCommand SP c q (pc_Seen s)) (pc_World s) = ((resp, seen), w) \<and>
        s' = s\<lparr>pc_World := w, pc_Seen := seen\<rparr>)"

text \<open>A run of the process from its start, with the commands served and the states in which they arrived.\<close>

inductive history ::
    "dparams \<Rightarrow> server_params \<Rightarrow> 'e kube \<Rightarrow> bool \<Rightarrow> (command_request \<times> 'e process) list \<Rightarrow> 'e process \<Rightarrow> bool"
  for P :: dparams and SP :: server_params and c :: "'e kube" and knowsMW :: bool
  where
    begins: "history P SP c knowsMW [] (initial e)"
  | works: "history P SP c knowsMW h s \<Longrightarrow> pstep P SP c knowsMW s s' \<Longrightarrow> \<forall>q. \<not> commandStep SP c q s s' \<Longrightarrow>
      history P SP c knowsMW h s'"
  | serves: "history P SP c knowsMW h s \<Longrightarrow> commandStep SP c q s s' \<Longrightarrow> history P SP c knowsMW (h @ [(q, s)]) s'"

lemma commandStep_pstep: "commandStep SP c q s s' \<Longrightarrow> pstep P SP c knowsMW s s'"
  by (auto simp: commandStep_def intro: serve)

text \<open>Histories are the runs of the process.\<close>

lemma history_iff_reachable: "(\<exists>h. history P SP c knowsMW h s) \<longleftrightarrow> reachable P SP c knowsMW s"
proof
  assume "\<exists>h. history P SP c knowsMW h s"
  then obtain h where "history P SP c knowsMW h s" by blast
  then show "reachable P SP c knowsMW s"
    by (induction rule: history.induct) (blast intro: reachable.intros commandStep_pstep)+
next
  assume "reachable P SP c knowsMW s"
  then show "\<exists>h. history P SP c knowsMW h s"
    by (induction rule: reachable.induct) (blast intro: history.intros)+
qed

lemma works_keeps_cache:
  assumes "pstep P SP c knowsMW s s'" "\<forall>q. \<not> commandStep SP c q s s'"
  shows "pc_Seen s' = pc_Seen s"
  using assms by (cases rule: pstep.cases) (auto simp: commandStep_def)

text \<open>Whose request a command was, what the server took it for, and the time its replay cache read for it.\<close>

definition presentedIn :: "'e kube \<Rightarrow> command_request \<times> 'e process \<Rightarrow> (claims \<times> int) option" where
  "presentedIn c x = (case unmarshalSnapShot (cq_Data (fst x)) of None \<Rightarrow> None
     | Some snap \<Rightarrow> presented c snap (w_env (pc_World (snd x))))"

definition authenticatedIn :: "'e kube \<Rightarrow> command_request \<times> 'e process \<Rightarrow> claims option" where
  "authenticatedIn c x = (case unmarshalSnapShot (cq_Data (fst x)) of None \<Rightarrow> None
     | Some snap \<Rightarrow> (case fst (fst (run_state (authenticate c snap (pc_Seen (snd x))) (pc_World (snd x)))) of
          Inl _ \<Rightarrow> None | Inr cl \<Rightarrow> Some cl))"

definition readings :: "'e kube \<Rightarrow> (command_request \<times> 'e process) list \<Rightarrow> int list" where
  "readings c h = map snd (List.map_filter (presentedIn c) h)"

lemma readings_append [simp]: "readings c (h @ h') = readings c h @ readings c h'"
  by (simp add: readings_def List.map_filter_def)

lemma readings_Cons [simp]:
  "readings c (x # h) = (case presentedIn c x of None \<Rightarrow> [] | Some (cl, now) \<Rightarrow> [now]) @ readings c h"
  by (simp add: readings_def List.map_filter_def split: option.split)

lemma readings_Nil [simp]: "readings c [] = []"
  by (simp add: readings_def List.map_filter_def)

lemma authenticatedIn_iff:
  "authenticatedIn c (q, s) = Some cl \<longleftrightarrow>
   (\<exists>now. presentedIn c (q, s) = Some (cl, now) \<and> fst (accept now (tc_Nonce cl) (tc_ExpiresAt cl) (pc_Seen s)))"
proof -
  have "(case r of Inl _ \<Rightarrow> None | Inr cl \<Rightarrow> Some cl) = Some cl \<longleftrightarrow> r = Inr cl" for r :: "claims res"
    by (simp split: sum.split)
  then show ?thesis
    by (simp add: authenticatedIn_def presentedIn_def authenticate_presented split: option.split)
qed

lemma serves_cache:
  assumes "commandStep SP c q s s'"
  shows "pc_Seen s' = (case presentedIn c (q, s) of None \<Rightarrow> pc_Seen s
    | Some (cl, now) \<Rightarrow> snd (accept now (tc_Nonce cl) (tc_ExpiresAt cl) (pc_Seen s)))"
proof -
  obtain resp seen w where run: "run_state (ExecuteCommand SP c q (pc_Seen s)) (pc_World s) = ((resp, seen), w)"
    and s': "s' = s\<lparr>pc_World := w, pc_Seen := seen\<rparr>"
    using assms by (auto simp: commandStep_def)
  show ?thesis
  proof (cases "unmarshalSnapShot (cq_Data q)")
    case None
    with run s' show ?thesis by (simp add: ExecuteCommand_def presentedIn_def)
  next
    case (Some snap)
    with run have "seen = snd (fst (run_state (authenticate c snap (pc_Seen s)) (pc_World s)))"
      by (auto simp: ExecuteCommand_def split: prod.splits sum.splits)
    with Some s' show ?thesis by (simp add: presentedIn_def authenticate_cache)
  qed
qed

text \<open>
  The invariant: the nonce of every command that was authenticated is still in the cache, with the
  expiry of its token, or the cache has read a time at which the token had expired.
\<close>

definition remembers :: "'e kube \<Rightarrow> (command_request \<times> 'e process) list \<Rightarrow> replay_cache \<Rightarrow> bool" where
  "remembers c h seen \<longleftrightarrow> gm_wf seen \<and> (\<forall>x \<in> set h. \<forall>cl. authenticatedIn c x = Some cl \<longrightarrow>
     gm_get seen (tc_Nonce cl) = Some (tc_ExpiresAt cl) \<or> (\<exists>t \<in> set (readings c h). tc_ExpiresAt cl \<le> t))"

lemma remembersI:
  assumes "gm_wf seen" "\<And>x cl. x \<in> set h \<Longrightarrow> authenticatedIn c x = Some cl \<Longrightarrow>
     gm_get seen (tc_Nonce cl) = Some (tc_ExpiresAt cl) \<or> (\<exists>t \<in> set (readings c h). tc_ExpiresAt cl \<le> t)"
  shows "remembers c h seen"
  using assms by (simp add: remembers_def)

lemma remembers_serves:
  assumes "remembers c h (pc_Seen s)" "commandStep SP c q s s'"
  shows "remembers c (h @ [(q, s)]) (pc_Seen s')"
proof (cases "presentedIn c (q, s)")
  case None
  then show ?thesis
    using assms(1) serves_cache [OF assms(2)] by (auto simp: remembers_def authenticatedIn_iff)
next
  case (Some p)
  obtain cl now where p: "presentedIn c (q, s) = Some (cl, now)" using Some by (cases p) simp
  let ?seen = "snd (accept now (tc_Nonce cl) (tc_ExpiresAt cl) (pc_Seen s))"
  have old: "gm_get (pc_Seen s) (tc_Nonce cl1) = Some (tc_ExpiresAt cl1) \<or>
      (\<exists>t \<in> set (readings c h). tc_ExpiresAt cl1 \<le> t)" if "x \<in> set h" "authenticatedIn c x = Some cl1" for x cl1
    using assms(1) that by (auto simp: remembers_def)
  have wf: "gm_wf (pc_Seen s)" using assms(1) by (simp add: remembers_def)
  have "remembers c (h @ [(q, s)]) ?seen"
  proof (rule remembersI [OF accept_wf [OF wf]])
    fix x cl1 assume x: "x \<in> set (h @ [(q, s)])" "authenticatedIn c x = Some cl1"
    show "gm_get ?seen (tc_Nonce cl1) = Some (tc_ExpiresAt cl1) \<or> (\<exists>t \<in> set (readings c (h @ [(q, s)])). tc_ExpiresAt cl1 \<le> t)"
    proof (cases "x \<in> set h")
      case True
      with old [OF True x(2)] accept_live(1) [OF wf, of "tc_Nonce cl1" "tc_ExpiresAt cl1" now] show ?thesis
        by (auto simp: p not_less)
    next
      case False
      with x p show ?thesis by (auto simp: authenticatedIn_iff accept_records)
    qed
  qed
  then show ?thesis using serves_cache [OF assms(2)] by (simp add: p)
qed

lemma history_remembers: "history P SP c knowsMW h s \<Longrightarrow> remembers c h (pc_Seen s)"
proof (induction rule: history.induct)
  case (begins e)
  show ?case by (simp add: remembers_def initial_def newReplayCache_def gm_wf_def)
next
  case (works h s s')
  then show ?case by (simp add: works_keeps_cache)
next
  case (serves h s q s')
  then show ?case by (blast intro: remembers_serves)
qed

lemma history_prefix_remembers:
  "history P SP c knowsMW h s \<Longrightarrow> j < length h \<Longrightarrow> remembers c (take j h) (pc_Seen (snd (h ! j)))"
proof (induction rule: history.induct)
  case (serves h s q s')
  then show ?case
    using history_remembers [OF serves.hyps(1)] by (cases "j < length h") (auto simp: nth_append less_Suc_eq)
qed simp_all

lemma reading_after:
  assumes "sorted (readings c h)" "j < length h" "presentedIn c (h ! j) = Some (cl, now)" "t \<in> set (readings c (take j h))"
  shows "t \<le> now"
proof -
  have "readings c h = readings c (take j h) @ now # readings c (drop (Suc j) h)"
    using arg_cong [OF id_take_nth_drop [OF assms(2)], of "readings c"] assms(3) by simp
  with assms(1,4) show ?thesis by (auto simp: sorted_append)
qed

section \<open>No request is served twice\<close>

lemma emits_authenticate_untouched: "emits (\<lambda>v. \<not> touchesSnapshot v) (authenticate c snap seen)"
  unfolding authenticate_def grpcKeys_def by (intro emits_rules) simp_all

lemma refused_command:
  assumes "authenticatedIn c (q, s) = None"
  shows "fst (fst (run_state (ExecuteCommand SP c q (pc_Seen s)) (pc_World s))) = authError \<and>
    (\<exists>es. w_trace (snd (run_state (ExecuteCommand SP c q (pc_Seen s)) (pc_World s))) = pc_Trace s @ es \<and>
      list_all (\<lambda>v. \<not> touchesSnapshot v) es)"
proof (cases "unmarshalSnapShot (cq_Data q)")
  case None
  then show ?thesis by (simp add: ExecuteCommand_def)
next
  case (Some snap)
  obtain r seen w where run: "run_state (authenticate c snap (pc_Seen s)) (pc_World s) = ((r, seen), w)"
    by (metis surj_pair)
  with assms Some obtain e where "r = Inl e"
    by (auto simp: authenticatedIn_def split: sum.splits)
  with Some run emitsD [OF emits_authenticate_untouched run] show ?thesis
    by (simp add: ExecuteCommand_def)
qed

text \<open>
  Property C8. Over the whole life of the process no request is served twice. Let a command have been
  authenticated, and let a later one present claims with the same nonce, both at any point of a run in which the
  reconciler, the outside and other archivers do anything in between. As long as the times the replay
  cache has read do not decrease and the first token has not expired at the last of them, the later command is
  answered with the one vague error and touches no Snapshot.
\<close>

theorem process_no_replay:
  assumes "history P SP c knowsMW h s" "sorted (readings c h)" "i < j" "j < length h"
    and "authenticatedIn c (h ! i) = Some cl" "presentedIn c (h ! j) = Some (cl', now)"
    and "tc_Nonce cl' = tc_Nonce cl" "now < tc_ExpiresAt cl" "h ! j = (q, sj)"
  shows "fst (fst (run_state (ExecuteCommand SP c q (pc_Seen sj)) (pc_World sj))) = authError \<and>
    (\<exists>es. w_trace (snd (run_state (ExecuteCommand SP c q (pc_Seen sj)) (pc_World sj))) = pc_Trace sj @ es \<and>
      list_all (\<lambda>v. \<not> touchesSnapshot v) es)"
proof (rule refused_command)
  have mem: "remembers c (take j h) (pc_Seen sj)"
    using history_prefix_remembers [OF assms(1,4)] assms(9) by simp
  have "h ! i \<in> set (take j h)"
    using assms(3,4) by (metis in_set_conv_nth length_take min.absorb4 nth_take)
  with mem assms(5) have "gm_get (pc_Seen sj) (tc_Nonce cl) = Some (tc_ExpiresAt cl) \<or>
      (\<exists>t \<in> set (readings c (take j h)). tc_ExpiresAt cl \<le> t)"
    by (auto simp: remembers_def)
  with reading_after [OF assms(2,4,6)] assms(8) have "gm_get (pc_Seen sj) (tc_Nonce cl) = Some (tc_ExpiresAt cl)"
    by fastforce
  with mem assms(8) have "\<not> fst (accept now (tc_Nonce cl) x (pc_Seen sj))" for x
    by (auto simp: remembers_def dest: accept_live(2))
  with assms(6,7,9) show "authenticatedIn c (q, sj) = None"
    by (cases "authenticatedIn c (q, sj)") (auto simp: authenticatedIn_iff)
qed

subsection \<open>A replayed request\<close>

text \<open>A process that has started the server and served nothing.\<close>

lemma reachable_unstarted:
  assumes "reachable P SP c knowsMW s"
  shows "history P SP c knowsMW [] s \<and> \<not> pc_Started s \<or> (\<exists>s'. history P SP c knowsMW [] s' \<and> pc_Started s')"
  using assms
proof (induction rule: reachable.induct)
  case (start e)
  show ?case by (simp add: begins) (simp add: initial_def)
next
  case (move s s')
  then show ?case by (blast intro: works dest: commandStep_def [THEN iffD1])
qed

lemma emits_prefix:
  assumes "run_state (State_Monad.bind m f) w = (a, w')" "run_state m w = (b, w1)" "\<And>b. emits (\<lambda>_. True) (f b)"
  shows "\<exists>es. w_trace w' = w_trace w1 @ es"
  using assms(1,2) emitsD [OF assms(3), of b w1 a w'] by auto

text \<open>A command that leaves no event behind has no effect at all.\<close>

lemma commandStep_idle:
  assumes "commandStep SP c q s s'" "pc_Trace s' = pc_Trace s"
  shows "s' = s"
proof -
  obtain x w where run: "run_state (ExecuteCommand SP c q (pc_Seen s)) (pc_World s) = (x, w)"
    and s': "s' = s\<lparr>pc_World := w, pc_Seen := snd x\<rparr>"
    using assms(1) by (auto simp: commandStep_def)
  show ?thesis
  proof (cases "unmarshalSnapShot (cq_Data q)")
    case None
    with run s' show ?thesis by (auto simp: ExecuteCommand_def)
  next
    case (Some snap)
    obtain r w1 where get: "run_state (grpcKeys c (ss2_NameSpace snap) (ss2_SidekickName snap)) (pc_World s) = (r, w1)"
      by (metis surj_pair)
    obtain y w2 where auth: "run_state (authenticate c snap (pc_Seen s)) (pc_World s) = (y, w2)"
      by (metis surj_pair)
    have "\<exists>es. w_trace w2 = w_trace w1 @ es"
      by (rule emits_prefix [OF auth [unfolded authenticate_def] get]) (intro emits_rules; simp)
    moreover have "\<exists>es. w_trace w = w_trace w2 @ es"
      by (rule emits_prefix [OF run [unfolded ExecuteCommand_def Some option.case] auth])
        (auto simp: dispatch_def UpdateSnapshot_def GetSnapshot_def InitSnapshotComponentsStatus_def updateSnapshotStatus_def
          Let_def intro!: emits_rules split: prod.split)
    moreover have "length (pc_Trace s) < length (w_trace w1)"
      using get by (auto simp: run_grpcKeys split: prod.splits)
    ultimately show ?thesis using assms(2) s' by auto
  qed
qed

lemma history_outside:
  assumes "history P SP c knowsMW h s"
  shows "history P SP c knowsMW h (s\<lparr>pc_World := (pc_World s)\<lparr>w_env := e\<rparr>\<rparr>)"
proof (cases "s\<lparr>pc_World := (pc_World s)\<lparr>w_env := e\<rparr>\<rparr> = s")
  case False
  then show ?thesis
    using works [OF assms outside [of P SP c knowsMW s e]] commandStep_idle by fastforce
qed (simp add: assms)

lemma sample_presented:
  assumes "authorised sample_secret (sampleSnap grant tok) (claimsFor (sampleSnap grant tok) ''snap'' ''n'' 300)"
  shows "presented mem_kube (sampleSnap grant tok) (w_env sample_world) =
    Some (claimsFor (sampleSnap grant tok) ''snap'' ''n'' 300, 100)"
  using assms sample_secret_get [of "sampleSnap grant tok"]
  by (simp add: presented_def authorised_def claimsFor_def sampleSnap_def sample_request_def sample_world_def mem_defs)

lemma history_Nil_cache: "history P SP c knowsMW h s \<Longrightarrow> h = [] \<Longrightarrow> pc_Seen s = newReplayCache"
  by (induction rule: history.induct) (simp_all add: initial_def works_keeps_cache)

lemma history_serves:
  assumes "history P SP c knowsMW h s" "pc_Started s"
  obtains s' where "history P SP c knowsMW (h @ [(q, s)]) s'" "pc_Started s'"
proof -
  obtain resp seen w where "run_state (ExecuteCommand SP c q (pc_Seen s)) (pc_World s) = ((resp, seen), w)"
    by (metis surj_pair)
  with assms(2) have "commandStep SP c q s (s\<lparr>pc_World := w, pc_Seen := seen\<rparr>)"
    by (auto simp: commandStep_def)
  from that [OF serves [OF assms(1) this]] assms(2) show thesis by simp
qed

text \<open>The sample request, sent twice to a server that has just been started.\<close>

theorem process_no_replay_witness:
  "\<exists>h s q s1 s2 cl. history sample_dparams sample_server mem_kube True h s \<and> h = [(q, s1), (q, s2)] \<and>
     authenticatedIn mem_kube (q, s1) = Some cl \<and>
     fst (fst (run_state (ExecuteCommand sample_server mem_kube q (pc_Seen s2)) (pc_World s2))) = authError"
proof -
  obtain grant tok where
    auth: "authorised sample_secret (sampleSnap grant tok) (claimsFor (sampleSnap grant tok) ''snap'' ''n'' 300)"
    and wire: "unmarshalSnapShot (marshalSnapShot (sampleSnap grant tok)) = Some (sampleSnap grant tok)"
    using sample_authorised sampleSnap_roundtrip by blast
  let ?cl = "claimsFor (sampleSnap grant tok) ''snap'' ''n'' 300"
  let ?q = "\<lparr>cq_Command = CommandGetSnapshot, cq_Data = marshalSnapShot (sampleSnap grant tok)\<rparr>"
  let ?at = "\<lambda>s. s\<lparr>pc_World := (pc_World s)\<lparr>w_env := w_env sample_world\<rparr>\<rparr>"
  have presented: "presentedIn mem_kube (?q, ?at s) = Some (?cl, 100)" for s
    by (simp add: presentedIn_def wire sample_presented [OF auth])
  obtain s0 where s0: "history sample_dparams sample_server mem_kube True [] s0" "pc_Started s0"
    using sample_process reachable_unstarted by blast
  let ?s1 = "?at s0"
  obtain s1' where s1': "history sample_dparams sample_server mem_kube True [(?q, ?s1)] s1'" "pc_Started s1'"
    using history_serves [OF history_outside [OF s0(1)], of "w_env sample_world" ?q] s0(2) by auto
  let ?s2 = "?at s1'"
  obtain s where s: "history sample_dparams sample_server mem_kube True [(?q, ?s1), (?q, ?s2)] s"
    using history_serves [OF history_outside [OF s1'(1)], of "w_env sample_world" ?q] s1'(2) by auto
  have "pc_Seen ?s1 = newReplayCache"
    using history_Nil_cache [OF s0(1)] by simp
  then have first: "authenticatedIn mem_kube (?q, ?s1) = Some ?cl"
    using presented [of s0] accept_fresh [of newReplayCache]
    by (simp add: authenticatedIn_iff newReplayCache_def gm_wf_def)
  have "fst (fst (run_state (ExecuteCommand sample_server mem_kube ?q (pc_Seen ?s2)) (pc_World ?s2))) = authError"
    by (rule process_no_replay [OF s, of 0 1 ?cl ?cl 100, THEN conjunct1])
      (simp_all add: presented first, simp add: claimsFor_def)
  with s first show ?thesis by blast
qed

end
