(* ===== verification/Proto_Wire.thy ===== *)
theory Proto_Wire
  imports Go_Json
begin

text \<open>
  The wire format of protocol buffers, as the vendored library reads and writes it
  (\<open>encoding/protowire/wire.go\<close> and \<open>internal/impl\<close> of \<open>google.golang.org/protobuf\<close>): varints, tags, length-delimited fields, the skipping
  of unknown fields, and messages whose fields are strings and byte slices. Bytes are characters. The
  skipping of unknown groups recurs with fuel, which is shown to suffice; the loop over the fields of a message
  terminates because every field takes at least one byte.
\<close>

section \<open>Varints and tags\<close>

text \<open>The error codes of the package.\<close>

datatype wire_error = errCodeTruncated | errCodeFieldNumber | errCodeOverflow | errCodeReserved | errCodeEndGroup
  | errCodeRecursionDepth | outOfFuel

text \<open>A 64-bit number in groups of seven bits, the lowest first, all but the last with the high bit set.\<close>

fun AppendVarint :: "nat \<Rightarrow> string" where
  "AppendVarint v = (if v < 128 then [char_of v] else char_of (v mod 128 + 128) # AppendVarint (v div 128))"

declare AppendVarint.simps [simp del]

text \<open>The first argument counts the bytes that may follow; of the tenth byte only the lowest bit fits.\<close>

fun consumeVarint :: "nat \<Rightarrow> string \<Rightarrow> wire_error + nat \<times> string" where
  "consumeVarint k [] = Inl errCodeTruncated"
| "consumeVarint 0 (y # b) = (if byteVal y < 2 then Inr (byteVal y, b) else Inl errCodeOverflow)"
| "consumeVarint (Suc k) (y # b) =
     (if byteVal y < 128 then Inr (byteVal y, b)
      else (case consumeVarint k b of Inl e \<Rightarrow> Inl e | Inr (v, r) \<Rightarrow> Inr (byteVal y - 128 + 128 * v, r)))"

definition ConsumeVarint :: "string \<Rightarrow> wire_error + nat \<times> string" where
  "ConsumeVarint b = consumeVarint 9 b"

definition EncodeTag :: "nat \<Rightarrow> nat \<Rightarrow> nat" where
  "EncodeTag num wt = 8 * num + wt mod 8"

definition ConsumeTag :: "string \<Rightarrow> wire_error + (nat \<times> nat) \<times> string" where
  "ConsumeTag b = (case ConsumeVarint b of
     Inl e \<Rightarrow> Inl e
   | Inr (v, r) \<Rightarrow> if v div 8 > 2 ^ 31 - 1 \<or> v div 8 < 1 then Inl errCodeFieldNumber else Inr ((v div 8, v mod 8), r))"

definition AppendBytes :: "string \<Rightarrow> string" where
  "AppendBytes v = AppendVarint (length v) @ v"

definition ConsumeBytes :: "string \<Rightarrow> wire_error + string \<times> string" where
  "ConsumeBytes b = (case ConsumeVarint b of
     Inl e \<Rightarrow> Inl e
   | Inr (m, r) \<Rightarrow> if m > length r then Inl errCodeTruncated else Inr (take m r, drop m r))"

definition dropFixed :: "nat \<Rightarrow> string \<Rightarrow> wire_error + string" where
  "dropFixed n b = (if length b < n then Inl errCodeTruncated else Inr (drop n b))"

section \<open>Skipping a field\<close>

text \<open>
  \<open>consumeFieldValueD\<close>, returning the rest instead of its position: \<open>skipValue\<close> is the switch over the
  wire type, \<open>skipGroup\<close> the loop over the fields of a group.
\<close>

fun skipValue :: "nat \<Rightarrow> int \<Rightarrow> nat \<Rightarrow> nat \<Rightarrow> string \<Rightarrow> wire_error + string"
  and skipGroup :: "nat \<Rightarrow> int \<Rightarrow> nat \<Rightarrow> string \<Rightarrow> wire_error + string" where
  "skipValue 0 depth num wt b = Inl outOfFuel"
| "skipValue (Suc k) depth num wt b =
     (if wt = 0 then map_sum id snd (ConsumeVarint b)
      else if wt = 5 then dropFixed 4 b
      else if wt = 1 then dropFixed 8 b
      else if wt = 2 then map_sum id snd (ConsumeBytes b)
      else if wt = 3 then (if depth < 0 then Inl errCodeRecursionDepth else skipGroup k depth num b)
      else if wt = 4 then Inl errCodeEndGroup
      else Inl errCodeReserved)"
| "skipGroup 0 depth num b = Inl outOfFuel"
| "skipGroup (Suc k) depth num b =
     (case ConsumeTag b of
        Inl e \<Rightarrow> Inl e
      | Inr ((num2, wt2), r) \<Rightarrow>
          if wt2 = 4 then (if num \<noteq> num2 then Inl errCodeEndGroup else Inr r)
          else (case skipValue k (depth - 1) num2 wt2 r of Inl e \<Rightarrow> Inl e | Inr r' \<Rightarrow> skipGroup k depth num r'))"

definition DefaultRecursionLimit :: int where "DefaultRecursionLimit = 10000"

definition ConsumeFieldValue :: "nat \<Rightarrow> nat \<Rightarrow> string \<Rightarrow> wire_error + string" where
  "ConsumeFieldValue num wt b = skipValue (2 * length b + 2) DefaultRecursionLimit num wt b"

subsection \<open>Nothing grows\<close>

lemma consumeVarint_shorter: "consumeVarint k b = Inr (v, r) \<Longrightarrow> length r < length b"
  by (induction k b arbitrary: v r rule: consumeVarint.induct) (force split: if_splits sum.splits prod.splits)+

lemma ConsumeVarint_shorter: "ConsumeVarint b = Inr (v, r) \<Longrightarrow> length r < length b"
  by (simp add: ConsumeVarint_def consumeVarint_shorter)

lemma ConsumeTag_shorter: "ConsumeTag b = Inr (t, r) \<Longrightarrow> length r < length b"
  by (auto simp: ConsumeTag_def dest: ConsumeVarint_shorter split: sum.splits if_splits)

lemma ConsumeBytes_shorter: "ConsumeBytes b = Inr (v, r) \<Longrightarrow> length r < length b"
  by (auto simp: ConsumeBytes_def dest!: ConsumeVarint_shorter split: sum.splits if_splits)

lemma skip_shorter:
  "skipValue k depth num wt b = Inr r \<Longrightarrow> length r \<le> length b"
  "skipGroup k depth num b = Inr r \<Longrightarrow> length r \<le> length b"
proof (induction k depth num wt b and k depth num b arbitrary: r and r rule: skipValue_skipGroup.induct)
  case (2 k depth num wt b)
  then show ?case
    by (auto simp: dropFixed_def map_sum_def dest: ConsumeVarint_shorter ConsumeBytes_shorter split: if_splits sum.splits)
next
  case (4 k depth num b)
  then show ?case
    by (fastforce dest: ConsumeTag_shorter split: sum.splits if_splits)
qed simp_all

lemma consume_not_fuel:
  "ConsumeVarint b \<noteq> Inl outOfFuel" "ConsumeTag b \<noteq> Inl outOfFuel" "ConsumeBytes b \<noteq> Inl outOfFuel"
proof -
  have "consumeVarint k b \<noteq> Inl outOfFuel" for k b
    by (induction k b rule: consumeVarint.induct) (auto split: sum.splits)
  then show "ConsumeVarint b \<noteq> Inl outOfFuel" "ConsumeTag b \<noteq> Inl outOfFuel" "ConsumeBytes b \<noteq> Inl outOfFuel"
    by (auto simp: ConsumeVarint_def ConsumeTag_def ConsumeBytes_def split: sum.splits)
qed

text \<open>The fuel of \<open>ConsumeFieldValue\<close> is enough for every input.\<close>

lemma skip_fuel:
  "2 * length b + 2 \<le> k \<Longrightarrow> skipValue k depth num wt b \<noteq> Inl outOfFuel"
  "2 * length b + 1 \<le> k \<Longrightarrow> skipGroup k depth num b \<noteq> Inl outOfFuel"
proof (induction k depth num wt b and k depth num b rule: skipValue_skipGroup.induct)
  case (2 k depth num wt b)
  then show ?case
    using consume_not_fuel by (auto simp: dropFixed_def map_sum_def split: sum.splits)
next
  case (4 k depth num b)
  show ?case
  proof (cases "ConsumeTag b")
    case (Inl e)
    then show ?thesis using consume_not_fuel(2) [of b] by simp
  next
    case (Inr p)
    obtain num2 wt2 r where p: "p = ((num2, wt2), r)" by (metis surj_pair)
    note shorter = ConsumeTag_shorter [OF Inr [unfolded p]]
    show ?thesis
    proof (cases "wt2 = 4")
      case True
      then show ?thesis using Inr by (simp add: p)
    next
      case False
      have val: "skipValue k (depth - 1) num2 wt2 r \<noteq> Inl outOfFuel"
        using 4(1) [OF Inr p [symmetric] refl False] 4(3) shorter by simp
      have "skipGroup k depth num r' \<noteq> Inl outOfFuel" if "skipValue k (depth - 1) num2 wt2 r = Inr r'" for r'
        using 4(2) [OF Inr p [symmetric] refl False that] 4(3) shorter skip_shorter(1) [OF that] by simp
      with val Inr False show ?thesis
        by (cases "skipValue k (depth - 1) num2 wt2 r") (simp_all add: p)
    qed
  qed
qed simp_all

lemma ConsumeFieldValue_fuel: "ConsumeFieldValue num wt b \<noteq> Inl outOfFuel"
  unfolding ConsumeFieldValue_def by (rule skip_fuel) simp

section \<open>Round trips\<close>

lemma of_char_byte [simp]: "v < 256 \<Longrightarrow> (of_char (char_of v :: char) :: nat) = v"
  by (simp add: of_char_of)

lemma consumeVarint_AppendVarint:
  "v < 2 ^ (7 * k + 1) \<Longrightarrow> consumeVarint k (AppendVarint v @ b) = Inr (v, b)"
proof (induction k arbitrary: v)
  case 0
  then show ?case by (simp add: AppendVarint.simps [of v])
next
  case (Suc k)
  show ?case
  proof (cases "v < 128")
    case True
    then show ?thesis by (simp add: AppendVarint.simps [of v])
  next
    case False
    have "v div 128 < 2 ^ (7 * k + 1)"
      using Suc.prems by (simp add: less_mult_imp_div_less power_add)
    from Suc.IH [OF this] False show ?thesis
      by (simp add: AppendVarint.simps [of v])
  qed
qed

lemma ConsumeVarint_AppendVarint: "v < 2 ^ 64 \<Longrightarrow> ConsumeVarint (AppendVarint v @ b) = Inr (v, b)"
  unfolding ConsumeVarint_def by (rule consumeVarint_AppendVarint) simp

lemma ConsumeBytes_AppendBytes: "length v < 2 ^ 64 \<Longrightarrow> ConsumeBytes (AppendBytes v @ b) = Inr (v, b)"
  by (simp add: ConsumeBytes_def AppendBytes_def ConsumeVarint_AppendVarint)

lemma AppendVarint_not_Nil: "AppendVarint v \<noteq> []"
  by (simp add: AppendVarint.simps [of v])

lemma length_AppendVarint: "v < 2 ^ (7 * Suc k) \<Longrightarrow> length (AppendVarint v) \<le> Suc k"
proof (induction k arbitrary: v)
  case (Suc k)
  then have "v div 128 < 2 ^ (7 * Suc k)"
    by (simp add: less_mult_imp_div_less power_add)
  from Suc.IH [OF this] show ?case by (subst AppendVarint.simps) simp
qed (simp add: AppendVarint.simps)

section \<open>Messages\<close>

text \<open>
  The fields of a message: their numbers, and whether they are strings, which must be valid UTF-8, or bytes. A
  message is the list of the values of its fields and the unknown fields it was received with.
\<close>

datatype proto_kind = PString | PBytes

type_synonym proto_fields = "(nat \<times> proto_kind) list"
type_synonym proto_message = "string list \<times> string"

datatype proto_error = errDecode | errInvalidUTF8

definition validUTF8 :: "string \<Rightarrow> bool" where
  "validUTF8 s \<longleftrightarrow> toValidUTF8 s = s"

text \<open>
  \<open>marshalAppendPointer\<close> with \<open>appendStringNoZeroValidateUTF8\<close> and \<open>appendBytesNoZero\<close>: empty fields are left
  out, unknown ones follow.
\<close>

fun marshalFields :: "proto_fields \<Rightarrow> string list \<Rightarrow> proto_error + string" where
  "marshalFields ((num, kind) # fs) (v # vs) =
     (if v = '''' then marshalFields fs vs
      else if kind = PString \<and> \<not> validUTF8 v then Inl errInvalidUTF8
      else map_sum id (\<lambda>b. AppendVarint (EncodeTag num 2) @ AppendBytes v @ b) (marshalFields fs vs))"
| "marshalFields _ _ = Inr ''''"

definition marshalMessage :: "proto_fields \<Rightarrow> proto_message \<Rightarrow> proto_error + string" where
  "marshalMessage fs m = map_sum id (\<lambda>b. b @ snd m) (marshalFields fs (fst m))"

text \<open>The position of a field among the fields of the message.\<close>

fun fieldIndex :: "proto_fields \<Rightarrow> nat \<Rightarrow> (nat \<times> proto_kind) option" where
  "fieldIndex [] num = None"
| "fieldIndex ((n, kind) # fs) num =
     (if n = num then Some (0, kind) else map_option (\<lambda>(i, k). (Suc i, k)) (fieldIndex fs num))"

text \<open>
  One pass of the loop of \<open>unmarshalPointerEager\<close>: a known field of the right wire type replaces the value so far
  (\<open>consumeStringValidateUTF8\<close>, \<open>consumeBytesNoZero\<close>), anything else is kept as it is.
\<close>

definition unmarshalField :: "proto_fields \<Rightarrow> string \<Rightarrow> proto_message \<Rightarrow> proto_error + proto_message \<times> string" where
  "unmarshalField fs b m = (case ConsumeVarint b of
     Inl _ \<Rightarrow> Inl errDecode
   | Inr (tag, r) \<Rightarrow>
       (let num = tag div 8; wt = tag mod 8 in
        if num < 1 \<or> num > 2 ^ 29 - 1 \<or> wt = 4 then Inl errDecode
        else (case (fieldIndex fs num, wt = 2) of
           (Some (i, kind), True) \<Rightarrow>
             (case ConsumeBytes r of
                Inl _ \<Rightarrow> Inl errDecode
              | Inr (v, r') \<Rightarrow> if kind = PString \<and> \<not> validUTF8 v then Inl errInvalidUTF8 else Inr (((fst m)[i := v], snd m), r'))
         | _ \<Rightarrow>
             (case ConsumeFieldValue num wt r of
                Inl _ \<Rightarrow> Inl errDecode
              | Inr r' \<Rightarrow> Inr ((fst m, snd m @ AppendVarint (EncodeTag num wt) @ take (length r - length r') r), r')))))"

lemma ConsumeFieldValue_shorter: "ConsumeFieldValue num wt b = Inr r \<Longrightarrow> length r \<le> length b"
  unfolding ConsumeFieldValue_def by (rule skip_shorter)

lemma unmarshalField_shorter: "unmarshalField fs b m = Inr (m', r) \<Longrightarrow> length r < length b"
  by (auto simp: unmarshalField_def Let_def dest!: ConsumeVarint_shorter ConsumeBytes_shorter ConsumeFieldValue_shorter
      split: sum.splits if_splits option.splits bool.splits)

function unmarshalLoop :: "proto_fields \<Rightarrow> string \<Rightarrow> proto_message \<Rightarrow> proto_error + proto_message" where
  "unmarshalLoop fs b m = (if b = '''' then Inr m
     else (case unmarshalField fs b m of Inl e \<Rightarrow> Inl e | Inr (m', r) \<Rightarrow> unmarshalLoop fs r m'))"
  by pat_completeness auto
termination
  by (relation "measure (\<lambda>(fs, b, m). length b)") (auto dest: unmarshalField_shorter)

declare unmarshalLoop.simps [simp del]

definition unmarshalMessage :: "proto_fields \<Rightarrow> string \<Rightarrow> proto_error + proto_message" where
  "unmarshalMessage fs b = unmarshalLoop fs b (replicate (length fs) '''', '''')"

subsection \<open>What is written is read back\<close>

definition goodFields :: "proto_fields \<Rightarrow> bool" where
  "goodFields fs \<longleftrightarrow> distinct (map fst fs) \<and> list_all (\<lambda>(num, kind). 1 \<le> num \<and> num < 2 ^ 29) fs"

lemma fieldIndex_append: "num \<notin> fst ` set fs \<Longrightarrow> fieldIndex (fs @ (num, kind) # gs) num = Some (length fs, kind)"
  by (induction fs) auto

lemma unmarshalField_written:
  assumes "goodFields (fs @ (num, kind) # gs)" "length v < 2 ^ 64" "kind = PString \<longrightarrow> validUTF8 v"
  shows "unmarshalField (fs @ (num, kind) # gs) (AppendVarint (EncodeTag num 2) @ AppendBytes v @ b) (vs, u) =
    Inr ((vs[length fs := v], u), b)"
proof -
  have num: "1 \<le> num" "num < 2 ^ 29" "num \<notin> fst ` set fs"
    using assms(1) by (auto simp: goodFields_def)
  have "EncodeTag num 2 < 2 ^ 64" using num(2) by (simp add: EncodeTag_def)
  moreover have "EncodeTag num 2 div 8 = num" "EncodeTag num 2 mod 8 = 2"
    unfolding EncodeTag_def by presburger+
  ultimately show ?thesis
    using num assms(2,3)
    by (simp add: unmarshalField_def ConsumeVarint_AppendVarint ConsumeBytes_AppendBytes fieldIndex_append)
qed

lemma unmarshalLoop_written:
  assumes "goodFields (fs @ gs)" "length us = length fs" "length vs = length gs" "list_all (\<lambda>v. length v < 2 ^ 64) vs"
    and "marshalFields gs vs = Inr b"
  shows "unmarshalLoop (fs @ gs) b (us @ replicate (length gs) '''', '''') = Inr (us @ vs, '''')"
  using assms
proof (induction gs arbitrary: fs us vs b)
  case Nil
  then show ?case by (simp add: unmarshalLoop.simps)
next
  case (Cons g gs)
  obtain num kind where g: "g = (num, kind)" by (cases g)
  obtain v vs' where vs: "vs = v # vs'" using Cons.prems(3) by (cases vs) auto
  note rec = Cons.IH [of "fs @ [g]" "us @ [v]" vs']
  show ?case
  proof (cases "v = ''''")
    case True
    then show ?thesis using rec Cons.prems by (simp add: g vs replicate_Suc [symmetric] del: replicate_Suc)
  next
    case False
    with Cons.prems(5) obtain b' where b': "marshalFields gs vs' = Inr b'"
      "b = AppendVarint (EncodeTag num 2) @ AppendBytes v @ b'" "kind = PString \<longrightarrow> validUTF8 v"
      by (auto simp: g vs map_sum_def split: if_splits sum.splits)
    have "unmarshalField (fs @ g # gs) b (us @ replicate (length (g # gs)) '''', '''') =
        Inr ((us @ v # replicate (length gs) '''', ''''), b')"
      using unmarshalField_written [of fs num kind gs v b' "us @ replicate (length (g # gs)) ''''" "''''"] b' Cons.prems(1,2,4)
      by (simp add: g vs list_update_append)
    moreover have "b \<noteq> ''''" using b'(2) AppendVarint_not_Nil by simp
    ultimately show ?thesis
      using rec [OF _ _ _ _ b'(1)] Cons.prems by (subst unmarshalLoop.simps) (simp add: vs)
  qed
qed

lemma marshalFields_ok:
  "length vs = length fs \<Longrightarrow>
   (\<exists>b. marshalFields fs vs = Inr b) \<longleftrightarrow> list_all (\<lambda>((num, kind), v). kind = PString \<longrightarrow> validUTF8 v) (zip fs vs)"
proof (induction fs arbitrary: vs)
  case (Cons f fs)
  obtain num kind where f: "f = (num, kind)" by (cases f)
  obtain v vs' where vs: "vs = v # vs'" using Cons.prems by (cases vs) auto
  have "(\<exists>b. map_sum id h r = Inr b) \<longleftrightarrow> (\<exists>b. r = Inr b)" for h :: "string \<Rightarrow> string" and r :: "proto_error + string"
    by (cases r) auto
  moreover have "validUTF8 ''''" by (simp add: validUTF8_def)
  ultimately show ?case
    using Cons.IH [of vs'] Cons.prems by (auto simp: f vs)
qed simp

text \<open>No field is longer than the encoding of the message.\<close>

lemma marshalFields_longer:
  "marshalFields fs vs = Inr b \<Longrightarrow> length vs = length fs \<Longrightarrow> list_all (\<lambda>v. length v \<le> length b) vs"
proof (induction fs vs arbitrary: b rule: marshalFields.induct)
  case (1 num kind fs v vs)
  then show ?case
    by (fastforce simp: map_sum_def AppendBytes_def list_all_iff split: if_splits sum.splits)
qed simp_all

lemma marshalMessage_known: "marshalMessage fs (vs, '''') = marshalFields fs vs"
  by (cases "marshalFields fs vs") (simp_all add: marshalMessage_def)

lemma unmarshalMessage_written:
  assumes "goodFields fs" "length vs = length fs" "list_all (\<lambda>v. length v < 2 ^ 64) vs" "marshalMessage fs (vs, '''') = Inr b"
  shows "unmarshalMessage fs b = Inr (vs, '''')"
  using unmarshalLoop_written [of "[]" fs "[]" vs b] assms by (simp add: unmarshalMessage_def marshalMessage_known)

lemma unmarshalMessage_short:
  assumes "goodFields fs" "length vs = length fs" "marshalMessage fs (vs, '''') = Inr b" "length b < 2 ^ 64"
  shows "unmarshalMessage fs b = Inr (vs, '''')"
proof (rule unmarshalMessage_written [OF assms(1,2) _ assms(3)])
  show "list_all (\<lambda>v. length v < 2 ^ 64) vs"
    using marshalFields_longer [OF assms(3) [unfolded marshalMessage_known] assms(2)] assms(4)
    by (auto simp: list_all_iff)
qed

text \<open>
  Property C28. A message that the library encodes is decoded to the same message, whatever bytes its fields
  hold; and exactly the messages whose string fields are valid UTF-8 are encoded.
\<close>

theorem unmarshal_marshal:
  assumes "goodFields fs" "length vs = length fs" "list_all (\<lambda>v. length v < 2 ^ 64) vs"
  shows "(marshalMessage fs (vs, '''') = Inr b \<longrightarrow> unmarshalMessage fs b = Inr (vs, '''')) \<and>
    ((\<exists>b. marshalMessage fs (vs, '''') = Inr b) \<longleftrightarrow>
      list_all (\<lambda>((num, kind), v). kind = PString \<longrightarrow> validUTF8 v) (zip fs vs))"
  using unmarshalMessage_written [OF assms, of b] marshalFields_ok [OF assms(2)] by (simp add: marshalMessage_known)

theorem unmarshal_marshal_witness:
  "marshalMessage [(1, PString), (2, PBytes)] ([''run'', ''ab''], '''') = Inr (map char_of [10, 3, 114, 117, 110, 18, 2, 97, 98 :: nat]) \<and>
    unmarshalMessage [(1, PString), (2, PBytes)] (map char_of [10, 3, 114, 117, 110, 18, 2, 97, 98 :: nat]) = Inr ([''run'', ''ab''], '''')"
proof -
  have "marshalMessage [(1, PString), (2, PBytes)] ([''run'', ''ab''], '''') = Inr (map char_of [10, 3, 114, 117, 110, 18, 2, 97, 98 :: nat])"
    by code_simp
  then show ?thesis
    using unmarshal_marshal [of "[(1, PString), (2, PBytes)]" "[''run'', ''ab'']" "map char_of [10, 3, 114, 117, 110, 18, 2, 97, 98 :: nat]"]
    by (simp add: goodFields_def)
qed

end
