(* ===== verification/Command_Service.thy ===== *)
theory Command_Service
  imports Serving Proto_Wire
begin

text \<open>
  The generated service (\<open>src/grpc/protogen\<close>) and the way of a call through it: the messages with their
  field numbers, the descriptor embedded in the file, the client, the handler, and what the gRPC library does in
  between with the options the program uses (\<open>google.golang.org/grpc\<close>: routing, size limits, encoding). The
  connection itself delivers what it is given; the theory says when the archiver's call of \<open>ExecuteCommand\<close> is
  the server's \<open>ExecuteCommand\<close>, and what it is otherwise.
\<close>

section \<open>Messages\<close>

definition CommandRequest_fields :: proto_fields where
  "CommandRequest_fields = [(1, PString), (2, PBytes)]"

definition CommandResponse_fields :: proto_fields where
  "CommandResponse_fields = [(1, PString), (2, PBytes), (3, PString)]"

text \<open>The getters answer for a nil message, too.\<close>

definition GetCommand :: "command_request option \<Rightarrow> string" where
  "GetCommand x = (case x of None \<Rightarrow> '''' | Some q \<Rightarrow> cq_Command q)"

definition GetData :: "command_request option \<Rightarrow> string" where
  "GetData x = (case x of None \<Rightarrow> '''' | Some q \<Rightarrow> cq_Data q)"

definition GetStatus :: "command_response option \<Rightarrow> string" where
  "GetStatus x = (case x of None \<Rightarrow> '''' | Some r \<Rightarrow> cr_Status r)"

definition GetOutput :: "command_response option \<Rightarrow> string" where
  "GetOutput x = (case x of None \<Rightarrow> '''' | Some r \<Rightarrow> cr_Output r)"

definition GetError :: "command_response option \<Rightarrow> string" where
  "GetError x = (case x of None \<Rightarrow> '''' | Some r \<Rightarrow> cr_Error r)"

text \<open>A message as the values of its fields, and back; no one reads the unknown fields of a message.\<close>

definition marshalRequest :: "command_request \<Rightarrow> proto_error + string" where
  "marshalRequest q = marshalMessage CommandRequest_fields ([GetCommand (Some q), GetData (Some q)], '''')"

definition unmarshalRequest :: "string \<Rightarrow> proto_error + command_request" where
  "unmarshalRequest b = map_sum id (\<lambda>(vs, _). \<lparr>cq_Command = vs ! 0, cq_Data = vs ! 1\<rparr>) (unmarshalMessage CommandRequest_fields b)"

definition marshalResponse :: "command_response \<Rightarrow> proto_error + string" where
  "marshalResponse r =
     marshalMessage CommandResponse_fields ([GetStatus (Some r), GetOutput (Some r), GetError (Some r)], '''')"

definition unmarshalResponse :: "string \<Rightarrow> proto_error + command_response" where
  "unmarshalResponse b = map_sum id (\<lambda>(vs, _). \<lparr>cr_Status = vs ! 0, cr_Output = vs ! 1, cr_Error = vs ! 2\<rparr>)
     (unmarshalMessage CommandResponse_fields b)"

section \<open>The service\<close>

datatype grpc_code = Internal | ResourceExhausted | Unimplemented

definition CommandService_ExecuteCommand_FullMethodName :: string where
  "CommandService_ExecuteCommand_FullMethodName = ''/proto.CommandService/ExecuteCommand''"

text \<open>\<open>CommandService_ServiceDesc\<close>: the name of the service and its methods; there are no streams.\<close>

definition CommandService_ServiceDesc :: "string \<times> string list" where
  "CommandService_ServiceDesc = (''proto.CommandService'', [''ExecuteCommand''])"

text \<open>
  \<open>_CommandService_ExecuteCommand_Handler\<close>, without an interceptor, which the server is not given: decode, then call.
\<close>

definition CommandService_ExecuteCommand_Handler ::
    "server_params \<Rightarrow> 'e kube \<Rightarrow> grpc_code + command_request \<Rightarrow> replay_cache \<Rightarrow>
     ('e, event, (grpc_code + command_response) \<times> replay_cache) go" where
  "CommandService_ExecuteCommand_Handler SP c dec seen =
     (case dec of
        Inl e \<Rightarrow> ret (Inl e, seen)
      | Inr req \<Rightarrow> do { (resp, seen') \<leftarrow> ExecuteCommand SP c req seen; ret (Inr resp, seen') })"

text \<open>\<open>handleStream\<close>: service and method of a full method name.\<close>

definition splitMethod :: "string \<Rightarrow> (string \<times> string) option" where
  "splitMethod full = (case full of
     [] \<Rightarrow> None
   | ch # sm \<Rightarrow>
       if ch \<noteq> CHR ''/'' \<or> CHR ''/'' \<notin> set sm then None
       else (let method = rev (takeWhile (\<lambda>x. x \<noteq> CHR ''/'') (rev sm))
             in Some (take (length sm - length method - 1) sm, method)))"

definition knownMethod :: "string \<Rightarrow> bool" where
  "knownMethod full = (case splitMethod full of
     None \<Rightarrow> False
   | Some (service, method) \<Rightarrow> service = fst CommandService_ServiceDesc \<and> List.member (snd CommandService_ServiceDesc) method)"

text \<open>
  \<open>encode\<close> and the limit for sending, which the program leaves at its default. A message that cannot be encoded
  is an internal error, one that is too long exhausts the resources.
\<close>

definition maxSendMessageSize :: nat where "maxSendMessageSize = 2147483647"

definition encodeMsg :: "proto_error + string \<Rightarrow> grpc_code + string" where
  "encodeMsg r = (case r of
     Inl _ \<Rightarrow> Inl Internal
   | Inr b \<Rightarrow> if length b > maxSendMessageSize then Inl ResourceExhausted else Inr b)"

text \<open>\<open>recv\<close>: the limit for receiving first, then decoding.\<close>

definition recvMsg :: "int \<Rightarrow> (string \<Rightarrow> proto_error + 'm) \<Rightarrow> string \<Rightarrow> grpc_code + 'm" where
  "recvMsg limit decode b =
     (if int (length b) > limit then Inl ResourceExhausted
      else (case decode b of Inl _ \<Rightarrow> Inl Internal | Inr m \<Rightarrow> Inr m))"

text \<open>\<open>processUnaryRPC\<close> for the one method of the service.\<close>

definition processUnaryRPC ::
    "server_params \<Rightarrow> 'e kube \<Rightarrow> string \<Rightarrow> replay_cache \<Rightarrow> ('e, event, (grpc_code + string) \<times> replay_cache) go" where
  "processUnaryRPC SP c b seen = do {
     (r, seen') \<leftarrow> CommandService_ExecuteCommand_Handler SP c (recvMsg maxRecvMsgBytes unmarshalRequest b) seen;
     (case r of
        Inl e \<Rightarrow> ret (Inl e, seen')
      | Inr resp \<Rightarrow> ret (encodeMsg (marshalResponse resp), seen'))
   }"

definition handleStream ::
    "server_params \<Rightarrow> 'e kube \<Rightarrow> string \<Rightarrow> string \<Rightarrow> replay_cache \<Rightarrow> ('e, event, (grpc_code + string) \<times> replay_cache) go" where
  "handleStream SP c method b seen =
     (if knownMethod method then processUnaryRPC SP c b seen else ret (Inl Unimplemented, seen))"

text \<open>
  \<open>commandServiceClient.ExecuteCommand\<close> with \<open>Invoke\<close>, on a connection without call options: send the request,
  receive the answer. The limit of the client for receiving is the default of the library.
\<close>

definition defaultClientMaxReceiveMessageSize :: int where
  "defaultClientMaxReceiveMessageSize = 1024 * 1024 * 4"

definition commandServiceClient_ExecuteCommand ::
    "server_params \<Rightarrow> 'e kube \<Rightarrow> command_request \<Rightarrow> replay_cache \<Rightarrow>
     ('e, event, (grpc_code + command_response) \<times> replay_cache) go" where
  "commandServiceClient_ExecuteCommand SP c q seen =
     (case encodeMsg (marshalRequest q) of
        Inl e \<Rightarrow> ret (Inl e, seen)
      | Inr b \<Rightarrow> do {
          (r, seen') \<leftarrow> handleStream SP c CommandService_ExecuteCommand_FullMethodName b seen;
          (case r of
             Inl e \<Rightarrow> ret (Inl e, seen')
           | Inr out \<Rightarrow> ret (recvMsg defaultClientMaxReceiveMessageSize unmarshalResponse out, seen'))
        })"

section \<open>The call as a whole\<close>

lemma method_known: "knownMethod CommandService_ExecuteCommand_FullMethodName"
  by (simp add: knownMethod_def splitMethod_def CommandService_ExecuteCommand_FullMethodName_def
      CommandService_ServiceDesc_def Let_def)

lemma fields_good: "goodFields CommandRequest_fields" "goodFields CommandResponse_fields"
  by (simp_all add: goodFields_def CommandRequest_fields_def CommandResponse_fields_def)

lemma unmarshalRequest_written:
  assumes "marshalRequest q = Inr b" "length b < 2 ^ 64"
  shows "unmarshalRequest b = Inr q"
  using unmarshalMessage_short [OF fields_good(1) _ assms [unfolded marshalRequest_def]]
  by (simp add: unmarshalRequest_def GetCommand_def GetData_def CommandRequest_fields_def)

lemma unmarshalResponse_written:
  assumes "marshalResponse r = Inr b" "length b < 2 ^ 64"
  shows "unmarshalResponse b = Inr r"
  using unmarshalMessage_short [OF fields_good(2) _ assms [unfolded marshalResponse_def]]
  by (simp add: unmarshalResponse_def GetStatus_def GetOutput_def GetError_def CommandResponse_fields_def)

text \<open>A message that was encoded and is within the limit of the receiver is received as it was.\<close>

lemma recvMsg_written:
  assumes "encodeMsg (enc m) = Inr b" "\<And>b. enc m = Inr b \<Longrightarrow> length b < 2 ^ 64 \<Longrightarrow> dec b = Inr m"
  shows "recvMsg limit dec b = (if int (length b) > limit then Inl ResourceExhausted else Inr m)"
proof -
  have b: "enc m = Inr b" "length b < 2 ^ 64"
    using assms(1) by (auto simp: encodeMsg_def maxSendMessageSize_def split: sum.splits if_splits)
  from assms(2) [OF this] show ?thesis by (simp add: recvMsg_def)
qed

lemma recv_written:
  "encodeMsg (marshalRequest q) = Inr b \<Longrightarrow>
     recvMsg limit unmarshalRequest b = (if int (length b) > limit then Inl ResourceExhausted else Inr q)"
  "encodeMsg (marshalResponse r) = Inr b \<Longrightarrow>
     recvMsg limit unmarshalResponse b = (if int (length b) > limit then Inl ResourceExhausted else Inr r)"
  by (blast intro: recvMsg_written unmarshalRequest_written unmarshalResponse_written)+

lemmas client_call = commandServiceClient_ExecuteCommand_def handleStream_def method_known processUnaryRPC_def
  CommandService_ExecuteCommand_Handler_def

text \<open>What a sender hands over to a receiver with a limit: the message, or the code of the error.\<close>

definition delivered :: "int \<Rightarrow> ('m \<Rightarrow> proto_error + string) \<Rightarrow> 'm \<Rightarrow> grpc_code + 'm" where
  "delivered limit enc m = (case encodeMsg (enc m) of
     Inl e \<Rightarrow> Inl e
   | Inr b \<Rightarrow> if int (length b) > limit then Inl ResourceExhausted else Inr m)"

lemma delivered_same: "delivered limit enc m = Inr m' \<Longrightarrow> m' = m"
  by (auto simp: delivered_def split: sum.splits if_splits)

lemma client_refused:
  assumes "delivered maxRecvMsgBytes marshalRequest q = Inl e"
  shows "run_state (commandServiceClient_ExecuteCommand SP c q seen) w = ((Inl e, seen), w)"
proof (cases "encodeMsg (marshalRequest q)")
  case (Inl e)
  with assms show ?thesis by (simp add: commandServiceClient_ExecuteCommand_def delivered_def)
next
  case (Inr b)
  from recv_written(1) [OF this] Inr assms show ?thesis
    by (simp add: client_call delivered_def split: if_splits)
qed

lemma client_served:
  assumes "delivered maxRecvMsgBytes marshalRequest q = Inr q'" "run_state (ExecuteCommand SP c q seen) w = ((resp, seen'), w')"
  shows "run_state (commandServiceClient_ExecuteCommand SP c q seen) w =
    ((delivered defaultClientMaxReceiveMessageSize marshalResponse resp, seen'), w')"
proof -
  obtain b where b: "encodeMsg (marshalRequest q) = Inr b" "\<not> maxRecvMsgBytes < int (length b)"
    using assms(1) by (auto simp: delivered_def split: sum.splits if_splits)
  have received: "recvMsg maxRecvMsgBytes unmarshalRequest b = Inr q"
    using recv_written(1) [OF b(1)] b(2) by simp
  show ?thesis
  proof (cases "encodeMsg (marshalResponse resp)")
    case (Inl e)
    then show ?thesis by (simp add: client_call b received assms(2) delivered_def)
  next
    case (Inr out)
    then show ?thesis by (simp add: client_call b received assms(2) delivered_def recv_written(2) [OF Inr])
  qed
qed

text \<open>A request is delivered when its command is valid UTF-8 and command and data leave room for the framing.\<close>

lemma request_delivered:
  assumes "validUTF8 (cq_Command q)" "length (cq_Command q) + length (cq_Data q) \<le> 65528"
  shows "delivered maxRecvMsgBytes marshalRequest q = Inr q"
proof -
  define part where "part n v = (if v = '''' then '''' else AppendVarint (EncodeTag n 2) @ AppendBytes v)" for n and v :: string
  have part: "length (part n v) \<le> 4 + length v" if "length v \<le> 65528" "n = 1 \<or> n = 2" for n v
    using length_AppendVarint [of "length v" 2] that
    by (auto simp: part_def AppendBytes_def EncodeTag_def AppendVarint.simps [of 10] AppendVarint.simps [of 18])
  have "marshalRequest q = Inr (part 1 (cq_Command q) @ part 2 (cq_Data q))"
    using assms(1) by (cases "cq_Command q = ''''"; cases "cq_Data q = ''''")
      (simp_all add: marshalRequest_def marshalMessage_def CommandRequest_fields_def GetCommand_def GetData_def part_def)
  moreover have "length (part 1 (cq_Command q) @ part 2 (cq_Data q)) \<le> 65536"
    using part [of "cq_Command q" 1] part [of "cq_Data q" 2] assms(2) by simp
  ultimately show ?thesis by (simp add: delivered_def encodeMsg_def maxRecvMsgBytes_def maxSendMessageSize_def)
qed

text \<open>
  Property C9. The archiver's call of \<open>ExecuteCommand\<close> through the generated client, the gRPC library and
  the generated handler is the server's \<open>ExecuteCommand\<close> on the very request the archiver made, answered with the very
  response the server gave. A request that cannot be encoded or exceeds 64 KiB never reaches the server, which then
  spends no nonce and makes no API call; a response that cannot be encoded or exceeds 4 MiB is lost to the archiver,
  although the server has acted.
\<close>

theorem transport_exact:
  "run_state (commandServiceClient_ExecuteCommand SP c q seen) w =
     (case delivered maxRecvMsgBytes marshalRequest q of
        Inl e \<Rightarrow> ((Inl e, seen), w)
      | Inr q \<Rightarrow> (case run_state (ExecuteCommand SP c q seen) w of
          ((resp, seen'), w') \<Rightarrow> ((delivered defaultClientMaxReceiveMessageSize marshalResponse resp, seen'), w')))"
proof (cases "delivered maxRecvMsgBytes marshalRequest q")
  case (Inl e)
  then show ?thesis by (simp add: client_refused)
next
  case (Inr q')
  obtain resp seen' w' where "run_state (ExecuteCommand SP c q seen) w = ((resp, seen'), w')" by (metis surj_pair)
  with client_served [OF Inr this] delivered_same [OF Inr] Inr show ?thesis by simp
qed

end
