(* ===== verification/Proto_Desc.thy ===== *)
theory Proto_Desc
  imports Command_Service
begin

text \<open>
  The descriptor that \<open>src/grpc/protogen/api.pb.go\<close> embeds, read the way the protocol buffer library reads it when the
  program starts (\<open>internal/filedesc\<close>): package, messages with their fields, service with its methods. The
  struct tags, the routing table and the name the client calls were generated beside the descriptor; the theory shows that
  they agree with it. A panic is \<open>None\<close>.
\<close>

section \<open>The fields of a wire message\<close>

datatype wire_value = WVarint nat | WBytes string | WOther

text \<open>The loop the readers share: a field with its number, by wire type; a negative length panics.\<close>

definition wireField :: "string \<Rightarrow> ((nat \<times> wire_value) \<times> string) option" where
  "wireField b = (case ConsumeTag b of
     Inl _ \<Rightarrow> None
   | Inr ((num, wt), r) \<Rightarrow>
       if wt = 2 then (case ConsumeBytes r of Inl _ \<Rightarrow> None | Inr (v, r') \<Rightarrow> Some ((num, WBytes v), r'))
       else if wt = 0 then (case ConsumeVarint r of Inl _ \<Rightarrow> None | Inr (v, r') \<Rightarrow> Some ((num, WVarint v), r'))
       else (case ConsumeFieldValue num wt r of Inl _ \<Rightarrow> None | Inr r' \<Rightarrow> Some ((num, WOther), r')))"

lemma wireField_shorter: "wireField b = Some (f, r) \<Longrightarrow> length r < length b"
  by (auto simp: wireField_def dest!: ConsumeTag_shorter ConsumeBytes_shorter ConsumeVarint_shorter ConsumeFieldValue_shorter
      split: sum.splits if_splits)

function wireFields :: "string \<Rightarrow> (nat \<times> wire_value) list option" where
  "wireFields b = (if b = '''' then Some []
     else (case wireField b of None \<Rightarrow> None | Some (f, r) \<Rightarrow> map_option (\<lambda>fs. f # fs) (wireFields r)))"
  by pat_completeness auto
termination
  by (relation "measure length") (auto dest: wireField_shorter)

declare wireFields.simps [simp del]

text \<open>All the values of a field of bytes; of a field that is assigned, the last value counts.\<close>

definition wireBytes :: "nat \<Rightarrow> (nat \<times> wire_value) list \<Rightarrow> string list" where
  "wireBytes num fs = concat (map (\<lambda>(n, v). case v of WBytes b \<Rightarrow> if n = num then [b] else [] | _ \<Rightarrow> []) fs)"

definition lastBytes :: "nat \<Rightarrow> (nat \<times> wire_value) list \<Rightarrow> string" where
  "lastBytes num fs = (case rev (wireBytes num fs) of [] \<Rightarrow> '''' | b # _ \<Rightarrow> b)"

definition lastVarint :: "nat \<Rightarrow> (nat \<times> wire_value) list \<Rightarrow> nat" where
  "lastVarint num fs =
     (case rev (concat (map (\<lambda>(n, v). case v of WVarint k \<Rightarrow> if n = num then [k] else [] | _ \<Rightarrow> []) fs)) of
        [] \<Rightarrow> 0 | k # _ \<Rightarrow> k)"

text \<open>\<open>prevField\<close>: the occurrences of a repeated field must follow each other, varints aside.\<close>

definition contiguous :: "nat \<Rightarrow> (nat \<times> wire_value) list \<Rightarrow> bool" where
  "contiguous num fs =
     (let seen = concat (map (\<lambda>(n, v). case v of WBytes _ \<Rightarrow> [n] | WVarint _ \<Rightarrow> [] | WOther \<Rightarrow> [0]) fs)
      in \<not> List.member (dropWhile (\<lambda>n. n = num) (dropWhile (\<lambda>n. n \<noteq> num) seen)) num)"

section \<open>Descriptors\<close>

record field_desc =
  fld_FullName :: string
  fld_Number :: nat
  fld_Cardinality :: nat
  fld_Kind :: nat

record message_desc =
  msg_FullName :: string
  msg_Fields :: "field_desc list"

record method_desc =
  mth_FullName :: string
  mth_Input :: string
  mth_Output :: string
  mth_IsStreamingClient :: bool
  mth_IsStreamingServer :: bool

record service_desc =
  svc_FullName :: string
  svc_Methods :: "method_desc list"

record file_desc =
  fil_Path :: string
  fil_Package :: string
  fil_Syntax :: string
  fil_Messages :: "message_desc list"
  fil_Services :: "service_desc list"

definition makeFullName :: "string \<Rightarrow> string option" where
  "makeFullName b = (case b of [] \<Rightarrow> None | ch # n \<Rightarrow> if ch = CHR ''.'' then Some n else None)"

definition appendFullName :: "string \<Rightarrow> string \<Rightarrow> string" where
  "appendFullName prefix n = (if prefix = '''' then n else prefix @ ''.'' @ n)"

text \<open>Every element is read, and any panic is a panic of the whole.\<close>

fun readAll :: "('a \<Rightarrow> 'b option) \<Rightarrow> 'a list \<Rightarrow> 'b list option" where
  "readAll f [] = Some []"
| "readAll f (x # xs) = (case (f x, readAll f xs) of (Some y, Some ys) \<Rightarrow> Some (y # ys) | _ \<Rightarrow> None)"

text \<open>\<open>Field.unmarshalFull\<close>, for a field without options, type name or oneof.\<close>

definition unmarshalFieldDesc :: "string \<Rightarrow> string \<Rightarrow> field_desc option" where
  "unmarshalFieldDesc parent b = map_option (\<lambda>fs.
     \<lparr>fld_FullName = appendFullName parent (lastBytes 1 fs), fld_Number = lastVarint 3 fs,
      fld_Cardinality = lastVarint 4 fs, fld_Kind = lastVarint 5 fs\<rparr>) (wireFields b)"

text \<open>\<open>Message.unmarshalSeed\<close> and \<open>Message.unmarshalFull\<close>, for a message without nested declarations.\<close>

definition unmarshalMessageDesc :: "string \<Rightarrow> string \<Rightarrow> message_desc option" where
  "unmarshalMessageDesc parent b = (case wireFields b of
     None \<Rightarrow> None
   | Some fs \<Rightarrow>
       if wireBytes 3 fs \<noteq> [] \<or> wireBytes 4 fs \<noteq> [] \<or> wireBytes 6 fs \<noteq> [] then None
       else (let full = appendFullName parent (lastBytes 1 fs)
             in map_option (\<lambda>flds. \<lparr>msg_FullName = full, msg_Fields = flds\<rparr>)
                  (readAll (unmarshalFieldDesc full) (wireBytes 2 fs))))"

definition unmarshalMethodDesc :: "string \<Rightarrow> string \<Rightarrow> method_desc option" where
  "unmarshalMethodDesc parent b = (case wireFields b of
     None \<Rightarrow> None
   | Some fs \<Rightarrow>
       (case (makeFullName (lastBytes 2 fs), makeFullName (lastBytes 3 fs)) of
          (Some inp, Some outp) \<Rightarrow> Some \<lparr>mth_FullName = appendFullName parent (lastBytes 1 fs), mth_Input = inp, mth_Output = outp,
            mth_IsStreamingClient = (lastVarint 5 fs \<noteq> 0), mth_IsStreamingServer = (lastVarint 6 fs \<noteq> 0)\<rparr>
        | _ \<Rightarrow> None))"

definition unmarshalServiceDesc :: "string \<Rightarrow> string \<Rightarrow> service_desc option" where
  "unmarshalServiceDesc parent b = (case wireFields b of
     None \<Rightarrow> None
   | Some fs \<Rightarrow>
       (let full = appendFullName parent (lastBytes 1 fs)
        in map_option (\<lambda>ms. \<lparr>svc_FullName = full, svc_Methods = ms\<rparr>)
             (readAll (unmarshalMethodDesc full) (wireBytes 2 fs))))"

text \<open>
  \<open>newRawFile\<close>: the file and its declarations, which must be as many as the builder announces; enums and
  extensions are announced as none here, and either would exceed the room made for it.
\<close>

definition newRawFile :: "nat \<Rightarrow> nat \<Rightarrow> string \<Rightarrow> file_desc option" where
  "newRawFile numMessages numServices raw = (case wireFields raw of
     None \<Rightarrow> None
   | Some fs \<Rightarrow>
       (let pkg = lastBytes 2 fs; msgs = wireBytes 4 fs; svcs = wireBytes 6 fs in
        if wireBytes 5 fs \<noteq> [] \<or> wireBytes 7 fs \<noteq> [] \<or> \<not> contiguous 4 fs \<or> \<not> contiguous 6 fs \<or>
           length msgs \<noteq> numMessages \<or> length svcs \<noteq> numServices \<or>
           \<not> list_all (\<lambda>s. s = ''proto2'' \<or> s = ''proto3'' \<or> s = ''editions'') (wireBytes 12 fs) then None
        else (case (readAll (unmarshalMessageDesc pkg) msgs, readAll (unmarshalServiceDesc pkg) svcs) of
           (Some ms, Some ss) \<Rightarrow> Some \<lparr>fil_Path = lastBytes 1 fs, fil_Package = pkg,
             fil_Syntax = (if wireBytes 12 fs = [] then ''proto2'' else lastBytes 12 fs), fil_Messages = ms, fil_Services = ss\<rparr>
         | _ \<Rightarrow> None)))"

section \<open>What was written is read\<close>

text \<open>The encoding of a field, to find the fields in the descriptor.\<close>

definition putField :: "nat \<times> wire_value \<Rightarrow> string" where
  "putField f = (case snd f of
     WBytes v \<Rightarrow> AppendVarint (EncodeTag (fst f) 2) @ AppendBytes v
   | WVarint k \<Rightarrow> AppendVarint (EncodeTag (fst f) 0) @ AppendVarint k
   | WOther \<Rightarrow> '''')"

definition putFields :: "(nat \<times> wire_value) list \<Rightarrow> string" where
  "putFields fs = concat (map putField fs)"

definition writable :: "nat \<times> wire_value \<Rightarrow> bool" where
  "writable f \<longleftrightarrow> 1 \<le> fst f \<and> fst f < 2 ^ 29 \<and>
     (case snd f of WBytes v \<Rightarrow> length v < 2 ^ 64 | WVarint k \<Rightarrow> k < 2 ^ 64 | WOther \<Rightarrow> False)"

lemma ConsumeTag_written:
  assumes "1 \<le> num" "num < 2 ^ 29" "wt < 8"
  shows "ConsumeTag (AppendVarint (EncodeTag num wt) @ b) = Inr ((num, wt), b)"
proof -
  have "EncodeTag num wt div 8 = num" "EncodeTag num wt mod 8 = wt" "EncodeTag num wt < 2 ^ 64"
    using assms by (simp_all add: EncodeTag_def)
  then show ?thesis using assms by (simp add: ConsumeTag_def ConsumeVarint_AppendVarint)
qed

lemma wireField_written: "writable f \<Longrightarrow> wireField (putField f @ b) = Some (f, b)"
  by (cases f; cases "snd f")
    (auto simp: writable_def putField_def wireField_def ConsumeTag_written ConsumeBytes_AppendBytes ConsumeVarint_AppendVarint)

lemma wireFields_written: "list_all writable fs \<Longrightarrow> wireFields (putFields fs) = Some fs"
proof (induction fs)
  case (Cons f fs)
  have "putField f \<noteq> ''''"
    using Cons.prems by (cases f; cases "snd f") (auto simp: writable_def putField_def AppendVarint_not_Nil)
  with Cons show ?case
    by (subst wireFields.simps) (simp add: putFields_def wireField_written)
qed (simp add: putFields_def wireFields.simps)

section \<open>The descriptor of the service\<close>

definition file_api_proto_rawDesc :: string where
  "file_api_proto_rawDesc =
     [CHR 0x0A] @
     [CHR 0x09] @ ''api.proto'' @ [CHR 0x12, CHR 0x05] @ ''proto'' @ [CHR 0x22] @ ''>'' @ [CHR 0x0A] @
     [CHR 0x0E] @ ''CommandRequest'' @ [CHR 0x12, CHR 0x18, CHR 0x0A] @
     [CHR 0x07] @ ''command'' @ [CHR 0x18, CHR 0x01] @ '' '' @ [CHR 0x01] @ ''('' @ [CHR 0x09] @ ''R'' @ [CHR 0x07] @ ''command'' @ [CHR 0x12, CHR 0x12, CHR 0x0A] @
     [CHR 0x04] @ ''data'' @ [CHR 0x18, CHR 0x02] @ '' '' @ [CHR 0x01] @ ''('' @ [CHR 0x0C] @ ''R'' @ [CHR 0x04] @ ''data'' @ [CHR 0x22] @ ''W'' @ [CHR 0x0A] @
     [CHR 0x0F] @ ''CommandResponse'' @ [CHR 0x12, CHR 0x16, CHR 0x0A] @
     [CHR 0x06] @ ''status'' @ [CHR 0x18, CHR 0x01] @ '' '' @ [CHR 0x01] @ ''('' @ [CHR 0x09] @ ''R'' @ [CHR 0x06] @ ''status'' @ [CHR 0x12, CHR 0x16, CHR 0x0A] @
     [CHR 0x06] @ ''output'' @ [CHR 0x18, CHR 0x02] @ '' '' @ [CHR 0x01] @ ''('' @ [CHR 0x0C] @ ''R'' @ [CHR 0x06] @ ''output'' @ [CHR 0x12, CHR 0x14, CHR 0x0A] @
     [CHR 0x05] @ ''error'' @ [CHR 0x18, CHR 0x03] @ '' '' @ [CHR 0x01] @ ''('' @ [CHR 0x09] @ ''R'' @ [CHR 0x05] @ ''error2Q'' @ [CHR 0x0A] @
     [CHR 0x0E] @ ''CommandService'' @ [CHR 0x12] @ ''?'' @ [CHR 0x0A] @
     [CHR 0x0E] @ ''ExecuteCommand'' @ [CHR 0x12, CHR 0x15] @ ''.proto.CommandRequest'' @ [CHR 0x1A, CHR 0x16] @ ''.proto.CommandResponseB'' @ [CHR 0x22] @ ''Z pkg/utils/grpc/sidekick/protogenb'' @ [CHR 0x06] @ ''proto3''"

definition file_api_proto_init :: "file_desc option" where
  "file_api_proto_init = newRawFile 2 1 file_api_proto_rawDesc"

text \<open>The kinds of \<open>descriptor.proto\<close> that occur: 9 is a string, 12 is bytes; both optional, label 1.\<close>

definition declaredFields :: "message_desc \<Rightarrow> (nat \<times> proto_kind) option list" where
  "declaredFields m = map (\<lambda>f. if fld_Cardinality f \<noteq> 1 then None
     else if fld_Kind f = 9 then Some (fld_Number f, PString)
     else if fld_Kind f = 12 then Some (fld_Number f, PBytes) else None) (msg_Fields m)"

text \<open>The fields of the descriptor, which is the encoding of them.\<close>

definition fieldParts :: "string \<Rightarrow> nat \<Rightarrow> nat \<Rightarrow> (nat \<times> wire_value) list" where
  "fieldParts n num kind = [(1, WBytes n), (3, WVarint num), (4, WVarint 1), (5, WVarint kind), (10, WBytes n)]"

definition messageParts :: "string \<Rightarrow> (string \<times> nat \<times> nat) list \<Rightarrow> (nat \<times> wire_value) list" where
  "messageParts n fs = (1, WBytes n) # map (\<lambda>(f, num, kind). (2, WBytes (putFields (fieldParts f num kind)))) fs"

definition methodParts :: "(nat \<times> wire_value) list" where
  "methodParts = [(1, WBytes ''ExecuteCommand''), (2, WBytes ''.proto.CommandRequest''), (3, WBytes ''.proto.CommandResponse'')]"

definition serviceParts :: "(nat \<times> wire_value) list" where
  "serviceParts = [(1, WBytes ''CommandService''), (2, WBytes (putFields methodParts))]"

definition fileParts :: "(nat \<times> wire_value) list" where
  "fileParts = [(1, WBytes ''api.proto''), (2, WBytes ''proto''),
     (4, WBytes (putFields (messageParts ''CommandRequest'' [(''command'', 1, 9), (''data'', 2, 12)]))),
     (4, WBytes (putFields (messageParts ''CommandResponse'' [(''status'', 1, 9), (''output'', 2, 12), (''error'', 3, 9)]))),
     (6, WBytes (putFields serviceParts)),
     (8, WBytes (putFields [(11, WBytes ''pkg/utils/grpc/sidekick/protogen'')])), (12, WBytes ''proto3'')]"

lemma rawDesc_parts: "file_api_proto_rawDesc = putFields fileParts"
  by code_simp

text \<open>Numbers and lengths of the descriptor are small, and so within the bounds of the format.\<close>

definition small :: "nat \<times> wire_value \<Rightarrow> bool" where
  "small f = (1 \<le> fst f \<and> fst f \<le> 15 \<and>
     (case snd f of WBytes v \<Rightarrow> length v \<le> 127 | WVarint k \<Rightarrow> k \<le> 127 | WOther \<Rightarrow> False))"

lemma wireFields_small: "list_all small fs \<Longrightarrow> wireFields (putFields fs) = Some fs"
  by (rule wireFields_written) (auto simp: list_all_iff small_def writable_def split: wire_value.splits)

lemma parts_small:
  "list_all small fileParts"
  "list_all small (messageParts ''CommandRequest'' [(''command'', 1, 9), (''data'', 2, 12)])"
  "list_all small (messageParts ''CommandResponse'' [(''status'', 1, 9), (''output'', 2, 12), (''error'', 3, 9)])"
  "list_all small serviceParts" "list_all small methodParts"
  by code_simp+

lemma fieldParts_small: "length n \<le> 127 \<Longrightarrow> num \<le> 127 \<Longrightarrow> kind \<le> 127 \<Longrightarrow> list_all small (fieldParts n num kind)"
  by (simp add: fieldParts_def small_def)

lemmas lasts = wireBytes_def lastBytes_def lastVarint_def contiguous_def makeFullName_def appendFullName_def

lemma unmarshalFieldDesc_parts:
  assumes "length n \<le> 127" "num \<le> 127" "kind \<le> 127" "parent \<noteq> ''''"
  shows "unmarshalFieldDesc parent (putFields (fieldParts n num kind)) =
    Some \<lparr>fld_FullName = parent @ ''.'' @ n, fld_Number = num, fld_Cardinality = 1, fld_Kind = kind\<rparr>"
  using wireFields_small [OF fieldParts_small [OF assms(1-3)]] assms(4)
  by (simp add: unmarshalFieldDesc_def lasts fieldParts_def)

definition requestDesc :: message_desc where
  "requestDesc = \<lparr>msg_FullName = ''proto.CommandRequest'', msg_Fields =
     [\<lparr>fld_FullName = ''proto.CommandRequest.command'', fld_Number = 1, fld_Cardinality = 1, fld_Kind = 9\<rparr>,
      \<lparr>fld_FullName = ''proto.CommandRequest.data'', fld_Number = 2, fld_Cardinality = 1, fld_Kind = 12\<rparr>]\<rparr>"

definition responseDesc :: message_desc where
  "responseDesc = \<lparr>msg_FullName = ''proto.CommandResponse'', msg_Fields =
     [\<lparr>fld_FullName = ''proto.CommandResponse.status'', fld_Number = 1, fld_Cardinality = 1, fld_Kind = 9\<rparr>,
      \<lparr>fld_FullName = ''proto.CommandResponse.output'', fld_Number = 2, fld_Cardinality = 1, fld_Kind = 12\<rparr>,
      \<lparr>fld_FullName = ''proto.CommandResponse.error'', fld_Number = 3, fld_Cardinality = 1, fld_Kind = 9\<rparr>]\<rparr>"

definition serviceDesc :: service_desc where
  "serviceDesc = \<lparr>svc_FullName = ''proto.CommandService'', svc_Methods =
     [\<lparr>mth_FullName = ''proto.CommandService.ExecuteCommand'', mth_Input = ''proto.CommandRequest'',
       mth_Output = ''proto.CommandResponse'', mth_IsStreamingClient = False, mth_IsStreamingServer = False\<rparr>]\<rparr>"

lemma requestDesc_read: "unmarshalMessageDesc ''proto''
    (putFields (messageParts ''CommandRequest'' [(''command'', 1, 9), (''data'', 2, 12)])) = Some requestDesc"
  unfolding unmarshalMessageDesc_def wireFields_small [OF parts_small(2)]
  by (simp add: lasts messageParts_def unmarshalFieldDesc_parts requestDesc_def Let_def)

lemma responseDesc_read: "unmarshalMessageDesc ''proto''
    (putFields (messageParts ''CommandResponse'' [(''status'', 1, 9), (''output'', 2, 12), (''error'', 3, 9)])) = Some responseDesc"
  unfolding unmarshalMessageDesc_def wireFields_small [OF parts_small(3)]
  by (simp add: lasts messageParts_def unmarshalFieldDesc_parts responseDesc_def Let_def)

lemma serviceDesc_read: "unmarshalServiceDesc ''proto'' (putFields serviceParts) = Some serviceDesc"
proof -
  have "unmarshalMethodDesc ''proto.CommandService'' (putFields methodParts) = Some (hd (svc_Methods serviceDesc))"
    unfolding unmarshalMethodDesc_def wireFields_small [OF parts_small(5)]
    by (simp add: lasts methodParts_def serviceDesc_def)
  then show ?thesis
    unfolding unmarshalServiceDesc_def wireFields_small [OF parts_small(4)]
    by (simp add: lasts serviceParts_def serviceDesc_def Let_def)
qed

lemma file_read: "file_api_proto_init = Some \<lparr>fil_Path = ''api.proto'', fil_Package = ''proto'', fil_Syntax = ''proto3'',
    fil_Messages = [requestDesc, responseDesc], fil_Services = [serviceDesc]\<rparr>"
  unfolding file_api_proto_init_def newRawFile_def rawDesc_parts wireFields_small [OF parts_small(1)]
  by (simp add: fileParts_def lasts Let_def requestDesc_read [simplified] responseDesc_read [simplified] serviceDesc_read)

text \<open>
  The embedded descriptor is read without a panic, and what the generated code says beside it is what
  it declares: the two messages have the fields, field numbers and kinds of the struct tags, and the package has the one service
  with the one method that the server's routing table and the client's method name use, from the request message to the
  response message and without streaming.
\<close>

theorem descriptor_agrees:
  "case file_api_proto_init of
     None \<Rightarrow> False
   | Some fd \<Rightarrow>
       fil_Syntax fd = ''proto3'' \<and>
       map declaredFields (fil_Messages fd) = [map Some CommandRequest_fields, map Some CommandResponse_fields] \<and>
       map (\<lambda>m. map fld_FullName (msg_Fields m)) (fil_Messages fd) =
         [[''proto.CommandRequest.command'', ''proto.CommandRequest.data''],
          [''proto.CommandResponse.status'', ''proto.CommandResponse.output'', ''proto.CommandResponse.error'']] \<and>
       map svc_FullName (fil_Services fd) = [fst CommandService_ServiceDesc] \<and>
       concat (map svc_Methods (fil_Services fd)) = map (\<lambda>m.
         \<lparr>mth_FullName = fst CommandService_ServiceDesc @ ''.'' @ m, mth_Input = msg_FullName (fil_Messages fd ! 0),
          mth_Output = msg_FullName (fil_Messages fd ! 1), mth_IsStreamingClient = False, mth_IsStreamingServer = False\<rparr>)
         (snd CommandService_ServiceDesc) \<and>
       CommandService_ExecuteCommand_FullMethodName =
         ''/'' @ fst CommandService_ServiceDesc @ ''/'' @ hd (snd CommandService_ServiceDesc)"
  by (simp add: file_read requestDesc_def responseDesc_def serviceDesc_def declaredFields_def CommandRequest_fields_def
      CommandResponse_fields_def CommandService_ServiceDesc_def CommandService_ExecuteCommand_FullMethodName_def)

end
