(* ===== verification/Openapi_Schema.thy ===== *)
theory Openapi_Schema
  imports Go_Json
begin

text \<open>
  What an OpenAPI definition is (\<open>spec.Schema\<close> and \<open>common.OpenAPIDefinition\<close> of kube-openapi), what the
  declaration of a Go struct is, with the types, JSON tags and markers of its members, and
  the rule by which the generator makes the one from the other. The theories \<open>Openapi_Meta\<close>, \<open>Openapi_Volumes\<close>,
  \<open>Openapi_Pods\<close> and \<open>Openapi_Sidekick\<close> hold the definitions and declarations themselves,
  \<open>Openapi\<close> compares them. Descriptions are documentation only and left out.
\<close>

section \<open>Schemas\<close>

text \<open>
  \<open>spec.Schema\<close>: type, format, reference, default, enumeration, items, properties, additional
  properties, required members, extensions, alternatives, and the schema for version 2 that
  \<open>EmbedOpenAPIDefinitionIntoV2Extension\<close> stores among the extensions. References are built by the
  caller's callback.
\<close>

datatype 'r schema = Schema
  (sch_Type: "string list") (sch_Format: string) (sch_Ref: "'r option") (sch_Default: "json option")
  (sch_Enum: "json list") (sch_Items: "'r schema option") (sch_Properties: "(string \<times> 'r schema) list")
  (sch_Additional: "'r schema option") (sch_Required: "string list") (sch_Extensions: "(string \<times> json) list")
  (sch_OneOf: "'r schema list") (sch_V2: "'r schema option")

record 'r openapi_definition =
  od_Schema :: "'r schema"
  od_Dependencies :: "string list"

text \<open>The forms of schema literal that occur in the file.\<close>

definition plainS :: "string \<Rightarrow> string \<Rightarrow> 'r schema" where
  "plainS ty fmt = Schema [ty] fmt None None [] None [] None [] [] [] None"

definition refS :: "'r \<Rightarrow> 'r schema" where
  "refS r = Schema [] '''' (Some r) None [] None [] None [] [] [] None"

definition arrayS :: "'r schema \<Rightarrow> 'r schema" where
  "arrayS item = Schema [''array''] '''' None None [] (Some item) [] None [] [] [] None"

definition mapS :: "'r schema \<Rightarrow> 'r schema" where
  "mapS item = Schema [''object''] '''' None None [] None [] (Some item) [] [] [] None"

definition objectS :: "(string \<times> 'r schema) list \<Rightarrow> string list \<Rightarrow> 'r schema" where
  "objectS props required = Schema [''object''] '''' None None [] None props None required [] [] None"

fun withDefault :: "json \<Rightarrow> 'r schema \<Rightarrow> 'r schema" where
  "withDefault d (Schema t f r _ e i p a q x oo v) = Schema t f r (Some d) e i p a q x oo v"

fun withEnum :: "json list \<Rightarrow> 'r schema \<Rightarrow> 'r schema" where
  "withEnum vs (Schema t f r d _ i p a q x oo v) = Schema t f r d vs i p a q x oo v"

fun withExtensions :: "(string \<times> json) list \<Rightarrow> 'r schema \<Rightarrow> 'r schema" where
  "withExtensions xs (Schema t f r d e i p a q _ oo v) = Schema t f r d e i p a q xs oo v"

text \<open>\<open>GenerateOpenAPIV3OneOfSchema\<close> and \<open>EmbedOpenAPIDefinitionIntoV2Extension\<close> of kube-openapi.\<close>

definition GenerateOpenAPIV3OneOfSchema :: "string list \<Rightarrow> 'r schema list" where
  "GenerateOpenAPIV3OneOfSchema types = map (\<lambda>t. plainS t '''') types"

definition oneOfS :: "string list \<Rightarrow> string \<Rightarrow> 'r schema" where
  "oneOfS types fmt = Schema [] fmt None None [] None [] None [] [] (GenerateOpenAPIV3OneOfSchema types) None"

fun withV2 :: "'r schema \<Rightarrow> 'r schema \<Rightarrow> 'r schema" where
  "withV2 s2 (Schema t f r d e i p a q x oo _) = Schema t f r d e i p a q x oo (Some s2)"

definition EmbedOpenAPIDefinitionIntoV2Extension :: "'r openapi_definition \<Rightarrow> 'r openapi_definition \<Rightarrow> 'r openapi_definition" where
  "EmbedOpenAPIDefinitionIntoV2Extension main embedded = main\<lparr>od_Schema := withV2 (od_Schema embedded) (od_Schema main)\<rparr>"

lemmas schema_forms = plainS_def refS_def arrayS_def mapS_def objectS_def

section \<open>Declarations\<close>

text \<open>
  The type of a member: a struct of some package, a type with a JSON form of its own (it has
  no zero value in JSON), a named string type, one marked with \<open>+enum\<close> and its constants, or a type of the
  language over these.
\<close>

datatype gotype = GString | GBool | GInt32 | GInt64 | GNamedString string | GEnum string "string list"
  | GStruct string | GOpaque string | GPtr gotype | GSlice gotype | GMap gotype

record go_field =
  fd_Name :: string
  fd_Type :: gotype
  fd_JSON :: string
  fd_OmitEmpty :: bool
  fd_Optional :: bool
  fd_OmitZero :: bool
  fd_Default :: "json option"
  fd_Patch :: "(string \<times> string) option"
  fd_List :: "(string \<times> string list) option"
  fd_Map :: "string option"

definition goField :: "string \<Rightarrow> gotype \<Rightarrow> string \<Rightarrow> bool \<Rightarrow> bool \<Rightarrow> go_field" where
  "goField name ty json omitempty optional = \<lparr>fd_Name = name, fd_Type = ty, fd_JSON = json, fd_OmitEmpty = omitempty,
     fd_Optional = optional, fd_OmitZero = False, fd_Default = None, fd_Patch = None, fd_List = None, fd_Map = None\<rparr>"

text \<open>
  The option \<open>omitzero\<close> of the JSON tag; the tags \<open>patchStrategy\<close> and \<open>patchMergeKey\<close> (empty when
  missing); the markers \<open>+default\<close>, \<open>+listType\<close>, \<open>+listMapKey\<close> and \<open>+mapType\<close>.
\<close>

definition omitZero :: "go_field \<Rightarrow> go_field" where
  "omitZero f = f\<lparr>fd_OmitZero := True\<rparr>"

definition defaultsTo :: "json \<Rightarrow> go_field \<Rightarrow> go_field" where
  "defaultsTo d f = f\<lparr>fd_Default := Some d\<rparr>"

definition patched :: "string \<Rightarrow> string \<Rightarrow> go_field \<Rightarrow> go_field" where
  "patched strategy mergeKey f = f\<lparr>fd_Patch := Some (strategy, mergeKey)\<rparr>"

definition listed :: "string \<Rightarrow> string list \<Rightarrow> go_field \<Rightarrow> go_field" where
  "listed ty ks f = f\<lparr>fd_List := Some (ty, ks)\<rparr>"

definition mapped :: "string \<Rightarrow> go_field \<Rightarrow> go_field" where
  "mapped ty f = f\<lparr>fd_Map := Some ty\<rparr>"

text \<open>The markers of a struct: \<open>+structType\<close>, and \<open>+union\<close> with the JSON name of the member marked as discriminator.\<close>

datatype struct_mark = StructType string | Union string

type_synonym go_struct = "struct_mark list \<times> go_field list"

section \<open>The schema of a declaration\<close>

text \<open>The zero value of a type that is not nil-able.\<close>

fun zeroJson :: "gotype \<Rightarrow> json option" where
  "zeroJson GString = Some (JStr '''')"
| "zeroJson GBool = Some (JBool False)"
| "zeroJson GInt32 = Some (JNum ''0'')"
| "zeroJson GInt64 = Some (JNum ''0'')"
| "zeroJson (GNamedString _) = Some (JStr '''')"
| "zeroJson (GEnum _ _) = Some (JStr '''')"
| "zeroJson (GStruct _) = Some (JObj [])"
| "zeroJson _ = None"

definition defaulted :: "json option \<Rightarrow> 'r schema \<Rightarrow> 'r schema" where
  "defaulted d s = (case d of None \<Rightarrow> s | Some v \<Rightarrow> withDefault v s)"

text \<open>The elements of slices and maps are not given the enumeration of their type.\<close>

fun schemaOfType :: "(string \<Rightarrow> 'r) \<Rightarrow> gotype \<Rightarrow> 'r schema" where
  "schemaOfType ref GString = plainS ''string'' ''''"
| "schemaOfType ref GBool = plainS ''boolean'' ''''"
| "schemaOfType ref GInt32 = plainS ''integer'' ''int32''"
| "schemaOfType ref GInt64 = plainS ''integer'' ''int64''"
| "schemaOfType ref (GNamedString n) = plainS ''string'' ''''"
| "schemaOfType ref (GEnum n vs) = withEnum (map JStr vs) (plainS ''string'' '''')"
| "schemaOfType ref (GStruct n) = refS (ref n)"
| "schemaOfType ref (GOpaque n) = refS (ref n)"
| "schemaOfType ref (GPtr t) = schemaOfType ref t"
| "schemaOfType ref (GSlice t) = arrayS (defaulted (zeroJson t) (withEnum [] (schemaOfType ref t)))"
| "schemaOfType ref (GMap t) = mapS (defaulted (zeroJson t) (withEnum [] (schemaOfType ref t)))"

definition fieldDefault :: "go_field \<Rightarrow> json option" where
  "fieldDefault f = (case fd_Default f of Some d \<Rightarrow> Some d
     | None \<Rightarrow> (case fd_Type f of GStruct _ \<Rightarrow> zeroJson (fd_Type f)
        | t \<Rightarrow> if fd_OmitEmpty f \<or> fd_Optional f then None else zeroJson t))"

definition fieldExtensions :: "go_field \<Rightarrow> (string \<times> json) list" where
  "fieldExtensions f =
     (case fd_List f of None \<Rightarrow> []
      | Some (ty, ks) \<Rightarrow> (if ks = [] then [] else [(''x-kubernetes-list-map-keys'', JArr (map JStr ks))]) @
          [(''x-kubernetes-list-type'', JStr ty)]) @
     (case fd_Map f of None \<Rightarrow> [] | Some ty \<Rightarrow> [(''x-kubernetes-map-type'', JStr ty)]) @
     (case fd_Patch f of None \<Rightarrow> []
      | Some (strategy, mergeKey) \<Rightarrow>
          (if mergeKey = '''' then [] else [(''x-kubernetes-patch-merge-key'', JStr mergeKey)]) @
          [(''x-kubernetes-patch-strategy'', JStr strategy)])"

definition fieldSchema :: "(string \<Rightarrow> 'r) \<Rightarrow> go_field \<Rightarrow> 'r schema" where
  "fieldSchema ref f = withExtensions (fieldExtensions f) (defaulted (fieldDefault f) (schemaOfType ref (fd_Type f)))"

definition fieldRequired :: "go_field \<Rightarrow> bool" where
  "fieldRequired f \<longleftrightarrow> \<not> fd_OmitEmpty f \<and> \<not> fd_OmitZero f \<and> \<not> fd_Optional f"

fun markExtension :: "go_field list \<Rightarrow> struct_mark \<Rightarrow> string \<times> json" where
  "markExtension fs (StructType t) = (''x-kubernetes-map-type'', JStr t)"
| "markExtension fs (Union d) = (''x-kubernetes-unions'', JArr [JObj [(''discriminator'', JStr d),
     (''fields-to-discriminateBy'', JObj (map (\<lambda>f. (fd_JSON f, JStr (fd_Name f))) (filter (\<lambda>f. fd_JSON f \<noteq> d) fs)))]])"

definition schemaOfStruct :: "(string \<Rightarrow> 'r) \<Rightarrow> go_struct \<Rightarrow> 'r schema" where
  "schemaOfStruct ref st = (case st of (marks, fs) \<Rightarrow>
     withExtensions (map (markExtension fs) marks)
       (objectS (map (\<lambda>f. (fd_JSON f, fieldSchema ref f)) fs) (map fd_JSON (filter fieldRequired fs))))"

lemmas struct_schema_defs = schemaOfStruct_def fieldSchema_def fieldExtensions_def fieldDefault_def fieldRequired_def
  defaulted_def goField_def omitZero_def defaultsTo_def patched_def listed_def mapped_def schema_forms

section \<open>Closed definitions\<close>

fun schemaRefs :: "'r schema \<Rightarrow> 'r list" where
  "schemaRefs (Schema t f r d e i p a q x oo v) =
     (case r of None \<Rightarrow> [] | Some n \<Rightarrow> [n]) @
     (case i of None \<Rightarrow> [] | Some s \<Rightarrow> schemaRefs s) @
     (case a of None \<Rightarrow> [] | Some s \<Rightarrow> schemaRefs s) @
     concat (map (\<lambda>(k, s). schemaRefs s) p) @ concat (map schemaRefs oo)"

text \<open>
  A definition lists its references, sorted and each once; its required members are among its
  properties, whose names are distinct. It is closed if what it refers to is registered.
\<close>

definition consistentDefinition :: "string openapi_definition \<Rightarrow> bool" where
  "consistentDefinition d =
     (let s = od_Schema d; names = map fst (sch_Properties s) in
      od_Dependencies d = sort (remdups (schemaRefs s)) \<and>
      distinct names \<and> list_all (\<lambda>n. List.member names n) (sch_Required s))"

definition closedDefinition :: "string list \<Rightarrow> string openapi_definition \<Rightarrow> bool" where
  "closedDefinition registered d \<longleftrightarrow> consistentDefinition d \<and> set (od_Dependencies d) \<subseteq> set registered"

end
