(* ===== verification/Openapi_Enums.thy ===== *)
theory Openapi_Enums
  imports Openapi_Schema
begin

text \<open>
  The string types of \<open>k8s.io/api/core/v1\<close> and \<open>k8s.io/apimachinery/pkg/apis/meta/v1\<close> marked with \<open>+enum\<close>, each
  with its constants in the order of their values, in which the generator lists them.
\<close>

named_theorems openapi_data "the definitions and declarations, to unfold"

definition core_AppArmorProfileType :: gotype where [openapi_data]:
  "core_AppArmorProfileType = GEnum ''k8s.io/api/core/v1.AppArmorProfileType'' [''Localhost'', ''RuntimeDefault'', ''Unconfined'']"

definition core_AzureDataDiskCachingMode :: gotype where [openapi_data]:
  "core_AzureDataDiskCachingMode = GEnum ''k8s.io/api/core/v1.AzureDataDiskCachingMode'' [''None'', ''ReadOnly'', ''ReadWrite'']"

definition core_AzureDataDiskKind :: gotype where [openapi_data]:
  "core_AzureDataDiskKind = GEnum ''k8s.io/api/core/v1.AzureDataDiskKind'' [''Dedicated'', ''Managed'', ''Shared'']"

definition core_DNSPolicy :: gotype where [openapi_data]:
  "core_DNSPolicy = GEnum ''k8s.io/api/core/v1.DNSPolicy'' [''ClusterFirst'', ''ClusterFirstWithHostNet'', ''Default'', ''None'']"

definition core_HostPathType :: gotype where [openapi_data]:
  "core_HostPathType = GEnum ''k8s.io/api/core/v1.HostPathType'' ['''', ''BlockDevice'', ''CharDevice'', ''Directory'', ''DirectoryOrCreate'', ''File'', ''FileOrCreate'', ''Socket'']"

definition core_MountPropagationMode :: gotype where [openapi_data]:
  "core_MountPropagationMode = GEnum ''k8s.io/api/core/v1.MountPropagationMode'' [''Bidirectional'', ''HostToContainer'', ''None'']"

definition core_NodeInclusionPolicy :: gotype where [openapi_data]:
  "core_NodeInclusionPolicy = GEnum ''k8s.io/api/core/v1.NodeInclusionPolicy'' [''Honor'', ''Ignore'']"

definition core_NodeSelectorOperator :: gotype where [openapi_data]:
  "core_NodeSelectorOperator = GEnum ''k8s.io/api/core/v1.NodeSelectorOperator'' [''DoesNotExist'', ''Exists'', ''Gt'', ''In'', ''Lt'', ''NotIn'']"

definition core_PersistentVolumeAccessMode :: gotype where [openapi_data]:
  "core_PersistentVolumeAccessMode = GEnum ''k8s.io/api/core/v1.PersistentVolumeAccessMode'' [''ReadOnlyMany'', ''ReadWriteMany'', ''ReadWriteOnce'', ''ReadWriteOncePod'']"

definition core_PersistentVolumeMode :: gotype where [openapi_data]:
  "core_PersistentVolumeMode = GEnum ''k8s.io/api/core/v1.PersistentVolumeMode'' [''Block'', ''Filesystem'']"

definition core_PodFSGroupChangePolicy :: gotype where [openapi_data]:
  "core_PodFSGroupChangePolicy = GEnum ''k8s.io/api/core/v1.PodFSGroupChangePolicy'' [''Always'', ''OnRootMismatch'']"

definition core_PodPhase :: gotype where [openapi_data]:
  "core_PodPhase = GEnum ''k8s.io/api/core/v1.PodPhase'' [''Failed'', ''Pending'', ''Running'', ''Succeeded'', ''Unknown'']"

definition core_PreemptionPolicy :: gotype where [openapi_data]:
  "core_PreemptionPolicy = GEnum ''k8s.io/api/core/v1.PreemptionPolicy'' [''Never'', ''PreemptLowerPriority'']"

definition core_ProcMountType :: gotype where [openapi_data]:
  "core_ProcMountType = GEnum ''k8s.io/api/core/v1.ProcMountType'' [''Default'', ''Unmasked'']"

definition core_Protocol :: gotype where [openapi_data]:
  "core_Protocol = GEnum ''k8s.io/api/core/v1.Protocol'' [''SCTP'', ''TCP'', ''UDP'']"

definition core_PullPolicy :: gotype where [openapi_data]:
  "core_PullPolicy = GEnum ''k8s.io/api/core/v1.PullPolicy'' [''Always'', ''IfNotPresent'', ''Never'']"

definition core_RestartPolicy :: gotype where [openapi_data]:
  "core_RestartPolicy = GEnum ''k8s.io/api/core/v1.RestartPolicy'' [''Always'', ''Never'', ''OnFailure'']"

definition core_SeccompProfileType :: gotype where [openapi_data]:
  "core_SeccompProfileType = GEnum ''k8s.io/api/core/v1.SeccompProfileType'' [''Localhost'', ''RuntimeDefault'', ''Unconfined'']"

definition core_Signal :: gotype where [openapi_data]:
  "core_Signal = GEnum ''k8s.io/api/core/v1.Signal'' [''SIGABRT'', ''SIGALRM'', ''SIGBUS'', ''SIGCHLD'', ''SIGCLD'', ''SIGCONT'', ''SIGFPE'', ''SIGHUP'', ''SIGILL'', ''SIGINT'', ''SIGIO'', ''SIGIOT'', ''SIGKILL'', ''SIGPIPE'', ''SIGPOLL'', ''SIGPROF'', ''SIGPWR'', ''SIGQUIT'', ''SIGRTMAX'', ''SIGRTMAX-1'', ''SIGRTMAX-10'', ''SIGRTMAX-11'', ''SIGRTMAX-12'', ''SIGRTMAX-13'', ''SIGRTMAX-14'', ''SIGRTMAX-2'', ''SIGRTMAX-3'', ''SIGRTMAX-4'', ''SIGRTMAX-5'', ''SIGRTMAX-6'', ''SIGRTMAX-7'', ''SIGRTMAX-8'', ''SIGRTMAX-9'', ''SIGRTMIN'', ''SIGRTMIN+1'', ''SIGRTMIN+10'', ''SIGRTMIN+11'', ''SIGRTMIN+12'', ''SIGRTMIN+13'', ''SIGRTMIN+14'', ''SIGRTMIN+15'', ''SIGRTMIN+2'', ''SIGRTMIN+3'', ''SIGRTMIN+4'', ''SIGRTMIN+5'', ''SIGRTMIN+6'', ''SIGRTMIN+7'', ''SIGRTMIN+8'', ''SIGRTMIN+9'', ''SIGSEGV'', ''SIGSTKFLT'', ''SIGSTOP'', ''SIGSYS'', ''SIGTERM'', ''SIGTRAP'', ''SIGTSTP'', ''SIGTTIN'', ''SIGTTOU'', ''SIGURG'', ''SIGUSR1'', ''SIGUSR2'', ''SIGVTALRM'', ''SIGWINCH'', ''SIGXCPU'', ''SIGXFSZ'']"

definition core_SupplementalGroupsPolicy :: gotype where [openapi_data]:
  "core_SupplementalGroupsPolicy = GEnum ''k8s.io/api/core/v1.SupplementalGroupsPolicy'' [''Merge'', ''Strict'']"

definition core_TaintEffect :: gotype where [openapi_data]:
  "core_TaintEffect = GEnum ''k8s.io/api/core/v1.TaintEffect'' [''NoExecute'', ''NoSchedule'', ''PreferNoSchedule'']"

definition core_TerminationMessagePolicy :: gotype where [openapi_data]:
  "core_TerminationMessagePolicy = GEnum ''k8s.io/api/core/v1.TerminationMessagePolicy'' [''FallbackToLogsOnError'', ''File'']"

definition core_TolerationOperator :: gotype where [openapi_data]:
  "core_TolerationOperator = GEnum ''k8s.io/api/core/v1.TolerationOperator'' [''Equal'', ''Exists'']"

definition core_URIScheme :: gotype where [openapi_data]:
  "core_URIScheme = GEnum ''k8s.io/api/core/v1.URIScheme'' [''HTTP'', ''HTTPS'']"

definition core_UnsatisfiableConstraintAction :: gotype where [openapi_data]:
  "core_UnsatisfiableConstraintAction = GEnum ''k8s.io/api/core/v1.UnsatisfiableConstraintAction'' [''DoNotSchedule'', ''ScheduleAnyway'']"

end
