(* ===== verification/Openapi_Meta.thy ===== *)
theory Openapi_Meta
  imports Openapi_Enums
begin

text \<open>
  The definitions and declarations of the types of \<open>k8s.io/apimachinery\<close> and of the condition of
  \<open>kmodules.xyz/client-go\<close> that a Sidekick refers to.
\<close>

section \<open>The definitions\<close>

definition schema_meta_FieldsV1 :: "(string \<Rightarrow> 'r) \<Rightarrow> 'r openapi_definition" where [openapi_data]:
  "schema_meta_FieldsV1 ref = \<lparr>
     od_Schema = objectS [] [],
     od_Dependencies = []\<rparr>"

definition schema_meta_LabelSelector :: "(string \<Rightarrow> 'r) \<Rightarrow> 'r openapi_definition" where [openapi_data]:
  "schema_meta_LabelSelector ref = \<lparr>
     od_Schema = withExtensions [(''x-kubernetes-map-type'', JStr ''atomic'')]
       (objectS [
     (''matchLabels'', mapS (withDefault (JStr '''') (plainS ''string'' ''''))),
     (''matchExpressions'', withExtensions [(''x-kubernetes-list-type'', JStr ''atomic'')]
       (arrayS (withDefault (JObj []) (refS (ref ''k8s.io/apimachinery/pkg/apis/meta/v1.LabelSelectorRequirement'')))))] []),
     od_Dependencies = [''k8s.io/apimachinery/pkg/apis/meta/v1.LabelSelectorRequirement'']\<rparr>"

definition schema_meta_LabelSelectorRequirement :: "(string \<Rightarrow> 'r) \<Rightarrow> 'r openapi_definition" where [openapi_data]:
  "schema_meta_LabelSelectorRequirement ref = \<lparr>
     od_Schema = objectS [
     (''key'', withDefault (JStr '''') (plainS ''string'' '''')),
     (''operator'', withDefault (JStr '''') (plainS ''string'' '''')),
     (''values'', withExtensions [(''x-kubernetes-list-type'', JStr ''atomic'')]
       (arrayS (withDefault (JStr '''') (plainS ''string'' ''''))))] [''key'', ''operator''],
     od_Dependencies = []\<rparr>"

definition schema_meta_ListMeta :: "(string \<Rightarrow> 'r) \<Rightarrow> 'r openapi_definition" where [openapi_data]:
  "schema_meta_ListMeta ref = \<lparr>
     od_Schema = objectS [
     (''selfLink'', plainS ''string'' ''''),
     (''resourceVersion'', plainS ''string'' ''''),
     (''continue'', plainS ''string'' ''''),
     (''remainingItemCount'', plainS ''integer'' ''int64'')] [],
     od_Dependencies = []\<rparr>"

definition schema_meta_ManagedFieldsEntry :: "(string \<Rightarrow> 'r) \<Rightarrow> 'r openapi_definition" where [openapi_data]:
  "schema_meta_ManagedFieldsEntry ref = \<lparr>
     od_Schema = objectS [
     (''manager'', plainS ''string'' ''''),
     (''operation'', plainS ''string'' ''''),
     (''apiVersion'', plainS ''string'' ''''),
     (''time'', refS (ref ''k8s.io/apimachinery/pkg/apis/meta/v1.Time'')),
     (''fieldsType'', plainS ''string'' ''''),
     (''fieldsV1'', refS (ref ''k8s.io/apimachinery/pkg/apis/meta/v1.FieldsV1'')),
     (''subresource'', plainS ''string'' '''')] [],
     od_Dependencies = [''k8s.io/apimachinery/pkg/apis/meta/v1.FieldsV1'', ''k8s.io/apimachinery/pkg/apis/meta/v1.Time'']\<rparr>"

definition schema_meta_ObjectMeta_properties1 :: "(string \<Rightarrow> 'r) \<Rightarrow> (string \<times> 'r schema) list" where [openapi_data]:
  "schema_meta_ObjectMeta_properties1 ref = [
     (''name'', plainS ''string'' ''''),
     (''generateName'', plainS ''string'' ''''),
     (''namespace'', plainS ''string'' ''''),
     (''selfLink'', plainS ''string'' ''''),
     (''uid'', plainS ''string'' ''''),
     (''resourceVersion'', plainS ''string'' ''''),
     (''generation'', plainS ''integer'' ''int64''),
     (''creationTimestamp'', refS (ref ''k8s.io/apimachinery/pkg/apis/meta/v1.Time'')),
     (''deletionTimestamp'', refS (ref ''k8s.io/apimachinery/pkg/apis/meta/v1.Time'')),
     (''deletionGracePeriodSeconds'', plainS ''integer'' ''int64''),
     (''labels'', mapS (withDefault (JStr '''') (plainS ''string'' ''''))),
     (''annotations'', mapS (withDefault (JStr '''') (plainS ''string'' ''''))),
     (''ownerReferences'', withExtensions [(''x-kubernetes-list-map-keys'', JArr [JStr ''uid'']), (''x-kubernetes-list-type'', JStr ''map''), (''x-kubernetes-patch-merge-key'', JStr ''uid''), (''x-kubernetes-patch-strategy'', JStr ''merge'')]
       (arrayS (withDefault (JObj []) (refS (ref ''k8s.io/apimachinery/pkg/apis/meta/v1.OwnerReference'')))))]"

definition schema_meta_ObjectMeta_properties2 :: "(string \<Rightarrow> 'r) \<Rightarrow> (string \<times> 'r schema) list" where [openapi_data]:
  "schema_meta_ObjectMeta_properties2 ref = [
     (''finalizers'', withExtensions [(''x-kubernetes-list-type'', JStr ''set''), (''x-kubernetes-patch-strategy'', JStr ''merge'')]
       (arrayS (withDefault (JStr '''') (plainS ''string'' '''')))),
     (''managedFields'', withExtensions [(''x-kubernetes-list-type'', JStr ''atomic'')]
       (arrayS (withDefault (JObj []) (refS (ref ''k8s.io/apimachinery/pkg/apis/meta/v1.ManagedFieldsEntry'')))))]"

definition schema_meta_ObjectMeta :: "(string \<Rightarrow> 'r) \<Rightarrow> 'r openapi_definition" where [openapi_data]:
  "schema_meta_ObjectMeta ref = \<lparr>
     od_Schema = objectS (schema_meta_ObjectMeta_properties1 ref @ schema_meta_ObjectMeta_properties2 ref) [],
     od_Dependencies = [''k8s.io/apimachinery/pkg/apis/meta/v1.ManagedFieldsEntry'', ''k8s.io/apimachinery/pkg/apis/meta/v1.OwnerReference'', ''k8s.io/apimachinery/pkg/apis/meta/v1.Time'']\<rparr>"

definition schema_meta_OwnerReference :: "(string \<Rightarrow> 'r) \<Rightarrow> 'r openapi_definition" where [openapi_data]:
  "schema_meta_OwnerReference ref = \<lparr>
     od_Schema = withExtensions [(''x-kubernetes-map-type'', JStr ''atomic'')]
       (objectS [
     (''apiVersion'', withDefault (JStr '''') (plainS ''string'' '''')),
     (''kind'', withDefault (JStr '''') (plainS ''string'' '''')),
     (''name'', withDefault (JStr '''') (plainS ''string'' '''')),
     (''uid'', withDefault (JStr '''') (plainS ''string'' '''')),
     (''controller'', plainS ''boolean'' ''''),
     (''blockOwnerDeletion'', plainS ''boolean'' '''')] [''apiVersion'', ''kind'', ''name'', ''uid'']),
     od_Dependencies = []\<rparr>"

definition schema_runtime_RawExtension :: "(string \<Rightarrow> 'r) \<Rightarrow> 'r openapi_definition" where [openapi_data]:
  "schema_runtime_RawExtension ref = \<lparr>
     od_Schema = objectS [] [],
     od_Dependencies = []\<rparr>"

definition schema_kmapi_Condition :: "(string \<Rightarrow> 'r) \<Rightarrow> 'r openapi_definition" where [openapi_data]:
  "schema_kmapi_Condition ref = \<lparr>
     od_Schema = objectS [
     (''type'', withDefault (JStr '''') (plainS ''string'' '''')),
     (''status'', withDefault (JStr '''') (plainS ''string'' '''')),
     (''observedGeneration'', plainS ''integer'' ''int64''),
     (''severity'', plainS ''string'' ''''),
     (''lastTransitionTime'', refS (ref ''k8s.io/apimachinery/pkg/apis/meta/v1.Time'')),
     (''reason'', plainS ''string'' ''''),
     (''message'', plainS ''string'' '''')] [''type'', ''status'', ''lastTransitionTime''],
     od_Dependencies = [''k8s.io/apimachinery/pkg/apis/meta/v1.Time'']\<rparr>"

text \<open>
  Types with a JSON form of their own. Their definitions call the methods \<open>OpenAPISchemaType\<close>,
  \<open>OpenAPISchemaFormat\<close> and \<open>OpenAPIV3OneOfTypes\<close> of the type, which return constants.
\<close>

definition schema_resource_Quantity :: "(string \<Rightarrow> 'r) \<Rightarrow> 'r openapi_definition" where [openapi_data]:
  "schema_resource_Quantity ref = EmbedOpenAPIDefinitionIntoV2Extension
     \<lparr>od_Schema = oneOfS [''string'', ''number''] '''', od_Dependencies = []\<rparr>
     \<lparr>od_Schema = plainS ''string'' '''', od_Dependencies = []\<rparr>"

definition schema_meta_Time :: "(string \<Rightarrow> 'r) \<Rightarrow> 'r openapi_definition" where [openapi_data]:
  "schema_meta_Time ref = \<lparr>od_Schema = plainS ''string'' ''date-time'', od_Dependencies = []\<rparr>"

definition schema_intstr_IntOrString :: "(string \<Rightarrow> 'r) \<Rightarrow> 'r openapi_definition" where [openapi_data]:
  "schema_intstr_IntOrString ref = EmbedOpenAPIDefinitionIntoV2Extension
     \<lparr>od_Schema = oneOfS [''integer'', ''string''] ''int-or-string'', od_Dependencies = []\<rparr>
     \<lparr>od_Schema = plainS ''string'' ''int-or-string'', od_Dependencies = []\<rparr>"

section \<open>The declarations\<close>

definition meta_FieldsV1_fields :: "go_field list" where [openapi_data]:
  "meta_FieldsV1_fields = []"

definition meta_LabelSelector_fields :: "go_field list" where [openapi_data]:
  "meta_LabelSelector_fields = [
     goField ''MatchLabels'' (GMap (GString)) ''matchLabels'' True True,
     listed ''atomic'' [] (goField ''MatchExpressions'' (GSlice (GStruct ''k8s.io/apimachinery/pkg/apis/meta/v1.LabelSelectorRequirement'')) ''matchExpressions'' True True)]"

definition meta_LabelSelectorRequirement_fields :: "go_field list" where [openapi_data]:
  "meta_LabelSelectorRequirement_fields = [
     goField ''Key'' (GString) ''key'' False False,
     goField ''Operator'' (GNamedString ''k8s.io/apimachinery/pkg/apis/meta/v1.LabelSelectorOperator'') ''operator'' False False,
     listed ''atomic'' [] (goField ''Values'' (GSlice (GString)) ''values'' True True)]"

definition meta_ListMeta_fields :: "go_field list" where [openapi_data]:
  "meta_ListMeta_fields = [
     goField ''SelfLink'' (GString) ''selfLink'' True True,
     goField ''ResourceVersion'' (GString) ''resourceVersion'' True True,
     goField ''Continue'' (GString) ''continue'' True False,
     goField ''RemainingItemCount'' (GPtr (GInt64)) ''remainingItemCount'' True True]"

definition meta_ManagedFieldsEntry_fields :: "go_field list" where [openapi_data]:
  "meta_ManagedFieldsEntry_fields = [
     goField ''Manager'' (GString) ''manager'' True False,
     goField ''Operation'' (GNamedString ''k8s.io/apimachinery/pkg/apis/meta/v1.ManagedFieldsOperationType'') ''operation'' True False,
     goField ''APIVersion'' (GString) ''apiVersion'' True False,
     goField ''Time'' (GPtr (GOpaque ''k8s.io/apimachinery/pkg/apis/meta/v1.Time'')) ''time'' True True,
     goField ''FieldsType'' (GString) ''fieldsType'' True False,
     goField ''FieldsV1'' (GPtr (GOpaque ''k8s.io/apimachinery/pkg/apis/meta/v1.FieldsV1'')) ''fieldsV1'' True True,
     goField ''Subresource'' (GString) ''subresource'' True False]"

definition meta_ObjectMeta_fields :: "go_field list" where [openapi_data]:
  "meta_ObjectMeta_fields = [
     goField ''Name'' (GString) ''name'' True True,
     goField ''GenerateName'' (GString) ''generateName'' True True,
     goField ''Namespace'' (GString) ''namespace'' True True,
     goField ''SelfLink'' (GString) ''selfLink'' True True,
     goField ''UID'' (GNamedString ''k8s.io/apimachinery/pkg/types.UID'') ''uid'' True True,
     goField ''ResourceVersion'' (GString) ''resourceVersion'' True True,
     goField ''Generation'' (GInt64) ''generation'' True True,
     omitZero (goField ''CreationTimestamp'' (GOpaque ''k8s.io/apimachinery/pkg/apis/meta/v1.Time'') ''creationTimestamp'' True True),
     goField ''DeletionTimestamp'' (GPtr (GOpaque ''k8s.io/apimachinery/pkg/apis/meta/v1.Time'')) ''deletionTimestamp'' True True,
     goField ''DeletionGracePeriodSeconds'' (GPtr (GInt64)) ''deletionGracePeriodSeconds'' True True,
     goField ''Labels'' (GMap (GString)) ''labels'' True True,
     goField ''Annotations'' (GMap (GString)) ''annotations'' True True,
     listed ''map'' [''uid''] (patched ''merge'' ''uid'' (goField ''OwnerReferences'' (GSlice (GStruct ''k8s.io/apimachinery/pkg/apis/meta/v1.OwnerReference'')) ''ownerReferences'' True True)),
     listed ''set'' [] (patched ''merge'' '''' (goField ''Finalizers'' (GSlice (GString)) ''finalizers'' True True)),
     listed ''atomic'' [] (goField ''ManagedFields'' (GSlice (GStruct ''k8s.io/apimachinery/pkg/apis/meta/v1.ManagedFieldsEntry'')) ''managedFields'' True True)]"

definition meta_OwnerReference_fields :: "go_field list" where [openapi_data]:
  "meta_OwnerReference_fields = [
     goField ''APIVersion'' (GString) ''apiVersion'' False False,
     goField ''Kind'' (GString) ''kind'' False False,
     goField ''Name'' (GString) ''name'' False False,
     goField ''UID'' (GNamedString ''k8s.io/apimachinery/pkg/types.UID'') ''uid'' False False,
     goField ''Controller'' (GPtr (GBool)) ''controller'' True True,
     goField ''BlockOwnerDeletion'' (GPtr (GBool)) ''blockOwnerDeletion'' True True]"

definition runtime_RawExtension_fields :: "go_field list" where [openapi_data]:
  "runtime_RawExtension_fields = []"

definition kmapi_Condition_fields :: "go_field list" where [openapi_data]:
  "kmapi_Condition_fields = [
     goField ''Type'' (GNamedString ''kmodules.xyz/client-go/api/v1.ConditionType'') ''type'' False False,
     goField ''Status'' (GNamedString ''k8s.io/apimachinery/pkg/apis/meta/v1.ConditionStatus'') ''status'' False False,
     goField ''ObservedGeneration'' (GInt64) ''observedGeneration'' True True,
     goField ''Severity'' (GNamedString ''kmodules.xyz/client-go/api/v1.ConditionSeverity'') ''severity'' True True,
     goField ''LastTransitionTime'' (GOpaque ''k8s.io/apimachinery/pkg/apis/meta/v1.Time'') ''lastTransitionTime'' False False,
     goField ''Reason'' (GString) ''reason'' True True,
     goField ''Message'' (GString) ''message'' True True]"

section \<open>Agreement\<close>

lemma openapi_meta_sync:
  "od_Schema (schema_meta_FieldsV1 ref) = schemaOfStruct ref ([], meta_FieldsV1_fields)"
  "od_Schema (schema_meta_LabelSelector ref) = schemaOfStruct ref ([StructType ''atomic''], meta_LabelSelector_fields)"
  "od_Schema (schema_meta_LabelSelectorRequirement ref) = schemaOfStruct ref ([], meta_LabelSelectorRequirement_fields)"
  "od_Schema (schema_meta_ListMeta ref) = schemaOfStruct ref ([], meta_ListMeta_fields)"
  "od_Schema (schema_meta_ManagedFieldsEntry ref) = schemaOfStruct ref ([], meta_ManagedFieldsEntry_fields)"
  "od_Schema (schema_meta_ObjectMeta ref) = schemaOfStruct ref ([], meta_ObjectMeta_fields)"
  "od_Schema (schema_meta_OwnerReference ref) = schemaOfStruct ref ([StructType ''atomic''], meta_OwnerReference_fields)"
  "od_Schema (schema_runtime_RawExtension ref) = schemaOfStruct ref ([], runtime_RawExtension_fields)"
  "od_Schema (schema_kmapi_Condition ref) = schemaOfStruct ref ([], kmapi_Condition_fields)"
  by (simp_all add: openapi_data struct_schema_defs)

end
