(* ===== verification/Openapi_Sidekick.thy ===== *)
theory Openapi_Sidekick
  imports Openapi_Meta
begin

text \<open>
  \<open>src/apis/apps/v1alpha1/openapi_generated.go\<close>: the OpenAPI definitions of the types of the
  Sidekick API, and the struct declarations of \<open>src/apis/apps/v1alpha1/sidekick_types.go\<close> they
  are generated from. The file is checked in, so the two can drift apart; the last lemma shows that they have not.
\<close>

section \<open>The definitions\<close>

definition schema_Container_properties1 :: "(string \<Rightarrow> 'r) \<Rightarrow> (string \<times> 'r schema) list" where [openapi_data]:
  "schema_Container_properties1 ref = [
     (''name'', withDefault (JStr '''') (plainS ''string'' '''')),
     (''image'', plainS ''string'' ''''),
     (''command'', arrayS (withDefault (JStr '''') (plainS ''string'' ''''))),
     (''args'', arrayS (withDefault (JStr '''') (plainS ''string'' ''''))),
     (''workingDir'', plainS ''string'' ''''),
     (''ports'', withExtensions [(''x-kubernetes-list-map-keys'', JArr [JStr ''containerPort'', JStr ''protocol'']), (''x-kubernetes-list-type'', JStr ''map''), (''x-kubernetes-patch-merge-key'', JStr ''containerPort''), (''x-kubernetes-patch-strategy'', JStr ''merge'')]
       (arrayS (withDefault (JObj []) (refS (ref ''k8s.io/api/core/v1.ContainerPort''))))),
     (''envFrom'', arrayS (withDefault (JObj []) (refS (ref ''k8s.io/api/core/v1.EnvFromSource'')))),
     (''env'', withExtensions [(''x-kubernetes-patch-merge-key'', JStr ''name''), (''x-kubernetes-patch-strategy'', JStr ''merge'')]
       (arrayS (withDefault (JObj []) (refS (ref ''k8s.io/api/core/v1.EnvVar''))))),
     (''resources'', withDefault (JObj []) (refS (ref ''k8s.io/api/core/v1.ResourceRequirements''))),
     (''volumeMounts'', withExtensions [(''x-kubernetes-patch-merge-key'', JStr ''mountPath''), (''x-kubernetes-patch-strategy'', JStr ''merge'')]
       (arrayS (withDefault (JObj []) (refS (ref ''kubeops.dev/sidekick/apis/apps/v1alpha1.VolumeMount'')))))]"

definition schema_Container_properties2 :: "(string \<Rightarrow> 'r) \<Rightarrow> (string \<times> 'r schema) list" where [openapi_data]:
  "schema_Container_properties2 ref = [
     (''volumeDevices'', withExtensions [(''x-kubernetes-patch-merge-key'', JStr ''devicePath''), (''x-kubernetes-patch-strategy'', JStr ''merge'')]
       (arrayS (withDefault (JObj []) (refS (ref ''k8s.io/api/core/v1.VolumeDevice''))))),
     (''livenessProbe'', refS (ref ''k8s.io/api/core/v1.Probe'')),
     (''readinessProbe'', refS (ref ''k8s.io/api/core/v1.Probe'')),
     (''startupProbe'', refS (ref ''k8s.io/api/core/v1.Probe'')),
     (''lifecycle'', refS (ref ''k8s.io/api/core/v1.Lifecycle'')),
     (''terminationMessagePath'', plainS ''string'' ''''),
     (''terminationMessagePolicy'', withEnum [JStr ''FallbackToLogsOnError'', JStr ''File''] (plainS ''string'' '''')),
     (''imagePullPolicy'', withEnum [JStr ''Always'', JStr ''IfNotPresent'', JStr ''Never''] (plainS ''string'' '''')),
     (''securityContext'', refS (ref ''k8s.io/api/core/v1.SecurityContext'')),
     (''stdin'', plainS ''boolean'' ''''),
     (''stdinOnce'', plainS ''boolean'' ''''),
     (''tty'', plainS ''boolean'' '''')]"

definition schema_Container :: "(string \<Rightarrow> 'r) \<Rightarrow> 'r openapi_definition" where [openapi_data]:
  "schema_Container ref = \<lparr>
     od_Schema = objectS (schema_Container_properties1 ref @ schema_Container_properties2 ref) [''name''],
     od_Dependencies = [''k8s.io/api/core/v1.ContainerPort'', ''k8s.io/api/core/v1.EnvFromSource'', ''k8s.io/api/core/v1.EnvVar'', ''k8s.io/api/core/v1.Lifecycle'', ''k8s.io/api/core/v1.Probe'', ''k8s.io/api/core/v1.ResourceRequirements'', ''k8s.io/api/core/v1.SecurityContext'', ''k8s.io/api/core/v1.VolumeDevice'', ''kubeops.dev/sidekick/apis/apps/v1alpha1.VolumeMount'']\<rparr>"

definition schema_LeaderSpec :: "(string \<Rightarrow> 'r) \<Rightarrow> 'r openapi_definition" where [openapi_data]:
  "schema_LeaderSpec ref = \<lparr>
     od_Schema = objectS [
     (''name'', plainS ''string'' ''''),
     (''selector'', refS (ref ''k8s.io/apimachinery/pkg/apis/meta/v1.LabelSelector'')),
     (''selectionPolicy'', plainS ''string'' '''')] [],
     od_Dependencies = [''k8s.io/apimachinery/pkg/apis/meta/v1.LabelSelector'']\<rparr>"

definition schema_LeaderStatus :: "(string \<Rightarrow> 'r) \<Rightarrow> 'r openapi_definition" where [openapi_data]:
  "schema_LeaderStatus ref = \<lparr>
     od_Schema = objectS [
     (''name'', plainS ''string'' '''')] [],
     od_Dependencies = []\<rparr>"

definition schema_Sidekick :: "(string \<Rightarrow> 'r) \<Rightarrow> 'r openapi_definition" where [openapi_data]:
  "schema_Sidekick ref = \<lparr>
     od_Schema = objectS [
     (''kind'', plainS ''string'' ''''),
     (''apiVersion'', plainS ''string'' ''''),
     (''metadata'', withDefault (JObj []) (refS (ref ''k8s.io/apimachinery/pkg/apis/meta/v1.ObjectMeta''))),
     (''spec'', withDefault (JObj []) (refS (ref ''kubeops.dev/sidekick/apis/apps/v1alpha1.SidekickSpec''))),
     (''status'', withDefault (JObj []) (refS (ref ''kubeops.dev/sidekick/apis/apps/v1alpha1.SidekickStatus'')))] [],
     od_Dependencies = [''k8s.io/apimachinery/pkg/apis/meta/v1.ObjectMeta'', ''kubeops.dev/sidekick/apis/apps/v1alpha1.SidekickSpec'', ''kubeops.dev/sidekick/apis/apps/v1alpha1.SidekickStatus'']\<rparr>"

definition schema_SidekickList :: "(string \<Rightarrow> 'r) \<Rightarrow> 'r openapi_definition" where [openapi_data]:
  "schema_SidekickList ref = \<lparr>
     od_Schema = objectS [
     (''kind'', plainS ''string'' ''''),
     (''apiVersion'', plainS ''string'' ''''),
     (''metadata'', withDefault (JObj []) (refS (ref ''k8s.io/apimachinery/pkg/apis/meta/v1.ListMeta''))),
     (''items'', arrayS (withDefault (JObj []) (refS (ref ''kubeops.dev/sidekick/apis/apps/v1alpha1.Sidekick''))))] [''items''],
     od_Dependencies = [''k8s.io/apimachinery/pkg/apis/meta/v1.ListMeta'', ''kubeops.dev/sidekick/apis/apps/v1alpha1.Sidekick'']\<rparr>"

definition schema_SidekickSpec_properties1 :: "(string \<Rightarrow> 'r) \<Rightarrow> (string \<times> 'r schema) list" where [openapi_data]:
  "schema_SidekickSpec_properties1 ref = [
     (''leader'', withDefault (JObj []) (refS (ref ''kubeops.dev/sidekick/apis/apps/v1alpha1.LeaderSpec''))),
     (''initContainers'', withExtensions [(''x-kubernetes-patch-merge-key'', JStr ''name''), (''x-kubernetes-patch-strategy'', JStr ''merge'')]
       (arrayS (withDefault (JObj []) (refS (ref ''kubeops.dev/sidekick/apis/apps/v1alpha1.Container''))))),
     (''containers'', withExtensions [(''x-kubernetes-patch-merge-key'', JStr ''name''), (''x-kubernetes-patch-strategy'', JStr ''merge'')]
       (arrayS (withDefault (JObj []) (refS (ref ''kubeops.dev/sidekick/apis/apps/v1alpha1.Container''))))),
     (''ephemeralContainers'', withExtensions [(''x-kubernetes-patch-merge-key'', JStr ''name''), (''x-kubernetes-patch-strategy'', JStr ''merge'')]
       (arrayS (withDefault (JObj []) (refS (ref ''k8s.io/api/core/v1.EphemeralContainer''))))),
     (''restartPolicy'', withEnum [JStr ''Always'', JStr ''Never'', JStr ''OnFailure''] (plainS ''string'' '''')),
     (''backoffLimit'', plainS ''integer'' ''int32''),
     (''terminationGracePeriodSeconds'', plainS ''integer'' ''int64''),
     (''activeDeadlineSeconds'', plainS ''integer'' ''int64''),
     (''dnsPolicy'', withEnum [JStr ''ClusterFirst'', JStr ''ClusterFirstWithHostNet'', JStr ''Default'', JStr ''None''] (plainS ''string'' '''')),
     (''nodeSelector'', withExtensions [(''x-kubernetes-map-type'', JStr ''atomic'')]
       (mapS (withDefault (JStr '''') (plainS ''string'' '''')))),
     (''serviceAccountName'', plainS ''string'' ''''),
     (''serviceAccount'', plainS ''string'' '''')]"

definition schema_SidekickSpec_properties2 :: "(string \<Rightarrow> 'r) \<Rightarrow> (string \<times> 'r schema) list" where [openapi_data]:
  "schema_SidekickSpec_properties2 ref = [
     (''automountServiceAccountToken'', plainS ''boolean'' ''''),
     (''nodeName'', plainS ''string'' ''''),
     (''hostNetwork'', plainS ''boolean'' ''''),
     (''hostPID'', plainS ''boolean'' ''''),
     (''hostIPC'', plainS ''boolean'' ''''),
     (''shareProcessNamespace'', plainS ''boolean'' ''''),
     (''securityContext'', refS (ref ''k8s.io/api/core/v1.PodSecurityContext'')),
     (''imagePullSecrets'', withExtensions [(''x-kubernetes-patch-merge-key'', JStr ''name''), (''x-kubernetes-patch-strategy'', JStr ''merge'')]
       (arrayS (withDefault (JObj []) (refS (ref ''k8s.io/api/core/v1.LocalObjectReference''))))),
     (''hostname'', plainS ''string'' ''''),
     (''subdomain'', plainS ''string'' ''''),
     (''affinity'', refS (ref ''k8s.io/api/core/v1.Affinity'')),
     (''schedulerName'', plainS ''string'' ''''),
     (''tolerations'', arrayS (withDefault (JObj []) (refS (ref ''k8s.io/api/core/v1.Toleration'')))),
     (''hostAliases'', withExtensions [(''x-kubernetes-patch-merge-key'', JStr ''ip''), (''x-kubernetes-patch-strategy'', JStr ''merge'')]
       (arrayS (withDefault (JObj []) (refS (ref ''k8s.io/api/core/v1.HostAlias''))))),
     (''priorityClassName'', plainS ''string'' ''''),
     (''priority'', plainS ''integer'' ''int32'')]"

definition schema_SidekickSpec_properties3 :: "(string \<Rightarrow> 'r) \<Rightarrow> (string \<times> 'r schema) list" where [openapi_data]:
  "schema_SidekickSpec_properties3 ref = [
     (''dnsConfig'', refS (ref ''k8s.io/api/core/v1.PodDNSConfig'')),
     (''readinessGates'', arrayS (withDefault (JObj []) (refS (ref ''k8s.io/api/core/v1.PodReadinessGate'')))),
     (''runtimeClassName'', plainS ''string'' ''''),
     (''enableServiceLinks'', plainS ''boolean'' ''''),
     (''preemptionPolicy'', withEnum [JStr ''Never'', JStr ''PreemptLowerPriority''] (plainS ''string'' '''')),
     (''overhead'', mapS (refS (ref ''k8s.io/apimachinery/pkg/api/resource.Quantity''))),
     (''topologySpreadConstraints'', withExtensions [(''x-kubernetes-list-map-keys'', JArr [JStr ''topologyKey'', JStr ''whenUnsatisfiable'']), (''x-kubernetes-list-type'', JStr ''map''), (''x-kubernetes-patch-merge-key'', JStr ''topologyKey''), (''x-kubernetes-patch-strategy'', JStr ''merge'')]
       (arrayS (withDefault (JObj []) (refS (ref ''k8s.io/api/core/v1.TopologySpreadConstraint''))))),
     (''setHostnameAsFQDN'', plainS ''boolean'' ''''),
     (''os'', refS (ref ''k8s.io/api/core/v1.PodOS'')),
     (''hostUsers'', plainS ''boolean'' ''''),
     (''volumes'', withExtensions [(''x-kubernetes-patch-merge-key'', JStr ''name''), (''x-kubernetes-patch-strategy'', JStr ''merge,retainKeys'')]
       (arrayS (withDefault (JObj []) (refS (ref ''k8s.io/api/core/v1.Volume''))))),
     (''distributed'', plainS ''boolean'' '''')]"

definition schema_SidekickSpec_properties4 :: "(string \<Rightarrow> 'r) \<Rightarrow> (string \<times> 'r schema) list" where [openapi_data]:
  "schema_SidekickSpec_properties4 ref = [
     (''extraArgs'', mapS (refS (ref ''k8s.io/apimachinery/pkg/runtime.RawExtension'')))]"

definition schema_SidekickSpec :: "(string \<Rightarrow> 'r) \<Rightarrow> 'r openapi_definition" where [openapi_data]:
  "schema_SidekickSpec ref = \<lparr>
     od_Schema = objectS (schema_SidekickSpec_properties1 ref @ schema_SidekickSpec_properties2 ref @ schema_SidekickSpec_properties3 ref @ schema_SidekickSpec_properties4 ref) [''leader'', ''containers''],
     od_Dependencies = [''k8s.io/api/core/v1.Affinity'', ''k8s.io/api/core/v1.EphemeralContainer'', ''k8s.io/api/core/v1.HostAlias'', ''k8s.io/api/core/v1.LocalObjectReference'', ''k8s.io/api/core/v1.PodDNSConfig'', ''k8s.io/api/core/v1.PodOS'', ''k8s.io/api/core/v1.PodReadinessGate'', ''k8s.io/api/core/v1.PodSecurityContext'', ''k8s.io/api/core/v1.Toleration'', ''k8s.io/api/core/v1.TopologySpreadConstraint'', ''k8s.io/api/core/v1.Volume'', ''k8s.io/apimachinery/pkg/api/resource.Quantity'', ''k8s.io/apimachinery/pkg/runtime.RawExtension'', ''kubeops.dev/sidekick/apis/apps/v1alpha1.Container'', ''kubeops.dev/sidekick/apis/apps/v1alpha1.LeaderSpec'']\<rparr>"

definition schema_SidekickStatus :: "(string \<Rightarrow> 'r) \<Rightarrow> 'r openapi_definition" where [openapi_data]:
  "schema_SidekickStatus ref = \<lparr>
     od_Schema = objectS [
     (''leader'', withDefault (JObj []) (refS (ref ''kubeops.dev/sidekick/apis/apps/v1alpha1.LeaderStatus''))),
     (''pod'', withEnum [JStr ''Failed'', JStr ''Pending'', JStr ''Running'', JStr ''Succeeded'', JStr ''Unknown''] (plainS ''string'' '''')),
     (''phase'', plainS ''string'' ''''),
     (''observedGeneration'', plainS ''integer'' ''int64''),
     (''conditions'', arrayS (withDefault (JObj []) (refS (ref ''kmodules.xyz/client-go/api/v1.Condition'')))),
     (''containerRestartCountsPerPod'', mapS (withDefault (JNum ''0'') (plainS ''integer'' ''int32''))),
     (''failureCount'', mapS (withDefault (JBool False) (plainS ''boolean'' '''')))] [],
     od_Dependencies = [''kmodules.xyz/client-go/api/v1.Condition'', ''kubeops.dev/sidekick/apis/apps/v1alpha1.LeaderStatus'']\<rparr>"

definition schema_VolumeMount :: "(string \<Rightarrow> 'r) \<Rightarrow> 'r openapi_definition" where [openapi_data]:
  "schema_VolumeMount ref = \<lparr>
     od_Schema = objectS [
     (''name'', withDefault (JStr '''') (plainS ''string'' '''')),
     (''readOnly'', plainS ''boolean'' ''''),
     (''mountPath'', plainS ''string'' ''''),
     (''subPath'', plainS ''string'' ''''),
     (''mountPropagation'', withEnum [JStr ''Bidirectional'', JStr ''HostToContainer'', JStr ''None''] (plainS ''string'' '''')),
     (''subPathExpr'', plainS ''string'' '''')] [''name''],
     od_Dependencies = []\<rparr>"

section \<open>The declarations\<close>

definition Container_fields1 :: "go_field list" where [openapi_data]:
  "Container_fields1 = [
     goField ''Name'' (GString) ''name'' False False,
     goField ''Image'' (GString) ''image'' True True,
     goField ''Command'' (GSlice (GString)) ''command'' True True,
     goField ''Args'' (GSlice (GString)) ''args'' True True,
     goField ''WorkingDir'' (GString) ''workingDir'' True True,
     listed ''map'' [''containerPort'', ''protocol''] (patched ''merge'' ''containerPort'' (goField ''Ports'' (GSlice (GStruct ''k8s.io/api/core/v1.ContainerPort'')) ''ports'' True True)),
     goField ''EnvFrom'' (GSlice (GStruct ''k8s.io/api/core/v1.EnvFromSource'')) ''envFrom'' True True,
     patched ''merge'' ''name'' (goField ''Env'' (GSlice (GStruct ''k8s.io/api/core/v1.EnvVar'')) ''env'' True True),
     goField ''Resources'' (GStruct ''k8s.io/api/core/v1.ResourceRequirements'') ''resources'' True True,
     patched ''merge'' ''mountPath'' (goField ''VolumeMounts'' (GSlice (GStruct ''kubeops.dev/sidekick/apis/apps/v1alpha1.VolumeMount'')) ''volumeMounts'' True True),
     patched ''merge'' ''devicePath'' (goField ''VolumeDevices'' (GSlice (GStruct ''k8s.io/api/core/v1.VolumeDevice'')) ''volumeDevices'' True True),
     goField ''LivenessProbe'' (GPtr (GStruct ''k8s.io/api/core/v1.Probe'')) ''livenessProbe'' True True,
     goField ''ReadinessProbe'' (GPtr (GStruct ''k8s.io/api/core/v1.Probe'')) ''readinessProbe'' True True,
     goField ''StartupProbe'' (GPtr (GStruct ''k8s.io/api/core/v1.Probe'')) ''startupProbe'' True True,
     goField ''Lifecycle'' (GPtr (GStruct ''k8s.io/api/core/v1.Lifecycle'')) ''lifecycle'' True True,
     goField ''TerminationMessagePath'' (GString) ''terminationMessagePath'' True True,
     goField ''TerminationMessagePolicy'' (core_TerminationMessagePolicy) ''terminationMessagePolicy'' True True,
     goField ''ImagePullPolicy'' (core_PullPolicy) ''imagePullPolicy'' True True,
     goField ''SecurityContext'' (GPtr (GStruct ''k8s.io/api/core/v1.SecurityContext'')) ''securityContext'' True True,
     goField ''Stdin'' (GBool) ''stdin'' True True]"

definition Container_fields2 :: "go_field list" where [openapi_data]:
  "Container_fields2 = [
     goField ''StdinOnce'' (GBool) ''stdinOnce'' True True,
     goField ''TTY'' (GBool) ''tty'' True True]"

definition Container_fields :: "go_field list" where [openapi_data]:
  "Container_fields = Container_fields1 @ Container_fields2"

definition LeaderSpec_fields :: "go_field list" where [openapi_data]:
  "LeaderSpec_fields = [
     goField ''Name'' (GString) ''name'' True False,
     goField ''Selector'' (GPtr (GStruct ''k8s.io/apimachinery/pkg/apis/meta/v1.LabelSelector'')) ''selector'' True False,
     goField ''SelectionPolicy'' (GNamedString ''kubeops.dev/sidekick/apis/apps/v1alpha1.LeaderSelectionPolicy'') ''selectionPolicy'' True True]"

definition LeaderStatus_fields :: "go_field list" where [openapi_data]:
  "LeaderStatus_fields = [
     goField ''Name'' (GString) ''name'' True False]"

definition meta_TypeMeta_fields :: "go_field list" where [openapi_data]:
  "meta_TypeMeta_fields = [
     goField ''Kind'' (GString) ''kind'' True True,
     goField ''APIVersion'' (GString) ''apiVersion'' True True]"

definition Sidekick_fields :: "go_field list" where [openapi_data]:
  "Sidekick_fields = meta_TypeMeta_fields @ [
     goField ''ObjectMeta'' (GStruct ''k8s.io/apimachinery/pkg/apis/meta/v1.ObjectMeta'') ''metadata'' True False,
     goField ''Spec'' (GStruct ''kubeops.dev/sidekick/apis/apps/v1alpha1.SidekickSpec'') ''spec'' True False,
     goField ''Status'' (GStruct ''kubeops.dev/sidekick/apis/apps/v1alpha1.SidekickStatus'') ''status'' True False]"

definition SidekickList_fields :: "go_field list" where [openapi_data]:
  "SidekickList_fields = meta_TypeMeta_fields @ [
     goField ''ListMeta'' (GStruct ''k8s.io/apimachinery/pkg/apis/meta/v1.ListMeta'') ''metadata'' True False,
     goField ''Items'' (GSlice (GStruct ''kubeops.dev/sidekick/apis/apps/v1alpha1.Sidekick'')) ''items'' False False]"

definition SidekickSpec_fields1 :: "go_field list" where [openapi_data]:
  "SidekickSpec_fields1 = [
     goField ''Leader'' (GStruct ''kubeops.dev/sidekick/apis/apps/v1alpha1.LeaderSpec'') ''leader'' False False,
     patched ''merge'' ''name'' (goField ''InitContainers'' (GSlice (GStruct ''kubeops.dev/sidekick/apis/apps/v1alpha1.Container'')) ''initContainers'' True False),
     patched ''merge'' ''name'' (goField ''Containers'' (GSlice (GStruct ''kubeops.dev/sidekick/apis/apps/v1alpha1.Container'')) ''containers'' False False),
     patched ''merge'' ''name'' (goField ''EphemeralContainers'' (GSlice (GStruct ''k8s.io/api/core/v1.EphemeralContainer'')) ''ephemeralContainers'' True True),
     goField ''RestartPolicy'' (core_RestartPolicy) ''restartPolicy'' True True,
     goField ''BackoffLimit'' (GPtr (GInt32)) ''backoffLimit'' True True,
     goField ''TerminationGracePeriodSeconds'' (GPtr (GInt64)) ''terminationGracePeriodSeconds'' True True,
     goField ''ActiveDeadlineSeconds'' (GPtr (GInt64)) ''activeDeadlineSeconds'' True True,
     goField ''DNSPolicy'' (core_DNSPolicy) ''dnsPolicy'' True True,
     mapped ''atomic'' (goField ''NodeSelector'' (GMap (GString)) ''nodeSelector'' True True),
     goField ''ServiceAccountName'' (GString) ''serviceAccountName'' True True,
     goField ''DeprecatedServiceAccount'' (GString) ''serviceAccount'' True True,
     goField ''AutomountServiceAccountToken'' (GPtr (GBool)) ''automountServiceAccountToken'' True True,
     goField ''NodeName'' (GString) ''nodeName'' True True,
     goField ''HostNetwork'' (GBool) ''hostNetwork'' True True,
     goField ''HostPID'' (GBool) ''hostPID'' True True,
     goField ''HostIPC'' (GBool) ''hostIPC'' True True,
     goField ''ShareProcessNamespace'' (GPtr (GBool)) ''shareProcessNamespace'' True True,
     goField ''SecurityContext'' (GPtr (GStruct ''k8s.io/api/core/v1.PodSecurityContext'')) ''securityContext'' True True,
     patched ''merge'' ''name'' (goField ''ImagePullSecrets'' (GSlice (GStruct ''k8s.io/api/core/v1.LocalObjectReference'')) ''imagePullSecrets'' True True),
     goField ''Hostname'' (GString) ''hostname'' True True,
     goField ''Subdomain'' (GString) ''subdomain'' True True,
     goField ''Affinity'' (GPtr (GStruct ''k8s.io/api/core/v1.Affinity'')) ''affinity'' True True]"

definition SidekickSpec_fields2 :: "go_field list" where [openapi_data]:
  "SidekickSpec_fields2 = [
     goField ''SchedulerName'' (GString) ''schedulerName'' True True,
     goField ''Tolerations'' (GSlice (GStruct ''k8s.io/api/core/v1.Toleration'')) ''tolerations'' True True,
     patched ''merge'' ''ip'' (goField ''HostAliases'' (GSlice (GStruct ''k8s.io/api/core/v1.HostAlias'')) ''hostAliases'' True True),
     goField ''PriorityClassName'' (GString) ''priorityClassName'' True True,
     goField ''Priority'' (GPtr (GInt32)) ''priority'' True True,
     goField ''DNSConfig'' (GPtr (GStruct ''k8s.io/api/core/v1.PodDNSConfig'')) ''dnsConfig'' True True,
     goField ''ReadinessGates'' (GSlice (GStruct ''k8s.io/api/core/v1.PodReadinessGate'')) ''readinessGates'' True True,
     goField ''RuntimeClassName'' (GPtr (GString)) ''runtimeClassName'' True True,
     goField ''EnableServiceLinks'' (GPtr (GBool)) ''enableServiceLinks'' True True,
     goField ''PreemptionPolicy'' (GPtr (core_PreemptionPolicy)) ''preemptionPolicy'' True True,
     goField ''Overhead'' (GMap (GOpaque ''k8s.io/apimachinery/pkg/api/resource.Quantity'')) ''overhead'' True True,
     listed ''map'' [''topologyKey'', ''whenUnsatisfiable''] (patched ''merge'' ''topologyKey'' (goField ''TopologySpreadConstraints'' (GSlice (GStruct ''k8s.io/api/core/v1.TopologySpreadConstraint'')) ''topologySpreadConstraints'' True True)),
     goField ''SetHostnameAsFQDN'' (GPtr (GBool)) ''setHostnameAsFQDN'' True True,
     goField ''OS'' (GPtr (GStruct ''k8s.io/api/core/v1.PodOS'')) ''os'' True True,
     goField ''HostUsers'' (GPtr (GBool)) ''hostUsers'' True True,
     patched ''merge,retainKeys'' ''name'' (goField ''Volumes'' (GSlice (GStruct ''k8s.io/api/core/v1.Volume'')) ''volumes'' True True),
     goField ''Distributed'' (GBool) ''distributed'' True True,
     goField ''ExtraArgs'' (GMap (GOpaque ''k8s.io/apimachinery/pkg/runtime.RawExtension'')) ''extraArgs'' True True]"

definition SidekickSpec_fields :: "go_field list" where [openapi_data]:
  "SidekickSpec_fields = SidekickSpec_fields1 @ SidekickSpec_fields2"

definition SidekickStatus_fields :: "go_field list" where [openapi_data]:
  "SidekickStatus_fields = [
     goField ''Leader'' (GStruct ''kubeops.dev/sidekick/apis/apps/v1alpha1.LeaderStatus'') ''leader'' True False,
     goField ''Pod'' (core_PodPhase) ''pod'' True False,
     goField ''Phase'' (GNamedString ''kubeops.dev/sidekick/apis/apps/v1alpha1.SideKickPhase'') ''phase'' True True,
     goField ''ObservedGeneration'' (GInt64) ''observedGeneration'' True True,
     goField ''Conditions'' (GSlice (GStruct ''kmodules.xyz/client-go/api/v1.Condition'')) ''conditions'' True True,
     goField ''ContainerRestartCountsPerPod'' (GMap (GInt32)) ''containerRestartCountsPerPod'' True False,
     goField ''FailureCount'' (GMap (GBool)) ''failureCount'' True False]"

definition VolumeMount_fields :: "go_field list" where [openapi_data]:
  "VolumeMount_fields = [
     goField ''Name'' (GString) ''name'' False False,
     goField ''ReadOnly'' (GBool) ''readOnly'' True True,
     goField ''MountPath'' (GString) ''mountPath'' True True,
     goField ''SubPath'' (GString) ''subPath'' True True,
     goField ''MountPropagation'' (GPtr (core_MountPropagationMode)) ''mountPropagation'' True True,
     goField ''SubPathExpr'' (GString) ''subPathExpr'' True True]"

section \<open>Agreement\<close>

lemma openapi_sidekick_sync:
  "od_Schema (schema_Container ref) = schemaOfStruct ref ([], Container_fields)"
  "od_Schema (schema_LeaderSpec ref) = schemaOfStruct ref ([], LeaderSpec_fields)"
  "od_Schema (schema_LeaderStatus ref) = schemaOfStruct ref ([], LeaderStatus_fields)"
  "od_Schema (schema_Sidekick ref) = schemaOfStruct ref ([], Sidekick_fields)"
  "od_Schema (schema_SidekickList ref) = schemaOfStruct ref ([], SidekickList_fields)"
  "od_Schema (schema_SidekickSpec ref) = schemaOfStruct ref ([], SidekickSpec_fields)"
  "od_Schema (schema_SidekickStatus ref) = schemaOfStruct ref ([], SidekickStatus_fields)"
  "od_Schema (schema_VolumeMount ref) = schemaOfStruct ref ([], VolumeMount_fields)"
  by (simp_all add: openapi_data struct_schema_defs)

end
