(* ===== verification/Deep_Copy.thy ===== *)
theory Deep_Copy
  imports Openapi_Sidekick
begin

text \<open>
  \<open>src/apis/apps/v1alpha1/zz_generated.deepcopy.go\<close>: the deep copies of the types of the Sidekick
  API. The point of a deep copy is aliasing, so the theory has an explicit memory: pointers,
  slices and maps are addresses, and copying allocates. Structs of other packages are
  a type parameter, and their own copy functions a parameter with named laws. The file is
  generated and checked in: the theory proves that it still follows the struct declarations,
  and that a copy reads like the original and shares no memory with it.
\<close>

section \<open>Memory\<close>

type_synonym addr = nat

text \<open>
  A value: of a basic type, a struct of this package, a struct of another package, a pointer or
  map (nil or an address), a slice (nil, or its array, offset and length).
\<close>

datatype 'x val =
    VStr string
  | VBool bool
  | VInt int
  | VStruct "(string \<times> 'x val) list"
  | VForeign 'x
  | VRef "addr option"
  | VSlice "(addr \<times> nat \<times> nat) option"

datatype 'x cell = Pointee "'x val" | Elements "'x val list" | Entries "(string \<times> 'x val) list"

record 'x mem =
  m_next :: addr
  m_cell :: "addr \<rightharpoonup> 'x cell"

definition mem_ok :: "'x mem \<Rightarrow> bool" where
  "mem_ok h = (\<forall>a. m_cell h a \<noteq> None \<longrightarrow> a < m_next h)"

text \<open>
  \<open>new\<close> and \<open>make\<close>: a fresh address. The zero value it holds until the copy is written
  is not represented: no copy function reads it.
\<close>

definition reserve :: "('x mem, addr) state" where
  "reserve = State (\<lambda>h. (m_next h, h\<lparr>m_next := m_next h + 1\<rparr>))"

definition writeCell :: "addr \<Rightarrow> 'x cell \<Rightarrow> ('x mem, unit) state" where
  "writeCell a c = State (\<lambda>h. ((), h\<lparr>m_cell := (m_cell h)(a \<mapsto> c)\<rparr>))"

definition readCell :: "addr \<Rightarrow> ('x mem, 'x cell option) state" where
  "readCell a = State (\<lambda>h. (m_cell h a, h))"

section \<open>The statements of the generated code\<close>

text \<open>\<open>*out = new(T); (*in).DeepCopyInto(*out)\<close>, under the guard \<open>in != nil\<close>.\<close>

definition copyPtr :: "('x val \<Rightarrow> ('x mem, 'x val) state) \<Rightarrow> 'x val \<Rightarrow> ('x mem, 'x val) state" where
  "copyPtr c v = (case v of
     VRef (Some a) \<Rightarrow> do {
       b \<leftarrow> reserve;
       x \<leftarrow> readCell a;
       (case x of
          Some (Pointee y) \<Rightarrow> do { y' \<leftarrow> c y; writeCell b (Pointee y'); ret (VRef (Some b)) }
        | _ \<Rightarrow> ret (VRef (Some b)))
     }
   | _ \<Rightarrow> ret v)"

text \<open>\<open>*out = make([]T, len(*in))\<close> and the loop over the elements.\<close>

definition copySlice :: "('x val \<Rightarrow> ('x mem, 'x val) state) \<Rightarrow> 'x val \<Rightarrow> ('x mem, 'x val) state" where
  "copySlice c v = (case v of
     VSlice (Some (a, off, len)) \<Rightarrow> do {
       b \<leftarrow> reserve;
       x \<leftarrow> readCell a;
       (case x of
          Some (Elements xs) \<Rightarrow> do {
            ys \<leftarrow> State_Monad.traverse_list c (take len (drop off xs));
            writeCell b (Elements ys);
            ret (VSlice (Some (b, 0, len)))
          }
        | _ \<Rightarrow> ret (VSlice (Some (b, 0, len))))
     }
   | _ \<Rightarrow> ret v)"

text \<open>\<open>*out = make(map[string]T, len(*in))\<close> and the loop over the entries.\<close>

definition copyEntry :: "('x val \<Rightarrow> ('x mem, 'x val) state) \<Rightarrow> string \<times> 'x val \<Rightarrow> ('x mem, string \<times> 'x val) state" where
  "copyEntry c kv = do { y \<leftarrow> c (snd kv); ret (fst kv, y) }"

definition copyMap :: "('x val \<Rightarrow> ('x mem, 'x val) state) \<Rightarrow> 'x val \<Rightarrow> ('x mem, 'x val) state" where
  "copyMap c v = (case v of
     VRef (Some a) \<Rightarrow> do {
       b \<leftarrow> reserve;
       x \<leftarrow> readCell a;
       (case x of
          Some (Entries kvs) \<Rightarrow> do {
            kvs' \<leftarrow> State_Monad.traverse_list (copyEntry c) kvs;
            writeCell b (Entries kvs');
            ret (VRef (Some b))
          }
        | _ \<Rightarrow> ret (VRef (Some b)))
     }
   | _ \<Rightarrow> ret v)"

text \<open>The plain assignments \<open>copy(*out, *in)\<close>, \<open>**out = **in\<close> and \<open>(*out)[key] = val\<close>.\<close>

abbreviation assign :: "'x val \<Rightarrow> ('x mem, 'x val) state" where
  "assign \<equiv> ret"

text \<open>The copy functions of the other packages: \<open>DeepCopyInto\<close>, or \<open>DeepCopy\<close> for the values of a map.\<close>

type_synonym 'x foreign = "string \<Rightarrow> 'x \<Rightarrow> ('x mem, 'x) state"

definition copyForeign :: "'x foreign \<Rightarrow> string \<Rightarrow> 'x val \<Rightarrow> ('x mem, 'x val) state" where
  "copyForeign X n v = (case v of VForeign x \<Rightarrow> do { x' \<leftarrow> X n x; ret (VForeign x') } | _ \<Rightarrow> ret v)"

text \<open>
  A \<open>DeepCopyInto\<close> of this package: \<open>*out = *in\<close>, then one statement per member that is
  not of a basic type, each writing the member of \<open>out\<close> from the member of \<open>in\<close>.
\<close>

fun getField :: "string \<Rightarrow> 'x val \<Rightarrow> 'x val" where
  "getField F (VStruct vs) = (case map_of vs F of Some v \<Rightarrow> v | None \<Rightarrow> VRef None)"
| "getField F v = VRef None"

fun setField :: "string \<Rightarrow> 'x val \<Rightarrow> 'x val \<Rightarrow> 'x val" where
  "setField F x (VStruct vs) = VStruct (map (\<lambda>(G, v). (G, if G = F then x else v)) vs)"
| "setField F x v = v"

primrec runCopies ::
    "(string \<times> ('x val \<Rightarrow> ('x mem, 'x val) state)) list \<Rightarrow> 'x val \<Rightarrow> 'x val \<Rightarrow> ('x mem, 'x val) state" where
  "runCopies [] src out = ret out"
| "runCopies (s # ss) src out = do {
     x \<leftarrow> snd s (getField (fst s) src);
     runCopies ss src (setField (fst s) x out)
   }"

definition deepCopyInto ::
    "(string \<times> ('x val \<Rightarrow> ('x mem, 'x val) state)) list \<Rightarrow> 'x val \<Rightarrow> ('x mem, 'x val) state" where
  "deepCopyInto ss src = runCopies ss src src"

section \<open>The copy functions of the package\<close>

definition VolumeMount_DeepCopyInto :: "'x val \<Rightarrow> ('x mem, 'x val) state" where
  "VolumeMount_DeepCopyInto = deepCopyInto [(''MountPropagation'', copyPtr assign)]"

definition VolumeMount_DeepCopy :: "'x val \<Rightarrow> ('x mem, 'x val) state" where
  "VolumeMount_DeepCopy = copyPtr VolumeMount_DeepCopyInto"

definition Container_DeepCopyInto :: "'x foreign \<Rightarrow> 'x val \<Rightarrow> ('x mem, 'x val) state" where
  "Container_DeepCopyInto X = deepCopyInto [
     (''Command'', copySlice assign),
     (''Args'', copySlice assign),
     (''Ports'', copySlice assign),
     (''EnvFrom'', copySlice (copyForeign X ''k8s.io/api/core/v1.EnvFromSource'')),
     (''Env'', copySlice (copyForeign X ''k8s.io/api/core/v1.EnvVar'')),
     (''Resources'', copyForeign X ''k8s.io/api/core/v1.ResourceRequirements''),
     (''VolumeMounts'', copySlice VolumeMount_DeepCopyInto),
     (''VolumeDevices'', copySlice assign),
     (''LivenessProbe'', copyPtr (copyForeign X ''k8s.io/api/core/v1.Probe'')),
     (''ReadinessProbe'', copyPtr (copyForeign X ''k8s.io/api/core/v1.Probe'')),
     (''StartupProbe'', copyPtr (copyForeign X ''k8s.io/api/core/v1.Probe'')),
     (''Lifecycle'', copyPtr (copyForeign X ''k8s.io/api/core/v1.Lifecycle'')),
     (''SecurityContext'', copyPtr (copyForeign X ''k8s.io/api/core/v1.SecurityContext''))]"

definition Container_DeepCopy :: "'x foreign \<Rightarrow> 'x val \<Rightarrow> ('x mem, 'x val) state" where
  "Container_DeepCopy X = copyPtr (Container_DeepCopyInto X)"

definition LeaderSpec_DeepCopyInto :: "'x foreign \<Rightarrow> 'x val \<Rightarrow> ('x mem, 'x val) state" where
  "LeaderSpec_DeepCopyInto X = deepCopyInto [
     (''Selector'', copyPtr (copyForeign X ''k8s.io/apimachinery/pkg/apis/meta/v1.LabelSelector''))]"

definition LeaderSpec_DeepCopy :: "'x foreign \<Rightarrow> 'x val \<Rightarrow> ('x mem, 'x val) state" where
  "LeaderSpec_DeepCopy X = copyPtr (LeaderSpec_DeepCopyInto X)"

definition LeaderStatus_DeepCopyInto :: "'x val \<Rightarrow> ('x mem, 'x val) state" where
  "LeaderStatus_DeepCopyInto = deepCopyInto []"

definition LeaderStatus_DeepCopy :: "'x val \<Rightarrow> ('x mem, 'x val) state" where
  "LeaderStatus_DeepCopy = copyPtr LeaderStatus_DeepCopyInto"

definition SidekickSpec_copies1 :: "'x foreign \<Rightarrow> (string \<times> ('x val \<Rightarrow> ('x mem, 'x val) state)) list" where
  "SidekickSpec_copies1 X = [
     (''Leader'', LeaderSpec_DeepCopyInto X),
     (''InitContainers'', copySlice (Container_DeepCopyInto X)),
     (''Containers'', copySlice (Container_DeepCopyInto X)),
     (''EphemeralContainers'', copySlice (copyForeign X ''k8s.io/api/core/v1.EphemeralContainer'')),
     (''BackoffLimit'', copyPtr assign),
     (''TerminationGracePeriodSeconds'', copyPtr assign),
     (''ActiveDeadlineSeconds'', copyPtr assign),
     (''NodeSelector'', copyMap assign),
     (''AutomountServiceAccountToken'', copyPtr assign),
     (''ShareProcessNamespace'', copyPtr assign),
     (''SecurityContext'', copyPtr (copyForeign X ''k8s.io/api/core/v1.PodSecurityContext'')),
     (''ImagePullSecrets'', copySlice assign),
     (''Affinity'', copyPtr (copyForeign X ''k8s.io/api/core/v1.Affinity'')),
     (''Tolerations'', copySlice (copyForeign X ''k8s.io/api/core/v1.Toleration'')),
     (''HostAliases'', copySlice (copyForeign X ''k8s.io/api/core/v1.HostAlias'')),
     (''Priority'', copyPtr assign)]"

definition SidekickSpec_copies2 :: "'x foreign \<Rightarrow> (string \<times> ('x val \<Rightarrow> ('x mem, 'x val) state)) list" where
  "SidekickSpec_copies2 X = [
     (''DNSConfig'', copyPtr (copyForeign X ''k8s.io/api/core/v1.PodDNSConfig'')),
     (''ReadinessGates'', copySlice assign),
     (''RuntimeClassName'', copyPtr assign),
     (''EnableServiceLinks'', copyPtr assign),
     (''PreemptionPolicy'', copyPtr assign),
     (''Overhead'', copyMap (copyForeign X ''k8s.io/apimachinery/pkg/api/resource.Quantity'')),
     (''TopologySpreadConstraints'', copySlice (copyForeign X ''k8s.io/api/core/v1.TopologySpreadConstraint'')),
     (''SetHostnameAsFQDN'', copyPtr assign),
     (''OS'', copyPtr assign),
     (''HostUsers'', copyPtr assign),
     (''Volumes'', copySlice (copyForeign X ''k8s.io/api/core/v1.Volume'')),
     (''ExtraArgs'', copyMap (copyForeign X ''k8s.io/apimachinery/pkg/runtime.RawExtension''))]"

definition SidekickSpec_DeepCopyInto :: "'x foreign \<Rightarrow> 'x val \<Rightarrow> ('x mem, 'x val) state" where
  "SidekickSpec_DeepCopyInto X = deepCopyInto (SidekickSpec_copies1 X @ SidekickSpec_copies2 X)"

definition SidekickSpec_DeepCopy :: "'x foreign \<Rightarrow> 'x val \<Rightarrow> ('x mem, 'x val) state" where
  "SidekickSpec_DeepCopy X = copyPtr (SidekickSpec_DeepCopyInto X)"

definition SidekickStatus_DeepCopyInto :: "'x foreign \<Rightarrow> 'x val \<Rightarrow> ('x mem, 'x val) state" where
  "SidekickStatus_DeepCopyInto X = deepCopyInto [
     (''Leader'', assign),
     (''Conditions'', copySlice (copyForeign X ''kmodules.xyz/client-go/api/v1.Condition'')),
     (''ContainerRestartCountsPerPod'', copyMap assign),
     (''FailureCount'', copyMap assign)]"

definition SidekickStatus_DeepCopy :: "'x foreign \<Rightarrow> 'x val \<Rightarrow> ('x mem, 'x val) state" where
  "SidekickStatus_DeepCopy X = copyPtr (SidekickStatus_DeepCopyInto X)"

definition Sidekick_DeepCopyInto :: "'x foreign \<Rightarrow> 'x val \<Rightarrow> ('x mem, 'x val) state" where
  "Sidekick_DeepCopyInto X = deepCopyInto [
     (''TypeMeta'', assign),
     (''ObjectMeta'', copyForeign X ''k8s.io/apimachinery/pkg/apis/meta/v1.ObjectMeta''),
     (''Spec'', SidekickSpec_DeepCopyInto X),
     (''Status'', SidekickStatus_DeepCopyInto X)]"

definition Sidekick_DeepCopy :: "'x foreign \<Rightarrow> 'x val \<Rightarrow> ('x mem, 'x val) state" where
  "Sidekick_DeepCopy X = copyPtr (Sidekick_DeepCopyInto X)"

text \<open>\<open>DeepCopyObject\<close>: a nil copy becomes the nil interface (here \<open>None\<close>).\<close>

definition asObject :: "'x val \<Rightarrow> 'x val option" where
  "asObject c = (if c \<noteq> VRef None then Some c else None)"

definition Sidekick_DeepCopyObject :: "'x foreign \<Rightarrow> 'x val \<Rightarrow> ('x mem, 'x val option) state" where
  "Sidekick_DeepCopyObject X v = do { c \<leftarrow> Sidekick_DeepCopy X v; ret (asObject c) }"

definition SidekickList_DeepCopyInto :: "'x foreign \<Rightarrow> 'x val \<Rightarrow> ('x mem, 'x val) state" where
  "SidekickList_DeepCopyInto X = deepCopyInto [
     (''TypeMeta'', assign),
     (''ListMeta'', copyForeign X ''k8s.io/apimachinery/pkg/apis/meta/v1.ListMeta''),
     (''Items'', copySlice (Sidekick_DeepCopyInto X))]"

definition SidekickList_DeepCopy :: "'x foreign \<Rightarrow> 'x val \<Rightarrow> ('x mem, 'x val) state" where
  "SidekickList_DeepCopy X = copyPtr (SidekickList_DeepCopyInto X)"

definition SidekickList_DeepCopyObject :: "'x foreign \<Rightarrow> 'x val \<Rightarrow> ('x mem, 'x val option) state" where
  "SidekickList_DeepCopyObject X v = do { c \<leftarrow> SidekickList_DeepCopy X v; ret (asObject c) }"

section \<open>The copy a declaration asks for\<close>

text \<open>The layout of a type: which parts of its values are references, and what they refer to.\<close>

datatype layout =
    LBasic
  | LForeign string
  | LStruct "(string \<times> layout) list"
  | LPtr layout
  | LSlice layout
  | LMap layout

fun layoutOf :: "(string \<times> layout) list \<Rightarrow> gotype \<Rightarrow> layout" where
  "layoutOf env (GStruct n) = (case map_of env n of Some l \<Rightarrow> l | None \<Rightarrow> LForeign n)"
| "layoutOf env (GOpaque n) = LForeign n"
| "layoutOf env (GPtr t) = LPtr (layoutOf env t)"
| "layoutOf env (GSlice t) = LSlice (layoutOf env t)"
| "layoutOf env (GMap t) = LMap (layoutOf env t)"
| "layoutOf env _ = LBasic"

definition layoutOfStruct :: "(string \<times> layout) list \<Rightarrow> go_field list \<Rightarrow> layout" where
  "layoutOfStruct env fs = LStruct (map (\<lambda>f. (fd_Name f, layoutOf env (fd_Type f))) fs)"

text \<open>The layout of an object with an embedded \<open>TypeMeta\<close>, whose members come first.\<close>

definition layoutOfObject :: "(string \<times> layout) list \<Rightarrow> go_field list \<Rightarrow> layout" where
  "layoutOfObject env fs = LStruct ((''TypeMeta'', layoutOfStruct env meta_TypeMeta_fields) #
     map (\<lambda>f. (fd_Name f, layoutOf env (fd_Type f))) (drop (length meta_TypeMeta_fields) fs))"

definition VolumeMount_layout :: layout where
  "VolumeMount_layout = layoutOfStruct [] VolumeMount_fields"

definition Container_layout :: layout where
  "Container_layout =
     layoutOfStruct [(''kubeops.dev/sidekick/apis/apps/v1alpha1.VolumeMount'', VolumeMount_layout)] Container_fields"

definition LeaderSpec_layout :: layout where
  "LeaderSpec_layout = layoutOfStruct [] LeaderSpec_fields"

definition LeaderStatus_layout :: layout where
  "LeaderStatus_layout = layoutOfStruct [] LeaderStatus_fields"

definition SidekickSpec_layout :: layout where
  "SidekickSpec_layout = layoutOfStruct [
     (''kubeops.dev/sidekick/apis/apps/v1alpha1.LeaderSpec'', LeaderSpec_layout),
     (''kubeops.dev/sidekick/apis/apps/v1alpha1.Container'', Container_layout)] SidekickSpec_fields"

definition SidekickStatus_layout :: layout where
  "SidekickStatus_layout =
     layoutOfStruct [(''kubeops.dev/sidekick/apis/apps/v1alpha1.LeaderStatus'', LeaderStatus_layout)] SidekickStatus_fields"

definition Sidekick_layout :: layout where
  "Sidekick_layout = layoutOfObject [
     (''kubeops.dev/sidekick/apis/apps/v1alpha1.SidekickSpec'', SidekickSpec_layout),
     (''kubeops.dev/sidekick/apis/apps/v1alpha1.SidekickStatus'', SidekickStatus_layout)] Sidekick_fields"

definition SidekickList_layout :: layout where
  "SidekickList_layout =
     layoutOfObject [(''kubeops.dev/sidekick/apis/apps/v1alpha1.Sidekick'', Sidekick_layout)] SidekickList_fields"

text \<open>The structs of other packages that hold no reference, and may be copied by assignment.\<close>

definition plainForeign :: "string list" where
  "plainForeign = [''k8s.io/api/core/v1.ContainerPort'', ''k8s.io/api/core/v1.VolumeDevice'',
     ''k8s.io/api/core/v1.LocalObjectReference'', ''k8s.io/api/core/v1.PodReadinessGate'', ''k8s.io/api/core/v1.PodOS'']"

fun plain :: "layout \<Rightarrow> bool" where
  "plain LBasic = True"
| "plain (LForeign n) = List.member plainForeign n"
| "plain (LStruct fs) = list_all (\<lambda>(F, l). plain l) fs"
| "plain _ = False"

text \<open>
  The copy by layout: values without references are assigned; of a struct, every member whose
  type is not basic is copied in the order of declaration.
\<close>

fun copyLayout :: "'x foreign \<Rightarrow> layout \<Rightarrow> 'x val \<Rightarrow> ('x mem, 'x val) state" where
  "copyLayout X LBasic = assign"
| "copyLayout X (LForeign n) = (if List.member plainForeign n then assign else copyForeign X n)"
| "copyLayout X (LStruct fs) = (if list_all (\<lambda>(F, l). plain l) fs then assign
     else deepCopyInto (map (\<lambda>(F, l). (F, copyLayout X l)) (filter (\<lambda>(F, l). l \<noteq> LBasic) fs)))"
| "copyLayout X (LPtr l) = copyPtr (copyLayout X l)"
| "copyLayout X (LSlice l) = copySlice (copyLayout X l)"
| "copyLayout X (LMap l) = copyMap (copyLayout X l)"

text \<open>The copy functions of the package, with the layout of their type.\<close>

definition deepCopies ::
    "'x foreign \<Rightarrow> (layout \<times> ('x val \<Rightarrow> ('x mem, 'x val) state) \<times> ('x val \<Rightarrow> ('x mem, 'x val) state)) list" where
  "deepCopies X = [
     (Container_layout, Container_DeepCopyInto X, Container_DeepCopy X),
     (LeaderSpec_layout, LeaderSpec_DeepCopyInto X, LeaderSpec_DeepCopy X),
     (LeaderStatus_layout, LeaderStatus_DeepCopyInto, LeaderStatus_DeepCopy),
     (Sidekick_layout, Sidekick_DeepCopyInto X, Sidekick_DeepCopy X),
     (SidekickList_layout, SidekickList_DeepCopyInto X, SidekickList_DeepCopy X),
     (SidekickSpec_layout, SidekickSpec_DeepCopyInto X, SidekickSpec_DeepCopy X),
     (SidekickStatus_layout, SidekickStatus_DeepCopyInto X, SidekickStatus_DeepCopy X),
     (VolumeMount_layout, VolumeMount_DeepCopyInto, VolumeMount_DeepCopy)]"

lemmas deepcopy_defs = Container_DeepCopy_def LeaderSpec_DeepCopy_def LeaderStatus_DeepCopy_def Sidekick_DeepCopy_def
  SidekickList_DeepCopy_def SidekickSpec_DeepCopy_def SidekickStatus_DeepCopy_def VolumeMount_DeepCopy_def

lemmas declaration_simps = layoutOfStruct_def layoutOfObject_def goField_def patched_def listed_def mapped_def
  meta_TypeMeta_fields_def core_DNSPolicy_def core_MountPropagationMode_def core_PodPhase_def core_PreemptionPolicy_def
  core_PullPolicy_def core_RestartPolicy_def core_TerminationMessagePolicy_def

lemma VolumeMount_copy: "copyLayout X VolumeMount_layout = VolumeMount_DeepCopyInto"
  by (simp add: VolumeMount_layout_def VolumeMount_fields_def declaration_simps VolumeMount_DeepCopyInto_def)

lemma LeaderSpec_copy: "copyLayout X LeaderSpec_layout = LeaderSpec_DeepCopyInto X"
  by (simp add: LeaderSpec_layout_def LeaderSpec_fields_def declaration_simps LeaderSpec_DeepCopyInto_def
      plainForeign_def)

lemma LeaderStatus_copy: "copyLayout X LeaderStatus_layout = LeaderStatus_DeepCopyInto"
  by (simp add: LeaderStatus_layout_def LeaderStatus_fields_def declaration_simps LeaderStatus_DeepCopyInto_def
      deepCopyInto_def fun_eq_iff)

lemma LeaderStatus_plain: "plain LeaderStatus_layout"
  by (simp add: LeaderStatus_layout_def LeaderStatus_fields_def declaration_simps)

lemma Container_copy: "copyLayout X Container_layout = Container_DeepCopyInto X"
  by (simp add: Container_layout_def Container_fields_def Container_fields1_def Container_fields2_def declaration_simps
      Container_DeepCopyInto_def plainForeign_def VolumeMount_copy)

lemma LeaderStatus_assign: "copyLayout X LeaderStatus_layout = assign"
  unfolding LeaderStatus_copy by (simp add: LeaderStatus_DeepCopyInto_def deepCopyInto_def fun_eq_iff)

lemma not_basic: "VolumeMount_layout \<noteq> LBasic" "Container_layout \<noteq> LBasic" "LeaderSpec_layout \<noteq> LBasic"
  "LeaderStatus_layout \<noteq> LBasic" "SidekickSpec_layout \<noteq> LBasic" "SidekickStatus_layout \<noteq> LBasic" "Sidekick_layout \<noteq> LBasic"
  by (simp_all add: VolumeMount_layout_def Container_layout_def LeaderSpec_layout_def LeaderStatus_layout_def
      SidekickSpec_layout_def SidekickStatus_layout_def Sidekick_layout_def layoutOfStruct_def layoutOfObject_def)

lemma SidekickSpec_copy: "copyLayout X SidekickSpec_layout = SidekickSpec_DeepCopyInto X"
  by (simp add: SidekickSpec_layout_def SidekickSpec_fields_def SidekickSpec_fields1_def SidekickSpec_fields2_def
      declaration_simps SidekickSpec_DeepCopyInto_def SidekickSpec_copies1_def SidekickSpec_copies2_def plainForeign_def
      LeaderSpec_copy Container_copy not_basic)

lemma SidekickStatus_copy: "copyLayout X SidekickStatus_layout = SidekickStatus_DeepCopyInto X"
  by (simp add: SidekickStatus_layout_def SidekickStatus_fields_def declaration_simps SidekickStatus_DeepCopyInto_def
      plainForeign_def LeaderStatus_assign not_basic)

lemma Sidekick_copy: "copyLayout X Sidekick_layout = Sidekick_DeepCopyInto X"
  by (simp add: Sidekick_layout_def Sidekick_fields_def declaration_simps Sidekick_DeepCopyInto_def
      plainForeign_def SidekickSpec_copy SidekickStatus_copy not_basic)

lemma SidekickList_copy: "copyLayout X SidekickList_layout = SidekickList_DeepCopyInto X"
  by (simp add: SidekickList_layout_def SidekickList_fields_def declaration_simps SidekickList_DeepCopyInto_def
      plainForeign_def Sidekick_copy not_basic)

lemma deepcopy_copies: "list_all (\<lambda>(l, into, copy). into = copyLayout X l \<and> copy = copyLayout X (LPtr l)) (deepCopies X)"
  by (simp add: deepCopies_def Container_copy LeaderSpec_copy LeaderStatus_copy Sidekick_copy SidekickList_copy
      SidekickSpec_copy SidekickStatus_copy VolumeMount_copy deepcopy_defs)


section \<open>The contract of a deep copy\<close>

text \<open>Memories that agree on some addresses; memories where everything allocated is kept.\<close>

definition agree :: "addr set \<Rightarrow> 'x mem \<Rightarrow> 'x mem \<Rightarrow> bool" where
  "agree A h h' = (\<forall>a\<in>A. m_cell h' a = m_cell h a)"

definition extends :: "'x mem \<Rightarrow> 'x mem \<Rightarrow> bool" where
  "extends h h' = (m_next h \<le> m_next h' \<and> (\<forall>a<m_next h. m_cell h' a = m_cell h a))"

lemma extends_refl [simp]: "extends h h"
  by (simp add: extends_def)

lemma extends_trans: "extends h h1 \<Longrightarrow> extends h1 h2 \<Longrightarrow> extends h h2"
  by (simp add: extends_def)

lemma agree_subset: "agree A h h' \<Longrightarrow> B \<subseteq> A \<Longrightarrow> agree B h h'"
  by (auto simp: agree_def)

lemma agree_Un [simp]: "agree (A \<union> B) h h' \<longleftrightarrow> agree A h h' \<and> agree B h h'"
  "agree (insert a A) h h' \<longleftrightarrow> m_cell h' a = m_cell h a \<and> agree A h h'" "agree {} h h'"
  "agree (\<Union>x\<in>S. f x) h h' \<longleftrightarrow> (\<forall>x\<in>S. agree (f x) h h')"
  by (auto simp: agree_def)

text \<open>
  What a copy function promises of the values it copies. \<open>vw\<close> reads a value with everything it
  refers to, if nothing dangles; \<open>rc\<close> is the memory that reading visits.
\<close>

locale deep_copier =
  fixes cp :: "'v \<Rightarrow> ('x mem, 'v) state"
    and vw :: "'x mem \<Rightarrow> 'v \<Rightarrow> 't option"
    and rc :: "'x mem \<Rightarrow> 'v \<Rightarrow> addr set"
  assumes view_frame: "vw h v = Some t \<Longrightarrow> agree (rc h v) h h' \<Longrightarrow> vw h' v = Some t \<and> rc h' v = rc h v"
    and reach_alive: "vw h v = Some t \<Longrightarrow> a \<in> rc h v \<Longrightarrow> m_cell h a \<noteq> None"
    and copies: "mem_ok h \<Longrightarrow> vw h v = Some t \<Longrightarrow> run_state (cp v) h = (v', h') \<Longrightarrow>
      mem_ok h' \<and> extends h h' \<and> vw h' v' = Some t \<and> rc h' v' \<inter> {..<m_next h} = {}"
begin

lemma old_reach: "mem_ok h \<Longrightarrow> vw h v = Some t \<Longrightarrow> rc h v \<subseteq> {..<m_next h}"
  using reach_alive by (auto simp: mem_ok_def)

lemma view_extends:
  assumes "mem_ok h" "vw h v = Some t" "extends h h'"
  shows "vw h' v = Some t \<and> rc h' v = rc h v"
proof (rule view_frame [OF assms(2)])
  show "agree (rc h v) h h'"
    using assms(3) old_reach [OF assms(1,2)] by (auto simp: agree_def extends_def)
qed

text \<open>Whatever is written later to the memory of the one leaves the other as it was.\<close>

lemma copy_independent:
  assumes "mem_ok h" "vw h v = Some t" "run_state (cp v) h = (v', h')"
  shows "rc h' v \<inter> rc h' v' = {}"
    and "agree (- rc h' v') h' h'' \<Longrightarrow> vw h'' v = Some t"
    and "agree (- rc h' v) h' h'' \<Longrightarrow> vw h'' v' = Some t"
proof -
  note c = copies [OF assms]
  note e = view_extends [OF assms(1,2) conjunct1 [OF conjunct2 [OF c]]]
  show disj: "rc h' v \<inter> rc h' v' = {}"
    using c e old_reach [OF assms(1,2)] by auto
  show "vw h'' v = Some t" if "agree (- rc h' v') h' h''"
    using view_frame [OF conjunct1 [OF e], of h''] agree_subset [OF that, of "rc h' v"] disj by auto
  show "vw h'' v' = Some t" if "agree (- rc h' v) h' h''"
    using view_frame [of h' v' t h''] agree_subset [OF that, of "rc h' v'"] disj c by auto
qed

end

text \<open>Values without references are copied by assignment.\<close>

lemma deep_copier_assign:
  assumes "\<And>h v t. vw h v = Some t \<Longrightarrow> rc h v = {}"
    and "\<And>h v t h'. vw h v = Some t \<Longrightarrow> vw h' v = Some t"
  shows "deep_copier ret vw rc"
proof
  fix h v t h' assume "vw h v = Some t"
  then show "vw h' v = Some t \<and> rc h' v = rc h v" by (metis assms)
next
  fix h v t a assume "vw h v = Some t" "a \<in> rc h v"
  then show "m_cell h a \<noteq> None" using assms(1) by blast
next
  fix h v t v' h' assume "mem_ok h" "vw h v = Some t" "run_state (ret v) h = (v', h')"
  then show "mem_ok h' \<and> extends h h' \<and> vw h' v' = Some t \<and> rc h' v' \<inter> {..<m_next h} = {}"
    using assms(1) [of h v t] by simp
qed

text \<open>The loop over a list of values.\<close>

lemma those_map_iff: "those (map f xs) = Some ts \<longleftrightarrow> list_all2 (\<lambda>x t. f x = Some t) xs ts"
proof (induction xs arbitrary: ts)
  case Nil
  then show ?case by auto
next
  case (Cons x xs)
  show ?case by (cases ts; cases "f x"; cases "those (map f xs)") (simp_all flip: Cons.IH)
qed

lemma list_all2_set1D: "list_all2 P xs ys \<Longrightarrow> x \<in> set xs \<Longrightarrow> \<exists>y\<in>set ys. P x y"
  by (induction rule: list_all2_induct) auto

context deep_copier
begin

lemma traverse_copies:
  assumes "mem_ok h" "list_all2 (\<lambda>x t. vw h x = Some t) xs ts" "run_state (State_Monad.traverse_list cp xs) h = (ys, h')"
  shows "mem_ok h' \<and> extends h h' \<and> list_all2 (\<lambda>y t. vw h' y = Some t) ys ts \<and> (\<Union>y\<in>set ys. rc h' y) \<inter> {..<m_next h} = {}"
  using assms
proof (induction xs arbitrary: ts h ys h')
  case Nil
  then show ?case by auto
next
  case (Cons x xs)
  from Cons.prems(2) obtain t ts' where ts: "ts = t # ts'" "vw h x = Some t" "list_all2 (\<lambda>x t. vw h x = Some t) xs ts'"
    by (auto simp: list_all2_Cons1)
  obtain y h1 where 1: "run_state (cp x) h = (y, h1)" by (cases "run_state (cp x) h")
  obtain ys' h2 where 2: "run_state (State_Monad.traverse_list cp xs) h1 = (ys', h2)" by (metis surj_pair)
  have ys: "ys = y # ys'" "h' = h2" using Cons.prems(3) by (auto simp: 1 2)
  note c = copies [OF Cons.prems(1) ts(2) 1]
  have "list_all2 (\<lambda>x t. vw h1 x = Some t) xs ts'"
    by (rule list_all2_mono [OF ts(3)]) (use c view_extends [OF Cons.prems(1)] in blast)
  from Cons.IH [OF _ this 2] c have r: "mem_ok h2" "extends h1 h2" "list_all2 (\<lambda>y t. vw h2 y = Some t) ys' ts'"
    "(\<Union>y\<in>set ys'. rc h2 y) \<inter> {..<m_next h1} = {}" by auto
  have y: "vw h2 y = Some t \<and> rc h2 y = rc h1 y"
    using view_extends [of h1 y t h2] c r(2) by blast
  have "m_next h \<le> m_next h1" using c by (simp add: extends_def)
  with c r y show ?case by (auto simp: ys ts(1) intro: extends_trans)
qed

lemma traverse: "deep_copier (State_Monad.traverse_list cp) (\<lambda>h xs. those (map (vw h) xs)) (\<lambda>h xs. \<Union>x\<in>set xs. rc h x)"
proof (unfold_locales, unfold those_map_iff, goal_cases)
  case (1 h xs ts h')
  have f: "vw h' x = Some t \<and> rc h' x = rc h x" if "x \<in> set xs" "vw h x = Some t" for x t
    using 1(2) that view_frame [of h x t h'] by auto
  have "list_all2 (\<lambda>x t. vw h' x = Some t) xs ts"
    by (rule list.rel_mono_strong [OF 1(1)]) (use f in blast)
  moreover have "rc h' x = rc h x" if x: "x \<in> set xs" for x
  proof -
    from 1(1) x obtain t where "vw h x = Some t" by (auto dest: list_all2_set1D)
    with f x show ?thesis by blast
  qed
  ultimately show ?case by simp
next
  case (2 h xs ts a)
  then obtain x where x: "x \<in> set xs" "a \<in> rc h x" by auto
  with 2(1) obtain t where "vw h x = Some t" by (auto dest: list_all2_set1D)
  with x show ?case using reach_alive by blast
next
  case (3 h xs ts ys h')
  then show ?case by (rule traverse_copies)
qed

end

text \<open>Copying the content of a cell into a fresh one.\<close>

context deep_copier
begin

lemma copy_cell:
  assumes "mem_ok h" "vw h v = Some t" "run_state (cp v) (h\<lparr>m_next := m_next h + 1\<rparr>) = (v', h1)"
    and h': "h' = h1\<lparr>m_cell := (m_cell h1)(m_next h \<mapsto> C)\<rparr>"
  shows "mem_ok h' \<and> extends h h' \<and> vw h' v' = Some t \<and> rc h' v' \<inter> {..<m_next h} = {} \<and> m_cell h' (m_next h) = Some C"
proof -
  let ?h0 = "h\<lparr>m_next := m_next h + 1\<rparr>"
  have ok: "mem_ok ?h0" using assms(1) by (auto simp: mem_ok_def less_Suc_eq)
  have "vw ?h0 v = Some t" using view_frame [OF assms(2), of ?h0] by (simp add: agree_def)
  note c = copies [OF ok this assms(3)]
  then have new: "rc h1 v' \<inter> {..m_next h} = {}" by (simp add: lessThan_Suc_atMost)
  have "vw h' v' = Some t \<and> rc h' v' = rc h1 v'"
    by (rule view_frame) (use c new in \<open>auto simp: agree_def h'\<close>)
  moreover have "mem_ok h'" "extends h h'" using c by (auto simp: h' mem_ok_def extends_def)
  ultimately show ?thesis using new by (auto simp: h')
qed

end

section \<open>Reading a value\<close>

text \<open>What a value stands for, with everything it refers to; other packages' structs are read by \<open>xv\<close>.\<close>

datatype 'y tree =
    TStr string
  | TBool bool
  | TInt int
  | TStruct "(string \<times> 'y tree) list"
  | TForeign 'y
  | TNil
  | TPtr "'y tree"
  | TSlice "'y tree list"
  | TMap "(string \<times> 'y tree) list"

fun basicTree :: "'x val \<Rightarrow> 'y tree option" where
  "basicTree (VStr s) = Some (TStr s)"
| "basicTree (VBool b) = Some (TBool b)"
| "basicTree (VInt i) = Some (TInt i)"
| "basicTree _ = None"

text \<open>Reading through a reference, with the content of the cell read by \<open>f\<close>.\<close>

definition viewPtr :: "('x mem \<Rightarrow> 'x val \<Rightarrow> 'y tree option) \<Rightarrow> 'x mem \<Rightarrow> 'x val \<Rightarrow> 'y tree option" where
  "viewPtr f h v = (case v of
     VRef None \<Rightarrow> Some TNil
   | VRef (Some a) \<Rightarrow> (case m_cell h a of Some (Pointee y) \<Rightarrow> map_option TPtr (f h y) | _ \<Rightarrow> None)
   | _ \<Rightarrow> None)"

definition viewSlice :: "('x mem \<Rightarrow> 'x val \<Rightarrow> 'y tree option) \<Rightarrow> 'x mem \<Rightarrow> 'x val \<Rightarrow> 'y tree option" where
  "viewSlice f h v = (case v of
     VSlice None \<Rightarrow> Some TNil
   | VSlice (Some (a, off, len)) \<Rightarrow> (case m_cell h a of
       Some (Elements xs) \<Rightarrow>
         if off + len \<le> length xs then map_option TSlice (those (map (f h) (take len (drop off xs)))) else None
     | _ \<Rightarrow> None)
   | _ \<Rightarrow> None)"

definition viewEntry :: "('x mem \<Rightarrow> 'x val \<Rightarrow> 'y tree option) \<Rightarrow> 'x mem \<Rightarrow> string \<times> 'x val \<Rightarrow> (string \<times> 'y tree) option" where
  "viewEntry f h kv = map_option (Pair (fst kv)) (f h (snd kv))"

definition viewMap :: "('x mem \<Rightarrow> 'x val \<Rightarrow> 'y tree option) \<Rightarrow> 'x mem \<Rightarrow> 'x val \<Rightarrow> 'y tree option" where
  "viewMap f h v = (case v of
     VRef None \<Rightarrow> Some TNil
   | VRef (Some a) \<Rightarrow> (case m_cell h a of
       Some (Entries kvs) \<Rightarrow> map_option TMap (those (map (viewEntry f h) kvs))
     | _ \<Rightarrow> None)
   | _ \<Rightarrow> None)"

definition reachPtr :: "('x mem \<Rightarrow> 'x val \<Rightarrow> addr set) \<Rightarrow> 'x mem \<Rightarrow> 'x val \<Rightarrow> addr set" where
  "reachPtr f h v = (case v of
     VRef (Some a) \<Rightarrow> insert a (case m_cell h a of Some (Pointee y) \<Rightarrow> f h y | _ \<Rightarrow> {})
   | _ \<Rightarrow> {})"

definition reachSlice :: "('x mem \<Rightarrow> 'x val \<Rightarrow> addr set) \<Rightarrow> 'x mem \<Rightarrow> 'x val \<Rightarrow> addr set" where
  "reachSlice f h v = (case v of
     VSlice (Some (a, off, len)) \<Rightarrow>
       insert a (case m_cell h a of Some (Elements xs) \<Rightarrow> \<Union>y\<in>set (take len (drop off xs)). f h y | _ \<Rightarrow> {})
   | _ \<Rightarrow> {})"

definition reachMap :: "('x mem \<Rightarrow> 'x val \<Rightarrow> addr set) \<Rightarrow> 'x mem \<Rightarrow> 'x val \<Rightarrow> addr set" where
  "reachMap f h v = (case v of
     VRef (Some a) \<Rightarrow> insert a (case m_cell h a of Some (Entries kvs) \<Rightarrow> \<Union>kv\<in>set kvs. f h (snd kv) | _ \<Rightarrow> {})
   | _ \<Rightarrow> {})"

lemma run_memory [simp]:
  "run_state reserve h = (m_next h, h\<lparr>m_next := m_next h + 1\<rparr>)"
  "run_state (writeCell a c) h = ((), h\<lparr>m_cell := (m_cell h)(a \<mapsto> c)\<rparr>)"
  "run_state (readCell a) h = (m_cell h a, h)"
  by (simp_all add: reserve_def writeCell_def readCell_def)

lemma deep_copier_ptr:
  assumes "deep_copier c f r"
  shows "deep_copier (copyPtr c) (viewPtr f) (reachPtr r)"
proof
  fix h v t h' assume v: "viewPtr f h v = Some t" and a: "agree (reachPtr r h v) h h'"
  then show "viewPtr f h' v = Some t \<and> reachPtr r h' v = reachPtr r h v"
    by (auto simp: viewPtr_def reachPtr_def dest: deep_copier.view_frame [OF assms]
        split: val.splits option.splits cell.splits)
next
  fix h v t a assume "viewPtr f h v = Some t" and "a \<in> reachPtr r h v"
  then show "m_cell h a \<noteq> None"
    by (auto simp: viewPtr_def reachPtr_def dest: deep_copier.reach_alive [OF assms]
        split: val.splits option.splits cell.splits)
next
  fix h v t v' h' assume ok: "mem_ok h" and v: "viewPtr f h v = Some t" and run: "run_state (copyPtr c v) h = (v', h')"
  show "mem_ok h' \<and> extends h h' \<and> viewPtr f h' v' = Some t \<and> reachPtr r h' v' \<inter> {..<m_next h} = {}"
  proof (cases "v = VRef None")
    case True
    then show ?thesis using ok v run by (auto simp: copyPtr_def viewPtr_def reachPtr_def)
  next
    case False
    with v obtain a y s where a: "v = VRef (Some a)" "m_cell h a = Some (Pointee y)" "f h y = Some s" "t = TPtr s"
      by (auto simp: viewPtr_def split: val.splits option.splits cell.splits)
    obtain y' h1 where c: "run_state (c y) (h\<lparr>m_next := m_next h + 1\<rparr>) = (y', h1)" by (metis surj_pair)
    have h': "h' = h1\<lparr>m_cell := (m_cell h1)(m_next h \<mapsto> Pointee y')\<rparr>" "v' = VRef (Some (m_next h))"
      using run c by (auto simp: copyPtr_def a)
    from deep_copier.copy_cell [OF assms ok a(3) c h'(1)] show ?thesis
      by (auto simp: viewPtr_def reachPtr_def h'(2) a(4))
  qed
qed

lemma deep_copier_entry:
  assumes "deep_copier c f r"
  shows "deep_copier (copyEntry c) (viewEntry f) (\<lambda>h kv. r h (snd kv))"
proof
  fix h kv t h' assume "viewEntry f h kv = Some t" "agree (r h (snd kv)) h h'"
  then show "viewEntry f h' kv = Some t \<and> r h' (snd kv) = r h (snd kv)"
    by (auto simp: viewEntry_def dest: deep_copier.view_frame [OF assms])
next
  fix h kv t a assume "viewEntry f h kv = Some t" "a \<in> r h (snd kv)"
  then show "m_cell h a \<noteq> None"
    by (auto simp: viewEntry_def dest: deep_copier.reach_alive [OF assms])
next
  fix h kv t kv' h' assume ok: "mem_ok h" and v: "viewEntry f h kv = Some t" and run: "run_state (copyEntry c kv) h = (kv', h')"
  obtain y h1 where c: "run_state (c (snd kv)) h = (y, h1)" by (metis surj_pair)
  from v obtain s where s: "f h (snd kv) = Some s" "t = (fst kv, s)" by (auto simp: viewEntry_def)
  have "kv' = (fst kv, y)" "h' = h1" using run by (simp_all add: copyEntry_def c)
  with deep_copier.copies [OF assms ok s(1) c]
  show "mem_ok h' \<and> extends h h' \<and> viewEntry f h' kv' = Some t \<and> r h' (snd kv') \<inter> {..<m_next h} = {}"
    by (simp add: viewEntry_def s)
qed

lemma viewMap_SomeE:
  assumes "viewMap f h v = Some t"
  obtains "v = VRef None" "t = TNil"
  | a kvs s where "v = VRef (Some a)" "m_cell h a = Some (Entries kvs)" "those (map (viewEntry f h) kvs) = Some s" "t = TMap s"
  using assms by (auto simp: viewMap_def split: val.splits option.splits cell.splits)

lemma viewSlice_SomeE:
  assumes "viewSlice f h v = Some t"
  obtains "v = VSlice None" "t = TNil"
  | a off len xs s where "v = VSlice (Some (a, off, len))" "m_cell h a = Some (Elements xs)" "off + len \<le> length xs"
      "those (map (f h) (take len (drop off xs))) = Some s" "t = TSlice s"
  using assms by (auto simp: viewSlice_def split: val.splits option.splits cell.splits if_splits)

lemma deep_copier_map:
  assumes "deep_copier c f r"
  shows "deep_copier (copyMap c) (viewMap f) (reachMap r)"
proof -
  note entries = deep_copier.traverse [OF deep_copier_entry [OF assms]]
  show ?thesis
  proof
    fix h v t h' assume "viewMap f h v = Some t" and ag: "agree (reachMap r h v) h h'"
    then show "viewMap f h' v = Some t \<and> reachMap r h' v = reachMap r h v"
    proof (cases rule: viewMap_SomeE)
      case (2 a kvs s)
      from ag have "m_cell h' a = m_cell h a" "agree (\<Union>kv\<in>set kvs. r h (snd kv)) h h'"
        by (simp_all add: reachMap_def 2)
      with deep_copier.view_frame [OF entries 2(3), of h'] show ?thesis
        by (simp add: viewMap_def reachMap_def 2)
    qed (simp add: viewMap_def reachMap_def)
  next
    fix h v t b assume "viewMap f h v = Some t" and "b \<in> reachMap r h v"
    then show "m_cell h b \<noteq> None"
    proof (cases rule: viewMap_SomeE)
      case (2 a kvs s)
      with \<open>b \<in> reachMap r h v\<close> deep_copier.reach_alive [OF entries 2(3), of b] show ?thesis
        by (simp add: reachMap_def) blast
    qed (simp add: reachMap_def)
  next
    fix h v t v' h' assume ok: "mem_ok h" and v: "viewMap f h v = Some t" and run: "run_state (copyMap c v) h = (v', h')"
    from v show "mem_ok h' \<and> extends h h' \<and> viewMap f h' v' = Some t \<and> reachMap r h' v' \<inter> {..<m_next h} = {}"
    proof (cases rule: viewMap_SomeE)
      case 1
      then show ?thesis using ok v run by (auto simp: copyMap_def viewMap_def reachMap_def)
    next
      case a: (2 a kvs s)
      obtain kvs' h1 where c: "run_state (State_Monad.traverse_list (copyEntry c) kvs) (h\<lparr>m_next := m_next h + 1\<rparr>) = (kvs', h1)"
        by (metis surj_pair)
      have h': "h' = h1\<lparr>m_cell := (m_cell h1)(m_next h \<mapsto> Entries kvs')\<rparr>" "v' = VRef (Some (m_next h))"
        using run c by (auto simp: copyMap_def a)
      from deep_copier.copy_cell [OF entries ok a(3) c h'(1)] show ?thesis
        by (auto simp: viewMap_def reachMap_def h'(2) a(4))
    qed
  qed
qed

lemma deep_copier_slice:
  assumes "deep_copier c f r"
  shows "deep_copier (copySlice c) (viewSlice f) (reachSlice r)"
proof -
  note elements = deep_copier.traverse [OF assms]
  show ?thesis
  proof
    fix h v t h' assume "viewSlice f h v = Some t" and ag: "agree (reachSlice r h v) h h'"
    then show "viewSlice f h' v = Some t \<and> reachSlice r h' v = reachSlice r h v"
    proof (cases rule: viewSlice_SomeE)
      case (2 a off len xs s)
      from ag have "m_cell h' a = m_cell h a" "agree (\<Union>y\<in>set (take len (drop off xs)). r h y) h h'"
        by (simp_all add: reachSlice_def 2)
      with deep_copier.view_frame [OF elements 2(4), of h'] show ?thesis
        by (simp add: viewSlice_def reachSlice_def 2)
    qed (simp add: viewSlice_def reachSlice_def)
  next
    fix h v t b assume "viewSlice f h v = Some t" and "b \<in> reachSlice r h v"
    then show "m_cell h b \<noteq> None"
    proof (cases rule: viewSlice_SomeE)
      case (2 a off len xs s)
      with \<open>b \<in> reachSlice r h v\<close> deep_copier.reach_alive [OF elements 2(4), of b] show ?thesis
        by (simp add: reachSlice_def) blast
    qed (simp add: reachSlice_def)
  next
    fix h v t v' h' assume ok: "mem_ok h" and v: "viewSlice f h v = Some t" and run: "run_state (copySlice c v) h = (v', h')"
    from v show "mem_ok h' \<and> extends h h' \<and> viewSlice f h' v' = Some t \<and> reachSlice r h' v' \<inter> {..<m_next h} = {}"
    proof (cases rule: viewSlice_SomeE)
      case 1
      then show ?thesis using ok v run by (auto simp: copySlice_def viewSlice_def reachSlice_def)
    next
      case a: (2 a off len xs s)
      obtain ys h1 where c: "run_state (State_Monad.traverse_list c (take len (drop off xs))) (h\<lparr>m_next := m_next h + 1\<rparr>) = (ys, h1)"
        by (metis surj_pair)
      have h': "h' = h1\<lparr>m_cell := (m_cell h1)(m_next h \<mapsto> Elements ys)\<rparr>" "v' = VSlice (Some (m_next h, 0, len))"
        using run c by (auto simp: copySlice_def a)
      note cc = deep_copier.copy_cell [OF elements ok a(4) c h'(1)]
      have "length s = len" using a(3,4) by (auto simp: those_map_iff dest!: list_all2_lengthD)
      moreover have "length s = length ys" using cc by (auto simp: those_map_iff dest: list_all2_lengthD)
      ultimately have "length ys = len" by simp
      with cc show ?thesis
        by (auto simp: viewSlice_def reachSlice_def h'(2) a(5))
    qed
  qed
qed

section \<open>Structs\<close>

text \<open>One member of a struct, given with its declared name and layout.\<close>

definition copyMember ::
    "(layout \<Rightarrow> 'x val \<Rightarrow> ('x mem, 'x val) state) \<Rightarrow> (string \<times> layout) \<times> string \<times> 'x val \<Rightarrow>
     ('x mem, (string \<times> layout) \<times> string \<times> 'x val) state" where
  "copyMember c p = do { e \<leftarrow> copyEntry (c (snd (fst p))) (snd p); ret (fst p, e) }"

definition viewMember ::
    "(layout \<Rightarrow> 'x mem \<Rightarrow> 'x val \<Rightarrow> 'y tree option) \<Rightarrow> (string \<times> layout) list \<Rightarrow> 'x mem \<Rightarrow>
     (string \<times> layout) \<times> string \<times> 'x val \<Rightarrow> (string \<times> 'y tree) option" where
  "viewMember f fs h p = (if List.member fs (fst p) then viewEntry (f (snd (fst p))) h (snd p) else None)"

definition viewStruct ::
    "(layout \<Rightarrow> 'x mem \<Rightarrow> 'x val \<Rightarrow> 'y tree option) \<Rightarrow> (string \<times> layout) list \<Rightarrow> 'x mem \<Rightarrow> 'x val \<Rightarrow> 'y tree option" where
  "viewStruct f fs h v = (case v of
     VStruct vs \<Rightarrow>
       if map fst fs = map fst vs then map_option TStruct (those (map (viewMember f fs h) (zip fs vs))) else None
   | _ \<Rightarrow> None)"

definition reachMember ::
    "(layout \<Rightarrow> 'x mem \<Rightarrow> 'x val \<Rightarrow> addr set) \<Rightarrow> 'x mem \<Rightarrow> (string \<times> layout) \<times> string \<times> 'x val \<Rightarrow> addr set" where
  "reachMember r h p = r (snd (fst p)) h (snd (snd p))"

definition reachStruct ::
    "(layout \<Rightarrow> 'x mem \<Rightarrow> 'x val \<Rightarrow> addr set) \<Rightarrow> (string \<times> layout) list \<Rightarrow> 'x mem \<Rightarrow> 'x val \<Rightarrow> addr set" where
  "reachStruct r fs h v = (case v of VStruct vs \<Rightarrow> \<Union>p\<in>set (zip fs vs). reachMember r h p | _ \<Rightarrow> {})"

lemma deep_copier_member:
  assumes "\<And>F l. (F, l) \<in> set fs \<Longrightarrow> deep_copier (c l) (f l) (r l)"
  shows "deep_copier (copyMember c) (viewMember f fs) (reachMember r)"
proof
  fix h p t h' assume v: "viewMember f fs h p = Some t" and a: "agree (reachMember r h p) h h'"
  then have "(fst (fst p), snd (fst p)) \<in> set fs" by (auto simp: viewMember_def split: if_splits)
  from deep_copier.view_frame [OF deep_copier_entry [OF assms [OF this]], of h "snd p" t h'] v a
  show "viewMember f fs h' p = Some t \<and> reachMember r h' p = reachMember r h p"
    by (auto simp: viewMember_def reachMember_def split: if_splits)
next
  fix h p t a assume v: "viewMember f fs h p = Some t" and a: "a \<in> reachMember r h p"
  then have "(fst (fst p), snd (fst p)) \<in> set fs" by (auto simp: viewMember_def split: if_splits)
  from deep_copier.reach_alive [OF deep_copier_entry [OF assms [OF this]], of h "snd p" t a] v a
  show "m_cell h a \<noteq> None"
    by (auto simp: viewMember_def reachMember_def split: if_splits)
next
  fix h p t p' h' assume ok: "mem_ok h" and v: "viewMember f fs h p = Some t" and run: "run_state (copyMember c p) h = (p', h')"
  then have "(fst (fst p), snd (fst p)) \<in> set fs" by (auto simp: viewMember_def split: if_splits)
  note d = deep_copier.copies [OF deep_copier_entry [OF assms [OF this]] ok]
  obtain e h1 where e: "run_state (copyEntry (c (snd (fst p))) (snd p)) h = (e, h1)" by (metis surj_pair)
  have "p' = (fst p, e)" "h' = h1" using run by (simp_all add: copyMember_def e)
  with d [OF _ e, of t] v
  show "mem_ok h' \<and> extends h h' \<and> viewMember f fs h' p' = Some t \<and> reachMember r h' p' \<inter> {..<m_next h} = {}"
    by (auto simp: viewMember_def reachMember_def split: if_splits)
qed

lemma copyMember_alt:
  "copyMember c p = do { y \<leftarrow> c (snd (fst p)) (snd (snd p)); ret (fst p, fst (snd p), y) }"
  by (simp add: copyMember_def copyEntry_def)

lemma traverse_members_names:
  "run_state (State_Monad.traverse_list (copyMember c) ps) h = (ps', h') \<Longrightarrow>
   map fst ps' = map fst ps \<and> map (fst \<circ> snd) ps' = map (fst \<circ> snd) ps"
proof (induction ps arbitrary: h ps')
  case (Cons p ps)
  obtain y h1 where 1: "run_state (c (snd (fst p)) (snd (snd p))) h = (y, h1)" by (metis surj_pair)
  obtain qs h2 where 2: "run_state (State_Monad.traverse_list (copyMember c) ps) h1 = (qs, h2)" by (metis surj_pair)
  from Cons.prems have "ps' = (fst p, fst (snd p), y) # qs" "h' = h2"
    by (simp_all add: copyMember_alt [of c p] 1 2)
  with Cons.IH [of h1 qs] 2 show ?case by simp
qed auto

text \<open>
  The statements of a \<open>DeepCopyInto\<close> have the effect of copying the members one after the
  other: a member without a statement is of a basic type, and keeps what \<open>*out = *in\<close> gave it.
\<close>

lemma setField_middle:
  "F \<notin> fst ` set us \<Longrightarrow> F \<notin> fst ` set vs \<Longrightarrow>
   setField F x (VStruct (us @ (F, y) # vs)) = VStruct (us @ (F, x) # vs)"
  by (auto intro!: map_idI simp: rev_image_eqI)

lemma runCopies_members:
  assumes "map fst fs = map fst vs" "distinct (map fst us @ map fst vs)"
    and "\<And>F. F \<in> fst ` set vs \<Longrightarrow> map_of all F = map_of vs F" and basic: "c LBasic = ret"
  shows "runCopies (map (\<lambda>(F, l). (F, c l)) (filter (\<lambda>(F, l). l \<noteq> LBasic) fs)) (VStruct all) (VStruct (us @ vs)) =
    do { ps \<leftarrow> State_Monad.traverse_list (copyMember c) (zip fs vs); ret (VStruct (us @ map snd ps)) }"
  using assms(1-3)
proof (induction fs arbitrary: us vs)
  case Nil
  then show ?case by simp
next
  case (Cons fl fs)
  obtain F l where fl: "fl = (F, l)" by (cases fl)
  with Cons.prems(1) obtain y vs' where vs: "vs = (F, y) # vs'" "map fst fs = map fst vs'"
    by (cases vs) (auto simp: prod_eq_iff)
  have get: "getField F (VStruct all) = y" using Cons.prems(3) [of F] by (simp add: vs)
  have set: "setField F x (VStruct (us @ vs)) = VStruct ((us @ [(F, x)]) @ vs')" for x
    using Cons.prems(2) setField_middle [of F us vs' x y] by (auto simp: vs)
  have map_of: "map_of all G = map_of vs' G" if "G \<in> fst ` set vs'" for G
    using Cons.prems(2) Cons.prems(3) [of G] that by (auto simp: vs)
  have IH: "runCopies (map (\<lambda>(F, l). (F, c l)) (filter (\<lambda>(F, l). l \<noteq> LBasic) fs)) (VStruct all) (VStruct ((us @ [(F, x)]) @ vs')) =
      do { ps \<leftarrow> State_Monad.traverse_list (copyMember c) (zip fs vs'); ret (VStruct ((us @ [(F, x)]) @ map snd ps)) }" for x
    by (rule Cons.IH) (use Cons.prems(2) vs map_of in auto)
  show ?case
  proof (cases "l = LBasic")
    case True
    with IH [of y] show ?thesis by (simp add: fl vs(1) copyMember_alt [of c "((F, LBasic), F, y)"] basic)
  next
    case False
    then show ?thesis
      by (simp add: fl vs(1) get set [unfolded vs(1)] copyMember_alt [of c "((F, l), F, y)"] IH [simplified]
          del: getField.simps setField.simps)
  qed
qed

lemma deep_copier_struct:
  assumes d: "\<And>F l. (F, l) \<in> set fs \<Longrightarrow> deep_copier (c l) (f l) (r l)"
    and "distinct (map fst fs)" and "c LBasic = ret"
  shows "deep_copier (deepCopyInto (map (\<lambda>(F, l). (F, c l)) (filter (\<lambda>(F, l). l \<noteq> LBasic) fs)))
    (viewStruct f fs) (reachStruct r fs)" (is "deep_copier ?cp _ _")
proof -
  note members = deep_copier.traverse [OF deep_copier_member [OF d]]
  have S: "\<exists>vs s. v = VStruct vs \<and> map fst fs = map fst vs \<and> those (map (viewMember f fs h) (zip fs vs)) = Some s \<and> t = TStruct s"
    if "viewStruct f fs h v = Some t" for h v t
    using that by (auto simp: viewStruct_def split: val.splits if_splits)
  show ?thesis
  proof
    fix h v t h' assume v: "viewStruct f fs h v = Some t" and a: "agree (reachStruct r fs h v) h h'"
    from S [OF v] obtain vs s where vs: "v = VStruct vs" "map fst fs = map fst vs" "t = TStruct s"
      and t: "those (map (viewMember f fs h) (zip fs vs)) = Some s" by blast
    from a have "agree (\<Union>p\<in>set (zip fs vs). reachMember r h p) h h'" by (simp add: reachStruct_def vs(1))
    from deep_copier.view_frame [OF members t this]
    show "viewStruct f fs h' v = Some t \<and> reachStruct r fs h' v = reachStruct r fs h v"
      by (simp add: viewStruct_def reachStruct_def vs)
  next
    fix h v t b assume v: "viewStruct f fs h v = Some t" and b: "b \<in> reachStruct r fs h v"
    from S [OF v] obtain vs s where vs: "v = VStruct vs"
      and t: "those (map (viewMember f fs h) (zip fs vs)) = Some s" by blast
    from b have "b \<in> (\<Union>p\<in>set (zip fs vs). reachMember r h p)" by (simp add: reachStruct_def vs)
    from deep_copier.reach_alive [OF members t this] show "m_cell h b \<noteq> None" .
  next
    fix h v t v' h' assume ok: "mem_ok h" and v: "viewStruct f fs h v = Some t" and run: "run_state (?cp v) h = (v', h')"
    from S [OF v] obtain vs s where vs: "v = VStruct vs" "map fst fs = map fst vs" "t = TStruct s"
      and t: "those (map (viewMember f fs h) (zip fs vs)) = Some s" by blast
    have cp: "?cp v = do { ps \<leftarrow> State_Monad.traverse_list (copyMember c) (zip fs vs); ret (VStruct (map snd ps)) }"
      using runCopies_members [of fs vs "[]" vs c] assms(2,3) by (simp add: deepCopyInto_def vs)
    obtain ps h1 where ps: "run_state (State_Monad.traverse_list (copyMember c) (zip fs vs)) h = (ps, h1)"
      by (metis surj_pair)
    have v': "v' = VStruct (map snd ps)" "h' = h1" using run unfolding cp by (simp_all add: ps)
    have len: "length fs = length vs" using vs(2) by (metis length_map)
    note names = traverse_members_names [OF ps]
    have "map fst ps = fs" "map (fst \<circ> snd) ps = map fst vs"
      using names len by (simp_all add: map_fst_zip flip: map_map)
    then have zip: "zip fs (map snd ps) = ps" "map fst fs = map fst (map snd ps)"
      using vs(2) zip_map_fst_snd [of ps] by simp_all
    from deep_copier.copies [OF members ok t ps]
    show "mem_ok h' \<and> extends h h' \<and> viewStruct f fs h' v' = Some t \<and> reachStruct r fs h' v' \<inter> {..<m_next h} = {}"
      by (simp add: viewStruct_def reachStruct_def v' zip vs(3))
  qed
qed

section \<open>Every copy of the package is deep\<close>

lemma size_member [termination_simp]:
  assumes "((F, l), e) \<in> set (zip fs vs)"
  shows "size l < Suc (size_list (\<lambda>x. Suc (size (snd x))) fs)"
proof -
  from assms have "(F, l) \<in> set fs" by (rule set_zip_leftD)
  then show ?thesis by (induction fs) auto
qed

fun view :: "(string \<Rightarrow> 'x mem \<Rightarrow> 'x \<Rightarrow> 'y option) \<Rightarrow> layout \<Rightarrow> 'x mem \<Rightarrow> 'x val \<Rightarrow> 'y tree option" where
  "view xv LBasic h v = basicTree v"
| "view xv (LForeign n) h v = (case v of VForeign x \<Rightarrow> map_option TForeign (xv n h x) | _ \<Rightarrow> None)"
| "view xv (LStruct fs) h v = (case v of
     VStruct vs \<Rightarrow>
       if map fst fs = map fst vs
       then map_option TStruct (those (map (\<lambda>(fl, gy). map_option (Pair (fst gy)) (view xv (snd fl) h (snd gy))) (zip fs vs)))
       else None
   | _ \<Rightarrow> None)"
| "view xv (LPtr l) h v = viewPtr (view xv l) h v"
| "view xv (LSlice l) h v = viewSlice (view xv l) h v"
| "view xv (LMap l) h v = viewMap (view xv l) h v"

fun reach :: "(string \<Rightarrow> 'x mem \<Rightarrow> 'x \<Rightarrow> addr set) \<Rightarrow> layout \<Rightarrow> 'x mem \<Rightarrow> 'x val \<Rightarrow> addr set" where
  "reach xr LBasic h v = {}"
| "reach xr (LForeign n) h v = (case v of VForeign x \<Rightarrow> xr n h x | _ \<Rightarrow> {})"
| "reach xr (LStruct fs) h v = (case v of
     VStruct vs \<Rightarrow> \<Union>(fl, gy)\<in>set (zip fs vs). reach xr (snd fl) h (snd gy)
   | _ \<Rightarrow> {})"
| "reach xr (LPtr l) h v = reachPtr (reach xr l) h v"
| "reach xr (LSlice l) h v = reachSlice (reach xr l) h v"
| "reach xr (LMap l) h v = reachMap (reach xr l) h v"

lemma view_struct_eq: "view xv (LStruct fs) = viewStruct (view xv) fs"
proof (intro ext)
  fix h v
  have "map (\<lambda>(fl, gy). map_option (Pair (fst gy)) (view xv (snd fl) h (snd gy))) (zip fs vs) =
      map (viewMember (view xv) fs h) (zip fs vs)" for vs
    by (rule map_cong) (auto simp: viewMember_def viewEntry_def dest: set_zip_leftD)
  then show "view xv (LStruct fs) h v = viewStruct (view xv) fs h v"
    by (cases v) (simp_all only: viewStruct_def view.simps val.case)
qed

lemma reach_struct_eq: "reach xr (LStruct fs) = reachStruct (reach xr) fs"
  by (auto simp: fun_eq_iff reachStruct_def reachMember_def split: val.split)

lemma view_reach_eqs:
  "view xv LBasic = (\<lambda>h. basicTree)" "reach xr LBasic = (\<lambda>h v. {})"
  "view xv (LPtr l) = viewPtr (view xv l)" "reach xr (LPtr l) = reachPtr (reach xr l)"
  "view xv (LSlice l) = viewSlice (view xv l)" "reach xr (LSlice l) = reachSlice (reach xr l)"
  "view xv (LMap l) = viewMap (view xv l)" "reach xr (LMap l) = reachMap (reach xr l)"
  by (simp_all add: fun_eq_iff)

text \<open>The members of a struct have distinct names.\<close>

fun layout_ok :: "layout \<Rightarrow> bool" where
  "layout_ok (LStruct fs) = (distinct (map fst fs) \<and> list_all (\<lambda>(F, l). layout_ok l) fs)"
| "layout_ok (LPtr l) = layout_ok l"
| "layout_ok (LSlice l) = layout_ok l"
| "layout_ok (LMap l) = layout_ok l"
| "layout_ok _ = True"

lemma deepCopies_layouts_ok: "list_all (\<lambda>(l, _). layout_ok l) (deepCopies X)"
proof -
  have "list_all layout_ok [Container_layout, LeaderSpec_layout, LeaderStatus_layout, Sidekick_layout,
      SidekickList_layout, SidekickSpec_layout, SidekickStatus_layout, VolumeMount_layout]"
    by code_simp
  then show ?thesis by (simp add: deepCopies_def)
qed

text \<open>
  What the copies rely on of the other packages: their copy functions are deep copies too, and
  the structs copied by assignment hold no reference.
\<close>

locale foreign_types =
  fixes X :: "'x foreign"
    and xv :: "string \<Rightarrow> 'x mem \<Rightarrow> 'x \<Rightarrow> 'y option"
    and xr :: "string \<Rightarrow> 'x mem \<Rightarrow> 'x \<Rightarrow> addr set"
  assumes foreign_copier: "deep_copier (X n) (xv n) (xr n)"
    and foreign_plain: "List.member plainForeign n \<Longrightarrow> xr n h x = {}"
begin

lemma plain_no_reach: "plain l \<Longrightarrow> reach xr l h v = {}"
proof (induction l arbitrary: v)
  case (LStruct fs)
  have "reach xr (snd (fst p)) h (snd (snd p)) = {}" if "p \<in> set (zip fs vs)"
    for p and vs :: "(string \<times> 'x val) list"
  proof -
    from that have "fst p \<in> set fs" by (metis prod.collapse set_zip_leftD)
    with LStruct show ?thesis by (cases "fst p") (fastforce simp: list_all_iff)
  qed
  then show ?case unfolding reach_struct_eq by (cases v) (simp_all add: reachStruct_def reachMember_def)
qed (auto simp: foreign_plain split: val.split)

lemma copier_Foreign: "deep_copier (copyForeign X n) (view xv (LForeign n)) (reach xr (LForeign n))"
proof
  fix h v t h' assume "view xv (LForeign n) h v = Some t" "agree (reach xr (LForeign n) h v) h h'"
  then show "view xv (LForeign n) h' v = Some t \<and> reach xr (LForeign n) h' v = reach xr (LForeign n) h v"
    by (auto dest: deep_copier.view_frame [OF foreign_copier] split: val.splits)
next
  fix h v t a assume "view xv (LForeign n) h v = Some t" "a \<in> reach xr (LForeign n) h v"
  then show "m_cell h a \<noteq> None"
    by (auto dest: deep_copier.reach_alive [OF foreign_copier] split: val.splits)
next
  fix h v t v' h' assume ok: "mem_ok h" and v: "view xv (LForeign n) h v = Some t"
    and run: "run_state (copyForeign X n v) h = (v', h')"
  from v obtain x y where x: "v = VForeign x" "xv n h x = Some y" "t = TForeign y" by (auto split: val.splits)
  obtain x' h1 where c: "run_state (X n x) h = (x', h1)" by (metis surj_pair)
  have "v' = VForeign x'" "h' = h1" using run by (simp_all add: copyForeign_def x c)
  with deep_copier.copies [OF foreign_copier ok x(2) c] x(3)
  show "mem_ok h' \<and> extends h h' \<and> view xv (LForeign n) h' v' = Some t \<and>
      reach xr (LForeign n) h' v' \<inter> {..<m_next h} = {}" by simp
qed

lemma plain_view: "plain l \<Longrightarrow> view xv l h v = Some t \<Longrightarrow> view xv l h' v = Some t"
proof (induction l arbitrary: v t)
  case (LForeign n)
  then show ?case
    using deep_copier.view_frame [OF copier_Foreign, of n h v t h'] plain_no_reach [of "LForeign n" h v]
    by (simp add: agree_def)
next
  case (LStruct fs)
  from LStruct.prems(2) obtain vs ts where vs: "v = VStruct vs" "map fst fs = map fst vs" "t = TStruct ts"
    and ts: "list_all2 (\<lambda>p t. viewMember (view xv) fs h p = Some t) (zip fs vs) ts"
    unfolding view_struct_eq by (auto simp: viewStruct_def those_map_iff split: val.splits if_splits)
  have "viewMember (view xv) fs h' p = Some s" if "p \<in> set (zip fs vs)" "viewMember (view xv) fs h p = Some s" for p s
  proof -
    from that(1) have "fst p \<in> set fs" by (metis prod.collapse set_zip_leftD)
    with LStruct.IH [of "fst p" "snd (fst p)" "snd (snd p)"] LStruct.prems(1) that(2) show ?thesis
      by (cases "fst p") (fastforce simp: viewMember_def viewEntry_def list_all_iff)
  qed
  with ts have "list_all2 (\<lambda>p t. viewMember (view xv) fs h' p = Some t) (zip fs vs) ts"
    by (auto elim: list.rel_mono_strong)
  then show ?case unfolding view_struct_eq by (simp add: viewStruct_def vs those_map_iff)
qed (auto split: val.splits)

lemma copier_plain: "plain l \<Longrightarrow> deep_copier ret (view xv l) (reach xr l)"
  by (rule deep_copier_assign) (rule plain_no_reach, assumption, rule plain_view)

theorem copyLayout_copier: "layout_ok l \<Longrightarrow> deep_copier (copyLayout X l) (view xv l) (reach xr l)"
proof (induction l)
  case LBasic
  show ?case using copier_plain [of LBasic] by (simp del: view.simps reach.simps)
next
  case (LForeign n)
  show ?case using copier_plain [of "LForeign n"] copier_Foreign [of n] by (simp del: view.simps reach.simps)
next
  case (LPtr l)
  then show ?case using deep_copier_ptr by (simp add: view_reach_eqs del: view.simps reach.simps)
next
  case (LSlice l)
  then show ?case using deep_copier_slice by (simp add: view_reach_eqs del: view.simps reach.simps)
next
  case (LMap l)
  then show ?case using deep_copier_map by (simp add: view_reach_eqs del: view.simps reach.simps)
next
  case (LStruct fs)
  show ?case
  proof (cases "plain (LStruct fs)")
    case True
    then have "copyLayout X (LStruct fs) = ret" by simp
    with copier_plain [OF True] show ?thesis by (simp only:)
  next
    case False
    have "deep_copier (copyLayout X l) (view xv l) (reach xr l)" if "(F, l) \<in> set fs" for F l
      using LStruct.IH [OF that] LStruct.prems that by (auto simp: list_all_iff)
    from deep_copier_struct [OF this] LStruct.prems False show ?thesis
      by (simp add: view_struct_eq reach_struct_eq del: view.simps(3) reach.simps(3))
  qed
qed

end

sublocale foreign_types \<subseteq> sidekick: deep_copier "Sidekick_DeepCopy X" "view xv (LPtr Sidekick_layout)" "reach xr (LPtr Sidekick_layout)"
proof -
  have "layout_ok (LPtr Sidekick_layout)" by code_simp
  from copyLayout_copier [OF this]
  show "deep_copier (Sidekick_DeepCopy X) (view xv (LPtr Sidekick_layout)) (reach xr (LPtr Sidekick_layout))"
    by (simp add: Sidekick_DeepCopy_def Sidekick_copy del: view.simps reach.simps)
qed

text \<open>
  Property C31. A deep copy of any type of the API reads exactly like the original, which still reads as before,
  and the two share no memory: whatever is later written through the one leaves the other as it is.
\<close>

theorem deep_copies_separate:
  assumes "foreign_types X xv xr" and "(l, into, copy) \<in> set (deepCopies X)"
    and "mem_ok h" and "view xv (LPtr l) h p = Some t" and "run_state (copy p) h = (p', h')"
  shows "view xv (LPtr l) h' p' = Some t \<and> view xv (LPtr l) h' p = Some t \<and>
    reach xr (LPtr l) h' p \<inter> reach xr (LPtr l) h' p' = {} \<and>
    (\<forall>h''. agree (- reach xr (LPtr l) h' p') h' h'' \<longrightarrow> view xv (LPtr l) h'' p = Some t) \<and>
    (\<forall>h''. agree (- reach xr (LPtr l) h' p) h' h'' \<longrightarrow> view xv (LPtr l) h'' p' = Some t)"
proof -
  have "layout_ok (LPtr l)" using deepCopies_layouts_ok [of X] assms(2) by (auto simp: list_all_iff)
  moreover have "copy = copyLayout X (LPtr l)" using deepcopy_copies [of X] assms(2) by (auto simp: list_all_iff)
  ultimately have d: "deep_copier copy (view xv (LPtr l)) (reach xr (LPtr l))"
    using foreign_types.copyLayout_copier [OF assms(1)] by blast
  note ind = deep_copier.copy_independent [OF d assms(3-5)]
  note c = deep_copier.copies [OF d assms(3-5)]
  then have "view xv (LPtr l) h' p = Some t"
    using deep_copier.view_extends [OF d assms(3,4)] by blast
  with c ind show ?thesis by blast
qed

section \<open>A small memory\<close>

text \<open>
  An instance of the laws: foreign structs with a label and a pointer to a string, which
  the structs without references ignore.
\<close>

type_synonym sample_foreign = "string \<times> addr option"

definition sampleCopy :: "sample_foreign foreign" where
  "sampleCopy n x = (if List.member plainForeign n then ret x
     else do {
       v \<leftarrow> copyPtr assign (VRef (snd x));
       ret (fst x, case v of VRef r \<Rightarrow> r | _ \<Rightarrow> None)
     })"

definition sampleView :: "string \<Rightarrow> sample_foreign mem \<Rightarrow> sample_foreign \<Rightarrow> (string \<times> unit tree) option" where
  "sampleView n h x = (if List.member plainForeign n then Some (fst x, TNil)
     else map_option (Pair (fst x)) (viewPtr (\<lambda>_. basicTree) h (VRef (snd x))))"

definition sampleReach :: "string \<Rightarrow> sample_foreign mem \<Rightarrow> sample_foreign \<Rightarrow> addr set" where
  "sampleReach n h x = (if List.member plainForeign n then {} else reachPtr (\<lambda>_ _. {}) h (VRef (snd x)))"

lemma basic_copier: "deep_copier assign (\<lambda>_. basicTree) (\<lambda>_ _. {})"
  by (rule deep_copier_assign) simp_all

lemma copyPtr_ref: "run_state (copyPtr c (VRef r)) h = (v, h') \<Longrightarrow> \<exists>r'. v = VRef r'"
  by (auto simp: copyPtr_def split: option.splits cell.splits prod.splits)

interpretation sample_types: foreign_types sampleCopy sampleView sampleReach
proof (rule foreign_types.intro)
  fix n :: string
  note ptr = deep_copier_ptr [OF basic_copier]
  show "deep_copier (sampleCopy n) (sampleView n) (sampleReach n)"
  proof (cases "List.member plainForeign n")
    case True
    then have "sampleCopy n = ret" by (simp add: sampleCopy_def fun_eq_iff)
    with True show ?thesis using deep_copier_assign [of "sampleView n" "sampleReach n"]
      by (simp add: sampleView_def sampleReach_def)
  next
    case False
    then have cp: "sampleCopy n x = do { v \<leftarrow> copyPtr assign (VRef (snd x)); ret (fst x, case v of VRef r \<Rightarrow> r | _ \<Rightarrow> None) }"
      and vw: "sampleView n h x = map_option (Pair (fst x)) (viewPtr (\<lambda>_. basicTree) h (VRef (snd x)))"
      and rc: "sampleReach n h x = reachPtr (\<lambda>_ _. {}) h (VRef (snd x))" for x h
      by (simp_all add: sampleCopy_def sampleView_def sampleReach_def)
    show ?thesis
    proof
      fix h x t h' assume "sampleView n h x = Some t" "agree (sampleReach n h x) h h'"
      then show "sampleView n h' x = Some t \<and> sampleReach n h' x = sampleReach n h x"
        unfolding vw rc by (auto dest: deep_copier.view_frame [OF ptr])
    next
      fix h x t a assume "sampleView n h x = Some t" "a \<in> sampleReach n h x"
      then show "m_cell h a \<noteq> None"
        unfolding vw rc by (auto dest: deep_copier.reach_alive [OF ptr])
    next
      fix h x t x' h' assume ok: "mem_ok h" and v: "sampleView n h x = Some t" and run: "run_state (sampleCopy n x) h = (x', h')"
      obtain v h1 where c: "run_state (copyPtr assign (VRef (snd x))) h = (v, h1)" by (metis surj_pair)
      from copyPtr_ref [OF c] obtain r where r: "v = VRef r" by blast
      have x': "x' = (fst x, r)" "h' = h1" using run by (simp_all add: cp c r)
      from v obtain s where s: "viewPtr (\<lambda>_. basicTree) h (VRef (snd x)) = Some s" "t = (fst x, s)"
        by (auto simp: vw)
      from deep_copier.copies [OF ptr ok s(1) c]
      show "mem_ok h' \<and> extends h h' \<and> sampleView n h' x' = Some t \<and> sampleReach n h' x' \<inter> {..<m_next h} = {}"
        by (simp add: vw rc x' r s)
    qed
  qed
qed (simp add: sampleReach_def)

text \<open>A leader specification with a selector, which in turn holds a reference.\<close>

definition sample_mem :: "sample_foreign mem" where
  "sample_mem = \<lparr>m_next = 3, m_cell = [
     0 \<mapsto> Pointee (VStruct [(''Name'', VStr ''''), (''Selector'', VRef (Some 1)), (''SelectionPolicy'', VStr ''Last'')]),
     1 \<mapsto> Pointee (VForeign (''app'', Some 2)),
     2 \<mapsto> Pointee (VStr ''db'')]\<rparr>"

lemma sample_mem_view:
  "mem_ok sample_mem"
  "view sampleView (LPtr LeaderSpec_layout) sample_mem (VRef (Some 0)) =
     Some (TPtr (TStruct [(''Name'', TStr ''''), (''Selector'', TPtr (TForeign (''app'', TPtr (TStr ''db'')))),
       (''SelectionPolicy'', TStr ''Last'')]))"
  by (auto simp: mem_ok_def sample_mem_def viewPtr_def LeaderSpec_layout_def LeaderSpec_fields_def declaration_simps
      sampleView_def plainForeign_def split: if_splits)

theorem deep_copies_separate_witness:
  "\<exists>p' h'. run_state (LeaderSpec_DeepCopy sampleCopy (VRef (Some 0))) sample_mem = (p', h') \<and>
     view sampleView (LPtr LeaderSpec_layout) h' p' =
       Some (TPtr (TStruct [(''Name'', TStr ''''), (''Selector'', TPtr (TForeign (''app'', TPtr (TStr ''db'')))),
         (''SelectionPolicy'', TStr ''Last'')])) \<and>
     reach sampleReach (LPtr LeaderSpec_layout) h' (VRef (Some 0)) \<inter> reach sampleReach (LPtr LeaderSpec_layout) h' p' = {}"
proof -
  obtain p' h' where run: "run_state (LeaderSpec_DeepCopy sampleCopy (VRef (Some 0))) sample_mem = (p', h')"
    by (metis surj_pair)
  have "(LeaderSpec_layout, LeaderSpec_DeepCopyInto sampleCopy, LeaderSpec_DeepCopy sampleCopy) \<in> set (deepCopies sampleCopy)"
    by (simp add: deepCopies_def)
  from deep_copies_separate [OF sample_types.foreign_types_axioms this sample_mem_view run] run
  show ?thesis by blast
qed

end
