(* ===== verification/Openapi_Volumes.thy ===== *)
theory Openapi_Volumes
  imports Openapi_Enums
begin

text \<open>
  The definitions and declarations of \<open>Volume\<close> of \<open>k8s.io/api/core/v1\<close> and of the types of that package
  it refers to.
\<close>

section \<open>The definitions\<close>

definition schema_core_AWSElasticBlockStoreVolumeSource :: "(string \<Rightarrow> 'r) \<Rightarrow> 'r openapi_definition" where [openapi_data]:
  "schema_core_AWSElasticBlockStoreVolumeSource ref = \<lparr>
     od_Schema = objectS [
     (''volumeID'', withDefault (JStr '''') (plainS ''string'' '''')),
     (''fsType'', plainS ''string'' ''''),
     (''partition'', plainS ''integer'' ''int32''),
     (''readOnly'', plainS ''boolean'' '''')] [''volumeID''],
     od_Dependencies = []\<rparr>"

definition schema_core_AzureDiskVolumeSource :: "(string \<Rightarrow> 'r) \<Rightarrow> 'r openapi_definition" where [openapi_data]:
  "schema_core_AzureDiskVolumeSource ref = \<lparr>
     od_Schema = objectS [
     (''diskName'', withDefault (JStr '''') (plainS ''string'' '''')),
     (''diskURI'', withDefault (JStr '''') (plainS ''string'' '''')),
     (''cachingMode'', withDefault (JStr ''ReadWrite'') (withEnum [JStr ''None'', JStr ''ReadOnly'', JStr ''ReadWrite''] (plainS ''string'' ''''))),
     (''fsType'', withDefault (JStr ''ext4'') (plainS ''string'' '''')),
     (''readOnly'', withDefault (JBool False) (plainS ''boolean'' '''')),
     (''kind'', withDefault (JStr ''Shared'') (withEnum [JStr ''Dedicated'', JStr ''Managed'', JStr ''Shared''] (plainS ''string'' '''')))] [''diskName'', ''diskURI''],
     od_Dependencies = []\<rparr>"

definition schema_core_AzureFileVolumeSource :: "(string \<Rightarrow> 'r) \<Rightarrow> 'r openapi_definition" where [openapi_data]:
  "schema_core_AzureFileVolumeSource ref = \<lparr>
     od_Schema = objectS [
     (''secretName'', withDefault (JStr '''') (plainS ''string'' '''')),
     (''shareName'', withDefault (JStr '''') (plainS ''string'' '''')),
     (''readOnly'', plainS ''boolean'' '''')] [''secretName'', ''shareName''],
     od_Dependencies = []\<rparr>"

definition schema_core_CSIVolumeSource :: "(string \<Rightarrow> 'r) \<Rightarrow> 'r openapi_definition" where [openapi_data]:
  "schema_core_CSIVolumeSource ref = \<lparr>
     od_Schema = objectS [
     (''driver'', withDefault (JStr '''') (plainS ''string'' '''')),
     (''readOnly'', plainS ''boolean'' ''''),
     (''fsType'', plainS ''string'' ''''),
     (''volumeAttributes'', mapS (withDefault (JStr '''') (plainS ''string'' ''''))),
     (''nodePublishSecretRef'', refS (ref ''k8s.io/api/core/v1.LocalObjectReference''))] [''driver''],
     od_Dependencies = [''k8s.io/api/core/v1.LocalObjectReference'']\<rparr>"

definition schema_core_CephFSVolumeSource :: "(string \<Rightarrow> 'r) \<Rightarrow> 'r openapi_definition" where [openapi_data]:
  "schema_core_CephFSVolumeSource ref = \<lparr>
     od_Schema = objectS [
     (''monitors'', withExtensions [(''x-kubernetes-list-type'', JStr ''atomic'')]
       (arrayS (withDefault (JStr '''') (plainS ''string'' '''')))),
     (''path'', plainS ''string'' ''''),
     (''user'', plainS ''string'' ''''),
     (''secretFile'', plainS ''string'' ''''),
     (''secretRef'', refS (ref ''k8s.io/api/core/v1.LocalObjectReference'')),
     (''readOnly'', plainS ''boolean'' '''')] [''monitors''],
     od_Dependencies = [''k8s.io/api/core/v1.LocalObjectReference'']\<rparr>"

definition schema_core_CinderVolumeSource :: "(string \<Rightarrow> 'r) \<Rightarrow> 'r openapi_definition" where [openapi_data]:
  "schema_core_CinderVolumeSource ref = \<lparr>
     od_Schema = objectS [
     (''volumeID'', withDefault (JStr '''') (plainS ''string'' '''')),
     (''fsType'', plainS ''string'' ''''),
     (''readOnly'', plainS ''boolean'' ''''),
     (''secretRef'', refS (ref ''k8s.io/api/core/v1.LocalObjectReference''))] [''volumeID''],
     od_Dependencies = [''k8s.io/api/core/v1.LocalObjectReference'']\<rparr>"

definition schema_core_ClusterTrustBundleProjection :: "(string \<Rightarrow> 'r) \<Rightarrow> 'r openapi_definition" where [openapi_data]:
  "schema_core_ClusterTrustBundleProjection ref = \<lparr>
     od_Schema = objectS [
     (''name'', plainS ''string'' ''''),
     (''signerName'', plainS ''string'' ''''),
     (''labelSelector'', refS (ref ''k8s.io/apimachinery/pkg/apis/meta/v1.LabelSelector'')),
     (''optional'', plainS ''boolean'' ''''),
     (''path'', withDefault (JStr '''') (plainS ''string'' ''''))] [''path''],
     od_Dependencies = [''k8s.io/apimachinery/pkg/apis/meta/v1.LabelSelector'']\<rparr>"

definition schema_core_ConfigMapProjection :: "(string \<Rightarrow> 'r) \<Rightarrow> 'r openapi_definition" where [openapi_data]:
  "schema_core_ConfigMapProjection ref = \<lparr>
     od_Schema = objectS [
     (''name'', withDefault (JStr '''') (plainS ''string'' '''')),
     (''items'', withExtensions [(''x-kubernetes-list-type'', JStr ''atomic'')]
       (arrayS (withDefault (JObj []) (refS (ref ''k8s.io/api/core/v1.KeyToPath''))))),
     (''optional'', plainS ''boolean'' '''')] [],
     od_Dependencies = [''k8s.io/api/core/v1.KeyToPath'']\<rparr>"

definition schema_core_ConfigMapVolumeSource :: "(string \<Rightarrow> 'r) \<Rightarrow> 'r openapi_definition" where [openapi_data]:
  "schema_core_ConfigMapVolumeSource ref = \<lparr>
     od_Schema = objectS [
     (''name'', withDefault (JStr '''') (plainS ''string'' '''')),
     (''items'', withExtensions [(''x-kubernetes-list-type'', JStr ''atomic'')]
       (arrayS (withDefault (JObj []) (refS (ref ''k8s.io/api/core/v1.KeyToPath''))))),
     (''defaultMode'', plainS ''integer'' ''int32''),
     (''optional'', plainS ''boolean'' '''')] [],
     od_Dependencies = [''k8s.io/api/core/v1.KeyToPath'']\<rparr>"

definition schema_core_DownwardAPIProjection :: "(string \<Rightarrow> 'r) \<Rightarrow> 'r openapi_definition" where [openapi_data]:
  "schema_core_DownwardAPIProjection ref = \<lparr>
     od_Schema = objectS [
     (''items'', withExtensions [(''x-kubernetes-list-type'', JStr ''atomic'')]
       (arrayS (withDefault (JObj []) (refS (ref ''k8s.io/api/core/v1.DownwardAPIVolumeFile'')))))] [],
     od_Dependencies = [''k8s.io/api/core/v1.DownwardAPIVolumeFile'']\<rparr>"

definition schema_core_DownwardAPIVolumeFile :: "(string \<Rightarrow> 'r) \<Rightarrow> 'r openapi_definition" where [openapi_data]:
  "schema_core_DownwardAPIVolumeFile ref = \<lparr>
     od_Schema = objectS [
     (''path'', withDefault (JStr '''') (plainS ''string'' '''')),
     (''fieldRef'', refS (ref ''k8s.io/api/core/v1.ObjectFieldSelector'')),
     (''resourceFieldRef'', refS (ref ''k8s.io/api/core/v1.ResourceFieldSelector'')),
     (''mode'', plainS ''integer'' ''int32'')] [''path''],
     od_Dependencies = [''k8s.io/api/core/v1.ObjectFieldSelector'', ''k8s.io/api/core/v1.ResourceFieldSelector'']\<rparr>"

definition schema_core_DownwardAPIVolumeSource :: "(string \<Rightarrow> 'r) \<Rightarrow> 'r openapi_definition" where [openapi_data]:
  "schema_core_DownwardAPIVolumeSource ref = \<lparr>
     od_Schema = objectS [
     (''items'', withExtensions [(''x-kubernetes-list-type'', JStr ''atomic'')]
       (arrayS (withDefault (JObj []) (refS (ref ''k8s.io/api/core/v1.DownwardAPIVolumeFile''))))),
     (''defaultMode'', plainS ''integer'' ''int32'')] [],
     od_Dependencies = [''k8s.io/api/core/v1.DownwardAPIVolumeFile'']\<rparr>"

definition schema_core_EmptyDirVolumeSource :: "(string \<Rightarrow> 'r) \<Rightarrow> 'r openapi_definition" where [openapi_data]:
  "schema_core_EmptyDirVolumeSource ref = \<lparr>
     od_Schema = objectS [
     (''medium'', plainS ''string'' ''''),
     (''sizeLimit'', refS (ref ''k8s.io/apimachinery/pkg/api/resource.Quantity''))] [],
     od_Dependencies = [''k8s.io/apimachinery/pkg/api/resource.Quantity'']\<rparr>"

definition schema_core_EphemeralVolumeSource :: "(string \<Rightarrow> 'r) \<Rightarrow> 'r openapi_definition" where [openapi_data]:
  "schema_core_EphemeralVolumeSource ref = \<lparr>
     od_Schema = objectS [
     (''volumeClaimTemplate'', refS (ref ''k8s.io/api/core/v1.PersistentVolumeClaimTemplate''))] [],
     od_Dependencies = [''k8s.io/api/core/v1.PersistentVolumeClaimTemplate'']\<rparr>"

definition schema_core_FCVolumeSource :: "(string \<Rightarrow> 'r) \<Rightarrow> 'r openapi_definition" where [openapi_data]:
  "schema_core_FCVolumeSource ref = \<lparr>
     od_Schema = objectS [
     (''targetWWNs'', withExtensions [(''x-kubernetes-list-type'', JStr ''atomic'')]
       (arrayS (withDefault (JStr '''') (plainS ''string'' '''')))),
     (''lun'', plainS ''integer'' ''int32''),
     (''fsType'', plainS ''string'' ''''),
     (''readOnly'', plainS ''boolean'' ''''),
     (''wwids'', withExtensions [(''x-kubernetes-list-type'', JStr ''atomic'')]
       (arrayS (withDefault (JStr '''') (plainS ''string'' ''''))))] [],
     od_Dependencies = []\<rparr>"

definition schema_core_FlexVolumeSource :: "(string \<Rightarrow> 'r) \<Rightarrow> 'r openapi_definition" where [openapi_data]:
  "schema_core_FlexVolumeSource ref = \<lparr>
     od_Schema = objectS [
     (''driver'', withDefault (JStr '''') (plainS ''string'' '''')),
     (''fsType'', plainS ''string'' ''''),
     (''secretRef'', refS (ref ''k8s.io/api/core/v1.LocalObjectReference'')),
     (''readOnly'', plainS ''boolean'' ''''),
     (''options'', mapS (withDefault (JStr '''') (plainS ''string'' '''')))] [''driver''],
     od_Dependencies = [''k8s.io/api/core/v1.LocalObjectReference'']\<rparr>"

definition schema_core_FlockerVolumeSource :: "(string \<Rightarrow> 'r) \<Rightarrow> 'r openapi_definition" where [openapi_data]:
  "schema_core_FlockerVolumeSource ref = \<lparr>
     od_Schema = objectS [
     (''datasetName'', plainS ''string'' ''''),
     (''datasetUUID'', plainS ''string'' '''')] [],
     od_Dependencies = []\<rparr>"

definition schema_core_GCEPersistentDiskVolumeSource :: "(string \<Rightarrow> 'r) \<Rightarrow> 'r openapi_definition" where [openapi_data]:
  "schema_core_GCEPersistentDiskVolumeSource ref = \<lparr>
     od_Schema = objectS [
     (''pdName'', withDefault (JStr '''') (plainS ''string'' '''')),
     (''fsType'', plainS ''string'' ''''),
     (''partition'', plainS ''integer'' ''int32''),
     (''readOnly'', plainS ''boolean'' '''')] [''pdName''],
     od_Dependencies = []\<rparr>"

definition schema_core_GitRepoVolumeSource :: "(string \<Rightarrow> 'r) \<Rightarrow> 'r openapi_definition" where [openapi_data]:
  "schema_core_GitRepoVolumeSource ref = \<lparr>
     od_Schema = objectS [
     (''repository'', withDefault (JStr '''') (plainS ''string'' '''')),
     (''revision'', plainS ''string'' ''''),
     (''directory'', plainS ''string'' '''')] [''repository''],
     od_Dependencies = []\<rparr>"

definition schema_core_GlusterfsVolumeSource :: "(string \<Rightarrow> 'r) \<Rightarrow> 'r openapi_definition" where [openapi_data]:
  "schema_core_GlusterfsVolumeSource ref = \<lparr>
     od_Schema = objectS [
     (''endpoints'', withDefault (JStr '''') (plainS ''string'' '''')),
     (''path'', withDefault (JStr '''') (plainS ''string'' '''')),
     (''readOnly'', plainS ''boolean'' '''')] [''endpoints'', ''path''],
     od_Dependencies = []\<rparr>"

definition schema_core_HostPathVolumeSource :: "(string \<Rightarrow> 'r) \<Rightarrow> 'r openapi_definition" where [openapi_data]:
  "schema_core_HostPathVolumeSource ref = \<lparr>
     od_Schema = objectS [
     (''path'', withDefault (JStr '''') (plainS ''string'' '''')),
     (''type'', withEnum [JStr '''', JStr ''BlockDevice'', JStr ''CharDevice'', JStr ''Directory'', JStr ''DirectoryOrCreate'', JStr ''File'', JStr ''FileOrCreate'', JStr ''Socket''] (plainS ''string'' ''''))] [''path''],
     od_Dependencies = []\<rparr>"

definition schema_core_ISCSIVolumeSource :: "(string \<Rightarrow> 'r) \<Rightarrow> 'r openapi_definition" where [openapi_data]:
  "schema_core_ISCSIVolumeSource ref = \<lparr>
     od_Schema = objectS [
     (''targetPortal'', withDefault (JStr '''') (plainS ''string'' '''')),
     (''iqn'', withDefault (JStr '''') (plainS ''string'' '''')),
     (''lun'', withDefault (JNum ''0'') (plainS ''integer'' ''int32'')),
     (''iscsiInterface'', withDefault (JStr ''default'') (plainS ''string'' '''')),
     (''fsType'', plainS ''string'' ''''),
     (''readOnly'', plainS ''boolean'' ''''),
     (''portals'', withExtensions [(''x-kubernetes-list-type'', JStr ''atomic'')]
       (arrayS (withDefault (JStr '''') (plainS ''string'' '''')))),
     (''chapAuthDiscovery'', plainS ''boolean'' ''''),
     (''chapAuthSession'', plainS ''boolean'' ''''),
     (''secretRef'', refS (ref ''k8s.io/api/core/v1.LocalObjectReference'')),
     (''initiatorName'', plainS ''string'' '''')] [''targetPortal'', ''iqn'', ''lun''],
     od_Dependencies = [''k8s.io/api/core/v1.LocalObjectReference'']\<rparr>"

definition schema_core_ImageVolumeSource :: "(string \<Rightarrow> 'r) \<Rightarrow> 'r openapi_definition" where [openapi_data]:
  "schema_core_ImageVolumeSource ref = \<lparr>
     od_Schema = objectS [
     (''reference'', plainS ''string'' ''''),
     (''pullPolicy'', withEnum [JStr ''Always'', JStr ''IfNotPresent'', JStr ''Never''] (plainS ''string'' ''''))] [],
     od_Dependencies = []\<rparr>"

definition schema_core_KeyToPath :: "(string \<Rightarrow> 'r) \<Rightarrow> 'r openapi_definition" where [openapi_data]:
  "schema_core_KeyToPath ref = \<lparr>
     od_Schema = objectS [
     (''key'', withDefault (JStr '''') (plainS ''string'' '''')),
     (''path'', withDefault (JStr '''') (plainS ''string'' '''')),
     (''mode'', plainS ''integer'' ''int32'')] [''key'', ''path''],
     od_Dependencies = []\<rparr>"

definition schema_core_LocalObjectReference :: "(string \<Rightarrow> 'r) \<Rightarrow> 'r openapi_definition" where [openapi_data]:
  "schema_core_LocalObjectReference ref = \<lparr>
     od_Schema = withExtensions [(''x-kubernetes-map-type'', JStr ''atomic'')]
       (objectS [
     (''name'', withDefault (JStr '''') (plainS ''string'' ''''))] []),
     od_Dependencies = []\<rparr>"

definition schema_core_NFSVolumeSource :: "(string \<Rightarrow> 'r) \<Rightarrow> 'r openapi_definition" where [openapi_data]:
  "schema_core_NFSVolumeSource ref = \<lparr>
     od_Schema = objectS [
     (''server'', withDefault (JStr '''') (plainS ''string'' '''')),
     (''path'', withDefault (JStr '''') (plainS ''string'' '''')),
     (''readOnly'', plainS ''boolean'' '''')] [''server'', ''path''],
     od_Dependencies = []\<rparr>"

definition schema_core_ObjectFieldSelector :: "(string \<Rightarrow> 'r) \<Rightarrow> 'r openapi_definition" where [openapi_data]:
  "schema_core_ObjectFieldSelector ref = \<lparr>
     od_Schema = withExtensions [(''x-kubernetes-map-type'', JStr ''atomic'')]
       (objectS [
     (''apiVersion'', plainS ''string'' ''''),
     (''fieldPath'', withDefault (JStr '''') (plainS ''string'' ''''))] [''fieldPath'']),
     od_Dependencies = []\<rparr>"

definition schema_core_PersistentVolumeClaimSpec :: "(string \<Rightarrow> 'r) \<Rightarrow> 'r openapi_definition" where [openapi_data]:
  "schema_core_PersistentVolumeClaimSpec ref = \<lparr>
     od_Schema = objectS [
     (''accessModes'', withExtensions [(''x-kubernetes-list-type'', JStr ''atomic'')]
       (arrayS (withDefault (JStr '''') (plainS ''string'' '''')))),
     (''selector'', refS (ref ''k8s.io/apimachinery/pkg/apis/meta/v1.LabelSelector'')),
     (''resources'', withDefault (JObj []) (refS (ref ''k8s.io/api/core/v1.VolumeResourceRequirements''))),
     (''volumeName'', plainS ''string'' ''''),
     (''storageClassName'', plainS ''string'' ''''),
     (''volumeMode'', withEnum [JStr ''Block'', JStr ''Filesystem''] (plainS ''string'' '''')),
     (''dataSource'', refS (ref ''k8s.io/api/core/v1.TypedLocalObjectReference'')),
     (''dataSourceRef'', refS (ref ''k8s.io/api/core/v1.TypedObjectReference'')),
     (''volumeAttributesClassName'', plainS ''string'' '''')] [],
     od_Dependencies = [''k8s.io/api/core/v1.TypedLocalObjectReference'', ''k8s.io/api/core/v1.TypedObjectReference'', ''k8s.io/api/core/v1.VolumeResourceRequirements'', ''k8s.io/apimachinery/pkg/apis/meta/v1.LabelSelector'']\<rparr>"

definition schema_core_PersistentVolumeClaimTemplate :: "(string \<Rightarrow> 'r) \<Rightarrow> 'r openapi_definition" where [openapi_data]:
  "schema_core_PersistentVolumeClaimTemplate ref = \<lparr>
     od_Schema = objectS [
     (''metadata'', withDefault (JObj []) (refS (ref ''k8s.io/apimachinery/pkg/apis/meta/v1.ObjectMeta''))),
     (''spec'', withDefault (JObj []) (refS (ref ''k8s.io/api/core/v1.PersistentVolumeClaimSpec'')))] [''spec''],
     od_Dependencies = [''k8s.io/api/core/v1.PersistentVolumeClaimSpec'', ''k8s.io/apimachinery/pkg/apis/meta/v1.ObjectMeta'']\<rparr>"

definition schema_core_PersistentVolumeClaimVolumeSource :: "(string \<Rightarrow> 'r) \<Rightarrow> 'r openapi_definition" where [openapi_data]:
  "schema_core_PersistentVolumeClaimVolumeSource ref = \<lparr>
     od_Schema = objectS [
     (''claimName'', withDefault (JStr '''') (plainS ''string'' '''')),
     (''readOnly'', plainS ''boolean'' '''')] [''claimName''],
     od_Dependencies = []\<rparr>"

definition schema_core_PhotonPersistentDiskVolumeSource :: "(string \<Rightarrow> 'r) \<Rightarrow> 'r openapi_definition" where [openapi_data]:
  "schema_core_PhotonPersistentDiskVolumeSource ref = \<lparr>
     od_Schema = objectS [
     (''pdID'', withDefault (JStr '''') (plainS ''string'' '''')),
     (''fsType'', plainS ''string'' '''')] [''pdID''],
     od_Dependencies = []\<rparr>"

definition schema_core_PodCertificateProjection :: "(string \<Rightarrow> 'r) \<Rightarrow> 'r openapi_definition" where [openapi_data]:
  "schema_core_PodCertificateProjection ref = \<lparr>
     od_Schema = objectS [
     (''signerName'', plainS ''string'' ''''),
     (''keyType'', plainS ''string'' ''''),
     (''maxExpirationSeconds'', plainS ''integer'' ''int32''),
     (''credentialBundlePath'', plainS ''string'' ''''),
     (''keyPath'', plainS ''string'' ''''),
     (''certificateChainPath'', plainS ''string'' '''')] [],
     od_Dependencies = []\<rparr>"

definition schema_core_PortworxVolumeSource :: "(string \<Rightarrow> 'r) \<Rightarrow> 'r openapi_definition" where [openapi_data]:
  "schema_core_PortworxVolumeSource ref = \<lparr>
     od_Schema = objectS [
     (''volumeID'', withDefault (JStr '''') (plainS ''string'' '''')),
     (''fsType'', plainS ''string'' ''''),
     (''readOnly'', plainS ''boolean'' '''')] [''volumeID''],
     od_Dependencies = []\<rparr>"

definition schema_core_ProjectedVolumeSource :: "(string \<Rightarrow> 'r) \<Rightarrow> 'r openapi_definition" where [openapi_data]:
  "schema_core_ProjectedVolumeSource ref = \<lparr>
     od_Schema = objectS [
     (''sources'', withExtensions [(''x-kubernetes-list-type'', JStr ''atomic'')]
       (arrayS (withDefault (JObj []) (refS (ref ''k8s.io/api/core/v1.VolumeProjection''))))),
     (''defaultMode'', plainS ''integer'' ''int32'')] [],
     od_Dependencies = [''k8s.io/api/core/v1.VolumeProjection'']\<rparr>"

definition schema_core_QuobyteVolumeSource :: "(string \<Rightarrow> 'r) \<Rightarrow> 'r openapi_definition" where [openapi_data]:
  "schema_core_QuobyteVolumeSource ref = \<lparr>
     od_Schema = objectS [
     (''registry'', withDefault (JStr '''') (plainS ''string'' '''')),
     (''volume'', withDefault (JStr '''') (plainS ''string'' '''')),
     (''readOnly'', plainS ''boolean'' ''''),
     (''user'', plainS ''string'' ''''),
     (''group'', plainS ''string'' ''''),
     (''tenant'', plainS ''string'' '''')] [''registry'', ''volume''],
     od_Dependencies = []\<rparr>"

definition schema_core_RBDVolumeSource :: "(string \<Rightarrow> 'r) \<Rightarrow> 'r openapi_definition" where [openapi_data]:
  "schema_core_RBDVolumeSource ref = \<lparr>
     od_Schema = objectS [
     (''monitors'', withExtensions [(''x-kubernetes-list-type'', JStr ''atomic'')]
       (arrayS (withDefault (JStr '''') (plainS ''string'' '''')))),
     (''image'', withDefault (JStr '''') (plainS ''string'' '''')),
     (''fsType'', plainS ''string'' ''''),
     (''pool'', withDefault (JStr ''rbd'') (plainS ''string'' '''')),
     (''user'', withDefault (JStr ''admin'') (plainS ''string'' '''')),
     (''keyring'', withDefault (JStr ''/etc/ceph/keyring'') (plainS ''string'' '''')),
     (''secretRef'', refS (ref ''k8s.io/api/core/v1.LocalObjectReference'')),
     (''readOnly'', plainS ''boolean'' '''')] [''monitors'', ''image''],
     od_Dependencies = [''k8s.io/api/core/v1.LocalObjectReference'']\<rparr>"

definition schema_core_ResourceFieldSelector :: "(string \<Rightarrow> 'r) \<Rightarrow> 'r openapi_definition" where [openapi_data]:
  "schema_core_ResourceFieldSelector ref = \<lparr>
     od_Schema = withExtensions [(''x-kubernetes-map-type'', JStr ''atomic'')]
       (objectS [
     (''containerName'', plainS ''string'' ''''),
     (''resource'', withDefault (JStr '''') (plainS ''string'' '''')),
     (''divisor'', refS (ref ''k8s.io/apimachinery/pkg/api/resource.Quantity''))] [''resource'']),
     od_Dependencies = [''k8s.io/apimachinery/pkg/api/resource.Quantity'']\<rparr>"

definition schema_core_ScaleIOVolumeSource :: "(string \<Rightarrow> 'r) \<Rightarrow> 'r openapi_definition" where [openapi_data]:
  "schema_core_ScaleIOVolumeSource ref = \<lparr>
     od_Schema = objectS [
     (''gateway'', withDefault (JStr '''') (plainS ''string'' '''')),
     (''system'', withDefault (JStr '''') (plainS ''string'' '''')),
     (''secretRef'', refS (ref ''k8s.io/api/core/v1.LocalObjectReference'')),
     (''sslEnabled'', plainS ''boolean'' ''''),
     (''protectionDomain'', plainS ''string'' ''''),
     (''storagePool'', plainS ''string'' ''''),
     (''storageMode'', withDefault (JStr ''ThinProvisioned'') (plainS ''string'' '''')),
     (''volumeName'', plainS ''string'' ''''),
     (''fsType'', withDefault (JStr ''xfs'') (plainS ''string'' '''')),
     (''readOnly'', plainS ''boolean'' '''')] [''gateway'', ''system'', ''secretRef''],
     od_Dependencies = [''k8s.io/api/core/v1.LocalObjectReference'']\<rparr>"

definition schema_core_SecretProjection :: "(string \<Rightarrow> 'r) \<Rightarrow> 'r openapi_definition" where [openapi_data]:
  "schema_core_SecretProjection ref = \<lparr>
     od_Schema = objectS [
     (''name'', withDefault (JStr '''') (plainS ''string'' '''')),
     (''items'', withExtensions [(''x-kubernetes-list-type'', JStr ''atomic'')]
       (arrayS (withDefault (JObj []) (refS (ref ''k8s.io/api/core/v1.KeyToPath''))))),
     (''optional'', plainS ''boolean'' '''')] [],
     od_Dependencies = [''k8s.io/api/core/v1.KeyToPath'']\<rparr>"

definition schema_core_SecretVolumeSource :: "(string \<Rightarrow> 'r) \<Rightarrow> 'r openapi_definition" where [openapi_data]:
  "schema_core_SecretVolumeSource ref = \<lparr>
     od_Schema = objectS [
     (''secretName'', plainS ''string'' ''''),
     (''items'', withExtensions [(''x-kubernetes-list-type'', JStr ''atomic'')]
       (arrayS (withDefault (JObj []) (refS (ref ''k8s.io/api/core/v1.KeyToPath''))))),
     (''defaultMode'', plainS ''integer'' ''int32''),
     (''optional'', plainS ''boolean'' '''')] [],
     od_Dependencies = [''k8s.io/api/core/v1.KeyToPath'']\<rparr>"

definition schema_core_ServiceAccountTokenProjection :: "(string \<Rightarrow> 'r) \<Rightarrow> 'r openapi_definition" where [openapi_data]:
  "schema_core_ServiceAccountTokenProjection ref = \<lparr>
     od_Schema = objectS [
     (''audience'', plainS ''string'' ''''),
     (''expirationSeconds'', plainS ''integer'' ''int64''),
     (''path'', withDefault (JStr '''') (plainS ''string'' ''''))] [''path''],
     od_Dependencies = []\<rparr>"

definition schema_core_StorageOSVolumeSource :: "(string \<Rightarrow> 'r) \<Rightarrow> 'r openapi_definition" where [openapi_data]:
  "schema_core_StorageOSVolumeSource ref = \<lparr>
     od_Schema = objectS [
     (''volumeName'', plainS ''string'' ''''),
     (''volumeNamespace'', plainS ''string'' ''''),
     (''fsType'', plainS ''string'' ''''),
     (''readOnly'', plainS ''boolean'' ''''),
     (''secretRef'', refS (ref ''k8s.io/api/core/v1.LocalObjectReference''))] [],
     od_Dependencies = [''k8s.io/api/core/v1.LocalObjectReference'']\<rparr>"

definition schema_core_TypedLocalObjectReference :: "(string \<Rightarrow> 'r) \<Rightarrow> 'r openapi_definition" where [openapi_data]:
  "schema_core_TypedLocalObjectReference ref = \<lparr>
     od_Schema = withExtensions [(''x-kubernetes-map-type'', JStr ''atomic'')]
       (objectS [
     (''apiGroup'', plainS ''string'' ''''),
     (''kind'', withDefault (JStr '''') (plainS ''string'' '''')),
     (''name'', withDefault (JStr '''') (plainS ''string'' ''''))] [''kind'', ''name'']),
     od_Dependencies = []\<rparr>"

definition schema_core_TypedObjectReference :: "(string \<Rightarrow> 'r) \<Rightarrow> 'r openapi_definition" where [openapi_data]:
  "schema_core_TypedObjectReference ref = \<lparr>
     od_Schema = objectS [
     (''apiGroup'', plainS ''string'' ''''),
     (''kind'', withDefault (JStr '''') (plainS ''string'' '''')),
     (''name'', withDefault (JStr '''') (plainS ''string'' '''')),
     (''namespace'', plainS ''string'' '''')] [''kind'', ''name''],
     od_Dependencies = []\<rparr>"

definition schema_core_Volume_properties1 :: "(string \<Rightarrow> 'r) \<Rightarrow> (string \<times> 'r schema) list" where [openapi_data]:
  "schema_core_Volume_properties1 ref = [
     (''name'', withDefault (JStr '''') (plainS ''string'' '''')),
     (''hostPath'', refS (ref ''k8s.io/api/core/v1.HostPathVolumeSource'')),
     (''emptyDir'', refS (ref ''k8s.io/api/core/v1.EmptyDirVolumeSource'')),
     (''gcePersistentDisk'', refS (ref ''k8s.io/api/core/v1.GCEPersistentDiskVolumeSource'')),
     (''awsElasticBlockStore'', refS (ref ''k8s.io/api/core/v1.AWSElasticBlockStoreVolumeSource'')),
     (''gitRepo'', refS (ref ''k8s.io/api/core/v1.GitRepoVolumeSource'')),
     (''secret'', refS (ref ''k8s.io/api/core/v1.SecretVolumeSource'')),
     (''nfs'', refS (ref ''k8s.io/api/core/v1.NFSVolumeSource'')),
     (''iscsi'', refS (ref ''k8s.io/api/core/v1.ISCSIVolumeSource'')),
     (''glusterfs'', refS (ref ''k8s.io/api/core/v1.GlusterfsVolumeSource'')),
     (''persistentVolumeClaim'', refS (ref ''k8s.io/api/core/v1.PersistentVolumeClaimVolumeSource'')),
     (''rbd'', refS (ref ''k8s.io/api/core/v1.RBDVolumeSource'')),
     (''flexVolume'', refS (ref ''k8s.io/api/core/v1.FlexVolumeSource'')),
     (''cinder'', refS (ref ''k8s.io/api/core/v1.CinderVolumeSource'')),
     (''cephfs'', refS (ref ''k8s.io/api/core/v1.CephFSVolumeSource'')),
     (''flocker'', refS (ref ''k8s.io/api/core/v1.FlockerVolumeSource'')),
     (''downwardAPI'', refS (ref ''k8s.io/api/core/v1.DownwardAPIVolumeSource'')),
     (''fc'', refS (ref ''k8s.io/api/core/v1.FCVolumeSource'')),
     (''azureFile'', refS (ref ''k8s.io/api/core/v1.AzureFileVolumeSource'')),
     (''configMap'', refS (ref ''k8s.io/api/core/v1.ConfigMapVolumeSource'')),
     (''vsphereVolume'', refS (ref ''k8s.io/api/core/v1.VsphereVirtualDiskVolumeSource'')),
     (''quobyte'', refS (ref ''k8s.io/api/core/v1.QuobyteVolumeSource'')),
     (''azureDisk'', refS (ref ''k8s.io/api/core/v1.AzureDiskVolumeSource''))]"

definition schema_core_Volume_properties2 :: "(string \<Rightarrow> 'r) \<Rightarrow> (string \<times> 'r schema) list" where [openapi_data]:
  "schema_core_Volume_properties2 ref = [
     (''photonPersistentDisk'', refS (ref ''k8s.io/api/core/v1.PhotonPersistentDiskVolumeSource'')),
     (''projected'', refS (ref ''k8s.io/api/core/v1.ProjectedVolumeSource'')),
     (''portworxVolume'', refS (ref ''k8s.io/api/core/v1.PortworxVolumeSource'')),
     (''scaleIO'', refS (ref ''k8s.io/api/core/v1.ScaleIOVolumeSource'')),
     (''storageos'', refS (ref ''k8s.io/api/core/v1.StorageOSVolumeSource'')),
     (''csi'', refS (ref ''k8s.io/api/core/v1.CSIVolumeSource'')),
     (''ephemeral'', refS (ref ''k8s.io/api/core/v1.EphemeralVolumeSource'')),
     (''image'', refS (ref ''k8s.io/api/core/v1.ImageVolumeSource''))]"

definition schema_core_Volume :: "(string \<Rightarrow> 'r) \<Rightarrow> 'r openapi_definition" where [openapi_data]:
  "schema_core_Volume ref = \<lparr>
     od_Schema = objectS (schema_core_Volume_properties1 ref @ schema_core_Volume_properties2 ref) [''name''],
     od_Dependencies = [''k8s.io/api/core/v1.AWSElasticBlockStoreVolumeSource'', ''k8s.io/api/core/v1.AzureDiskVolumeSource'', ''k8s.io/api/core/v1.AzureFileVolumeSource'', ''k8s.io/api/core/v1.CSIVolumeSource'', ''k8s.io/api/core/v1.CephFSVolumeSource'', ''k8s.io/api/core/v1.CinderVolumeSource'', ''k8s.io/api/core/v1.ConfigMapVolumeSource'', ''k8s.io/api/core/v1.DownwardAPIVolumeSource'', ''k8s.io/api/core/v1.EmptyDirVolumeSource'', ''k8s.io/api/core/v1.EphemeralVolumeSource'', ''k8s.io/api/core/v1.FCVolumeSource'', ''k8s.io/api/core/v1.FlexVolumeSource'', ''k8s.io/api/core/v1.FlockerVolumeSource'', ''k8s.io/api/core/v1.GCEPersistentDiskVolumeSource'', ''k8s.io/api/core/v1.GitRepoVolumeSource'', ''k8s.io/api/core/v1.GlusterfsVolumeSource'', ''k8s.io/api/core/v1.HostPathVolumeSource'', ''k8s.io/api/core/v1.ISCSIVolumeSource'', ''k8s.io/api/core/v1.ImageVolumeSource'', ''k8s.io/api/core/v1.NFSVolumeSource'', ''k8s.io/api/core/v1.PersistentVolumeClaimVolumeSource'', ''k8s.io/api/core/v1.PhotonPersistentDiskVolumeSource'', ''k8s.io/api/core/v1.PortworxVolumeSource'', ''k8s.io/api/core/v1.ProjectedVolumeSource'', ''k8s.io/api/core/v1.QuobyteVolumeSource'', ''k8s.io/api/core/v1.RBDVolumeSource'', ''k8s.io/api/core/v1.ScaleIOVolumeSource'', ''k8s.io/api/core/v1.SecretVolumeSource'', ''k8s.io/api/core/v1.StorageOSVolumeSource'', ''k8s.io/api/core/v1.VsphereVirtualDiskVolumeSource'']\<rparr>"

definition schema_core_VolumeProjection :: "(string \<Rightarrow> 'r) \<Rightarrow> 'r openapi_definition" where [openapi_data]:
  "schema_core_VolumeProjection ref = \<lparr>
     od_Schema = objectS [
     (''secret'', refS (ref ''k8s.io/api/core/v1.SecretProjection'')),
     (''downwardAPI'', refS (ref ''k8s.io/api/core/v1.DownwardAPIProjection'')),
     (''configMap'', refS (ref ''k8s.io/api/core/v1.ConfigMapProjection'')),
     (''serviceAccountToken'', refS (ref ''k8s.io/api/core/v1.ServiceAccountTokenProjection'')),
     (''clusterTrustBundle'', refS (ref ''k8s.io/api/core/v1.ClusterTrustBundleProjection'')),
     (''podCertificate'', refS (ref ''k8s.io/api/core/v1.PodCertificateProjection''))] [],
     od_Dependencies = [''k8s.io/api/core/v1.ClusterTrustBundleProjection'', ''k8s.io/api/core/v1.ConfigMapProjection'', ''k8s.io/api/core/v1.DownwardAPIProjection'', ''k8s.io/api/core/v1.PodCertificateProjection'', ''k8s.io/api/core/v1.SecretProjection'', ''k8s.io/api/core/v1.ServiceAccountTokenProjection'']\<rparr>"

definition schema_core_VolumeResourceRequirements :: "(string \<Rightarrow> 'r) \<Rightarrow> 'r openapi_definition" where [openapi_data]:
  "schema_core_VolumeResourceRequirements ref = \<lparr>
     od_Schema = objectS [
     (''limits'', mapS (refS (ref ''k8s.io/apimachinery/pkg/api/resource.Quantity''))),
     (''requests'', mapS (refS (ref ''k8s.io/apimachinery/pkg/api/resource.Quantity'')))] [],
     od_Dependencies = [''k8s.io/apimachinery/pkg/api/resource.Quantity'']\<rparr>"

definition schema_core_VsphereVirtualDiskVolumeSource :: "(string \<Rightarrow> 'r) \<Rightarrow> 'r openapi_definition" where [openapi_data]:
  "schema_core_VsphereVirtualDiskVolumeSource ref = \<lparr>
     od_Schema = objectS [
     (''volumePath'', withDefault (JStr '''') (plainS ''string'' '''')),
     (''fsType'', plainS ''string'' ''''),
     (''storagePolicyName'', plainS ''string'' ''''),
     (''storagePolicyID'', plainS ''string'' '''')] [''volumePath''],
     od_Dependencies = []\<rparr>"

section \<open>The declarations\<close>

definition core_AWSElasticBlockStoreVolumeSource_fields :: "go_field list" where [openapi_data]:
  "core_AWSElasticBlockStoreVolumeSource_fields = [
     goField ''VolumeID'' (GString) ''volumeID'' False False,
     goField ''FSType'' (GString) ''fsType'' True True,
     goField ''Partition'' (GInt32) ''partition'' True True,
     goField ''ReadOnly'' (GBool) ''readOnly'' True True]"

definition core_AzureDiskVolumeSource_fields :: "go_field list" where [openapi_data]:
  "core_AzureDiskVolumeSource_fields = [
     goField ''DiskName'' (GString) ''diskName'' False False,
     goField ''DataDiskURI'' (GString) ''diskURI'' False False,
     defaultsTo (JStr ''ReadWrite'') (goField ''CachingMode'' (GPtr (core_AzureDataDiskCachingMode)) ''cachingMode'' True True),
     defaultsTo (JStr ''ext4'') (goField ''FSType'' (GPtr (GString)) ''fsType'' True True),
     defaultsTo (JBool False) (goField ''ReadOnly'' (GPtr (GBool)) ''readOnly'' True True),
     defaultsTo (JStr ''Shared'') (goField ''Kind'' (GPtr (core_AzureDataDiskKind)) ''kind'' True False)]"

definition core_AzureFileVolumeSource_fields :: "go_field list" where [openapi_data]:
  "core_AzureFileVolumeSource_fields = [
     goField ''SecretName'' (GString) ''secretName'' False False,
     goField ''ShareName'' (GString) ''shareName'' False False,
     goField ''ReadOnly'' (GBool) ''readOnly'' True True]"

definition core_CSIVolumeSource_fields :: "go_field list" where [openapi_data]:
  "core_CSIVolumeSource_fields = [
     goField ''Driver'' (GString) ''driver'' False False,
     goField ''ReadOnly'' (GPtr (GBool)) ''readOnly'' True True,
     goField ''FSType'' (GPtr (GString)) ''fsType'' True True,
     goField ''VolumeAttributes'' (GMap (GString)) ''volumeAttributes'' True True,
     goField ''NodePublishSecretRef'' (GPtr (GStruct ''k8s.io/api/core/v1.LocalObjectReference'')) ''nodePublishSecretRef'' True True]"

definition core_CephFSVolumeSource_fields :: "go_field list" where [openapi_data]:
  "core_CephFSVolumeSource_fields = [
     listed ''atomic'' [] (goField ''Monitors'' (GSlice (GString)) ''monitors'' False False),
     goField ''Path'' (GString) ''path'' True True,
     goField ''User'' (GString) ''user'' True True,
     goField ''SecretFile'' (GString) ''secretFile'' True True,
     goField ''SecretRef'' (GPtr (GStruct ''k8s.io/api/core/v1.LocalObjectReference'')) ''secretRef'' True True,
     goField ''ReadOnly'' (GBool) ''readOnly'' True True]"

definition core_CinderVolumeSource_fields :: "go_field list" where [openapi_data]:
  "core_CinderVolumeSource_fields = [
     goField ''VolumeID'' (GString) ''volumeID'' False False,
     goField ''FSType'' (GString) ''fsType'' True True,
     goField ''ReadOnly'' (GBool) ''readOnly'' True True,
     goField ''SecretRef'' (GPtr (GStruct ''k8s.io/api/core/v1.LocalObjectReference'')) ''secretRef'' True True]"

definition core_ClusterTrustBundleProjection_fields :: "go_field list" where [openapi_data]:
  "core_ClusterTrustBundleProjection_fields = [
     goField ''Name'' (GPtr (GString)) ''name'' True True,
     goField ''SignerName'' (GPtr (GString)) ''signerName'' True True,
     goField ''LabelSelector'' (GPtr (GStruct ''k8s.io/apimachinery/pkg/apis/meta/v1.LabelSelector'')) ''labelSelector'' True True,
     goField ''Optional'' (GPtr (GBool)) ''optional'' True True,
     goField ''Path'' (GString) ''path'' False False]"

definition core_LocalObjectReference_fields :: "go_field list" where [openapi_data]:
  "core_LocalObjectReference_fields = [
     defaultsTo (JStr '''') (goField ''Name'' (GString) ''name'' True True)]"

definition core_ConfigMapProjection_fields :: "go_field list" where [openapi_data]:
  "core_ConfigMapProjection_fields = core_LocalObjectReference_fields @ [
     listed ''atomic'' [] (goField ''Items'' (GSlice (GStruct ''k8s.io/api/core/v1.KeyToPath'')) ''items'' True True),
     goField ''Optional'' (GPtr (GBool)) ''optional'' True True]"

definition core_ConfigMapVolumeSource_fields :: "go_field list" where [openapi_data]:
  "core_ConfigMapVolumeSource_fields = core_LocalObjectReference_fields @ [
     listed ''atomic'' [] (goField ''Items'' (GSlice (GStruct ''k8s.io/api/core/v1.KeyToPath'')) ''items'' True True),
     goField ''DefaultMode'' (GPtr (GInt32)) ''defaultMode'' True True,
     goField ''Optional'' (GPtr (GBool)) ''optional'' True True]"

definition core_DownwardAPIProjection_fields :: "go_field list" where [openapi_data]:
  "core_DownwardAPIProjection_fields = [
     listed ''atomic'' [] (goField ''Items'' (GSlice (GStruct ''k8s.io/api/core/v1.DownwardAPIVolumeFile'')) ''items'' True True)]"

definition core_DownwardAPIVolumeFile_fields :: "go_field list" where [openapi_data]:
  "core_DownwardAPIVolumeFile_fields = [
     goField ''Path'' (GString) ''path'' False False,
     goField ''FieldRef'' (GPtr (GStruct ''k8s.io/api/core/v1.ObjectFieldSelector'')) ''fieldRef'' True True,
     goField ''ResourceFieldRef'' (GPtr (GStruct ''k8s.io/api/core/v1.ResourceFieldSelector'')) ''resourceFieldRef'' True True,
     goField ''Mode'' (GPtr (GInt32)) ''mode'' True True]"

definition core_DownwardAPIVolumeSource_fields :: "go_field list" where [openapi_data]:
  "core_DownwardAPIVolumeSource_fields = [
     listed ''atomic'' [] (goField ''Items'' (GSlice (GStruct ''k8s.io/api/core/v1.DownwardAPIVolumeFile'')) ''items'' True True),
     goField ''DefaultMode'' (GPtr (GInt32)) ''defaultMode'' True True]"

definition core_EmptyDirVolumeSource_fields :: "go_field list" where [openapi_data]:
  "core_EmptyDirVolumeSource_fields = [
     goField ''Medium'' (GNamedString ''k8s.io/api/core/v1.StorageMedium'') ''medium'' True True,
     goField ''SizeLimit'' (GPtr (GOpaque ''k8s.io/apimachinery/pkg/api/resource.Quantity'')) ''sizeLimit'' True True]"

definition core_EphemeralVolumeSource_fields :: "go_field list" where [openapi_data]:
  "core_EphemeralVolumeSource_fields = [
     goField ''VolumeClaimTemplate'' (GPtr (GStruct ''k8s.io/api/core/v1.PersistentVolumeClaimTemplate'')) ''volumeClaimTemplate'' True False]"

definition core_FCVolumeSource_fields :: "go_field list" where [openapi_data]:
  "core_FCVolumeSource_fields = [
     listed ''atomic'' [] (goField ''TargetWWNs'' (GSlice (GString)) ''targetWWNs'' True True),
     goField ''Lun'' (GPtr (GInt32)) ''lun'' True True,
     goField ''FSType'' (GString) ''fsType'' True True,
     goField ''ReadOnly'' (GBool) ''readOnly'' True True,
     listed ''atomic'' [] (goField ''WWIDs'' (GSlice (GString)) ''wwids'' True True)]"

definition core_FlexVolumeSource_fields :: "go_field list" where [openapi_data]:
  "core_FlexVolumeSource_fields = [
     goField ''Driver'' (GString) ''driver'' False False,
     goField ''FSType'' (GString) ''fsType'' True True,
     goField ''SecretRef'' (GPtr (GStruct ''k8s.io/api/core/v1.LocalObjectReference'')) ''secretRef'' True True,
     goField ''ReadOnly'' (GBool) ''readOnly'' True True,
     goField ''Options'' (GMap (GString)) ''options'' True True]"

definition core_FlockerVolumeSource_fields :: "go_field list" where [openapi_data]:
  "core_FlockerVolumeSource_fields = [
     goField ''DatasetName'' (GString) ''datasetName'' True True,
     goField ''DatasetUUID'' (GString) ''datasetUUID'' True True]"

definition core_GCEPersistentDiskVolumeSource_fields :: "go_field list" where [openapi_data]:
  "core_GCEPersistentDiskVolumeSource_fields = [
     goField ''PDName'' (GString) ''pdName'' False False,
     goField ''FSType'' (GString) ''fsType'' True True,
     goField ''Partition'' (GInt32) ''partition'' True True,
     goField ''ReadOnly'' (GBool) ''readOnly'' True True]"

definition core_GitRepoVolumeSource_fields :: "go_field list" where [openapi_data]:
  "core_GitRepoVolumeSource_fields = [
     goField ''Repository'' (GString) ''repository'' False False,
     goField ''Revision'' (GString) ''revision'' True True,
     goField ''Directory'' (GString) ''directory'' True True]"

definition core_GlusterfsVolumeSource_fields :: "go_field list" where [openapi_data]:
  "core_GlusterfsVolumeSource_fields = [
     goField ''EndpointsName'' (GString) ''endpoints'' False False,
     goField ''Path'' (GString) ''path'' False False,
     goField ''ReadOnly'' (GBool) ''readOnly'' True True]"

definition core_HostPathVolumeSource_fields :: "go_field list" where [openapi_data]:
  "core_HostPathVolumeSource_fields = [
     goField ''Path'' (GString) ''path'' False False,
     goField ''Type'' (GPtr (core_HostPathType)) ''type'' True True]"

definition core_ISCSIVolumeSource_fields :: "go_field list" where [openapi_data]:
  "core_ISCSIVolumeSource_fields = [
     goField ''TargetPortal'' (GString) ''targetPortal'' False False,
     goField ''IQN'' (GString) ''iqn'' False False,
     goField ''Lun'' (GInt32) ''lun'' False False,
     defaultsTo (JStr ''default'') (goField ''ISCSIInterface'' (GString) ''iscsiInterface'' True True),
     goField ''FSType'' (GString) ''fsType'' True True,
     goField ''ReadOnly'' (GBool) ''readOnly'' True True,
     listed ''atomic'' [] (goField ''Portals'' (GSlice (GString)) ''portals'' True True),
     goField ''DiscoveryCHAPAuth'' (GBool) ''chapAuthDiscovery'' True True,
     goField ''SessionCHAPAuth'' (GBool) ''chapAuthSession'' True True,
     goField ''SecretRef'' (GPtr (GStruct ''k8s.io/api/core/v1.LocalObjectReference'')) ''secretRef'' True True,
     goField ''InitiatorName'' (GPtr (GString)) ''initiatorName'' True True]"

definition core_ImageVolumeSource_fields :: "go_field list" where [openapi_data]:
  "core_ImageVolumeSource_fields = [
     goField ''Reference'' (GString) ''reference'' True True,
     goField ''PullPolicy'' (core_PullPolicy) ''pullPolicy'' True True]"

definition core_KeyToPath_fields :: "go_field list" where [openapi_data]:
  "core_KeyToPath_fields = [
     goField ''Key'' (GString) ''key'' False False,
     goField ''Path'' (GString) ''path'' False False,
     goField ''Mode'' (GPtr (GInt32)) ''mode'' True True]"

definition core_NFSVolumeSource_fields :: "go_field list" where [openapi_data]:
  "core_NFSVolumeSource_fields = [
     goField ''Server'' (GString) ''server'' False False,
     goField ''Path'' (GString) ''path'' False False,
     goField ''ReadOnly'' (GBool) ''readOnly'' True True]"

definition core_ObjectFieldSelector_fields :: "go_field list" where [openapi_data]:
  "core_ObjectFieldSelector_fields = [
     goField ''APIVersion'' (GString) ''apiVersion'' True True,
     goField ''FieldPath'' (GString) ''fieldPath'' False False]"

definition core_PersistentVolumeClaimSpec_fields :: "go_field list" where [openapi_data]:
  "core_PersistentVolumeClaimSpec_fields = [
     listed ''atomic'' [] (goField ''AccessModes'' (GSlice (core_PersistentVolumeAccessMode)) ''accessModes'' True True),
     goField ''Selector'' (GPtr (GStruct ''k8s.io/apimachinery/pkg/apis/meta/v1.LabelSelector'')) ''selector'' True True,
     goField ''Resources'' (GStruct ''k8s.io/api/core/v1.VolumeResourceRequirements'') ''resources'' True True,
     goField ''VolumeName'' (GString) ''volumeName'' True True,
     goField ''StorageClassName'' (GPtr (GString)) ''storageClassName'' True True,
     goField ''VolumeMode'' (GPtr (core_PersistentVolumeMode)) ''volumeMode'' True True,
     goField ''DataSource'' (GPtr (GStruct ''k8s.io/api/core/v1.TypedLocalObjectReference'')) ''dataSource'' True True,
     goField ''DataSourceRef'' (GPtr (GStruct ''k8s.io/api/core/v1.TypedObjectReference'')) ''dataSourceRef'' True True,
     goField ''VolumeAttributesClassName'' (GPtr (GString)) ''volumeAttributesClassName'' True True]"

definition core_PersistentVolumeClaimTemplate_fields :: "go_field list" where [openapi_data]:
  "core_PersistentVolumeClaimTemplate_fields = [
     goField ''ObjectMeta'' (GStruct ''k8s.io/apimachinery/pkg/apis/meta/v1.ObjectMeta'') ''metadata'' True True,
     goField ''Spec'' (GStruct ''k8s.io/api/core/v1.PersistentVolumeClaimSpec'') ''spec'' False False]"

definition core_PersistentVolumeClaimVolumeSource_fields :: "go_field list" where [openapi_data]:
  "core_PersistentVolumeClaimVolumeSource_fields = [
     goField ''ClaimName'' (GString) ''claimName'' False False,
     goField ''ReadOnly'' (GBool) ''readOnly'' True True]"

definition core_PhotonPersistentDiskVolumeSource_fields :: "go_field list" where [openapi_data]:
  "core_PhotonPersistentDiskVolumeSource_fields = [
     goField ''PdID'' (GString) ''pdID'' False False,
     goField ''FSType'' (GString) ''fsType'' True False]"

definition core_PodCertificateProjection_fields :: "go_field list" where [openapi_data]:
  "core_PodCertificateProjection_fields = [
     goField ''SignerName'' (GString) ''signerName'' True False,
     goField ''KeyType'' (GString) ''keyType'' True False,
     goField ''MaxExpirationSeconds'' (GPtr (GInt32)) ''maxExpirationSeconds'' True True,
     goField ''CredentialBundlePath'' (GString) ''credentialBundlePath'' True True,
     goField ''KeyPath'' (GString) ''keyPath'' True True,
     goField ''CertificateChainPath'' (GString) ''certificateChainPath'' True True]"

definition core_PortworxVolumeSource_fields :: "go_field list" where [openapi_data]:
  "core_PortworxVolumeSource_fields = [
     goField ''VolumeID'' (GString) ''volumeID'' False False,
     goField ''FSType'' (GString) ''fsType'' True False,
     goField ''ReadOnly'' (GBool) ''readOnly'' True True]"

definition core_ProjectedVolumeSource_fields :: "go_field list" where [openapi_data]:
  "core_ProjectedVolumeSource_fields = [
     listed ''atomic'' [] (goField ''Sources'' (GSlice (GStruct ''k8s.io/api/core/v1.VolumeProjection'')) ''sources'' False True),
     goField ''DefaultMode'' (GPtr (GInt32)) ''defaultMode'' True True]"

definition core_QuobyteVolumeSource_fields :: "go_field list" where [openapi_data]:
  "core_QuobyteVolumeSource_fields = [
     goField ''Registry'' (GString) ''registry'' False False,
     goField ''Volume'' (GString) ''volume'' False False,
     goField ''ReadOnly'' (GBool) ''readOnly'' True True,
     goField ''User'' (GString) ''user'' True True,
     goField ''Group'' (GString) ''group'' True True,
     goField ''Tenant'' (GString) ''tenant'' True True]"

definition core_RBDVolumeSource_fields :: "go_field list" where [openapi_data]:
  "core_RBDVolumeSource_fields = [
     listed ''atomic'' [] (goField ''CephMonitors'' (GSlice (GString)) ''monitors'' False False),
     goField ''RBDImage'' (GString) ''image'' False False,
     goField ''FSType'' (GString) ''fsType'' True True,
     defaultsTo (JStr ''rbd'') (goField ''RBDPool'' (GString) ''pool'' True True),
     defaultsTo (JStr ''admin'') (goField ''RadosUser'' (GString) ''user'' True True),
     defaultsTo (JStr ''/etc/ceph/keyring'') (goField ''Keyring'' (GString) ''keyring'' True True),
     goField ''SecretRef'' (GPtr (GStruct ''k8s.io/api/core/v1.LocalObjectReference'')) ''secretRef'' True True,
     goField ''ReadOnly'' (GBool) ''readOnly'' True True]"

definition core_ResourceFieldSelector_fields :: "go_field list" where [openapi_data]:
  "core_ResourceFieldSelector_fields = [
     goField ''ContainerName'' (GString) ''containerName'' True True,
     goField ''Resource'' (GString) ''resource'' False False,
     goField ''Divisor'' (GOpaque ''k8s.io/apimachinery/pkg/api/resource.Quantity'') ''divisor'' True True]"

definition core_ScaleIOVolumeSource_fields :: "go_field list" where [openapi_data]:
  "core_ScaleIOVolumeSource_fields = [
     goField ''Gateway'' (GString) ''gateway'' False False,
     goField ''System'' (GString) ''system'' False False,
     goField ''SecretRef'' (GPtr (GStruct ''k8s.io/api/core/v1.LocalObjectReference'')) ''secretRef'' False False,
     goField ''SSLEnabled'' (GBool) ''sslEnabled'' True True,
     goField ''ProtectionDomain'' (GString) ''protectionDomain'' True True,
     goField ''StoragePool'' (GString) ''storagePool'' True True,
     defaultsTo (JStr ''ThinProvisioned'') (goField ''StorageMode'' (GString) ''storageMode'' True True),
     goField ''VolumeName'' (GString) ''volumeName'' True False,
     defaultsTo (JStr ''xfs'') (goField ''FSType'' (GString) ''fsType'' True True),
     goField ''ReadOnly'' (GBool) ''readOnly'' True True]"

definition core_SecretProjection_fields :: "go_field list" where [openapi_data]:
  "core_SecretProjection_fields = core_LocalObjectReference_fields @ [
     listed ''atomic'' [] (goField ''Items'' (GSlice (GStruct ''k8s.io/api/core/v1.KeyToPath'')) ''items'' True True),
     goField ''Optional'' (GPtr (GBool)) ''optional'' True True]"

definition core_SecretVolumeSource_fields :: "go_field list" where [openapi_data]:
  "core_SecretVolumeSource_fields = [
     goField ''SecretName'' (GString) ''secretName'' True True,
     listed ''atomic'' [] (goField ''Items'' (GSlice (GStruct ''k8s.io/api/core/v1.KeyToPath'')) ''items'' True True),
     goField ''DefaultMode'' (GPtr (GInt32)) ''defaultMode'' True True,
     goField ''Optional'' (GPtr (GBool)) ''optional'' True True]"

definition core_ServiceAccountTokenProjection_fields :: "go_field list" where [openapi_data]:
  "core_ServiceAccountTokenProjection_fields = [
     goField ''Audience'' (GString) ''audience'' True True,
     goField ''ExpirationSeconds'' (GPtr (GInt64)) ''expirationSeconds'' True True,
     goField ''Path'' (GString) ''path'' False False]"

definition core_StorageOSVolumeSource_fields :: "go_field list" where [openapi_data]:
  "core_StorageOSVolumeSource_fields = [
     goField ''VolumeName'' (GString) ''volumeName'' True False,
     goField ''VolumeNamespace'' (GString) ''volumeNamespace'' True True,
     goField ''FSType'' (GString) ''fsType'' True True,
     goField ''ReadOnly'' (GBool) ''readOnly'' True True,
     goField ''SecretRef'' (GPtr (GStruct ''k8s.io/api/core/v1.LocalObjectReference'')) ''secretRef'' True True]"

definition core_TypedLocalObjectReference_fields :: "go_field list" where [openapi_data]:
  "core_TypedLocalObjectReference_fields = [
     goField ''APIGroup'' (GPtr (GString)) ''apiGroup'' False True,
     goField ''Kind'' (GString) ''kind'' False False,
     goField ''Name'' (GString) ''name'' False False]"

definition core_TypedObjectReference_fields :: "go_field list" where [openapi_data]:
  "core_TypedObjectReference_fields = [
     goField ''APIGroup'' (GPtr (GString)) ''apiGroup'' False True,
     goField ''Kind'' (GString) ''kind'' False False,
     goField ''Name'' (GString) ''name'' False False,
     goField ''Namespace'' (GPtr (GString)) ''namespace'' True True]"

definition core_VolumeSource_fields :: "go_field list" where [openapi_data]:
  "core_VolumeSource_fields = [
     goField ''HostPath'' (GPtr (GStruct ''k8s.io/api/core/v1.HostPathVolumeSource'')) ''hostPath'' True True,
     goField ''EmptyDir'' (GPtr (GStruct ''k8s.io/api/core/v1.EmptyDirVolumeSource'')) ''emptyDir'' True True,
     goField ''GCEPersistentDisk'' (GPtr (GStruct ''k8s.io/api/core/v1.GCEPersistentDiskVolumeSource'')) ''gcePersistentDisk'' True True,
     goField ''AWSElasticBlockStore'' (GPtr (GStruct ''k8s.io/api/core/v1.AWSElasticBlockStoreVolumeSource'')) ''awsElasticBlockStore'' True True,
     goField ''GitRepo'' (GPtr (GStruct ''k8s.io/api/core/v1.GitRepoVolumeSource'')) ''gitRepo'' True True,
     goField ''Secret'' (GPtr (GStruct ''k8s.io/api/core/v1.SecretVolumeSource'')) ''secret'' True True,
     goField ''NFS'' (GPtr (GStruct ''k8s.io/api/core/v1.NFSVolumeSource'')) ''nfs'' True True,
     goField ''ISCSI'' (GPtr (GStruct ''k8s.io/api/core/v1.ISCSIVolumeSource'')) ''iscsi'' True True,
     goField ''Glusterfs'' (GPtr (GStruct ''k8s.io/api/core/v1.GlusterfsVolumeSource'')) ''glusterfs'' True True,
     goField ''PersistentVolumeClaim'' (GPtr (GStruct ''k8s.io/api/core/v1.PersistentVolumeClaimVolumeSource'')) ''persistentVolumeClaim'' True True,
     goField ''RBD'' (GPtr (GStruct ''k8s.io/api/core/v1.RBDVolumeSource'')) ''rbd'' True True,
     goField ''FlexVolume'' (GPtr (GStruct ''k8s.io/api/core/v1.FlexVolumeSource'')) ''flexVolume'' True True,
     goField ''Cinder'' (GPtr (GStruct ''k8s.io/api/core/v1.CinderVolumeSource'')) ''cinder'' True True,
     goField ''CephFS'' (GPtr (GStruct ''k8s.io/api/core/v1.CephFSVolumeSource'')) ''cephfs'' True True,
     goField ''Flocker'' (GPtr (GStruct ''k8s.io/api/core/v1.FlockerVolumeSource'')) ''flocker'' True True,
     goField ''DownwardAPI'' (GPtr (GStruct ''k8s.io/api/core/v1.DownwardAPIVolumeSource'')) ''downwardAPI'' True True,
     goField ''FC'' (GPtr (GStruct ''k8s.io/api/core/v1.FCVolumeSource'')) ''fc'' True True,
     goField ''AzureFile'' (GPtr (GStruct ''k8s.io/api/core/v1.AzureFileVolumeSource'')) ''azureFile'' True True,
     goField ''ConfigMap'' (GPtr (GStruct ''k8s.io/api/core/v1.ConfigMapVolumeSource'')) ''configMap'' True True,
     goField ''VsphereVolume'' (GPtr (GStruct ''k8s.io/api/core/v1.VsphereVirtualDiskVolumeSource'')) ''vsphereVolume'' True True,
     goField ''Quobyte'' (GPtr (GStruct ''k8s.io/api/core/v1.QuobyteVolumeSource'')) ''quobyte'' True True,
     goField ''AzureDisk'' (GPtr (GStruct ''k8s.io/api/core/v1.AzureDiskVolumeSource'')) ''azureDisk'' True True,
     goField ''PhotonPersistentDisk'' (GPtr (GStruct ''k8s.io/api/core/v1.PhotonPersistentDiskVolumeSource'')) ''photonPersistentDisk'' True False,
     goField ''Projected'' (GPtr (GStruct ''k8s.io/api/core/v1.ProjectedVolumeSource'')) ''projected'' True False,
     goField ''PortworxVolume'' (GPtr (GStruct ''k8s.io/api/core/v1.PortworxVolumeSource'')) ''portworxVolume'' True True,
     goField ''ScaleIO'' (GPtr (GStruct ''k8s.io/api/core/v1.ScaleIOVolumeSource'')) ''scaleIO'' True True,
     goField ''StorageOS'' (GPtr (GStruct ''k8s.io/api/core/v1.StorageOSVolumeSource'')) ''storageos'' True True,
     goField ''CSI'' (GPtr (GStruct ''k8s.io/api/core/v1.CSIVolumeSource'')) ''csi'' True True,
     goField ''Ephemeral'' (GPtr (GStruct ''k8s.io/api/core/v1.EphemeralVolumeSource'')) ''ephemeral'' True True,
     goField ''Image'' (GPtr (GStruct ''k8s.io/api/core/v1.ImageVolumeSource'')) ''image'' True True]"

definition core_Volume_fields :: "go_field list" where [openapi_data]:
  "core_Volume_fields = [
     goField ''Name'' (GString) ''name'' False False] @ core_VolumeSource_fields"

definition core_VolumeProjection_fields :: "go_field list" where [openapi_data]:
  "core_VolumeProjection_fields = [
     goField ''Secret'' (GPtr (GStruct ''k8s.io/api/core/v1.SecretProjection'')) ''secret'' True True,
     goField ''DownwardAPI'' (GPtr (GStruct ''k8s.io/api/core/v1.DownwardAPIProjection'')) ''downwardAPI'' True True,
     goField ''ConfigMap'' (GPtr (GStruct ''k8s.io/api/core/v1.ConfigMapProjection'')) ''configMap'' True True,
     goField ''ServiceAccountToken'' (GPtr (GStruct ''k8s.io/api/core/v1.ServiceAccountTokenProjection'')) ''serviceAccountToken'' True True,
     goField ''ClusterTrustBundle'' (GPtr (GStruct ''k8s.io/api/core/v1.ClusterTrustBundleProjection'')) ''clusterTrustBundle'' True True,
     goField ''PodCertificate'' (GPtr (GStruct ''k8s.io/api/core/v1.PodCertificateProjection'')) ''podCertificate'' True False]"

definition core_VolumeResourceRequirements_fields :: "go_field list" where [openapi_data]:
  "core_VolumeResourceRequirements_fields = [
     goField ''Limits'' (GMap (GOpaque ''k8s.io/apimachinery/pkg/api/resource.Quantity'')) ''limits'' True True,
     goField ''Requests'' (GMap (GOpaque ''k8s.io/apimachinery/pkg/api/resource.Quantity'')) ''requests'' True True]"

definition core_VsphereVirtualDiskVolumeSource_fields :: "go_field list" where [openapi_data]:
  "core_VsphereVirtualDiskVolumeSource_fields = [
     goField ''VolumePath'' (GString) ''volumePath'' False False,
     goField ''FSType'' (GString) ''fsType'' True True,
     goField ''StoragePolicyName'' (GString) ''storagePolicyName'' True True,
     goField ''StoragePolicyID'' (GString) ''storagePolicyID'' True True]"

section \<open>Agreement\<close>

lemma openapi_volumes_sync:
  "od_Schema (schema_core_AWSElasticBlockStoreVolumeSource ref) = schemaOfStruct ref ([], core_AWSElasticBlockStoreVolumeSource_fields)"
  "od_Schema (schema_core_AzureDiskVolumeSource ref) = schemaOfStruct ref ([], core_AzureDiskVolumeSource_fields)"
  "od_Schema (schema_core_AzureFileVolumeSource ref) = schemaOfStruct ref ([], core_AzureFileVolumeSource_fields)"
  "od_Schema (schema_core_CSIVolumeSource ref) = schemaOfStruct ref ([], core_CSIVolumeSource_fields)"
  "od_Schema (schema_core_CephFSVolumeSource ref) = schemaOfStruct ref ([], core_CephFSVolumeSource_fields)"
  "od_Schema (schema_core_CinderVolumeSource ref) = schemaOfStruct ref ([], core_CinderVolumeSource_fields)"
  "od_Schema (schema_core_ClusterTrustBundleProjection ref) = schemaOfStruct ref ([], core_ClusterTrustBundleProjection_fields)"
  "od_Schema (schema_core_ConfigMapProjection ref) = schemaOfStruct ref ([], core_ConfigMapProjection_fields)"
  "od_Schema (schema_core_ConfigMapVolumeSource ref) = schemaOfStruct ref ([], core_ConfigMapVolumeSource_fields)"
  "od_Schema (schema_core_DownwardAPIProjection ref) = schemaOfStruct ref ([], core_DownwardAPIProjection_fields)"
  "od_Schema (schema_core_DownwardAPIVolumeFile ref) = schemaOfStruct ref ([], core_DownwardAPIVolumeFile_fields)"
  "od_Schema (schema_core_DownwardAPIVolumeSource ref) = schemaOfStruct ref ([], core_DownwardAPIVolumeSource_fields)"
  "od_Schema (schema_core_EmptyDirVolumeSource ref) = schemaOfStruct ref ([], core_EmptyDirVolumeSource_fields)"
  "od_Schema (schema_core_EphemeralVolumeSource ref) = schemaOfStruct ref ([], core_EphemeralVolumeSource_fields)"
  "od_Schema (schema_core_FCVolumeSource ref) = schemaOfStruct ref ([], core_FCVolumeSource_fields)"
  "od_Schema (schema_core_FlexVolumeSource ref) = schemaOfStruct ref ([], core_FlexVolumeSource_fields)"
  "od_Schema (schema_core_FlockerVolumeSource ref) = schemaOfStruct ref ([], core_FlockerVolumeSource_fields)"
  "od_Schema (schema_core_GCEPersistentDiskVolumeSource ref) = schemaOfStruct ref ([], core_GCEPersistentDiskVolumeSource_fields)"
  "od_Schema (schema_core_GitRepoVolumeSource ref) = schemaOfStruct ref ([], core_GitRepoVolumeSource_fields)"
  "od_Schema (schema_core_GlusterfsVolumeSource ref) = schemaOfStruct ref ([], core_GlusterfsVolumeSource_fields)"
  "od_Schema (schema_core_HostPathVolumeSource ref) = schemaOfStruct ref ([], core_HostPathVolumeSource_fields)"
  "od_Schema (schema_core_ISCSIVolumeSource ref) = schemaOfStruct ref ([], core_ISCSIVolumeSource_fields)"
  "od_Schema (schema_core_ImageVolumeSource ref) = schemaOfStruct ref ([], core_ImageVolumeSource_fields)"
  "od_Schema (schema_core_KeyToPath ref) = schemaOfStruct ref ([], core_KeyToPath_fields)"
  "od_Schema (schema_core_LocalObjectReference ref) = schemaOfStruct ref ([StructType ''atomic''], core_LocalObjectReference_fields)"
  "od_Schema (schema_core_NFSVolumeSource ref) = schemaOfStruct ref ([], core_NFSVolumeSource_fields)"
  "od_Schema (schema_core_ObjectFieldSelector ref) = schemaOfStruct ref ([StructType ''atomic''], core_ObjectFieldSelector_fields)"
  "od_Schema (schema_core_PersistentVolumeClaimSpec ref) = schemaOfStruct ref ([], core_PersistentVolumeClaimSpec_fields)"
  "od_Schema (schema_core_PersistentVolumeClaimTemplate ref) = schemaOfStruct ref ([], core_PersistentVolumeClaimTemplate_fields)"
  "od_Schema (schema_core_PersistentVolumeClaimVolumeSource ref) = schemaOfStruct ref ([], core_PersistentVolumeClaimVolumeSource_fields)"
  "od_Schema (schema_core_PhotonPersistentDiskVolumeSource ref) = schemaOfStruct ref ([], core_PhotonPersistentDiskVolumeSource_fields)"
  "od_Schema (schema_core_PodCertificateProjection ref) = schemaOfStruct ref ([], core_PodCertificateProjection_fields)"
  "od_Schema (schema_core_PortworxVolumeSource ref) = schemaOfStruct ref ([], core_PortworxVolumeSource_fields)"
  "od_Schema (schema_core_ProjectedVolumeSource ref) = schemaOfStruct ref ([], core_ProjectedVolumeSource_fields)"
  "od_Schema (schema_core_QuobyteVolumeSource ref) = schemaOfStruct ref ([], core_QuobyteVolumeSource_fields)"
  "od_Schema (schema_core_RBDVolumeSource ref) = schemaOfStruct ref ([], core_RBDVolumeSource_fields)"
  "od_Schema (schema_core_ResourceFieldSelector ref) = schemaOfStruct ref ([StructType ''atomic''], core_ResourceFieldSelector_fields)"
  "od_Schema (schema_core_ScaleIOVolumeSource ref) = schemaOfStruct ref ([], core_ScaleIOVolumeSource_fields)"
  "od_Schema (schema_core_SecretProjection ref) = schemaOfStruct ref ([], core_SecretProjection_fields)"
  "od_Schema (schema_core_SecretVolumeSource ref) = schemaOfStruct ref ([], core_SecretVolumeSource_fields)"
  "od_Schema (schema_core_ServiceAccountTokenProjection ref) = schemaOfStruct ref ([], core_ServiceAccountTokenProjection_fields)"
  "od_Schema (schema_core_StorageOSVolumeSource ref) = schemaOfStruct ref ([], core_StorageOSVolumeSource_fields)"
  "od_Schema (schema_core_TypedLocalObjectReference ref) = schemaOfStruct ref ([StructType ''atomic''], core_TypedLocalObjectReference_fields)"
  "od_Schema (schema_core_TypedObjectReference ref) = schemaOfStruct ref ([], core_TypedObjectReference_fields)"
  "od_Schema (schema_core_Volume ref) = schemaOfStruct ref ([], core_Volume_fields)"
  "od_Schema (schema_core_VolumeProjection ref) = schemaOfStruct ref ([], core_VolumeProjection_fields)"
  "od_Schema (schema_core_VolumeResourceRequirements ref) = schemaOfStruct ref ([], core_VolumeResourceRequirements_fields)"
  "od_Schema (schema_core_VsphereVirtualDiskVolumeSource ref) = schemaOfStruct ref ([], core_VsphereVirtualDiskVolumeSource_fields)"
  by (simp_all add: openapi_data struct_schema_defs)

end
