(* ===== verification/Openapi_Pods.thy ===== *)
theory Openapi_Pods
  imports Openapi_Volumes
begin

text \<open>
  The definitions and declarations of the other types of \<open>k8s.io/api/core/v1\<close> a Sidekick refers to: its
  ephemeral containers, probes, security contexts, affinities and the like.
\<close>

section \<open>The definitions\<close>

definition schema_core_Affinity :: "(string \<Rightarrow> 'r) \<Rightarrow> 'r openapi_definition" where [openapi_data]:
  "schema_core_Affinity ref = \<lparr>
     od_Schema = objectS [
     (''nodeAffinity'', refS (ref ''k8s.io/api/core/v1.NodeAffinity'')),
     (''podAffinity'', refS (ref ''k8s.io/api/core/v1.PodAffinity'')),
     (''podAntiAffinity'', refS (ref ''k8s.io/api/core/v1.PodAntiAffinity''))] [],
     od_Dependencies = [''k8s.io/api/core/v1.NodeAffinity'', ''k8s.io/api/core/v1.PodAffinity'', ''k8s.io/api/core/v1.PodAntiAffinity'']\<rparr>"

definition schema_core_AppArmorProfile :: "(string \<Rightarrow> 'r) \<Rightarrow> 'r openapi_definition" where [openapi_data]:
  "schema_core_AppArmorProfile ref = \<lparr>
     od_Schema = withExtensions [(''x-kubernetes-unions'', JArr [JObj [(''discriminator'', JStr ''type''), (''fields-to-discriminateBy'', JObj [(''localhostProfile'', JStr ''LocalhostProfile'')])]])]
       (objectS [
     (''type'', withDefault (JStr '''') (withEnum [JStr ''Localhost'', JStr ''RuntimeDefault'', JStr ''Unconfined''] (plainS ''string'' ''''))),
     (''localhostProfile'', plainS ''string'' '''')] [''type'']),
     od_Dependencies = []\<rparr>"

definition schema_core_Capabilities :: "(string \<Rightarrow> 'r) \<Rightarrow> 'r openapi_definition" where [openapi_data]:
  "schema_core_Capabilities ref = \<lparr>
     od_Schema = objectS [
     (''add'', withExtensions [(''x-kubernetes-list-type'', JStr ''atomic'')]
       (arrayS (withDefault (JStr '''') (plainS ''string'' '''')))),
     (''drop'', withExtensions [(''x-kubernetes-list-type'', JStr ''atomic'')]
       (arrayS (withDefault (JStr '''') (plainS ''string'' ''''))))] [],
     od_Dependencies = []\<rparr>"

definition schema_core_ConfigMapEnvSource :: "(string \<Rightarrow> 'r) \<Rightarrow> 'r openapi_definition" where [openapi_data]:
  "schema_core_ConfigMapEnvSource ref = \<lparr>
     od_Schema = objectS [
     (''name'', withDefault (JStr '''') (plainS ''string'' '''')),
     (''optional'', plainS ''boolean'' '''')] [],
     od_Dependencies = []\<rparr>"

definition schema_core_ConfigMapKeySelector :: "(string \<Rightarrow> 'r) \<Rightarrow> 'r openapi_definition" where [openapi_data]:
  "schema_core_ConfigMapKeySelector ref = \<lparr>
     od_Schema = withExtensions [(''x-kubernetes-map-type'', JStr ''atomic'')]
       (objectS [
     (''name'', withDefault (JStr '''') (plainS ''string'' '''')),
     (''key'', withDefault (JStr '''') (plainS ''string'' '''')),
     (''optional'', plainS ''boolean'' '''')] [''key'']),
     od_Dependencies = []\<rparr>"

definition schema_core_ContainerPort :: "(string \<Rightarrow> 'r) \<Rightarrow> 'r openapi_definition" where [openapi_data]:
  "schema_core_ContainerPort ref = \<lparr>
     od_Schema = objectS [
     (''name'', plainS ''string'' ''''),
     (''hostPort'', plainS ''integer'' ''int32''),
     (''containerPort'', withDefault (JNum ''0'') (plainS ''integer'' ''int32'')),
     (''protocol'', withDefault (JStr ''TCP'') (withEnum [JStr ''SCTP'', JStr ''TCP'', JStr ''UDP''] (plainS ''string'' ''''))),
     (''hostIP'', plainS ''string'' '''')] [''containerPort''],
     od_Dependencies = []\<rparr>"

definition schema_core_ContainerResizePolicy :: "(string \<Rightarrow> 'r) \<Rightarrow> 'r openapi_definition" where [openapi_data]:
  "schema_core_ContainerResizePolicy ref = \<lparr>
     od_Schema = objectS [
     (''resourceName'', withDefault (JStr '''') (plainS ''string'' '''')),
     (''restartPolicy'', withDefault (JStr '''') (plainS ''string'' ''''))] [''resourceName'', ''restartPolicy''],
     od_Dependencies = []\<rparr>"

definition schema_core_ContainerRestartRule :: "(string \<Rightarrow> 'r) \<Rightarrow> 'r openapi_definition" where [openapi_data]:
  "schema_core_ContainerRestartRule ref = \<lparr>
     od_Schema = objectS [
     (''action'', plainS ''string'' ''''),
     (''exitCodes'', refS (ref ''k8s.io/api/core/v1.ContainerRestartRuleOnExitCodes''))] [],
     od_Dependencies = [''k8s.io/api/core/v1.ContainerRestartRuleOnExitCodes'']\<rparr>"

definition schema_core_ContainerRestartRuleOnExitCodes :: "(string \<Rightarrow> 'r) \<Rightarrow> 'r openapi_definition" where [openapi_data]:
  "schema_core_ContainerRestartRuleOnExitCodes ref = \<lparr>
     od_Schema = objectS [
     (''operator'', plainS ''string'' ''''),
     (''values'', withExtensions [(''x-kubernetes-list-type'', JStr ''set'')]
       (arrayS (withDefault (JNum ''0'') (plainS ''integer'' ''int32''))))] [],
     od_Dependencies = []\<rparr>"

definition schema_core_EnvFromSource :: "(string \<Rightarrow> 'r) \<Rightarrow> 'r openapi_definition" where [openapi_data]:
  "schema_core_EnvFromSource ref = \<lparr>
     od_Schema = objectS [
     (''prefix'', plainS ''string'' ''''),
     (''configMapRef'', refS (ref ''k8s.io/api/core/v1.ConfigMapEnvSource'')),
     (''secretRef'', refS (ref ''k8s.io/api/core/v1.SecretEnvSource''))] [],
     od_Dependencies = [''k8s.io/api/core/v1.ConfigMapEnvSource'', ''k8s.io/api/core/v1.SecretEnvSource'']\<rparr>"

definition schema_core_EnvVar :: "(string \<Rightarrow> 'r) \<Rightarrow> 'r openapi_definition" where [openapi_data]:
  "schema_core_EnvVar ref = \<lparr>
     od_Schema = objectS [
     (''name'', withDefault (JStr '''') (plainS ''string'' '''')),
     (''value'', plainS ''string'' ''''),
     (''valueFrom'', refS (ref ''k8s.io/api/core/v1.EnvVarSource''))] [''name''],
     od_Dependencies = [''k8s.io/api/core/v1.EnvVarSource'']\<rparr>"

definition schema_core_EnvVarSource :: "(string \<Rightarrow> 'r) \<Rightarrow> 'r openapi_definition" where [openapi_data]:
  "schema_core_EnvVarSource ref = \<lparr>
     od_Schema = objectS [
     (''fieldRef'', refS (ref ''k8s.io/api/core/v1.ObjectFieldSelector'')),
     (''resourceFieldRef'', refS (ref ''k8s.io/api/core/v1.ResourceFieldSelector'')),
     (''configMapKeyRef'', refS (ref ''k8s.io/api/core/v1.ConfigMapKeySelector'')),
     (''secretKeyRef'', refS (ref ''k8s.io/api/core/v1.SecretKeySelector'')),
     (''fileKeyRef'', refS (ref ''k8s.io/api/core/v1.FileKeySelector''))] [],
     od_Dependencies = [''k8s.io/api/core/v1.ConfigMapKeySelector'', ''k8s.io/api/core/v1.FileKeySelector'', ''k8s.io/api/core/v1.ObjectFieldSelector'', ''k8s.io/api/core/v1.ResourceFieldSelector'', ''k8s.io/api/core/v1.SecretKeySelector'']\<rparr>"

definition schema_core_EphemeralContainer_properties1 :: "(string \<Rightarrow> 'r) \<Rightarrow> (string \<times> 'r schema) list" where [openapi_data]:
  "schema_core_EphemeralContainer_properties1 ref = [
     (''name'', withDefault (JStr '''') (plainS ''string'' '''')),
     (''image'', plainS ''string'' ''''),
     (''command'', withExtensions [(''x-kubernetes-list-type'', JStr ''atomic'')]
       (arrayS (withDefault (JStr '''') (plainS ''string'' '''')))),
     (''args'', withExtensions [(''x-kubernetes-list-type'', JStr ''atomic'')]
       (arrayS (withDefault (JStr '''') (plainS ''string'' '''')))),
     (''workingDir'', plainS ''string'' ''''),
     (''ports'', withExtensions [(''x-kubernetes-list-map-keys'', JArr [JStr ''containerPort'', JStr ''protocol'']), (''x-kubernetes-list-type'', JStr ''map''), (''x-kubernetes-patch-merge-key'', JStr ''containerPort''), (''x-kubernetes-patch-strategy'', JStr ''merge'')]
       (arrayS (withDefault (JObj []) (refS (ref ''k8s.io/api/core/v1.ContainerPort''))))),
     (''envFrom'', withExtensions [(''x-kubernetes-list-type'', JStr ''atomic'')]
       (arrayS (withDefault (JObj []) (refS (ref ''k8s.io/api/core/v1.EnvFromSource''))))),
     (''env'', withExtensions [(''x-kubernetes-list-map-keys'', JArr [JStr ''name'']), (''x-kubernetes-list-type'', JStr ''map''), (''x-kubernetes-patch-merge-key'', JStr ''name''), (''x-kubernetes-patch-strategy'', JStr ''merge'')]
       (arrayS (withDefault (JObj []) (refS (ref ''k8s.io/api/core/v1.EnvVar''))))),
     (''resources'', withDefault (JObj []) (refS (ref ''k8s.io/api/core/v1.ResourceRequirements'')))]"

definition schema_core_EphemeralContainer_properties2 :: "(string \<Rightarrow> 'r) \<Rightarrow> (string \<times> 'r schema) list" where [openapi_data]:
  "schema_core_EphemeralContainer_properties2 ref = [
     (''resizePolicy'', withExtensions [(''x-kubernetes-list-type'', JStr ''atomic'')]
       (arrayS (withDefault (JObj []) (refS (ref ''k8s.io/api/core/v1.ContainerResizePolicy''))))),
     (''restartPolicy'', plainS ''string'' ''''),
     (''restartPolicyRules'', withExtensions [(''x-kubernetes-list-type'', JStr ''atomic'')]
       (arrayS (withDefault (JObj []) (refS (ref ''k8s.io/api/core/v1.ContainerRestartRule''))))),
     (''volumeMounts'', withExtensions [(''x-kubernetes-list-map-keys'', JArr [JStr ''mountPath'']), (''x-kubernetes-list-type'', JStr ''map''), (''x-kubernetes-patch-merge-key'', JStr ''mountPath''), (''x-kubernetes-patch-strategy'', JStr ''merge'')]
       (arrayS (withDefault (JObj []) (refS (ref ''k8s.io/api/core/v1.VolumeMount''))))),
     (''volumeDevices'', withExtensions [(''x-kubernetes-list-map-keys'', JArr [JStr ''devicePath'']), (''x-kubernetes-list-type'', JStr ''map''), (''x-kubernetes-patch-merge-key'', JStr ''devicePath''), (''x-kubernetes-patch-strategy'', JStr ''merge'')]
       (arrayS (withDefault (JObj []) (refS (ref ''k8s.io/api/core/v1.VolumeDevice''))))),
     (''livenessProbe'', refS (ref ''k8s.io/api/core/v1.Probe'')),
     (''readinessProbe'', refS (ref ''k8s.io/api/core/v1.Probe'')),
     (''startupProbe'', refS (ref ''k8s.io/api/core/v1.Probe'')),
     (''lifecycle'', refS (ref ''k8s.io/api/core/v1.Lifecycle'')),
     (''terminationMessagePath'', plainS ''string'' ''''),
     (''terminationMessagePolicy'', withEnum [JStr ''FallbackToLogsOnError'', JStr ''File''] (plainS ''string'' '''')),
     (''imagePullPolicy'', withEnum [JStr ''Always'', JStr ''IfNotPresent'', JStr ''Never''] (plainS ''string'' '''')),
     (''securityContext'', refS (ref ''k8s.io/api/core/v1.SecurityContext''))]"

definition schema_core_EphemeralContainer_properties3 :: "(string \<Rightarrow> 'r) \<Rightarrow> (string \<times> 'r schema) list" where [openapi_data]:
  "schema_core_EphemeralContainer_properties3 ref = [
     (''stdin'', plainS ''boolean'' ''''),
     (''stdinOnce'', plainS ''boolean'' ''''),
     (''tty'', plainS ''boolean'' ''''),
     (''targetContainerName'', plainS ''string'' '''')]"

definition schema_core_EphemeralContainer :: "(string \<Rightarrow> 'r) \<Rightarrow> 'r openapi_definition" where [openapi_data]:
  "schema_core_EphemeralContainer ref = \<lparr>
     od_Schema = objectS (schema_core_EphemeralContainer_properties1 ref @ schema_core_EphemeralContainer_properties2 ref @ schema_core_EphemeralContainer_properties3 ref) [''name''],
     od_Dependencies = [''k8s.io/api/core/v1.ContainerPort'', ''k8s.io/api/core/v1.ContainerResizePolicy'', ''k8s.io/api/core/v1.ContainerRestartRule'', ''k8s.io/api/core/v1.EnvFromSource'', ''k8s.io/api/core/v1.EnvVar'', ''k8s.io/api/core/v1.Lifecycle'', ''k8s.io/api/core/v1.Probe'', ''k8s.io/api/core/v1.ResourceRequirements'', ''k8s.io/api/core/v1.SecurityContext'', ''k8s.io/api/core/v1.VolumeDevice'', ''k8s.io/api/core/v1.VolumeMount'']\<rparr>"

definition schema_core_ExecAction :: "(string \<Rightarrow> 'r) \<Rightarrow> 'r openapi_definition" where [openapi_data]:
  "schema_core_ExecAction ref = \<lparr>
     od_Schema = objectS [
     (''command'', withExtensions [(''x-kubernetes-list-type'', JStr ''atomic'')]
       (arrayS (withDefault (JStr '''') (plainS ''string'' ''''))))] [],
     od_Dependencies = []\<rparr>"

definition schema_core_FileKeySelector :: "(string \<Rightarrow> 'r) \<Rightarrow> 'r openapi_definition" where [openapi_data]:
  "schema_core_FileKeySelector ref = \<lparr>
     od_Schema = withExtensions [(''x-kubernetes-map-type'', JStr ''atomic'')]
       (objectS [
     (''volumeName'', withDefault (JStr '''') (plainS ''string'' '''')),
     (''path'', withDefault (JStr '''') (plainS ''string'' '''')),
     (''key'', withDefault (JStr '''') (plainS ''string'' '''')),
     (''optional'', withDefault (JBool False) (plainS ''boolean'' ''''))] [''volumeName'', ''path'', ''key'']),
     od_Dependencies = []\<rparr>"

definition schema_core_GRPCAction :: "(string \<Rightarrow> 'r) \<Rightarrow> 'r openapi_definition" where [openapi_data]:
  "schema_core_GRPCAction ref = \<lparr>
     od_Schema = objectS [
     (''port'', withDefault (JNum ''0'') (plainS ''integer'' ''int32'')),
     (''service'', withDefault (JStr '''') (plainS ''string'' ''''))] [''port''],
     od_Dependencies = []\<rparr>"

definition schema_core_HTTPGetAction :: "(string \<Rightarrow> 'r) \<Rightarrow> 'r openapi_definition" where [openapi_data]:
  "schema_core_HTTPGetAction ref = \<lparr>
     od_Schema = objectS [
     (''path'', plainS ''string'' ''''),
     (''port'', refS (ref ''k8s.io/apimachinery/pkg/util/intstr.IntOrString'')),
     (''host'', plainS ''string'' ''''),
     (''scheme'', withEnum [JStr ''HTTP'', JStr ''HTTPS''] (plainS ''string'' '''')),
     (''httpHeaders'', withExtensions [(''x-kubernetes-list-type'', JStr ''atomic'')]
       (arrayS (withDefault (JObj []) (refS (ref ''k8s.io/api/core/v1.HTTPHeader'')))))] [''port''],
     od_Dependencies = [''k8s.io/api/core/v1.HTTPHeader'', ''k8s.io/apimachinery/pkg/util/intstr.IntOrString'']\<rparr>"

definition schema_core_HTTPHeader :: "(string \<Rightarrow> 'r) \<Rightarrow> 'r openapi_definition" where [openapi_data]:
  "schema_core_HTTPHeader ref = \<lparr>
     od_Schema = objectS [
     (''name'', withDefault (JStr '''') (plainS ''string'' '''')),
     (''value'', withDefault (JStr '''') (plainS ''string'' ''''))] [''name'', ''value''],
     od_Dependencies = []\<rparr>"

definition schema_core_HostAlias :: "(string \<Rightarrow> 'r) \<Rightarrow> 'r openapi_definition" where [openapi_data]:
  "schema_core_HostAlias ref = \<lparr>
     od_Schema = objectS [
     (''ip'', withDefault (JStr '''') (plainS ''string'' '''')),
     (''hostnames'', withExtensions [(''x-kubernetes-list-type'', JStr ''atomic'')]
       (arrayS (withDefault (JStr '''') (plainS ''string'' ''''))))] [''ip''],
     od_Dependencies = []\<rparr>"

definition schema_core_Lifecycle :: "(string \<Rightarrow> 'r) \<Rightarrow> 'r openapi_definition" where [openapi_data]:
  "schema_core_Lifecycle ref = \<lparr>
     od_Schema = objectS [
     (''postStart'', refS (ref ''k8s.io/api/core/v1.LifecycleHandler'')),
     (''preStop'', refS (ref ''k8s.io/api/core/v1.LifecycleHandler'')),
     (''stopSignal'', withEnum [JStr ''SIGABRT'', JStr ''SIGALRM'', JStr ''SIGBUS'', JStr ''SIGCHLD'', JStr ''SIGCLD'', JStr ''SIGCONT'', JStr ''SIGFPE'', JStr ''SIGHUP'', JStr ''SIGILL'', JStr ''SIGINT'', JStr ''SIGIO'', JStr ''SIGIOT'', JStr ''SIGKILL'', JStr ''SIGPIPE'', JStr ''SIGPOLL'', JStr ''SIGPROF'', JStr ''SIGPWR'', JStr ''SIGQUIT'', JStr ''SIGRTMAX'', JStr ''SIGRTMAX-1'', JStr ''SIGRTMAX-10'', JStr ''SIGRTMAX-11'', JStr ''SIGRTMAX-12'', JStr ''SIGRTMAX-13'', JStr ''SIGRTMAX-14'', JStr ''SIGRTMAX-2'', JStr ''SIGRTMAX-3'', JStr ''SIGRTMAX-4'', JStr ''SIGRTMAX-5'', JStr ''SIGRTMAX-6'', JStr ''SIGRTMAX-7'', JStr ''SIGRTMAX-8'', JStr ''SIGRTMAX-9'', JStr ''SIGRTMIN'', JStr ''SIGRTMIN+1'', JStr ''SIGRTMIN+10'', JStr ''SIGRTMIN+11'', JStr ''SIGRTMIN+12'', JStr ''SIGRTMIN+13'', JStr ''SIGRTMIN+14'', JStr ''SIGRTMIN+15'', JStr ''SIGRTMIN+2'', JStr ''SIGRTMIN+3'', JStr ''SIGRTMIN+4'', JStr ''SIGRTMIN+5'', JStr ''SIGRTMIN+6'', JStr ''SIGRTMIN+7'', JStr ''SIGRTMIN+8'', JStr ''SIGRTMIN+9'', JStr ''SIGSEGV'', JStr ''SIGSTKFLT'', JStr ''SIGSTOP'', JStr ''SIGSYS'', JStr ''SIGTERM'', JStr ''SIGTRAP'', JStr ''SIGTSTP'', JStr ''SIGTTIN'', JStr ''SIGTTOU'', JStr ''SIGURG'', JStr ''SIGUSR1'', JStr ''SIGUSR2'', JStr ''SIGVTALRM'', JStr ''SIGWINCH'', JStr ''SIGXCPU'', JStr ''SIGXFSZ''] (plainS ''string'' ''''))] [],
     od_Dependencies = [''k8s.io/api/core/v1.LifecycleHandler'']\<rparr>"

definition schema_core_LifecycleHandler :: "(string \<Rightarrow> 'r) \<Rightarrow> 'r openapi_definition" where [openapi_data]:
  "schema_core_LifecycleHandler ref = \<lparr>
     od_Schema = objectS [
     (''exec'', refS (ref ''k8s.io/api/core/v1.ExecAction'')),
     (''httpGet'', refS (ref ''k8s.io/api/core/v1.HTTPGetAction'')),
     (''tcpSocket'', refS (ref ''k8s.io/api/core/v1.TCPSocketAction'')),
     (''sleep'', refS (ref ''k8s.io/api/core/v1.SleepAction''))] [],
     od_Dependencies = [''k8s.io/api/core/v1.ExecAction'', ''k8s.io/api/core/v1.HTTPGetAction'', ''k8s.io/api/core/v1.SleepAction'', ''k8s.io/api/core/v1.TCPSocketAction'']\<rparr>"

definition schema_core_NodeAffinity :: "(string \<Rightarrow> 'r) \<Rightarrow> 'r openapi_definition" where [openapi_data]:
  "schema_core_NodeAffinity ref = \<lparr>
     od_Schema = objectS [
     (''requiredDuringSchedulingIgnoredDuringExecution'', refS (ref ''k8s.io/api/core/v1.NodeSelector'')),
     (''preferredDuringSchedulingIgnoredDuringExecution'', withExtensions [(''x-kubernetes-list-type'', JStr ''atomic'')]
       (arrayS (withDefault (JObj []) (refS (ref ''k8s.io/api/core/v1.PreferredSchedulingTerm'')))))] [],
     od_Dependencies = [''k8s.io/api/core/v1.NodeSelector'', ''k8s.io/api/core/v1.PreferredSchedulingTerm'']\<rparr>"

definition schema_core_NodeSelector :: "(string \<Rightarrow> 'r) \<Rightarrow> 'r openapi_definition" where [openapi_data]:
  "schema_core_NodeSelector ref = \<lparr>
     od_Schema = withExtensions [(''x-kubernetes-map-type'', JStr ''atomic'')]
       (objectS [
     (''nodeSelectorTerms'', withExtensions [(''x-kubernetes-list-type'', JStr ''atomic'')]
       (arrayS (withDefault (JObj []) (refS (ref ''k8s.io/api/core/v1.NodeSelectorTerm'')))))] [''nodeSelectorTerms'']),
     od_Dependencies = [''k8s.io/api/core/v1.NodeSelectorTerm'']\<rparr>"

definition schema_core_NodeSelectorRequirement :: "(string \<Rightarrow> 'r) \<Rightarrow> 'r openapi_definition" where [openapi_data]:
  "schema_core_NodeSelectorRequirement ref = \<lparr>
     od_Schema = objectS [
     (''key'', withDefault (JStr '''') (plainS ''string'' '''')),
     (''operator'', withDefault (JStr '''') (withEnum [JStr ''DoesNotExist'', JStr ''Exists'', JStr ''Gt'', JStr ''In'', JStr ''Lt'', JStr ''NotIn''] (plainS ''string'' ''''))),
     (''values'', withExtensions [(''x-kubernetes-list-type'', JStr ''atomic'')]
       (arrayS (withDefault (JStr '''') (plainS ''string'' ''''))))] [''key'', ''operator''],
     od_Dependencies = []\<rparr>"

definition schema_core_NodeSelectorTerm :: "(string \<Rightarrow> 'r) \<Rightarrow> 'r openapi_definition" where [openapi_data]:
  "schema_core_NodeSelectorTerm ref = \<lparr>
     od_Schema = withExtensions [(''x-kubernetes-map-type'', JStr ''atomic'')]
       (objectS [
     (''matchExpressions'', withExtensions [(''x-kubernetes-list-type'', JStr ''atomic'')]
       (arrayS (withDefault (JObj []) (refS (ref ''k8s.io/api/core/v1.NodeSelectorRequirement''))))),
     (''matchFields'', withExtensions [(''x-kubernetes-list-type'', JStr ''atomic'')]
       (arrayS (withDefault (JObj []) (refS (ref ''k8s.io/api/core/v1.NodeSelectorRequirement'')))))] []),
     od_Dependencies = [''k8s.io/api/core/v1.NodeSelectorRequirement'']\<rparr>"

definition schema_core_PodAffinity :: "(string \<Rightarrow> 'r) \<Rightarrow> 'r openapi_definition" where [openapi_data]:
  "schema_core_PodAffinity ref = \<lparr>
     od_Schema = objectS [
     (''requiredDuringSchedulingIgnoredDuringExecution'', withExtensions [(''x-kubernetes-list-type'', JStr ''atomic'')]
       (arrayS (withDefault (JObj []) (refS (ref ''k8s.io/api/core/v1.PodAffinityTerm''))))),
     (''preferredDuringSchedulingIgnoredDuringExecution'', withExtensions [(''x-kubernetes-list-type'', JStr ''atomic'')]
       (arrayS (withDefault (JObj []) (refS (ref ''k8s.io/api/core/v1.WeightedPodAffinityTerm'')))))] [],
     od_Dependencies = [''k8s.io/api/core/v1.PodAffinityTerm'', ''k8s.io/api/core/v1.WeightedPodAffinityTerm'']\<rparr>"

definition schema_core_PodAffinityTerm :: "(string \<Rightarrow> 'r) \<Rightarrow> 'r openapi_definition" where [openapi_data]:
  "schema_core_PodAffinityTerm ref = \<lparr>
     od_Schema = objectS [
     (''labelSelector'', refS (ref ''k8s.io/apimachinery/pkg/apis/meta/v1.LabelSelector'')),
     (''namespaces'', withExtensions [(''x-kubernetes-list-type'', JStr ''atomic'')]
       (arrayS (withDefault (JStr '''') (plainS ''string'' '''')))),
     (''topologyKey'', withDefault (JStr '''') (plainS ''string'' '''')),
     (''namespaceSelector'', refS (ref ''k8s.io/apimachinery/pkg/apis/meta/v1.LabelSelector'')),
     (''matchLabelKeys'', withExtensions [(''x-kubernetes-list-type'', JStr ''atomic'')]
       (arrayS (withDefault (JStr '''') (plainS ''string'' '''')))),
     (''mismatchLabelKeys'', withExtensions [(''x-kubernetes-list-type'', JStr ''atomic'')]
       (arrayS (withDefault (JStr '''') (plainS ''string'' ''''))))] [''topologyKey''],
     od_Dependencies = [''k8s.io/apimachinery/pkg/apis/meta/v1.LabelSelector'']\<rparr>"

definition schema_core_PodAntiAffinity :: "(string \<Rightarrow> 'r) \<Rightarrow> 'r openapi_definition" where [openapi_data]:
  "schema_core_PodAntiAffinity ref = \<lparr>
     od_Schema = objectS [
     (''requiredDuringSchedulingIgnoredDuringExecution'', withExtensions [(''x-kubernetes-list-type'', JStr ''atomic'')]
       (arrayS (withDefault (JObj []) (refS (ref ''k8s.io/api/core/v1.PodAffinityTerm''))))),
     (''preferredDuringSchedulingIgnoredDuringExecution'', withExtensions [(''x-kubernetes-list-type'', JStr ''atomic'')]
       (arrayS (withDefault (JObj []) (refS (ref ''k8s.io/api/core/v1.WeightedPodAffinityTerm'')))))] [],
     od_Dependencies = [''k8s.io/api/core/v1.PodAffinityTerm'', ''k8s.io/api/core/v1.WeightedPodAffinityTerm'']\<rparr>"

definition schema_core_PodDNSConfig :: "(string \<Rightarrow> 'r) \<Rightarrow> 'r openapi_definition" where [openapi_data]:
  "schema_core_PodDNSConfig ref = \<lparr>
     od_Schema = objectS [
     (''nameservers'', withExtensions [(''x-kubernetes-list-type'', JStr ''atomic'')]
       (arrayS (withDefault (JStr '''') (plainS ''string'' '''')))),
     (''searches'', withExtensions [(''x-kubernetes-list-type'', JStr ''atomic'')]
       (arrayS (withDefault (JStr '''') (plainS ''string'' '''')))),
     (''options'', withExtensions [(''x-kubernetes-list-type'', JStr ''atomic'')]
       (arrayS (withDefault (JObj []) (refS (ref ''k8s.io/api/core/v1.PodDNSConfigOption'')))))] [],
     od_Dependencies = [''k8s.io/api/core/v1.PodDNSConfigOption'']\<rparr>"

definition schema_core_PodDNSConfigOption :: "(string \<Rightarrow> 'r) \<Rightarrow> 'r openapi_definition" where [openapi_data]:
  "schema_core_PodDNSConfigOption ref = \<lparr>
     od_Schema = objectS [
     (''name'', plainS ''string'' ''''),
     (''value'', plainS ''string'' '''')] [],
     od_Dependencies = []\<rparr>"

definition schema_core_PodOS :: "(string \<Rightarrow> 'r) \<Rightarrow> 'r openapi_definition" where [openapi_data]:
  "schema_core_PodOS ref = \<lparr>
     od_Schema = objectS [
     (''name'', withDefault (JStr '''') (plainS ''string'' ''''))] [''name''],
     od_Dependencies = []\<rparr>"

definition schema_core_PodReadinessGate :: "(string \<Rightarrow> 'r) \<Rightarrow> 'r openapi_definition" where [openapi_data]:
  "schema_core_PodReadinessGate ref = \<lparr>
     od_Schema = objectS [
     (''conditionType'', withDefault (JStr '''') (plainS ''string'' ''''))] [''conditionType''],
     od_Dependencies = []\<rparr>"

definition schema_core_PodSecurityContext :: "(string \<Rightarrow> 'r) \<Rightarrow> 'r openapi_definition" where [openapi_data]:
  "schema_core_PodSecurityContext ref = \<lparr>
     od_Schema = objectS [
     (''seLinuxOptions'', refS (ref ''k8s.io/api/core/v1.SELinuxOptions'')),
     (''windowsOptions'', refS (ref ''k8s.io/api/core/v1.WindowsSecurityContextOptions'')),
     (''runAsUser'', plainS ''integer'' ''int64''),
     (''runAsGroup'', plainS ''integer'' ''int64''),
     (''runAsNonRoot'', plainS ''boolean'' ''''),
     (''supplementalGroups'', withExtensions [(''x-kubernetes-list-type'', JStr ''atomic'')]
       (arrayS (withDefault (JNum ''0'') (plainS ''integer'' ''int64'')))),
     (''supplementalGroupsPolicy'', withEnum [JStr ''Merge'', JStr ''Strict''] (plainS ''string'' '''')),
     (''fsGroup'', plainS ''integer'' ''int64''),
     (''sysctls'', withExtensions [(''x-kubernetes-list-type'', JStr ''atomic'')]
       (arrayS (withDefault (JObj []) (refS (ref ''k8s.io/api/core/v1.Sysctl''))))),
     (''fsGroupChangePolicy'', withEnum [JStr ''Always'', JStr ''OnRootMismatch''] (plainS ''string'' '''')),
     (''seccompProfile'', refS (ref ''k8s.io/api/core/v1.SeccompProfile'')),
     (''appArmorProfile'', refS (ref ''k8s.io/api/core/v1.AppArmorProfile'')),
     (''seLinuxChangePolicy'', plainS ''string'' '''')] [],
     od_Dependencies = [''k8s.io/api/core/v1.AppArmorProfile'', ''k8s.io/api/core/v1.SELinuxOptions'', ''k8s.io/api/core/v1.SeccompProfile'', ''k8s.io/api/core/v1.Sysctl'', ''k8s.io/api/core/v1.WindowsSecurityContextOptions'']\<rparr>"

definition schema_core_PreferredSchedulingTerm :: "(string \<Rightarrow> 'r) \<Rightarrow> 'r openapi_definition" where [openapi_data]:
  "schema_core_PreferredSchedulingTerm ref = \<lparr>
     od_Schema = objectS [
     (''weight'', withDefault (JNum ''0'') (plainS ''integer'' ''int32'')),
     (''preference'', withDefault (JObj []) (refS (ref ''k8s.io/api/core/v1.NodeSelectorTerm'')))] [''weight'', ''preference''],
     od_Dependencies = [''k8s.io/api/core/v1.NodeSelectorTerm'']\<rparr>"

definition schema_core_Probe :: "(string \<Rightarrow> 'r) \<Rightarrow> 'r openapi_definition" where [openapi_data]:
  "schema_core_Probe ref = \<lparr>
     od_Schema = objectS [
     (''exec'', refS (ref ''k8s.io/api/core/v1.ExecAction'')),
     (''httpGet'', refS (ref ''k8s.io/api/core/v1.HTTPGetAction'')),
     (''tcpSocket'', refS (ref ''k8s.io/api/core/v1.TCPSocketAction'')),
     (''grpc'', refS (ref ''k8s.io/api/core/v1.GRPCAction'')),
     (''initialDelaySeconds'', plainS ''integer'' ''int32''),
     (''timeoutSeconds'', plainS ''integer'' ''int32''),
     (''periodSeconds'', plainS ''integer'' ''int32''),
     (''successThreshold'', plainS ''integer'' ''int32''),
     (''failureThreshold'', plainS ''integer'' ''int32''),
     (''terminationGracePeriodSeconds'', plainS ''integer'' ''int64'')] [],
     od_Dependencies = [''k8s.io/api/core/v1.ExecAction'', ''k8s.io/api/core/v1.GRPCAction'', ''k8s.io/api/core/v1.HTTPGetAction'', ''k8s.io/api/core/v1.TCPSocketAction'']\<rparr>"

definition schema_core_ResourceClaim :: "(string \<Rightarrow> 'r) \<Rightarrow> 'r openapi_definition" where [openapi_data]:
  "schema_core_ResourceClaim ref = \<lparr>
     od_Schema = objectS [
     (''name'', withDefault (JStr '''') (plainS ''string'' '''')),
     (''request'', plainS ''string'' '''')] [''name''],
     od_Dependencies = []\<rparr>"

definition schema_core_ResourceRequirements :: "(string \<Rightarrow> 'r) \<Rightarrow> 'r openapi_definition" where [openapi_data]:
  "schema_core_ResourceRequirements ref = \<lparr>
     od_Schema = objectS [
     (''limits'', mapS (refS (ref ''k8s.io/apimachinery/pkg/api/resource.Quantity''))),
     (''requests'', mapS (refS (ref ''k8s.io/apimachinery/pkg/api/resource.Quantity''))),
     (''claims'', withExtensions [(''x-kubernetes-list-map-keys'', JArr [JStr ''name'']), (''x-kubernetes-list-type'', JStr ''map'')]
       (arrayS (withDefault (JObj []) (refS (ref ''k8s.io/api/core/v1.ResourceClaim'')))))] [],
     od_Dependencies = [''k8s.io/api/core/v1.ResourceClaim'', ''k8s.io/apimachinery/pkg/api/resource.Quantity'']\<rparr>"

definition schema_core_SELinuxOptions :: "(string \<Rightarrow> 'r) \<Rightarrow> 'r openapi_definition" where [openapi_data]:
  "schema_core_SELinuxOptions ref = \<lparr>
     od_Schema = objectS [
     (''user'', plainS ''string'' ''''),
     (''role'', plainS ''string'' ''''),
     (''type'', plainS ''string'' ''''),
     (''level'', plainS ''string'' '''')] [],
     od_Dependencies = []\<rparr>"

definition schema_core_SeccompProfile :: "(string \<Rightarrow> 'r) \<Rightarrow> 'r openapi_definition" where [openapi_data]:
  "schema_core_SeccompProfile ref = \<lparr>
     od_Schema = withExtensions [(''x-kubernetes-unions'', JArr [JObj [(''discriminator'', JStr ''type''), (''fields-to-discriminateBy'', JObj [(''localhostProfile'', JStr ''LocalhostProfile'')])]])]
       (objectS [
     (''type'', withDefault (JStr '''') (withEnum [JStr ''Localhost'', JStr ''RuntimeDefault'', JStr ''Unconfined''] (plainS ''string'' ''''))),
     (''localhostProfile'', plainS ''string'' '''')] [''type'']),
     od_Dependencies = []\<rparr>"

definition schema_core_SecretEnvSource :: "(string \<Rightarrow> 'r) \<Rightarrow> 'r openapi_definition" where [openapi_data]:
  "schema_core_SecretEnvSource ref = \<lparr>
     od_Schema = objectS [
     (''name'', withDefault (JStr '''') (plainS ''string'' '''')),
     (''optional'', plainS ''boolean'' '''')] [],
     od_Dependencies = []\<rparr>"

definition schema_core_SecretKeySelector :: "(string \<Rightarrow> 'r) \<Rightarrow> 'r openapi_definition" where [openapi_data]:
  "schema_core_SecretKeySelector ref = \<lparr>
     od_Schema = withExtensions [(''x-kubernetes-map-type'', JStr ''atomic'')]
       (objectS [
     (''name'', withDefault (JStr '''') (plainS ''string'' '''')),
     (''key'', withDefault (JStr '''') (plainS ''string'' '''')),
     (''optional'', plainS ''boolean'' '''')] [''key'']),
     od_Dependencies = []\<rparr>"

definition schema_core_SecurityContext :: "(string \<Rightarrow> 'r) \<Rightarrow> 'r openapi_definition" where [openapi_data]:
  "schema_core_SecurityContext ref = \<lparr>
     od_Schema = objectS [
     (''capabilities'', refS (ref ''k8s.io/api/core/v1.Capabilities'')),
     (''privileged'', plainS ''boolean'' ''''),
     (''seLinuxOptions'', refS (ref ''k8s.io/api/core/v1.SELinuxOptions'')),
     (''windowsOptions'', refS (ref ''k8s.io/api/core/v1.WindowsSecurityContextOptions'')),
     (''runAsUser'', plainS ''integer'' ''int64''),
     (''runAsGroup'', plainS ''integer'' ''int64''),
     (''runAsNonRoot'', plainS ''boolean'' ''''),
     (''readOnlyRootFilesystem'', plainS ''boolean'' ''''),
     (''allowPrivilegeEscalation'', plainS ''boolean'' ''''),
     (''procMount'', withEnum [JStr ''Default'', JStr ''Unmasked''] (plainS ''string'' '''')),
     (''seccompProfile'', refS (ref ''k8s.io/api/core/v1.SeccompProfile'')),
     (''appArmorProfile'', refS (ref ''k8s.io/api/core/v1.AppArmorProfile''))] [],
     od_Dependencies = [''k8s.io/api/core/v1.AppArmorProfile'', ''k8s.io/api/core/v1.Capabilities'', ''k8s.io/api/core/v1.SELinuxOptions'', ''k8s.io/api/core/v1.SeccompProfile'', ''k8s.io/api/core/v1.WindowsSecurityContextOptions'']\<rparr>"

definition schema_core_SleepAction :: "(string \<Rightarrow> 'r) \<Rightarrow> 'r openapi_definition" where [openapi_data]:
  "schema_core_SleepAction ref = \<lparr>
     od_Schema = objectS [
     (''seconds'', withDefault (JNum ''0'') (plainS ''integer'' ''int64''))] [''seconds''],
     od_Dependencies = []\<rparr>"

definition schema_core_Sysctl :: "(string \<Rightarrow> 'r) \<Rightarrow> 'r openapi_definition" where [openapi_data]:
  "schema_core_Sysctl ref = \<lparr>
     od_Schema = objectS [
     (''name'', withDefault (JStr '''') (plainS ''string'' '''')),
     (''value'', withDefault (JStr '''') (plainS ''string'' ''''))] [''name'', ''value''],
     od_Dependencies = []\<rparr>"

definition schema_core_TCPSocketAction :: "(string \<Rightarrow> 'r) \<Rightarrow> 'r openapi_definition" where [openapi_data]:
  "schema_core_TCPSocketAction ref = \<lparr>
     od_Schema = objectS [
     (''port'', refS (ref ''k8s.io/apimachinery/pkg/util/intstr.IntOrString'')),
     (''host'', plainS ''string'' '''')] [''port''],
     od_Dependencies = [''k8s.io/apimachinery/pkg/util/intstr.IntOrString'']\<rparr>"

definition schema_core_Toleration :: "(string \<Rightarrow> 'r) \<Rightarrow> 'r openapi_definition" where [openapi_data]:
  "schema_core_Toleration ref = \<lparr>
     od_Schema = objectS [
     (''key'', plainS ''string'' ''''),
     (''operator'', withEnum [JStr ''Equal'', JStr ''Exists''] (plainS ''string'' '''')),
     (''value'', plainS ''string'' ''''),
     (''effect'', withEnum [JStr ''NoExecute'', JStr ''NoSchedule'', JStr ''PreferNoSchedule''] (plainS ''string'' '''')),
     (''tolerationSeconds'', plainS ''integer'' ''int64'')] [],
     od_Dependencies = []\<rparr>"

definition schema_core_TopologySpreadConstraint :: "(string \<Rightarrow> 'r) \<Rightarrow> 'r openapi_definition" where [openapi_data]:
  "schema_core_TopologySpreadConstraint ref = \<lparr>
     od_Schema = objectS [
     (''maxSkew'', withDefault (JNum ''0'') (plainS ''integer'' ''int32'')),
     (''topologyKey'', withDefault (JStr '''') (plainS ''string'' '''')),
     (''whenUnsatisfiable'', withDefault (JStr '''') (withEnum [JStr ''DoNotSchedule'', JStr ''ScheduleAnyway''] (plainS ''string'' ''''))),
     (''labelSelector'', refS (ref ''k8s.io/apimachinery/pkg/apis/meta/v1.LabelSelector'')),
     (''minDomains'', plainS ''integer'' ''int32''),
     (''nodeAffinityPolicy'', withEnum [JStr ''Honor'', JStr ''Ignore''] (plainS ''string'' '''')),
     (''nodeTaintsPolicy'', withEnum [JStr ''Honor'', JStr ''Ignore''] (plainS ''string'' '''')),
     (''matchLabelKeys'', withExtensions [(''x-kubernetes-list-type'', JStr ''atomic'')]
       (arrayS (withDefault (JStr '''') (plainS ''string'' ''''))))] [''maxSkew'', ''topologyKey'', ''whenUnsatisfiable''],
     od_Dependencies = [''k8s.io/apimachinery/pkg/apis/meta/v1.LabelSelector'']\<rparr>"

definition schema_core_VolumeDevice :: "(string \<Rightarrow> 'r) \<Rightarrow> 'r openapi_definition" where [openapi_data]:
  "schema_core_VolumeDevice ref = \<lparr>
     od_Schema = objectS [
     (''name'', withDefault (JStr '''') (plainS ''string'' '''')),
     (''devicePath'', withDefault (JStr '''') (plainS ''string'' ''''))] [''name'', ''devicePath''],
     od_Dependencies = []\<rparr>"

definition schema_core_VolumeMount :: "(string \<Rightarrow> 'r) \<Rightarrow> 'r openapi_definition" where [openapi_data]:
  "schema_core_VolumeMount ref = \<lparr>
     od_Schema = objectS [
     (''name'', withDefault (JStr '''') (plainS ''string'' '''')),
     (''readOnly'', plainS ''boolean'' ''''),
     (''recursiveReadOnly'', plainS ''string'' ''''),
     (''mountPath'', withDefault (JStr '''') (plainS ''string'' '''')),
     (''subPath'', plainS ''string'' ''''),
     (''mountPropagation'', withEnum [JStr ''Bidirectional'', JStr ''HostToContainer'', JStr ''None''] (plainS ''string'' '''')),
     (''subPathExpr'', plainS ''string'' '''')] [''name'', ''mountPath''],
     od_Dependencies = []\<rparr>"

definition schema_core_WeightedPodAffinityTerm :: "(string \<Rightarrow> 'r) \<Rightarrow> 'r openapi_definition" where [openapi_data]:
  "schema_core_WeightedPodAffinityTerm ref = \<lparr>
     od_Schema = objectS [
     (''weight'', withDefault (JNum ''0'') (plainS ''integer'' ''int32'')),
     (''podAffinityTerm'', withDefault (JObj []) (refS (ref ''k8s.io/api/core/v1.PodAffinityTerm'')))] [''weight'', ''podAffinityTerm''],
     od_Dependencies = [''k8s.io/api/core/v1.PodAffinityTerm'']\<rparr>"

definition schema_core_WindowsSecurityContextOptions :: "(string \<Rightarrow> 'r) \<Rightarrow> 'r openapi_definition" where [openapi_data]:
  "schema_core_WindowsSecurityContextOptions ref = \<lparr>
     od_Schema = objectS [
     (''gmsaCredentialSpecName'', plainS ''string'' ''''),
     (''gmsaCredentialSpec'', plainS ''string'' ''''),
     (''runAsUserName'', plainS ''string'' ''''),
     (''hostProcess'', plainS ''boolean'' '''')] [],
     od_Dependencies = []\<rparr>"

section \<open>The declarations\<close>

definition core_Affinity_fields :: "go_field list" where [openapi_data]:
  "core_Affinity_fields = [
     goField ''NodeAffinity'' (GPtr (GStruct ''k8s.io/api/core/v1.NodeAffinity'')) ''nodeAffinity'' True True,
     goField ''PodAffinity'' (GPtr (GStruct ''k8s.io/api/core/v1.PodAffinity'')) ''podAffinity'' True True,
     goField ''PodAntiAffinity'' (GPtr (GStruct ''k8s.io/api/core/v1.PodAntiAffinity'')) ''podAntiAffinity'' True True]"

definition core_AppArmorProfile_fields :: "go_field list" where [openapi_data]:
  "core_AppArmorProfile_fields = [
     goField ''Type'' (core_AppArmorProfileType) ''type'' False False,
     goField ''LocalhostProfile'' (GPtr (GString)) ''localhostProfile'' True True]"

definition core_Capabilities_fields :: "go_field list" where [openapi_data]:
  "core_Capabilities_fields = [
     listed ''atomic'' [] (goField ''Add'' (GSlice (GNamedString ''k8s.io/api/core/v1.Capability'')) ''add'' True True),
     listed ''atomic'' [] (goField ''Drop'' (GSlice (GNamedString ''k8s.io/api/core/v1.Capability'')) ''drop'' True True)]"

definition core_ConfigMapEnvSource_fields :: "go_field list" where [openapi_data]:
  "core_ConfigMapEnvSource_fields = core_LocalObjectReference_fields @ [
     goField ''Optional'' (GPtr (GBool)) ''optional'' True True]"

definition core_ConfigMapKeySelector_fields :: "go_field list" where [openapi_data]:
  "core_ConfigMapKeySelector_fields = core_LocalObjectReference_fields @ [
     goField ''Key'' (GString) ''key'' False False,
     goField ''Optional'' (GPtr (GBool)) ''optional'' True True]"

definition core_ContainerPort_fields :: "go_field list" where [openapi_data]:
  "core_ContainerPort_fields = [
     goField ''Name'' (GString) ''name'' True True,
     goField ''HostPort'' (GInt32) ''hostPort'' True True,
     goField ''ContainerPort'' (GInt32) ''containerPort'' False False,
     defaultsTo (JStr ''TCP'') (goField ''Protocol'' (core_Protocol) ''protocol'' True True),
     goField ''HostIP'' (GString) ''hostIP'' True True]"

definition core_ContainerResizePolicy_fields :: "go_field list" where [openapi_data]:
  "core_ContainerResizePolicy_fields = [
     goField ''ResourceName'' (GNamedString ''k8s.io/api/core/v1.ResourceName'') ''resourceName'' False False,
     goField ''RestartPolicy'' (GNamedString ''k8s.io/api/core/v1.ResourceResizeRestartPolicy'') ''restartPolicy'' False False]"

definition core_ContainerRestartRule_fields :: "go_field list" where [openapi_data]:
  "core_ContainerRestartRule_fields = [
     goField ''Action'' (GNamedString ''k8s.io/api/core/v1.ContainerRestartRuleAction'') ''action'' True False,
     goField ''ExitCodes'' (GPtr (GStruct ''k8s.io/api/core/v1.ContainerRestartRuleOnExitCodes'')) ''exitCodes'' True True]"

definition core_ContainerRestartRuleOnExitCodes_fields :: "go_field list" where [openapi_data]:
  "core_ContainerRestartRuleOnExitCodes_fields = [
     goField ''Operator'' (GNamedString ''k8s.io/api/core/v1.ContainerRestartRuleOnExitCodesOperator'') ''operator'' True False,
     listed ''set'' [] (goField ''Values'' (GSlice (GInt32)) ''values'' True True)]"

definition core_EnvFromSource_fields :: "go_field list" where [openapi_data]:
  "core_EnvFromSource_fields = [
     goField ''Prefix'' (GString) ''prefix'' True True,
     goField ''ConfigMapRef'' (GPtr (GStruct ''k8s.io/api/core/v1.ConfigMapEnvSource'')) ''configMapRef'' True True,
     goField ''SecretRef'' (GPtr (GStruct ''k8s.io/api/core/v1.SecretEnvSource'')) ''secretRef'' True True]"

definition core_EnvVar_fields :: "go_field list" where [openapi_data]:
  "core_EnvVar_fields = [
     goField ''Name'' (GString) ''name'' False False,
     goField ''Value'' (GString) ''value'' True True,
     goField ''ValueFrom'' (GPtr (GStruct ''k8s.io/api/core/v1.EnvVarSource'')) ''valueFrom'' True True]"

definition core_EnvVarSource_fields :: "go_field list" where [openapi_data]:
  "core_EnvVarSource_fields = [
     goField ''FieldRef'' (GPtr (GStruct ''k8s.io/api/core/v1.ObjectFieldSelector'')) ''fieldRef'' True True,
     goField ''ResourceFieldRef'' (GPtr (GStruct ''k8s.io/api/core/v1.ResourceFieldSelector'')) ''resourceFieldRef'' True True,
     goField ''ConfigMapKeyRef'' (GPtr (GStruct ''k8s.io/api/core/v1.ConfigMapKeySelector'')) ''configMapKeyRef'' True True,
     goField ''SecretKeyRef'' (GPtr (GStruct ''k8s.io/api/core/v1.SecretKeySelector'')) ''secretKeyRef'' True True,
     goField ''FileKeyRef'' (GPtr (GStruct ''k8s.io/api/core/v1.FileKeySelector'')) ''fileKeyRef'' True True]"

definition core_EphemeralContainerCommon_fields :: "go_field list" where [openapi_data]:
  "core_EphemeralContainerCommon_fields = [
     goField ''Name'' (GString) ''name'' False False,
     goField ''Image'' (GString) ''image'' True False,
     listed ''atomic'' [] (goField ''Command'' (GSlice (GString)) ''command'' True True),
     listed ''atomic'' [] (goField ''Args'' (GSlice (GString)) ''args'' True True),
     goField ''WorkingDir'' (GString) ''workingDir'' True True,
     listed ''map'' [''containerPort'', ''protocol''] (patched ''merge'' ''containerPort'' (goField ''Ports'' (GSlice (GStruct ''k8s.io/api/core/v1.ContainerPort'')) ''ports'' True True)),
     listed ''atomic'' [] (goField ''EnvFrom'' (GSlice (GStruct ''k8s.io/api/core/v1.EnvFromSource'')) ''envFrom'' True True),
     listed ''map'' [''name''] (patched ''merge'' ''name'' (goField ''Env'' (GSlice (GStruct ''k8s.io/api/core/v1.EnvVar'')) ''env'' True True)),
     goField ''Resources'' (GStruct ''k8s.io/api/core/v1.ResourceRequirements'') ''resources'' True True,
     listed ''atomic'' [] (goField ''ResizePolicy'' (GSlice (GStruct ''k8s.io/api/core/v1.ContainerResizePolicy'')) ''resizePolicy'' True True),
     goField ''RestartPolicy'' (GPtr (GNamedString ''k8s.io/api/core/v1.ContainerRestartPolicy'')) ''restartPolicy'' True True,
     listed ''atomic'' [] (goField ''RestartPolicyRules'' (GSlice (GStruct ''k8s.io/api/core/v1.ContainerRestartRule'')) ''restartPolicyRules'' True True),
     listed ''map'' [''mountPath''] (patched ''merge'' ''mountPath'' (goField ''VolumeMounts'' (GSlice (GStruct ''k8s.io/api/core/v1.VolumeMount'')) ''volumeMounts'' True True)),
     listed ''map'' [''devicePath''] (patched ''merge'' ''devicePath'' (goField ''VolumeDevices'' (GSlice (GStruct ''k8s.io/api/core/v1.VolumeDevice'')) ''volumeDevices'' True True)),
     goField ''LivenessProbe'' (GPtr (GStruct ''k8s.io/api/core/v1.Probe'')) ''livenessProbe'' True True,
     goField ''ReadinessProbe'' (GPtr (GStruct ''k8s.io/api/core/v1.Probe'')) ''readinessProbe'' True True,
     goField ''StartupProbe'' (GPtr (GStruct ''k8s.io/api/core/v1.Probe'')) ''startupProbe'' True True,
     goField ''Lifecycle'' (GPtr (GStruct ''k8s.io/api/core/v1.Lifecycle'')) ''lifecycle'' True True,
     goField ''TerminationMessagePath'' (GString) ''terminationMessagePath'' True True,
     goField ''TerminationMessagePolicy'' (core_TerminationMessagePolicy) ''terminationMessagePolicy'' True True,
     goField ''ImagePullPolicy'' (core_PullPolicy) ''imagePullPolicy'' True True,
     goField ''SecurityContext'' (GPtr (GStruct ''k8s.io/api/core/v1.SecurityContext'')) ''securityContext'' True True,
     goField ''Stdin'' (GBool) ''stdin'' True True,
     goField ''StdinOnce'' (GBool) ''stdinOnce'' True True,
     goField ''TTY'' (GBool) ''tty'' True True]"

definition core_EphemeralContainer_fields :: "go_field list" where [openapi_data]:
  "core_EphemeralContainer_fields = core_EphemeralContainerCommon_fields @ [
     goField ''TargetContainerName'' (GString) ''targetContainerName'' True True]"

definition core_ExecAction_fields :: "go_field list" where [openapi_data]:
  "core_ExecAction_fields = [
     listed ''atomic'' [] (goField ''Command'' (GSlice (GString)) ''command'' True True)]"

definition core_FileKeySelector_fields :: "go_field list" where [openapi_data]:
  "core_FileKeySelector_fields = [
     goField ''VolumeName'' (GString) ''volumeName'' False False,
     goField ''Path'' (GString) ''path'' False False,
     goField ''Key'' (GString) ''key'' False False,
     defaultsTo (JBool False) (goField ''Optional'' (GPtr (GBool)) ''optional'' True True)]"

definition core_GRPCAction_fields :: "go_field list" where [openapi_data]:
  "core_GRPCAction_fields = [
     goField ''Port'' (GInt32) ''port'' False False,
     defaultsTo (JStr '''') (goField ''Service'' (GPtr (GString)) ''service'' False True)]"

definition core_HTTPGetAction_fields :: "go_field list" where [openapi_data]:
  "core_HTTPGetAction_fields = [
     goField ''Path'' (GString) ''path'' True True,
     goField ''Port'' (GOpaque ''k8s.io/apimachinery/pkg/util/intstr.IntOrString'') ''port'' False False,
     goField ''Host'' (GString) ''host'' True True,
     goField ''Scheme'' (core_URIScheme) ''scheme'' True True,
     listed ''atomic'' [] (goField ''HTTPHeaders'' (GSlice (GStruct ''k8s.io/api/core/v1.HTTPHeader'')) ''httpHeaders'' True True)]"

definition core_HTTPHeader_fields :: "go_field list" where [openapi_data]:
  "core_HTTPHeader_fields = [
     goField ''Name'' (GString) ''name'' False False,
     goField ''Value'' (GString) ''value'' False False]"

definition core_HostAlias_fields :: "go_field list" where [openapi_data]:
  "core_HostAlias_fields = [
     goField ''IP'' (GString) ''ip'' False False,
     listed ''atomic'' [] (goField ''Hostnames'' (GSlice (GString)) ''hostnames'' True False)]"

definition core_Lifecycle_fields :: "go_field list" where [openapi_data]:
  "core_Lifecycle_fields = [
     goField ''PostStart'' (GPtr (GStruct ''k8s.io/api/core/v1.LifecycleHandler'')) ''postStart'' True True,
     goField ''PreStop'' (GPtr (GStruct ''k8s.io/api/core/v1.LifecycleHandler'')) ''preStop'' True True,
     goField ''StopSignal'' (GPtr (core_Signal)) ''stopSignal'' True True]"

definition core_LifecycleHandler_fields :: "go_field list" where [openapi_data]:
  "core_LifecycleHandler_fields = [
     goField ''Exec'' (GPtr (GStruct ''k8s.io/api/core/v1.ExecAction'')) ''exec'' True True,
     goField ''HTTPGet'' (GPtr (GStruct ''k8s.io/api/core/v1.HTTPGetAction'')) ''httpGet'' True True,
     goField ''TCPSocket'' (GPtr (GStruct ''k8s.io/api/core/v1.TCPSocketAction'')) ''tcpSocket'' True True,
     goField ''Sleep'' (GPtr (GStruct ''k8s.io/api/core/v1.SleepAction'')) ''sleep'' True True]"

definition core_NodeAffinity_fields :: "go_field list" where [openapi_data]:
  "core_NodeAffinity_fields = [
     goField ''RequiredDuringSchedulingIgnoredDuringExecution'' (GPtr (GStruct ''k8s.io/api/core/v1.NodeSelector'')) ''requiredDuringSchedulingIgnoredDuringExecution'' True True,
     listed ''atomic'' [] (goField ''PreferredDuringSchedulingIgnoredDuringExecution'' (GSlice (GStruct ''k8s.io/api/core/v1.PreferredSchedulingTerm'')) ''preferredDuringSchedulingIgnoredDuringExecution'' True True)]"

definition core_NodeSelector_fields :: "go_field list" where [openapi_data]:
  "core_NodeSelector_fields = [
     listed ''atomic'' [] (goField ''NodeSelectorTerms'' (GSlice (GStruct ''k8s.io/api/core/v1.NodeSelectorTerm'')) ''nodeSelectorTerms'' False False)]"

definition core_NodeSelectorRequirement_fields :: "go_field list" where [openapi_data]:
  "core_NodeSelectorRequirement_fields = [
     goField ''Key'' (GString) ''key'' False False,
     goField ''Operator'' (core_NodeSelectorOperator) ''operator'' False False,
     listed ''atomic'' [] (goField ''Values'' (GSlice (GString)) ''values'' True True)]"

definition core_NodeSelectorTerm_fields :: "go_field list" where [openapi_data]:
  "core_NodeSelectorTerm_fields = [
     listed ''atomic'' [] (goField ''MatchExpressions'' (GSlice (GStruct ''k8s.io/api/core/v1.NodeSelectorRequirement'')) ''matchExpressions'' True True),
     listed ''atomic'' [] (goField ''MatchFields'' (GSlice (GStruct ''k8s.io/api/core/v1.NodeSelectorRequirement'')) ''matchFields'' True True)]"

definition core_PodAffinity_fields :: "go_field list" where [openapi_data]:
  "core_PodAffinity_fields = [
     listed ''atomic'' [] (goField ''RequiredDuringSchedulingIgnoredDuringExecution'' (GSlice (GStruct ''k8s.io/api/core/v1.PodAffinityTerm'')) ''requiredDuringSchedulingIgnoredDuringExecution'' True True),
     listed ''atomic'' [] (goField ''PreferredDuringSchedulingIgnoredDuringExecution'' (GSlice (GStruct ''k8s.io/api/core/v1.WeightedPodAffinityTerm'')) ''preferredDuringSchedulingIgnoredDuringExecution'' True True)]"

definition core_PodAffinityTerm_fields :: "go_field list" where [openapi_data]:
  "core_PodAffinityTerm_fields = [
     goField ''LabelSelector'' (GPtr (GStruct ''k8s.io/apimachinery/pkg/apis/meta/v1.LabelSelector'')) ''labelSelector'' True True,
     listed ''atomic'' [] (goField ''Namespaces'' (GSlice (GString)) ''namespaces'' True True),
     goField ''TopologyKey'' (GString) ''topologyKey'' False False,
     goField ''NamespaceSelector'' (GPtr (GStruct ''k8s.io/apimachinery/pkg/apis/meta/v1.LabelSelector'')) ''namespaceSelector'' True True,
     listed ''atomic'' [] (goField ''MatchLabelKeys'' (GSlice (GString)) ''matchLabelKeys'' True True),
     listed ''atomic'' [] (goField ''MismatchLabelKeys'' (GSlice (GString)) ''mismatchLabelKeys'' True True)]"

definition core_PodAntiAffinity_fields :: "go_field list" where [openapi_data]:
  "core_PodAntiAffinity_fields = [
     listed ''atomic'' [] (goField ''RequiredDuringSchedulingIgnoredDuringExecution'' (GSlice (GStruct ''k8s.io/api/core/v1.PodAffinityTerm'')) ''requiredDuringSchedulingIgnoredDuringExecution'' True True),
     listed ''atomic'' [] (goField ''PreferredDuringSchedulingIgnoredDuringExecution'' (GSlice (GStruct ''k8s.io/api/core/v1.WeightedPodAffinityTerm'')) ''preferredDuringSchedulingIgnoredDuringExecution'' True True)]"

definition core_PodDNSConfig_fields :: "go_field list" where [openapi_data]:
  "core_PodDNSConfig_fields = [
     listed ''atomic'' [] (goField ''Nameservers'' (GSlice (GString)) ''nameservers'' True True),
     listed ''atomic'' [] (goField ''Searches'' (GSlice (GString)) ''searches'' True True),
     listed ''atomic'' [] (goField ''Options'' (GSlice (GStruct ''k8s.io/api/core/v1.PodDNSConfigOption'')) ''options'' True True)]"

definition core_PodDNSConfigOption_fields :: "go_field list" where [openapi_data]:
  "core_PodDNSConfigOption_fields = [
     goField ''Name'' (GString) ''name'' True False,
     goField ''Value'' (GPtr (GString)) ''value'' True True]"

definition core_PodOS_fields :: "go_field list" where [openapi_data]:
  "core_PodOS_fields = [
     goField ''Name'' (GNamedString ''k8s.io/api/core/v1.OSName'') ''name'' False False]"

definition core_PodReadinessGate_fields :: "go_field list" where [openapi_data]:
  "core_PodReadinessGate_fields = [
     goField ''ConditionType'' (GNamedString ''k8s.io/api/core/v1.PodConditionType'') ''conditionType'' False False]"

definition core_PodSecurityContext_fields :: "go_field list" where [openapi_data]:
  "core_PodSecurityContext_fields = [
     goField ''SELinuxOptions'' (GPtr (GStruct ''k8s.io/api/core/v1.SELinuxOptions'')) ''seLinuxOptions'' True True,
     goField ''WindowsOptions'' (GPtr (GStruct ''k8s.io/api/core/v1.WindowsSecurityContextOptions'')) ''windowsOptions'' True True,
     goField ''RunAsUser'' (GPtr (GInt64)) ''runAsUser'' True True,
     goField ''RunAsGroup'' (GPtr (GInt64)) ''runAsGroup'' True True,
     goField ''RunAsNonRoot'' (GPtr (GBool)) ''runAsNonRoot'' True True,
     listed ''atomic'' [] (goField ''SupplementalGroups'' (GSlice (GInt64)) ''supplementalGroups'' True True),
     goField ''SupplementalGroupsPolicy'' (GPtr (core_SupplementalGroupsPolicy)) ''supplementalGroupsPolicy'' True True,
     goField ''FSGroup'' (GPtr (GInt64)) ''fsGroup'' True True,
     listed ''atomic'' [] (goField ''Sysctls'' (GSlice (GStruct ''k8s.io/api/core/v1.Sysctl'')) ''sysctls'' True True),
     goField ''FSGroupChangePolicy'' (GPtr (core_PodFSGroupChangePolicy)) ''fsGroupChangePolicy'' True True,
     goField ''SeccompProfile'' (GPtr (GStruct ''k8s.io/api/core/v1.SeccompProfile'')) ''seccompProfile'' True True,
     goField ''AppArmorProfile'' (GPtr (GStruct ''k8s.io/api/core/v1.AppArmorProfile'')) ''appArmorProfile'' True True,
     goField ''SELinuxChangePolicy'' (GPtr (GNamedString ''k8s.io/api/core/v1.PodSELinuxChangePolicy'')) ''seLinuxChangePolicy'' True True]"

definition core_PreferredSchedulingTerm_fields :: "go_field list" where [openapi_data]:
  "core_PreferredSchedulingTerm_fields = [
     goField ''Weight'' (GInt32) ''weight'' False False,
     goField ''Preference'' (GStruct ''k8s.io/api/core/v1.NodeSelectorTerm'') ''preference'' False False]"

definition core_ProbeHandler_fields :: "go_field list" where [openapi_data]:
  "core_ProbeHandler_fields = [
     goField ''Exec'' (GPtr (GStruct ''k8s.io/api/core/v1.ExecAction'')) ''exec'' True True,
     goField ''HTTPGet'' (GPtr (GStruct ''k8s.io/api/core/v1.HTTPGetAction'')) ''httpGet'' True True,
     goField ''TCPSocket'' (GPtr (GStruct ''k8s.io/api/core/v1.TCPSocketAction'')) ''tcpSocket'' True True,
     goField ''GRPC'' (GPtr (GStruct ''k8s.io/api/core/v1.GRPCAction'')) ''grpc'' True True]"

definition core_Probe_fields :: "go_field list" where [openapi_data]:
  "core_Probe_fields = core_ProbeHandler_fields @ [
     goField ''InitialDelaySeconds'' (GInt32) ''initialDelaySeconds'' True True,
     goField ''TimeoutSeconds'' (GInt32) ''timeoutSeconds'' True True,
     goField ''PeriodSeconds'' (GInt32) ''periodSeconds'' True True,
     goField ''SuccessThreshold'' (GInt32) ''successThreshold'' True True,
     goField ''FailureThreshold'' (GInt32) ''failureThreshold'' True True,
     goField ''TerminationGracePeriodSeconds'' (GPtr (GInt64)) ''terminationGracePeriodSeconds'' True True]"

definition core_ResourceClaim_fields :: "go_field list" where [openapi_data]:
  "core_ResourceClaim_fields = [
     goField ''Name'' (GString) ''name'' False False,
     goField ''Request'' (GString) ''request'' True True]"

definition core_ResourceRequirements_fields :: "go_field list" where [openapi_data]:
  "core_ResourceRequirements_fields = [
     goField ''Limits'' (GMap (GOpaque ''k8s.io/apimachinery/pkg/api/resource.Quantity'')) ''limits'' True True,
     goField ''Requests'' (GMap (GOpaque ''k8s.io/apimachinery/pkg/api/resource.Quantity'')) ''requests'' True True,
     listed ''map'' [''name''] (goField ''Claims'' (GSlice (GStruct ''k8s.io/api/core/v1.ResourceClaim'')) ''claims'' True True)]"

definition core_SELinuxOptions_fields :: "go_field list" where [openapi_data]:
  "core_SELinuxOptions_fields = [
     goField ''User'' (GString) ''user'' True True,
     goField ''Role'' (GString) ''role'' True True,
     goField ''Type'' (GString) ''type'' True True,
     goField ''Level'' (GString) ''level'' True True]"

definition core_SeccompProfile_fields :: "go_field list" where [openapi_data]:
  "core_SeccompProfile_fields = [
     goField ''Type'' (core_SeccompProfileType) ''type'' False False,
     goField ''LocalhostProfile'' (GPtr (GString)) ''localhostProfile'' True True]"

definition core_SecretEnvSource_fields :: "go_field list" where [openapi_data]:
  "core_SecretEnvSource_fields = core_LocalObjectReference_fields @ [
     goField ''Optional'' (GPtr (GBool)) ''optional'' True True]"

definition core_SecretKeySelector_fields :: "go_field list" where [openapi_data]:
  "core_SecretKeySelector_fields = core_LocalObjectReference_fields @ [
     goField ''Key'' (GString) ''key'' False False,
     goField ''Optional'' (GPtr (GBool)) ''optional'' True True]"

definition core_SecurityContext_fields :: "go_field list" where [openapi_data]:
  "core_SecurityContext_fields = [
     goField ''Capabilities'' (GPtr (GStruct ''k8s.io/api/core/v1.Capabilities'')) ''capabilities'' True True,
     goField ''Privileged'' (GPtr (GBool)) ''privileged'' True True,
     goField ''SELinuxOptions'' (GPtr (GStruct ''k8s.io/api/core/v1.SELinuxOptions'')) ''seLinuxOptions'' True True,
     goField ''WindowsOptions'' (GPtr (GStruct ''k8s.io/api/core/v1.WindowsSecurityContextOptions'')) ''windowsOptions'' True True,
     goField ''RunAsUser'' (GPtr (GInt64)) ''runAsUser'' True True,
     goField ''RunAsGroup'' (GPtr (GInt64)) ''runAsGroup'' True True,
     goField ''RunAsNonRoot'' (GPtr (GBool)) ''runAsNonRoot'' True True,
     goField ''ReadOnlyRootFilesystem'' (GPtr (GBool)) ''readOnlyRootFilesystem'' True True,
     goField ''AllowPrivilegeEscalation'' (GPtr (GBool)) ''allowPrivilegeEscalation'' True True,
     goField ''ProcMount'' (GPtr (core_ProcMountType)) ''procMount'' True True,
     goField ''SeccompProfile'' (GPtr (GStruct ''k8s.io/api/core/v1.SeccompProfile'')) ''seccompProfile'' True True,
     goField ''AppArmorProfile'' (GPtr (GStruct ''k8s.io/api/core/v1.AppArmorProfile'')) ''appArmorProfile'' True True]"

definition core_SleepAction_fields :: "go_field list" where [openapi_data]:
  "core_SleepAction_fields = [
     goField ''Seconds'' (GInt64) ''seconds'' False False]"

definition core_Sysctl_fields :: "go_field list" where [openapi_data]:
  "core_Sysctl_fields = [
     goField ''Name'' (GString) ''name'' False False,
     goField ''Value'' (GString) ''value'' False False]"

definition core_TCPSocketAction_fields :: "go_field list" where [openapi_data]:
  "core_TCPSocketAction_fields = [
     goField ''Port'' (GOpaque ''k8s.io/apimachinery/pkg/util/intstr.IntOrString'') ''port'' False False,
     goField ''Host'' (GString) ''host'' True True]"

definition core_Toleration_fields :: "go_field list" where [openapi_data]:
  "core_Toleration_fields = [
     goField ''Key'' (GString) ''key'' True True,
     goField ''Operator'' (core_TolerationOperator) ''operator'' True True,
     goField ''Value'' (GString) ''value'' True True,
     goField ''Effect'' (core_TaintEffect) ''effect'' True True,
     goField ''TolerationSeconds'' (GPtr (GInt64)) ''tolerationSeconds'' True True]"

definition core_TopologySpreadConstraint_fields :: "go_field list" where [openapi_data]:
  "core_TopologySpreadConstraint_fields = [
     goField ''MaxSkew'' (GInt32) ''maxSkew'' False False,
     goField ''TopologyKey'' (GString) ''topologyKey'' False False,
     goField ''WhenUnsatisfiable'' (core_UnsatisfiableConstraintAction) ''whenUnsatisfiable'' False False,
     goField ''LabelSelector'' (GPtr (GStruct ''k8s.io/apimachinery/pkg/apis/meta/v1.LabelSelector'')) ''labelSelector'' True True,
     goField ''MinDomains'' (GPtr (GInt32)) ''minDomains'' True True,
     goField ''NodeAffinityPolicy'' (GPtr (core_NodeInclusionPolicy)) ''nodeAffinityPolicy'' True True,
     goField ''NodeTaintsPolicy'' (GPtr (core_NodeInclusionPolicy)) ''nodeTaintsPolicy'' True True,
     listed ''atomic'' [] (goField ''MatchLabelKeys'' (GSlice (GString)) ''matchLabelKeys'' True True)]"

definition core_VolumeDevice_fields :: "go_field list" where [openapi_data]:
  "core_VolumeDevice_fields = [
     goField ''Name'' (GString) ''name'' False False,
     goField ''DevicePath'' (GString) ''devicePath'' False False]"

definition core_VolumeMount_fields :: "go_field list" where [openapi_data]:
  "core_VolumeMount_fields = [
     goField ''Name'' (GString) ''name'' False False,
     goField ''ReadOnly'' (GBool) ''readOnly'' True True,
     goField ''RecursiveReadOnly'' (GPtr (GNamedString ''k8s.io/api/core/v1.RecursiveReadOnlyMode'')) ''recursiveReadOnly'' True True,
     goField ''MountPath'' (GString) ''mountPath'' False False,
     goField ''SubPath'' (GString) ''subPath'' True True,
     goField ''MountPropagation'' (GPtr (core_MountPropagationMode)) ''mountPropagation'' True True,
     goField ''SubPathExpr'' (GString) ''subPathExpr'' True True]"

definition core_WeightedPodAffinityTerm_fields :: "go_field list" where [openapi_data]:
  "core_WeightedPodAffinityTerm_fields = [
     goField ''Weight'' (GInt32) ''weight'' False False,
     goField ''PodAffinityTerm'' (GStruct ''k8s.io/api/core/v1.PodAffinityTerm'') ''podAffinityTerm'' False False]"

definition core_WindowsSecurityContextOptions_fields :: "go_field list" where [openapi_data]:
  "core_WindowsSecurityContextOptions_fields = [
     goField ''GMSACredentialSpecName'' (GPtr (GString)) ''gmsaCredentialSpecName'' True True,
     goField ''GMSACredentialSpec'' (GPtr (GString)) ''gmsaCredentialSpec'' True True,
     goField ''RunAsUserName'' (GPtr (GString)) ''runAsUserName'' True True,
     goField ''HostProcess'' (GPtr (GBool)) ''hostProcess'' True True]"

section \<open>Agreement\<close>

lemma openapi_pods_sync:
  "od_Schema (schema_core_Affinity ref) = schemaOfStruct ref ([], core_Affinity_fields)"
  "od_Schema (schema_core_AppArmorProfile ref) = schemaOfStruct ref ([Union ''type''], core_AppArmorProfile_fields)"
  "od_Schema (schema_core_Capabilities ref) = schemaOfStruct ref ([], core_Capabilities_fields)"
  "od_Schema (schema_core_ConfigMapEnvSource ref) = schemaOfStruct ref ([], core_ConfigMapEnvSource_fields)"
  "od_Schema (schema_core_ConfigMapKeySelector ref) = schemaOfStruct ref ([StructType ''atomic''], core_ConfigMapKeySelector_fields)"
  "od_Schema (schema_core_ContainerPort ref) = schemaOfStruct ref ([], core_ContainerPort_fields)"
  "od_Schema (schema_core_ContainerResizePolicy ref) = schemaOfStruct ref ([], core_ContainerResizePolicy_fields)"
  "od_Schema (schema_core_ContainerRestartRule ref) = schemaOfStruct ref ([], core_ContainerRestartRule_fields)"
  "od_Schema (schema_core_ContainerRestartRuleOnExitCodes ref) = schemaOfStruct ref ([], core_ContainerRestartRuleOnExitCodes_fields)"
  "od_Schema (schema_core_EnvFromSource ref) = schemaOfStruct ref ([], core_EnvFromSource_fields)"
  "od_Schema (schema_core_EnvVar ref) = schemaOfStruct ref ([], core_EnvVar_fields)"
  "od_Schema (schema_core_EnvVarSource ref) = schemaOfStruct ref ([], core_EnvVarSource_fields)"
  "od_Schema (schema_core_EphemeralContainer ref) = schemaOfStruct ref ([], core_EphemeralContainer_fields)"
  "od_Schema (schema_core_ExecAction ref) = schemaOfStruct ref ([], core_ExecAction_fields)"
  "od_Schema (schema_core_FileKeySelector ref) = schemaOfStruct ref ([StructType ''atomic''], core_FileKeySelector_fields)"
  "od_Schema (schema_core_GRPCAction ref) = schemaOfStruct ref ([], core_GRPCAction_fields)"
  "od_Schema (schema_core_HTTPGetAction ref) = schemaOfStruct ref ([], core_HTTPGetAction_fields)"
  "od_Schema (schema_core_HTTPHeader ref) = schemaOfStruct ref ([], core_HTTPHeader_fields)"
  "od_Schema (schema_core_HostAlias ref) = schemaOfStruct ref ([], core_HostAlias_fields)"
  "od_Schema (schema_core_Lifecycle ref) = schemaOfStruct ref ([], core_Lifecycle_fields)"
  "od_Schema (schema_core_LifecycleHandler ref) = schemaOfStruct ref ([], core_LifecycleHandler_fields)"
  "od_Schema (schema_core_NodeAffinity ref) = schemaOfStruct ref ([], core_NodeAffinity_fields)"
  "od_Schema (schema_core_NodeSelector ref) = schemaOfStruct ref ([StructType ''atomic''], core_NodeSelector_fields)"
  "od_Schema (schema_core_NodeSelectorRequirement ref) = schemaOfStruct ref ([], core_NodeSelectorRequirement_fields)"
  "od_Schema (schema_core_NodeSelectorTerm ref) = schemaOfStruct ref ([StructType ''atomic''], core_NodeSelectorTerm_fields)"
  "od_Schema (schema_core_PodAffinity ref) = schemaOfStruct ref ([], core_PodAffinity_fields)"
  "od_Schema (schema_core_PodAffinityTerm ref) = schemaOfStruct ref ([], core_PodAffinityTerm_fields)"
  "od_Schema (schema_core_PodAntiAffinity ref) = schemaOfStruct ref ([], core_PodAntiAffinity_fields)"
  "od_Schema (schema_core_PodDNSConfig ref) = schemaOfStruct ref ([], core_PodDNSConfig_fields)"
  "od_Schema (schema_core_PodDNSConfigOption ref) = schemaOfStruct ref ([], core_PodDNSConfigOption_fields)"
  "od_Schema (schema_core_PodOS ref) = schemaOfStruct ref ([], core_PodOS_fields)"
  "od_Schema (schema_core_PodReadinessGate ref) = schemaOfStruct ref ([], core_PodReadinessGate_fields)"
  "od_Schema (schema_core_PodSecurityContext ref) = schemaOfStruct ref ([], core_PodSecurityContext_fields)"
  "od_Schema (schema_core_PreferredSchedulingTerm ref) = schemaOfStruct ref ([], core_PreferredSchedulingTerm_fields)"
  "od_Schema (schema_core_Probe ref) = schemaOfStruct ref ([], core_Probe_fields)"
  "od_Schema (schema_core_ResourceClaim ref) = schemaOfStruct ref ([], core_ResourceClaim_fields)"
  "od_Schema (schema_core_ResourceRequirements ref) = schemaOfStruct ref ([], core_ResourceRequirements_fields)"
  "od_Schema (schema_core_SELinuxOptions ref) = schemaOfStruct ref ([], core_SELinuxOptions_fields)"
  "od_Schema (schema_core_SeccompProfile ref) = schemaOfStruct ref ([Union ''type''], core_SeccompProfile_fields)"
  "od_Schema (schema_core_SecretEnvSource ref) = schemaOfStruct ref ([], core_SecretEnvSource_fields)"
  "od_Schema (schema_core_SecretKeySelector ref) = schemaOfStruct ref ([StructType ''atomic''], core_SecretKeySelector_fields)"
  "od_Schema (schema_core_SecurityContext ref) = schemaOfStruct ref ([], core_SecurityContext_fields)"
  "od_Schema (schema_core_SleepAction ref) = schemaOfStruct ref ([], core_SleepAction_fields)"
  "od_Schema (schema_core_Sysctl ref) = schemaOfStruct ref ([], core_Sysctl_fields)"
  "od_Schema (schema_core_TCPSocketAction ref) = schemaOfStruct ref ([], core_TCPSocketAction_fields)"
  "od_Schema (schema_core_Toleration ref) = schemaOfStruct ref ([], core_Toleration_fields)"
  "od_Schema (schema_core_TopologySpreadConstraint ref) = schemaOfStruct ref ([], core_TopologySpreadConstraint_fields)"
  "od_Schema (schema_core_VolumeDevice ref) = schemaOfStruct ref ([], core_VolumeDevice_fields)"
  "od_Schema (schema_core_VolumeMount ref) = schemaOfStruct ref ([], core_VolumeMount_fields)"
  "od_Schema (schema_core_WeightedPodAffinityTerm ref) = schemaOfStruct ref ([], core_WeightedPodAffinityTerm_fields)"
  "od_Schema (schema_core_WindowsSecurityContextOptions ref) = schemaOfStruct ref ([], core_WindowsSecurityContextOptions_fields)"
  by (simp_all add: openapi_data struct_schema_defs)

end
