(* ===== verification/Openapi.thy ===== *)
theory Openapi
  imports Openapi_Pods Openapi_Sidekick
begin

text \<open>
  \<open>src/apis/apps/v1alpha1/openapi_generated.go\<close> as a whole: the registered definitions of the Sidekick API and of
  every type they refer to, directly or through others, and the struct declarations they are
  generated from. The file is checked in, so it can drift apart from the declarations of this package and
  of the vendored ones; the theory proves that it has not, and that the definitions are
  closed. The file has further definitions that no Sidekick refers to (lists, nodes, services, workloads);
  they are not modelled.
\<close>

section \<open>The registered definitions\<close>

text \<open>
  The entries of \<open>GetOpenAPIDefinitions\<close> that a Sidekick refers to, by package: of \<open>k8s.io/api/core/v1\<close>, of
  \<open>k8s.io/apimachinery\<close> and \<open>kmodules.xyz/client-go\<close>, of this package, and of the types with a JSON form
  of their own.
\<close>

definition coreDefinitions :: "(string \<Rightarrow> 'r) \<Rightarrow> (string \<times> 'r openapi_definition) list" where
  "coreDefinitions ref = [
     (''k8s.io/api/core/v1.AWSElasticBlockStoreVolumeSource'', schema_core_AWSElasticBlockStoreVolumeSource ref),
     (''k8s.io/api/core/v1.Affinity'', schema_core_Affinity ref),
     (''k8s.io/api/core/v1.AppArmorProfile'', schema_core_AppArmorProfile ref),
     (''k8s.io/api/core/v1.AzureDiskVolumeSource'', schema_core_AzureDiskVolumeSource ref),
     (''k8s.io/api/core/v1.AzureFileVolumeSource'', schema_core_AzureFileVolumeSource ref),
     (''k8s.io/api/core/v1.CSIVolumeSource'', schema_core_CSIVolumeSource ref),
     (''k8s.io/api/core/v1.Capabilities'', schema_core_Capabilities ref),
     (''k8s.io/api/core/v1.CephFSVolumeSource'', schema_core_CephFSVolumeSource ref),
     (''k8s.io/api/core/v1.CinderVolumeSource'', schema_core_CinderVolumeSource ref),
     (''k8s.io/api/core/v1.ClusterTrustBundleProjection'', schema_core_ClusterTrustBundleProjection ref),
     (''k8s.io/api/core/v1.ConfigMapEnvSource'', schema_core_ConfigMapEnvSource ref),
     (''k8s.io/api/core/v1.ConfigMapKeySelector'', schema_core_ConfigMapKeySelector ref),
     (''k8s.io/api/core/v1.ConfigMapProjection'', schema_core_ConfigMapProjection ref),
     (''k8s.io/api/core/v1.ConfigMapVolumeSource'', schema_core_ConfigMapVolumeSource ref),
     (''k8s.io/api/core/v1.ContainerPort'', schema_core_ContainerPort ref),
     (''k8s.io/api/core/v1.ContainerResizePolicy'', schema_core_ContainerResizePolicy ref),
     (''k8s.io/api/core/v1.ContainerRestartRule'', schema_core_ContainerRestartRule ref),
     (''k8s.io/api/core/v1.ContainerRestartRuleOnExitCodes'', schema_core_ContainerRestartRuleOnExitCodes ref),
     (''k8s.io/api/core/v1.DownwardAPIProjection'', schema_core_DownwardAPIProjection ref),
     (''k8s.io/api/core/v1.DownwardAPIVolumeFile'', schema_core_DownwardAPIVolumeFile ref),
     (''k8s.io/api/core/v1.DownwardAPIVolumeSource'', schema_core_DownwardAPIVolumeSource ref),
     (''k8s.io/api/core/v1.EmptyDirVolumeSource'', schema_core_EmptyDirVolumeSource ref),
     (''k8s.io/api/core/v1.EnvFromSource'', schema_core_EnvFromSource ref),
     (''k8s.io/api/core/v1.EnvVar'', schema_core_EnvVar ref),
     (''k8s.io/api/core/v1.EnvVarSource'', schema_core_EnvVarSource ref),
     (''k8s.io/api/core/v1.EphemeralContainer'', schema_core_EphemeralContainer ref),
     (''k8s.io/api/core/v1.EphemeralVolumeSource'', schema_core_EphemeralVolumeSource ref),
     (''k8s.io/api/core/v1.ExecAction'', schema_core_ExecAction ref),
     (''k8s.io/api/core/v1.FCVolumeSource'', schema_core_FCVolumeSource ref),
     (''k8s.io/api/core/v1.FileKeySelector'', schema_core_FileKeySelector ref),
     (''k8s.io/api/core/v1.FlexVolumeSource'', schema_core_FlexVolumeSource ref),
     (''k8s.io/api/core/v1.FlockerVolumeSource'', schema_core_FlockerVolumeSource ref),
     (''k8s.io/api/core/v1.GCEPersistentDiskVolumeSource'', schema_core_GCEPersistentDiskVolumeSource ref),
     (''k8s.io/api/core/v1.GRPCAction'', schema_core_GRPCAction ref),
     (''k8s.io/api/core/v1.GitRepoVolumeSource'', schema_core_GitRepoVolumeSource ref),
     (''k8s.io/api/core/v1.GlusterfsVolumeSource'', schema_core_GlusterfsVolumeSource ref),
     (''k8s.io/api/core/v1.HTTPGetAction'', schema_core_HTTPGetAction ref),
     (''k8s.io/api/core/v1.HTTPHeader'', schema_core_HTTPHeader ref),
     (''k8s.io/api/core/v1.HostAlias'', schema_core_HostAlias ref),
     (''k8s.io/api/core/v1.HostPathVolumeSource'', schema_core_HostPathVolumeSource ref),
     (''k8s.io/api/core/v1.ISCSIVolumeSource'', schema_core_ISCSIVolumeSource ref),
     (''k8s.io/api/core/v1.ImageVolumeSource'', schema_core_ImageVolumeSource ref),
     (''k8s.io/api/core/v1.KeyToPath'', schema_core_KeyToPath ref),
     (''k8s.io/api/core/v1.Lifecycle'', schema_core_Lifecycle ref),
     (''k8s.io/api/core/v1.LifecycleHandler'', schema_core_LifecycleHandler ref),
     (''k8s.io/api/core/v1.LocalObjectReference'', schema_core_LocalObjectReference ref),
     (''k8s.io/api/core/v1.NFSVolumeSource'', schema_core_NFSVolumeSource ref),
     (''k8s.io/api/core/v1.NodeAffinity'', schema_core_NodeAffinity ref),
     (''k8s.io/api/core/v1.NodeSelector'', schema_core_NodeSelector ref),
     (''k8s.io/api/core/v1.NodeSelectorRequirement'', schema_core_NodeSelectorRequirement ref),
     (''k8s.io/api/core/v1.NodeSelectorTerm'', schema_core_NodeSelectorTerm ref),
     (''k8s.io/api/core/v1.ObjectFieldSelector'', schema_core_ObjectFieldSelector ref),
     (''k8s.io/api/core/v1.PersistentVolumeClaimSpec'', schema_core_PersistentVolumeClaimSpec ref),
     (''k8s.io/api/core/v1.PersistentVolumeClaimTemplate'', schema_core_PersistentVolumeClaimTemplate ref),
     (''k8s.io/api/core/v1.PersistentVolumeClaimVolumeSource'', schema_core_PersistentVolumeClaimVolumeSource ref),
     (''k8s.io/api/core/v1.PhotonPersistentDiskVolumeSource'', schema_core_PhotonPersistentDiskVolumeSource ref),
     (''k8s.io/api/core/v1.PodAffinity'', schema_core_PodAffinity ref),
     (''k8s.io/api/core/v1.PodAffinityTerm'', schema_core_PodAffinityTerm ref),
     (''k8s.io/api/core/v1.PodAntiAffinity'', schema_core_PodAntiAffinity ref),
     (''k8s.io/api/core/v1.PodCertificateProjection'', schema_core_PodCertificateProjection ref),
     (''k8s.io/api/core/v1.PodDNSConfig'', schema_core_PodDNSConfig ref),
     (''k8s.io/api/core/v1.PodDNSConfigOption'', schema_core_PodDNSConfigOption ref),
     (''k8s.io/api/core/v1.PodOS'', schema_core_PodOS ref),
     (''k8s.io/api/core/v1.PodReadinessGate'', schema_core_PodReadinessGate ref),
     (''k8s.io/api/core/v1.PodSecurityContext'', schema_core_PodSecurityContext ref),
     (''k8s.io/api/core/v1.PortworxVolumeSource'', schema_core_PortworxVolumeSource ref),
     (''k8s.io/api/core/v1.PreferredSchedulingTerm'', schema_core_PreferredSchedulingTerm ref),
     (''k8s.io/api/core/v1.Probe'', schema_core_Probe ref),
     (''k8s.io/api/core/v1.ProjectedVolumeSource'', schema_core_ProjectedVolumeSource ref),
     (''k8s.io/api/core/v1.QuobyteVolumeSource'', schema_core_QuobyteVolumeSource ref),
     (''k8s.io/api/core/v1.RBDVolumeSource'', schema_core_RBDVolumeSource ref),
     (''k8s.io/api/core/v1.ResourceClaim'', schema_core_ResourceClaim ref),
     (''k8s.io/api/core/v1.ResourceFieldSelector'', schema_core_ResourceFieldSelector ref),
     (''k8s.io/api/core/v1.ResourceRequirements'', schema_core_ResourceRequirements ref),
     (''k8s.io/api/core/v1.SELinuxOptions'', schema_core_SELinuxOptions ref),
     (''k8s.io/api/core/v1.ScaleIOVolumeSource'', schema_core_ScaleIOVolumeSource ref),
     (''k8s.io/api/core/v1.SeccompProfile'', schema_core_SeccompProfile ref),
     (''k8s.io/api/core/v1.SecretEnvSource'', schema_core_SecretEnvSource ref),
     (''k8s.io/api/core/v1.SecretKeySelector'', schema_core_SecretKeySelector ref),
     (''k8s.io/api/core/v1.SecretProjection'', schema_core_SecretProjection ref),
     (''k8s.io/api/core/v1.SecretVolumeSource'', schema_core_SecretVolumeSource ref),
     (''k8s.io/api/core/v1.SecurityContext'', schema_core_SecurityContext ref),
     (''k8s.io/api/core/v1.ServiceAccountTokenProjection'', schema_core_ServiceAccountTokenProjection ref),
     (''k8s.io/api/core/v1.SleepAction'', schema_core_SleepAction ref),
     (''k8s.io/api/core/v1.StorageOSVolumeSource'', schema_core_StorageOSVolumeSource ref),
     (''k8s.io/api/core/v1.Sysctl'', schema_core_Sysctl ref),
     (''k8s.io/api/core/v1.TCPSocketAction'', schema_core_TCPSocketAction ref),
     (''k8s.io/api/core/v1.Toleration'', schema_core_Toleration ref),
     (''k8s.io/api/core/v1.TopologySpreadConstraint'', schema_core_TopologySpreadConstraint ref),
     (''k8s.io/api/core/v1.TypedLocalObjectReference'', schema_core_TypedLocalObjectReference ref),
     (''k8s.io/api/core/v1.TypedObjectReference'', schema_core_TypedObjectReference ref),
     (''k8s.io/api/core/v1.Volume'', schema_core_Volume ref),
     (''k8s.io/api/core/v1.VolumeDevice'', schema_core_VolumeDevice ref),
     (''k8s.io/api/core/v1.VolumeMount'', schema_core_VolumeMount ref),
     (''k8s.io/api/core/v1.VolumeProjection'', schema_core_VolumeProjection ref),
     (''k8s.io/api/core/v1.VolumeResourceRequirements'', schema_core_VolumeResourceRequirements ref),
     (''k8s.io/api/core/v1.VsphereVirtualDiskVolumeSource'', schema_core_VsphereVirtualDiskVolumeSource ref),
     (''k8s.io/api/core/v1.WeightedPodAffinityTerm'', schema_core_WeightedPodAffinityTerm ref),
     (''k8s.io/api/core/v1.WindowsSecurityContextOptions'', schema_core_WindowsSecurityContextOptions ref)]"

definition metaDefinitions :: "(string \<Rightarrow> 'r) \<Rightarrow> (string \<times> 'r openapi_definition) list" where
  "metaDefinitions ref = [
     (''k8s.io/apimachinery/pkg/apis/meta/v1.FieldsV1'', schema_meta_FieldsV1 ref),
     (''k8s.io/apimachinery/pkg/apis/meta/v1.LabelSelector'', schema_meta_LabelSelector ref),
     (''k8s.io/apimachinery/pkg/apis/meta/v1.LabelSelectorRequirement'', schema_meta_LabelSelectorRequirement ref),
     (''k8s.io/apimachinery/pkg/apis/meta/v1.ListMeta'', schema_meta_ListMeta ref),
     (''k8s.io/apimachinery/pkg/apis/meta/v1.ManagedFieldsEntry'', schema_meta_ManagedFieldsEntry ref),
     (''k8s.io/apimachinery/pkg/apis/meta/v1.ObjectMeta'', schema_meta_ObjectMeta ref),
     (''k8s.io/apimachinery/pkg/apis/meta/v1.OwnerReference'', schema_meta_OwnerReference ref),
     (''k8s.io/apimachinery/pkg/runtime.RawExtension'', schema_runtime_RawExtension ref),
     (''kmodules.xyz/client-go/api/v1.Condition'', schema_kmapi_Condition ref)]"

definition sidekickDefinitions :: "(string \<Rightarrow> 'r) \<Rightarrow> (string \<times> 'r openapi_definition) list" where
  "sidekickDefinitions ref = [
     (''kubeops.dev/sidekick/apis/apps/v1alpha1.Container'', schema_Container ref),
     (''kubeops.dev/sidekick/apis/apps/v1alpha1.LeaderSpec'', schema_LeaderSpec ref),
     (''kubeops.dev/sidekick/apis/apps/v1alpha1.LeaderStatus'', schema_LeaderStatus ref),
     (''kubeops.dev/sidekick/apis/apps/v1alpha1.Sidekick'', schema_Sidekick ref),
     (''kubeops.dev/sidekick/apis/apps/v1alpha1.SidekickList'', schema_SidekickList ref),
     (''kubeops.dev/sidekick/apis/apps/v1alpha1.SidekickSpec'', schema_SidekickSpec ref),
     (''kubeops.dev/sidekick/apis/apps/v1alpha1.SidekickStatus'', schema_SidekickStatus ref),
     (''kubeops.dev/sidekick/apis/apps/v1alpha1.VolumeMount'', schema_VolumeMount ref)]"

definition formDefinitions :: "(string \<Rightarrow> 'r) \<Rightarrow> (string \<times> 'r openapi_definition) list" where
  "formDefinitions ref = [
     (''k8s.io/apimachinery/pkg/api/resource.Quantity'', schema_resource_Quantity ref),
     (''k8s.io/apimachinery/pkg/apis/meta/v1.Time'', schema_meta_Time ref),
     (''k8s.io/apimachinery/pkg/util/intstr.IntOrString'', schema_intstr_IntOrString ref)]"

definition structDefinitions :: "(string \<Rightarrow> 'r) \<Rightarrow> (string \<times> 'r openapi_definition) list" where
  "structDefinitions ref = coreDefinitions ref @ metaDefinitions ref @ sidekickDefinitions ref"

definition openapiDefinitions :: "(string \<Rightarrow> 'r) \<Rightarrow> (string \<times> 'r openapi_definition) list" where
  "openapiDefinitions ref = structDefinitions ref @ formDefinitions ref"

section \<open>The declared structs\<close>

text \<open>The structs with their markers and members, under the names their definitions are registered with.\<close>

definition coreDeclarations :: "(string \<times> go_struct) list" where
  "coreDeclarations = [
     (''k8s.io/api/core/v1.AWSElasticBlockStoreVolumeSource'', ([], core_AWSElasticBlockStoreVolumeSource_fields)),
     (''k8s.io/api/core/v1.Affinity'', ([], core_Affinity_fields)),
     (''k8s.io/api/core/v1.AppArmorProfile'', ([Union ''type''], core_AppArmorProfile_fields)),
     (''k8s.io/api/core/v1.AzureDiskVolumeSource'', ([], core_AzureDiskVolumeSource_fields)),
     (''k8s.io/api/core/v1.AzureFileVolumeSource'', ([], core_AzureFileVolumeSource_fields)),
     (''k8s.io/api/core/v1.CSIVolumeSource'', ([], core_CSIVolumeSource_fields)),
     (''k8s.io/api/core/v1.Capabilities'', ([], core_Capabilities_fields)),
     (''k8s.io/api/core/v1.CephFSVolumeSource'', ([], core_CephFSVolumeSource_fields)),
     (''k8s.io/api/core/v1.CinderVolumeSource'', ([], core_CinderVolumeSource_fields)),
     (''k8s.io/api/core/v1.ClusterTrustBundleProjection'', ([], core_ClusterTrustBundleProjection_fields)),
     (''k8s.io/api/core/v1.ConfigMapEnvSource'', ([], core_ConfigMapEnvSource_fields)),
     (''k8s.io/api/core/v1.ConfigMapKeySelector'', ([StructType ''atomic''], core_ConfigMapKeySelector_fields)),
     (''k8s.io/api/core/v1.ConfigMapProjection'', ([], core_ConfigMapProjection_fields)),
     (''k8s.io/api/core/v1.ConfigMapVolumeSource'', ([], core_ConfigMapVolumeSource_fields)),
     (''k8s.io/api/core/v1.ContainerPort'', ([], core_ContainerPort_fields)),
     (''k8s.io/api/core/v1.ContainerResizePolicy'', ([], core_ContainerResizePolicy_fields)),
     (''k8s.io/api/core/v1.ContainerRestartRule'', ([], core_ContainerRestartRule_fields)),
     (''k8s.io/api/core/v1.ContainerRestartRuleOnExitCodes'', ([], core_ContainerRestartRuleOnExitCodes_fields)),
     (''k8s.io/api/core/v1.DownwardAPIProjection'', ([], core_DownwardAPIProjection_fields)),
     (''k8s.io/api/core/v1.DownwardAPIVolumeFile'', ([], core_DownwardAPIVolumeFile_fields)),
     (''k8s.io/api/core/v1.DownwardAPIVolumeSource'', ([], core_DownwardAPIVolumeSource_fields)),
     (''k8s.io/api/core/v1.EmptyDirVolumeSource'', ([], core_EmptyDirVolumeSource_fields)),
     (''k8s.io/api/core/v1.EnvFromSource'', ([], core_EnvFromSource_fields)),
     (''k8s.io/api/core/v1.EnvVar'', ([], core_EnvVar_fields)),
     (''k8s.io/api/core/v1.EnvVarSource'', ([], core_EnvVarSource_fields)),
     (''k8s.io/api/core/v1.EphemeralContainer'', ([], core_EphemeralContainer_fields)),
     (''k8s.io/api/core/v1.EphemeralVolumeSource'', ([], core_EphemeralVolumeSource_fields)),
     (''k8s.io/api/core/v1.ExecAction'', ([], core_ExecAction_fields)),
     (''k8s.io/api/core/v1.FCVolumeSource'', ([], core_FCVolumeSource_fields)),
     (''k8s.io/api/core/v1.FileKeySelector'', ([StructType ''atomic''], core_FileKeySelector_fields)),
     (''k8s.io/api/core/v1.FlexVolumeSource'', ([], core_FlexVolumeSource_fields)),
     (''k8s.io/api/core/v1.FlockerVolumeSource'', ([], core_FlockerVolumeSource_fields)),
     (''k8s.io/api/core/v1.GCEPersistentDiskVolumeSource'', ([], core_GCEPersistentDiskVolumeSource_fields)),
     (''k8s.io/api/core/v1.GRPCAction'', ([], core_GRPCAction_fields)),
     (''k8s.io/api/core/v1.GitRepoVolumeSource'', ([], core_GitRepoVolumeSource_fields)),
     (''k8s.io/api/core/v1.GlusterfsVolumeSource'', ([], core_GlusterfsVolumeSource_fields)),
     (''k8s.io/api/core/v1.HTTPGetAction'', ([], core_HTTPGetAction_fields)),
     (''k8s.io/api/core/v1.HTTPHeader'', ([], core_HTTPHeader_fields)),
     (''k8s.io/api/core/v1.HostAlias'', ([], core_HostAlias_fields)),
     (''k8s.io/api/core/v1.HostPathVolumeSource'', ([], core_HostPathVolumeSource_fields)),
     (''k8s.io/api/core/v1.ISCSIVolumeSource'', ([], core_ISCSIVolumeSource_fields)),
     (''k8s.io/api/core/v1.ImageVolumeSource'', ([], core_ImageVolumeSource_fields)),
     (''k8s.io/api/core/v1.KeyToPath'', ([], core_KeyToPath_fields)),
     (''k8s.io/api/core/v1.Lifecycle'', ([], core_Lifecycle_fields)),
     (''k8s.io/api/core/v1.LifecycleHandler'', ([], core_LifecycleHandler_fields)),
     (''k8s.io/api/core/v1.LocalObjectReference'', ([StructType ''atomic''], core_LocalObjectReference_fields)),
     (''k8s.io/api/core/v1.NFSVolumeSource'', ([], core_NFSVolumeSource_fields)),
     (''k8s.io/api/core/v1.NodeAffinity'', ([], core_NodeAffinity_fields)),
     (''k8s.io/api/core/v1.NodeSelector'', ([StructType ''atomic''], core_NodeSelector_fields)),
     (''k8s.io/api/core/v1.NodeSelectorRequirement'', ([], core_NodeSelectorRequirement_fields)),
     (''k8s.io/api/core/v1.NodeSelectorTerm'', ([StructType ''atomic''], core_NodeSelectorTerm_fields)),
     (''k8s.io/api/core/v1.ObjectFieldSelector'', ([StructType ''atomic''], core_ObjectFieldSelector_fields)),
     (''k8s.io/api/core/v1.PersistentVolumeClaimSpec'', ([], core_PersistentVolumeClaimSpec_fields)),
     (''k8s.io/api/core/v1.PersistentVolumeClaimTemplate'', ([], core_PersistentVolumeClaimTemplate_fields)),
     (''k8s.io/api/core/v1.PersistentVolumeClaimVolumeSource'', ([], core_PersistentVolumeClaimVolumeSource_fields)),
     (''k8s.io/api/core/v1.PhotonPersistentDiskVolumeSource'', ([], core_PhotonPersistentDiskVolumeSource_fields)),
     (''k8s.io/api/core/v1.PodAffinity'', ([], core_PodAffinity_fields)),
     (''k8s.io/api/core/v1.PodAffinityTerm'', ([], core_PodAffinityTerm_fields)),
     (''k8s.io/api/core/v1.PodAntiAffinity'', ([], core_PodAntiAffinity_fields)),
     (''k8s.io/api/core/v1.PodCertificateProjection'', ([], core_PodCertificateProjection_fields)),
     (''k8s.io/api/core/v1.PodDNSConfig'', ([], core_PodDNSConfig_fields)),
     (''k8s.io/api/core/v1.PodDNSConfigOption'', ([], core_PodDNSConfigOption_fields)),
     (''k8s.io/api/core/v1.PodOS'', ([], core_PodOS_fields)),
     (''k8s.io/api/core/v1.PodReadinessGate'', ([], core_PodReadinessGate_fields)),
     (''k8s.io/api/core/v1.PodSecurityContext'', ([], core_PodSecurityContext_fields)),
     (''k8s.io/api/core/v1.PortworxVolumeSource'', ([], core_PortworxVolumeSource_fields)),
     (''k8s.io/api/core/v1.PreferredSchedulingTerm'', ([], core_PreferredSchedulingTerm_fields)),
     (''k8s.io/api/core/v1.Probe'', ([], core_Probe_fields)),
     (''k8s.io/api/core/v1.ProjectedVolumeSource'', ([], core_ProjectedVolumeSource_fields)),
     (''k8s.io/api/core/v1.QuobyteVolumeSource'', ([], core_QuobyteVolumeSource_fields)),
     (''k8s.io/api/core/v1.RBDVolumeSource'', ([], core_RBDVolumeSource_fields)),
     (''k8s.io/api/core/v1.ResourceClaim'', ([], core_ResourceClaim_fields)),
     (''k8s.io/api/core/v1.ResourceFieldSelector'', ([StructType ''atomic''], core_ResourceFieldSelector_fields)),
     (''k8s.io/api/core/v1.ResourceRequirements'', ([], core_ResourceRequirements_fields)),
     (''k8s.io/api/core/v1.SELinuxOptions'', ([], core_SELinuxOptions_fields)),
     (''k8s.io/api/core/v1.ScaleIOVolumeSource'', ([], core_ScaleIOVolumeSource_fields)),
     (''k8s.io/api/core/v1.SeccompProfile'', ([Union ''type''], core_SeccompProfile_fields)),
     (''k8s.io/api/core/v1.SecretEnvSource'', ([], core_SecretEnvSource_fields)),
     (''k8s.io/api/core/v1.SecretKeySelector'', ([StructType ''atomic''], core_SecretKeySelector_fields)),
     (''k8s.io/api/core/v1.SecretProjection'', ([], core_SecretProjection_fields)),
     (''k8s.io/api/core/v1.SecretVolumeSource'', ([], core_SecretVolumeSource_fields)),
     (''k8s.io/api/core/v1.SecurityContext'', ([], core_SecurityContext_fields)),
     (''k8s.io/api/core/v1.ServiceAccountTokenProjection'', ([], core_ServiceAccountTokenProjection_fields)),
     (''k8s.io/api/core/v1.SleepAction'', ([], core_SleepAction_fields)),
     (''k8s.io/api/core/v1.StorageOSVolumeSource'', ([], core_StorageOSVolumeSource_fields)),
     (''k8s.io/api/core/v1.Sysctl'', ([], core_Sysctl_fields)),
     (''k8s.io/api/core/v1.TCPSocketAction'', ([], core_TCPSocketAction_fields)),
     (''k8s.io/api/core/v1.Toleration'', ([], core_Toleration_fields)),
     (''k8s.io/api/core/v1.TopologySpreadConstraint'', ([], core_TopologySpreadConstraint_fields)),
     (''k8s.io/api/core/v1.TypedLocalObjectReference'', ([StructType ''atomic''], core_TypedLocalObjectReference_fields)),
     (''k8s.io/api/core/v1.TypedObjectReference'', ([], core_TypedObjectReference_fields)),
     (''k8s.io/api/core/v1.Volume'', ([], core_Volume_fields)),
     (''k8s.io/api/core/v1.VolumeDevice'', ([], core_VolumeDevice_fields)),
     (''k8s.io/api/core/v1.VolumeMount'', ([], core_VolumeMount_fields)),
     (''k8s.io/api/core/v1.VolumeProjection'', ([], core_VolumeProjection_fields)),
     (''k8s.io/api/core/v1.VolumeResourceRequirements'', ([], core_VolumeResourceRequirements_fields)),
     (''k8s.io/api/core/v1.VsphereVirtualDiskVolumeSource'', ([], core_VsphereVirtualDiskVolumeSource_fields)),
     (''k8s.io/api/core/v1.WeightedPodAffinityTerm'', ([], core_WeightedPodAffinityTerm_fields)),
     (''k8s.io/api/core/v1.WindowsSecurityContextOptions'', ([], core_WindowsSecurityContextOptions_fields))]"

definition metaDeclarations :: "(string \<times> go_struct) list" where
  "metaDeclarations = [
     (''k8s.io/apimachinery/pkg/apis/meta/v1.FieldsV1'', ([], meta_FieldsV1_fields)),
     (''k8s.io/apimachinery/pkg/apis/meta/v1.LabelSelector'', ([StructType ''atomic''], meta_LabelSelector_fields)),
     (''k8s.io/apimachinery/pkg/apis/meta/v1.LabelSelectorRequirement'', ([], meta_LabelSelectorRequirement_fields)),
     (''k8s.io/apimachinery/pkg/apis/meta/v1.ListMeta'', ([], meta_ListMeta_fields)),
     (''k8s.io/apimachinery/pkg/apis/meta/v1.ManagedFieldsEntry'', ([], meta_ManagedFieldsEntry_fields)),
     (''k8s.io/apimachinery/pkg/apis/meta/v1.ObjectMeta'', ([], meta_ObjectMeta_fields)),
     (''k8s.io/apimachinery/pkg/apis/meta/v1.OwnerReference'', ([StructType ''atomic''], meta_OwnerReference_fields)),
     (''k8s.io/apimachinery/pkg/runtime.RawExtension'', ([], runtime_RawExtension_fields)),
     (''kmodules.xyz/client-go/api/v1.Condition'', ([], kmapi_Condition_fields))]"

definition sidekickDeclarations :: "(string \<times> go_struct) list" where
  "sidekickDeclarations = [
     (''kubeops.dev/sidekick/apis/apps/v1alpha1.Container'', ([], Container_fields)),
     (''kubeops.dev/sidekick/apis/apps/v1alpha1.LeaderSpec'', ([], LeaderSpec_fields)),
     (''kubeops.dev/sidekick/apis/apps/v1alpha1.LeaderStatus'', ([], LeaderStatus_fields)),
     (''kubeops.dev/sidekick/apis/apps/v1alpha1.Sidekick'', ([], Sidekick_fields)),
     (''kubeops.dev/sidekick/apis/apps/v1alpha1.SidekickList'', ([], SidekickList_fields)),
     (''kubeops.dev/sidekick/apis/apps/v1alpha1.SidekickSpec'', ([], SidekickSpec_fields)),
     (''kubeops.dev/sidekick/apis/apps/v1alpha1.SidekickStatus'', ([], SidekickStatus_fields)),
     (''kubeops.dev/sidekick/apis/apps/v1alpha1.VolumeMount'', ([], VolumeMount_fields))]"

definition structDeclarations :: "(string \<times> go_struct) list" where
  "structDeclarations = coreDeclarations @ metaDeclarations @ sidekickDeclarations"

section \<open>No drift\<close>

lemma core_definitions_sync:
  "map (\<lambda>(n, d). (n, od_Schema d)) (coreDefinitions ref) = map (\<lambda>(n, st). (n, schemaOfStruct ref st)) coreDeclarations"
  by (simp add: coreDefinitions_def coreDeclarations_def openapi_volumes_sync openapi_pods_sync)

lemma meta_definitions_sync:
  "map (\<lambda>(n, d). (n, od_Schema d)) (metaDefinitions ref) = map (\<lambda>(n, st). (n, schemaOfStruct ref st)) metaDeclarations"
  by (simp add: metaDefinitions_def metaDeclarations_def openapi_meta_sync)

lemma sidekick_definitions_sync:
  "map (\<lambda>(n, d). (n, od_Schema d)) (sidekickDefinitions ref) = map (\<lambda>(n, st). (n, schemaOfStruct ref st)) sidekickDeclarations"
  by (simp add: sidekickDefinitions_def sidekickDeclarations_def openapi_sidekick_sync)

lemma structDefinitions_sync:
  "map (\<lambda>(n, d). (n, od_Schema d)) (structDefinitions ref) =
   map (\<lambda>(n, st). (n, schemaOfStruct ref st)) structDeclarations"
  by (simp only: structDefinitions_def structDeclarations_def map_append core_definitions_sync meta_definitions_sync
      sidekick_definitions_sync)


section \<open>Closed definitions\<close>

lemma core_consistent: "list_all (\<lambda>(n, d). consistentDefinition d) (coreDefinitions id)"
  by code_simp

lemma meta_consistent: "list_all (\<lambda>(n, d). consistentDefinition d) (metaDefinitions id)"
  by code_simp

lemma sidekick_consistent: "list_all (\<lambda>(n, d). consistentDefinition d) (sidekickDefinitions id)"
  by code_simp

lemma form_consistent: "list_all (\<lambda>(n, d). consistentDefinition d) (formDefinitions id)"
  by code_simp

lemma definitions_consistent: "list_all (\<lambda>(n, d). consistentDefinition d) (openapiDefinitions id)"
  using core_consistent meta_consistent sidekick_consistent form_consistent
  by (simp add: openapiDefinitions_def structDefinitions_def)

text \<open>
  Names are compared as terms, by unification: to evaluate the equality of two hundred long strings
  with a hundred others takes minutes.
\<close>

lemma dependencies_registered:
  "set (concat (map (\<lambda>(n, d). od_Dependencies d) (openapiDefinitions id))) \<subseteq> set (map fst (openapiDefinitions id))"
  unfolding openapiDefinitions_def structDefinitions_def coreDefinitions_def metaDefinitions_def sidekickDefinitions_def
    formDefinitions_def EmbedOpenAPIDefinitionIntoV2Extension_def openapi_data openapi_definition.simps
    list.map concat.simps append.simps fst_conv prod.case list.set
  by (intro insert_subsetI empty_subsetI; ((rule insertI1 | rule insertI2)+))


end
