(* ===== verification/Openapi_Json.thy ===== *)
theory Openapi_Json
  imports Openapi
begin

text \<open>
  What the OpenAPI definitions are for: to say which JSON texts are objects of the API. The theory models
  values of the declared Go types, their encoding by \<open>encoding/json\<close>, and the validation of JSON
  against a definition. It shows that every well-typed value encodes to JSON that conforms to
  the definition of its type, if it has no nil where the tags do not let it be omitted, holds declared constants in
  its enumerated members, and the types with a JSON form of their own keep to their own definitions.
  The locale \<open>declared_schemas\<close> is what this needs of the definitions; the definitions of the Sidekick API
  are its interpretation.
\<close>

section \<open>Values\<close>

text \<open>
  A value: a string, a boolean, an integer, a value with a JSON form of its own, the members of a
  struct in the order of its declaration (those of embedded structs in their place), nil, a pointer with what it
  points to, the elements of a slice, the entries of a map in the order of the keys.
\<close>

datatype goval = VStr string | VBool bool | VInt int | VForm json | VStruct "goval list"
  | VNil | VPtr goval | VSlice "goval list" | VMap "(string \<times> goval) list"

type_synonym declarations = "string \<Rightarrow> go_field list option"

definition fitsInt :: "nat \<Rightarrow> int \<Rightarrow> bool" where
  "fitsInt w i \<longleftrightarrow> - (2 ^ (w - 1)) \<le> i \<and> i < 2 ^ (w - 1)"

text \<open>Go's typing.\<close>

fun typed :: "declarations \<Rightarrow> gotype \<Rightarrow> goval \<Rightarrow> bool"
  and typedFields :: "declarations \<Rightarrow> go_field list \<Rightarrow> goval list \<Rightarrow> bool" where
  "typed D t (VStr s) = (case t of GString \<Rightarrow> True | GNamedString _ \<Rightarrow> True | GEnum _ _ \<Rightarrow> True | _ \<Rightarrow> False)"
| "typed D t (VBool b) = (t = GBool)"
| "typed D t (VInt i) = (t = GInt32 \<and> fitsInt 32 i \<or> t = GInt64 \<and> fitsInt 64 i)"
| "typed D t (VForm j) = (case t of GOpaque _ \<Rightarrow> True | _ \<Rightarrow> False)"
| "typed D t VNil = (case t of GPtr _ \<Rightarrow> True | GSlice _ \<Rightarrow> True | GMap _ \<Rightarrow> True | _ \<Rightarrow> False)"
| "typed D t (VPtr v) = (case t of GPtr t' \<Rightarrow> typed D t' v | _ \<Rightarrow> False)"
| "typed D t (VSlice vs) = (case t of GSlice t' \<Rightarrow> list_all (typed D t') vs | _ \<Rightarrow> False)"
| "typed D t (VMap kvs) = (case t of GMap t' \<Rightarrow> distinct (map fst kvs) \<and> list_all (\<lambda>(k, v). typed D t' v) kvs | _ \<Rightarrow> False)"
| "typed D t (VStruct vs) = (case t of GStruct n \<Rightarrow> (case D n of Some fs \<Rightarrow> typedFields D fs vs | None \<Rightarrow> False) | _ \<Rightarrow> False)"
| "typedFields D [] [] = True"
| "typedFields D (f # fs) (v # vs) = (typed D (fd_Type f) v \<and> typedFields D fs vs)"
| "typedFields D _ _ = False"

section \<open>Encoding\<close>

text \<open>
  Which members are left out: with \<open>omitempty\<close> false, zero, nil, the empty string and empty slices and
  maps, but no struct; with \<open>omitzero\<close> a zero time, whose JSON form is null.
\<close>

fun isEmptyValue :: "goval \<Rightarrow> bool" where
  "isEmptyValue (VStr s) = (s = '''')"
| "isEmptyValue (VBool b) = (\<not> b)"
| "isEmptyValue (VInt i) = (i = 0)"
| "isEmptyValue VNil = True"
| "isEmptyValue (VSlice vs) = (vs = [])"
| "isEmptyValue (VMap kvs) = (kvs = [])"
| "isEmptyValue _ = False"

definition omitted :: "go_field \<Rightarrow> goval \<Rightarrow> bool" where
  "omitted f v \<longleftrightarrow> fd_OmitEmpty f \<and> isEmptyValue v \<or> fd_OmitZero f \<and> v = VForm JNull"

fun encode :: "declarations \<Rightarrow> gotype \<Rightarrow> goval \<Rightarrow> json"
  and encodeFields :: "declarations \<Rightarrow> go_field list \<Rightarrow> goval list \<Rightarrow> (string \<times> json) list" where
  "encode D t (VStr s) = JStr s"
| "encode D t (VBool b) = JBool b"
| "encode D t (VInt i) = JNum (showInt i)"
| "encode D t (VForm j) = j"
| "encode D t VNil = JNull"
| "encode D t (VPtr v) = (case t of GPtr t' \<Rightarrow> encode D t' v | _ \<Rightarrow> JNull)"
| "encode D t (VSlice vs) = (case t of GSlice t' \<Rightarrow> JArr (map (encode D t') vs) | _ \<Rightarrow> JNull)"
| "encode D t (VMap kvs) = (case t of GMap t' \<Rightarrow> JObj (map (\<lambda>(k, v). (k, encode D t' v)) kvs) | _ \<Rightarrow> JNull)"
| "encode D t (VStruct vs) = (case t of GStruct n \<Rightarrow> (case D n of Some fs \<Rightarrow> JObj (encodeFields D fs vs) | None \<Rightarrow> JNull) | _ \<Rightarrow> JNull)"
| "encodeFields D (f # fs) (v # vs) =
     (if omitted f v then encodeFields D fs vs else (fd_JSON f, encode D (fd_Type f) v) # encodeFields D fs vs)"
| "encodeFields D _ _ = []"

section \<open>Validation\<close>

fun hasJsonType :: "json \<Rightarrow> string \<Rightarrow> bool" where
  "hasJsonType JNull t = (t = ''null'')"
| "hasJsonType (JBool b) t = (t = ''boolean'')"
| "hasJsonType (JNum n) t = (t = ''number'' \<or> t = ''integer'' \<and> intOfLit n \<noteq> None)"
| "hasJsonType (JStr s) t = (t = ''string'')"
| "hasJsonType (JArr js) t = (t = ''array'')"
| "hasJsonType (JObj kvs) t = (t = ''object'')"

text \<open>The formats of numbers; the other formats are not checked.\<close>

definition formatOk :: "string \<Rightarrow> json \<Rightarrow> bool" where
  "formatOk fmt j = (case j of
     JNum n \<Rightarrow> (case intOfLit n of
        Some i \<Rightarrow> (fmt = ''int32'' \<longrightarrow> fitsInt 32 i) \<and> (fmt = ''int64'' \<longrightarrow> fitsInt 64 i)
      | None \<Rightarrow> fmt \<noteq> ''int32'' \<and> fmt \<noteq> ''int64'')
   | _ \<Rightarrow> True)"

text \<open>What a schema asks of a value itself: type, format, alternatives and enumeration.\<close>

definition scalarOk :: "'r schema \<Rightarrow> json \<Rightarrow> bool" where
  "scalarOk s j \<longleftrightarrow> (sch_Type s = [] \<or> list_ex (hasJsonType j) (sch_Type s)) \<and> formatOk (sch_Format s) j \<and>
     (sch_OneOf s = [] \<or> length (filter (\<lambda>o1. list_ex (hasJsonType j) (sch_Type o1)) (sch_OneOf s)) = 1) \<and>
     (sch_Enum s = [] \<or> List.member (sch_Enum s) j)"

definition resolve :: "(string \<Rightarrow> string schema option) \<Rightarrow> string schema \<Rightarrow> string schema option" where
  "resolve S s = (case sch_Ref s of None \<Rightarrow> Some s | Some n \<Rightarrow> S n)"

text \<open>
  A value conforms to a schema if it does itself, all its elements or members do, it has the required
  members, and has no members but the properties, unless there are none.
\<close>

fun valid :: "(string \<Rightarrow> string schema option) \<Rightarrow> string schema \<Rightarrow> json \<Rightarrow> bool" where
  "valid S s (JArr js) = (case resolve S s of None \<Rightarrow> False
     | Some s' \<Rightarrow> scalarOk s' (JArr js) \<and>
         list_all (\<lambda>x. case sch_Items s' of None \<Rightarrow> True | Some i \<Rightarrow> valid S i x) js)"
| "valid S s (JObj kvs) = (case resolve S s of None \<Rightarrow> False
     | Some s' \<Rightarrow> scalarOk s' (JObj kvs) \<and> list_all (\<lambda>k. List.member (map fst kvs) k) (sch_Required s') \<and>
         list_all (\<lambda>(k, x). case map_of (sch_Properties s') k of
             Some p \<Rightarrow> valid S p x
           | None \<Rightarrow> (case sch_Additional s' of Some a \<Rightarrow> valid S a x | None \<Rightarrow> sch_Properties s' = [])) kvs)"
| "valid S s j = (case resolve S s of None \<Rightarrow> False | Some s' \<Rightarrow> scalarOk s' j)"

section \<open>What conforms\<close>

text \<open>Elements of slices and maps are not held to the enumeration of their type.\<close>

fun noEnum :: "gotype \<Rightarrow> gotype" where
  "noEnum (GEnum n vs) = GNamedString n"
| "noEnum (GPtr t) = GPtr (noEnum t)"
| "noEnum t = t"

text \<open>
  A value that is fit to be sent: no nil but in members that are left out then, only declared constants in members
  of enumerated types, and forms that satisfy \<open>ok\<close>.
\<close>

fun ready :: "declarations \<Rightarrow> (string \<Rightarrow> json \<Rightarrow> bool) \<Rightarrow> gotype \<Rightarrow> goval \<Rightarrow> bool"
  and readyFields :: "declarations \<Rightarrow> (string \<Rightarrow> json \<Rightarrow> bool) \<Rightarrow> go_field list \<Rightarrow> goval list \<Rightarrow> bool" where
  "ready D ok t (VStr s) = (case t of GEnum _ vs \<Rightarrow> vs = [] \<or> List.member vs s | _ \<Rightarrow> True)"
| "ready D ok t (VForm j) = (case t of GOpaque n \<Rightarrow> ok n j | _ \<Rightarrow> True)"
| "ready D ok t VNil = False"
| "ready D ok t (VPtr v) = (case t of GPtr t' \<Rightarrow> ready D ok t' v | _ \<Rightarrow> True)"
| "ready D ok t (VSlice vs) = (case t of GSlice t' \<Rightarrow> list_all (ready D ok (noEnum t')) vs | _ \<Rightarrow> True)"
| "ready D ok t (VMap kvs) = (case t of GMap t' \<Rightarrow> list_all (\<lambda>(k, v). ready D ok (noEnum t') v) kvs | _ \<Rightarrow> True)"
| "ready D ok t (VStruct vs) = (case t of GStruct n \<Rightarrow> (case D n of Some fs \<Rightarrow> readyFields D ok fs vs | None \<Rightarrow> True) | _ \<Rightarrow> True)"
| "ready D ok t _ = True"
| "readyFields D ok (f # fs) (v # vs) = ((omitted f v \<or> ready D ok (fd_Type f) v) \<and> readyFields D ok fs vs)"
| "readyFields D ok _ _ = True"

subsection \<open>Schemas up to what validation does not look at\<close>

lemma schema_select [simp]:
  "sch_Ref (withDefault d s) = sch_Ref s" "sch_Type (withDefault d s) = sch_Type s"
  "sch_Format (withDefault d s) = sch_Format s" "sch_OneOf (withDefault d s) = sch_OneOf s"
  "sch_Enum (withDefault d s) = sch_Enum s" "sch_Items (withDefault d s) = sch_Items s"
  "sch_Properties (withDefault d s) = sch_Properties s" "sch_Additional (withDefault d s) = sch_Additional s"
  "sch_Required (withDefault d s) = sch_Required s"
  "sch_Ref (withExtensions xs s) = sch_Ref s" "sch_Type (withExtensions xs s) = sch_Type s"
  "sch_Format (withExtensions xs s) = sch_Format s" "sch_OneOf (withExtensions xs s) = sch_OneOf s"
  "sch_Enum (withExtensions xs s) = sch_Enum s" "sch_Items (withExtensions xs s) = sch_Items s"
  "sch_Properties (withExtensions xs s) = sch_Properties s" "sch_Additional (withExtensions xs s) = sch_Additional s"
  "sch_Required (withExtensions xs s) = sch_Required s"
  by (cases s; simp)+

lemma valid_cong_schema:
  assumes "sch_Ref s = sch_Ref s'" "sch_Type s = sch_Type s'" "sch_Format s = sch_Format s'" "sch_OneOf s = sch_OneOf s'"
    "sch_Enum s = sch_Enum s'" "sch_Items s = sch_Items s'" "sch_Properties s = sch_Properties s'"
    "sch_Additional s = sch_Additional s'" "sch_Required s = sch_Required s'"
  shows "valid S s j = valid S s' j"
  using assms by (cases j) (simp_all add: resolve_def scalarOk_def split: option.split)

lemma valid_withDefault [simp]: "valid S (withDefault d s) j = valid S s j"
  by (rule valid_cong_schema) simp_all

lemma valid_withExtensions [simp]: "valid S (withExtensions xs s) j = valid S s j"
  by (rule valid_cong_schema) simp_all

lemma valid_defaulted [simp]: "valid S (defaulted d s) j = valid S s j"
  by (simp add: defaulted_def split: option.split)

lemma valid_fieldSchema [simp]: "valid S (fieldSchema ref f) j = valid S (schemaOfType ref (fd_Type f)) j"
  by (simp add: fieldSchema_def)

lemma schemaOfType_noEnum: "withEnum [] (schemaOfType ref t) = schemaOfType ref (noEnum t)"
  by (induction t) (simp_all add: schema_forms)

lemma typed_noEnum: "typed D (noEnum t) v = typed D t v"
  by (induction t arbitrary: v rule: noEnum.induct) (case_tac v; simp)+

lemma encode_noEnum: "encode D (noEnum t) v = encode D t v"
  by (induction t arbitrary: v rule: noEnum.induct) (case_tac v; simp)+

subsection \<open>Members\<close>

text \<open>The members of a struct, all at once.\<close>

lemma typedFields_zip: "typedFields D fs vs \<longleftrightarrow> length fs = length vs \<and> list_all (\<lambda>(f, v). typed D (fd_Type f) v) (zip fs vs)"
  by (induction fs vs rule: list_induct2') auto

lemma readyFields_zip: "readyFields D ok fs vs \<longleftrightarrow> list_all (\<lambda>(f, v). omitted f v \<or> ready D ok (fd_Type f) v) (zip fs vs)"
  by (induction fs vs rule: list_induct2') auto

lemma encodeFields_zip:
  "encodeFields D fs vs = map (\<lambda>(f, v). (fd_JSON f, encode D (fd_Type f) v)) (filter (\<lambda>(f, v). \<not> omitted f v) (zip fs vs))"
  by (induction fs vs rule: list_induct2') auto

lemma required_not_omitted: "fieldRequired f \<Longrightarrow> \<not> omitted f v"
  by (simp add: fieldRequired_def omitted_def)

lemma encodeFields_required:
  assumes "length fs = length vs" "f \<in> set fs" "fieldRequired f"
  shows "fd_JSON f \<in> fst ` set (encodeFields D fs vs)"
proof -
  obtain v where "(f, v) \<in> set (zip fs vs)"
    using assms(1,2) by (metis in_set_impl_in_set_zip1)
  with required_not_omitted [OF assms(3)] show ?thesis
    by (force simp: encodeFields_zip)
qed

lemma map_of_fields:
  "distinct (map fd_JSON fs) \<Longrightarrow> f \<in> set fs \<Longrightarrow> map_of (map (\<lambda>f. (fd_JSON f, h f)) fs) (fd_JSON f) = Some (h f)"
  by (rule map_of_is_SomeI) (auto simp: comp_def)

section \<open>Which encodings conform\<close>

lemmas valid_defs = schema_forms resolve_def scalarOk_def formatOk_def

locale declared_schemas =
  fixes D :: declarations and S :: "string \<Rightarrow> string schema option"
  assumes declared: "D n = Some fs \<Longrightarrow> \<exists>marks. S n = Some (schemaOfStruct id (marks, fs))"
    and distinct_names: "D n = Some fs \<Longrightarrow> distinct (map fd_JSON fs)"
    and not_null: "S n = Some s \<Longrightarrow> \<not> scalarOk s JNull"
begin

abbreviation fit :: "gotype \<Rightarrow> goval \<Rightarrow> bool" where
  "fit \<equiv> ready D (\<lambda>n. valid S (refS n))"

lemma member_schema:
  assumes "D n = Some fs" "(f, v) \<in> set (zip fs vs)"
  shows "map_of (map (\<lambda>f. (fd_JSON f, fieldSchema id f)) fs) (fd_JSON f) = Some (fieldSchema id f)"
  by (rule map_of_fields [OF distinct_names [OF assms(1)] set_zip_leftD [OF assms(2)]])

lemma struct_valid:
  assumes "D n = Some fs" "length fs = length vs"
    and fields: "\<And>f v. (f, v) \<in> set (zip fs vs) \<Longrightarrow> valid S (schemaOfType id (fd_Type f)) (encode D (fd_Type f) v) = fit (fd_Type f) v"
  shows "valid S (refS n) (JObj (encodeFields D fs vs)) = readyFields D (\<lambda>n. valid S (refS n)) fs vs"
proof -
  let ?props = "map (\<lambda>f. (fd_JSON f, fieldSchema id f)) fs"
  have "list_all (\<lambda>(k, x). case map_of ?props k of Some p \<Rightarrow> valid S p x | None \<Rightarrow> ?props = []) (encodeFields D fs vs) =
      readyFields D (\<lambda>n. valid S (refS n)) fs vs"
    using member_schema [OF assms(1)] fields
    by (fastforce simp: encodeFields_zip readyFields_zip list_all_iff)
  moreover have "list_all (List.member (map fst (encodeFields D fs vs))) (map fd_JSON (filter fieldRequired fs))"
    using encodeFields_required [OF assms(2)] by (auto simp: list_all_iff)
  moreover obtain marks where "S n = Some (schemaOfStruct id (marks, fs))"
    using declared [OF assms(1)] by blast
  ultimately show ?thesis
    by (simp add: schemaOfStruct_def valid_defs cong: option.case_cong)
qed

lemma nil_not_valid: "\<not> valid S (schemaOfType id t) JNull"
  using not_null by (induction t) (auto simp: valid_defs split: option.splits)

lemma elements_valid:
  assumes "\<And>t. typed D t v \<Longrightarrow> valid S (schemaOfType id t) (encode D t v) = fit t v" "typed D t v"
  shows "valid S (withEnum [] (schemaOfType id t)) (encode D t v) = fit (noEnum t) v"
  using assms(1) [of "noEnum t"] assms(2) by (simp only: schemaOfType_noEnum typed_noEnum encode_noEnum)

theorem encode_valid: "typed D t v \<Longrightarrow> valid S (schemaOfType id t) (encode D t v) = fit t v"
proof (induction v arbitrary: t)
  case (VStr s)
  then show ?case
    by (cases t) (auto simp: valid_defs)
next
  case (VInt i)
  then show ?case
    by (auto simp: valid_defs intOfLit_showInt)
next
  case VNil
  show ?case
    by (simp only: encode.simps ready.simps nil_not_valid)
next
  case (VStruct vs)
  from VStruct.prems obtain n fs where fs: "t = GStruct n" "D n = Some fs" "length fs = length vs"
      "\<forall>(f, v) \<in> set (zip fs vs). typed D (fd_Type f) v"
    by (auto simp: typedFields_zip list_all_iff split: gotype.splits option.splits)
  have "valid S (schemaOfType id (fd_Type f)) (encode D (fd_Type f) v) = fit (fd_Type f) v" if "(f, v) \<in> set (zip fs vs)" for f v
    using VStruct.IH [OF set_zip_rightD [OF that]] fs(4) that by blast
  from struct_valid [OF fs(2,3) this] show ?case
    by (simp only: fs(1,2) encode.simps ready.simps gotype.case option.case schemaOfType.simps id_apply)
next
  case (VSlice vs)
  from VSlice.prems obtain t' where t: "t = GSlice t'" "\<forall>v \<in> set vs. typed D t' v"
    by (auto simp: list_all_iff split: gotype.splits)
  have "valid S (withEnum [] (schemaOfType id t')) (encode D t' v) = fit (noEnum t') v" if "v \<in> set vs" for v
    using elements_valid [OF VSlice.IH [OF that]] t(2) that by blast
  then show ?case
    by (simp add: t(1) arrayS_def resolve_def scalarOk_def formatOk_def list_all_iff id_def)
next
  case (VMap kvs)
  from VMap.prems obtain t' where t: "t = GMap t'" "\<forall>(k, v) \<in> set kvs. typed D t' v"
    by (auto simp: list_all_iff split: gotype.splits)
  have "valid S (withEnum [] (schemaOfType id t')) (encode D t' v) = fit (noEnum t') v" if "(k, v) \<in> set kvs" for k v
    using elements_valid [OF VMap.IH [OF that snds.intros]] t(2) that by auto
  then show ?case
    by (fastforce simp: t(1) mapS_def resolve_def scalarOk_def formatOk_def list_all_iff id_def)
qed (auto simp: valid_defs split: gotype.splits)

end

section \<open>The Sidekick API\<close>

definition declaredFields :: declarations where
  "declaredFields n = map_option snd (map_of structDeclarations n)"

definition definedSchemas :: "string \<Rightarrow> string schema option" where
  "definedSchemas n = map_option od_Schema (map_of (openapiDefinitions id) n)"

lemma definedSchemas_struct:
  assumes "map_of structDeclarations n = Some st"
  shows "definedSchemas n = Some (schemaOfStruct id st)"
proof -
  have "map_option od_Schema (map_of (structDefinitions id) n) = map_option (schemaOfStruct id) (map_of structDeclarations n)"
    using arg_cong [OF structDefinitions_sync [of id], of "\<lambda>m. map_of m n"] by (simp add: map_of_map)
  with assms show ?thesis
    by (auto simp: definedSchemas_def openapiDefinitions_def map_add_def)
qed

lemma schemaOfStruct_not_null: "\<not> scalarOk (schemaOfStruct ref st) JNull"
  by (simp add: schemaOfStruct_def objectS_def scalarOk_def split: prod.split)

lemma definitions_not_null:
  assumes "(n, d) \<in> set (openapiDefinitions id)"
  shows "\<not> scalarOk (od_Schema d) JNull"
proof (cases "(n, d) \<in> set (structDefinitions id)")
  case True
  then have "(n, od_Schema d) \<in> set (map (\<lambda>(n, st). (n, schemaOfStruct id st)) structDeclarations)"
    by (simp only: structDefinitions_sync [symmetric]) force
  then show ?thesis by (auto simp: schemaOfStruct_not_null)
next
  case False
  with assms show ?thesis
    by (auto simp: openapiDefinitions_def formDefinitions_def openapi_data EmbedOpenAPIDefinitionIntoV2Extension_def
        oneOfS_def GenerateOpenAPIV3OneOfSchema_def plainS_def scalarOk_def)
qed

lemma definedSchemas_properties:
  assumes "definedSchemas n = Some s"
  shows "distinct (map fst (sch_Properties s)) \<and> \<not> scalarOk s JNull"
proof -
  obtain d where "(n, d) \<in> set (openapiDefinitions id)" "s = od_Schema d"
    using assms by (auto simp: definedSchemas_def dest: map_of_SomeD)
  then show ?thesis
    using definitions_consistent definitions_not_null [of n d]
    by (fastforce simp: list_all_iff consistentDefinition_def Let_def)
qed

interpretation sidekick_api: declared_schemas declaredFields definedSchemas
proof
  fix n fs assume "declaredFields n = Some fs"
  then obtain marks where st: "map_of structDeclarations n = Some (marks, fs)"
    by (auto simp: declaredFields_def)
  from definedSchemas_struct [OF st]
  show "\<exists>marks. definedSchemas n = Some (schemaOfStruct id (marks, fs))" by blast
  from definedSchemas_properties [OF definedSchemas_struct [OF st]]
  show "distinct (map fd_JSON fs)" by (simp add: schemaOfStruct_def objectS_def comp_def)
next
  fix n s assume "definedSchemas n = Some s"
  then show "\<not> scalarOk s JNull" using definedSchemas_properties by blast
qed

text \<open>
  Property C35. Which objects the published definitions admit. For every struct of the API and every
  well-typed value of it, the JSON the Go library encodes it to conforms to the OpenAPI definition of the struct
  (types, integer formats, required members, enumerations, no unknown members, through all references) exactly
  when no nil of the value shows as null (nil is left out in members with \<open>omitempty\<close>), every member of an enumerated type
  that is not left out holds one of the declared constants, and the JSON forms of quantities, times and the
  like conform to their own definitions.
\<close>

theorem encoded_object_conforms:
  assumes "typed declaredFields (GStruct n) v"
  shows "valid definedSchemas (refS n) (encode declaredFields (GStruct n) v) =
    ready declaredFields (\<lambda>m. valid definedSchemas (refS m)) (GStruct n) v"
  using sidekick_api.encode_valid [OF assms] by (simp only: schemaOfType.simps id_apply)

text \<open>The status of a Sidekick with a running pod that has failed before.\<close>

definition sample_status_value :: goval where
  "sample_status_value = VStruct [VStruct [VStr ''db-0''], VStr ''Running'', VStr ''Current'', VInt 3, VNil,
     VMap [(''uid-1'', VInt 2)], VMap [(''uid-1'', VBool True)]]"

lemma other_packages: "list_all (\<lambda>n. take 2 n \<noteq> ''ku'') (map fst (coreDeclarations @ metaDeclarations))"
  by (simp add: coreDeclarations_def metaDeclarations_def)

lemma declaredFields_own:
  assumes "take 2 n = ''ku''"
  shows "declaredFields n = map_option snd (map_of sidekickDeclarations n)"
proof -
  have "map_of (coreDeclarations @ metaDeclarations) n = None"
    using other_packages assms by (fastforce simp: list_all_iff map_of_eq_None_iff)
  then show ?thesis
    by (simp add: declaredFields_def structDeclarations_def map_add_def split: option.splits)
qed

lemma sample_declared:
  "declaredFields ''kubeops.dev/sidekick/apis/apps/v1alpha1.SidekickStatus'' = Some SidekickStatus_fields"
  "declaredFields ''kubeops.dev/sidekick/apis/apps/v1alpha1.LeaderStatus'' = Some LeaderStatus_fields"
  by (simp_all add: declaredFields_own sidekickDeclarations_def)

theorem encoded_object_conforms_witness:
  "valid definedSchemas (refS ''kubeops.dev/sidekick/apis/apps/v1alpha1.SidekickStatus'')
     (encode declaredFields (GStruct ''kubeops.dev/sidekick/apis/apps/v1alpha1.SidekickStatus'') sample_status_value)"
proof -
  let ?t = "GStruct ''kubeops.dev/sidekick/apis/apps/v1alpha1.SidekickStatus''"
  have "typed declaredFields ?t sample_status_value"
    by (simp add: sample_status_value_def sample_declared SidekickStatus_fields_def LeaderStatus_fields_def goField_def
        core_PodPhase_def fitsInt_def)
  moreover have "ready declaredFields (\<lambda>m. valid definedSchemas (refS m)) ?t sample_status_value"
    by (simp add: sample_status_value_def sample_declared SidekickStatus_fields_def LeaderStatus_fields_def goField_def
        core_PodPhase_def omitted_def)
  ultimately show ?thesis
    using encoded_object_conforms by blast
qed

end
