(* ===== verification/Go_Path.thy ===== *)
theory Go_Path
  imports Go_Strings
begin

text \<open>
  Go's \<open>path.Clean\<close> and \<open>path.Join\<close> (and \<open>filepath\<close>'s on Unix): which segments a path has after
  cleaning. Segments that are neither empty nor dots nor contain a slash survive unchanged.
\<close>

definition cleanStep :: "bool \<Rightarrow> string \<Rightarrow> string list \<Rightarrow> string list" where
  "cleanStep rooted p out =
     (if p = '''' \<or> p = ''.'' then out
      else if p = ''..'' then
        (if out \<noteq> [] \<and> last out \<noteq> ''..'' then butlast out
         else if rooted then out
         else out @ [''..''])
      else out @ [p])"

definition pathClean :: "string \<Rightarrow> string" where
  "pathClean s =
     (let rooted = hasPrefix ''/'' s;
          out = fold (cleanStep rooted) (splitOn (CHR ''/'') s) []
      in if rooted then CHR ''/'' # joinWith (CHR ''/'') out
         else if out = [] then ''.'' else joinWith (CHR ''/'') out)"

definition nonEmpty :: "string list \<Rightarrow> string list" where
  "nonEmpty ps = filter (\<lambda>p. p \<noteq> '''') ps"

definition pathJoin :: "string list \<Rightarrow> string" where
  "pathJoin elems = (if nonEmpty elems = [] then '''' else pathClean (joinWith (CHR ''/'') (nonEmpty elems)))"

text \<open>A path segment that cleaning keeps, the paths made of such segments, and their parts.\<close>

definition segment :: "string \<Rightarrow> bool" where
  "segment p = (p \<noteq> '''' \<and> p \<noteq> ''.'' \<and> p \<noteq> ''..'' \<and> CHR ''/'' \<notin> set p)"

definition absPath :: "string list \<Rightarrow> string" where
  "absPath segs = CHR ''/'' # joinWith (CHR ''/'') segs"

definition segments :: "string \<Rightarrow> string list" where
  "segments s = nonEmpty (splitOn (CHR ''/'') s)"

lemma nonEmpty_simps [simp]:
  "nonEmpty [] = []" "nonEmpty (p # ps) = (if p = '''' then nonEmpty ps else p # nonEmpty ps)"
  "nonEmpty (ps @ qs) = nonEmpty ps @ nonEmpty qs"
  by (simp_all add: nonEmpty_def)

lemma nonEmpty_segments [simp]: "list_all segment ps \<Longrightarrow> nonEmpty ps = ps"
  by (induction ps) (auto simp: segment_def)

lemma splitOn_parts: "p \<in> set (splitOn sep s) \<Longrightarrow> sep \<notin> set p"
  by (induction s arbitrary: p) (auto split: if_splits list.splits)

lemma splitOn_joinWith: "xs \<noteq> [] \<Longrightarrow> splitOn sep (joinWith sep xs) = concat (map (splitOn sep) xs)"
proof (induction xs)
  case (Cons x xs)
  then show ?case by (cases "xs = []") (simp_all add: joinWith_Cons splitOn_append)
qed simp

lemma concat_single: "list_all segment segs \<Longrightarrow> concat (map (splitOn (CHR ''/'')) segs) = segs"
  by (induction segs) (simp_all add: segment_def splitOn_single)

lemma segments_absPath: "list_all segment segs \<Longrightarrow> segments (absPath segs) = segs"
  by (cases "segs = []")
    (simp_all add: segments_def absPath_def splitOn_joinWith concat_single)

lemma absPath_inj: "list_all segment xs \<Longrightarrow> list_all segment ys \<Longrightarrow> absPath xs = absPath ys \<longleftrightarrow> xs = ys"
  using segments_absPath by metis

section \<open>Cleaning\<close>

lemma clean_segments: "list_all segment segs \<Longrightarrow> fold (cleanStep rooted) segs out = out @ segs"
  by (induction segs arbitrary: out) (simp_all add: cleanStep_def segment_def)

lemma clean_nonEmpty: "fold (cleanStep rooted) (nonEmpty ps) out = fold (cleanStep rooted) ps out"
  by (induction ps arbitrary: out) (simp_all add: cleanStep_def)

lemma cleanStep_segment:
  "list_all segment out \<Longrightarrow> CHR ''/'' \<notin> set p \<Longrightarrow> list_all segment (cleanStep True p out)"
  by (auto simp: cleanStep_def segment_def list_all_iff dest: in_set_butlastD last_in_set)

lemma clean_keeps_segment:
  "list_all segment out \<Longrightarrow> list_all (\<lambda>p. CHR ''/'' \<notin> set p) ps \<Longrightarrow> list_all segment (fold (cleanStep True) ps out)"
  by (induction ps arbitrary: out) (simp_all add: cleanStep_segment)

lemma hasPrefix_slash: "hasPrefix ''/'' (absPath segs)" "hasPrefix ''/'' (CHR ''/'' # s)"
  by (simp_all add: absPath_def hasPrefix_def)

text \<open>A rooted path is cleaned to a path of segments.\<close>

lemma pathClean_rooted:
  assumes "hasPrefix ''/'' s"
  shows "\<exists>segs. list_all segment segs \<and> pathClean s = absPath segs"
proof (intro exI conjI)
  let ?out = "fold (cleanStep True) (splitOn (CHR ''/'') s) []"
  show "list_all segment ?out"
    by (rule clean_keeps_segment) (auto simp: list_all_iff dest: splitOn_parts)
  show "pathClean s = absPath ?out"
    using assms by (simp add: pathClean_def absPath_def)
qed

lemma hasPrefix_slash_append: "hasPrefix ''/'' s \<Longrightarrow> hasPrefix ''/'' (s @ t)"
  by (cases s) (auto simp: hasPrefix_def)

lemma hasPrefix_joinWith: "hasPrefix ''/'' x \<Longrightarrow> hasPrefix ''/'' (joinWith sep (x # xs))"
  by (cases xs) (simp_all add: hasPrefix_slash_append)

lemma splits_nonEmpty: "nonEmpty (concat (map (splitOn sep) (nonEmpty xs))) = nonEmpty (concat (map (splitOn sep) xs))"
  by (induction xs) simp_all

text \<open>Joining clean parts to a clean path appends the segments of the parts.\<close>

lemma pathJoin_absPath:
  assumes "list_all segment segs" "list_all segment (concat (map segments elems))"
  shows "pathJoin (absPath segs # elems) = absPath (segs @ concat (map segments elems))"
proof -
  let ?xs = "absPath segs # nonEmpty elems"
  have ne: "absPath segs \<noteq> ''''" by (simp add: absPath_def)
  have cat: "concat (map segments xs) = nonEmpty (concat (map (splitOn (CHR ''/'')) xs))" for xs
    by (induction xs) (simp_all add: segments_def)
  have "nonEmpty (splitOn (CHR ''/'') (joinWith (CHR ''/'') ?xs)) = segs @ concat (map segments elems)"
    using segments_absPath [OF assms(1)]
    by (simp add: splitOn_joinWith cat splits_nonEmpty) (simp add: segments_def)
  then have "fold (cleanStep True) (splitOn (CHR ''/'') (joinWith (CHR ''/'') ?xs)) [] = segs @ concat (map segments elems)"
    using assms clean_segments [of "segs @ concat (map segments elems)" True "[]"]
    by (simp add: clean_nonEmpty [symmetric, of True "splitOn (CHR ''/'') (joinWith (CHR ''/'') ?xs)"])
  then show ?thesis
    using ne hasPrefix_joinWith [OF hasPrefix_slash(1) [of segs], of "CHR ''/''" "nonEmpty elems"]
    by (simp add: pathJoin_def pathClean_def Let_def absPath_def)
qed

lemma segments_segment [simp]: "segment p \<Longrightarrow> segments p = [p]"
  by (simp add: segments_def segment_def splitOn_single)

lemma segments_empty [simp]: "segments '''' = []"
  by (simp add: segments_def)

text \<open>A relative path of segments keeps them.\<close>

lemma segments_pathJoin:
  assumes "list_all (\<lambda>p. p = '''' \<or> segment p) ps"
  shows "segments (pathJoin ps) = nonEmpty ps"
proof (cases "nonEmpty ps = []")
  case True
  then show ?thesis by (simp add: pathJoin_def)
next
  case False
  let ?segs = "nonEmpty ps"
  have segs: "list_all segment ?segs" using assms by (induction ps) auto
  have split: "splitOn (CHR ''/'') (joinWith (CHR ''/'') ?segs) = ?segs"
    using False segs by (simp add: splitOn_joinWith concat_single)
  obtain x xs where x: "?segs = x # xs" "segment x"
    using False segs by (cases ?segs) auto
  then have "\<not> hasPrefix ''/'' (joinWith (CHR ''/'') ?segs)"
    by (cases x; cases xs) (auto simp: hasPrefix_def segment_def)
  then have "pathJoin ps = joinWith (CHR ''/'') ?segs"
    using False segs by (simp add: pathJoin_def pathClean_def Let_def split clean_segments)
  then show ?thesis
    using segs by (simp add: segments_def split)
qed

end
