(* ===== verification/Startup.thy ===== *)
theory Startup
  imports Sidekick_Types Go_Path
begin

text \<open>
  How the operator starts (\<open>src/pkg/cmds/run.go\<close>) and where its CustomResourceDefinition comes from
  (\<open>src/crds/lib.go\<close>, \<open>src/apis/apps/v1alpha1/crds.go\<close>). The libraries the command sets up are a
  parameter: every call may succeed or fail. Logging is left out.
\<close>

section \<open>Flags and options\<close>

text \<open>The variables of \<open>NewCmdRun\<close>; the rate limit of the client is a number of an arbitrary type.\<close>

record 'f run_flags =
  fl_QPS :: 'f
  fl_Burst :: int
  fl_MetricsAddr :: string
  fl_CertDir :: string
  fl_EnableLeaderElection :: bool
  fl_ProbeAddr :: string
  fl_SecureMetrics :: bool
  fl_EnableHTTP2 :: bool

definition defaultFlags :: "'f \<Rightarrow> 'f run_flags" where
  "defaultFlags million = \<lparr>fl_QPS = million, fl_Burst = 1000000, fl_MetricsAddr = ''0'', fl_CertDir = '''',
     fl_EnableLeaderElection = False, fl_ProbeAddr = '':8081'', fl_SecureMetrics = True, fl_EnableHTTP2 = False\<rparr>"

text \<open>The part of a \<open>tls.Config\<close> the options change, and the two options.\<close>

record tls_config =
  tls_NextProtos :: "string list"
  tls_WatchedCertificate :: bool

datatype tls_option = DisableHTTP2 | WatchCertificate

fun applyTLS :: "tls_option \<Rightarrow> tls_config \<Rightarrow> tls_config" where
  "applyTLS DisableHTTP2 c = c\<lparr>tls_NextProtos := [''http/1.1'']\<rparr>"
| "applyTLS WatchCertificate c = c\<lparr>tls_WatchedCertificate := True\<rparr>"

record metrics_options =
  ms_BindAddress :: string
  ms_SecureServing :: bool
  ms_TLSOpts :: "tls_option list"
  ms_Authenticated :: bool

record 'f manager_options =
  mo_QPS :: 'f
  mo_Burst :: int
  mo_Metrics :: metrics_options
  mo_WebhookTLSOpts :: "tls_option list"
  mo_HealthProbeBindAddress :: string
  mo_LeaderElection :: bool
  mo_LeaderElectionID :: string

definition tlsOpts :: "'f run_flags \<Rightarrow> tls_option list" where
  "tlsOpts fl = (if \<not> fl_EnableHTTP2 fl then [DisableHTTP2] else [])"

definition serverTLSOpts :: "'f run_flags \<Rightarrow> tls_option list" where
  "serverTLSOpts fl = tlsOpts fl @ (if length (fl_CertDir fl) > 0 then [WatchCertificate] else [])"

definition managerOptions :: "'f run_flags \<Rightarrow> 'f manager_options" where
  "managerOptions fl = \<lparr>mo_QPS = fl_QPS fl, mo_Burst = fl_Burst fl,
     mo_Metrics = \<lparr>ms_BindAddress = fl_MetricsAddr fl, ms_SecureServing = fl_SecureMetrics fl,
       ms_TLSOpts = serverTLSOpts fl, ms_Authenticated = fl_SecureMetrics fl\<rparr>,
     mo_WebhookTLSOpts = serverTLSOpts fl, mo_HealthProbeBindAddress = fl_ProbeAddr fl,
     mo_LeaderElection = fl_EnableLeaderElection fl, mo_LeaderElectionID = ''74b1e3a7.k8s.appscode.com''\<rparr>"

section \<open>The run command\<close>

text \<open>The calls into the libraries, as events with their outcome.\<close>

datatype 'f run_event =
    RvGetConfig bool
  | RvNewCertWatcher string string bool
  | RvNewManager "'f manager_options" bool
  | RvNewOCMClient bool
  | RvSetupReconciler bool
  | RvAddCertWatcher bool
  | RvAddHealthz bool
  | RvAddReadyz bool
  | RvStart bool

record ('e, 'f) run_lib =
  rl_GetConfig :: "'e \<Rightarrow> unit res \<times> 'e"
  rl_NewCertWatcher :: "string \<Rightarrow> string \<Rightarrow> 'e \<Rightarrow> unit res \<times> 'e"
  rl_NewManager :: "'f manager_options \<Rightarrow> 'e \<Rightarrow> unit res \<times> 'e"
  rl_NewOCMClient :: "'e \<Rightarrow> unit res \<times> 'e"
  rl_SetupReconciler :: "'e \<Rightarrow> unit res \<times> 'e"
  rl_AddCertWatcher :: "'e \<Rightarrow> unit res \<times> 'e"
  rl_AddHealthz :: "'e \<Rightarrow> unit res \<times> 'e"
  rl_AddReadyz :: "'e \<Rightarrow> unit res \<times> 'e"
  rl_Start :: "'e \<Rightarrow> unit res \<times> 'e"

datatype outcome = Returned | Exited int

text \<open>\<open>if err != nil { os.Exit(1) }\<close> after a call; \<open>GetConfigOrDie\<close> exits the same way.\<close>

definition orExit ::
    "('e \<Rightarrow> unit res \<times> 'e) \<Rightarrow> (bool \<Rightarrow> 'v) \<Rightarrow> ('e, 'v, outcome) go \<Rightarrow> ('e, 'v, outcome) go" where
  "orExit call ev rest = do {
     r \<leftarrow> api_call call (\<lambda>r. ev (case r of Inl _ \<Rightarrow> False | Inr _ \<Rightarrow> True));
     (case r of Inl _ \<Rightarrow> ret (Exited 1) | Inr _ \<Rightarrow> rest)
   }"

definition startManager :: "('e, 'f) run_lib \<Rightarrow> bool \<Rightarrow> ('e, 'f run_event, outcome) go" where
  "startManager L hasWatcher =
     (let finish = orExit (rl_AddHealthz L) RvAddHealthz (orExit (rl_AddReadyz L) RvAddReadyz
            (orExit (rl_Start L) RvStart (ret Returned)))
      in if hasWatcher then orExit (rl_AddCertWatcher L) RvAddCertWatcher finish else finish)"

definition setupManager :: "('e, 'f) run_lib \<Rightarrow> 'f run_flags \<Rightarrow> bool \<Rightarrow> ('e, 'f run_event, outcome) go" where
  "setupManager L fl hasWatcher =
     orExit (rl_NewManager L (managerOptions fl)) (RvNewManager (managerOptions fl))
       (orExit (rl_NewOCMClient L) RvNewOCMClient
         (orExit (rl_SetupReconciler L) RvSetupReconciler (startManager L hasWatcher)))"

definition runCommand :: "('e, 'f) run_lib \<Rightarrow> 'f run_flags \<Rightarrow> ('e, 'f run_event, outcome) go" where
  "runCommand L fl =
     orExit (rl_GetConfig L) RvGetConfig
       (if length (fl_CertDir fl) > 0 then
          (let cert = pathJoin [fl_CertDir fl, ''tls.crt'']; key = pathJoin [fl_CertDir fl, ''tls.key''] in
           orExit (rl_NewCertWatcher L cert key) (RvNewCertWatcher cert key) (setupManager L fl True))
        else setupManager L fl False)"

section \<open>Starting stops at the first failure\<close>

text \<open>The calls of a start without failures, in order.\<close>

definition startup :: "'f run_flags \<Rightarrow> (bool \<Rightarrow> 'f run_event) list" where
  "startup fl = RvGetConfig #
     (if fl_CertDir fl \<noteq> '''' then [RvNewCertWatcher (pathJoin [fl_CertDir fl, ''tls.crt'']) (pathJoin [fl_CertDir fl, ''tls.key''])] else []) @
     [RvNewManager (managerOptions fl), RvNewOCMClient, RvSetupReconciler] @
     (if fl_CertDir fl \<noteq> '''' then [RvAddCertWatcher] else []) @
     [RvAddHealthz, RvAddReadyz, RvStart]"

definition stopsAtFailure :: "('e, 'v, outcome) go \<Rightarrow> (bool \<Rightarrow> 'v) list \<Rightarrow> bool" where
  "stopsAtFailure m steps \<longleftrightarrow> (\<forall>w. \<exists>n \<le> length steps.
     w_trace (snd (run_state m w)) = w_trace w @ map (\<lambda>s. s True) (take n steps) @
       (if n < length steps then [(steps ! n) False] else []) \<and>
     fst (run_state m w) = (if n < length steps then Exited 1 else Returned))"

lemma stopsAtFailure_return: "stopsAtFailure (ret Returned) []"
  by (simp add: stopsAtFailure_def)

lemma stopsAtFailure_orExit:
  assumes "stopsAtFailure m steps"
  shows "stopsAtFailure (orExit call ev m) (ev # steps)"
  unfolding stopsAtFailure_def
proof
  fix w
  show "\<exists>n \<le> length (ev # steps).
     w_trace (snd (run_state (orExit call ev m) w)) = w_trace w @ map (\<lambda>s. s True) (take n (ev # steps)) @
       (if n < length (ev # steps) then [((ev # steps) ! n) False] else []) \<and>
     fst (run_state (orExit call ev m) w) = (if n < length (ev # steps) then Exited 1 else Returned)"
  proof (cases "fst (call (w_env w))")
    case (Inl e)
    then show ?thesis by (intro exI [of _ 0]) (simp add: orExit_def run_api_call)
  next
    case (Inr u)
    let ?w1 = "w\<lparr>w_env := snd (call (w_env w)), w_trace := w_trace w @ [ev True]\<rparr>"
    have run: "run_state (orExit call ev m) w = run_state m ?w1"
      using Inr by (simp add: orExit_def run_api_call)
    from assms [unfolded stopsAtFailure_def, rule_format, of ?w1] obtain n where n: "n \<le> length steps"
      "w_trace (snd (run_state m ?w1)) = w_trace w @ ev True # map (\<lambda>s. s True) (take n steps) @
         (if n < length steps then [(steps ! n) False] else [])"
      "fst (run_state m ?w1) = (if n < length steps then Exited 1 else Returned)" by auto
    then show ?thesis unfolding run by (intro exI [of _ "Suc n"]) simp
  qed
qed

text \<open>
  Property C40. Whatever fails, the command makes its calls in the one order, stops at the first call that
  fails and exits with code 1; it returns only when every call, the manager's run included,
  has succeeded. So the manager runs only with the reconciler and the health checks in place.
\<close>

theorem run_stops_at_first_failure: "stopsAtFailure (runCommand L fl) (startup fl)"
  by (cases "fl_CertDir fl = ''''")
    (simp_all add: runCommand_def setupManager_def startManager_def startup_def Let_def stopsAtFailure_orExit
      stopsAtFailure_return)

text \<open>
  Both servers of the manager get the same TLS configuration: without \<open>--enable-http2\<close> they
  offer HTTP/1.1 only, with a certificate directory they serve the watched certificate, and
  otherwise the configuration is left alone. The metrics endpoint asks for authentication exactly when it is
  served securely, which is the default.
\<close>

theorem run_tls_options:
  "fold applyTLS (mo_WebhookTLSOpts (managerOptions fl)) conf =
     \<lparr>tls_NextProtos = (if fl_EnableHTTP2 fl then tls_NextProtos conf else [''http/1.1'']),
      tls_WatchedCertificate = (fl_CertDir fl \<noteq> '''' \<or> tls_WatchedCertificate conf)\<rparr> \<and>
   ms_TLSOpts (mo_Metrics (managerOptions fl)) = mo_WebhookTLSOpts (managerOptions fl) \<and>
   (ms_Authenticated (mo_Metrics (managerOptions fl)) \<longleftrightarrow> ms_SecureServing (mo_Metrics (managerOptions fl))) \<and>
   ms_Authenticated (mo_Metrics (managerOptions (defaultFlags million))) \<and>
   fold applyTLS (mo_WebhookTLSOpts (managerOptions (defaultFlags million))) conf = conf\<lparr>tls_NextProtos := [''http/1.1'']\<rparr>"
  by (simp add: managerOptions_def serverTLSOpts_def tlsOpts_def defaultFlags_def)

section \<open>The CustomResourceDefinition\<close>

definition gvrString :: "group_version_resource \<Rightarrow> string" where
  "gvrString g = concat [gvr_Group g, ''/'', gvr_Version g, '', Resource='', gvr_Resource g]"

text \<open>
  The embedded files, and \<open>yaml.Unmarshal\<close> into a pointer: an error, or the pointer afterwards, which is
  nil (\<open>None\<close>) for a document without content.
\<close>

record 'd crd_files =
  cf_ReadFile :: "string \<Rightarrow> string res"
  cf_Unmarshal :: "string \<Rightarrow> 'd option res"

definition load :: "'d crd_files \<Rightarrow> string \<Rightarrow> 'd option res" where
  "load F filename = (case cf_ReadFile F filename of Inl e \<Rightarrow> Inl e | Inr data \<Rightarrow> cf_Unmarshal F data)"

definition CustomResourceDefinition :: "'d crd_files \<Rightarrow> group_version_resource \<Rightarrow> 'd res" where
  "CustomResourceDefinition F gvr =
     (case load F (gvr_Group gvr @ ''_'' @ gvr_Resource gvr @ ''.yaml'') of
        Inl e \<Rightarrow> Inl e
      | Inr None \<Rightarrow> Inl (Err (''missing crd yamls for gvr: '' @ gvrString gvr))
      | Inr (Some crd) \<Rightarrow> Inr crd)"

text \<open>A panic with the error as its value.\<close>

definition MustCustomResourceDefinition :: "'d crd_files \<Rightarrow> (goerr \<Rightarrow> string) \<Rightarrow> group_version_resource \<Rightarrow> 'd res" where
  "MustCustomResourceDefinition F errText gvr =
     (case CustomResourceDefinition F gvr of Inl e \<Rightarrow> Inl (Panic (errText e)) | Inr crd \<Rightarrow> Inr crd)"

definition ResourceSidekicks :: string where "ResourceSidekicks = ''sidekicks''"

definition Sidekick_CustomResourceDefinition :: "'d crd_files \<Rightarrow> (goerr \<Rightarrow> string) \<Rightarrow> 'd res" where
  "Sidekick_CustomResourceDefinition F errText = MustCustomResourceDefinition F errText
     \<lparr>gvr_Group = GroupName, gvr_Version = ''v1alpha1'', gvr_Resource = ResourceSidekicks\<rparr>"

text \<open>The one file of \<open>src/crds\<close> that \<open>go:embed *.yaml\<close> picks up.\<close>

definition embedded :: "string \<Rightarrow> string \<Rightarrow> string res" where
  "embedded content filename =
     (if filename = ''apps.k8s.appscode.com_sidekicks.yaml'' then Inr content else Inl (Err ''file does not exist''))"

text \<open>
  The definition of the Sidekick resource comes from the one embedded file: the name computed from
  group and resource is the name of that file, so the result is what the file decodes to, and the
  program panics exactly when it does not decode to a definition.
\<close>

theorem sidekick_crd_embedded:
  assumes "cf_ReadFile F = embedded content"
  shows "Sidekick_CustomResourceDefinition F errText =
    (case cf_Unmarshal F content of
       Inl e \<Rightarrow> Inl (Panic (errText e))
     | Inr None \<Rightarrow> Inl (Panic (errText (Err ''missing crd yamls for gvr: apps.k8s.appscode.com/v1alpha1, Resource=sidekicks'')))
     | Inr (Some crd) \<Rightarrow> Inr crd)"
  using assms
  by (simp add: Sidekick_CustomResourceDefinition_def MustCustomResourceDefinition_def CustomResourceDefinition_def
      load_def embedded_def GroupName_def ResourceSidekicks_def gvrString_def split: sum.split option.split)

theorem sidekick_crd_embedded_witness:
  "Sidekick_CustomResourceDefinition \<lparr>cf_ReadFile = embedded ''kind: X'', cf_Unmarshal = (\<lambda>s. Inr (Some (length s)))\<rparr>
     (\<lambda>_. '''') = Inr 7"
  by (subst sidekick_crd_embedded [where content = "''kind: X''"]) simp_all

end
