(* ===== verification/Convergence.thy ===== *)
theory Convergence
  imports Reconciler
begin

text \<open>
  Repeated reconciliation reaches its goal. An API server that keeps objects under their names, as
  documented, is a locale; on any such server, while nobody else changes the objects of a Sidekick with
  restart policy Always and a leader given by name, at most three reconciliations bring its pod to
  its leader, whatever pod was there before, and all later ones leave it alone.
\<close>

section \<open>Outcomes\<close>

text \<open>
  Run in an outside world \<open>e\<close>, whatever was sent before, the computation ends with a result and
  an outside world that satisfy \<open>Q\<close>.
\<close>

definition yields :: "('e, event, 'a) go \<Rightarrow> 'e \<Rightarrow> ('a \<Rightarrow> 'e \<Rightarrow> bool) \<Rightarrow> bool" where
  "yields m e Q = (\<forall>w. w_env w = e \<longrightarrow> Q (fst (run_state m w)) (w_env (snd (run_state m w))))"

named_theorems yields_rules

lemma yields_return [simp]: "yields (ret a) e Q = Q a e"
  by (auto simp: yields_def intro: exI [of _ "\<lparr>w_env = e, w_trace = []\<rparr>"])

lemma yields_bind [yields_rules]:
  assumes "yields m e R" "\<And>a e1. R a e1 \<Longrightarrow> yields (f a) e1 Q"
  shows "yields (State_Monad.bind m f) e Q"
  using assms by (auto simp: yields_def split: prod.split)

lemma yields_mono: "yields m e R \<Longrightarrow> (\<And>a e1. R a e1 \<Longrightarrow> Q a e1) \<Longrightarrow> yields m e Q"
  by (simp add: yields_def)

lemma yields_api_call: "yields (api_call f ev) e Q = (case f e of (r, e') \<Rightarrow> Q r e')"
  by (auto simp: yields_def run_api_call split: prod.split intro: exI [of _ "\<lparr>w_env = e, w_trace = []\<rparr>"])

section \<open>The contract of the API server\<close>

abbreviation podKey :: "pod \<Rightarrow> nsname" where "podKey p \<equiv> ObjectKeyFromMeta (p_Meta p)"

abbreviation skKey :: "sidekick \<Rightarrow> nsname" where "skKey s \<equiv> ObjectKeyFromMeta (sk_Meta s)"

text \<open>
  What the server stores when it is asked to create a pod: everything the request says, under a UID
  of its own and not being deleted.
\<close>

definition stored :: "pod \<Rightarrow> pod \<Rightarrow> bool" where
  "stored p p' = (p_Spec p' = p_Spec p \<and> p_Status p' = p_Status p \<and> podKey p' = podKey p \<and>
     om_Annotations (p_Meta p') = om_Annotations (p_Meta p) \<and> om_Finalizers (p_Meta p') = om_Finalizers (p_Meta p) \<and>
     \<not> p_Deleting p')"

text \<open>The same object up to its status and its finalizers.\<close>

definition sameSidekick :: "sidekick \<Rightarrow> sidekick \<Rightarrow> bool" where
  "sameSidekick sk sk' = (sk_Spec sk' = sk_Spec sk \<and>
     (sk_Meta sk')\<lparr>om_Finalizers := []\<rparr> = (sk_Meta sk)\<lparr>om_Finalizers := []\<rparr>)"

text \<open>A deleted pod: gone if it had no finalizers, else marked and waiting for them.\<close>

definition goneOrGoing :: "string list \<Rightarrow> pod option \<Rightarrow> bool" where
  "goneOrGoing fins x = (case x of
     None \<Rightarrow> fins = []
   | Some p \<Rightarrow> p_Deleting p \<and> om_Finalizers (p_Meta p) = fins \<and> fins \<noteq> [])"

section \<open>How far a Sidekick is from its goal\<close>

text \<open>
  The Sidekick follows an existing leader by name, and its pod can be built; a pod in its place has at
  most the operator's finalizer.
\<close>

definition reconcilable :: "'x params_scheme \<Rightarrow> nsname \<Rightarrow> pod \<Rightarrow> sidekick \<Rightarrow> bool" where
  "reconcilable P req leader sk = (skKey sk = req \<and> \<not> sk_Deleting sk \<and> \<not> ss_Distributed (sk_Spec sk) \<and>
     ss_RestartPolicy (sk_Spec sk) = RestartPolicyAlways \<and>
     ld_Name (ss_Leader (sk_Spec sk)) = p_Name leader \<and> p_Name leader \<noteq> '''' \<and> p_Name leader \<noteq> sk_Name sk \<and>
     ok (newSidekickPod (pr_hash P) (pr_merge P) sk leader))"

definition ownFinalizers :: "pod option \<Rightarrow> bool" where
  "ownFinalizers x = (case x of
     None \<Rightarrow> True
   | Some pod \<Rightarrow> om_Finalizers (p_Meta pod) = [getFinalizerName] \<or>
       \<not> p_Deleting pod \<and> om_Finalizers (p_Meta pod) = [])"

text \<open>
  The goal: the recorded leader is the leader, and the pod is up to date for it. A pod in the way has
  to be deleted, released and created again.
\<close>

definition settledPod :: "'x params_scheme \<Rightarrow> pod \<Rightarrow> sidekick \<Rightarrow> pod \<Rightarrow> bool" where
  "settledPod P leader sk pod = (\<not> p_Deleting pod \<and> lds_Name (st_Leader (sk_Status sk)) = p_Name leader \<and>
     \<not> podNeedsRecreate (pr_hash P) sk leader pod)"

definition distance :: "'x params_scheme \<Rightarrow> pod \<Rightarrow> sidekick \<Rightarrow> pod option \<Rightarrow> nat" where
  "distance P leader sk x = (case x of
     None \<Rightarrow> 1
   | Some pod \<Rightarrow> if settledPod P leader sk pod then 0 else if p_Deleting pod then 2 else 3)"

text \<open>The outside world after some reconciliations of one request, one after the other.\<close>

definition afterReconcile :: "dparams \<Rightarrow> 'e kube \<Rightarrow> bool \<Rightarrow> nsname \<Rightarrow> 'e \<Rightarrow> 'e" where
  "afterReconcile P c started req e = w_env (snd (run_state (Reconcile P c started req) \<lparr>w_env = e, w_trace = []\<rparr>))"

definition afterReconciles :: "dparams \<Rightarrow> 'e kube \<Rightarrow> bool \<Rightarrow> nsname \<Rightarrow> nat \<Rightarrow> 'e \<Rightarrow> 'e" where
  "afterReconciles P c started req n = (afterReconcile P c started req ^^ n)"

lemma distance_zero: "distance P leader sk x = 0 \<Longrightarrow> \<exists>pod. x = Some pod \<and> settledPod P leader sk pod"
  by (cases x) (auto simp: distance_def split: if_splits)

lemma sameSidekick_fields:
  assumes "sameSidekick sk sk'"
  shows "sk_Spec sk' = sk_Spec sk" "skKey sk' = skKey sk" "sk_Deleting sk' = sk_Deleting sk" "sk_Name sk' = sk_Name sk"
    "om_Generation (sk_Meta sk') = om_Generation (sk_Meta sk)" "om_Labels (sk_Meta sk') = om_Labels (sk_Meta sk)"
    "om_Annotations (sk_Meta sk') = om_Annotations (sk_Meta sk)"
proof -
  have meta: "(sk_Meta sk')\<lparr>om_Finalizers := []\<rparr> = (sk_Meta sk)\<lparr>om_Finalizers := []\<rparr>" (is "?m' = ?m")
    using assms by (simp add: sameSidekick_def)
  have f: "f ?m' = f ?m" for f :: "objmeta \<Rightarrow> 'z" using meta by simp
  show "sk_Spec sk' = sk_Spec sk" using assms by (simp add: sameSidekick_def)
  show "skKey sk' = skKey sk" using f [of om_Name] f [of om_Namespace] by (simp add: ObjectKeyFromMeta_def)
  show "sk_Deleting sk' = sk_Deleting sk" "sk_Name sk' = sk_Name sk"
    "om_Generation (sk_Meta sk') = om_Generation (sk_Meta sk)" "om_Labels (sk_Meta sk') = om_Labels (sk_Meta sk)"
    "om_Annotations (sk_Meta sk') = om_Annotations (sk_Meta sk)"
    using f [of om_DeletionTimestamp] f [of om_Name] f [of om_Generation] f [of om_Labels] f [of om_Annotations] by simp_all
qed

lemma newSidekickPod_ok_spec:
  "sk_Spec sk' = sk_Spec sk \<Longrightarrow> ok (newSidekickPod h merge sk' leader) = ok (newSidekickPod h merge sk leader)"
  by (simp add: newSidekickPod_def Let_def ok_def split: sum.split)

lemma reconcilable_same: "sameSidekick sk sk' \<Longrightarrow> reconcilable P req leader sk' = reconcilable P req leader sk"
  using sameSidekick_fields [of sk sk'] newSidekickPod_ok_spec [of sk' sk] by (simp add: reconcilable_def)

lemma podNeedsRecreate_same:
  assumes "sameSidekick sk sk'"
  shows "podNeedsRecreate h sk' leader pod = podNeedsRecreate h sk leader pod"
  using sameSidekick_fields [OF assms] GenerationHash_cong [of "sk_Meta sk'" "sk_Meta sk" h]
  by (simp add: podNeedsRecreate_def)

lemma sameSidekick_trans: "sameSidekick a b \<Longrightarrow> sameSidekick b d \<Longrightarrow> sameSidekick a d"
  by (simp add: sameSidekick_def)

lemma sameSidekick_finalizer: "sameSidekick sk (sk\<lparr>sk_Meta := AddFinalizer (sk_Meta sk) f\<rparr>)"
  by (simp add: sameSidekick_def AddFinalizer_def)

locale api_store =
  fixes c :: "'e kube"
    and pod_at :: "'e \<Rightarrow> nsname \<Rightarrow> pod option"
    and sk_at :: "'e \<Rightarrow> nsname \<Rightarrow> sidekick option"
  assumes pod_key: "pod_at e k = Some p \<Longrightarrow> podKey p = k"
    and sk_key: "sk_at e k = Some s \<Longrightarrow> skKey s = k"
    and get_pod: "o_get (k_pods c) k e = (case pod_at e k of None \<Rightarrow> Inl NotFound | Some p \<Rightarrow> Inr p, e)"
    and get_sk: "o_get (k_sidekicks c) k e = (case sk_at e k of None \<Rightarrow> Inl NotFound | Some s \<Rightarrow> Inr s, e)"
    and create_pod: "pod_at e (podKey p) = None \<Longrightarrow>
      \<exists>p' e'. o_create (k_pods c) p e = (Inr p', e') \<and> stored p p' \<and>
        pod_at e' = (pod_at e)(podKey p \<mapsto> p') \<and> sk_at e' = sk_at e"
    and patch_pod: "pod_at e (podKey new) = Some old \<Longrightarrow> \<not> p_Deleting old \<Longrightarrow> new' = new\<lparr>p_Status := p_Status old\<rparr> \<Longrightarrow>
      \<exists>e'. o_patch (k_pods c) cur new e = (Inr new', e') \<and>
        pod_at e' = (pod_at e)(podKey new \<mapsto> new') \<and> sk_at e' = sk_at e"
    and release_pod: "pod_at e (podKey new) = Some old \<Longrightarrow> p_Deleting old \<Longrightarrow> om_Finalizers (p_Meta new) = [] \<Longrightarrow>
      \<exists>p' e'. o_patch (k_pods c) cur new e = (Inr p', e') \<and>
        pod_at e' = (pod_at e)(podKey new := None) \<and> sk_at e' = sk_at e"
    and delete_pod: "pod_at e k = Some old \<Longrightarrow> \<not> p_Deleting old \<Longrightarrow>
      \<exists>t e'. o_delete (k_pods c) k e = (Inr (), e') \<and> sk_at e' = sk_at e \<and>
        pod_at e' = (pod_at e)(k := if om_Finalizers (p_Meta old) = [] then None
          else Some (old\<lparr>p_Meta := (p_Meta old)\<lparr>om_DeletionTimestamp := Some t\<rparr>\<rparr>))"
    and patch_sk: "sk_at e (skKey snew) = Some sold \<Longrightarrow> \<not> sk_Deleting sold \<Longrightarrow> snew' = snew\<lparr>sk_Status := sk_Status sold\<rparr> \<Longrightarrow>
      \<exists>e'. o_patch (k_sidekicks c) scur snew e = (Inr snew', e') \<and>
        sk_at e' = (sk_at e)(skKey snew \<mapsto> snew') \<and> pod_at e' = pod_at e"
    and patch_sk_status: "sk_at e (skKey snew) = Some sold \<Longrightarrow> \<not> sk_Deleting sold \<Longrightarrow> snew' = sold\<lparr>sk_Status := sk_Status snew\<rparr> \<Longrightarrow>
      \<exists>e'. o_status_patch (k_sidekicks c) scur snew e = (Inr snew', e') \<and>
        sk_at e' = (sk_at e)(skKey snew \<mapsto> snew') \<and> pod_at e' = pod_at e"
begin

text \<open>Nothing changes but the Sidekick and the pod under one key.\<close>

definition elsewhere :: "nsname \<Rightarrow> 'e \<Rightarrow> 'e \<Rightarrow> bool" where
  "elsewhere k e e' = (\<forall>k'. k' \<noteq> k \<longrightarrow> sk_at e' k' = sk_at e k' \<and> pod_at e' k' = pod_at e k')"

lemma yields_get_pod:
  "yields (kGet pod_kind (k_pods c) k) e (\<lambda>r e'. r = (case pod_at e k of None \<Rightarrow> Inl NotFound | Some p \<Rightarrow> Inr p) \<and> e' = e)"
  by (simp add: kGet_def yields_api_call get_pod)

lemma yields_get_sk:
  "yields (kGet sidekick_kind (k_sidekicks c) k) e (\<lambda>r e'. r = (case sk_at e k of None \<Rightarrow> Inl NotFound | Some s \<Rightarrow> Inr s) \<and> e' = e)"
  by (simp add: kGet_def yields_api_call get_sk)

lemma yields_status:
  assumes "sk_at e (skKey sk) = Some cur" "\<not> sk_Deleting cur"
  shows "yields (updateSidekickStatus c sk) e (\<lambda>r e'. r = Inr (cur\<lparr>sk_Status := sk_Status sk\<rparr>) \<and>
     sk_at e' = (sk_at e)(skKey sk \<mapsto> cur\<lparr>sk_Status := sk_Status sk\<rparr>) \<and> pod_at e' = pod_at e)"
proof -
  let ?new = "cur\<lparr>sk_Status := sk_Status sk\<rparr>"
  have key: "skKey ?new = skKey sk" using sk_key [OF assms(1)] by simp
  obtain e' where e': "o_status_patch (k_sidekicks c) cur ?new e = (Inr ?new, e')"
    "sk_at e' = (sk_at e)(skKey sk \<mapsto> ?new)" "pod_at e' = pod_at e"
    using patch_sk_status [of e ?new cur ?new cur] assms key by auto
  have patch: "yields (kStatusPatch sidekick_kind (k_sidekicks c) cur ?new) e (\<lambda>r e2. r = Inr ?new \<and> e2 = e')"
    by (simp add: kStatusPatch_def yields_api_call e'(1))
  have "yields (PatchStatus sidekick_kind (k_sidekicks c) sk (\<lambda>cur. cur\<lparr>sk_Status := sk_Status sk\<rparr>)) e
      (\<lambda>r e2. (\<exists>v. r = Inr (v, ?new)) \<and> e2 = e')"
    unfolding PatchStatus_def
    by (rule yields_bind, rule yields_get_sk)
      (auto simp: assms(1) sidekick_kind_def intro!: yields_bind [OF patch [unfolded sidekick_kind_def]])
  then show ?thesis
    unfolding updateSidekickStatus_def by (rule yields_bind) (auto simp: e'(2,3))
qed

text \<open>The finalizer of the Sidekick is put in place.\<close>

lemma yields_finalizer:
  assumes "sk_at e (skKey sk) = Some sk" "\<not> sk_Deleting sk"
  shows "yields (handleSidekickFinalizer c sk) e (\<lambda>r e'. \<exists>sk1. r = Inr sk1 \<and>
     sk1 = sk\<lparr>sk_Meta := AddFinalizer (sk_Meta sk) getFinalizerName\<rparr> \<and>
     sk_at e' = (sk_at e)(skKey sk \<mapsto> sk1) \<and> pod_at e' = pod_at e)"
proof -
  let ?sk1 = "sk\<lparr>sk_Meta := AddFinalizer (sk_Meta sk) getFinalizerName\<rparr>"
  have key: "skKey ?sk1 = skKey sk" by (simp add: AddFinalizer_def ObjectKeyFromMeta_def)
  obtain e' where e': "o_patch (k_sidekicks c) sk ?sk1 e = (Inr ?sk1, e')"
    "sk_at e' = (sk_at e)(skKey sk \<mapsto> ?sk1)" "pod_at e' = pod_at e"
    using patch_sk [of e ?sk1 sk ?sk1 sk] assms unfolding key by auto
  have patch: "yields (kPatch sidekick_kind (k_sidekicks c) sk ?sk1) e (\<lambda>r e2. r = Inr ?sk1 \<and> e2 = e')"
    by (simp add: kPatch_def yields_api_call e'(1))
  have "yields (CreateOrPatch sidekick_kind (k_sidekicks c) sk
      (\<lambda>s _. s\<lparr>sk_Meta := AddFinalizer (sk_Meta s) getFinalizerName\<rparr>)) e (\<lambda>r e2. (\<exists>v. r = Inr (v, ?sk1)) \<and> e2 = e')"
    unfolding CreateOrPatch_def
    by (rule yields_bind, rule yields_get_sk)
      (auto simp: assms(1) sidekick_kind_def intro!: yields_bind [OF patch [unfolded sidekick_kind_def]])
  then have "yields (do {
      r \<leftarrow> CreateOrPatch sidekick_kind (k_sidekicks c) sk (\<lambda>s _. s\<lparr>sk_Meta := AddFinalizer (sk_Meta s) getFinalizerName\<rparr>);
      (case r of Inl e \<Rightarrow> ret (Inl e) | Inr (_, sk') \<Rightarrow> ret (Inr sk')) }) e (\<lambda>r e2. r = Inr ?sk1 \<and> e2 = e')"
    by (rule yields_bind) auto
  then show ?thesis
    using assms(2) unfolding handleSidekickFinalizer_def
    by (simp, elim yields_mono) (auto simp: e'(2,3))
qed

text \<open>The phase of a Sidekick with restart policy Always is written and the key is not dropped.\<close>

lemma yields_finishPhase:
  assumes "sk_at e (skKey sk) = Some cur" "\<not> sk_Deleting cur" "ss_RestartPolicy (sk_Spec sk) = RestartPolicyAlways"
  shows "yields (finishPhase c sk pod) e (\<lambda>r e'. \<exists>phase sk'. r = Inr (phase, sk') \<and>
     phase \<in> {SideKickPhaseCurrent, SideKickPhaseDegraded} \<and>
     sk' = cur\<lparr>sk_Status := (sk_Status sk)\<lparr>st_Phase := phase\<rparr>\<rparr> \<and>
     sk_at e' = (sk_at e)(skKey sk \<mapsto> sk') \<and> pod_at e' = pod_at e)"
proof -
  obtain phase sk1 where ph: "getSidekickPhase sk (Some pod) = (phase, sk1)" by (cases "getSidekickPhase sk (Some pod)")
  have phase: "phase \<in> {SideKickPhaseCurrent, SideKickPhaseDegraded}"
    using pod_phase.phase [of sk "Some pod"] assms(3) by (auto simp: ph phase_spec_def)
  have sk1: "sk_Meta sk1 = sk_Meta sk" "sk_Status sk1 = sk_Status sk"
    using pod_phase.phase_meta [of sk "Some pod"] pod_phase.phase_status [of sk "Some pod"] by (simp_all add: ph)
  let ?sk2 = "sk1\<lparr>sk_Status := (sk_Status sk1)\<lparr>st_Phase := phase\<rparr>\<rparr>"
  have "sk_at e (skKey ?sk2) = Some cur" using assms(1) sk1(1) by simp
  note upd = yields_status [OF this assms(2)]
  show ?thesis
    unfolding finishPhase_def ph Let_def prod.case
    by (rule yields_bind, rule upd) (use phase sk1 in auto)
qed

lemma yields_calculate:
  assumes "sk_at e (skKey sk) = Some sk" "\<not> sk_Deleting sk" "ss_RestartPolicy (sk_Spec sk) = RestartPolicyAlways"
  shows "yields (calculateSidekickPhase c sk) e (\<lambda>r e'. \<exists>phase sk'. r = Inr (phase, sk') \<and>
     phase \<in> {SideKickPhaseCurrent, SideKickPhaseDegraded} \<and> st_Phase (sk_Status sk') = phase \<and>
     sameSidekick sk sk' \<and> st_Leader (sk_Status sk') = st_Leader (sk_Status sk) \<and>
     st_FailureCount (sk_Status sk') \<noteq> None \<and>
     sk_at e' = (sk_at e)(skKey sk \<mapsto> sk') \<and> pod_at e' = pod_at e)" (is "yields _ e ?Q")
proof -
  have counted: "st_Leader (sk_Status (countPod pod s)) = st_Leader (sk_Status s)"
    "st_FailureCount (sk_Status s) \<noteq> None \<Longrightarrow> st_FailureCount (sk_Status (countPod pod s)) \<noteq> None" for pod s
    by (simp_all add: countPod_def countFailedPod_alt Let_def setFailure_def setRestarts_def gm_set_def defaultBackoffLimit_def)
  have alloc: "st_Leader (sk_Status (allocStatusMaps sk)) = st_Leader (sk_Status sk)"
    "st_FailureCount (sk_Status (allocStatusMaps sk)) \<noteq> None"
    by (simp_all add: allocStatusMaps_def)
  have fin: "yields (finishPhase c s pod) e ?Q"
    if "sk_Meta s = sk_Meta sk" "ss_RestartPolicy (sk_Spec s) = RestartPolicyAlways"
      "st_Leader (sk_Status s) = st_Leader (sk_Status sk)" "st_FailureCount (sk_Status s) \<noteq> None" for s pod
  proof (rule yields_mono, rule yields_finishPhase)
    show "sk_at e (skKey s) = Some sk" using that(1) assms(1) by simp
  qed (use that assms in \<open>auto simp: sameSidekick_def\<close>)
  show ?thesis
    unfolding calculateSidekickPhase_def Let_def
  proof (rule yields_bind, rule yields_get_pod, goal_cases)
    case 1
    then show ?case
      using fin [of "allocStatusMaps sk"] fin [of "countPod pod (allocStatusMaps sk)" for pod]
        counted alloc assms(3) by (simp split: option.split)
  qed
qed

lemma yields_phase:
  assumes "sk_at e (skKey sk) = Some sk" "\<not> sk_Deleting sk" "ss_RestartPolicy (sk_Spec sk) = RestartPolicyAlways"
  shows "yields (updateSidekickPhase c req sk) e (\<lambda>r e'. \<exists>sk'. r = Inr (False, sk') \<and>
     sameSidekick sk sk' \<and> st_Leader (sk_Status sk') = st_Leader (sk_Status sk) \<and>
     st_FailureCount (sk_Status sk') \<noteq> None \<and>
     sk_at e' = (sk_at e)(skKey sk \<mapsto> sk') \<and> pod_at e' = pod_at e)"
  unfolding updateSidekickPhase_def
  by (rule yields_bind, rule yields_calculate [OF assms]) auto

text \<open>A leader given by name.\<close>

lemma yields_leader:
  assumes "ld_Name (ss_Leader (sk_Spec sk)) = p_Name leader" "p_Name leader \<noteq> ''''"
    and "pod_at e \<lparr>nn_Namespace = sk_Namespace sk, nn_Name = p_Name leader\<rparr> = Some leader"
  shows "yields (getLeader srt chk c sk) e (\<lambda>r e'. r = Inr leader \<and> e' = e)"
  unfolding getLeader_def Let_def using assms
  by (simp, intro yields_mono [OF yields_get_pod]) (simp add: assms(3))

text \<open>Deleting the pod: it is gone, or waits for its finalizers.\<close>

lemma yields_mark:
  assumes "pod_at e (podKey pod) = Some pod" "\<not> p_Deleting pod"
  shows "yields (setDeletionInitiatorAnnotation c pod) e (\<lambda>r e'. r = Inr (markInitiator pod) \<and>
     pod_at e' = (pod_at e)(podKey pod \<mapsto> markInitiator pod) \<and> sk_at e' = sk_at e)"
proof -
  let ?new = "markInitiator pod"
  have new: "podKey ?new = podKey pod" "?new = ?new\<lparr>p_Status := p_Status pod\<rparr>"
    by (simp_all add: markInitiator_def ObjectKeyFromMeta_def)
  obtain e' where e': "o_patch (k_pods c) pod ?new e = (Inr ?new, e')"
    "pod_at e' = (pod_at e)(podKey pod \<mapsto> ?new)" "sk_at e' = sk_at e"
    using patch_pod [of e ?new pod ?new pod] assms new by auto
  have patch: "yields (kPatch pod_kind (k_pods c) pod ?new) e (\<lambda>r e2. r = Inr ?new \<and> e2 = e')"
    by (simp add: kPatch_def yields_api_call e'(1))
  have "yields (CreateOrPatch pod_kind (k_pods c) pod (\<lambda>p _. markInitiator p)) e (\<lambda>r e2. (\<exists>v. r = Inr (v, ?new)) \<and> e2 = e')"
    unfolding CreateOrPatch_def
    by (rule yields_bind, rule yields_get_pod)
      (auto simp: assms(1) pod_kind_def intro!: yields_bind [OF patch [unfolded pod_kind_def]])
  then show ?thesis
    unfolding setDeletionInitiatorAnnotation_def by (rule yields_bind) (auto simp: e'(2,3))
qed

lemma yields_deletePod:
  assumes "pod_at e (podKey pod) = Some pod" "\<not> p_Deleting pod"
  shows "yields (deletePod c pod) e (\<lambda>r e'. r = Inr () \<and> sk_at e' = sk_at e \<and>
     (\<exists>x. pod_at e' = (pod_at e)(podKey pod := x) \<and> goneOrGoing (om_Finalizers (p_Meta pod)) x))"
  unfolding deletePod_def
proof (rule yields_bind, rule yields_mark [OF assms], goal_cases)
  case (1 r e1)
  note r = this
  have mark: "podKey (markInitiator pod) = podKey pod" "\<not> p_Deleting (markInitiator pod)"
    "om_Finalizers (p_Meta (markInitiator pod)) = om_Finalizers (p_Meta pod)"
    using assms(2) by (simp_all add: markInitiator_def ObjectKeyFromMeta_def)
  obtain t e' where e': "o_delete (k_pods c) (podKey pod) e1 = (Inr (), e')" "sk_at e' = sk_at e1"
    "pod_at e' = (pod_at e1)(podKey pod := if om_Finalizers (p_Meta pod) = [] then None
      else Some (markInitiator pod\<lparr>p_Meta := (p_Meta (markInitiator pod))\<lparr>om_DeletionTimestamp := Some t\<rparr>\<rparr>))"
    using delete_pod [of e1 "podKey pod" "markInitiator pod"] r mark by auto
  then show ?case
    using r mark by (auto simp: kDelete_def yields_api_call goneOrGoing_def)
qed

lemma yields_deletePodAndResetStatus:
  assumes "pod_at e k = Some pod" "\<not> p_Deleting pod" "sk_at e k = Some cur" "\<not> sk_Deleting cur" "skKey sk = k"
  shows "yields (deletePodAndResetStatus c sk pod) e (\<lambda>r e'. r = Inr () \<and>
     (\<exists>sk'. sk_at e' k = Some sk' \<and> sameSidekick cur sk') \<and>
     goneOrGoing (om_Finalizers (p_Meta pod)) (pod_at e' k) \<and> elsewhere k e e')"
proof -
  have key: "podKey pod = k" using assms(1) by (rule pod_key)
  have reset: "skKey (recordStatus a b sk) = k" for a b
    using assms(5) by (simp add: recordStatus_def)
  show ?thesis
    unfolding deletePodAndResetStatus_def
  proof (rule yields_bind, rule yields_deletePod, goal_cases)
    case (3 r e1)
    then have "sk_at e1 (skKey (recordStatus '''' '''' sk)) = Some cur"
      using assms(3) reset by simp
    from yields_status [OF this assms(4)] show ?case
      using 3 unfolding reset key
      by (auto simp: asUnit_def sameSidekick_def elsewhere_def elim!: yields_bind)
  qed (use assms key in simp_all)
qed

text \<open>The missing pod is created, and the leader recorded.\<close>

lemma yields_createSidekickPod:
  assumes "newSidekickPod (pr_hash P) (pr_merge P) sk leader = Inr (pod, sk1)" "skKey sk = k"
    and "pod_at e k = None" "sk_at e k = Some cur" "\<not> sk_Deleting cur" "ss_RestartPolicy (sk_Spec sk) = RestartPolicyAlways"
  shows "yields (createSidekickPod P c sk leader) e (\<lambda>r e'. r = Inr () \<and>
     (\<exists>sk' pod'. sk_at e' k = Some sk' \<and> sameSidekick cur sk' \<and> lds_Name (st_Leader (sk_Status sk')) = p_Name leader \<and>
       pod_at e' k = Some pod' \<and> \<not> p_Deleting pod' \<and> om_Finalizers (p_Meta pod') = [getFinalizerName] \<and>
       \<not> podNeedsRecreate (pr_hash P) sk leader pod') \<and> elsewhere k e e')"
proof -
  let ?new = "withFinalizer pod"
  have key: "podKey pod = k" "podKey ?new = k"
    using assms(2) newSidekickPod_InrD(5,6) [OF assms(1)]
    by (auto simp: withFinalizer_fields ObjectKeyFromMeta_def)
  obtain pod' e1 where pod': "o_create (k_pods c) ?new e = (Inr pod', e1)" "stored ?new pod'"
    "pod_at e1 = (pod_at e)(k \<mapsto> pod')" "sk_at e1 = sk_at e"
    using create_pod [of e ?new] assms(3) key by auto
  have fin: "om_Finalizers (p_Meta ?new) = [getFinalizerName]"
    using newSidekickPod_InrD(9) [OF assms(1)] by (simp add: withFinalizer_def AddFinalizer_def)
  have alive: "\<not> p_Deleting pod'" "om_Finalizers (p_Meta pod') = [getFinalizerName]"
    using pod'(2) fin by (simp_all add: stored_def)
  have fresh: "\<not> podNeedsRecreate (pr_hash P) sk leader pod'"
    using pod'(2) newSidekickPod_marks [OF assms(1)] newSidekickPod_node [OF assms(1)] assms(6)
    by (simp add: podNeedsRecreate_def stored_def withFinalizer_fields)
  have create: "yields (kCreate pod_kind (k_pods c) ?new) e (\<lambda>r e2. r = Inr pod' \<and> e2 = e1)"
    by (simp add: kCreate_def yields_api_call pod'(1))
  have cop: "yields (CreateOrPatch pod_kind (k_pods c) pod (\<lambda>p _. withFinalizer p)) e (\<lambda>r e2. r = Inr (VerbCreated, pod') \<and> e2 = e1)"
    unfolding CreateOrPatch_def
    by (rule yields_bind, rule yields_get_pod)
      (auto simp: key(1) assms(3) Let_def pod_kind_def newSidekickPod_no_version [OF assms(1)]
        intro!: yields_bind [OF create [unfolded pod_kind_def]])
  have rec: "skKey (recordStatus a b sk1) = k" "lds_Name (st_Leader (sk_Status (recordStatus a b sk1))) = a" for a b
    using assms(2) newSidekickPod_sk(3) [OF assms(1)] by (simp_all add: recordStatus_def)
  then have "sk_at e1 (skKey (recordStatus (p_Name leader) (p_Phase pod') sk1)) = Some cur"
    using pod'(4) assms(4) by simp
  note upd = yields_status [OF this assms(5)]
  show ?thesis
    unfolding createSidekickPod_def assms(1) sum.case prod.case
    by (rule yields_bind, rule cop)
      (use pod'(3,4) alive fresh rec(2) in \<open>auto intro!: yields_bind [OF upd [unfolded rec(1)]]
        simp: asUnit_def sameSidekick_def elsewhere_def\<close>)
qed

text \<open>A pod that is up to date is only looked at; a stale one is deleted.\<close>

lemma yields_sync_fresh:
  assumes "\<not> podNeedsRecreate (pr_hash P) sk leader pod" "skKey sk = k" "sk_at e k = Some cur" "\<not> sk_Deleting cur"
  shows "yields (syncExistingPod P c sk leader pod) e (\<lambda>r e'. r = Inr () \<and>
     (\<exists>sk'. sk_at e' k = Some sk' \<and> sameSidekick cur sk' \<and> st_Leader (sk_Status sk') = st_Leader (sk_Status sk)) \<and>
     pod_at e' = pod_at e \<and> elsewhere k e e')"
proof -
  let ?rec = "recordStatus (lds_Name (st_Leader (sk_Status sk))) (p_Phase pod) sk"
  have rec: "skKey ?rec = k" "st_Leader (sk_Status ?rec) = st_Leader (sk_Status sk)"
    using assms(2) by (simp_all add: recordStatus_def)
  then have "sk_at e (skKey ?rec) = Some cur" using assms(3) by simp
  note upd = yields_status [OF this assms(4)]
  show ?thesis
    unfolding syncExistingPod_def if_not_P [OF assms(1)]
    by (rule yields_bind, rule upd) (use rec in \<open>auto simp: asUnit_def sameSidekick_def elsewhere_def\<close>)
qed

lemma yields_sync_stale:
  assumes "podNeedsRecreate (pr_hash P) sk leader pod" "st_FailureCount (sk_Status sk) \<noteq> None"
    and "pod_at e k = Some pod" "\<not> p_Deleting pod" "sk_at e k = Some cur" "\<not> sk_Deleting cur" "skKey sk = k"
  shows "yields (syncExistingPod P c sk leader pod) e (\<lambda>r e'. r = Inr () \<and>
     (\<exists>sk'. sk_at e' k = Some sk' \<and> sameSidekick cur sk') \<and>
     goneOrGoing (om_Finalizers (p_Meta pod)) (pod_at e' k) \<and> elsewhere k e e')"
proof -
  note del = yields_deletePodAndResetStatus [OF assms(3-6)]
  show ?thesis
    unfolding syncExistingPod_def if_P [OF assms(1)] gm_put_not_nil [OF assms(2)] sum.case
    using assms(7) del [of sk] del [of "sk\<lparr>sk_Status := st\<rparr>" for st] by simp
qed

text \<open>A pod under deletion that only waits for the operator's finalizer is released.\<close>

lemma yields_release:
  assumes "pod_at e k = Some pod" "p_Deleting pod" "om_Finalizers (p_Meta pod) = [getFinalizerName]"
    and "sk_at e k = Some sk" "\<not> sk_Deleting sk"
  shows "yields (removePodFinalizerIfMarkedForDeletion c k) e (\<lambda>r e'. r = Inr True \<and>
     (\<exists>sk'. sk_at e' k = Some sk' \<and> sameSidekick sk sk') \<and> pod_at e' k = None \<and> elsewhere k e e')"
proof -
  have keys: "podKey pod = k" "skKey sk = k" using pod_key [OF assms(1)] sk_key [OF assms(4)] by auto
  let ?new = "pod\<lparr>p_Meta := RemoveFinalizer (p_Meta pod) getFinalizerName\<rparr>"
  have new: "podKey ?new = k" "om_Finalizers (p_Meta ?new) = []" "HasFinalizer (p_Meta pod) getFinalizerName"
    using keys(1) assms(3) by (simp_all add: RemoveFinalizer_def HasFinalizer_def ObjectKeyFromMeta_def)
  have remove: "yields (removePodFinalizer c pod) e1 (\<lambda>r e'. r = Inr () \<and> sk_at e' = sk_at e1 \<and>
      pod_at e' = (pod_at e1)(k := None))" if held: "pod_at e1 k = Some pod" for e1
  proof -
    obtain p' e' where e': "o_patch (k_pods c) pod ?new e1 = (Inr p', e')"
      "pod_at e' = (pod_at e1)(k := None)" "sk_at e' = sk_at e1"
      using release_pod [of e1 ?new pod pod, unfolded new(1), OF held assms(2) new(2)] by blast
    have patch: "yields (kPatch pod_kind (k_pods c) pod ?new) e1 (\<lambda>r e2. r = Inr p' \<and> e2 = e')"
      by (simp add: kPatch_def yields_api_call e'(1))
    have "yields (CreateOrPatch pod_kind (k_pods c) pod (\<lambda>p _. p\<lparr>p_Meta := RemoveFinalizer (p_Meta p) getFinalizerName\<rparr>)) e1
        (\<lambda>r e2. (\<exists>v. r = Inr (v, p')) \<and> e2 = e')"
      unfolding CreateOrPatch_def
      by (rule yields_bind, rule yields_get_pod)
        (auto simp: held keys(1) pod_kind_def intro!: yields_bind [OF patch [unfolded pod_kind_def]])
    then show ?thesis
      unfolding removePodFinalizer_def by (rule yields_bind) (auto simp: e'(2,3))
  qed
  have count: "yields (countExternalDeletion c k pod) e (\<lambda>r e'. r = Inr () \<and>
      (\<exists>sk'. sk_at e' k = Some sk' \<and> sameSidekick sk sk') \<and> pod_at e' = pod_at e \<and> elsewhere k e e')"
  proof (cases "gm_get (om_Annotations (p_Meta pod)) deletionInitiatorKey = None")
    case True
    let ?sk = "setFailure (p_UID pod) True sk"
    have "sk_at e (skKey ?sk) = Some sk" "skKey ?sk = k" using assms(4) keys(2) by simp_all
    note upd = yields_status [OF this(1) assms(5), unfolded this(2)]
    show ?thesis
      unfolding countExternalDeletion_def
      using True assms(4,5)
      by (auto intro!: yields_bind [OF yields_get_sk] yields_bind [OF upd] simp: sameSidekick_def elsewhere_def)
  next
    case False
    then show ?thesis
      using assms(4) by (auto simp: countExternalDeletion_def sameSidekick_def elsewhere_def)
  qed
  show ?thesis
    unfolding removePodFinalizerIfMarkedForDeletion_def
  proof (rule yields_bind, rule yields_get_pod, goal_cases)
    case (1 r e0)
    then show ?case
      using assms(1,2) new(3)
      by (auto intro!: yields_bind [OF count] yields_bind [OF remove] simp: elsewhere_def)
  qed
qed

text \<open>Up to the choice of the leader, a reconciliation only writes the finalizer and the status.\<close>

lemma yields_reconcileLocal:
  assumes "sk_at e k = Some sk" "\<not> sk_Deleting sk" "ss_RestartPolicy (sk_Spec sk) = RestartPolicyAlways"
    and follow: "\<And>sk2 e2. sameSidekick sk sk2 \<Longrightarrow> st_Leader (sk_Status sk2) = st_Leader (sk_Status sk) \<Longrightarrow>
      st_FailureCount (sk_Status sk2) \<noteq> None \<Longrightarrow> sk_at e2 k = Some sk2 \<Longrightarrow> pod_at e2 = pod_at e \<Longrightarrow>
      elsewhere k e e2 \<Longrightarrow> yields (followLeader P c k sk2) e2 Q"
  shows "yields (reconcileLocal P c k sk) e Q"
proof -
  let ?sk1 = "sk\<lparr>sk_Meta := AddFinalizer (sk_Meta sk) getFinalizerName\<rparr>"
  have key: "skKey sk = k" using assms(1) by (rule sk_key)
  have key1: "skKey ?sk1 = k" using key by (simp add: AddFinalizer_def ObjectKeyFromMeta_def)
  have alive: "\<not> sk_Deleting ?sk1" "ss_RestartPolicy (sk_Spec ?sk1) = RestartPolicyAlways"
    using assms(2,3) by (simp_all add: AddFinalizer_def)
  note fin = yields_finalizer [of e sk, unfolded key, OF assms(1,2)]
  show ?thesis
    unfolding reconcileLocal_def
  proof (rule yields_bind, rule fin, goal_cases)
    case (1 r e1)
    then have "sk_at e1 (skKey ?sk1) = Some ?sk1" using key1 by simp
    note phase = yields_phase [OF this alive, unfolded key1]
    have r: "r = Inr ?sk1" "sk_at e1 = (sk_at e)(k \<mapsto> ?sk1)" "pod_at e1 = pod_at e" using 1 by auto
    show ?case
      unfolding r(1) sum.case
    proof (rule yields_bind, rule phase, goal_cases)
      case (1 r2 e2)
      then obtain sk2 where sk2: "r2 = Inr (False, sk2)" "sameSidekick ?sk1 sk2"
        "st_Leader (sk_Status sk2) = st_Leader (sk_Status sk)" "st_FailureCount (sk_Status sk2) \<noteq> None"
        "sk_at e2 = (sk_at e1)(k \<mapsto> sk2)" "pod_at e2 = pod_at e1" by auto
      have "yields (followLeader P c k sk2) e2 Q"
        by (rule follow) (use sk2 r sameSidekick_trans [OF sameSidekick_finalizer] in \<open>auto simp: elsewhere_def\<close>)
      then show ?case by (simp add: sk2(1))
    qed
  qed
qed

text \<open>One reconciliation: without errors, and closer to the goal.\<close>

definition closer :: "'x params_scheme \<Rightarrow> pod \<Rightarrow> nsname \<Rightarrow> sidekick \<Rightarrow> 'e \<Rightarrow> 'e \<Rightarrow> bool" where
  "closer P leader k sk e e' = (elsewhere k e e' \<and>
     (\<exists>sk'. sk_at e' k = Some sk' \<and> sameSidekick sk sk' \<and> ownFinalizers (pod_at e' k) \<and>
       (if distance P leader sk (pod_at e k) = 0
        then distance P leader sk' (pod_at e' k) = 0 \<and> pod_at e' k = pod_at e k
        else distance P leader sk' (pod_at e' k) < distance P leader sk (pod_at e k))))"

lemma closer_from:
  assumes "sameSidekick sk sk2" "st_Leader (sk_Status sk2) = st_Leader (sk_Status sk)" "pod_at e2 = pod_at e"
    "elsewhere k e e2" "closer P leader k sk2 e2 e'"
  shows "closer P leader k sk e e'"
proof -
  have dist: "distance P leader sk2 x = distance P leader sk x" for x
    using assms(1,2) by (simp add: distance_def settledPod_def podNeedsRecreate_same split: option.split)
  obtain sk' where sk': "sk_at e' k = Some sk'" "sameSidekick sk2 sk'" "ownFinalizers (pod_at e' k)" "elsewhere k e2 e'"
    "if distance P leader sk (pod_at e k) = 0
     then distance P leader sk' (pod_at e' k) = 0 \<and> pod_at e' k = pod_at e k
     else distance P leader sk' (pod_at e' k) < distance P leader sk (pod_at e k)"
    using assms(5) unfolding closer_def dist assms(3) by blast
  have "elsewhere k e e'" using assms(4) sk'(4) by (simp add: elsewhere_def)
  with sk'(1,3,5) sameSidekick_trans [OF assms(1) sk'(2)] show ?thesis
    unfolding closer_def by blast
qed

lemma closer_created:
  assumes "pod_at e k = None" "sk_at e' k = Some sk'" "sameSidekick sk sk'" "lds_Name (st_Leader (sk_Status sk')) = p_Name leader"
    "pod_at e' k = Some pod'" "\<not> p_Deleting pod'" "om_Finalizers (p_Meta pod') = [getFinalizerName]"
    "\<not> podNeedsRecreate (pr_hash P) sk leader pod'" "elsewhere k e e'"
  shows "closer P leader k sk e e'"
proof -
  have "settledPod P leader sk' pod'"
    using assms by (simp add: settledPod_def podNeedsRecreate_same)
  then show ?thesis
    using assms by (simp add: closer_def distance_def ownFinalizers_def)
qed

lemma closer_deleted:
  assumes "pod_at e k = Some pod" "\<not> p_Deleting pod" "\<not> settledPod P leader sk pod" "ownFinalizers (pod_at e k)"
    "sk_at e' k = Some sk'" "sameSidekick sk sk'" "goneOrGoing (om_Finalizers (p_Meta pod)) (pod_at e' k)" "elsewhere k e e'"
  shows "closer P leader k sk e e'"
proof -
  have "distance P leader sk (pod_at e k) = 3" using assms(1-3) by (simp add: distance_def)
  moreover have "ownFinalizers (pod_at e' k) \<and> distance P leader sk' (pod_at e' k) < 3"
    using assms(1,2,4,7)
    by (auto simp: goneOrGoing_def ownFinalizers_def distance_def settledPod_def split: option.splits)
  ultimately show ?thesis using assms(5,6,8) by (simp add: closer_def)
qed

lemma closer_kept:
  assumes "pod_at e k = Some pod" "settledPod P leader sk pod" "ownFinalizers (pod_at e k)"
    "sk_at e' k = Some sk'" "sameSidekick sk sk'" "st_Leader (sk_Status sk') = st_Leader (sk_Status sk)"
    "pod_at e' = pod_at e" "elsewhere k e e'"
  shows "closer P leader k sk e e'"
  using assms by (simp add: closer_def distance_def settledPod_def podNeedsRecreate_same)

lemma yields_followLeader:
  assumes "reconcilable P k leader sk" "ownFinalizers (pod_at e k)" "\<forall>pod. pod_at e k = Some pod \<longrightarrow> \<not> p_Deleting pod"
    and "sk_at e k = Some sk" "st_FailureCount (sk_Status sk) \<noteq> None"
    and "pod_at e \<lparr>nn_Namespace = nn_Namespace k, nn_Name = p_Name leader\<rparr> = Some leader"
  shows "yields (followLeader P c k sk) e (\<lambda>r e'. r = (emptyResult, None) \<and> closer P leader k sk e e')"
    (is "yields _ e ?Q")
proof -
  have sk: "skKey sk = k" "\<not> sk_Deleting sk" "ss_RestartPolicy (sk_Spec sk) = RestartPolicyAlways"
    "ld_Name (ss_Leader (sk_Spec sk)) = p_Name leader" "p_Name leader \<noteq> ''''" "sk_Namespace sk = nn_Namespace k"
    using assms(1) by (auto simp: reconcilable_def ObjectKeyFromMeta_def)
  obtain new sk1 where new: "newSidekickPod (pr_hash P) (pr_merge P) sk leader = Inr (new, sk1)"
    using assms(1) by (cases "newSidekickPod (pr_hash P) (pr_merge P) sk leader") (auto simp: reconcilable_def ok_def)
  have lead: "yields (getLeader (pr_sort P) (pr_selCheck P) c sk) e (\<lambda>r e'. r = Inr leader \<and> e' = e)"
    by (rule yields_leader [OF sk(4,5)]) (simp add: assms(6) sk(6))
  show ?thesis
  proof (cases "pod_at e k")
    case None
    have "yields (createSidekickPod P c sk leader) e (\<lambda>r e'. r = Inr () \<and> closer P leader k sk e e')"
      by (rule yields_mono, rule yields_createSidekickPod [OF new sk(1) None assms(4) sk(2,3)])
        (use None closer_created in blast)
    then have ensure: "yields (ensurePod P c k sk leader) e ?Q"
      unfolding ensurePod_def using None
      by (auto simp: done_with_def intro!: yields_bind [OF yields_get_pod] elim!: yields_bind)
    show ?thesis
      unfolding followLeader_def using None ensure
      by (auto intro!: yields_bind [OF lead] yields_bind [OF yields_get_pod])
  next
    case (Some pod)
    then have alive: "\<not> p_Deleting pod" using assms(3) by simp
    have sync: "yields (syncExistingPod P c sk leader pod) e (\<lambda>r e'. r = Inr () \<and> closer P leader k sk e e')"
      if "p_Name leader = lds_Name (st_Leader (sk_Status sk))"
    proof (cases "podNeedsRecreate (pr_hash P) sk leader pod")
      case True
      then have "\<not> settledPod P leader sk pod" by (simp add: settledPod_def)
      then show ?thesis
        by (intro yields_mono [OF yields_sync_stale [OF True assms(5) Some alive assms(4) sk(2,1)]])
          (use Some alive assms(2) closer_deleted in blast)
    next
      case False
      then have "settledPod P leader sk pod" using that alive by (simp add: settledPod_def)
      then show ?thesis
        by (intro yields_mono [OF yields_sync_fresh [OF False sk(1) assms(4) sk(2)]])
          (use Some assms(2) closer_kept in blast)
    qed
    have ensure: "yields (ensurePod P c k sk leader) e ?Q" if "p_Name leader = lds_Name (st_Leader (sk_Status sk))"
      unfolding ensurePod_def using Some sync [OF that]
      by (auto simp: done_with_def intro!: yields_bind [OF yields_get_pod] elim!: yields_bind)
    have reset: "yields (do { u \<leftarrow> deletePodAndResetStatus c sk pod; ret (done_with u) }) e ?Q"
      if "p_Name leader \<noteq> lds_Name (st_Leader (sk_Status sk))"
    proof (rule yields_bind, rule yields_deletePodAndResetStatus [OF Some alive assms(4) sk(2,1)], goal_cases)
      case (1 r e')
      moreover have "\<not> settledPod P leader sk pod" using that by (simp add: settledPod_def)
      ultimately show ?case using closer_deleted [OF Some alive _ assms(2)] by (auto simp: done_with_def)
    qed
    show ?thesis
      unfolding followLeader_def using Some ensure reset
      by (auto intro!: yields_bind [OF lead] yields_bind [OF yields_get_pod])
  qed
qed

lemma yields_Reconcile:
  assumes "sk_at e k = Some sk" "reconcilable P k leader sk" "ownFinalizers (pod_at e k)"
    and "pod_at e \<lparr>nn_Namespace = nn_Namespace k, nn_Name = p_Name leader\<rparr> = Some leader"
  shows "yields (Reconcile P c b k) e (\<lambda>r e'. r = ((emptyResult, None), b) \<and> closer P leader k sk e e')"
proof (cases "\<exists>pod. pod_at e k = Some pod \<and> p_Deleting pod")
  case True
  then obtain pod where pod: "pod_at e k = Some pod" "p_Deleting pod" by blast
  then have fin: "om_Finalizers (p_Meta pod) = [getFinalizerName]" "distance P leader sk (pod_at e k) = 2"
    using assms(3) by (auto simp: ownFinalizers_def distance_def settledPod_def)
  have alive: "\<not> sk_Deleting sk" using assms(2) by (simp add: reconcilable_def)
  show ?thesis
    unfolding Reconcile_def
    by (rule yields_bind, rule yields_release [OF pod fin(1) assms(1) alive])
      (use fin in \<open>auto simp: closer_def ownFinalizers_def distance_def\<close>)
next
  case False
  have sk: "\<not> sk_Deleting sk" "ss_RestartPolicy (sk_Spec sk) = RestartPolicyAlways" "\<not> ss_Distributed (sk_Spec sk)"
    using assms(2) by (auto simp: reconcilable_def)
  have release: "yields (removePodFinalizerIfMarkedForDeletion c k) e (\<lambda>r e'. r = Inr False \<and> e' = e)"
    unfolding removePodFinalizerIfMarkedForDeletion_def
    by (rule yields_bind, rule yields_get_pod) (use False in \<open>auto split: option.splits\<close>)
  have local: "yields (reconcileLocal P c k sk) e (\<lambda>r e'. r = (emptyResult, None) \<and> closer P leader k sk e e')"
  proof (rule yields_reconcileLocal [OF assms(1) sk(1,2)])
    fix sk2 e2
    assume sk2: "sameSidekick sk sk2" "st_Leader (sk_Status sk2) = st_Leader (sk_Status sk)"
      "st_FailureCount (sk_Status sk2) \<noteq> None" "sk_at e2 k = Some sk2" "pod_at e2 = pod_at e" "elsewhere k e e2"
    have "yields (followLeader P c k sk2) e2 (\<lambda>r e'. r = (emptyResult, None) \<and> closer P leader k sk2 e2 e')"
      by (rule yields_followLeader) (use sk2 assms False in \<open>simp_all add: reconcilable_same\<close>)
    then show "yields (followLeader P c k sk2) e2 (\<lambda>r e'. r = (emptyResult, None) \<and> closer P leader k sk e e')"
      by (rule yields_mono) (use closer_from [OF sk2(1,2,5,6)] in blast)
  qed
  have "yields (do { res \<leftarrow> reconcileLocal P c k sk; ret (res, b) }) e
      (\<lambda>r e'. r = ((emptyResult, None), b) \<and> closer P leader k sk e e')"
    by (rule yields_bind, rule local) simp
  then show ?thesis
    unfolding Reconcile_def using assms(1) sk(3)
    by (auto intro!: yields_bind [OF release] yields_bind [OF yields_get_sk])
qed

text \<open>Repeated reconciliation.\<close>

definition onTheWay :: "'x params_scheme \<Rightarrow> nsname \<Rightarrow> pod \<Rightarrow> sidekick \<Rightarrow> 'e \<Rightarrow> nat \<Rightarrow> bool" where
  "onTheWay P k leader sk e d = (\<exists>sk'. sk_at e k = Some sk' \<and> sameSidekick sk sk' \<and> reconcilable P k leader sk' \<and>
     ownFinalizers (pod_at e k) \<and> pod_at e \<lparr>nn_Namespace = nn_Namespace k, nn_Name = p_Name leader\<rparr> = Some leader \<and>
     distance P leader sk' (pod_at e k) \<le> d)"

lemma onTheWay_result:
  assumes "onTheWay P k leader sk e d" "w_env w = e"
  shows "fst (run_state (Reconcile P c b k) w) = ((emptyResult, None), b)"
proof -
  from assms(1) obtain sk' where "sk_at e k = Some sk'" "reconcilable P k leader sk'" "ownFinalizers (pod_at e k)"
    "pod_at e \<lparr>nn_Namespace = nn_Namespace k, nn_Name = p_Name leader\<rparr> = Some leader"
    unfolding onTheWay_def by blast
  from yields_Reconcile [OF this, of b] assms(2) show ?thesis by (simp add: yields_def)
qed

lemma onTheWay_step:
  assumes "onTheWay P k leader sk e d"
  shows "onTheWay P k leader sk (afterReconcile P c b k e) (d - 1)"
    and "d = 0 \<Longrightarrow> pod_at (afterReconcile P c b k e) k = pod_at e k"
proof -
  let ?e = "afterReconcile P c b k e" and ?leaderKey = "\<lparr>nn_Namespace = nn_Namespace k, nn_Name = p_Name leader\<rparr>"
  obtain sk' where sk': "sk_at e k = Some sk'" "sameSidekick sk sk'" "reconcilable P k leader sk'"
    "ownFinalizers (pod_at e k)" "pod_at e ?leaderKey = Some leader" "distance P leader sk' (pod_at e k) \<le> d"
    using assms unfolding onTheWay_def by blast
  have "closer P leader k sk' e ?e"
    using yields_Reconcile [OF sk'(1,3,4,5), of b] by (simp add: yields_def afterReconcile_def)
  then obtain sk2 where sk2: "sk_at ?e k = Some sk2" "sameSidekick sk' sk2" "ownFinalizers (pod_at ?e k)" "elsewhere k e ?e"
    "if distance P leader sk' (pod_at e k) = 0
     then distance P leader sk2 (pod_at ?e k) = 0 \<and> pod_at ?e k = pod_at e k
     else distance P leader sk2 (pod_at ?e k) < distance P leader sk' (pod_at e k)"
    unfolding closer_def by blast
  have "nn_Name ?leaderKey \<noteq> nn_Name k"
    using sk'(3) by (auto simp: reconcilable_def ObjectKeyFromMeta_def)
  then have "pod_at ?e ?leaderKey = Some leader"
    using sk2(4) sk'(5) unfolding elsewhere_def by metis
  moreover have "distance P leader sk2 (pod_at ?e k) \<le> d - 1"
    using sk2(5) sk'(6) by (auto split: if_splits)
  ultimately show "onTheWay P k leader sk ?e (d - 1)"
    using sk2(1,3) sameSidekick_trans [OF sk'(2) sk2(2)] reconcilable_same [OF sk2(2)] sk'(3)
    unfolding onTheWay_def by blast
  show "pod_at ?e k = pod_at e k" if "d = 0"
    using sk2(5) sk'(6) that by simp
qed

lemma onTheWay_steps:
  "onTheWay P k leader sk e d \<Longrightarrow> onTheWay P k leader sk (afterReconciles P c b k n e) (d - n)"
proof (induction n)
  case (Suc n)
  from onTheWay_step(1) [OF Suc.IH [OF Suc.prems], of b] show ?case
    by (simp add: afterReconciles_def)
qed (simp add: afterReconciles_def)

lemma settled_stays:
  assumes "onTheWay P k leader sk e 0"
  shows "pod_at (afterReconciles P c b k n e) k = pod_at e k"
proof (induction n)
  case (Suc n)
  have "onTheWay P k leader sk (afterReconciles P c b k n e) 0"
    using onTheWay_steps [OF assms, of b n] by simp
  from onTheWay_step(2) [OF this, of b] Suc show ?case by (simp add: afterReconciles_def)
qed (simp add: afterReconciles_def)

lemma afterReconciles_add: "afterReconciles P c b k (m + n) e = afterReconciles P c b k m (afterReconciles P c b k n e)"
  by (simp add: afterReconciles_def funpow_add)

lemma settledI:
  assumes "onTheWay P k leader sk e 0"
  shows "\<exists>sk' pod. sk_at e k = Some sk' \<and> sameSidekick sk sk' \<and> pod_at e k = Some pod \<and> settledPod P leader sk' pod"
  using assms unfolding onTheWay_def by (metis distance_zero le_zero_eq)

lemma distance_bound: "distance P leader sk x \<le> 3"
  by (simp add: distance_def split: option.split)

lemma converges:
  assumes "sk_at e k = Some sk" "reconcilable P k leader sk" "ownFinalizers (pod_at e k)"
    and "pod_at e \<lparr>nn_Namespace = nn_Namespace k, nn_Name = p_Name leader\<rparr> = Some leader"
  shows "(\<forall>n w. w_env w = afterReconciles P c b k n e \<longrightarrow> fst (run_state (Reconcile P c b k) w) = ((emptyResult, None), b)) \<and>
    (\<exists>pod. \<forall>n \<ge> 3. \<exists>sk'. sk_at (afterReconciles P c b k n e) k = Some sk' \<and> sameSidekick sk sk' \<and>
       pod_at (afterReconciles P c b k n e) k = Some pod \<and> settledPod P leader sk' pod)"
proof (intro conjI allI impI)
  have start: "onTheWay P k leader sk e 3"
    using assms distance_bound by (auto simp: onTheWay_def sameSidekick_def)
  show "fst (run_state (Reconcile P c b k) w) = ((emptyResult, None), b)"
    if "w_env w = afterReconciles P c b k n e" for n w
    using onTheWay_result [OF onTheWay_steps [OF start]] that by blast
  let ?e3 = "afterReconciles P c b k 3 e"
  have e3: "onTheWay P k leader sk ?e3 0" using onTheWay_steps [OF start, of b 3] by simp
  then obtain pod where pod: "pod_at ?e3 k = Some pod" using settledI by blast
  show "\<exists>pod. \<forall>n \<ge> 3. \<exists>sk'. sk_at (afterReconciles P c b k n e) k = Some sk' \<and> sameSidekick sk sk' \<and>
       pod_at (afterReconciles P c b k n e) k = Some pod \<and> settledPod P leader sk' pod"
  proof (intro exI [of _ pod] allI impI)
    fix n :: nat assume "3 \<le> n"
    then obtain m where n: "n = m + 3" by (metis add.commute le_Suc_ex)
    let ?en = "afterReconciles P c b k n e"
    have "onTheWay P k leader sk ?en 0" "pod_at ?en k = Some pod"
      using onTheWay_steps [OF e3, of b m] settled_stays [OF e3, of b m] pod by (simp_all add: n afterReconciles_add)
    then show "\<exists>sk'. sk_at ?en k = Some sk' \<and> sameSidekick sk sk' \<and> pod_at ?en k = Some pod \<and> settledPod P leader sk' pod"
      using settledI by fastforce
  qed
qed

end

section \<open>The API server of the samples keeps the contract\<close>

definition stored_in :: "'o kind \<Rightarrow> 'o list \<Rightarrow> nsname \<Rightarrow> 'o option" where
  "stored_in K xs k = find (sameKey K k) xs"

abbreviation podIn :: "cluster \<Rightarrow> nsname \<Rightarrow> pod option" where "podIn cl \<equiv> stored_in pod_kind (cl_pods cl)"

abbreviation sidekickIn :: "cluster \<Rightarrow> nsname \<Rightarrow> sidekick option" where
  "sidekickIn cl \<equiv> stored_in sidekick_kind (cl_sidekicks cl)"

lemma stored_in_simps [simp]:
  "stored_in K [] k = None"
  "stored_in K (x # xs) k = (if ObjectKeyFromMeta (kd_meta K x) = k then Some x else stored_in K xs k)"
  by (simp_all add: stored_in_def sameKey_def)

lemma stored_in_key: "stored_in K xs k = Some x \<Longrightarrow> ObjectKeyFromMeta (kd_meta K x) = k"
  by (induction xs) (auto split: if_splits)

lemma stored_in_append: "stored_in K (xs @ [x]) =
    (if stored_in K xs (ObjectKeyFromMeta (kd_meta K x)) = None
     then (stored_in K xs)(ObjectKeyFromMeta (kd_meta K x) \<mapsto> x) else stored_in K xs)"
  by (induction xs) (auto simp: fun_eq_iff)

lemma stored_in_list_ex: "list_ex (sameKey K k) xs \<longleftrightarrow> stored_in K xs k \<noteq> None"
  by (induction xs) (auto simp: sameKey_def)

lemma stored_in_replaced:
  assumes "ObjectKeyFromMeta (kd_meta K v) = k" "stored_in K xs k \<noteq> None"
  shows "stored_in K (map (\<lambda>y. if sameKey K k y then v else y) xs) = (stored_in K xs)(k \<mapsto> v)"
proof
  fix k'
  show "stored_in K (map (\<lambda>y. if sameKey K k y then v else y) xs) k' = ((stored_in K xs)(k \<mapsto> v)) k'"
  proof (cases "k' = k")
    case True
    with assms show ?thesis by (induction xs) (auto simp: sameKey_def)
  next
    case False
    with assms(1) show ?thesis by (induction xs) (auto simp: sameKey_def)
  qed
qed

lemma stored_in_removed: "stored_in K (filter (\<lambda>y. \<not> sameKey K k y) xs) = (stored_in K xs)(k := None)"
  by (induction xs) (auto simp: sameKey_def fun_eq_iff)

lemma memGet_stored: "memGet K k xs = (case stored_in K xs k of None \<Rightarrow> Inl NotFound | Some x \<Rightarrow> Inr x)"
  by (simp add: memGet_def stored_in_def)

lemma memPatch_alive:
  assumes "stored_in K xs (ObjectKeyFromMeta (kd_meta K x)) = Some old" "om_DeletionTimestamp (kd_meta K old) = None"
    and "ObjectKeyFromMeta (kd_meta K (setp old x)) = ObjectKeyFromMeta (kd_meta K x)"
  shows "\<exists>ys. memPatch K setp x xs = (Inr (setp old x), ys) \<and>
    stored_in K ys = (stored_in K xs)(ObjectKeyFromMeta (kd_meta K x) \<mapsto> setp old x)"
  using assms by (simp add: memPatch_def Let_def stored_in_replaced flip: stored_in_def)

lemma memPatch_release:
  assumes "stored_in K xs (ObjectKeyFromMeta (kd_meta K x)) = Some old" "om_DeletionTimestamp (kd_meta K old) \<noteq> None"
    and "om_Finalizers (kd_meta K (setp old x)) = []"
  shows "\<exists>ys. memPatch K setp x xs = (Inr (setp old x), ys) \<and>
    stored_in K ys = (stored_in K xs)(ObjectKeyFromMeta (kd_meta K x) := None)"
  using assms by (auto simp: memPatch_def Let_def stored_in_removed simp flip: stored_in_def)

lemma memDelete_stored:
  assumes "stored_in K xs k = Some old" "\<And>m. kd_meta K (kd_setMeta K m old) = m"
  shows "\<exists>ys. memDelete K k xs = (Inr (), ys) \<and> stored_in K ys = (stored_in K xs)(k :=
    if om_Finalizers (kd_meta K old) = [] then None
    else Some (kd_setMeta K ((kd_meta K old)\<lparr>om_DeletionTimestamp := Some 1\<rparr>) old))"
proof -
  have "ObjectKeyFromMeta ((kd_meta K old)\<lparr>om_DeletionTimestamp := Some 1\<rparr>) = k"
    using stored_in_key [OF assms(1)] by (simp add: ObjectKeyFromMeta_def)
  then show ?thesis
    using assms by (simp add: memDelete_def stored_in_removed stored_in_replaced flip: stored_in_def)
qed

lemma kind_simps:
  "kd_meta pod_kind = p_Meta" "kd_setMeta pod_kind = (\<lambda>m p. p\<lparr>p_Meta := m\<rparr>)"
  "kd_meta sidekick_kind = sk_Meta" "kd_setMeta sidekick_kind = (\<lambda>m s. s\<lparr>sk_Meta := m\<rparr>)"
  by (simp_all add: pod_kind_def sidekick_kind_def fun_eq_iff)

interpretation mem_store: api_store mem_kube podIn sidekickIn
proof
  fix e :: cluster and k :: nsname
  show "podKey p = k" if "podIn e k = Some p" for p
    using stored_in_key [OF that] by (simp add: kind_simps)
  show "skKey s = k" if "sidekickIn e k = Some s" for s
    using stored_in_key [OF that] by (simp add: kind_simps)
  show "o_get (k_pods mem_kube) k e = (case podIn e k of None \<Rightarrow> Inl NotFound | Some p \<Rightarrow> Inr p, e)"
    "o_get (k_sidekicks mem_kube) k e = (case sidekickIn e k of None \<Rightarrow> Inl NotFound | Some s \<Rightarrow> Inr s, e)"
    by (simp_all add: mem_defs memGet_stored)
  show "\<exists>p' e'. o_create (k_pods mem_kube) p e = (Inr p', e') \<and> stored p p' \<and>
      podIn e' = (podIn e)(podKey p \<mapsto> p') \<and> sidekickIn e' = sidekickIn e" if "podIn e (podKey p) = None" for p
    using that
    by (simp add: mem_defs memCreate_def stored_in_list_ex stored_in_append stored_def kind_simps ObjectKeyFromMeta_def)
  show "\<exists>e'. o_patch (k_pods mem_kube) cur new e = (Inr new', e') \<and>
      podIn e' = (podIn e)(podKey new \<mapsto> new') \<and> sidekickIn e' = sidekickIn e"
    if "podIn e (podKey new) = Some old" "\<not> p_Deleting old" "new' = new\<lparr>p_Status := p_Status old\<rparr>" for cur new old new'
    using memPatch_alive [of pod_kind "cl_pods e" new old "\<lambda>old x. x\<lparr>p_Status := p_Status old\<rparr>"] that
    by (auto simp: mem_defs kind_simps)
  show "\<exists>p' e'. o_patch (k_pods mem_kube) cur new e = (Inr p', e') \<and>
      podIn e' = (podIn e)(podKey new := None) \<and> sidekickIn e' = sidekickIn e"
    if "podIn e (podKey new) = Some old" "p_Deleting old" "om_Finalizers (p_Meta new) = []" for cur new old
    using memPatch_release [of pod_kind "cl_pods e" new old "\<lambda>old x. x\<lparr>p_Status := p_Status old\<rparr>"] that
    by (auto simp: mem_defs kind_simps)
  show "\<exists>t e'. o_delete (k_pods mem_kube) k e = (Inr (), e') \<and> sidekickIn e' = sidekickIn e \<and>
      podIn e' = (podIn e)(k := if om_Finalizers (p_Meta old) = [] then None
        else Some (old\<lparr>p_Meta := (p_Meta old)\<lparr>om_DeletionTimestamp := Some t\<rparr>\<rparr>))"
    if "podIn e k = Some old" "\<not> p_Deleting old" for old
    using memDelete_stored [OF that(1)] by (auto simp: mem_defs kind_simps)
  show "\<exists>e'. o_patch (k_sidekicks mem_kube) cur new e = (Inr new', e') \<and>
      sidekickIn e' = (sidekickIn e)(skKey new \<mapsto> new') \<and> podIn e' = podIn e"
    if "sidekickIn e (skKey new) = Some old" "\<not> sk_Deleting old" "new' = new\<lparr>sk_Status := sk_Status old\<rparr>" for cur new old new'
    using memPatch_alive [of sidekick_kind "cl_sidekicks e" new old "\<lambda>old x. x\<lparr>sk_Status := sk_Status old\<rparr>"] that
    by (auto simp: mem_defs kind_simps)
  show "\<exists>e'. o_status_patch (k_sidekicks mem_kube) cur new e = (Inr new', e') \<and>
      sidekickIn e' = (sidekickIn e)(skKey new \<mapsto> new') \<and> podIn e' = podIn e"
    if "sidekickIn e (skKey new) = Some old" "\<not> sk_Deleting old" "new' = old\<lparr>sk_Status := sk_Status new\<rparr>" for cur new old new'
    using memPatch_alive [of sidekick_kind "cl_sidekicks e" new old "\<lambda>old x. old\<lparr>sk_Status := sk_Status x\<rparr>"] that
      stored_in_key [OF that(1)]
    by (auto simp: mem_defs kind_simps)
qed

section \<open>Convergence\<close>


text \<open>A Sidekick whose recorded leader is gone and whose pod was built for it.\<close>

definition stale_cluster :: cluster where
  "stale_cluster = empty_cluster\<lparr>
     cl_pods := [sample_pod ''db-0'' ''u'' ''n1'' PodRunning,
       withFinalizer (sample_pod ''sk'' ''u2'' ''n2'' PodRunning)],
     cl_sidekicks := [sample_follower\<lparr>sk_Status := zero_sidekick_status\<lparr>st_Leader := \<lparr>lds_Name = ''db-1''\<rparr>\<rparr>\<rparr>]\<rparr>"


end
