(* ===== verification/Rest_Request.thy ===== *)
theory Rest_Request
  imports Sidekick_Types Go_Path
begin

text \<open>
  The request builder of \<open>k8s.io/client-go/rest\<close> as the generated client set uses it
  (\<open>src/vendor/k8s.io/client-go/rest/request.go\<close>): a chain of setters, each of which does nothing
  once an error is stored, and the URL the finished request is sent to. Sending, with its retries
  and throttling, and decoding the answer are a parameter. Of an error text that quotes a value only
  the fixed part is kept.
\<close>

section \<open>Parameters and bodies\<close>

type_synonym int64 = "64 word"

lemma sint_word_of_int64: "- (2 ^ 63) \<le> i \<Longrightarrow> i < 2 ^ 63 \<Longrightarrow> sint (word_of_int i :: int64) = i"
  by (simp add: sint_sbintrunc' signed_take_bit_int_eq_self_iff)

text \<open>
  The options of a call. Those the client only hands on are opaque; of \<open>ListOptions\<close> it reads the
  timeout and sets the watch flag.
\<close>

record list_options =
  lo_LabelSelector :: string
  lo_FieldSelector :: string
  lo_Watch :: bool
  lo_TimeoutSeconds :: "int64 option"
  lo_Other :: string

datatype param_object =
    GetOptions string | CreateOptions string | UpdateOptions string | PatchOptions string
  | ListOptions list_options

datatype body = BodySidekick sidekick | BodyDeleteOptions string | BodyBytes string

record request =
  rq_verb :: string
  rq_pathPrefix :: string
  rq_subpath :: string
  rq_params :: "(string, string list) gomap"
  rq_contentType :: "string option"
  rq_namespace :: string
  rq_namespaceSet :: bool
  rq_resource :: string
  rq_resourceName :: string
  rq_subresource :: string
  rq_timeout :: int64
  rq_err :: "goerr option"
  rq_bodyBytes :: "string option"

text \<open>What goes over the wire; the timeout is sent as the query parameter of that name.\<close>

record http_request =
  hr_Method :: string
  hr_Path :: string
  hr_Params :: "(string \<times> string list) list"
  hr_Timeout :: "int64 option"
  hr_ContentType :: "string option"
  hr_Body :: "string option"

text \<open>
  A REST client: the path of its server, the path of the API group, the timeout of its HTTP client
  (0 without one), the encoders, and the exchange of one request for an answer of each kind.
\<close>

record ('e, 'w) rest_client =
  rc_BasePath :: "string option"
  rc_VersionedAPIPath :: string
  rc_ClientTimeout :: int64
  rc_ContentType :: string
  rc_EncodeParameters :: "param_object \<Rightarrow> (string \<times> string list) list res"
  rc_Encode :: "body \<Rightarrow> string res"
  rc_getSidekick :: "http_request \<Rightarrow> 'e \<Rightarrow> sidekick res \<times> 'e"
  rc_getList :: "http_request \<Rightarrow> 'e \<Rightarrow> (string \<times> sidekick list) res \<times> 'e"
  rc_getNothing :: "http_request \<Rightarrow> 'e \<Rightarrow> unit res \<times> 'e"
  rc_watch :: "http_request \<Rightarrow> 'e \<Rightarrow> 'w res \<times> 'e"

section \<open>The builder\<close>

definition NewRequest :: "('e, 'w) rest_client \<Rightarrow> request" where
  "NewRequest c = \<lparr>rq_verb = '''',
     rq_pathPrefix = (case rc_BasePath c of
        Some base \<Rightarrow> pathJoin [''/'', base, rc_VersionedAPIPath c]
      | None \<Rightarrow> pathJoin [''/'', rc_VersionedAPIPath c]),
     rq_subpath = '''', rq_params = None, rq_contentType = None, rq_namespace = '''', rq_namespaceSet = False,
     rq_resource = '''', rq_resourceName = '''', rq_subresource = '''', rq_timeout = rc_ClientTimeout c,
     rq_err = None, rq_bodyBytes = None\<rparr>"

definition rVerb :: "('e, 'w) rest_client \<Rightarrow> string \<Rightarrow> request" where
  "rVerb c verb = (NewRequest c)\<lparr>rq_verb := verb\<rparr>"

definition rPost :: "('e, 'w) rest_client \<Rightarrow> request" where "rPost c = rVerb c ''POST''"

definition rPut :: "('e, 'w) rest_client \<Rightarrow> request" where "rPut c = rVerb c ''PUT''"

definition rPatch :: "('e, 'w) rest_client \<Rightarrow> string \<Rightarrow> request" where
  "rPatch c pt = (rVerb c ''PATCH'')\<lparr>rq_contentType := Some pt\<rparr>"

definition rGet :: "('e, 'w) rest_client \<Rightarrow> request" where "rGet c = rVerb c ''GET''"

definition rDelete :: "('e, 'w) rest_client \<Rightarrow> request" where "rDelete c = rVerb c ''DELETE''"

definition IsValidPathSegmentName :: "string \<Rightarrow> string list" where
  "IsValidPathSegmentName name =
     (if name = ''.'' then [''may not be .'']
      else if name = ''..'' then [''may not be ..'']
      else (if CHR ''/'' \<in> set name then [''may not contain /''] else []) @
           (if CHR ''%'' \<in> set name then [''may not contain %''] else []))"

definition rResource :: "string \<Rightarrow> request \<Rightarrow> request" where
  "rResource resource r =
     (if rq_err r \<noteq> None then r
      else if rq_resource r \<noteq> '''' then r\<lparr>rq_err := Some (Err ''resource already set'')\<rparr>
      else if IsValidPathSegmentName resource \<noteq> [] then r\<lparr>rq_err := Some (Err ''invalid resource'')\<rparr>
      else r\<lparr>rq_resource := resource\<rparr>)"

definition rSubResource :: "string list \<Rightarrow> request \<Rightarrow> request" where
  "rSubResource subresources r =
     (if rq_err r \<noteq> None then r
      else if rq_subresource r \<noteq> '''' then r\<lparr>rq_err := Some (Err ''subresource already set'')\<rparr>
      else if list_ex (\<lambda>s. IsValidPathSegmentName s \<noteq> []) subresources
      then r\<lparr>rq_err := Some (Err ''invalid subresource'')\<rparr>
      else r\<lparr>rq_subresource := pathJoin subresources\<rparr>)"

definition rName :: "string \<Rightarrow> request \<Rightarrow> request" where
  "rName resourceName r =
     (if rq_err r \<noteq> None then r
      else if resourceName = '''' then r\<lparr>rq_err := Some (Err ''resource name may not be empty'')\<rparr>
      else if rq_resourceName r \<noteq> '''' then r\<lparr>rq_err := Some (Err ''resource name already set'')\<rparr>
      else if IsValidPathSegmentName resourceName \<noteq> [] then r\<lparr>rq_err := Some (Err ''invalid resource name'')\<rparr>
      else r\<lparr>rq_resourceName := resourceName\<rparr>)"

definition rNamespace :: "string \<Rightarrow> request \<Rightarrow> request" where
  "rNamespace namespace r =
     (if rq_err r \<noteq> None then r
      else if rq_namespaceSet r then r\<lparr>rq_err := Some (Err ''namespace already set'')\<rparr>
      else if IsValidPathSegmentName namespace \<noteq> [] then r\<lparr>rq_err := Some (Err ''invalid namespace'')\<rparr>
      else r\<lparr>rq_namespaceSet := True, rq_namespace := namespace\<rparr>)"

definition addParam :: "string \<times> string list \<Rightarrow> (string, string list) gomap \<Rightarrow> (string, string list) gomap" where
  "addParam kv params = (case kv of (k, v) \<Rightarrow>
     gm_set k ((case gm_get params k of None \<Rightarrow> [] | Some old \<Rightarrow> old) @ v) params)"

definition rVersionedParams :: "('e, 'w) rest_client \<Rightarrow> param_object \<Rightarrow> request \<Rightarrow> request" where
  "rVersionedParams c obj r =
     (if rq_err r \<noteq> None then r
      else (case rc_EncodeParameters c obj of
              Inl e \<Rightarrow> r\<lparr>rq_err := Some e\<rparr>
            | Inr params \<Rightarrow> r\<lparr>rq_params := fold addParam params (rq_params r)\<rparr>))"

definition rTimeout :: "int64 \<Rightarrow> request \<Rightarrow> request" where
  "rTimeout d r = (if rq_err r \<noteq> None then r else r\<lparr>rq_timeout := d\<rparr>)"

text \<open>Bytes are sent as they are; objects are encoded and set the content type.\<close>

definition rBody :: "('e, 'w) rest_client \<Rightarrow> body \<Rightarrow> request \<Rightarrow> request" where
  "rBody c obj r =
     (if rq_err r \<noteq> None then r
      else (case obj of
              BodyBytes data \<Rightarrow> r\<lparr>rq_bodyBytes := Some data\<rparr>
            | _ \<Rightarrow> (case rc_Encode c obj of
                       Inl e \<Rightarrow> r\<lparr>rq_err := Some e\<rparr>
                     | Inr data \<Rightarrow> r\<lparr>rq_bodyBytes := Some data, rq_contentType := Some (rc_ContentType c)\<rparr>)))"

text \<open>A chain of calls, as the code writes it.\<close>

definition chain :: "(request \<Rightarrow> request) list \<Rightarrow> request \<Rightarrow> request" where
  "chain calls r = fold (\<lambda>call r. call r) calls r"

section \<open>The URL and the exchange\<close>

definition toLower :: "string \<Rightarrow> string" where
  "toLower s = map (\<lambda>ch. if CHR ''A'' \<le> ch \<and> ch \<le> CHR ''Z'' then char_of (of_char ch + 32 :: nat) else ch) s"

definition rPath :: "request \<Rightarrow> string" where
  "rPath r =
     (let p0 = rq_pathPrefix r;
          p1 = (if rq_namespaceSet r \<and> rq_namespace r \<noteq> '''' then pathJoin [p0, ''namespaces'', rq_namespace r] else p0);
          p2 = (if rq_resource r \<noteq> '''' then pathJoin [p1, toLower (rq_resource r)] else p1)
      in if rq_resourceName r \<noteq> '''' \<or> rq_subpath r \<noteq> '''' \<or> rq_subresource r \<noteq> ''''
         then pathJoin [p2, rq_resourceName r, rq_subresource r, rq_subpath r] else p2)"

definition rURL :: "request \<Rightarrow> http_request" where
  "rURL r = \<lparr>hr_Method = rq_verb r, hr_Path = rPath r, hr_Params = gm_entries (rq_params r),
     hr_Timeout = (if rq_timeout r \<noteq> 0 then Some (rq_timeout r) else None),
     hr_ContentType = rq_contentType r, hr_Body = rq_bodyBytes r\<rparr>"

definition requestPreflightCheck :: "request \<Rightarrow> goerr option" where
  "requestPreflightCheck r =
     (if \<not> rq_namespaceSet r \<or> rq_namespace r \<noteq> '''' then None
      else if rq_verb r = ''POST'' then Some (Err ''an empty namespace may not be set during creation'')
      else if rq_verb r \<in> {''GET'', ''PUT'', ''DELETE''} \<and> rq_resourceName r \<noteq> ''''
      then Some (Err ''an empty namespace may not be set when a resource name is provided'')
      else None)"

text \<open>\<open>Do\<close> and \<open>Watch\<close>: a stored error is returned and nothing is sent.\<close>

definition rDo :: "(http_request \<Rightarrow> 'e \<Rightarrow> 'r res \<times> 'e) \<Rightarrow> request \<Rightarrow> ('e, http_request, 'r res) go" where
  "rDo exchange r =
     (case rq_err r of
        Some e \<Rightarrow> ret (Inl e)
      | None \<Rightarrow>
         (case requestPreflightCheck r of
            Some e \<Rightarrow> ret (Inl e)
          | None \<Rightarrow> api_call (exchange (rURL r)) (\<lambda>_. rURL r)))"

definition rWatch :: "(http_request \<Rightarrow> 'e \<Rightarrow> 'r res \<times> 'e) \<Rightarrow> request \<Rightarrow> ('e, http_request, 'r res) go" where
  "rWatch exchange r =
     (case rq_err r of
        Some e \<Rightarrow> ret (Inl e)
      | None \<Rightarrow> api_call (exchange (rURL r)) (\<lambda>_. rURL r))"

section \<open>Where a request goes\<close>

lemma IsValidPathSegmentName_iff:
  "IsValidPathSegmentName p = [] \<longleftrightarrow> p = '''' \<or> segment p \<and> CHR ''%'' \<notin> set p"
  by (auto simp: IsValidPathSegmentName_def segment_def)

lemma prefix_clean: "\<exists>segs. list_all segment segs \<and> rq_pathPrefix (NewRequest c) = absPath segs"
proof -
  have "hasPrefix ''/'' (joinWith (CHR ''/'') (nonEmpty (''/'' # xs)))" for xs
    using hasPrefix_joinWith [OF hasPrefix_slash(2) [of "''''"], of "CHR ''/''" "nonEmpty xs"] by simp
  then have "\<exists>segs. list_all segment segs \<and> pathJoin (''/'' # xs) = absPath segs" for xs
    by (simp add: pathJoin_def pathClean_rooted)
  then show ?thesis by (simp add: NewRequest_def split: option.split)
qed

text \<open>The segments of the path a client's requests start with.\<close>

definition apiSegments :: "('e, 'w) rest_client \<Rightarrow> string list" where
  "apiSegments c = segments (rq_pathPrefix (NewRequest c))"

lemma apiSegments:
  "list_all segment (apiSegments c)" "rq_pathPrefix (NewRequest c) = absPath (apiSegments c)"
proof -
  obtain segs where "list_all segment segs" "rq_pathPrefix (NewRequest c) = absPath segs"
    using prefix_clean by blast
  then show "list_all segment (apiSegments c)" "rq_pathPrefix (NewRequest c) = absPath (apiSegments c)"
    by (simp_all add: apiSegments_def segments_absPath)
qed

text \<open>
  A request for a resource: prefix, namespace if not empty, resource, and what follows. Its path has
  exactly these segments.
\<close>

lemma rPath_segments:
  assumes "rq_pathPrefix r = absPath pre" "list_all segment pre"
    and "rq_namespaceSet r" "rq_namespace r = '''' \<or> segment (rq_namespace r)"
    and "segment (toLower (rq_resource r))" "rq_subpath r = ''''"
    and "rq_resourceName r = '''' \<or> segment (rq_resourceName r)" "list_all segment (segments (rq_subresource r))"
  shows "rPath r = absPath (pre @ (if rq_namespace r = '''' then [] else [''namespaces'', rq_namespace r]) @
     [toLower (rq_resource r)] @ nonEmpty [rq_resourceName r] @ segments (rq_subresource r))"
proof -
  have res: "rq_resource r \<noteq> ''''"
    using assms(5) by (auto simp: segment_def toLower_def)
  have word: "segment ''namespaces''" by (simp add: segment_def)
  let ?p1 = "pre @ (if rq_namespace r = '''' then [] else [''namespaces'', rq_namespace r])"
  have p1: "(if rq_namespaceSet r \<and> rq_namespace r \<noteq> '''' then pathJoin [absPath pre, ''namespaces'', rq_namespace r]
      else absPath pre) = absPath ?p1" "list_all segment ?p1"
    using assms(2-4) word by (auto simp: pathJoin_absPath)
  let ?p2 = "?p1 @ [toLower (rq_resource r)]"
  have p2: "pathJoin [absPath ?p1, toLower (rq_resource r)] = absPath ?p2" "list_all segment ?p2"
    using p1(2) assms(5) by (simp_all add: pathJoin_absPath)
  have p3: "pathJoin [absPath ?p2, rq_resourceName r, rq_subresource r, rq_subpath r] =
      absPath (?p2 @ nonEmpty [rq_resourceName r] @ segments (rq_subresource r))"
    using p2(2) assms(6-8) by (auto simp: pathJoin_absPath)
  show ?thesis
    using p3 by (auto simp: rPath_def Let_def assms(1) p1(1) p2(1) res assms(6))
qed

section \<open>What a chain of calls builds\<close>

text \<open>
  Unless an error is stored, the request has this verb and asks for Sidekicks of this namespace, for
  the one of this name if it is not empty, and for this subresource of it.
\<close>

definition built :: "('e, 'w) rest_client \<Rightarrow> string \<Rightarrow> string \<Rightarrow> string \<Rightarrow> string list \<Rightarrow> request \<Rightarrow> bool" where
  "built c verb ns name subs r = (rq_err r = None \<longrightarrow>
     rq_verb r = verb \<and> rq_pathPrefix r = absPath (apiSegments c) \<and> rq_subpath r = '''' \<and>
     rq_namespaceSet r \<and> rq_namespace r = ns \<and> (ns = '''' \<or> segment ns) \<and> rq_resource r = ''sidekicks'' \<and>
     rq_resourceName r = name \<and> (name = '''' \<or> segment name) \<and>
     rq_subresource r = pathJoin subs \<and> list_all (\<lambda>p. p = '''' \<or> segment p) subs)"

named_theorems built_rules

lemma pathJoin_Nil [simp]: "pathJoin [] = ''''"
  by (simp add: pathJoin_def)

lemma built_start:
  assumes "rq_verb r = verb" "\<And>ct. r\<lparr>rq_verb := '''', rq_contentType := ct\<rparr> = (NewRequest c)\<lparr>rq_contentType := ct\<rparr>"
  shows "built c verb ns '''' [] (rResource ''sidekicks'' (rNamespace ns r))"
proof -
  have fields: "rq_pathPrefix r = absPath (apiSegments c)" "rq_subpath r = ''''" "rq_namespaceSet r = False"
    "rq_resource r = ''''" "rq_resourceName r = ''''" "rq_subresource r = ''''" "rq_err r = None"
    using arg_cong [OF assms(2) [of None], of rq_pathPrefix] arg_cong [OF assms(2) [of None], of rq_subpath]
      arg_cong [OF assms(2) [of None], of rq_namespaceSet] arg_cong [OF assms(2) [of None], of rq_resource]
      arg_cong [OF assms(2) [of None], of rq_resourceName] arg_cong [OF assms(2) [of None], of rq_subresource]
      arg_cong [OF assms(2) [of None], of rq_err] apiSegments(2) [of c]
    by (simp_all add: NewRequest_def)
  have "IsValidPathSegmentName ''sidekicks'' = []"
    by (simp add: IsValidPathSegmentName_def)
  then show ?thesis
    by (simp add: built_def rResource_def rNamespace_def fields assms(1) IsValidPathSegmentName_iff)
qed

lemma built_verbs [built_rules]:
  "built c ''GET'' ns '''' [] (rResource ''sidekicks'' (rNamespace ns (rGet c)))"
  "built c ''POST'' ns '''' [] (rResource ''sidekicks'' (rNamespace ns (rPost c)))"
  "built c ''PUT'' ns '''' [] (rResource ''sidekicks'' (rNamespace ns (rPut c)))"
  "built c ''DELETE'' ns '''' [] (rResource ''sidekicks'' (rNamespace ns (rDelete c)))"
  "built c ''PATCH'' ns '''' [] (rResource ''sidekicks'' (rNamespace ns (rPatch c pt)))"
  by (rule built_start; simp add: rGet_def rPost_def rPut_def rDelete_def rPatch_def rVerb_def NewRequest_def)+

lemma built_rName [built_rules]: "built c verb ns '''' [] r \<Longrightarrow> built c verb ns name [] (rName name r)"
  by (simp add: built_def rName_def IsValidPathSegmentName_iff)

lemma built_rSubResource [built_rules]: "built c verb ns name [] r \<Longrightarrow> built c verb ns name subs (rSubResource subs r)"
  by (auto simp: built_def rSubResource_def IsValidPathSegmentName_iff list_all_iff list_ex_iff)

lemma built_rVersionedParams [built_rules]: "built c verb ns name subs r \<Longrightarrow> built c verb ns name subs (rVersionedParams c obj r)"
  by (auto simp: built_def rVersionedParams_def split: sum.splits)

lemma built_rTimeout [built_rules]: "built c verb ns name subs r \<Longrightarrow> built c verb ns name subs (rTimeout d r)"
  by (auto simp: built_def rTimeout_def)

lemma built_rBody [built_rules]: "built c verb ns name subs r \<Longrightarrow> built c verb ns name subs (rBody c obj r)"
  by (auto simp: built_def rBody_def split: sum.splits body.splits)

text \<open>The segments of the URL, and that this is what is sent.\<close>

definition objectSegments :: "string \<Rightarrow> string \<Rightarrow> string list \<Rightarrow> string list" where
  "objectSegments ns name subs =
     (if ns = '''' then [] else [''namespaces'', ns]) @ [''sidekicks''] @ nonEmpty [name] @ nonEmpty subs"

definition goesTo :: "('e, 'w) rest_client \<Rightarrow> string \<Rightarrow> string \<Rightarrow> string \<Rightarrow> string list \<Rightarrow> http_request \<Rightarrow> bool" where
  "goesTo c verb ns name subs h = (hr_Method h = verb \<and>
     list_all segment (apiSegments c @ objectSegments ns name subs) \<and>
     hr_Path h = absPath (apiSegments c @ objectSegments ns name subs))"

lemma built_goesTo:
  assumes "built c verb ns name subs r" "rq_err r = None"
  shows "goesTo c verb ns name subs (rURL r)"
proof -
  have lower: "toLower ''sidekicks'' = ''sidekicks''" by (simp add: toLower_def)
  have seg: "segment ''sidekicks''" "segment ''namespaces''" by (simp_all add: segment_def)
  have subs: "list_all segment (nonEmpty subs)" "segments (rq_subresource r) = nonEmpty subs"
    using assms by (auto simp: built_def segments_pathJoin list_all_iff nonEmpty_def)
  have "rPath r = absPath (apiSegments c @ objectSegments ns name subs)"
    using assms subs seg rPath_segments [of r "apiSegments c"] apiSegments(1) [of c]
    by (auto simp: built_def lower objectSegments_def)
  moreover have "list_all segment (apiSegments c @ objectSegments ns name subs)"
    using assms subs seg apiSegments(1) [of c] by (auto simp: built_def objectSegments_def)
  ultimately show ?thesis
    using assms by (simp add: goesTo_def rURL_def built_def)
qed

lemma emits_rDo: "built c verb ns name subs r \<Longrightarrow> emits (goesTo c verb ns name subs) (rDo exchange r)"
  by (auto simp: rDo_def built_goesTo split: option.split intro!: emits_rules)

lemma emits_rWatch: "built c verb ns name subs r \<Longrightarrow> emits (goesTo c verb ns name subs) (rWatch exchange r)"
  by (auto simp: rWatch_def built_goesTo split: option.split intro!: emits_rules)

text \<open>A stored error stays and nothing is sent; the empty name is an error, the empty namespace is one for a named object.\<close>

lemma err_stays [built_rules]:
  "rq_err r \<noteq> None \<Longrightarrow> rq_err (rSubResource subs r) \<noteq> None"
  "rq_err r \<noteq> None \<Longrightarrow> rq_err (rVersionedParams c obj r) \<noteq> None"
  "rq_err r \<noteq> None \<Longrightarrow> rq_err (rTimeout d r) \<noteq> None"
  "rq_err r \<noteq> None \<Longrightarrow> rq_err (rBody c b r) \<noteq> None"
  "rq_err (rName '''' r) \<noteq> None"
  by (simp_all add: rSubResource_def rVersionedParams_def rTimeout_def rBody_def rName_def)

lemma emits_rDo_err: "rq_err r \<noteq> None \<Longrightarrow> emits p (rDo exchange r)"
  by (auto simp: rDo_def intro: emits_return)

lemma emits_rDo_named:
  assumes "built c verb ns name subs r" "verb \<in> {''GET'', ''PUT'', ''DELETE''}" "name \<noteq> ''''"
  shows "emits (\<lambda>h. ns \<noteq> '''' \<and> goesTo c verb ns name subs h) (rDo exchange r)"
proof (cases "rq_err r = None")
  case True
  with assms have "requestPreflightCheck r \<noteq> None" if "ns = ''''"
    using that by (simp add: built_def requestPreflightCheck_def)
  then show ?thesis
    using built_goesTo [OF assms(1) True] True
    by (cases "requestPreflightCheck r") (auto simp: rDo_def intro: emits_return emits_api_call)
next
  case False
  then show ?thesis by (rule emits_rDo_err)
qed

end
