(* ===== verification/Client_Set.thy ===== *)
theory Client_Set
  imports Complex_Main Rest_Request
begin

text \<open>
  The generated client set (\<open>src/client/clientset/versioned\<close>): the typed client for Sidekicks, its
  construction from a configuration, and the fake with the same interface that tests use. Both are
  given by what they ask for: HTTP requests, and actions handed to the fake's reactors.
\<close>

section \<open>The typed client (\<open>sidekick.go\<close>)\<close>

record ('e, 'w) sidekicks =
  c_client :: "('e, 'w) rest_client"
  c_ns :: string

text \<open>\<open>time.Duration(*opts.TimeoutSeconds) * time.Second\<close>, with 64 bits.\<close>

definition optsTimeout :: "list_options \<Rightarrow> int64" where
  "optsTimeout opts = (case lo_TimeoutSeconds opts of None \<Rightarrow> 0 | Some s \<Rightarrow> s * 1000000000)"

definition Sidekicks_Get :: "('e, 'w) sidekicks \<Rightarrow> string \<Rightarrow> string \<Rightarrow> ('e, http_request, sidekick res) go" where
  "Sidekicks_Get c name options =
     rDo (rc_getSidekick (c_client c)) (chain [
       rNamespace (c_ns c),
       rResource ''sidekicks'',
       rName name,
       rVersionedParams (c_client c) (GetOptions options)] (rGet (c_client c)))"

definition Sidekicks_List ::
    "('e, 'w) sidekicks \<Rightarrow> list_options \<Rightarrow> ('e, http_request, (string \<times> sidekick list) res) go" where
  "Sidekicks_List c opts =
     rDo (rc_getList (c_client c)) (chain [
       rNamespace (c_ns c),
       rResource ''sidekicks'',
       rVersionedParams (c_client c) (ListOptions opts),
       rTimeout (optsTimeout opts)] (rGet (c_client c)))"

definition Sidekicks_Watch :: "('e, 'w) sidekicks \<Rightarrow> list_options \<Rightarrow> ('e, http_request, 'w res) go" where
  "Sidekicks_Watch c opts =
     rWatch (rc_watch (c_client c)) (chain [
       rNamespace (c_ns c),
       rResource ''sidekicks'',
       rVersionedParams (c_client c) (ListOptions (opts\<lparr>lo_Watch := True\<rparr>)),
       rTimeout (optsTimeout opts)] (rGet (c_client c)))"

definition Sidekicks_Create :: "('e, 'w) sidekicks \<Rightarrow> sidekick \<Rightarrow> string \<Rightarrow> ('e, http_request, sidekick res) go" where
  "Sidekicks_Create c sk opts =
     rDo (rc_getSidekick (c_client c)) (chain [
       rNamespace (c_ns c),
       rResource ''sidekicks'',
       rVersionedParams (c_client c) (CreateOptions opts),
       rBody (c_client c) (BodySidekick sk)] (rPost (c_client c)))"

definition Sidekicks_Update :: "('e, 'w) sidekicks \<Rightarrow> sidekick \<Rightarrow> string \<Rightarrow> ('e, http_request, sidekick res) go" where
  "Sidekicks_Update c sk opts =
     rDo (rc_getSidekick (c_client c)) (chain [
       rNamespace (c_ns c),
       rResource ''sidekicks'',
       rName (sk_Name sk),
       rVersionedParams (c_client c) (UpdateOptions opts),
       rBody (c_client c) (BodySidekick sk)] (rPut (c_client c)))"

definition Sidekicks_UpdateStatus :: "('e, 'w) sidekicks \<Rightarrow> sidekick \<Rightarrow> string \<Rightarrow> ('e, http_request, sidekick res) go" where
  "Sidekicks_UpdateStatus c sk opts =
     rDo (rc_getSidekick (c_client c)) (chain [
       rNamespace (c_ns c),
       rResource ''sidekicks'',
       rName (sk_Name sk),
       rSubResource [''status''],
       rVersionedParams (c_client c) (UpdateOptions opts),
       rBody (c_client c) (BodySidekick sk)] (rPut (c_client c)))"

definition Sidekicks_Delete :: "('e, 'w) sidekicks \<Rightarrow> string \<Rightarrow> string \<Rightarrow> ('e, http_request, unit res) go" where
  "Sidekicks_Delete c name opts =
     rDo (rc_getNothing (c_client c)) (chain [
       rNamespace (c_ns c),
       rResource ''sidekicks'',
       rName name,
       rBody (c_client c) (BodyDeleteOptions opts)] (rDelete (c_client c)))"

definition Sidekicks_DeleteCollection ::
    "('e, 'w) sidekicks \<Rightarrow> string \<Rightarrow> list_options \<Rightarrow> ('e, http_request, unit res) go" where
  "Sidekicks_DeleteCollection c opts listOpts =
     rDo (rc_getNothing (c_client c)) (chain [
       rNamespace (c_ns c),
       rResource ''sidekicks'',
       rVersionedParams (c_client c) (ListOptions listOpts),
       rTimeout (optsTimeout listOpts),
       rBody (c_client c) (BodyDeleteOptions opts)] (rDelete (c_client c)))"

definition Sidekicks_Patch ::
    "('e, 'w) sidekicks \<Rightarrow> string \<Rightarrow> string \<Rightarrow> string \<Rightarrow> string \<Rightarrow> string list \<Rightarrow>
     ('e, http_request, sidekick res) go" where
  "Sidekicks_Patch c name pt data opts subresources =
     rDo (rc_getSidekick (c_client c)) (chain [
       rNamespace (c_ns c),
       rResource ''sidekicks'',
       rName name,
       rSubResource subresources,
       rVersionedParams (c_client c) (PatchOptions opts),
       rBody (c_client c) (BodyBytes data)] (rPatch (c_client c) pt))"

section \<open>The fake (\<open>fake_sidekick.go\<close>)\<close>

text \<open>
  Selectors, the parsers of \<open>k8s.io/apimachinery\<close> for them, and the objects a reactor may answer with.
\<close>

record selector =
  sel_Matches :: "labels \<Rightarrow> bool"
  sel_String :: string

record selector_lib =
  sl_Parse :: "string \<Rightarrow> selector option res"
  sl_ParseField :: "string \<Rightarrow> selector option res"
  sl_Everything :: selector

datatype fake_object = FakeSidekick sidekick | FakeList string "sidekick list" | FakeOther string

record action =
  ac_Verb :: string
  ac_Resource :: group_version_resource
  ac_Subresource :: string
  ac_Namespace :: string
  ac_Name :: string
  ac_Object :: "sidekick option"
  ac_Patch :: "(string \<times> string) option"
  ac_Selectors :: "(selector \<times> selector) option"
  ac_DeleteOptions :: string

definition zero_action :: action where
  "zero_action = \<lparr>ac_Verb = '''', ac_Resource = \<lparr>gvr_Group = '''', gvr_Version = '''', gvr_Resource = ''''\<rparr>,
     ac_Subresource = '''', ac_Namespace = '''', ac_Name = '''', ac_Object = None, ac_Patch = None,
     ac_Selectors = None, ac_DeleteOptions = ''''\<rparr>"

text \<open>\<open>testing.ExtractFromListOptions\<close>: a selector that does not parse is a panic.\<close>

definition ExtractFromListOptions :: "selector_lib \<Rightarrow> list_options \<Rightarrow> (selector \<times> selector) res" where
  "ExtractFromListOptions L opts =
     (case sl_Parse L (lo_LabelSelector opts) of
        Inl e \<Rightarrow> Inl (Panic ''invalid selector'')
      | Inr label \<Rightarrow>
         (case sl_ParseField L (lo_FieldSelector opts) of
            Inl e \<Rightarrow> Inl (Panic ''invalid selector'')
          | Inr field \<Rightarrow> Inr
             ((case label of None \<Rightarrow> sl_Everything L | Some s \<Rightarrow> s),
              (case field of None \<Rightarrow> sl_Everything L | Some s \<Rightarrow> s))))"

text \<open>The constructors of \<open>k8s.io/client-go/testing\<close> the fake uses.\<close>

definition NewGetAction :: "group_version_resource \<Rightarrow> string \<Rightarrow> string \<Rightarrow> action" where
  "NewGetAction res ns name = zero_action\<lparr>ac_Verb := ''get'', ac_Resource := res, ac_Namespace := ns, ac_Name := name\<rparr>"

definition NewListAction :: "selector_lib \<Rightarrow> group_version_resource \<Rightarrow> string \<Rightarrow> list_options \<Rightarrow> action res" where
  "NewListAction L res ns opts =
     (case ExtractFromListOptions L opts of Inl e \<Rightarrow> Inl e
      | Inr sels \<Rightarrow> Inr (zero_action\<lparr>ac_Verb := ''list'', ac_Resource := res, ac_Namespace := ns, ac_Selectors := Some sels\<rparr>))"

definition NewWatchAction :: "selector_lib \<Rightarrow> group_version_resource \<Rightarrow> string \<Rightarrow> list_options \<Rightarrow> action res" where
  "NewWatchAction L res ns opts =
     (case ExtractFromListOptions L opts of Inl e \<Rightarrow> Inl e
      | Inr sels \<Rightarrow> Inr (zero_action\<lparr>ac_Verb := ''watch'', ac_Resource := res, ac_Namespace := ns, ac_Selectors := Some sels\<rparr>))"

definition NewCreateAction :: "group_version_resource \<Rightarrow> string \<Rightarrow> sidekick \<Rightarrow> action" where
  "NewCreateAction res ns obj =
     zero_action\<lparr>ac_Verb := ''create'', ac_Resource := res, ac_Namespace := ns, ac_Object := Some obj\<rparr>"

definition NewUpdateAction :: "group_version_resource \<Rightarrow> string \<Rightarrow> sidekick \<Rightarrow> action" where
  "NewUpdateAction res ns obj =
     zero_action\<lparr>ac_Verb := ''update'', ac_Resource := res, ac_Namespace := ns, ac_Object := Some obj\<rparr>"

definition NewUpdateSubresourceAction :: "group_version_resource \<Rightarrow> string \<Rightarrow> string \<Rightarrow> sidekick \<Rightarrow> action" where
  "NewUpdateSubresourceAction res sub ns obj =
     zero_action\<lparr>ac_Verb := ''update'', ac_Resource := res, ac_Subresource := sub, ac_Namespace := ns, ac_Object := Some obj\<rparr>"

definition NewDeleteActionWithOptions :: "group_version_resource \<Rightarrow> string \<Rightarrow> string \<Rightarrow> string \<Rightarrow> action" where
  "NewDeleteActionWithOptions res ns name opts =
     zero_action\<lparr>ac_Verb := ''delete'', ac_Resource := res, ac_Namespace := ns, ac_Name := name, ac_DeleteOptions := opts\<rparr>"

definition NewDeleteCollectionAction ::
    "selector_lib \<Rightarrow> group_version_resource \<Rightarrow> string \<Rightarrow> list_options \<Rightarrow> action res" where
  "NewDeleteCollectionAction L res ns listOpts =
     (case ExtractFromListOptions L listOpts of Inl e \<Rightarrow> Inl e
      | Inr sels \<Rightarrow> Inr (zero_action\<lparr>ac_Verb := ''delete-collection'', ac_Resource := res, ac_Namespace := ns,
          ac_Selectors := Some sels\<rparr>))"

definition NewPatchSubresourceAction ::
    "group_version_resource \<Rightarrow> string \<Rightarrow> string \<Rightarrow> string \<Rightarrow> string \<Rightarrow> string list \<Rightarrow> action" where
  "NewPatchSubresourceAction res ns name pt data subresources =
     zero_action\<lparr>ac_Verb := ''patch'', ac_Resource := res, ac_Subresource := pathJoin subresources,
       ac_Namespace := ns, ac_Name := name, ac_Patch := Some (pt, data)\<rparr>"

text \<open>
  The fake: its reactors answer an action with an object that may be nil and an error that may be
  nil (\<open>fk_Invokes\<close> also gets the object returned when no reactor handles the action).
\<close>

record ('e, 'w) fake =
  fk_ns :: string
  fk_Invokes :: "action \<Rightarrow> fake_object \<Rightarrow> 'e \<Rightarrow> (fake_object option \<times> goerr option) \<times> 'e"
  fk_InvokesWatch :: "action \<Rightarrow> 'e \<Rightarrow> 'w res \<times> 'e"
  fk_selectors :: selector_lib

definition sidekicksResource :: group_version_resource where
  "sidekicksResource = \<lparr>gvr_Group = GroupName, gvr_Version = ''v1alpha1'', gvr_Resource = ''sidekicks''\<rparr>"

definition zero_sidekick :: sidekick where
  "zero_sidekick = \<lparr>sk_Meta = zero_meta, sk_Spec = zero_sidekick_spec, sk_Status = zero_sidekick_status\<rparr>"

definition invokes :: "('e, 'w) fake \<Rightarrow> action \<Rightarrow> fake_object \<Rightarrow> ('e, action, fake_object option \<times> goerr option) go" where
  "invokes f a def = api_call (fk_Invokes f a def) (\<lambda>_. a)"

text \<open>
  The object and the error as the caller gets them; the type assertion on an object of another type
  panics.
\<close>

type_synonym 'a fake_result = "('a option \<times> goerr option) res"

definition asSidekick :: "fake_object option \<times> goerr option \<Rightarrow> sidekick fake_result" where
  "asSidekick r = (case r of
     (None, err) \<Rightarrow> Inr (None, err)
   | (Some (FakeSidekick sk), err) \<Rightarrow> Inr (Some sk, err)
   | (Some _, err) \<Rightarrow> Inl (Panic ''interface conversion''))"

definition FakeSidekicks_Get :: "('e, 'w) fake \<Rightarrow> string \<Rightarrow> string \<Rightarrow> ('e, action, sidekick fake_result) go" where
  "FakeSidekicks_Get f name options = do {
     r \<leftarrow> invokes f (NewGetAction sidekicksResource (fk_ns f) name) (FakeSidekick zero_sidekick);
     ret (asSidekick r)
   }"

definition FakeSidekicks_List ::
    "('e, 'w) fake \<Rightarrow> list_options \<Rightarrow> ('e, action, (string \<times> sidekick list) fake_result) go" where
  "FakeSidekicks_List f opts =
     (case NewListAction (fk_selectors f) sidekicksResource (fk_ns f) opts of
        Inl e \<Rightarrow> ret (Inl e)
      | Inr a \<Rightarrow> do {
          r \<leftarrow> invokes f a (FakeList '''' []);
          (case r of
             (None, err) \<Rightarrow> ret (Inr (None, err))
           | (Some obj, err) \<Rightarrow>
              (case ExtractFromListOptions (fk_selectors f) opts of
                 Inl e \<Rightarrow> ret (Inl e)
               | Inr (label, _) \<Rightarrow>
                  (case obj of
                     FakeList meta items \<Rightarrow>
                       ret (Inr (Some (meta, filter (\<lambda>item. sel_Matches label (om_Labels (sk_Meta item))) items), err))
                   | _ \<Rightarrow> ret (Inl (Panic ''interface conversion'')))))
        })"

definition FakeSidekicks_Watch :: "('e, 'w) fake \<Rightarrow> list_options \<Rightarrow> ('e, action, 'w res) go" where
  "FakeSidekicks_Watch f opts =
     (case NewWatchAction (fk_selectors f) sidekicksResource (fk_ns f) opts of
        Inl e \<Rightarrow> ret (Inl e)
      | Inr a \<Rightarrow> api_call (fk_InvokesWatch f a) (\<lambda>_. a))"

definition FakeSidekicks_Create :: "('e, 'w) fake \<Rightarrow> sidekick \<Rightarrow> string \<Rightarrow> ('e, action, sidekick fake_result) go" where
  "FakeSidekicks_Create f sk opts = do {
     r \<leftarrow> invokes f (NewCreateAction sidekicksResource (fk_ns f) sk) (FakeSidekick zero_sidekick);
     ret (asSidekick r)
   }"

definition FakeSidekicks_Update :: "('e, 'w) fake \<Rightarrow> sidekick \<Rightarrow> string \<Rightarrow> ('e, action, sidekick fake_result) go" where
  "FakeSidekicks_Update f sk opts = do {
     r \<leftarrow> invokes f (NewUpdateAction sidekicksResource (fk_ns f) sk) (FakeSidekick zero_sidekick);
     ret (asSidekick r)
   }"

definition FakeSidekicks_UpdateStatus :: "('e, 'w) fake \<Rightarrow> sidekick \<Rightarrow> string \<Rightarrow> ('e, action, sidekick fake_result) go" where
  "FakeSidekicks_UpdateStatus f sk opts = do {
     r \<leftarrow> invokes f (NewUpdateSubresourceAction sidekicksResource ''status'' (fk_ns f) sk) (FakeSidekick zero_sidekick);
     ret (asSidekick r)
   }"

definition FakeSidekicks_Delete :: "('e, 'w) fake \<Rightarrow> string \<Rightarrow> string \<Rightarrow> ('e, action, goerr option) go" where
  "FakeSidekicks_Delete f name opts = do {
     r \<leftarrow> invokes f (NewDeleteActionWithOptions sidekicksResource (fk_ns f) name opts) (FakeSidekick zero_sidekick);
     ret (snd r)
   }"

definition FakeSidekicks_DeleteCollection ::
    "('e, 'w) fake \<Rightarrow> string \<Rightarrow> list_options \<Rightarrow> ('e, action, goerr option) go" where
  "FakeSidekicks_DeleteCollection f opts listOpts =
     (case NewDeleteCollectionAction (fk_selectors f) sidekicksResource (fk_ns f) listOpts of
        Inl e \<Rightarrow> ret (Some e)
      | Inr a \<Rightarrow> do { r \<leftarrow> invokes f a (FakeList '''' []); ret (snd r) })"

definition FakeSidekicks_Patch ::
    "('e, 'w) fake \<Rightarrow> string \<Rightarrow> string \<Rightarrow> string \<Rightarrow> string \<Rightarrow> string list \<Rightarrow>
     ('e, action, sidekick fake_result) go" where
  "FakeSidekicks_Patch f name pt data opts subresources = do {
     r \<leftarrow> invokes f (NewPatchSubresourceAction sidekicksResource (fk_ns f) name pt data subresources)
            (FakeSidekick zero_sidekick);
     ret (asSidekick r)
   }"

section \<open>The fake client set (\<open>clientset_generated.go\<close>)\<close>

text \<open>
  The object tracker, and \<open>testing.ObjectReaction\<close> on it: it handles the actions on single objects and
  lists. An answer of a reactor starts with whether it handled the action.
\<close>

record 'e tracker =
  tk_Add :: "fake_object \<Rightarrow> 'e \<Rightarrow> goerr option \<times> 'e"
  tk_Do :: "action \<Rightarrow> 'e \<Rightarrow> (fake_object option \<times> goerr option) \<times> 'e"

record ('e, 'a, 'r) reactor =
  re_Verb :: string
  re_Resource :: string
  re_Reaction :: "action \<Rightarrow> 'e \<Rightarrow> (bool \<times> 'r) \<times> 'e"

definition ObjectReaction :: "'e tracker \<Rightarrow> action \<Rightarrow> 'e \<Rightarrow> (bool \<times> fake_object option \<times> goerr option) \<times> 'e" where
  "ObjectReaction t a e =
     (if ac_Verb a \<in> {''list'', ''get'', ''create'', ''update'', ''delete'', ''patch''}
      then (case tk_Do t a e of (r, e') \<Rightarrow> ((True, r), e'))
      else ((False, None, Some (Err ''no reaction implemented'')), e))"

definition resourceCovers :: "string \<Rightarrow> action \<Rightarrow> bool" where
  "resourceCovers resource a =
     (resource = ''*'' \<or> resource = gvr_Resource (ac_Resource a) \<or>
      CHR ''/'' \<in> set resource \<and> takeWhile (\<lambda>ch. ch \<noteq> CHR ''/'') resource = gvr_Resource (ac_Resource a) \<and>
      drop 1 (dropWhile (\<lambda>ch. ch \<noteq> CHR ''/'') resource) = ac_Subresource a)"

definition Handles :: "('e, 'a, 'r) reactor \<Rightarrow> action \<Rightarrow> bool" where
  "Handles re a = ((re_Verb re = ''*'' \<or> re_Verb re = ac_Verb a) \<and> resourceCovers (re_Resource re) a)"

text \<open>\<open>Fake.Invokes\<close> and \<open>Fake.InvokesWatch\<close>: the first reactor that handles the action answers.\<close>

fun Invokes :: "('e, action, 'r) reactor list \<Rightarrow> action \<Rightarrow> 'r \<Rightarrow> 'e \<Rightarrow> 'r \<times> 'e" where
  "Invokes [] a def e = (def, e)"
| "Invokes (re # res) a def e =
     (if \<not> Handles re a then Invokes res a def e
      else (case re_Reaction re a e of
              ((handled, r), e') \<Rightarrow> if handled then (r, e') else Invokes res a def e'))"

record ('e, 'w) fake_clientset =
  fc_tracker :: "'e tracker"
  fc_ReactionChain :: "('e, action, fake_object option \<times> goerr option) reactor list"
  fc_WatchReactionChain :: "('e, action, 'w res) reactor list"

text \<open>The objects are added one by one; the first error is a panic.\<close>

fun addObjects :: "'e tracker \<Rightarrow> fake_object list \<Rightarrow> 'e \<Rightarrow> unit res \<times> 'e" where
  "addObjects t [] e = (Inr (), e)"
| "addObjects t (obj # objs) e =
     (case tk_Add t obj e of
        (Some err, e') \<Rightarrow> (Inl (Panic ''cannot add object''), e')
      | (None, e') \<Rightarrow> addObjects t objs e')"

definition NewSimpleClientset ::
    "'e tracker \<Rightarrow> (group_version_resource \<Rightarrow> string \<Rightarrow> 'e \<Rightarrow> 'w res \<times> 'e) \<Rightarrow> fake_object list \<Rightarrow> 'e \<Rightarrow>
     ('e, 'w) fake_clientset res \<times> 'e" where
  "NewSimpleClientset o' watch objects e =
     (case addObjects o' objects e of
        (Inl err, e') \<Rightarrow> (Inl err, e')
      | (Inr _, e') \<Rightarrow> (Inr \<lparr>fc_tracker = o',
          fc_ReactionChain = [\<lparr>re_Verb = ''*'', re_Resource = ''*'', re_Reaction = ObjectReaction o'\<rparr>],
          fc_WatchReactionChain = [\<lparr>re_Verb = ''*'', re_Resource = ''*'', re_Reaction = (\<lambda>a e.
             (case watch (ac_Resource a) (ac_Namespace a) e of
                (Inl err, e'') \<Rightarrow> ((False, Inl err), e'')
              | (Inr w, e'') \<Rightarrow> ((True, Inr w), e'')))\<rparr>]\<rparr>, e'))"

text \<open>\<open>AppsV1alpha1().Sidekicks(namespace)\<close> of the fake client set.\<close>

definition Fake_Sidekicks :: "selector_lib \<Rightarrow> ('e, 'w) fake_clientset \<Rightarrow> string \<Rightarrow> ('e, 'w) fake" where
  "Fake_Sidekicks L cs namespace = \<lparr>fk_ns = namespace,
     fk_Invokes = (\<lambda>a def. Invokes (fc_ReactionChain cs) a (Some def, None)),
     fk_InvokesWatch = (\<lambda>a. Invokes (fc_WatchReactionChain cs) a (Inl (Err ''unhandled watch''))),
     fk_selectors = L\<rparr>"

section \<open>Construction (\<open>apps_client.go\<close>, \<open>clientset.go\<close>)\<close>

text \<open>
  The configuration; \<open>'o\<close> is everything the client set only hands on (host, credentials, transport).
  Of the rate per second only the sign is looked at here.
\<close>

record ('l, 'o) rest_config =
  cfg_GroupVersion :: "string option"
  cfg_APIPath :: string
  cfg_NegotiatedSerializer :: "string option"
  cfg_UserAgent :: string
  cfg_RateLimiter :: "'l option"
  cfg_QPS :: rat
  cfg_Burst :: int
  cfg_Other :: 'o

record ('l, 'o, 'h, 'r, 'd) rest_lib =
  rl_DefaultKubernetesUserAgent :: string
  rl_HTTPClientFor :: "('l, 'o) rest_config \<Rightarrow> 'h res"
  rl_RESTClientForConfigAndClient :: "('l, 'o) rest_config \<Rightarrow> 'h \<Rightarrow> 'r res"
  rl_NewDiscoveryClient :: "('l, 'o) rest_config \<Rightarrow> 'h \<Rightarrow> 'd res"
  rl_NewTokenBucketRateLimiter :: "rat \<Rightarrow> int \<Rightarrow> 'l"

definition setConfigDefaults :: "('l, 'o, 'h, 'r, 'd) rest_lib \<Rightarrow> ('l, 'o) rest_config \<Rightarrow> ('l, 'o) rest_config res" where
  "setConfigDefaults L config =
     (let config1 = config\<lparr>cfg_GroupVersion := Some SchemeGroupVersion, cfg_APIPath := ''/apis'',
            cfg_NegotiatedSerializer := Some ''scheme.Codecs''\<rparr>
      in Inr (if cfg_UserAgent config1 = ''''
              then config1\<lparr>cfg_UserAgent := rl_DefaultKubernetesUserAgent L\<rparr> else config1))"

record 'r apps_client =
  apps_restClient :: 'r

definition AppsV1alpha1_NewForConfigAndClient ::
    "('l, 'o, 'h, 'r, 'd) rest_lib \<Rightarrow> ('l, 'o) rest_config \<Rightarrow> 'h \<Rightarrow> 'r apps_client res" where
  "AppsV1alpha1_NewForConfigAndClient L c h =
     (case setConfigDefaults L c of
        Inl e \<Rightarrow> Inl e
      | Inr config \<Rightarrow>
         (case rl_RESTClientForConfigAndClient L config h of
            Inl e \<Rightarrow> Inl e
          | Inr client \<Rightarrow> Inr \<lparr>apps_restClient = client\<rparr>))"

definition AppsV1alpha1_NewForConfig ::
    "('l, 'o, 'h, 'r, 'd) rest_lib \<Rightarrow> ('l, 'o) rest_config \<Rightarrow> 'r apps_client res" where
  "AppsV1alpha1_NewForConfig L c =
     (case setConfigDefaults L c of
        Inl e \<Rightarrow> Inl e
      | Inr config \<Rightarrow>
         (case rl_HTTPClientFor L config of
            Inl e \<Rightarrow> Inl e
          | Inr httpClient \<Rightarrow> AppsV1alpha1_NewForConfigAndClient L config httpClient))"

definition AppsV1alpha1_NewForConfigOrDie ::
    "('l, 'o, 'h, 'r, 'd) rest_lib \<Rightarrow> (goerr \<Rightarrow> string) \<Rightarrow> ('l, 'o) rest_config \<Rightarrow> 'r apps_client res" where
  "AppsV1alpha1_NewForConfigOrDie L errText c =
     (case AppsV1alpha1_NewForConfig L c of Inl e \<Rightarrow> Inl (Panic (errText e)) | Inr client \<Rightarrow> Inr client)"

definition AppsV1alpha1_New :: "'r \<Rightarrow> 'r apps_client" where
  "AppsV1alpha1_New c = \<lparr>apps_restClient = c\<rparr>"

text \<open>On a nil client \<open>RESTClient\<close> answers nil.\<close>

definition RESTClient :: "'r apps_client option \<Rightarrow> 'r option" where
  "RESTClient c = (case c of None \<Rightarrow> None | Some client \<Rightarrow> Some (apps_restClient client))"

definition newSidekicks :: "('e, 'w) rest_client apps_client \<Rightarrow> string \<Rightarrow> ('e, 'w) sidekicks" where
  "newSidekicks c namespace = \<lparr>c_client = apps_restClient c, c_ns = namespace\<rparr>"

record ('r, 'd) clientset =
  cs_DiscoveryClient :: 'd
  cs_appsV1alpha1 :: "'r apps_client"

definition Clientset_NewForConfigAndClient ::
    "('l, 'o, 'h, 'r, 'd) rest_lib \<Rightarrow> ('l, 'o) rest_config \<Rightarrow> 'h \<Rightarrow> ('r, 'd) clientset res" where
  "Clientset_NewForConfigAndClient L c httpClient =
     (let withLimiter =
        (if cfg_RateLimiter c = None \<and> cfg_QPS c > 0
         then (if cfg_Burst c \<le> 0
               then Inl (Err ''burst is required to be greater than 0 when RateLimiter is not set and QPS is set to greater than 0'')
               else Inr (c\<lparr>cfg_RateLimiter := Some (rl_NewTokenBucketRateLimiter L (cfg_QPS c) (cfg_Burst c))\<rparr>))
         else Inr c)
      in case withLimiter of
           Inl e \<Rightarrow> Inl e
         | Inr configShallowCopy \<Rightarrow>
            (case AppsV1alpha1_NewForConfigAndClient L configShallowCopy httpClient of
               Inl e \<Rightarrow> Inl e
             | Inr apps \<Rightarrow>
                (case rl_NewDiscoveryClient L configShallowCopy httpClient of
                   Inl e \<Rightarrow> Inl e
                 | Inr d \<Rightarrow> Inr \<lparr>cs_DiscoveryClient = d, cs_appsV1alpha1 = apps\<rparr>)))"

definition Clientset_NewForConfig ::
    "('l, 'o, 'h, 'r, 'd) rest_lib \<Rightarrow> ('l, 'o) rest_config \<Rightarrow> ('r, 'd) clientset res" where
  "Clientset_NewForConfig L c =
     (let configShallowCopy = (if cfg_UserAgent c = ''''
            then c\<lparr>cfg_UserAgent := rl_DefaultKubernetesUserAgent L\<rparr> else c)
      in case rl_HTTPClientFor L configShallowCopy of
           Inl e \<Rightarrow> Inl e
         | Inr httpClient \<Rightarrow> Clientset_NewForConfigAndClient L configShallowCopy httpClient)"

definition Clientset_NewForConfigOrDie ::
    "('l, 'o, 'h, 'r, 'd) rest_lib \<Rightarrow> (goerr \<Rightarrow> string) \<Rightarrow> ('l, 'o) rest_config \<Rightarrow> ('r, 'd) clientset res" where
  "Clientset_NewForConfigOrDie L errText c =
     (case Clientset_NewForConfig L c of Inl e \<Rightarrow> Inl (Panic (errText e)) | Inr cs \<Rightarrow> Inr cs)"

definition Clientset_New :: "('r \<Rightarrow> 'd) \<Rightarrow> 'r \<Rightarrow> ('r, 'd) clientset" where
  "Clientset_New newDiscovery c = \<lparr>cs_DiscoveryClient = newDiscovery c, cs_appsV1alpha1 = AppsV1alpha1_New c\<rparr>"

section \<open>The fake is asked for what the client asks the server for\<close>

text \<open>
  The HTTP method of an action's verb and the name in the URL: for an update it is the name of the
  object sent.
\<close>

fun verbMethod :: "string \<Rightarrow> string" where
  "verbMethod verb =
     (if verb \<in> {''get'', ''list'', ''watch''} then ''GET''
      else if verb = ''create'' then ''POST''
      else if verb = ''update'' then ''PUT''
      else if verb = ''patch'' then ''PATCH''
      else ''DELETE'')"

definition actionName :: "action \<Rightarrow> string" where
  "actionName a = (if ac_Verb a = ''update'' then (case ac_Object a of None \<Rightarrow> '''' | Some sk \<Rightarrow> sk_Name sk) else ac_Name a)"

definition requested :: "('e, 'w) rest_client \<Rightarrow> action \<Rightarrow> http_request \<Rightarrow> bool" where
  "requested c a h = (gvr_Resource (ac_Resource a) = ''sidekicks'' \<and>
     hr_Method h = verbMethod (ac_Verb a) \<and>
     segments (hr_Path h) = apiSegments c @
       (if ac_Namespace a = '''' then [] else [''namespaces'', ac_Namespace a]) @
       [''sidekicks''] @ nonEmpty [actionName a] @ segments (ac_Subresource a))"

lemma goesTo_segments:
  "goesTo c verb ns name subs h \<Longrightarrow> hr_Method h = verb \<and> segments (hr_Path h) = apiSegments c @ objectSegments ns name subs"
  by (auto simp: goesTo_def segments_absPath)

lemmas sidekicks_defs = Sidekicks_Get_def Sidekicks_List_def Sidekicks_Watch_def Sidekicks_Create_def
  Sidekicks_Update_def Sidekicks_UpdateStatus_def Sidekicks_Delete_def Sidekicks_DeleteCollection_def
  Sidekicks_Patch_def chain_def

lemmas fake_defs = FakeSidekicks_Get_def FakeSidekicks_List_def FakeSidekicks_Watch_def FakeSidekicks_Create_def
  FakeSidekicks_Update_def FakeSidekicks_UpdateStatus_def FakeSidekicks_Delete_def
  FakeSidekicks_DeleteCollection_def FakeSidekicks_Patch_def invokes_def

text \<open>Each call of the typed client sends at most requests to its object.\<close>

lemma sidekicks_go [emits_rules]:
  "emits (goesTo (c_client c) ''GET'' (c_ns c) name []) (Sidekicks_Get c name o1)"
  "emits (goesTo (c_client c) ''GET'' (c_ns c) '''' []) (Sidekicks_List c lo)"
  "emits (goesTo (c_client c) ''GET'' (c_ns c) '''' []) (Sidekicks_Watch c lo)"
  "emits (goesTo (c_client c) ''POST'' (c_ns c) '''' []) (Sidekicks_Create c sk o1)"
  "emits (goesTo (c_client c) ''PUT'' (c_ns c) (sk_Name sk) []) (Sidekicks_Update c sk o1)"
  "emits (goesTo (c_client c) ''PUT'' (c_ns c) (sk_Name sk) [''status'']) (Sidekicks_UpdateStatus c sk o1)"
  "emits (goesTo (c_client c) ''DELETE'' (c_ns c) name []) (Sidekicks_Delete c name o1)"
  "emits (goesTo (c_client c) ''DELETE'' (c_ns c) '''' []) (Sidekicks_DeleteCollection c o1 lo)"
  "emits (goesTo (c_client c) ''PATCH'' (c_ns c) name subs) (Sidekicks_Patch c name pt data o1 subs)"
  unfolding sidekicks_defs fold_simps by (intro emits_rDo emits_rWatch built_rules)+

lemma emits_mono: "emits p m \<Longrightarrow> (\<And>v. p v \<Longrightarrow> q v) \<Longrightarrow> emits q m"
  unfolding emits_def by (meson list.pred_mono_strong)

lemma goesTo_subresources:
  assumes "goesTo c verb ns name subs h"
  shows "segments (pathJoin subs) = nonEmpty subs"
proof (rule segments_pathJoin)
  have "list_all segment (nonEmpty subs)"
    using assms by (simp add: goesTo_def objectSegments_def)
  then show "list_all (\<lambda>p. p = '''' \<or> segment p) subs"
    by (auto simp: list_all_iff nonEmpty_def)
qed

lemma requestedI:
  assumes "emits (goesTo c verb ns name subs) m" "ac_Resource a = sidekicksResource" "verbMethod (ac_Verb a) = verb"
    "ac_Namespace a = ns" "actionName a = name" "ac_Subresource a = pathJoin subs"
  shows "emits (requested c a) m"
  using assms(1)
proof (rule emits_mono)
  fix h assume "goesTo c verb ns name subs h"
  from goesTo_segments [OF this] goesTo_subresources [OF this] assms(2-)
  show "requested c a h"
    by (auto simp: requested_def objectSegments_def sidekicksResource_def)
qed

lemmas action_defs = NewGetAction_def NewListAction_def NewWatchAction_def NewCreateAction_def NewUpdateAction_def
  NewUpdateSubresourceAction_def NewDeleteActionWithOptions_def NewDeleteCollectionAction_def
  NewPatchSubresourceAction_def zero_action_def actionName_def

lemma pathJoin_status [simp]: "pathJoin [''status''] = ''status''"
  by (simp add: pathJoin_def pathClean_def cleanStep_def hasPrefix_def)

lemma fake_calls:
  assumes "fk_ns f = c_ns c"
  shows "emits (\<lambda>a. emits (requested (c_client c) a) (Sidekicks_Get c name o1)) (FakeSidekicks_Get f name o1)"
    and "emits (\<lambda>a. emits (requested (c_client c) a) (Sidekicks_List c lo)) (FakeSidekicks_List f lo)"
    and "emits (\<lambda>a. emits (requested (c_client c) a) (Sidekicks_Watch c lo)) (FakeSidekicks_Watch f lo)"
    and "emits (\<lambda>a. emits (requested (c_client c) a) (Sidekicks_Create c sk o1)) (FakeSidekicks_Create f sk o1)"
    and "emits (\<lambda>a. emits (requested (c_client c) a) (Sidekicks_Update c sk o1)) (FakeSidekicks_Update f sk o1)"
    and "emits (\<lambda>a. emits (requested (c_client c) a) (Sidekicks_UpdateStatus c sk o1)) (FakeSidekicks_UpdateStatus f sk o1)"
    and "emits (\<lambda>a. emits (requested (c_client c) a) (Sidekicks_Delete c name o1)) (FakeSidekicks_Delete f name o1)"
    and "emits (\<lambda>a. emits (requested (c_client c) a) (Sidekicks_DeleteCollection c o1 lo)) (FakeSidekicks_DeleteCollection f o1 lo)"
    and "emits (\<lambda>a. emits (requested (c_client c) a) (Sidekicks_Patch c name pt data o1 subs))
      (FakeSidekicks_Patch f name pt data o1 subs)"
proof -
  note step = requestedI [OF sidekicks_go(1)] requestedI [OF sidekicks_go(4)] requestedI [OF sidekicks_go(5)]
    requestedI [OF sidekicks_go(6)] requestedI [OF sidekicks_go(7)] requestedI [OF sidekicks_go(9)]
    requestedI [OF sidekicks_go(2)] requestedI [OF sidekicks_go(3)] requestedI [OF sidekicks_go(8)]
  show "emits (\<lambda>a. emits (requested (c_client c) a) (Sidekicks_Get c name o1)) (FakeSidekicks_Get f name o1)"
    "emits (\<lambda>a. emits (requested (c_client c) a) (Sidekicks_Create c sk o1)) (FakeSidekicks_Create f sk o1)"
    "emits (\<lambda>a. emits (requested (c_client c) a) (Sidekicks_Update c sk o1)) (FakeSidekicks_Update f sk o1)"
    "emits (\<lambda>a. emits (requested (c_client c) a) (Sidekicks_UpdateStatus c sk o1)) (FakeSidekicks_UpdateStatus f sk o1)"
    "emits (\<lambda>a. emits (requested (c_client c) a) (Sidekicks_Delete c name o1)) (FakeSidekicks_Delete f name o1)"
    "emits (\<lambda>a. emits (requested (c_client c) a) (Sidekicks_Patch c name pt data o1 subs))
      (FakeSidekicks_Patch f name pt data o1 subs)"
    unfolding fake_defs by (intro emits_bind emits_api_call emits_return step; simp add: action_defs assms)+
  show "emits (\<lambda>a. emits (requested (c_client c) a) (Sidekicks_List c lo)) (FakeSidekicks_List f lo)"
    "emits (\<lambda>a. emits (requested (c_client c) a) (Sidekicks_Watch c lo)) (FakeSidekicks_Watch f lo)"
    "emits (\<lambda>a. emits (requested (c_client c) a) (Sidekicks_DeleteCollection c o1 lo)) (FakeSidekicks_DeleteCollection f o1 lo)"
    unfolding fake_defs
    by (auto split: sum.split prod.split option.split fake_object.split simp: action_defs assms
        intro!: emits_bind emits_api_call emits_return step)
qed


text \<open>A client and a fake client set that answer everything.\<close>

definition sample_client :: "(nat, nat) sidekicks" where
  "sample_client = \<lparr>c_client = \<lparr>rc_BasePath = Some ''/k8s/'', rc_VersionedAPIPath = ''/apis/apps.k8s.appscode.com/v1alpha1'',
       rc_ClientTimeout = 0, rc_ContentType = ''application/json'', rc_EncodeParameters = (\<lambda>_. Inr []),
       rc_Encode = (\<lambda>_. Inr ''{}''), rc_getSidekick = (\<lambda>_ e. (Inr zero_sidekick, e)),
       rc_getList = (\<lambda>_ e. (Inr ('''', []), e)), rc_getNothing = (\<lambda>_ e. (Inr (), e)), rc_watch = (\<lambda>_ e. (Inr 0, e))\<rparr>,
     c_ns = ''demo''\<rparr>"

definition sample_selectors :: selector_lib where
  "sample_selectors = \<lparr>sl_Parse = (\<lambda>_. Inr None), sl_ParseField = (\<lambda>_. Inr None),
     sl_Everything = \<lparr>sel_Matches = (\<lambda>_. True), sel_String = ''''\<rparr>\<rparr>"

definition sample_tracker :: "nat tracker" where
  "sample_tracker = \<lparr>tk_Add = (\<lambda>_ n. (None, n + 1)), tk_Do = (\<lambda>_ n. ((Some (FakeSidekick zero_sidekick), None), n))\<rparr>"

definition sample_fake :: "(nat, nat) fake" where
  "sample_fake = Fake_Sidekicks sample_selectors
     \<lparr>fc_tracker = sample_tracker,
      fc_ReactionChain = [\<lparr>re_Verb = ''*'', re_Resource = ''*'', re_Reaction = ObjectReaction sample_tracker\<rparr>],
      fc_WatchReactionChain = []\<rparr> ''demo''"

lemma sample_fake_ns: "fk_ns sample_fake = c_ns sample_client"
  by (simp add: sample_fake_def Fake_Sidekicks_def sample_client_def)


section \<open>Which objects a call can reach\<close>

definition hits :: "('e, 'w) rest_client \<Rightarrow> string \<Rightarrow> string \<Rightarrow> string \<Rightarrow> string list \<Rightarrow> http_request \<Rightarrow> bool" where
  "hits c verb ns name subs h = (hr_Method h = verb \<and> segment ns \<and> segment name \<and>
     segments (hr_Path h) = apiSegments c @ [''namespaces'', ns, ''sidekicks'', name] @ subs)"

lemma goesTo_hits:
  assumes "ns \<noteq> '''' \<and> goesTo c verb ns name subs h" "name \<noteq> ''''" "nonEmpty subs = subs"
  shows "hits c verb ns name subs h"
  using assms goesTo_segments [of c verb ns name subs h]
  by (auto simp: hits_def objectSegments_def goesTo_def)

lemma emits_named:
  assumes "\<And>n. built c verb ns n subs (req n)" "rq_err (req '''') \<noteq> None" "verb \<in> {''GET'', ''PUT'', ''DELETE''}"
    "nonEmpty subs = subs"
  shows "emits (hits c verb ns name subs) (rDo exchange (req name))"
proof (cases "name = ''''")
  case True
  then show ?thesis using assms(2) emits_rDo_err by simp
next
  case False
  from emits_rDo_named [OF assms(1,3) False] show ?thesis
    by (rule emits_mono) (use False assms(4) goesTo_hits in blast)
qed

text \<open>
  Property C39. A call of the client that names an object reaches only that object: every request sent
  for Get, Update, UpdateStatus and Delete has the path of the object of that name in the client's
  namespace and no other segments. For an empty name, an empty namespace or one with a slash or dots
  only, nothing is sent; no name turns a Delete into one of the collection or of another namespace.
\<close>

theorem named_calls_confined:
  "emits (hits (c_client c) ''GET'' (c_ns c) name []) (Sidekicks_Get c name opts) \<and>
   emits (hits (c_client c) ''PUT'' (c_ns c) (sk_Name sk) []) (Sidekicks_Update c sk opts) \<and>
   emits (hits (c_client c) ''PUT'' (c_ns c) (sk_Name sk) [''status'']) (Sidekicks_UpdateStatus c sk opts) \<and>
   emits (hits (c_client c) ''DELETE'' (c_ns c) name []) (Sidekicks_Delete c name opts)"
  unfolding sidekicks_defs fold_simps
  by (intro conjI; rule emits_named) (intro built_rules | simp)+

text \<open>What is sent, on an example.\<close>

lemma delete_sends:
  "map hr_Path (w_trace (snd (run_state (Sidekicks_Delete sample_client ''sk'' '''') \<lparr>w_env = 0, w_trace = []\<rparr>))) =
     [''/k8s/apis/apps.k8s.appscode.com/v1alpha1/namespaces/demo/sidekicks/sk'']"
  by code_simp

section \<open>Timeouts, lists and construction\<close>

text \<open>
  The timeout of a list is exact up to 9223372036 seconds; one more and the multiplication with the
  length of a second overflows to a negative duration.
\<close>

lemma optsTimeout_exact:
  assumes "lo_TimeoutSeconds opts = Some s" "0 \<le> sint s" "sint s \<le> 9223372036"
  shows "sint (optsTimeout opts) = sint s * 1000000000"
proof -
  have "optsTimeout opts = word_of_int (sint s * 1000000000)"
    using assms(1) by (simp add: optsTimeout_def)
  moreover have "sint (word_of_int (sint s * 1000000000) :: int64) = sint s * 1000000000"
    by (rule sint_word_of_int64) (use assms(2,3) in simp_all)
  ultimately show ?thesis by argo
qed

lemma optsTimeout_wraps:
  "lo_TimeoutSeconds opts = Some 9223372037 \<Longrightarrow> sint (optsTimeout opts) = - 9223372036709551616"
  by (simp add: optsTimeout_def)

text \<open>A list the fake answers has exactly the matching items of the reactor's list, in its order.\<close>

lemma FakeSidekicks_List_filters:
  assumes "ExtractFromListOptions (fk_selectors f) opts = Inr (label, field)"
    and "\<And>a def. fst (fk_Invokes f a def (w_env w)) = (Some (FakeList meta items), err)"
  shows "fst (run_state (FakeSidekicks_List f opts) w) =
    Inr (Some (meta, filter (\<lambda>item. sel_Matches label (om_Labels (sk_Meta item))) items), err)"
  using assms by (simp add: FakeSidekicks_List_def NewListAction_def invokes_def run_api_call)

text \<open>
  The reactors of \<open>NewSimpleClientset\<close> do not implement the deletion of a collection: the call
  succeeds and deletes nothing.
\<close>

theorem fake_delete_collection_deletes_nothing:
  assumes "NewSimpleClientset t watch objects e0 = (Inr cs, e1)"
    and "ExtractFromListOptions L listOpts = Inr sels"
  shows "fst (run_state (FakeSidekicks_DeleteCollection (Fake_Sidekicks L cs ns) opts listOpts) w) = None \<and>
    w_env (snd (run_state (FakeSidekicks_DeleteCollection (Fake_Sidekicks L cs ns) opts listOpts) w)) = w_env w"
proof -
  obtain r e' where "addObjects t objects e0 = (r, e')"
    by (cases "addObjects t objects e0")
  then have "fc_ReactionChain cs = [\<lparr>re_Verb = ''*'', re_Resource = ''*'', re_Reaction = ObjectReaction t\<rparr>]"
    using arg_cong [OF assms(1), of "\<lambda>p. map_sum id fc_ReactionChain (fst p)"]
    by (cases r) (simp_all add: NewSimpleClientset_def)
  then have "fk_Invokes (Fake_Sidekicks L cs ns) a def e = ((Some def, None), e)" if "ac_Verb a = ''delete-collection''" for a def e
    using that by (simp add: Fake_Sidekicks_def Handles_def resourceCovers_def ObjectReaction_def)
  moreover have "fk_selectors (Fake_Sidekicks L cs ns) = L"
    by (simp add: Fake_Sidekicks_def)
  ultimately show ?thesis
    using assms(2)
    by (simp add: FakeSidekicks_DeleteCollection_def NewDeleteCollectionAction_def invokes_def run_api_call)
qed

text \<open>
  A client set is built around one transport: both its clients get the HTTP client made from the
  caller's configuration and the same rate limiter. A positive rate without a burst is refused.
\<close>

theorem clientset_shares_transport:
  assumes "Clientset_NewForConfig L c = Inr cs"
  shows "\<exists>h config. rl_NewDiscoveryClient L config h = Inr (cs_DiscoveryClient cs) \<and>
      AppsV1alpha1_NewForConfigAndClient L config h = Inr (cs_appsV1alpha1 cs) \<and>
      (cfg_RateLimiter c = None \<and> 0 < cfg_QPS c \<longrightarrow> 0 < cfg_Burst c \<and>
        cfg_RateLimiter config = Some (rl_NewTokenBucketRateLimiter L (cfg_QPS c) (cfg_Burst c))) \<and>
      (cfg_RateLimiter c \<noteq> None \<longrightarrow> cfg_RateLimiter config = cfg_RateLimiter c) \<and>
      cfg_Other config = cfg_Other c"
proof -
  let ?c = "if cfg_UserAgent c = '''' then c\<lparr>cfg_UserAgent := rl_DefaultKubernetesUserAgent L\<rparr> else c"
  have fields: "cfg_RateLimiter ?c = cfg_RateLimiter c" "cfg_QPS ?c = cfg_QPS c" "cfg_Burst ?c = cfg_Burst c"
    "cfg_Other ?c = cfg_Other c" by auto
  obtain h where h: "Clientset_NewForConfigAndClient L ?c h = Inr cs"
    using assms by (auto simp: Clientset_NewForConfig_def Let_def split: sum.splits)
  let ?config = "if cfg_RateLimiter c = None \<and> cfg_QPS c > 0
    then ?c\<lparr>cfg_RateLimiter := Some (rl_NewTokenBucketRateLimiter L (cfg_QPS c) (cfg_Burst c))\<rparr> else ?c"
  have "rl_NewDiscoveryClient L ?config h = Inr (cs_DiscoveryClient cs) \<and>
      AppsV1alpha1_NewForConfigAndClient L ?config h = Inr (cs_appsV1alpha1 cs) \<and>
      (cfg_RateLimiter c = None \<and> 0 < cfg_QPS c \<longrightarrow> 0 < cfg_Burst c)"
    using h unfolding Clientset_NewForConfigAndClient_def fields Let_def
    by (auto split: sum.splits if_splits)
  then show ?thesis
    by (intro exI [of _ h] exI [of _ ?config]) auto
qed

end
