(* ===== verification/Api_Scheme.thy ===== *)
theory Api_Scheme
  imports Sidekick_Types
begin

text \<open>
  The registry of the API types (\<open>runtime.Scheme\<close>) and what the program registers in it when it starts
  (\<open>init\<close> of \<open>src/pkg/cmds/run.go\<close>, \<open>sidekick_types.go\<close>, \<open>install.go\<close> and the scheme of the generated client set).
  Every client of the operator finds the group, version and kind of an object here, from the Go type of the object;
  a conflict between two registrations is a panic. Conversion and defaulting functions are not part of the model.
\<close>

section \<open>The registry\<close>

text \<open>A Go type is its package path and its name; a kind is qualified by group and version. A panic is \<open>None\<close>.\<close>

type_synonym go_type = "string \<times> string"
type_synonym group_version = "string \<times> string"
type_synonym group_kind = "group_version \<times> string"

record api_scheme =
  sc_gvkToType :: "group_kind \<Rightarrow> go_type option"
  sc_typeToGVK :: "go_type \<Rightarrow> group_kind list"
  sc_unversionedTypes :: "go_type \<Rightarrow> group_kind option"
  sc_unversionedKinds :: "string \<Rightarrow> go_type option"
  sc_observedVersions :: "group_version list"

definition NewScheme :: api_scheme where
  "NewScheme = \<lparr>sc_gvkToType = (\<lambda>_. None), sc_typeToGVK = (\<lambda>_. []), sc_unversionedTypes = (\<lambda>_. None),
     sc_unversionedKinds = (\<lambda>_. None), sc_observedVersions = []\<rparr>"

definition APIVersionInternal :: string where "APIVersionInternal = ''__internal''"

definition addObservedVersion :: "group_version \<Rightarrow> api_scheme \<Rightarrow> api_scheme" where
  "addObservedVersion gv s =
     (if snd gv = '''' \<or> snd gv = APIVersionInternal \<or> List.member (sc_observedVersions s) gv then s
      else s\<lparr>sc_observedVersions := sc_observedVersions s @ [gv]\<rparr>)"

definition AddKnownTypeWithName :: "group_kind \<Rightarrow> go_type \<Rightarrow> api_scheme \<Rightarrow> api_scheme option" where
  "AddKnownTypeWithName gvk t s0 =
     (let s = addObservedVersion (fst gvk) s0 in
      if snd (fst gvk) = '''' then None
      else if sc_gvkToType s gvk \<noteq> None \<and> sc_gvkToType s gvk \<noteq> Some t then None
      else (let s1 = s\<lparr>sc_gvkToType := (sc_gvkToType s)(gvk := Some t)\<rparr> in
        if List.member (sc_typeToGVK s1 t) gvk then Some s1
        else Some (s1\<lparr>sc_typeToGVK := (sc_typeToGVK s1)(t := sc_typeToGVK s1 t @ [gvk])\<rparr>)))"

text \<open>The loops over the types: the first panic ends them.\<close>

fun eachOf :: "('a \<Rightarrow> 's \<Rightarrow> 's option) \<Rightarrow> 'a list \<Rightarrow> 's \<Rightarrow> 's option" where
  "eachOf f [] s = Some s"
| "eachOf f (x # xs) s = (case f x s of None \<Rightarrow> None | Some s' \<Rightarrow> eachOf f xs s')"

definition AddKnownTypes :: "group_version \<Rightarrow> go_type list \<Rightarrow> api_scheme \<Rightarrow> api_scheme option" where
  "AddKnownTypes gv ts s = eachOf (\<lambda>t. AddKnownTypeWithName (gv, snd t) t) ts (addObservedVersion gv s)"

definition markUnversioned :: "group_version \<Rightarrow> go_type \<Rightarrow> api_scheme \<Rightarrow> api_scheme option" where
  "markUnversioned gv t s0 =
     (let s = s0\<lparr>sc_unversionedTypes := (sc_unversionedTypes s0)(t := Some (gv, snd t))\<rparr> in
      if sc_unversionedKinds s (snd t) \<noteq> None \<and> sc_unversionedKinds s (snd t) \<noteq> Some t then None
      else Some (s\<lparr>sc_unversionedKinds := (sc_unversionedKinds s)(snd t := Some t)\<rparr>))"

definition AddUnversionedTypes :: "group_version \<Rightarrow> go_type list \<Rightarrow> api_scheme \<Rightarrow> api_scheme option" where
  "AddUnversionedTypes gv ts s =
     (case AddKnownTypes gv ts (addObservedVersion gv s) of
        None \<Rightarrow> None | Some s' \<Rightarrow> eachOf (markUnversioned gv) ts s')"

text \<open>\<open>ObjectKinds\<close> for a typed object, and \<open>GVKForObject\<close>, given the kind the object itself carries.\<close>

definition ObjectKinds :: "go_type \<Rightarrow> api_scheme \<Rightarrow> (group_kind list \<times> bool) option" where
  "ObjectKinds t s = (if sc_typeToGVK s t = [] then None else Some (sc_typeToGVK s t, sc_unversionedTypes s t \<noteq> None))"

definition GVKForObject :: "go_type \<Rightarrow> group_kind \<Rightarrow> api_scheme \<Rightarrow> goerr + group_kind" where
  "GVKForObject t current s = (case ObjectKinds t s of
     None \<Rightarrow> Inl (Err ''no kind is registered for the type'')
   | Some (gvks, unversioned) \<Rightarrow>
       if unversioned then Inl (Err ''cannot create group-version-kind for unversioned type'')
       else (case gvks of
          [gvk] \<Rightarrow> Inr gvk
        | _ \<Rightarrow> if current \<noteq> (('''', ''''), '''') \<and> List.member gvks current then Inr current
              else Inl (Err ''multiple GroupVersionKinds associated with Go type'')))"

section \<open>Registering a group\<close>

definition metaPackage :: string where "metaPackage = ''k8s.io/apimachinery/pkg/apis/meta/v1''"

definition optionsTypes :: "string list" where
  "optionsTypes = [''ListOptions'', ''GetOptions'', ''DeleteOptions'', ''CreateOptions'', ''UpdateOptions'', ''PatchOptions'']"

definition statusTypes :: "string list" where
  "statusTypes = [''Status'', ''APIVersions'', ''APIGroupList'', ''APIGroup'', ''APIResourceList'']"

definition Unversioned :: group_version where "Unversioned = ('''', ''v1'')"

text \<open>\<open>metav1.AddToGroupVersion\<close>: the types of the protocol, under every group.\<close>

definition AddToGroupVersion :: "group_version \<Rightarrow> api_scheme \<Rightarrow> api_scheme option" where
  "AddToGroupVersion gv s = Option.bind (AddKnownTypeWithName (gv, ''WatchEvent'') (metaPackage, ''WatchEvent'') s) (\<lambda>s.
     Option.bind (AddKnownTypeWithName ((fst gv, APIVersionInternal), ''WatchEvent'') (metaPackage, ''InternalEvent'') s) (\<lambda>s.
     Option.bind (AddKnownTypes gv (map (Pair metaPackage) optionsTypes) s) (\<lambda>s.
     AddUnversionedTypes Unversioned (map (Pair metaPackage) statusTypes) s)))"

text \<open>
  What is registered for a group and version, and from which package: the list of \<open>addKnownTypes\<close>, or the arguments of
  one call of \<open>Register\<close>. The core group registers \<open>metav1.Status\<close> besides.
\<close>

record api_group =
  ag_GroupVersion :: group_version
  ag_Package :: string
  ag_Kinds :: "string list"
  ag_Status :: bool

definition addKnownTypes :: "api_group \<Rightarrow> api_scheme \<Rightarrow> api_scheme option" where
  "addKnownTypes g s = Option.bind (AddKnownTypes (ag_GroupVersion g) (map (Pair (ag_Package g)) (ag_Kinds g)) s) (\<lambda>s.
     Option.bind (if ag_Status g then AddKnownTypes (ag_GroupVersion g) [(metaPackage, ''Status'')] s else Some s) (\<lambda>s.
     AddToGroupVersion (ag_GroupVersion g) s))"

definition AddToScheme :: "api_group list \<Rightarrow> api_scheme \<Rightarrow> api_scheme option" where
  "AddToScheme gs s = eachOf addKnownTypes gs s"

section \<open>The groups of the program\<close>

definition v1alpha1_SchemeBuilder :: "api_group list" where
  "v1alpha1_SchemeBuilder = [\<lparr>ag_GroupVersion = (GroupName, ''v1alpha1''), ag_Package = ''kubeops.dev/sidekick/apis/apps/v1alpha1'',
     ag_Kinds = [''Sidekick'', ''SidekickList''], ag_Status = False\<rparr>]"

definition Install :: "api_scheme \<Rightarrow> api_scheme option" where
  "Install s = AddToScheme v1alpha1_SchemeBuilder s"

definition clientset_scheme :: "api_scheme option" where
  "clientset_scheme = Option.bind (AddToGroupVersion ('''', ''v1'') NewScheme) (AddToScheme v1alpha1_SchemeBuilder)"

definition apiworkv1_SchemeBuilder :: "api_group list" where
  "apiworkv1_SchemeBuilder = [\<lparr>ag_GroupVersion = (''work.open-cluster-management.io'', ''v1''),
     ag_Package = ''open-cluster-management.io/api/work/v1'',
     ag_Kinds = [''AppliedManifestWork'', ''AppliedManifestWorkList'', ''ManifestWork'', ''ManifestWorkList''], ag_Status = False\<rparr>]"

definition registered :: "group_version \<Rightarrow> string \<Rightarrow> string list \<Rightarrow> api_group list" where
  "registered gv pkg ks = map (\<lambda>k. \<lparr>ag_GroupVersion = gv, ag_Package = pkg, ag_Kinds = [k, k @ ''List''], ag_Status = False\<rparr>) ks"

definition kubesliceapi_SchemeBuilder :: "api_group list" where
  "kubesliceapi_SchemeBuilder = registered (''networking.kubeslice.io'', ''v1beta1'')
     ''github.com/kubeslice/worker-operator/api/v1beta1'' [''ServiceExport'', ''ServiceImport'', ''Slice'', ''SliceGateway'']"

definition storageapi_SchemeBuilder :: "api_group list" where
  "storageapi_SchemeBuilder = registered (''storage.kubestash.com'', ''v1alpha1'')
     ''kubestash.dev/apimachinery/apis/storage/v1alpha1'' [''BackupStorage'', ''Repository'', ''RetentionPolicy'', ''Snapshot'']"

text \<open>The groups of Kubernetes, in the order of \<open>k8s.io/client-go/kubernetes/scheme\<close>.\<close>

definition admissionregistrationv1_group :: api_group where
  "admissionregistrationv1_group = \<lparr>ag_GroupVersion = (''admissionregistration.k8s.io'', ''v1''), ag_Package = ''k8s.io/api/admissionregistration/v1'',
     ag_Kinds = [''ValidatingWebhookConfiguration'', ''ValidatingWebhookConfigurationList'',
       ''MutatingWebhookConfiguration'', ''MutatingWebhookConfigurationList'', ''ValidatingAdmissionPolicy'',
       ''ValidatingAdmissionPolicyList'', ''ValidatingAdmissionPolicyBinding'',
       ''ValidatingAdmissionPolicyBindingList''], ag_Status = False\<rparr>"

definition admissionregistrationv1alpha1_group :: api_group where
  "admissionregistrationv1alpha1_group = \<lparr>ag_GroupVersion = (''admissionregistration.k8s.io'', ''v1alpha1''), ag_Package = ''k8s.io/api/admissionregistration/v1alpha1'',
     ag_Kinds = [''ValidatingAdmissionPolicy'', ''ValidatingAdmissionPolicyList'',
       ''ValidatingAdmissionPolicyBinding'', ''ValidatingAdmissionPolicyBindingList'',
       ''MutatingAdmissionPolicy'', ''MutatingAdmissionPolicyList'', ''MutatingAdmissionPolicyBinding'',
       ''MutatingAdmissionPolicyBindingList''], ag_Status = False\<rparr>"

definition admissionregistrationv1beta1_group :: api_group where
  "admissionregistrationv1beta1_group = \<lparr>ag_GroupVersion = (''admissionregistration.k8s.io'', ''v1beta1''), ag_Package = ''k8s.io/api/admissionregistration/v1beta1'',
     ag_Kinds = [''ValidatingWebhookConfiguration'', ''ValidatingWebhookConfigurationList'',
       ''MutatingWebhookConfiguration'', ''MutatingWebhookConfigurationList'', ''ValidatingAdmissionPolicy'',
       ''ValidatingAdmissionPolicyList'', ''ValidatingAdmissionPolicyBinding'',
       ''ValidatingAdmissionPolicyBindingList'', ''MutatingAdmissionPolicy'', ''MutatingAdmissionPolicyList'',
       ''MutatingAdmissionPolicyBinding'', ''MutatingAdmissionPolicyBindingList''], ag_Status = False\<rparr>"

definition internalv1alpha1_group :: api_group where
  "internalv1alpha1_group = \<lparr>ag_GroupVersion = (''internal.apiserver.k8s.io'', ''v1alpha1''), ag_Package = ''k8s.io/api/apiserverinternal/v1alpha1'',
     ag_Kinds = [''StorageVersion'', ''StorageVersionList''], ag_Status = False\<rparr>"

definition appsv1_group :: api_group where
  "appsv1_group = \<lparr>ag_GroupVersion = (''apps'', ''v1''), ag_Package = ''k8s.io/api/apps/v1'',
     ag_Kinds = [''Deployment'', ''DeploymentList'', ''StatefulSet'', ''StatefulSetList'', ''DaemonSet'',
       ''DaemonSetList'', ''ReplicaSet'', ''ReplicaSetList'', ''ControllerRevision'',
       ''ControllerRevisionList''], ag_Status = False\<rparr>"

definition appsv1beta1_group :: api_group where
  "appsv1beta1_group = \<lparr>ag_GroupVersion = (''apps'', ''v1beta1''), ag_Package = ''k8s.io/api/apps/v1beta1'',
     ag_Kinds = [''Deployment'', ''DeploymentList'', ''DeploymentRollback'', ''Scale'', ''StatefulSet'',
       ''StatefulSetList'', ''ControllerRevision'', ''ControllerRevisionList''], ag_Status = False\<rparr>"

definition appsv1beta2_group :: api_group where
  "appsv1beta2_group = \<lparr>ag_GroupVersion = (''apps'', ''v1beta2''), ag_Package = ''k8s.io/api/apps/v1beta2'',
     ag_Kinds = [''Deployment'', ''DeploymentList'', ''Scale'', ''StatefulSet'', ''StatefulSetList'',
       ''DaemonSet'', ''DaemonSetList'', ''ReplicaSet'', ''ReplicaSetList'', ''ControllerRevision'',
       ''ControllerRevisionList''], ag_Status = False\<rparr>"

definition authenticationv1_group :: api_group where
  "authenticationv1_group = \<lparr>ag_GroupVersion = (''authentication.k8s.io'', ''v1''), ag_Package = ''k8s.io/api/authentication/v1'',
     ag_Kinds = [''TokenReview'', ''TokenRequest'', ''SelfSubjectReview''], ag_Status = False\<rparr>"

definition authenticationv1alpha1_group :: api_group where
  "authenticationv1alpha1_group = \<lparr>ag_GroupVersion = (''authentication.k8s.io'', ''v1alpha1''), ag_Package = ''k8s.io/api/authentication/v1alpha1'',
     ag_Kinds = [''SelfSubjectReview''], ag_Status = False\<rparr>"

definition authenticationv1beta1_group :: api_group where
  "authenticationv1beta1_group = \<lparr>ag_GroupVersion = (''authentication.k8s.io'', ''v1beta1''), ag_Package = ''k8s.io/api/authentication/v1beta1'',
     ag_Kinds = [''SelfSubjectReview'', ''TokenReview''], ag_Status = False\<rparr>"

definition authorizationv1_group :: api_group where
  "authorizationv1_group = \<lparr>ag_GroupVersion = (''authorization.k8s.io'', ''v1''), ag_Package = ''k8s.io/api/authorization/v1'',
     ag_Kinds = [''SelfSubjectRulesReview'', ''SelfSubjectAccessReview'', ''SubjectAccessReview'',
       ''LocalSubjectAccessReview''], ag_Status = False\<rparr>"

definition authorizationv1beta1_group :: api_group where
  "authorizationv1beta1_group = \<lparr>ag_GroupVersion = (''authorization.k8s.io'', ''v1beta1''), ag_Package = ''k8s.io/api/authorization/v1beta1'',
     ag_Kinds = [''SelfSubjectRulesReview'', ''SelfSubjectAccessReview'', ''SubjectAccessReview'',
       ''LocalSubjectAccessReview''], ag_Status = False\<rparr>"

definition autoscalingv1_group :: api_group where
  "autoscalingv1_group = \<lparr>ag_GroupVersion = (''autoscaling'', ''v1''), ag_Package = ''k8s.io/api/autoscaling/v1'',
     ag_Kinds = [''HorizontalPodAutoscaler'', ''HorizontalPodAutoscalerList'', ''Scale''], ag_Status = False\<rparr>"

definition autoscalingv2_group :: api_group where
  "autoscalingv2_group = \<lparr>ag_GroupVersion = (''autoscaling'', ''v2''), ag_Package = ''k8s.io/api/autoscaling/v2'',
     ag_Kinds = [''HorizontalPodAutoscaler'', ''HorizontalPodAutoscalerList''], ag_Status = False\<rparr>"

definition autoscalingv2beta1_group :: api_group where
  "autoscalingv2beta1_group = \<lparr>ag_GroupVersion = (''autoscaling'', ''v2beta1''), ag_Package = ''k8s.io/api/autoscaling/v2beta1'',
     ag_Kinds = [''HorizontalPodAutoscaler'', ''HorizontalPodAutoscalerList''], ag_Status = False\<rparr>"

definition autoscalingv2beta2_group :: api_group where
  "autoscalingv2beta2_group = \<lparr>ag_GroupVersion = (''autoscaling'', ''v2beta2''), ag_Package = ''k8s.io/api/autoscaling/v2beta2'',
     ag_Kinds = [''HorizontalPodAutoscaler'', ''HorizontalPodAutoscalerList''], ag_Status = False\<rparr>"

definition batchv1_group :: api_group where
  "batchv1_group = \<lparr>ag_GroupVersion = (''batch'', ''v1''), ag_Package = ''k8s.io/api/batch/v1'',
     ag_Kinds = [''Job'', ''JobList'', ''CronJob'', ''CronJobList''], ag_Status = False\<rparr>"

definition batchv1beta1_group :: api_group where
  "batchv1beta1_group = \<lparr>ag_GroupVersion = (''batch'', ''v1beta1''), ag_Package = ''k8s.io/api/batch/v1beta1'',
     ag_Kinds = [''CronJob'', ''CronJobList''], ag_Status = False\<rparr>"

definition certificatesv1_group :: api_group where
  "certificatesv1_group = \<lparr>ag_GroupVersion = (''certificates.k8s.io'', ''v1''), ag_Package = ''k8s.io/api/certificates/v1'',
     ag_Kinds = [''CertificateSigningRequest'', ''CertificateSigningRequestList''], ag_Status = False\<rparr>"

definition certificatesv1beta1_group :: api_group where
  "certificatesv1beta1_group = \<lparr>ag_GroupVersion = (''certificates.k8s.io'', ''v1beta1''), ag_Package = ''k8s.io/api/certificates/v1beta1'',
     ag_Kinds = [''CertificateSigningRequest'', ''CertificateSigningRequestList'', ''ClusterTrustBundle'',
       ''ClusterTrustBundleList''], ag_Status = False\<rparr>"

definition certificatesv1alpha1_group :: api_group where
  "certificatesv1alpha1_group = \<lparr>ag_GroupVersion = (''certificates.k8s.io'', ''v1alpha1''), ag_Package = ''k8s.io/api/certificates/v1alpha1'',
     ag_Kinds = [''ClusterTrustBundle'', ''ClusterTrustBundleList'', ''PodCertificateRequest'',
       ''PodCertificateRequestList''], ag_Status = False\<rparr>"

definition coordinationv1alpha2_group :: api_group where
  "coordinationv1alpha2_group = \<lparr>ag_GroupVersion = (''coordination.k8s.io'', ''v1alpha2''), ag_Package = ''k8s.io/api/coordination/v1alpha2'',
     ag_Kinds = [''LeaseCandidate'', ''LeaseCandidateList''], ag_Status = False\<rparr>"

definition coordinationv1beta1_group :: api_group where
  "coordinationv1beta1_group = \<lparr>ag_GroupVersion = (''coordination.k8s.io'', ''v1beta1''), ag_Package = ''k8s.io/api/coordination/v1beta1'',
     ag_Kinds = [''Lease'', ''LeaseList'', ''LeaseCandidate'', ''LeaseCandidateList''], ag_Status = False\<rparr>"

definition coordinationv1_group :: api_group where
  "coordinationv1_group = \<lparr>ag_GroupVersion = (''coordination.k8s.io'', ''v1''), ag_Package = ''k8s.io/api/coordination/v1'',
     ag_Kinds = [''Lease'', ''LeaseList''], ag_Status = False\<rparr>"

definition corev1_group :: api_group where
  "corev1_group = \<lparr>ag_GroupVersion = ('''', ''v1''), ag_Package = ''k8s.io/api/core/v1'',
     ag_Kinds = [''Pod'', ''PodList'', ''PodStatusResult'', ''PodTemplate'', ''PodTemplateList'',
       ''ReplicationController'', ''ReplicationControllerList'', ''Service'', ''ServiceProxyOptions'',
       ''ServiceList'', ''Endpoints'', ''EndpointsList'', ''Node'', ''NodeList'', ''NodeProxyOptions'',
       ''Binding'', ''Event'', ''EventList'', ''List'', ''LimitRange'', ''LimitRangeList'', ''ResourceQuota'',
       ''ResourceQuotaList'', ''Namespace'', ''NamespaceList'', ''Secret'', ''SecretList'',
       ''ServiceAccount'', ''ServiceAccountList'', ''PersistentVolume'', ''PersistentVolumeList'',
       ''PersistentVolumeClaim'', ''PersistentVolumeClaimList'', ''PodAttachOptions'', ''PodLogOptions'',
       ''PodExecOptions'', ''PodPortForwardOptions'', ''PodProxyOptions'', ''ComponentStatus'',
       ''ComponentStatusList'', ''SerializedReference'', ''RangeAllocation'', ''ConfigMap'', ''ConfigMapList''], ag_Status = True\<rparr>"

definition discoveryv1_group :: api_group where
  "discoveryv1_group = \<lparr>ag_GroupVersion = (''discovery.k8s.io'', ''v1''), ag_Package = ''k8s.io/api/discovery/v1'',
     ag_Kinds = [''EndpointSlice'', ''EndpointSliceList''], ag_Status = False\<rparr>"

definition discoveryv1beta1_group :: api_group where
  "discoveryv1beta1_group = \<lparr>ag_GroupVersion = (''discovery.k8s.io'', ''v1beta1''), ag_Package = ''k8s.io/api/discovery/v1beta1'',
     ag_Kinds = [''EndpointSlice'', ''EndpointSliceList''], ag_Status = False\<rparr>"

definition eventsv1_group :: api_group where
  "eventsv1_group = \<lparr>ag_GroupVersion = (''events.k8s.io'', ''v1''), ag_Package = ''k8s.io/api/events/v1'',
     ag_Kinds = [''Event'', ''EventList''], ag_Status = False\<rparr>"

definition eventsv1beta1_group :: api_group where
  "eventsv1beta1_group = \<lparr>ag_GroupVersion = (''events.k8s.io'', ''v1beta1''), ag_Package = ''k8s.io/api/events/v1beta1'',
     ag_Kinds = [''Event'', ''EventList''], ag_Status = False\<rparr>"

definition extensionsv1beta1_group :: api_group where
  "extensionsv1beta1_group = \<lparr>ag_GroupVersion = (''extensions'', ''v1beta1''), ag_Package = ''k8s.io/api/extensions/v1beta1'',
     ag_Kinds = [''Deployment'', ''DeploymentList'', ''DeploymentRollback'', ''Scale'', ''DaemonSetList'',
       ''DaemonSet'', ''Ingress'', ''IngressList'', ''ReplicaSet'', ''ReplicaSetList'', ''NetworkPolicy'',
       ''NetworkPolicyList''], ag_Status = False\<rparr>"

definition flowcontrolv1_group :: api_group where
  "flowcontrolv1_group = \<lparr>ag_GroupVersion = (''flowcontrol.apiserver.k8s.io'', ''v1''), ag_Package = ''k8s.io/api/flowcontrol/v1'',
     ag_Kinds = [''FlowSchema'', ''FlowSchemaList'', ''PriorityLevelConfiguration'',
       ''PriorityLevelConfigurationList''], ag_Status = False\<rparr>"

definition flowcontrolv1beta1_group :: api_group where
  "flowcontrolv1beta1_group = \<lparr>ag_GroupVersion = (''flowcontrol.apiserver.k8s.io'', ''v1beta1''), ag_Package = ''k8s.io/api/flowcontrol/v1beta1'',
     ag_Kinds = [''FlowSchema'', ''FlowSchemaList'', ''PriorityLevelConfiguration'',
       ''PriorityLevelConfigurationList''], ag_Status = False\<rparr>"

definition flowcontrolv1beta2_group :: api_group where
  "flowcontrolv1beta2_group = \<lparr>ag_GroupVersion = (''flowcontrol.apiserver.k8s.io'', ''v1beta2''), ag_Package = ''k8s.io/api/flowcontrol/v1beta2'',
     ag_Kinds = [''FlowSchema'', ''FlowSchemaList'', ''PriorityLevelConfiguration'',
       ''PriorityLevelConfigurationList''], ag_Status = False\<rparr>"

definition flowcontrolv1beta3_group :: api_group where
  "flowcontrolv1beta3_group = \<lparr>ag_GroupVersion = (''flowcontrol.apiserver.k8s.io'', ''v1beta3''), ag_Package = ''k8s.io/api/flowcontrol/v1beta3'',
     ag_Kinds = [''FlowSchema'', ''FlowSchemaList'', ''PriorityLevelConfiguration'',
       ''PriorityLevelConfigurationList''], ag_Status = False\<rparr>"

definition networkingv1_group :: api_group where
  "networkingv1_group = \<lparr>ag_GroupVersion = (''networking.k8s.io'', ''v1''), ag_Package = ''k8s.io/api/networking/v1'',
     ag_Kinds = [''Ingress'', ''IngressList'', ''IngressClass'', ''IngressClassList'', ''NetworkPolicy'',
       ''NetworkPolicyList'', ''IPAddress'', ''IPAddressList'', ''ServiceCIDR'', ''ServiceCIDRList''], ag_Status = False\<rparr>"

definition networkingv1beta1_group :: api_group where
  "networkingv1beta1_group = \<lparr>ag_GroupVersion = (''networking.k8s.io'', ''v1beta1''), ag_Package = ''k8s.io/api/networking/v1beta1'',
     ag_Kinds = [''Ingress'', ''IngressList'', ''IngressClass'', ''IngressClassList'', ''IPAddress'',
       ''IPAddressList'', ''ServiceCIDR'', ''ServiceCIDRList''], ag_Status = False\<rparr>"

definition nodev1_group :: api_group where
  "nodev1_group = \<lparr>ag_GroupVersion = (''node.k8s.io'', ''v1''), ag_Package = ''k8s.io/api/node/v1'',
     ag_Kinds = [''RuntimeClass'', ''RuntimeClassList''], ag_Status = False\<rparr>"

definition nodev1alpha1_group :: api_group where
  "nodev1alpha1_group = \<lparr>ag_GroupVersion = (''node.k8s.io'', ''v1alpha1''), ag_Package = ''k8s.io/api/node/v1alpha1'',
     ag_Kinds = [''RuntimeClass'', ''RuntimeClassList''], ag_Status = False\<rparr>"

definition nodev1beta1_group :: api_group where
  "nodev1beta1_group = \<lparr>ag_GroupVersion = (''node.k8s.io'', ''v1beta1''), ag_Package = ''k8s.io/api/node/v1beta1'',
     ag_Kinds = [''RuntimeClass'', ''RuntimeClassList''], ag_Status = False\<rparr>"

definition policyv1_group :: api_group where
  "policyv1_group = \<lparr>ag_GroupVersion = (''policy'', ''v1''), ag_Package = ''k8s.io/api/policy/v1'',
     ag_Kinds = [''PodDisruptionBudget'', ''PodDisruptionBudgetList'', ''Eviction''], ag_Status = False\<rparr>"

definition policyv1beta1_group :: api_group where
  "policyv1beta1_group = \<lparr>ag_GroupVersion = (''policy'', ''v1beta1''), ag_Package = ''k8s.io/api/policy/v1beta1'',
     ag_Kinds = [''PodDisruptionBudget'', ''PodDisruptionBudgetList'', ''Eviction''], ag_Status = False\<rparr>"

definition rbacv1_group :: api_group where
  "rbacv1_group = \<lparr>ag_GroupVersion = (''rbac.authorization.k8s.io'', ''v1''), ag_Package = ''k8s.io/api/rbac/v1'',
     ag_Kinds = [''Role'', ''RoleBinding'', ''RoleBindingList'', ''RoleList'', ''ClusterRole'',
       ''ClusterRoleBinding'', ''ClusterRoleBindingList'', ''ClusterRoleList''], ag_Status = False\<rparr>"

definition rbacv1beta1_group :: api_group where
  "rbacv1beta1_group = \<lparr>ag_GroupVersion = (''rbac.authorization.k8s.io'', ''v1beta1''), ag_Package = ''k8s.io/api/rbac/v1beta1'',
     ag_Kinds = [''Role'', ''RoleBinding'', ''RoleBindingList'', ''RoleList'', ''ClusterRole'',
       ''ClusterRoleBinding'', ''ClusterRoleBindingList'', ''ClusterRoleList''], ag_Status = False\<rparr>"

definition rbacv1alpha1_group :: api_group where
  "rbacv1alpha1_group = \<lparr>ag_GroupVersion = (''rbac.authorization.k8s.io'', ''v1alpha1''), ag_Package = ''k8s.io/api/rbac/v1alpha1'',
     ag_Kinds = [''Role'', ''RoleBinding'', ''RoleBindingList'', ''RoleList'', ''ClusterRole'',
       ''ClusterRoleBinding'', ''ClusterRoleBindingList'', ''ClusterRoleList''], ag_Status = False\<rparr>"

definition resourcev1_group :: api_group where
  "resourcev1_group = \<lparr>ag_GroupVersion = (''resource.k8s.io'', ''v1''), ag_Package = ''k8s.io/api/resource/v1'',
     ag_Kinds = [''DeviceClass'', ''DeviceClassList'', ''ResourceClaim'', ''ResourceClaimList'',
       ''ResourceClaimTemplate'', ''ResourceClaimTemplateList'', ''ResourceSlice'', ''ResourceSliceList''], ag_Status = False\<rparr>"

definition resourcev1beta2_group :: api_group where
  "resourcev1beta2_group = \<lparr>ag_GroupVersion = (''resource.k8s.io'', ''v1beta2''), ag_Package = ''k8s.io/api/resource/v1beta2'',
     ag_Kinds = [''DeviceClass'', ''DeviceClassList'', ''ResourceClaim'', ''ResourceClaimList'',
       ''ResourceClaimTemplate'', ''ResourceClaimTemplateList'', ''ResourceSlice'', ''ResourceSliceList''], ag_Status = False\<rparr>"

definition resourcev1beta1_group :: api_group where
  "resourcev1beta1_group = \<lparr>ag_GroupVersion = (''resource.k8s.io'', ''v1beta1''), ag_Package = ''k8s.io/api/resource/v1beta1'',
     ag_Kinds = [''DeviceClass'', ''DeviceClassList'', ''ResourceClaim'', ''ResourceClaimList'',
       ''ResourceClaimTemplate'', ''ResourceClaimTemplateList'', ''ResourceSlice'', ''ResourceSliceList''], ag_Status = False\<rparr>"

definition resourcev1alpha3_group :: api_group where
  "resourcev1alpha3_group = \<lparr>ag_GroupVersion = (''resource.k8s.io'', ''v1alpha3''), ag_Package = ''k8s.io/api/resource/v1alpha3'',
     ag_Kinds = [''DeviceTaintRule'', ''DeviceTaintRuleList''], ag_Status = False\<rparr>"

definition schedulingv1alpha1_group :: api_group where
  "schedulingv1alpha1_group = \<lparr>ag_GroupVersion = (''scheduling.k8s.io'', ''v1alpha1''), ag_Package = ''k8s.io/api/scheduling/v1alpha1'',
     ag_Kinds = [''PriorityClass'', ''PriorityClassList''], ag_Status = False\<rparr>"

definition schedulingv1beta1_group :: api_group where
  "schedulingv1beta1_group = \<lparr>ag_GroupVersion = (''scheduling.k8s.io'', ''v1beta1''), ag_Package = ''k8s.io/api/scheduling/v1beta1'',
     ag_Kinds = [''PriorityClass'', ''PriorityClassList''], ag_Status = False\<rparr>"

definition schedulingv1_group :: api_group where
  "schedulingv1_group = \<lparr>ag_GroupVersion = (''scheduling.k8s.io'', ''v1''), ag_Package = ''k8s.io/api/scheduling/v1'',
     ag_Kinds = [''PriorityClass'', ''PriorityClassList''], ag_Status = False\<rparr>"

definition storagev1beta1_group :: api_group where
  "storagev1beta1_group = \<lparr>ag_GroupVersion = (''storage.k8s.io'', ''v1beta1''), ag_Package = ''k8s.io/api/storage/v1beta1'',
     ag_Kinds = [''StorageClass'', ''StorageClassList'', ''VolumeAttachment'', ''VolumeAttachmentList'',
       ''CSIDriver'', ''CSIDriverList'', ''CSINode'', ''CSINodeList'', ''CSIStorageCapacity'',
       ''CSIStorageCapacityList'', ''VolumeAttributesClass'', ''VolumeAttributesClassList''], ag_Status = False\<rparr>"

definition storagev1_group :: api_group where
  "storagev1_group = \<lparr>ag_GroupVersion = (''storage.k8s.io'', ''v1''), ag_Package = ''k8s.io/api/storage/v1'',
     ag_Kinds = [''StorageClass'', ''StorageClassList'', ''VolumeAttachment'', ''VolumeAttachmentList'',
       ''CSINode'', ''CSINodeList'', ''CSIDriver'', ''CSIDriverList'', ''CSIStorageCapacity'',
       ''CSIStorageCapacityList'', ''VolumeAttributesClass'', ''VolumeAttributesClassList''], ag_Status = False\<rparr>"

definition storagev1alpha1_group :: api_group where
  "storagev1alpha1_group = \<lparr>ag_GroupVersion = (''storage.k8s.io'', ''v1alpha1''), ag_Package = ''k8s.io/api/storage/v1alpha1'',
     ag_Kinds = [''VolumeAttachment'', ''VolumeAttachmentList'', ''CSIStorageCapacity'',
       ''CSIStorageCapacityList'', ''VolumeAttributesClass'', ''VolumeAttributesClassList''], ag_Status = False\<rparr>"

definition storagemigrationv1alpha1_group :: api_group where
  "storagemigrationv1alpha1_group = \<lparr>ag_GroupVersion = (''storagemigration.k8s.io'', ''v1alpha1''), ag_Package = ''k8s.io/api/storagemigration/v1alpha1'',
     ag_Kinds = [''StorageVersionMigration'', ''StorageVersionMigrationList''], ag_Status = False\<rparr>"

definition clientgoscheme_SchemeBuilder :: "api_group list" where
  "clientgoscheme_SchemeBuilder = [
     admissionregistrationv1_group, admissionregistrationv1alpha1_group, admissionregistrationv1beta1_group,
     internalv1alpha1_group, appsv1_group, appsv1beta1_group, appsv1beta2_group, authenticationv1_group,
     authenticationv1alpha1_group, authenticationv1beta1_group, authorizationv1_group,
     authorizationv1beta1_group, autoscalingv1_group, autoscalingv2_group, autoscalingv2beta1_group,
     autoscalingv2beta2_group, batchv1_group, batchv1beta1_group, certificatesv1_group,
     certificatesv1beta1_group, certificatesv1alpha1_group, coordinationv1alpha2_group,
     coordinationv1beta1_group, coordinationv1_group, corev1_group, discoveryv1_group, discoveryv1beta1_group,
     eventsv1_group, eventsv1beta1_group, extensionsv1beta1_group, flowcontrolv1_group,
     flowcontrolv1beta1_group, flowcontrolv1beta2_group, flowcontrolv1beta3_group, networkingv1_group,
     networkingv1beta1_group, nodev1_group, nodev1alpha1_group, nodev1beta1_group, policyv1_group,
     policyv1beta1_group, rbacv1_group, rbacv1beta1_group, rbacv1alpha1_group, resourcev1_group,
     resourcev1beta2_group, resourcev1beta1_group, resourcev1alpha3_group, schedulingv1alpha1_group,
     schedulingv1beta1_group, schedulingv1_group, storagev1beta1_group, storagev1_group,
     storagev1alpha1_group, storagemigrationv1alpha1_group]"

text \<open>\<open>init\<close> of the run command.\<close>

definition operatorGroups :: "api_group list" where
  "operatorGroups = clientgoscheme_SchemeBuilder @ v1alpha1_SchemeBuilder @ apiworkv1_SchemeBuilder @
     kubesliceapi_SchemeBuilder @ storageapi_SchemeBuilder"

definition cmds_init :: "api_scheme option" where
  "cmds_init = Option.bind (AddToScheme clientgoscheme_SchemeBuilder NewScheme) (\<lambda>s.
     Option.bind (AddToScheme v1alpha1_SchemeBuilder s) (\<lambda>s.
     Option.bind (AddToScheme apiworkv1_SchemeBuilder s) (\<lambda>s.
     Option.bind (AddToScheme kubesliceapi_SchemeBuilder s) (\<lambda>s.
     AddToScheme storageapi_SchemeBuilder s))))"

section \<open>Registering without conflict\<close>

text \<open>
  A plan that says which Go type every kind belongs to. The locale is what \<open>AddToGroupVersion\<close> needs of it: the kinds of
  the protocol belong to the package of the protocol.
\<close>

definition knownUnder :: "(group_kind \<Rightarrow> go_type option) \<Rightarrow> api_scheme \<Rightarrow> bool" where
  "knownUnder owner s \<longleftrightarrow>
     (\<forall>gvk t. sc_gvkToType s gvk = Some t \<longrightarrow> owner gvk = Some t) \<and>
     (\<forall>t. set (sc_typeToGVK s t) = {gvk. sc_gvkToType s gvk = Some t} \<and> distinct (sc_typeToGVK s t)) \<and>
     (\<forall>t. sc_unversionedTypes s t \<noteq> None \<longrightarrow> fst t = metaPackage) \<and>
     (\<forall>k t. sc_unversionedKinds s k = Some t \<longrightarrow> t = (metaPackage, k))"

text \<open>A registration that follows the plan, keeps what is there, and has registered the kinds \<open>K\<close> afterwards.\<close>

definition follows :: "(group_kind \<Rightarrow> go_type option) \<Rightarrow> (api_scheme \<Rightarrow> api_scheme option) \<Rightarrow> group_kind set \<Rightarrow> bool" where
  "follows owner f K \<longleftrightarrow> (\<forall>s. knownUnder owner s \<longrightarrow> (\<exists>s'. f s = Some s' \<and> knownUnder owner s' \<and>
     dom (sc_gvkToType s) \<union> K \<subseteq> dom (sc_gvkToType s')))"

lemma follows_bind:
  assumes "follows owner f K" "follows owner g L"
  shows "follows owner (\<lambda>s. Option.bind (f s) g) (K \<union> L)"
  unfolding follows_def
proof (intro allI impI)
  fix s assume "knownUnder owner s"
  then obtain s1 where s1: "f s = Some s1" "knownUnder owner s1" "dom (sc_gvkToType s) \<union> K \<subseteq> dom (sc_gvkToType s1)"
    using assms(1) unfolding follows_def by blast
  then obtain s2 where "g s1 = Some s2" "knownUnder owner s2" "dom (sc_gvkToType s1) \<union> L \<subseteq> dom (sc_gvkToType s2)"
    using assms(2) unfolding follows_def by blast
  moreover from this s1(3) have "dom (sc_gvkToType s) \<union> (K \<union> L) \<subseteq> dom (sc_gvkToType s2)" by blast
  ultimately show "\<exists>s'. Option.bind (f s) g = Some s' \<and> knownUnder owner s' \<and>
      dom (sc_gvkToType s) \<union> (K \<union> L) \<subseteq> dom (sc_gvkToType s')"
    using s1(1) by (intro exI [of _ s2]) simp
qed

lemma follows_runs:
  assumes "follows owner f K" "knownUnder owner s"
  obtains s' where "f s = Some s'" "knownUnder owner s'" "K \<subseteq> dom (sc_gvkToType s')"
proof -
  from assms obtain s' where "f s = Some s'" "knownUnder owner s'" "dom (sc_gvkToType s) \<union> K \<subseteq> dom (sc_gvkToType s')"
    unfolding follows_def by blast
  with that show thesis by simp
qed

lemma follows_less: "follows owner f K \<Longrightarrow> L \<subseteq> K \<Longrightarrow> follows owner f L"
  unfolding follows_def by blast

lemma follows_Some: "follows owner Some {}"
  by (simp add: follows_def)

lemma follows_eachOf:
  assumes "\<And>x. x \<in> set xs \<Longrightarrow> follows owner (f x) (K x)"
  shows "follows owner (eachOf f xs) (\<Union>x\<in>set xs. K x)"
  using assms
proof (induction xs)
  case Nil
  have "eachOf f [] = Some" by (rule ext) simp
  then show ?case by (simp add: follows_Some)
next
  case (Cons x xs)
  have "eachOf f (x # xs) = (\<lambda>s. Option.bind (f x s) (eachOf f xs))"
    by (rule ext) (auto split: option.splits)
  with follows_bind [of owner "f x" "K x" "eachOf f xs" "\<Union>x\<in>set xs. K x"] Cons show ?case
    by (simp add: Un_commute)
qed

lemma knownUnder_observed: "knownUnder owner (addObservedVersion gv s) = knownUnder owner s"
  "sc_gvkToType (addObservedVersion gv s) = sc_gvkToType s"
  by (simp_all add: addObservedVersion_def knownUnder_def)

lemma follows_observed: "follows owner f K \<Longrightarrow> follows owner (\<lambda>s. f (addObservedVersion gv s)) K"
  unfolding follows_def by (metis knownUnder_observed)

lemma knownUnder_owner: "knownUnder owner s \<Longrightarrow> sc_gvkToType s gvk = Some t \<Longrightarrow> owner gvk = Some t"
  unfolding knownUnder_def by blast

lemma knownUnder_listed:
  "knownUnder owner s \<Longrightarrow> gvk \<in> set (sc_typeToGVK s t) \<longleftrightarrow> sc_gvkToType s gvk = Some t"
  "knownUnder owner s \<Longrightarrow> distinct (sc_typeToGVK s t)"
  unfolding knownUnder_def by blast+

lemma knownUnderI:
  assumes "\<And>gvk t. sc_gvkToType s gvk = Some t \<Longrightarrow> owner gvk = Some t"
    and "\<And>gvk t. gvk \<in> set (sc_typeToGVK s t) \<longleftrightarrow> sc_gvkToType s gvk = Some t"
    and "\<And>t. distinct (sc_typeToGVK s t)"
    and "\<And>t gvk. sc_unversionedTypes s t = Some gvk \<Longrightarrow> fst t = metaPackage"
    and "\<And>k t. sc_unversionedKinds s k = Some t \<Longrightarrow> t = (metaPackage, k)"
  shows "knownUnder owner s"
  unfolding knownUnder_def using assms by blast

lemma knownUnder_unversioned:
  "knownUnder owner s \<Longrightarrow> sc_unversionedTypes s t = Some gvk \<Longrightarrow> fst t = metaPackage"
  "knownUnder owner s \<Longrightarrow> sc_unversionedKinds s k = Some t \<Longrightarrow> t = (metaPackage, k)"
  unfolding knownUnder_def by blast+

lemma follows_AddKnownTypeWithName:
  assumes "owner gvk = Some t" "snd (fst gvk) \<noteq> ''''"
  shows "follows owner (AddKnownTypeWithName gvk t) {gvk}"
  unfolding follows_def
proof (intro allI impI)
  fix s0 assume "knownUnder owner s0"
  define s where "s = addObservedVersion (fst gvk) s0"
  have known: "knownUnder owner s" and dom: "dom (sc_gvkToType s) = dom (sc_gvkToType s0)"
    using \<open>knownUnder owner s0\<close> by (simp_all add: s_def knownUnder_observed)
  have free: "sc_gvkToType s gvk = None \<or> sc_gvkToType s gvk = Some t"
    using knownUnder_owner [OF known] assms(1) by (cases "sc_gvkToType s gvk") simp_all

  let ?s1 = "s\<lparr>sc_gvkToType := (sc_gvkToType s)(gvk := Some t)\<rparr>"
  let ?s2 = "if gvk \<in> set (sc_typeToGVK s t) then ?s1
    else ?s1\<lparr>sc_typeToGVK := (sc_typeToGVK s)(t := sc_typeToGVK s t @ [gvk])\<rparr>"
  have "AddKnownTypeWithName gvk t s0 = Some ?s2"
    using free assms(2) by (auto simp: AddKnownTypeWithName_def Let_def s_def [symmetric])
  moreover have "knownUnder owner ?s2"
    by (rule knownUnderI)
      (use assms(1) free knownUnder_listed [OF known] knownUnder_owner [OF known] knownUnder_unversioned [OF known] in
        \<open>auto split: if_splits\<close>)
  ultimately show "\<exists>s'. AddKnownTypeWithName gvk t s0 = Some s' \<and> knownUnder owner s' \<and>
      dom (sc_gvkToType s0) \<union> {gvk} \<subseteq> dom (sc_gvkToType s')"
    using dom by (intro exI [of _ ?s2]) auto
qed

lemma follows_AddKnownTypes:
  assumes "\<And>t. t \<in> set ts \<Longrightarrow> owner (gv, snd t) = Some t" "snd gv \<noteq> ''''"
  shows "follows owner (AddKnownTypes gv ts) ((\<lambda>t. (gv, snd t)) ` set ts)"
proof -
  have "follows owner (eachOf (\<lambda>t. AddKnownTypeWithName (gv, snd t) t) ts) (\<Union>t\<in>set ts. {(gv, snd t)})"
    by (rule follows_eachOf, rule follows_AddKnownTypeWithName) (simp_all add: assms)
  from follows_observed [OF this, of gv] show ?thesis
    by (simp add: AddKnownTypes_def [abs_def] UNION_singleton_eq_range)
qed

lemma follows_markUnversioned: "fst t = metaPackage \<Longrightarrow> follows owner (markUnversioned gv t) {}"
  unfolding follows_def
proof (intro allI impI)
  fix s assume t: "fst t = metaPackage" and known: "knownUnder owner s"
  let ?s = "s\<lparr>sc_unversionedTypes := (sc_unversionedTypes s)(t := Some (gv, snd t)),
    sc_unversionedKinds := (sc_unversionedKinds s)(snd t := Some t)\<rparr>"
  have "t = (metaPackage, snd t)" using t by (cases t) simp
  then have "sc_unversionedKinds s (snd t) = None \<or> sc_unversionedKinds s (snd t) = Some t"
    using knownUnder_unversioned(2) [OF known, of "snd t"] by (cases "sc_unversionedKinds s (snd t)") auto
  then have "markUnversioned gv t s = Some ?s" by (auto simp: markUnversioned_def Let_def)
  moreover have "knownUnder owner ?s"
    by (rule knownUnderI)
      (use t \<open>t = (metaPackage, snd t)\<close> knownUnder_listed [OF known] knownUnder_owner [OF known] knownUnder_unversioned [OF known] in
        \<open>auto split: if_splits\<close>)
  ultimately show "\<exists>s'. markUnversioned gv t s = Some s' \<and> knownUnder owner s' \<and>
      dom (sc_gvkToType s) \<union> {} \<subseteq> dom (sc_gvkToType s')" by simp
qed

locale kind_owner =
  fixes owner :: "group_kind \<Rightarrow> go_type option"
  assumes owns_watch: "snd gv \<noteq> APIVersionInternal \<Longrightarrow> owner (gv, ''WatchEvent'') = Some (metaPackage, ''WatchEvent'')"
    and owns_internal: "owner ((g, APIVersionInternal), ''WatchEvent'') = Some (metaPackage, ''InternalEvent'')"
    and owns_options: "k \<in> set optionsTypes \<Longrightarrow> owner (gv, k) = Some (metaPackage, k)"
    and owns_status: "k \<in> set statusTypes \<Longrightarrow> owner (Unversioned, k) = Some (metaPackage, k)"
begin

lemma follows_status: "follows owner (AddUnversionedTypes Unversioned (map (Pair metaPackage) statusTypes)) {}"
proof -
  have "follows owner (AddKnownTypes Unversioned (map (Pair metaPackage) statusTypes))
      ((\<lambda>t. (Unversioned, snd t)) ` set (map (Pair metaPackage) statusTypes))"
    by (rule follows_AddKnownTypes) (auto simp: owns_status, simp add: Unversioned_def)
  moreover have "follows owner (eachOf (markUnversioned Unversioned) (map (Pair metaPackage) statusTypes))
      (\<Union>t\<in>set (map (Pair metaPackage) statusTypes). {})"
    by (rule follows_eachOf, rule follows_markUnversioned) auto
  ultimately have "follows owner (\<lambda>s. Option.bind (AddKnownTypes Unversioned (map (Pair metaPackage) statusTypes)
      (addObservedVersion Unversioned s)) (eachOf (markUnversioned Unversioned) (map (Pair metaPackage) statusTypes)))
      ((\<lambda>t. (Unversioned, snd t)) ` set (map (Pair metaPackage) statusTypes) \<union> {})"
    by (intro follows_bind follows_observed) simp_all
  moreover have "AddUnversionedTypes Unversioned ts = (\<lambda>s. Option.bind (AddKnownTypes Unversioned ts
      (addObservedVersion Unversioned s)) (eachOf (markUnversioned Unversioned) ts))" for ts
    by (rule ext) (simp add: AddUnversionedTypes_def split: option.splits)
  ultimately show ?thesis by (auto simp: follows_def)
qed

lemma follows_AddToGroupVersion:
  assumes "snd gv \<noteq> ''''" "snd gv \<noteq> APIVersionInternal"
  shows "follows owner (AddToGroupVersion gv) {}"
proof -
  have watch: "follows owner (AddKnownTypeWithName (gv, ''WatchEvent'') (metaPackage, ''WatchEvent'')) {(gv, ''WatchEvent'')}"
    "follows owner (AddKnownTypeWithName ((fst gv, APIVersionInternal), ''WatchEvent'') (metaPackage, ''InternalEvent''))
       {((fst gv, APIVersionInternal), ''WatchEvent'')}"
    using owns_internal [of "fst gv"] assms
    by (simp_all add: follows_AddKnownTypeWithName owns_watch) (simp add: APIVersionInternal_def follows_AddKnownTypeWithName)
  have options: "follows owner (AddKnownTypes gv (map (Pair metaPackage) optionsTypes))
      ((\<lambda>t. (gv, snd t)) ` set (map (Pair metaPackage) optionsTypes))"
    by (rule follows_AddKnownTypes) (auto simp: owns_options assms)
  from follows_bind [OF watch(1) follows_bind [OF watch(2) follows_bind [OF options follows_status]]]
  show ?thesis
    unfolding AddToGroupVersion_def [abs_def] by (rule follows_less) simp
qed

lemma follows_addKnownTypes:
  assumes "snd (ag_GroupVersion g) \<noteq> ''''" "snd (ag_GroupVersion g) \<noteq> APIVersionInternal"
    and "\<And>k. k \<in> set (ag_Kinds g) \<Longrightarrow> owner (ag_GroupVersion g, k) = Some (ag_Package g, k)"
    and "ag_Status g \<Longrightarrow> ag_GroupVersion g = Unversioned"
  shows "follows owner (addKnownTypes g) (Pair (ag_GroupVersion g) ` set (ag_Kinds g))"
proof -
  have kinds: "follows owner (AddKnownTypes (ag_GroupVersion g) (map (Pair (ag_Package g)) (ag_Kinds g)))
      ((\<lambda>t. (ag_GroupVersion g, snd t)) ` set (map (Pair (ag_Package g)) (ag_Kinds g)))"
    by (rule follows_AddKnownTypes) (auto simp: assms)
  have "follows owner (AddKnownTypes Unversioned [(metaPackage, ''Status'')])
      ((\<lambda>t. (Unversioned, snd t)) ` set [(metaPackage, ''Status'')])"
    by (rule follows_AddKnownTypes) (auto simp: owns_status statusTypes_def Unversioned_def [symmetric], simp add: Unversioned_def)
  then have status: "follows owner (\<lambda>s. if ag_Status g then AddKnownTypes (ag_GroupVersion g) [(metaPackage, ''Status'')] s else Some s) {}"
    using assms(4) by (cases "ag_Status g") (auto simp: follows_def)
  from follows_bind [OF kinds follows_bind [OF status follows_AddToGroupVersion [OF assms(1,2)]]]
  show ?thesis by (simp add: addKnownTypes_def [abs_def] image_image)
qed

end

section \<open>The plan of a list of groups\<close>

definition reservedKinds :: "string list" where
  "reservedKinds = ''WatchEvent'' # optionsTypes @ statusTypes"

definition groupOwner :: "api_group list \<Rightarrow> group_kind \<Rightarrow> go_type option" where
  "groupOwner gs gvk =
     (if snd gvk = ''WatchEvent''
        then Some (metaPackage, if snd (fst gvk) = APIVersionInternal then ''InternalEvent'' else ''WatchEvent'')
      else if List.member reservedKinds (snd gvk) then Some (metaPackage, snd gvk)
      else map_option (\<lambda>g. (ag_Package g, snd gvk)) (find (\<lambda>g. ag_GroupVersion g = fst gvk) gs))"

interpretation groups: kind_owner "groupOwner gs" for gs
  by unfold_locales (auto simp: groupOwner_def reservedKinds_def optionsTypes_def statusTypes_def Unversioned_def APIVersionInternal_def)

text \<open>
  Groups agree when a group and version and a package determine each other, and no kind has a name of the protocol.
\<close>

definition groupsAgree :: "api_group list \<Rightarrow> bool" where
  "groupsAgree gs = list_all (\<lambda>g. snd (ag_GroupVersion g) \<noteq> '''' \<and> snd (ag_GroupVersion g) \<noteq> APIVersionInternal \<and>
     ag_Package g \<noteq> metaPackage \<and> (ag_Status g \<longrightarrow> ag_GroupVersion g = Unversioned) \<and>
     list_all (\<lambda>k. \<not> List.member reservedKinds k) (ag_Kinds g) \<and>
     list_all (\<lambda>h. (ag_GroupVersion g = ag_GroupVersion h) = (ag_Package g = ag_Package h)) gs) gs"

lemma groupOwner_kind:
  assumes "groupsAgree gs" "g \<in> set gs" "k \<in> set (ag_Kinds g)"
  shows "groupOwner gs (ag_GroupVersion g, k) = Some (ag_Package g, k)"
proof -
  have k: "k \<notin> set reservedKinds" using assms by (auto simp: groupsAgree_def list_all_iff)
  obtain h where h: "find (\<lambda>h. ag_GroupVersion h = ag_GroupVersion g) gs = Some h"
    using assms(2) by (cases "find (\<lambda>h. ag_GroupVersion h = ag_GroupVersion g) gs") (auto simp: find_None_iff)
  then have "h \<in> set gs" "ag_GroupVersion h = ag_GroupVersion g" by (auto simp: find_Some_iff)
  then have "ag_Package h = ag_Package g" using assms(1,2) by (auto simp: groupsAgree_def list_all_iff)
  with k h show ?thesis by (auto simp: groupOwner_def reservedKinds_def)
qed

lemma groupOwner_unique:
  assumes "groupsAgree gs" "g \<in> set gs" "groupOwner gs gvk = Some (ag_Package g, k)"
  shows "gvk = (ag_GroupVersion g, k)"
proof -
  have "ag_Package g \<noteq> metaPackage" using assms by (auto simp: groupsAgree_def list_all_iff)
  with assms(3) obtain h where h: "find (\<lambda>h. ag_GroupVersion h = fst gvk) gs = Some h" "ag_Package h = ag_Package g" "snd gvk = k"
    by (auto simp: groupOwner_def split: if_splits)
  then have "h \<in> set gs" "ag_GroupVersion h = fst gvk" by (auto simp: find_Some_iff)
  with h(2) assms(1,2) have "fst gvk = ag_GroupVersion g" by (auto simp: groupsAgree_def list_all_iff)
  with h(3) show ?thesis by (cases gvk) simp
qed

lemma follows_AddToScheme:
  assumes "groupsAgree gs" "set hs \<subseteq> set gs"
  shows "follows (groupOwner gs) (AddToScheme hs) (\<Union>g\<in>set hs. Pair (ag_GroupVersion g) ` set (ag_Kinds g))"
  unfolding AddToScheme_def [abs_def]
proof (rule follows_eachOf)
  fix g assume "g \<in> set hs"
  with assms have g: "g \<in> set gs" by blast
  show "follows (groupOwner gs) (addKnownTypes g) (Pair (ag_GroupVersion g) ` set (ag_Kinds g))"
    by (rule groups.follows_addKnownTypes)
      (use assms(1) g groupOwner_kind [OF assms(1) g] in \<open>auto simp: groupsAgree_def list_all_iff\<close>)
qed

lemma knownUnder_NewScheme: "knownUnder owner NewScheme"
  by (rule knownUnderI) (simp_all add: NewScheme_def)

lemma GVKForObject_known:
  assumes "groupsAgree gs" "knownUnder (groupOwner gs) s" "g \<in> set gs"
    and "(ag_GroupVersion g, k) \<in> dom (sc_gvkToType s)" "k \<in> set (ag_Kinds g)"
  shows "GVKForObject (ag_Package g, k) current s = Inr (ag_GroupVersion g, k)"
proof -
  let ?t = "(ag_Package g, k)"
  obtain u where u: "sc_gvkToType s (ag_GroupVersion g, k) = Some u" using assms(4) by blast
  with knownUnder_owner [OF assms(2) u] groupOwner_kind [OF assms(1,3,5)]
  have "sc_gvkToType s (ag_GroupVersion g, k) = Some ?t" by simp
  then have "gvk \<in> set (sc_typeToGVK s ?t) \<longleftrightarrow> gvk = (ag_GroupVersion g, k)" for gvk
    using knownUnder_listed(1) [OF assms(2), of gvk ?t] knownUnder_owner [OF assms(2), of gvk ?t] groupOwner_unique [OF assms(1,3), of gvk k]
    by blast
  then have "set (sc_typeToGVK s ?t) = {(ag_GroupVersion g, k)}" by blast
  with knownUnder_listed(2) [OF assms(2), of ?t] have kinds: "sc_typeToGVK s ?t = [(ag_GroupVersion g, k)]"
    by (cases "sc_typeToGVK s ?t" rule: list.exhaust [case_names Nil Cons]; cases "tl (sc_typeToGVK s ?t)") auto
  have "ag_Package g \<noteq> metaPackage" using assms(1,3) by (auto simp: groupsAgree_def list_all_iff)
  then have "sc_unversionedTypes s ?t = None"
    using knownUnder_unversioned(1) [OF assms(2), of ?t] by (cases "sc_unversionedTypes s ?t") auto
  with kinds show ?thesis by (simp add: GVKForObject_def ObjectKinds_def)
qed

section \<open>The registries of the program\<close>

text \<open>
  To see that the groups agree it is enough to look at one entry per package; the path prefix that the packages of
  Kubernetes share is left out of the comparison.
\<close>

definition groupKeys :: "(group_version \<times> string) list" where
  "groupKeys = map (\<lambda>g. (ag_GroupVersion g, ag_Package g)) (clientgoscheme_SchemeBuilder @ v1alpha1_SchemeBuilder @
     apiworkv1_SchemeBuilder @ take 1 kubesliceapi_SchemeBuilder @ take 1 storageapi_SchemeBuilder)"

lemma groupKeys_versions: "distinct (map fst groupKeys)"
  by code_simp

lemma groupKeys_packages: "distinct (map (\<lambda>x. drop 11 (snd x)) groupKeys)"
  by code_simp

lemma groupKeys_all: "set (map (\<lambda>g. (ag_GroupVersion g, ag_Package g)) operatorGroups) = set groupKeys"
  by (simp add: groupKeys_def operatorGroups_def kubesliceapi_SchemeBuilder_def storageapi_SchemeBuilder_def registered_def)

lemma groupKeys_iff:
  assumes "x \<in> set groupKeys" "y \<in> set groupKeys"
  shows "fst x = fst y \<longleftrightarrow> snd x = snd y"
  using assms inj_onD [OF distinct_map [THEN iffD1, OF groupKeys_versions, THEN conjunct2]]
    inj_onD [OF distinct_map [THEN iffD1, OF groupKeys_packages, THEN conjunct2]]
  by metis

lemma operatorGroups_kinds: "list_all (\<lambda>g. list_all (\<lambda>k. \<not> List.member reservedKinds k) (ag_Kinds g)) operatorGroups"
  by code_simp

lemma operatorGroups_versions:
  "list_all (\<lambda>g. snd (ag_GroupVersion g) \<noteq> '''' \<and> snd (ag_GroupVersion g) \<noteq> APIVersionInternal \<and>
     ag_Package g \<noteq> metaPackage \<and> (ag_Status g \<longrightarrow> ag_GroupVersion g = Unversioned)) operatorGroups"
  by code_simp

lemma operatorGroups_agree: "groupsAgree operatorGroups"
proof -
  have "(ag_GroupVersion g = ag_GroupVersion h) = (ag_Package g = ag_Package h)"
    if "g \<in> set operatorGroups" "h \<in> set operatorGroups" for g h
    using groupKeys_iff [of "(ag_GroupVersion g, ag_Package g)" "(ag_GroupVersion h, ag_Package h)"] that
    unfolding groupKeys_all [symmetric] by simp
  with operatorGroups_kinds operatorGroups_versions show ?thesis
    unfolding groupsAgree_def list_all_iff by blast
qed

lemma cmds_init_follows:
  "follows (groupOwner operatorGroups) (\<lambda>s. Option.bind (AddToScheme clientgoscheme_SchemeBuilder s) (\<lambda>s.
     Option.bind (AddToScheme v1alpha1_SchemeBuilder s) (\<lambda>s. Option.bind (AddToScheme apiworkv1_SchemeBuilder s) (\<lambda>s.
     Option.bind (AddToScheme kubesliceapi_SchemeBuilder s) (AddToScheme storageapi_SchemeBuilder)))))
     (\<Union>g\<in>set operatorGroups. Pair (ag_GroupVersion g) ` set (ag_Kinds g))"
proof -
  have part: "follows (groupOwner operatorGroups) (AddToScheme hs) (\<Union>g\<in>set hs. Pair (ag_GroupVersion g) ` set (ag_Kinds g))"
    if "set hs \<subseteq> set operatorGroups" for hs
    by (rule follows_AddToScheme [OF operatorGroups_agree that])
  note follow = part [of clientgoscheme_SchemeBuilder] part [of v1alpha1_SchemeBuilder] part [of apiworkv1_SchemeBuilder]
    part [of kubesliceapi_SchemeBuilder] part [of storageapi_SchemeBuilder]
  show ?thesis
    by (rule follows_less [OF follows_bind [OF follow(1) follows_bind [OF follow(2) follows_bind [OF follow(3)
        follows_bind [OF follow(4) follow(5)]]]]])
      (auto simp: operatorGroups_def)
qed

text \<open>
  The registrations of the program do not conflict: \<open>init\<close> of the run command does not panic, and afterwards
  the client finds for an object of any registered type of Kubernetes, of this program, and of the three APIs it works with the
  group, version and kind the type was registered under, whatever the object says of itself.
\<close>

theorem operator_scheme:
  "case cmds_init of
     None \<Rightarrow> False
   | Some s \<Rightarrow> list_all (\<lambda>g. list_all (\<lambda>k. GVKForObject (ag_Package g, k) current s = Inr (ag_GroupVersion g, k)) (ag_Kinds g))
       operatorGroups"
proof -
  obtain s where s: "cmds_init = Some s" "knownUnder (groupOwner operatorGroups) s"
    "(\<Union>g\<in>set operatorGroups. Pair (ag_GroupVersion g) ` set (ag_Kinds g)) \<subseteq> dom (sc_gvkToType s)"
    unfolding cmds_init_def by (rule follows_runs [OF cmds_init_follows knownUnder_NewScheme])
  have "GVKForObject (ag_Package g, k) current s = Inr (ag_GroupVersion g, k)" if "g \<in> set operatorGroups" "k \<in> set (ag_Kinds g)" for g k
    by (rule GVKForObject_known [OF operatorGroups_agree s(2) that(1) _ that(2)]) (use s(3) that in blast)
  then show ?thesis unfolding s(1) by (simp add: list_all_iff)
qed

text \<open>The scheme of the generated client set, too, has the kinds of this program under their group.\<close>

lemma clientset_scheme_kinds:
  "\<exists>s. clientset_scheme = Some s \<and>
     GVKForObject (''kubeops.dev/sidekick/apis/apps/v1alpha1'', ''Sidekick'') current s = Inr ((GroupName, ''v1alpha1''), ''Sidekick'') \<and>
     GVKForObject (''kubeops.dev/sidekick/apis/apps/v1alpha1'', ''SidekickList'') current s =
       Inr ((GroupName, ''v1alpha1''), ''SidekickList'')"
proof -
  have agree: "groupsAgree v1alpha1_SchemeBuilder" by code_simp
  have meta: "follows (groupOwner v1alpha1_SchemeBuilder) (AddToGroupVersion ('''', ''v1'')) {}"
    by (rule groups.follows_AddToGroupVersion) (simp_all add: APIVersionInternal_def)
  obtain s where s: "clientset_scheme = Some s" "knownUnder (groupOwner v1alpha1_SchemeBuilder) s"
    "(\<Union>g\<in>set v1alpha1_SchemeBuilder. Pair (ag_GroupVersion g) ` set (ag_Kinds g)) \<subseteq> dom (sc_gvkToType s)"
    unfolding clientset_scheme_def
    by (rule follows_runs [OF follows_bind [OF meta follows_AddToScheme [OF agree subset_refl]] knownUnder_NewScheme]) simp
  note found = GVKForObject_known [OF agree s(2), of "hd v1alpha1_SchemeBuilder"]
  show ?thesis
    by (intro exI [of _ s]) (use s(1,3) found [of "''Sidekick''"] found [of "''SidekickList''"] in \<open>simp add: v1alpha1_SchemeBuilder_def\<close>)
qed

end
