(* ===== verification/Spec2Isabelle.thy ===== *)
theory Spec2Isabelle
  imports Proto_Desc Deep_Copy Openapi_Json Startup Convergence Client_Set Api_Scheme
begin

text \<open>
  A model of the operator \<open>sidekick\<close> and the properties that make it correct.

  \<^bold>\<open>The program.\<close> The operator watches \<open>Sidekick\<close> objects. A Sidekick describes a pod that is to
  run beside a leader pod: on the same node, with the leader's volumes. Reconciling a Sidekick
  means to find its leader, to have exactly one up-to-date pod for it, to delete that pod when
  the leader goes or changes or the Sidekick is edited, and to keep the books on failures until
  the back-off limit is reached. A distributed Sidekick has its pod in another cluster: the operator
  writes a ManifestWork into the namespace that stands for the leader's cluster and reads the pod's
  state from the feedback of that object. The archiver in such a pod reports to the operator over
  gRPC; it is given a signing key, with which it mints a short-lived token for each request,
  and an encrypted grant that names the one Snapshot it may update.

  \<^bold>\<open>The theories.\<close> One theory per part, in the order in which they build on each other.

  \<^item> \<open>Prelude\<close>: errors and results, Go maps with nil, 32-bit counters, the state monad over
    worlds and a calculus for it (weakest preconditions; \<open>emits\<close>, every request sent satisfies a
    predicate; \<open>keeps\<close>, a predicate on the whole trace of requests is preserved). The locale
    \<open>go_map\<close> is the contract of a map.
  \<^item> \<open>Kube_Types\<close>, \<open>Sidekick_Types\<close>: the objects, as records with the fields of the Go structs
    (\<open>src/apis/apps/v1alpha1/sidekick_types.go\<close> and the parts of the Kubernetes, OCM, KubeSlice and
    KubeStash types the program reads or writes).
  \<^item> \<open>Openapi_Schema\<close>, \<open>Openapi_Enums\<close>, \<open>Openapi_Meta\<close>, \<open>Openapi_Volumes\<close>, \<open>Openapi_Pods\<close>, \<open>Openapi_Sidekick\<close>,
    \<open>Openapi\<close>: the OpenAPI definitions of the API and of every type it refers to
    (\<open>openapi_generated.go\<close>), the declarations of this package and of the vendored ones they are generated from, and the
    rule of the generator. \<open>Openapi_Json\<close>: values of these types, their JSON encoding and its validation; the
    locale \<open>declared_schemas\<close> is what validation needs of the definitions.
  \<^item> \<open>Deep_Copy\<close>: the generated deep copies (\<open>zz_generated.deepcopy.go\<close>) on an explicit memory of
    pointers, slices and maps. The locale \<open>deep_copier\<close> is the contract of a copy function,
    \<open>foreign_types\<close> what is asked of the copy functions of other packages.
  \<^item> \<open>Kube_Client\<close>, \<open>Kube_Helpers\<close>, \<open>Mem_Cluster\<close>: the API server as a parameter that may answer any
    request in any way, the client helpers \<open>CreateOrPatch\<close> and \<open>PatchStatus\<close>, the finalizer functions,
    the generation hash and \<open>UpsertVolume\<close> of the vendored libraries, and one concrete in-memory
    cluster on which hypotheses are discharged. The locale \<open>finalizer_set\<close> is the contract of the
    finalizer functions.
  \<^item> \<open>Go_Strings\<close>, \<open>Go_Json\<close>, \<open>Crypto\<close>: what the program uses of the Go library. JSON is parsed
    with fuel; the fuel is the length of the text plus one, and it is proved to be enough for every text the
    encoder writes. SHA-256, HMAC, AES-256-GCM and base64url are the full algorithms; their
    contracts are the locales \<open>aead\<close> and \<open>text_codec\<close>.
  \<^item> \<open>Leader\<close> (\<open>getLeader\<close> of \<open>sidekick_controller.go\<close>), \<open>Pod_Builder\<close> (\<open>pod_builder.go\<close>),
    \<open>Sidekick_Phase\<close> (the phase and back-off part of \<open>sidekick.go\<close> and \<open>pod.go\<close>),
    \<open>Sidekick_Controller\<close> (the local part of \<open>sidekick_controller.go\<close>, \<open>sidekick.go\<close>, \<open>pod.go\<close>).
    \<open>sort.Slice\<close> is the locale \<open>slice_sort\<close>, interpreted by the insertion sort it uses on short
    slices; the phase rule is stated once, in the locale \<open>phase_rule\<close>, for local and distributed Sidekicks.
  \<^item> \<open>Token\<close> (\<open>src/grpc/token/token.go\<close>), \<open>Grpc_Wiring\<close> (\<open>grpc_wiring.go\<close>, \<open>secret.go\<close>),
    \<open>Snapshot_Server\<close> (\<open>src/grpc/grpc.go\<close>, \<open>src/pkg/snapshotserver\<close>): tokens and grants, the keys and the
    environment of the archiver, and the server with its replay cache. The locale
    \<open>snapshot_invariant\<close> is the contract of what the handlers keep of a Snapshot.
  \<^item> \<open>Distributed\<close> (\<open>distributed.go\<close>) and \<open>Reconciler\<close> (\<open>Reconcile\<close>, \<open>SetupWithManager\<close>): the
    reconciliation of distributed Sidekicks, and the entry point with its watches.
  \<^item> \<open>Process\<close>: the running operator, a step relation that interleaves changes from outside, watches,
    reconciliations and the commands of archivers. The locale \<open>event_safety\<close> lifts a fact about the
    requests of every part to all reachable states.
  \<^item> \<open>Serving\<close>: the start of the server (\<open>RunGRPCServer\<close>) and the history of the commands it serves over
    the life of the process.
  \<^item> \<open>Proto_Wire\<close>, \<open>Command_Service\<close>, \<open>Proto_Desc\<close>: the wire format of protocol buffers (vendored \<open>protowire\<close> and
    \<open>internal/impl\<close>), the generated messages, client and handler (\<open>src/grpc/protogen\<close>) with what the gRPC library does
    between them, and the embedded descriptor, read as the library reads it. Skipping an unknown field takes fuel, twice the length
    of the input plus two, which is proved to be enough for every input.
  \<^item> \<open>Convergence\<close>: what the reconciliations of one Sidekick reach together. The locale \<open>api_store\<close>
    is the contract of an API server that stores what it is sent; the in-memory cluster is its
    interpretation.
  \<^item> \<open>Go_Path\<close>, \<open>Startup\<close>: paths of the Go library, the run command (\<open>src/pkg/cmds/run.go\<close>) and the
    embedded CustomResourceDefinition (\<open>src/crds/lib.go\<close>, \<open>crds.go\<close>).
  \<^item> \<open>Api_Scheme\<close>: the registry of API types and what \<open>init\<close> of the run command and the client set register
    in it. The locale \<open>kind_owner\<close> is what the registration of a group needs of a plan that says which type a kind belongs to.
  \<^item> \<open>Rest_Request\<close>, \<open>Client_Set\<close>: the generated client set (\<open>src/client/clientset/versioned\<close>) on the
    request builder of client-go, its fake, and the construction of both.

  \<^bold>\<open>State and effects.\<close> A function that talks to the API server, the clock or the random source is a
  state computation over a world: the state of everything outside, of an arbitrary type, and the
  trace of events. Mutation of the caller's object is a returned value. A run-time panic is the
  error \<open>Panic\<close>. The \<open>sync.Once\<close> of the reconciler and the replay cache are passed explicitly.

  \<^bold>\<open>What is shown.\<close> For the books: the phase refines an abstract rule, the back-off count is exact
  below 32 bits, and failing pods exhaust the limit. For pods: every pod created has the right name,
  node, owner, finalizer and marks; a missing pod is created, one that is up to date is left alone, a pod is
  never deleted without the mark that keeps the deletion from counting as a failure; a finished Sidekick is
  left alone; and on an API server that keeps its contract three reconciliations lead from any pod to the
  right one, which then stays. The same safety for ManifestWorks. For the process as a whole: the server is
  started once, no Snapshot is touched before, keys are never replaced, and of Snapshots only the
  status is written. For the gRPC channel: tokens and grants round-trip, nothing else opens, exactly which
  requests are authenticated, a request of the archiver is, also when it is sent over the wire, no request is
  served twice over the life of the process, no command touches a Snapshot but the granted one, and the log stays bounded and
  exact. A call through the generated client is the call of the server's method, up to exactly stated limits on what can be
  sent; messages are decoded to what was encoded; the embedded descriptor declares what the generated code uses.
  For the API: the OpenAPI definitions and the deep copies agree with the Go types, an encoded object
  conforms to its definition under exactly stated conditions, and a copy shares no memory with its original. For the client set: a call with a name reaches only the object of
  that name, and the fake is asked what the client asks; the registrations of all
  types do not conflict, and every registered type has one kind. Error paths that go wrong are shown as they are: a pod that is
  gone is created again, the end of a Sidekick is reported as an error, and a ServiceExport that
  could not be created is not tried again.

  \<^bold>\<open>Not modelled.\<close> The root command (\<open>src/cmd\<close>, \<open>root.go\<close>) and the parsing of flags, which are the command
  line library; the TCP listener and the connections under gRPC, which deliver what they are given or fail (HTTP/2 framing, compression,
  retries and deadlines of the gRPC library); the OpenAPI definitions of types that no Sidekick refers to; the sending of HTTP requests
  and the decoding of their answers, which are parameters of the client set; conversion and defaulting functions of the registry; the
  fuzzer functions of the tests. Outside \<open>Deep_Copy\<close>, deep copies are value copies, which
  its theorems justify; where the program shares a map between two objects on purpose or by accident (the annotations in
  \<open>newSidekickPod\<close>, the labels in \<open>ensurePodManifestWork\<close>), the model returns the changed
  original. Log output, metrics and timeouts have no counterpart. Reconciliations and commands are
  single steps of the process; what runs beside them shows in the answers of the API server, which
  are unconstrained.
\<close>

section \<open>Operator, archiver and server\<close>

text \<open>
  Property C5. The operator, the archiver and the server agree, over the wire. Let the reconciler have wired the
  archiver's container with the two keys of the Sidekick, and let the archiver send, for a
  Sidekick of this name, the grant found in its environment and a token minted with the signing
  key found there. As long as the Secret still holds these keys, the token has not
  expired and its nonce is new, the server authenticates the request, for exactly the Snapshot the
  container was told to report on; and the archiver's call is this authentication followed by the command on that
  Snapshot, answered with the server's answer, unless the request is one that cannot be sent, which then nothing
  is done for.
\<close>

theorem wired_archiver_is_served:
  assumes wired: "wireArchiver E signingKey snapshotKey sk = Inr sk'" "getSidekickContainer sk = Some cont"
      "getSidekickContainer sk' = Some cont'"
    and named: "getEnv cont envSnapshotName \<noteq> ''''"
    and grant: "ss2_SnapshotToken snap = getEnv cont' envGRPCSnapshotToken"
    and token: "run_state (Mint a (getEnv cont' envGRPCTokenSecret)
      (claimsFor snap (getEnv cont envSnapshotName) nonce expiry)) v = (Inr (ss2_Token snap), v')"
    and ascii: "asciiClaims (claimsFor snap (getEnv cont envSnapshotName) nonce expiry)"
    and secret: "fst (o_get (k_secrets c) (requestKey snap) (w_env w)) = Inr secret"
      "keysOf secret = (signingKey, snapshotKey)"
    and time: "fst (k_now c (snd (o_get (k_secrets c) (requestKey snap) (w_env w)))) < expiry"
      "0 < expiry" "expiry < 2 ^ 63"
    and fresh: "nonce \<noteq> ''''" "gm_wf seen" "gm_get seen nonce = None"
    and sent: "unmarshalSnapShot (cq_Data q) = Some snap"
  shows "\<exists>seen' w'. run_state (authenticate c snap seen) w =
      ((Inr (claimsFor snap (getEnv cont envSnapshotName) nonce expiry), seen'), w') \<and>
    run_state (commandServiceClient_ExecuteCommand SP c q seen) w =
      (case delivered maxRecvMsgBytes marshalRequest q of
         Inl e \<Rightarrow> ((Inl e, seen), w)
       | Inr _ \<Rightarrow> (case run_state (dispatch SP c q snap (claimsFor snap (getEnv cont envSnapshotName) nonce expiry)) w' of
           (resp, w'') \<Rightarrow> ((delivered defaultClientMaxReceiveMessageSize marshalResponse resp, seen'), w'')))"
proof -
  let ?cl = "claimsFor snap (getEnv cont envSnapshotName) nonce expiry"
  have env: "getEnv cont' envGRPCTokenSecret = signingKey"
    "EncryptString snapshotKey (getEnv cont envSnapshotName) = Inr (ss2_SnapshotToken snap)"
    using wired_container [OF wired(1,2)] wired(3) named grant by auto
  have "fst (fst (run_state (authenticate c snap seen) w)) = Inr ?cl"
    by (rule request_authenticates [OF secret env(2) token [unfolded env(1)] ascii named fresh(1) time(2,3,1) fresh(2,3)])
  then obtain seen' w' where auth: "run_state (authenticate c snap seen) w = ((Inr ?cl, seen'), w')"
    by (metis prod.collapse)
  obtain resp w'' where "run_state (dispatch SP c q snap ?cl) w' = (resp, w'')" by (metis surj_pair)
  moreover from this have "run_state (ExecuteCommand SP c q seen) w = ((resp, seen'), w'')"
    by (simp add: ExecuteCommand_def sent auth)
  note client_served [OF _ this]
  ultimately show ?thesis
    using auth client_refused by (cases "delivered maxRecvMsgBytes marshalRequest q") auto
qed

theorem wired_archiver_is_served_witness:
  "\<exists>snap q. ss2_SidekickName snap = ''sk'' \<and> ss2_NameSpace snap = ''demo'' \<and>
     q = \<lparr>cq_Command = CommandUpdateSnapshot, cq_Data = marshalSnapShot snap\<rparr> \<and>
     (\<exists>seen' w'. run_state (authenticate mem_kube snap newReplayCache) sample_world =
         ((Inr (claimsFor snap ''snap'' ''n'' 300), seen'), w') \<and>
       run_state (commandServiceClient_ExecuteCommand sample_server mem_kube q newReplayCache) sample_world =
         (case delivered maxRecvMsgBytes marshalRequest q of
            Inl e \<Rightarrow> ((Inl e, newReplayCache), sample_world)
          | Inr _ \<Rightarrow> (case run_state (dispatch sample_server mem_kube q snap (claimsFor snap ''snap'' ''n'' 300)) w' of
              (resp, w'') \<Rightarrow> ((delivered defaultClientMaxReceiveMessageSize marshalResponse resp, seen'), w''))))"
proof -
  obtain sk' where sk': "wireArchiver sample_osenv ''k1'' ''k2'' sample_archiver = Inr sk'"
    using sample_wires by blast
  obtain cont where cont: "getSidekickContainer sample_archiver = Some cont"
    by (simp add: sample_archiver_container)
  note name = sample_archiver_snapshot [OF cont]
  from wired_container [OF sk' cont] obtain cont' where cont': "getSidekickContainer sk' = Some cont'"
    and key: "getEnv cont' envGRPCTokenSecret = ''k1''"
    and enc: "EncryptString ''k2'' ''snap'' = Inr (getEnv cont' envGRPCSnapshotToken)" by (auto simp: name)
  let ?grant = "getEnv cont' envGRPCSnapshotToken"
  obtain tok w' where tok: "run_state (Mint mem_kube ''k1'' (claimsFor sample_request ''snap'' ''n'' 300)) sample_world = (Inr tok, w')"
    using sample_mint_request by blast
  let ?snap = "sampleSnap ?grant tok"
  let ?q = "\<lparr>cq_Command = CommandUpdateSnapshot, cq_Data = marshalSnapShot ?snap\<rparr>"
  have id: "ss2_SidekickName ?snap = ''sk''" "ss2_NameSpace ?snap = ''demo''"
    and toks: "ss2_Token ?snap = tok" "ss2_SnapshotToken ?snap = ?grant"
    by (simp_all add: sampleSnap_def sample_request_def)
  have clock: "fst (k_now mem_kube (w_env sample_world)) = 100"
    by (simp add: sample_world_def mem_defs)
  have wire: "unmarshalSnapShot (cq_Data ?q) = Some ?snap"
    using sampleSnap_roundtrip [OF EncryptString_ascii [OF enc] Mint_ascii [OF tok]] by simp
  let ?cl = "claimsFor ?snap (getEnv cont envSnapshotName) ''n'' 300"
  have "\<exists>seen' w'. run_state (authenticate mem_kube ?snap newReplayCache) sample_world = ((Inr ?cl, seen'), w') \<and>
    run_state (commandServiceClient_ExecuteCommand sample_server mem_kube ?q newReplayCache) sample_world =
      (case delivered maxRecvMsgBytes marshalRequest ?q of
         Inl e \<Rightarrow> ((Inl e, newReplayCache), sample_world)
       | Inr _ \<Rightarrow> (case run_state (dispatch sample_server mem_kube ?q ?snap ?cl) w' of
           (resp, w'') \<Rightarrow> ((delivered defaultClientMaxReceiveMessageSize marshalResponse resp, seen'), w'')))"
    by (rule wired_archiver_is_served [OF sk' cont cont', where a = mem_kube and v = sample_world and v' = w'
          and secret = sample_secret])
      (use wire tok toks name key clock sample_secret_get [OF id] sample_secret_keys sample_request_ascii in
        \<open>simp_all add: newReplayCache_def gm_wf_def claimsFor_sampleSnap\<close>)
  then show ?thesis
    unfolding name using id by (intro exI [of _ ?snap] exI [of _ ?q] conjI refl)
qed

end
